(* ===== verification/Prelude.thy ===== *)
theory Prelude
  imports Main "HOL-Library.Word"
begin

text \<open>
  What every theory of the development shares: the names of the machine integers of the C and
  Go sources, the collections of rewrite rules the proofs are carried by, alignment of
  addresses, Go's \<open>strings.Contains\<close> and decimal printing, and small facts on lists and maps.
\<close>

section \<open>Machine integers\<close>

type_synonym u8 = "8 word"
type_synonym u32 = "32 word"
type_synonym u64 = "64 word"

text \<open>Go's \<open>int64\<close> (\<open>time.Duration\<close>, milli-CPU quantities): two's complement, read with \<open>sint\<close>.\<close>

type_synonym i64 = "64 word"

named_theorems layout \<open>sizes, alignments and field offsets of the C types\<close>
named_theorems bpf_simps \<open>laws of the BPF map helpers and of the helpers of the BPF programs\<close>
named_theorems go_simps \<open>the Go operations of the collector and the operator\<close>

section \<open>Alignment\<close>

definition align_up :: "nat \<Rightarrow> nat \<Rightarrow> nat" where
  "align_up n a = (n + (a - 1)) div a * a"

lemma align_up_ge: "0 < a \<Longrightarrow> n \<le> align_up n a"
proof -
  assume a: "0 < a"
  have "n + (a - 1) = (n + (a - 1)) div a * a + (n + (a - 1)) mod a"
    by (simp add: div_mult_mod_eq)
  moreover have "(n + (a - 1)) mod a \<le> a - 1"
    using a by (metis Suc_pred' less_Suc_eq_le mod_less_divisor)
  ultimately show ?thesis
    unfolding align_up_def by linarith
qed

lemma align_up_dvd: "a dvd align_up n a"
  by (simp add: align_up_def)

lemma align_up_same:
  assumes "a dvd n" and "0 < a"
  shows "align_up n a = n"
proof -
  from assms(1) obtain k where n: "n = a * k" by (elim dvdE)
  have "(n + (a - 1)) div a = k + (a - 1) div a"
    using assms(2) unfolding n by (metis div_mult_self1 add.commute mult.commute less_numeral_extra(3))
  moreover have "(a - 1) div a = 0" using assms(2) by simp
  ultimately show ?thesis by (simp add: align_up_def n)
qed

text \<open>Alignment in the form that evaluates on numerals.\<close>

lemma align_up_eval: "align_up n a = (if n mod a = 0 then n else n + (a - n mod a))" if "0 < a"
proof (cases "n mod a = 0")
  case True
  then have "a dvd n" by (simp add: dvd_eq_mod_eq_0)
  with that True show ?thesis by (simp add: align_up_same)
next
  case False
  define q r where "q = n div a" and "r = n mod a"
  have n: "n = q * a + r" and r: "0 < r" "r < a"
    using False that by (simp_all add: q_def r_def)
  have "n + (a - 1) = (r - 1) + (q + 1) * a" using n r by simp
  then have "(n + (a - 1)) div a = q + 1"
    using r that by (metis div_mult_self3 div_less add.commute add_0 less_imp_diff_less
        less_numeral_extra(3))
  then show ?thesis using False n r by (simp add: align_up_def r_def [symmetric])
qed

section \<open>Differences and sums of 64-bit words\<close>

lemma delta_bound:
  fixes t0 ts now t1 :: u64
  assumes "t0 \<le> ts" "ts \<le> now" "now \<le> t1"
  shows "unat (now - ts) \<le> unat t1 - unat t0"
proof -
  have "unat (now - ts) = unat now - unat ts" using assms(2) by (rule unat_sub)
  then show ?thesis using assms by (simp add: word_le_nat_alt)
qed

text \<open>A sum of words does not wrap while the bound on it does not.\<close>

lemma unat_sum_list_le:
  fixes xs :: "u64 list"
  assumes "\<forall>x \<in> set xs. unat x \<le> d" and "length xs * d < 2 ^ 64"
  shows "unat (sum_list xs) = sum_list (map unat xs) \<and> sum_list (map unat xs) \<le> length xs * d"
  using assms
proof (induction xs)
  case (Cons x xs)
  then have ih: "unat (sum_list xs) = sum_list (map unat xs)" "sum_list (map unat xs) \<le> length xs * d"
    by auto
  have "unat x + sum_list (map unat xs) \<le> length (x # xs) * d"
    using Cons.prems(1) ih(2) by simp
  then have "unat x + unat (sum_list xs) < 2 ^ 64"
    using Cons.prems(2) ih(1) by linarith
  then have "unat (x + sum_list xs) = unat x + unat (sum_list xs)"
    by (simp add: unat_word_ariths)
  with ih \<open>unat x + _ \<le> _\<close> show ?case by simp
qed simp

section \<open>Sums over a list with one element replaced\<close>

lemma sum_list_update_group:
  fixes f :: "'a \<Rightarrow> 'b::ab_group_add"
  shows "i < length xs \<Longrightarrow>
    sum_list (map f (xs[i := x])) = sum_list (map f xs) + (f x - f (xs ! i))"
proof (induction xs arbitrary: i)
  case (Cons y ys)
  then show ?case by (cases i) (simp_all add: algebra_simps)
qed simp

lemma sum_list_update_less:
  fixes f :: "'a \<Rightarrow> nat"
  shows "i < length xs \<Longrightarrow> f x < f (xs ! i) \<Longrightarrow> sum_list (map f (xs[i := x])) < sum_list (map f xs)"
proof (induction xs arbitrary: i)
  case (Cons y ys)
  then show ?case by (cases i) simp_all
qed simp

section \<open>Go strings\<close>

text \<open>\<open>strings.Contains\<close>, on the bytes of the string.\<close>

fun contains :: "string \<Rightarrow> string \<Rightarrow> bool" where
  "contains [] sub = (sub = [])"
| "contains (c # cs) sub = (take (length sub) (c # cs) = sub \<or> contains cs sub)"

lemma contains_iff: "contains s sub \<longleftrightarrow> (\<exists>a b. s = a @ sub @ b)"
proof (induction s)
  case (Cons c cs)
  have "(\<exists>a b. c # cs = a @ sub @ b) \<longleftrightarrow> (\<exists>b. c # cs = sub @ b) \<or> (\<exists>a b. cs = a @ sub @ b)"
    by (auto simp: Cons_eq_append_conv)
  moreover have "take (length sub) (c # cs) = sub \<longleftrightarrow> (\<exists>b. c # cs = sub @ b)"
    by (metis append_eq_conv_conj append_take_drop_id)
  ultimately show ?case using Cons.IH by simp
qed simp

lemma contains_mono: "contains s sub \<Longrightarrow> sub = a @ part @ b \<Longrightarrow> contains s part"
  unfolding contains_iff by (metis append.assoc)

lemma contains_append: "contains s sub \<Longrightarrow> contains (a @ s @ b) sub"
  unfolding contains_iff by (metis append.assoc)

section \<open>Decimal numbers\<close>

text \<open>\<open>fmt\<close>'s \<open>%d\<close>, for numbers that are not negative.\<close>

definition digit :: "nat \<Rightarrow> char" where
  "digit n = ''0123456789'' ! n"

fun decimal :: "nat \<Rightarrow> string" where
  "decimal n = (if n < 10 then [digit n] else decimal (n div 10) @ [digit (n mod 10)])"

declare decimal.simps [simp del]

fun undecimal :: "string \<Rightarrow> nat \<Rightarrow> nat" where
  "undecimal [] acc = acc"
| "undecimal (c # cs) acc = undecimal cs (10 * acc + (of_char c - 48))"

lemma ten: "n < 10 \<Longrightarrow> n = 0 \<or> n = 1 \<or> n = 2 \<or> n = 3 \<or> n = 4 \<or> n = 5 \<or> n = 6 \<or> n = 7 \<or> n = 8 \<or> n = (9 :: nat)"
  by arith

lemma digit_value: "n < 10 \<Longrightarrow> of_char (digit n) - 48 = n"
  by (drule ten, elim disjE) (simp_all add: digit_def)

lemma digit_range: "n < 10 \<Longrightarrow> digit n \<in> set ''0123456789''"
  unfolding digit_def by (rule nth_mem) simp

lemma undecimal_append: "undecimal (a @ b) acc = undecimal b (undecimal a acc)"
  by (induction a acc rule: undecimal.induct) simp_all

lemma undecimal_decimal: "undecimal (decimal n) 0 = n"
proof (induction n rule: decimal.induct)
  case (1 n)
  show ?case
  proof (cases "n < 10")
    case True
    then show ?thesis by (simp add: decimal.simps [of n] digit_value)
  next
    case False
    with 1 show ?thesis by (simp add: decimal.simps [of n] undecimal_append digit_value)
  qed
qed

lemma decimal_inj: "decimal m = decimal n \<longleftrightarrow> m = n"
  by (metis undecimal_decimal)

lemma decimal_digits: "c \<in> set (decimal n) \<Longrightarrow> c \<in> set ''0123456789''"
proof (induction n rule: decimal.induct)
  case (1 n)
  show ?case
  proof (cases "n < 10")
    case True
    with 1 show ?thesis using digit_range [of n] by (simp add: decimal.simps [of n])
  next
    case False
    with 1 show ?thesis using digit_range [of "n mod 10"]
      by (simp add: decimal.simps [of n]) blast
  qed
qed

end
