(* ===== verification/CLayout.thy ===== *)
theory CLayout
  imports Prelude
begin

text \<open>
  The C types of \<open>ebpf/vmlinux.h\<close> and their layout on the x86-64 System V ABI, the target the
  programs are built for (\<open>-D__TARGET_ARCH_x86\<close>): natural alignment of scalars, structs laid out
  left to right with padding, bit-fields packed into units of their declared type, unions,
  arrays, packed structs and anonymous members. Positions are counted in bits, so that
  bit-fields and ordinary members are placed by one rule.
\<close>

section \<open>Types\<close>

datatype ctype =
    CPrim string nat \<comment> \<open>arithmetic type: name, size in bytes (its alignment as well)\<close>
  | CEnum string nat "(string \<times> int) list" \<comment> \<open>enumeration: name, size in bytes, constants\<close>
  | CPtr string \<comment> \<open>pointer: the type pointed to, as it is spelled\<close>
  | CArr ctype nat
  | CStruct string "cfield list"
  | CPacked string "cfield list" \<comment> \<open>\<open>__attribute__((packed))\<close>\<close>
  | CUnion string "cfield list"
and cfield =
    Fld string ctype \<comment> \<open>the empty name is an anonymous struct or union member\<close>
  | Bits string ctype nat \<comment> \<open>bit-field; the empty name is padding\<close>

abbreviation "c_bool \<equiv> CPrim ''_Bool'' 1"
abbreviation "c_char \<equiv> CPrim ''char'' 1"
abbreviation "c_schar \<equiv> CPrim ''signed char'' 1"
abbreviation "c_uchar \<equiv> CPrim ''unsigned char'' 1"
abbreviation "c_short \<equiv> CPrim ''short'' 2"
abbreviation "c_ushort \<equiv> CPrim ''unsigned short'' 2"
abbreviation "c_int \<equiv> CPrim ''int'' 4"
abbreviation "c_uint \<equiv> CPrim ''unsigned int'' 4"
abbreviation "c_long \<equiv> CPrim ''long'' 8"
abbreviation "c_ulong \<equiv> CPrim ''unsigned long'' 8"
abbreviation "c_llong \<equiv> CPrim ''long long'' 8"
abbreviation "c_ullong \<equiv> CPrim ''unsigned long long'' 8"
abbreviation "c_int128 \<equiv> CPrim ''__int128'' 16"
abbreviation "c_uint128 \<equiv> CPrim ''unsigned __int128'' 16"

section \<open>Alignment, size, placement\<close>

fun align_of :: "ctype \<Rightarrow> nat" and fields_align :: "cfield list \<Rightarrow> nat" where
  "align_of (CPrim _ n) = n"
| "align_of (CEnum _ n _) = n"
| "align_of (CPtr _) = 8"
| "align_of (CArr t _) = align_of t"
| "align_of (CStruct _ fs) = fields_align fs"
| "align_of (CPacked _ _) = 1"
| "align_of (CUnion _ fs) = fields_align fs"
| "fields_align [] = 1"
| "fields_align (Fld _ t # fs) = max (align_of t) (fields_align fs)"
| "fields_align (Bits n t _ # fs) =
     (if n = [] then fields_align fs else max (align_of t) (fields_align fs))"

text \<open>
  Where a bit-field of width \<open>w\<close> and declared size \<open>u\<close> bits starts, the cursor being at \<open>pos\<close>:
  width 0 closes the unit; a field that would cross a unit boundary starts the next unit.
\<close>

definition bits_start :: "nat \<Rightarrow> nat \<Rightarrow> nat \<Rightarrow> nat" where
  "bits_start pos u w =
     (if w = 0 then align_up pos u
      else if pos mod u + w \<le> u then pos else align_up pos u)"

definition bytes_of :: "nat \<Rightarrow> nat" where
  "bytes_of b = (b + 7) div 8"

fun size_of :: "ctype \<Rightarrow> nat"
  and lay :: "cfield list \<Rightarrow> nat \<Rightarrow> nat"
  and lay_packed :: "cfield list \<Rightarrow> nat \<Rightarrow> nat"
  and widest :: "cfield list \<Rightarrow> nat" where
  "size_of (CPrim _ n) = n"
| "size_of (CEnum _ n _) = n"
| "size_of (CPtr _) = 8"
| "size_of (CArr t n) = n * size_of t"
| "size_of (CStruct _ fs) = align_up (bytes_of (lay fs 0)) (fields_align fs)"
| "size_of (CPacked _ fs) = bytes_of (lay_packed fs 0)"
| "size_of (CUnion _ fs) = align_up (widest fs) (fields_align fs)"
| "lay [] pos = pos"
| "lay (Fld _ t # fs) pos = lay fs (align_up pos (8 * align_of t) + 8 * size_of t)"
| "lay (Bits _ t w # fs) pos = lay fs (bits_start pos (8 * size_of t) w + w)"
| "lay_packed [] pos = pos"
| "lay_packed (Fld _ t # fs) pos = lay_packed fs (align_up pos 8 + 8 * size_of t)"
| "lay_packed (Bits _ t w # fs) pos = lay_packed fs (pos + w)"
| "widest [] = 0"
| "widest (Fld _ t # fs) = max (size_of t) (widest fs)"
| "widest (Bits _ t w # fs) = max (bytes_of w) (widest fs)"

text \<open>One member: its first bit with the cursor at \<open>pos\<close>, its width, and the cursor after it.\<close>

fun field_start :: "nat \<Rightarrow> cfield \<Rightarrow> nat" where
  "field_start pos (Fld _ t) = align_up pos (8 * align_of t)"
| "field_start pos (Bits _ t w) = bits_start pos (8 * size_of t) w"

fun field_width :: "cfield \<Rightarrow> nat" where
  "field_width (Fld _ t) = 8 * size_of t"
| "field_width (Bits _ _ w) = w"

fun field_name :: "cfield \<Rightarrow> string" where
  "field_name (Fld n _) = n"
| "field_name (Bits n _ _) = n"

fun field_type :: "cfield \<Rightarrow> ctype" where
  "field_type (Fld _ t) = t"
| "field_type (Bits _ t _) = t"

lemma lay_Cons: "lay (f # fs) pos = lay fs (field_start pos f + field_width f)"
  by (cases f) simp_all

lemma lay_append: "lay (fs @ gs) pos = lay gs (lay fs pos)"
  by (induction fs arbitrary: pos) (simp_all add: lay_Cons)

lemma fields_align_pos: "0 < fields_align fs"
proof (induction fs)
  case (Cons f fs)
  then show ?case by (cases f) auto
qed simp

lemma fields_align_append: "fields_align (fs @ gs) = max (fields_align fs) (fields_align gs)"
proof (induction fs)
  case Nil
  show ?case using fields_align_pos [of gs] by simp
next
  case (Cons f fs)
  then show ?case by (cases f) (simp_all add: max.assoc)
qed

text \<open>The rules that compute a layout.\<close>

lemmas c_layout = align_up_eval bits_start_def bytes_of_def max_def

text \<open>The members of a struct with their first bit and width, left to right.\<close>

fun placed :: "cfield list \<Rightarrow> nat \<Rightarrow> (cfield \<times> nat \<times> nat) list" where
  "placed [] pos = []"
| "placed (f # fs) pos =
     (f, field_start pos f, field_width f) # placed fs (field_start pos f + field_width f)"

section \<open>Well-formed types are laid out soundly\<close>

text \<open>Scalars have a size, and a bit-field fits its declared type.\<close>

fun wf_type :: "ctype \<Rightarrow> bool" and wf_fields :: "cfield list \<Rightarrow> bool" where
  "wf_type (CPrim _ n) = (0 < n)"
| "wf_type (CEnum _ n _) = (0 < n)"
| "wf_type (CPtr _) = True"
| "wf_type (CArr t _) = wf_type t"
| "wf_type (CStruct _ fs) = wf_fields fs"
| "wf_type (CPacked _ fs) = wf_fields fs"
| "wf_type (CUnion _ fs) = wf_fields fs"
| "wf_fields [] = True"
| "wf_fields (Fld _ t # fs) = (wf_type t \<and> wf_fields fs)"
| "wf_fields (Bits _ t w # fs) = (wf_type t \<and> 0 < size_of t \<and> w \<le> 8 * size_of t \<and> wf_fields fs)"

lemma wf_fields_append: "wf_fields (fs @ gs) \<longleftrightarrow> wf_fields fs \<and> wf_fields gs"
proof (induction fs)
  case (Cons f fs)
  then show ?case by (cases f) auto
qed simp

lemma align_of_pos: "wf_type t \<Longrightarrow> 0 < align_of t"
  by (induction t rule: wf_type_wf_fields.induct(1) [where Q = "\<lambda>_. True"])
    (auto simp: fields_align_pos)

lemma bits_start_ge: "0 < u \<Longrightarrow> pos \<le> bits_start pos u w"
  by (simp add: bits_start_def align_up_ge)

lemma field_start_ge: "wf_fields (f # fs) \<Longrightarrow> pos \<le> field_start pos f"
  by (cases f) (auto simp: align_up_ge bits_start_ge align_of_pos)

lemma lay_ge: "wf_fields fs \<Longrightarrow> pos \<le> lay fs pos"
proof (induction fs arbitrary: pos)
  case (Cons f fs)
  from Cons.prems have "wf_fields fs" by (cases f) auto
  then have "field_start pos f + field_width f \<le> lay (f # fs) pos"
    using Cons.IH by (simp add: lay_Cons)
  with field_start_ge [OF Cons.prems, of pos] show ?case by linarith
qed simp

text \<open>Every member lies between the cursor before the list and the cursor after it.\<close>

lemma placed_within:
  "wf_fields fs \<Longrightarrow> (f, s, w) \<in> set (placed fs pos) \<Longrightarrow> pos \<le> s \<and> s + w \<le> lay fs pos"
proof (induction fs arbitrary: pos)
  case (Cons g gs)
  let ?e = "field_start pos g + field_width g"
  from Cons.prems(1) have wf: "wf_fields gs" by (cases g) auto
  have ge: "pos \<le> field_start pos g" by (rule field_start_ge [OF Cons.prems(1)])
  have le: "?e \<le> lay gs ?e" by (rule lay_ge [OF wf])
  from Cons.prems(2) consider "(f, s, w) = (g, field_start pos g, field_width g)"
    | "(f, s, w) \<in> set (placed gs ?e)" by auto
  then show ?case
  proof cases
    case 1
    with ge le show ?thesis by (simp add: lay_Cons)
  next
    case 2
    from Cons.IH [OF wf 2] ge show ?thesis by (simp add: lay_Cons)
  qed
qed simp

lemma placed_disjoint:
  "wf_fields fs \<Longrightarrow> sorted_wrt (\<lambda>(_, s, w) (_, s', _). s + w \<le> s') (placed fs pos)"
proof (induction fs arbitrary: pos)
  case (Cons g gs)
  from Cons.prems have wf: "wf_fields gs" by (cases g) auto
  from Cons.IH [OF wf] show ?case
    by (auto dest: placed_within [OF wf])
qed simp

lemma placed_aligned:
  "(Fld n t, s, w) \<in> set (placed fs pos) \<Longrightarrow> 8 * align_of t dvd s \<and> w = 8 * size_of t"
  by (induction fs arbitrary: pos) (auto simp: align_up_dvd)

lemma bits_start_unit:
  assumes "w \<le> u" and "0 < w"
  shows "bits_start pos u w mod u + w \<le> u"
  using assms align_up_dvd [of u pos] by (auto simp: bits_start_def dvd_eq_mod_eq_0)

lemma placed_bits_unit:
  "wf_fields fs \<Longrightarrow> (Bits n t v, s, w) \<in> set (placed fs pos) \<Longrightarrow> 0 < w \<Longrightarrow>
   s mod (8 * size_of t) + w \<le> 8 * size_of t"
proof (induction fs arbitrary: pos)
  case (Cons g gs)
  then show ?case by (cases g) (auto intro: bits_start_unit)
qed simp

section \<open>Finding a member by name\<close>

text \<open>
  A member is searched left to right; an anonymous struct or union member is searched for the
  name in its place, as C resolves \<open>p->name\<close> through anonymous members. The result is the first
  bit and the type.
\<close>

fun find_field :: "cfield list \<Rightarrow> nat \<Rightarrow> string \<Rightarrow> (nat \<times> ctype) option"
  and find_union :: "cfield list \<Rightarrow> string \<Rightarrow> (nat \<times> ctype) option"
  and find_anon :: "ctype \<Rightarrow> string \<Rightarrow> (nat \<times> ctype) option" where
  "find_field [] pos x = None"
| "find_field (Fld n t # fs) pos x =
     (if n = x then Some (align_up pos (8 * align_of t), t)
      else if n = [] then
        (case find_anon t x of
           Some (b, u) \<Rightarrow> Some (align_up pos (8 * align_of t) + b, u)
         | None \<Rightarrow> find_field fs (align_up pos (8 * align_of t) + 8 * size_of t) x)
      else find_field fs (align_up pos (8 * align_of t) + 8 * size_of t) x)"
| "find_field (Bits n t w # fs) pos x =
     (if n = x then Some (bits_start pos (8 * size_of t) w, t)
      else find_field fs (bits_start pos (8 * size_of t) w + w) x)"
| "find_union [] x = None"
| "find_union (Fld n t # fs) x =
     (if n = x then Some (0, t)
      else if n = [] then
        (case find_anon t x of Some r \<Rightarrow> Some r | None \<Rightarrow> find_union fs x)
      else find_union fs x)"
| "find_union (Bits n t w # fs) x = (if n = x then Some (0, t) else find_union fs x)"
| "find_anon (CStruct _ fs) x = find_field fs 0 x"
| "find_anon (CUnion _ fs) x = find_union fs x"
| "find_anon _ x = None"

definition member :: "ctype \<Rightarrow> string \<Rightarrow> (nat \<times> ctype) option" where
  "member t x = (if x = [] then None else find_anon t x)"

text \<open>A struct is as long as its last member, rounded up to its alignment.\<close>

lemma struct_size_ge: "8 * size_of (CStruct n fs) \<ge> lay fs 0"
proof -
  have "bytes_of (lay fs 0) \<le> size_of (CStruct n fs)"
    using align_up_ge [OF fields_align_pos] by simp
  moreover have "lay fs 0 \<le> 8 * bytes_of (lay fs 0)"
    by (simp add: bytes_of_def)
  ultimately show ?thesis by linarith
qed

text \<open>A member starts inside its struct or union, an anonymous one on the way included.\<close>

lemma found_within:
  "find_field fs pos x = Some r \<Longrightarrow> wf_fields fs \<Longrightarrow> fst r \<le> lay fs pos"
  "find_union gs x = Some r \<Longrightarrow> wf_fields gs \<Longrightarrow> fst r \<le> 8 * widest gs"
  "find_anon t x = Some r \<Longrightarrow> wf_type t \<Longrightarrow> fst r \<le> 8 * size_of t"
proof (induction fs pos x and gs x and t x arbitrary: r and r and r rule: find_field_find_union_find_anon.induct)
  case (2 n t fs pos x)
  let ?s = "align_up pos (8 * align_of t)"
  have "?s + 8 * size_of t \<le> lay fs (?s + 8 * size_of t)" using 2 by (intro lay_ge) simp
  with 2 show ?case by (auto split: if_splits option.splits)
next
  case (3 n t w fs pos x)
  let ?s = "bits_start pos (8 * size_of t) w"
  have "?s + w \<le> lay fs (?s + w)" using 3 by (intro lay_ge) simp
  with 3 show ?case by (auto split: if_splits)
next
  case (5 n t fs x)
  then show ?case by (auto simp: nat_mult_max_right le_max_iff_disj split: if_splits option.splits)
next
  case (6 n t w fs x)
  then show ?case by (auto simp: nat_mult_max_right le_max_iff_disj split: if_splits)
next
  case (7 n fs x)
  then have "fst r \<le> lay fs 0" by simp
  with struct_size_ge [of fs n] show ?case by linarith
next
  case (8 n fs x)
  then have "fst r \<le> 8 * widest fs" by simp
  moreover have "widest fs \<le> size_of (CUnion n fs)" using align_up_ge [OF fields_align_pos] by simp
  ultimately show ?case by linarith
qed simp_all

lemma member_within: "member t x = Some (b, u) \<Longrightarrow> wf_type t \<Longrightarrow> b \<le> 8 * size_of t"
  using found_within(3) [of t x "(b, u)"] by (simp add: member_def split: if_splits)

text \<open>\<open>offsetof\<close> and the type of a member, in bytes, for a member that is no bit-field.\<close>

definition offset_of :: "ctype \<Rightarrow> string \<Rightarrow> nat option" where
  "offset_of t x = map_option (\<lambda>(b, _). b div 8) (member t x)"

definition type_of_member :: "ctype \<Rightarrow> string \<Rightarrow> ctype option" where
  "type_of_member t x = map_option snd (member t x)"

end
