(* ===== verification/KTask.thy ===== *)
theory KTask
  imports CLayout
begin

text \<open>
  Kernel types of \<open>ebpf/vmlinux.h\<close>, in dependency order: the types \<open>struct task_struct\<close> embeds, and \<open>struct task_struct\<close> itself: the argument of the scheduler tracepoints.
  A definition keeps every member of its C declaration, in order; each is followed by its size
  and alignment. \<open>s_\<close>, \<open>u_\<close>, \<open>e_\<close> and \<open>t_\<close> stand for struct, union, enum and typedef.
\<close>

definition t___u32 :: ctype where
  "t___u32 = c_uint"

lemma t___u32_sa [simp]: "size_of t___u32 = 4" "align_of t___u32 = 4" "wf_type t___u32"
  by (simp_all add: t___u32_def c_layout del: One_nat_def)

definition t_u32 :: ctype where
  "t_u32 = t___u32"

lemma t_u32_sa [simp]: "size_of t_u32 = 4" "align_of t_u32 = 4" "wf_type t_u32"
  by (simp_all add: t_u32_def c_layout del: One_nat_def)

definition s_thread_info :: ctype where
  "s_thread_info = CStruct ''thread_info'' [Fld ''flags'' c_ulong,
      Fld ''syscall_work'' c_ulong,
      Fld ''status'' t_u32,
      Fld ''cpu'' t_u32]"

lemma s_thread_info_sa [simp]: "size_of s_thread_info = 24" "align_of s_thread_info = 8" "wf_type s_thread_info"
  by (simp_all add: s_thread_info_def c_layout del: One_nat_def)

definition t_atomic_t :: ctype where
  "t_atomic_t = CStruct '''' [Fld ''counter'' c_int]"

lemma t_atomic_t_sa [simp]: "size_of t_atomic_t = 4" "align_of t_atomic_t = 4" "wf_type t_atomic_t"
  by (simp_all add: t_atomic_t_def c_layout del: One_nat_def)

definition s_refcount_struct :: ctype where
  "s_refcount_struct = CStruct ''refcount_struct'' [Fld ''refs'' t_atomic_t]"

lemma s_refcount_struct_sa [simp]: "size_of s_refcount_struct = 4" "align_of s_refcount_struct = 4" "wf_type s_refcount_struct"
  by (simp_all add: s_refcount_struct_def c_layout del: One_nat_def)

definition t_refcount_t :: ctype where
  "t_refcount_t = s_refcount_struct"

lemma t_refcount_t_sa [simp]: "size_of t_refcount_t = 4" "align_of t_refcount_t = 4" "wf_type t_refcount_t"
  by (simp_all add: t_refcount_t_def c_layout del: One_nat_def)

definition s_llist_node :: ctype where
  "s_llist_node = CStruct ''llist_node'' [Fld ''next'' (CPtr ''struct llist_node'')]"

lemma s_llist_node_sa [simp]: "size_of s_llist_node = 8" "align_of s_llist_node = 8" "wf_type s_llist_node"
  by (simp_all add: s_llist_node_def c_layout del: One_nat_def)

definition t___u16 :: ctype where
  "t___u16 = c_ushort"

lemma t___u16_sa [simp]: "size_of t___u16 = 2" "align_of t___u16 = 2" "wf_type t___u16"
  by (simp_all add: t___u16_def c_layout del: One_nat_def)

definition t_u16 :: ctype where
  "t_u16 = t___u16"

lemma t_u16_sa [simp]: "size_of t_u16 = 2" "align_of t_u16 = 2" "wf_type t_u16"
  by (simp_all add: t_u16_def c_layout del: One_nat_def)

definition s___call_single_node :: ctype where
  "s___call_single_node = CStruct ''__call_single_node'' [Fld ''llist'' s_llist_node,
      Fld '''' (CUnion '''' [Fld ''u_flags'' c_uint,
        Fld ''a_flags'' t_atomic_t]),
      Fld ''src'' t_u16,
      Fld ''dst'' t_u16]"

lemma s___call_single_node_sa [simp]: "size_of s___call_single_node = 16" "align_of s___call_single_node = 8" "wf_type s___call_single_node"
  by (simp_all add: s___call_single_node_def c_layout del: One_nat_def)

definition s_load_weight :: ctype where
  "s_load_weight = CStruct ''load_weight'' [Fld ''weight'' c_ulong,
      Fld ''inv_weight'' t_u32]"

lemma s_load_weight_sa [simp]: "size_of s_load_weight = 16" "align_of s_load_weight = 8" "wf_type s_load_weight"
  by (simp_all add: s_load_weight_def c_layout del: One_nat_def)

definition s_rb_node :: ctype where
  "s_rb_node = CStruct ''rb_node'' [Fld ''__rb_parent_color'' c_ulong,
      Fld ''rb_right'' (CPtr ''struct rb_node''),
      Fld ''rb_left'' (CPtr ''struct rb_node'')]"

lemma s_rb_node_sa [simp]: "size_of s_rb_node = 24" "align_of s_rb_node = 8" "wf_type s_rb_node"
  by (simp_all add: s_rb_node_def c_layout del: One_nat_def)

definition t___u64 :: ctype where
  "t___u64 = c_ullong"

lemma t___u64_sa [simp]: "size_of t___u64 = 8" "align_of t___u64 = 8" "wf_type t___u64"
  by (simp_all add: t___u64_def c_layout del: One_nat_def)

definition t_u64 :: ctype where
  "t_u64 = t___u64"

lemma t_u64_sa [simp]: "size_of t_u64 = 8" "align_of t_u64 = 8" "wf_type t_u64"
  by (simp_all add: t_u64_def c_layout del: One_nat_def)

definition s_list_head :: ctype where
  "s_list_head = CStruct ''list_head'' [Fld ''next'' (CPtr ''struct list_head''),
      Fld ''prev'' (CPtr ''struct list_head'')]"

lemma s_list_head_sa [simp]: "size_of s_list_head = 16" "align_of s_list_head = 8" "wf_type s_list_head"
  by (simp_all add: s_list_head_def c_layout del: One_nat_def)

definition t___s64 :: ctype where
  "t___s64 = c_llong"

lemma t___s64_sa [simp]: "size_of t___s64 = 8" "align_of t___s64 = 8" "wf_type t___s64"
  by (simp_all add: t___s64_def c_layout del: One_nat_def)

definition t_s64 :: ctype where
  "t_s64 = t___s64"

lemma t_s64_sa [simp]: "size_of t_s64 = 8" "align_of t_s64 = 8" "wf_type t_s64"
  by (simp_all add: t_s64_def c_layout del: One_nat_def)

definition s_sched_avg :: ctype where
  "s_sched_avg = CStruct ''sched_avg'' [Fld ''last_update_time'' t_u64,
      Fld ''load_sum'' t_u64,
      Fld ''runnable_sum'' t_u64,
      Fld ''util_sum'' t_u32,
      Fld ''period_contrib'' t_u32,
      Fld ''load_avg'' c_ulong,
      Fld ''runnable_avg'' c_ulong,
      Fld ''util_avg'' c_ulong,
      Fld ''util_est'' c_uint]"

lemma s_sched_avg_sa [simp]: "size_of s_sched_avg = 64" "align_of s_sched_avg = 8" "wf_type s_sched_avg"
  by (simp_all add: s_sched_avg_def c_layout del: One_nat_def)

definition s_sched_entity :: ctype where
  "s_sched_entity = CStruct ''sched_entity'' [Fld ''load'' s_load_weight,
      Fld ''run_node'' s_rb_node,
      Fld ''deadline'' t_u64,
      Fld ''min_vruntime'' t_u64,
      Fld ''min_slice'' t_u64,
      Fld ''group_node'' s_list_head,
      Fld ''on_rq'' c_uchar,
      Fld ''sched_delayed'' c_uchar,
      Fld ''rel_deadline'' c_uchar,
      Fld ''custom_slice'' c_uchar,
      Fld ''exec_start'' t_u64,
      Fld ''sum_exec_runtime'' t_u64,
      Fld ''prev_sum_exec_runtime'' t_u64,
      Fld ''vruntime'' t_u64,
      Fld ''vlag'' t_s64,
      Fld ''slice'' t_u64,
      Fld ''nr_migrations'' t_u64,
      Fld ''depth'' c_int,
      Fld ''parent'' (CPtr ''struct sched_entity''),
      Fld ''cfs_rq'' (CPtr ''struct cfs_rq''),
      Fld ''my_q'' (CPtr ''struct cfs_rq''),
      Fld ''runnable_weight'' c_ulong,
      Bits '''' c_long 64,
      Fld ''avg'' s_sched_avg]"

lemma s_sched_entity_sa [simp]: "size_of s_sched_entity = 256" "align_of s_sched_entity = 8" "wf_type s_sched_entity"
  by (simp_all add: s_sched_entity_def c_layout del: One_nat_def)

definition s_sched_rt_entity :: ctype where
  "s_sched_rt_entity = CStruct ''sched_rt_entity'' [Fld ''run_list'' s_list_head,
      Fld ''timeout'' c_ulong,
      Fld ''watchdog_stamp'' c_ulong,
      Fld ''time_slice'' c_uint,
      Fld ''on_rq'' c_ushort,
      Fld ''on_list'' c_ushort,
      Fld ''back'' (CPtr ''struct sched_rt_entity'')]"

lemma s_sched_rt_entity_sa [simp]: "size_of s_sched_rt_entity = 48" "align_of s_sched_rt_entity = 8" "wf_type s_sched_rt_entity"
  by (simp_all add: s_sched_rt_entity_def c_layout del: One_nat_def)

definition t_ktime_t :: ctype where
  "t_ktime_t = t_s64"

lemma t_ktime_t_sa [simp]: "size_of t_ktime_t = 8" "align_of t_ktime_t = 8" "wf_type t_ktime_t"
  by (simp_all add: t_ktime_t_def c_layout del: One_nat_def)

definition s_timerqueue_node :: ctype where
  "s_timerqueue_node = CStruct ''timerqueue_node'' [Fld ''node'' s_rb_node,
      Fld ''expires'' t_ktime_t]"

lemma s_timerqueue_node_sa [simp]: "size_of s_timerqueue_node = 32" "align_of s_timerqueue_node = 8" "wf_type s_timerqueue_node"
  by (simp_all add: s_timerqueue_node_def c_layout del: One_nat_def)

definition t___u8 :: ctype where
  "t___u8 = c_uchar"

lemma t___u8_sa [simp]: "size_of t___u8 = 1" "align_of t___u8 = 1" "wf_type t___u8"
  by (simp_all add: t___u8_def c_layout del: One_nat_def)

definition t_u8 :: ctype where
  "t_u8 = t___u8"

lemma t_u8_sa [simp]: "size_of t_u8 = 1" "align_of t_u8 = 1" "wf_type t_u8"
  by (simp_all add: t_u8_def c_layout del: One_nat_def)

definition s_hrtimer :: ctype where
  "s_hrtimer = CStruct ''hrtimer'' [Fld ''node'' s_timerqueue_node,
      Fld ''_softexpires'' t_ktime_t,
      Fld ''function'' (CPtr ''fn: enum hrtimer_restart''),
      Fld ''base'' (CPtr ''struct hrtimer_clock_base''),
      Fld ''state'' t_u8,
      Fld ''is_rel'' t_u8,
      Fld ''is_soft'' t_u8,
      Fld ''is_hard'' t_u8]"

lemma s_hrtimer_sa [simp]: "size_of s_hrtimer = 64" "align_of s_hrtimer = 8" "wf_type s_hrtimer"
  by (simp_all add: s_hrtimer_def c_layout del: One_nat_def)

definition t_dl_server_has_tasks_f :: ctype where
  "t_dl_server_has_tasks_f = CPtr ''fn: bool''"

lemma t_dl_server_has_tasks_f_sa [simp]: "size_of t_dl_server_has_tasks_f = 8" "align_of t_dl_server_has_tasks_f = 8" "wf_type t_dl_server_has_tasks_f"
  by (simp_all add: t_dl_server_has_tasks_f_def c_layout del: One_nat_def)

definition t_dl_server_pick_f :: ctype where
  "t_dl_server_pick_f = CPtr ''fn: struct task_struct ptr''"

lemma t_dl_server_pick_f_sa [simp]: "size_of t_dl_server_pick_f = 8" "align_of t_dl_server_pick_f = 8" "wf_type t_dl_server_pick_f"
  by (simp_all add: t_dl_server_pick_f_def c_layout del: One_nat_def)

definition s_sched_dl_entity :: ctype where
  "s_sched_dl_entity = CStruct ''sched_dl_entity'' [Fld ''rb_node'' s_rb_node,
      Fld ''dl_runtime'' t_u64,
      Fld ''dl_deadline'' t_u64,
      Fld ''dl_period'' t_u64,
      Fld ''dl_bw'' t_u64,
      Fld ''dl_density'' t_u64,
      Fld ''runtime'' t_s64,
      Fld ''deadline'' t_u64,
      Fld ''flags'' c_uint,
      Bits ''dl_throttled'' c_uint 1,
      Bits ''dl_yielded'' c_uint 1,
      Bits ''dl_non_contending'' c_uint 1,
      Bits ''dl_overrun'' c_uint 1,
      Bits ''dl_server'' c_uint 1,
      Bits ''dl_server_active'' c_uint 1,
      Bits ''dl_defer'' c_uint 1,
      Bits ''dl_defer_armed'' c_uint 1,
      Bits ''dl_defer_running'' c_uint 1,
      Fld ''dl_timer'' s_hrtimer,
      Fld ''inactive_timer'' s_hrtimer,
      Fld ''rq'' (CPtr ''struct rq''),
      Fld ''server_has_tasks'' t_dl_server_has_tasks_f,
      Fld ''server_pick_task'' t_dl_server_pick_f,
      Fld ''pi_se'' (CPtr ''struct sched_dl_entity'')]"

lemma s_sched_dl_entity_sa [simp]: "size_of s_sched_dl_entity = 248" "align_of s_sched_dl_entity = 8" "wf_type s_sched_dl_entity"
  by (simp_all add: s_sched_dl_entity_def c_layout del: One_nat_def)

definition s_sched_statistics :: ctype where
  "s_sched_statistics = CStruct ''sched_statistics'' [Fld ''wait_start'' t_u64,
      Fld ''wait_max'' t_u64,
      Fld ''wait_count'' t_u64,
      Fld ''wait_sum'' t_u64,
      Fld ''iowait_count'' t_u64,
      Fld ''iowait_sum'' t_u64,
      Fld ''sleep_start'' t_u64,
      Fld ''sleep_max'' t_u64,
      Fld ''sum_sleep_runtime'' t_s64,
      Fld ''block_start'' t_u64,
      Fld ''block_max'' t_u64,
      Fld ''sum_block_runtime'' t_s64,
      Fld ''exec_max'' t_s64,
      Fld ''slice_max'' t_u64,
      Fld ''nr_migrations_cold'' t_u64,
      Fld ''nr_failed_migrations_affine'' t_u64,
      Fld ''nr_failed_migrations_running'' t_u64,
      Fld ''nr_failed_migrations_hot'' t_u64,
      Fld ''nr_forced_migrations'' t_u64,
      Fld ''nr_wakeups'' t_u64,
      Fld ''nr_wakeups_sync'' t_u64,
      Fld ''nr_wakeups_migrate'' t_u64,
      Fld ''nr_wakeups_local'' t_u64,
      Fld ''nr_wakeups_remote'' t_u64,
      Fld ''nr_wakeups_affine'' t_u64,
      Fld ''nr_wakeups_affine_attempts'' t_u64,
      Fld ''nr_wakeups_passive'' t_u64,
      Fld ''nr_wakeups_idle'' t_u64,
      Bits '''' c_long 64,
      Bits '''' c_long 64,
      Bits '''' c_long 64,
      Bits '''' c_long 64]"

lemma s_sched_statistics_sa [simp]: "size_of s_sched_statistics = 256" "align_of s_sched_statistics = 8" "wf_type s_sched_statistics"
  by (simp_all add: s_sched_statistics_def c_layout del: One_nat_def)

definition s_hlist_head :: ctype where
  "s_hlist_head = CStruct ''hlist_head'' [Fld ''first'' (CPtr ''struct hlist_node'')]"

lemma s_hlist_head_sa [simp]: "size_of s_hlist_head = 8" "align_of s_hlist_head = 8" "wf_type s_hlist_head"
  by (simp_all add: s_hlist_head_def c_layout del: One_nat_def)

definition s_cpumask :: ctype where
  "s_cpumask = CStruct ''cpumask'' [Fld ''bits'' (CArr c_ulong 128)]"

lemma s_cpumask_sa [simp]: "size_of s_cpumask = 1024" "align_of s_cpumask = 8" "wf_type s_cpumask"
  by (simp_all add: s_cpumask_def c_layout del: One_nat_def)

definition t_cpumask_t :: ctype where
  "t_cpumask_t = s_cpumask"

lemma t_cpumask_t_sa [simp]: "size_of t_cpumask_t = 1024" "align_of t_cpumask_t = 8" "wf_type t_cpumask_t"
  by (simp_all add: t_cpumask_t_def c_layout del: One_nat_def)

definition u_rcu_special :: ctype where
  "u_rcu_special = CUnion ''rcu_special'' [Fld ''b'' (CStruct '''' [Fld ''blocked'' t_u8,
        Fld ''need_qs'' t_u8,
        Fld ''exp_hint'' t_u8,
        Fld ''need_mb'' t_u8]),
      Fld ''s'' t_u32]"

lemma u_rcu_special_sa [simp]: "size_of u_rcu_special = 4" "align_of u_rcu_special = 4" "wf_type u_rcu_special"
  by (simp_all add: u_rcu_special_def c_layout del: One_nat_def)

definition s_sched_info :: ctype where
  "s_sched_info = CStruct ''sched_info'' [Fld ''pcount'' c_ulong,
      Fld ''run_delay'' c_ullong,
      Fld ''last_arrival'' c_ullong,
      Fld ''last_queued'' c_ullong]"

lemma s_sched_info_sa [simp]: "size_of s_sched_info = 32" "align_of s_sched_info = 8" "wf_type s_sched_info"
  by (simp_all add: s_sched_info_def c_layout del: One_nat_def)

definition s_plist_node :: ctype where
  "s_plist_node = CStruct ''plist_node'' [Fld ''prio'' c_int,
      Fld ''prio_list'' s_list_head,
      Fld ''node_list'' s_list_head]"

lemma s_plist_node_sa [simp]: "size_of s_plist_node = 40" "align_of s_plist_node = 8" "wf_type s_plist_node"
  by (simp_all add: s_plist_node_def c_layout del: One_nat_def)

definition t___kernel_clockid_t :: ctype where
  "t___kernel_clockid_t = c_int"

lemma t___kernel_clockid_t_sa [simp]: "size_of t___kernel_clockid_t = 4" "align_of t___kernel_clockid_t = 4" "wf_type t___kernel_clockid_t"
  by (simp_all add: t___kernel_clockid_t_def c_layout del: One_nat_def)

definition t_clockid_t :: ctype where
  "t_clockid_t = t___kernel_clockid_t"

lemma t_clockid_t_sa [simp]: "size_of t_clockid_t = 4" "align_of t_clockid_t = 4" "wf_type t_clockid_t"
  by (simp_all add: t_clockid_t_def c_layout del: One_nat_def)

definition e_timespec_type :: ctype where
  "e_timespec_type = CEnum ''timespec_type'' 4 [(''TT_NONE'', 0),
      (''TT_NATIVE'', 1),
      (''TT_COMPAT'', 2)]"

lemma e_timespec_type_sa [simp]: "size_of e_timespec_type = 4" "align_of e_timespec_type = 4" "wf_type e_timespec_type"
  by (simp_all add: e_timespec_type_def c_layout del: One_nat_def)

definition s_restart_block :: ctype where
  "s_restart_block = CStruct ''restart_block'' [Fld ''arch_data'' c_ulong,
      Fld ''fn'' (CPtr ''fn: long int''),
      Fld '''' (CUnion '''' [Fld ''futex'' (CStruct '''' [Fld ''uaddr'' (CPtr ''u32''),
          Fld ''val'' t_u32,
          Fld ''flags'' t_u32,
          Fld ''bitset'' t_u32,
          Fld ''time'' t_u64,
          Fld ''uaddr2'' (CPtr ''u32'')]),
        Fld ''nanosleep'' (CStruct '''' [Fld ''clockid'' t_clockid_t,
          Fld ''type'' e_timespec_type,
          Fld '''' (CUnion '''' [Fld ''rmtp'' (CPtr ''struct __kernel_timespec''),
            Fld ''compat_rmtp'' (CPtr ''struct old_timespec32'')]),
          Fld ''expires'' t_u64]),
        Fld ''poll'' (CStruct '''' [Fld ''ufds'' (CPtr ''struct pollfd''),
          Fld ''nfds'' c_int,
          Fld ''has_timeout'' c_int,
          Fld ''tv_sec'' c_ulong,
          Fld ''tv_nsec'' c_ulong])])]"

lemma s_restart_block_sa [simp]: "size_of s_restart_block = 56" "align_of s_restart_block = 8" "wf_type s_restart_block"
  by (simp_all add: s_restart_block_def c_layout del: One_nat_def)

definition t___kernel_pid_t :: ctype where
  "t___kernel_pid_t = c_int"

lemma t___kernel_pid_t_sa [simp]: "size_of t___kernel_pid_t = 4" "align_of t___kernel_pid_t = 4" "wf_type t___kernel_pid_t"
  by (simp_all add: t___kernel_pid_t_def c_layout del: One_nat_def)

definition t_pid_t :: ctype where
  "t_pid_t = t___kernel_pid_t"

lemma t_pid_t_sa [simp]: "size_of t_pid_t = 4" "align_of t_pid_t = 4" "wf_type t_pid_t"
  by (simp_all add: t_pid_t_def c_layout del: One_nat_def)

definition s_hlist_node :: ctype where
  "s_hlist_node = CStruct ''hlist_node'' [Fld ''next'' (CPtr ''struct hlist_node''),
      Fld ''pprev'' (CPtr ''struct hlist_node ptr'')]"

lemma s_hlist_node_sa [simp]: "size_of s_hlist_node = 16" "align_of s_hlist_node = 8" "wf_type s_hlist_node"
  by (simp_all add: s_hlist_node_def c_layout del: One_nat_def)

definition s_qspinlock :: ctype where
  "s_qspinlock = CStruct ''qspinlock'' [Fld '''' (CUnion '''' [Fld ''val'' t_atomic_t,
        Fld '''' (CStruct '''' [Fld ''locked'' t_u8,
          Fld ''pending'' t_u8]),
        Fld '''' (CStruct '''' [Fld ''locked_pending'' t_u16,
          Fld ''tail'' t_u16])])]"

lemma s_qspinlock_sa [simp]: "size_of s_qspinlock = 4" "align_of s_qspinlock = 4" "wf_type s_qspinlock"
  by (simp_all add: s_qspinlock_def c_layout del: One_nat_def)

definition t_arch_spinlock_t :: ctype where
  "t_arch_spinlock_t = s_qspinlock"

lemma t_arch_spinlock_t_sa [simp]: "size_of t_arch_spinlock_t = 4" "align_of t_arch_spinlock_t = 4" "wf_type t_arch_spinlock_t"
  by (simp_all add: t_arch_spinlock_t_def c_layout del: One_nat_def)

definition s_raw_spinlock :: ctype where
  "s_raw_spinlock = CStruct ''raw_spinlock'' [Fld ''raw_lock'' t_arch_spinlock_t]"

lemma s_raw_spinlock_sa [simp]: "size_of s_raw_spinlock = 4" "align_of s_raw_spinlock = 4" "wf_type s_raw_spinlock"
  by (simp_all add: s_raw_spinlock_def c_layout del: One_nat_def)

definition t_raw_spinlock_t :: ctype where
  "t_raw_spinlock_t = s_raw_spinlock"

lemma t_raw_spinlock_t_sa [simp]: "size_of t_raw_spinlock_t = 4" "align_of t_raw_spinlock_t = 4" "wf_type t_raw_spinlock_t"
  by (simp_all add: t_raw_spinlock_t_def c_layout del: One_nat_def)

definition s_prev_cputime :: ctype where
  "s_prev_cputime = CStruct ''prev_cputime'' [Fld ''utime'' t_u64,
      Fld ''stime'' t_u64,
      Fld ''lock'' t_raw_spinlock_t]"

lemma s_prev_cputime_sa [simp]: "size_of s_prev_cputime = 24" "align_of s_prev_cputime = 8" "wf_type s_prev_cputime"
  by (simp_all add: s_prev_cputime_def c_layout del: One_nat_def)

definition s_seqcount :: ctype where
  "s_seqcount = CStruct ''seqcount'' [Fld ''sequence'' c_uint]"

lemma s_seqcount_sa [simp]: "size_of s_seqcount = 4" "align_of s_seqcount = 4" "wf_type s_seqcount"
  by (simp_all add: s_seqcount_def c_layout del: One_nat_def)

definition t_seqcount_t :: ctype where
  "t_seqcount_t = s_seqcount"

lemma t_seqcount_t_sa [simp]: "size_of t_seqcount_t = 4" "align_of t_seqcount_t = 4" "wf_type t_seqcount_t"
  by (simp_all add: t_seqcount_t_def c_layout del: One_nat_def)

definition e_vtime_state :: ctype where
  "e_vtime_state = CEnum ''vtime_state'' 4 [(''VTIME_INACTIVE'', 0),
      (''VTIME_IDLE'', 1),
      (''VTIME_SYS'', 2),
      (''VTIME_USER'', 3),
      (''VTIME_GUEST'', 4)]"

lemma e_vtime_state_sa [simp]: "size_of e_vtime_state = 4" "align_of e_vtime_state = 4" "wf_type e_vtime_state"
  by (simp_all add: e_vtime_state_def c_layout del: One_nat_def)

definition s_vtime :: ctype where
  "s_vtime = CStruct ''vtime'' [Fld ''seqcount'' t_seqcount_t,
      Fld ''starttime'' c_ullong,
      Fld ''state'' e_vtime_state,
      Fld ''cpu'' c_uint,
      Fld ''utime'' t_u64,
      Fld ''stime'' t_u64,
      Fld ''gtime'' t_u64]"

lemma s_vtime_sa [simp]: "size_of s_vtime = 48" "align_of s_vtime = 8" "wf_type s_vtime"
  by (simp_all add: s_vtime_def c_layout del: One_nat_def)

definition s_rb_root :: ctype where
  "s_rb_root = CStruct ''rb_root'' [Fld ''rb_node'' (CPtr ''struct rb_node'')]"

lemma s_rb_root_sa [simp]: "size_of s_rb_root = 8" "align_of s_rb_root = 8" "wf_type s_rb_root"
  by (simp_all add: s_rb_root_def c_layout del: One_nat_def)

definition s_rb_root_cached :: ctype where
  "s_rb_root_cached = CStruct ''rb_root_cached'' [Fld ''rb_root'' s_rb_root,
      Fld ''rb_leftmost'' (CPtr ''struct rb_node'')]"

lemma s_rb_root_cached_sa [simp]: "size_of s_rb_root_cached = 16" "align_of s_rb_root_cached = 8" "wf_type s_rb_root_cached"
  by (simp_all add: s_rb_root_cached_def c_layout del: One_nat_def)

definition s_timerqueue_head :: ctype where
  "s_timerqueue_head = CStruct ''timerqueue_head'' [Fld ''rb_root'' s_rb_root_cached]"

lemma s_timerqueue_head_sa [simp]: "size_of s_timerqueue_head = 16" "align_of s_timerqueue_head = 8" "wf_type s_timerqueue_head"
  by (simp_all add: s_timerqueue_head_def c_layout del: One_nat_def)

definition s_posix_cputimer_base :: ctype where
  "s_posix_cputimer_base = CStruct ''posix_cputimer_base'' [Fld ''nextevt'' t_u64,
      Fld ''tqhead'' s_timerqueue_head]"

lemma s_posix_cputimer_base_sa [simp]: "size_of s_posix_cputimer_base = 24" "align_of s_posix_cputimer_base = 8" "wf_type s_posix_cputimer_base"
  by (simp_all add: s_posix_cputimer_base_def c_layout del: One_nat_def)

definition s_posix_cputimers :: ctype where
  "s_posix_cputimers = CStruct ''posix_cputimers'' [Fld ''bases'' (CArr s_posix_cputimer_base 3),
      Fld ''timers_active'' c_uint,
      Fld ''expiry_active'' c_uint]"

lemma s_posix_cputimers_sa [simp]: "size_of s_posix_cputimers = 80" "align_of s_posix_cputimers = 8" "wf_type s_posix_cputimers"
  by (simp_all add: s_posix_cputimers_def c_layout del: One_nat_def)

definition s_callback_head :: ctype where
  "s_callback_head = CStruct ''callback_head'' [Fld ''next'' (CPtr ''struct callback_head''),
      Fld ''func'' (CPtr ''fn: void'')]"

lemma s_callback_head_sa [simp]: "size_of s_callback_head = 16" "align_of s_callback_head = 8" "wf_type s_callback_head"
  by (simp_all add: s_callback_head_def c_layout del: One_nat_def)

definition t_atomic64_t :: ctype where
  "t_atomic64_t = CStruct '''' [Fld ''counter'' t_s64]"

lemma t_atomic64_t_sa [simp]: "size_of t_atomic64_t = 8" "align_of t_atomic64_t = 8" "wf_type t_atomic64_t"
  by (simp_all add: t_atomic64_t_def c_layout del: One_nat_def)

definition t_atomic_long_t :: ctype where
  "t_atomic_long_t = t_atomic64_t"

lemma t_atomic_long_t_sa [simp]: "size_of t_atomic_long_t = 8" "align_of t_atomic_long_t = 8" "wf_type t_atomic_long_t"
  by (simp_all add: t_atomic_long_t_def c_layout del: One_nat_def)

definition s_optimistic_spin_queue :: ctype where
  "s_optimistic_spin_queue = CStruct ''optimistic_spin_queue'' [Fld ''tail'' t_atomic_t]"

lemma s_optimistic_spin_queue_sa [simp]: "size_of s_optimistic_spin_queue = 4" "align_of s_optimistic_spin_queue = 4" "wf_type s_optimistic_spin_queue"
  by (simp_all add: s_optimistic_spin_queue_def c_layout del: One_nat_def)

definition s_mutex :: ctype where
  "s_mutex = CStruct ''mutex'' [Fld ''owner'' t_atomic_long_t,
      Fld ''wait_lock'' t_raw_spinlock_t,
      Fld ''osq'' s_optimistic_spin_queue,
      Fld ''wait_list'' s_list_head]"

lemma s_mutex_sa [simp]: "size_of s_mutex = 32" "align_of s_mutex = 8" "wf_type s_mutex"
  by (simp_all add: s_mutex_def c_layout del: One_nat_def)

definition s_posix_cputimers_work :: ctype where
  "s_posix_cputimers_work = CStruct ''posix_cputimers_work'' [Fld ''work'' s_callback_head,
      Fld ''mutex'' s_mutex,
      Fld ''scheduled'' c_uint]"

lemma s_posix_cputimers_work_sa [simp]: "size_of s_posix_cputimers_work = 56" "align_of s_posix_cputimers_work = 8" "wf_type s_posix_cputimers_work"
  by (simp_all add: s_posix_cputimers_work_def c_layout del: One_nat_def)

definition s_sysv_sem :: ctype where
  "s_sysv_sem = CStruct ''sysv_sem'' [Fld ''undo_list'' (CPtr ''struct sem_undo_list'')]"

lemma s_sysv_sem_sa [simp]: "size_of s_sysv_sem = 8" "align_of s_sysv_sem = 8" "wf_type s_sysv_sem"
  by (simp_all add: s_sysv_sem_def c_layout del: One_nat_def)

definition s_sysv_shm :: ctype where
  "s_sysv_shm = CStruct ''sysv_shm'' [Fld ''shm_clist'' s_list_head]"

lemma s_sysv_shm_sa [simp]: "size_of s_sysv_shm = 16" "align_of s_sysv_shm = 8" "wf_type s_sysv_shm"
  by (simp_all add: s_sysv_shm_def c_layout del: One_nat_def)

definition t_sigset_t :: ctype where
  "t_sigset_t = CStruct '''' [Fld ''sig'' (CArr c_ulong 1)]"

lemma t_sigset_t_sa [simp]: "size_of t_sigset_t = 8" "align_of t_sigset_t = 8" "wf_type t_sigset_t"
  by (simp_all add: t_sigset_t_def c_layout del: One_nat_def)

definition s_sigpending :: ctype where
  "s_sigpending = CStruct ''sigpending'' [Fld ''list'' s_list_head,
      Fld ''signal'' t_sigset_t]"

lemma s_sigpending_sa [simp]: "size_of s_sigpending = 24" "align_of s_sigpending = 8" "wf_type s_sigpending"
  by (simp_all add: s_sigpending_def c_layout del: One_nat_def)

definition t___kernel_ulong_t :: ctype where
  "t___kernel_ulong_t = c_ulong"

lemma t___kernel_ulong_t_sa [simp]: "size_of t___kernel_ulong_t = 8" "align_of t___kernel_ulong_t = 8" "wf_type t___kernel_ulong_t"
  by (simp_all add: t___kernel_ulong_t_def c_layout del: One_nat_def)

definition t___kernel_size_t :: ctype where
  "t___kernel_size_t = t___kernel_ulong_t"

lemma t___kernel_size_t_sa [simp]: "size_of t___kernel_size_t = 8" "align_of t___kernel_size_t = 8" "wf_type t___kernel_size_t"
  by (simp_all add: t___kernel_size_t_def c_layout del: One_nat_def)

definition t_size_t :: ctype where
  "t_size_t = t___kernel_size_t"

lemma t_size_t_sa [simp]: "size_of t_size_t = 8" "align_of t_size_t = 8" "wf_type t_size_t"
  by (simp_all add: t_size_t_def c_layout del: One_nat_def)

definition t___kernel_uid32_t :: ctype where
  "t___kernel_uid32_t = c_uint"

lemma t___kernel_uid32_t_sa [simp]: "size_of t___kernel_uid32_t = 4" "align_of t___kernel_uid32_t = 4" "wf_type t___kernel_uid32_t"
  by (simp_all add: t___kernel_uid32_t_def c_layout del: One_nat_def)

definition t_uid_t :: ctype where
  "t_uid_t = t___kernel_uid32_t"

lemma t_uid_t_sa [simp]: "size_of t_uid_t = 4" "align_of t_uid_t = 4" "wf_type t_uid_t"
  by (simp_all add: t_uid_t_def c_layout del: One_nat_def)

definition t_kuid_t :: ctype where
  "t_kuid_t = CStruct '''' [Fld ''val'' t_uid_t]"

lemma t_kuid_t_sa [simp]: "size_of t_kuid_t = 4" "align_of t_kuid_t = 4" "wf_type t_kuid_t"
  by (simp_all add: t_kuid_t_def c_layout del: One_nat_def)

definition s_seccomp :: ctype where
  "s_seccomp = CStruct ''seccomp'' [Fld ''mode'' c_int,
      Fld ''filter_count'' t_atomic_t,
      Fld ''filter'' (CPtr ''struct seccomp_filter'')]"

lemma s_seccomp_sa [simp]: "size_of s_seccomp = 16" "align_of s_seccomp = 8" "wf_type s_seccomp"
  by (simp_all add: s_seccomp_def c_layout del: One_nat_def)

definition t_bool :: ctype where
  "t_bool = c_bool"

lemma t_bool_sa [simp]: "size_of t_bool = 1" "align_of t_bool = 1" "wf_type t_bool"
  by (simp_all add: t_bool_def c_layout del: One_nat_def)

definition s_syscall_user_dispatch :: ctype where
  "s_syscall_user_dispatch = CStruct ''syscall_user_dispatch'' [Fld ''selector'' (CPtr ''char''),
      Fld ''offset'' c_ulong,
      Fld ''len'' c_ulong,
      Fld ''on_dispatch'' t_bool]"

lemma s_syscall_user_dispatch_sa [simp]: "size_of s_syscall_user_dispatch = 32" "align_of s_syscall_user_dispatch = 8" "wf_type s_syscall_user_dispatch"
  by (simp_all add: s_syscall_user_dispatch_def c_layout del: One_nat_def)

definition s_spinlock :: ctype where
  "s_spinlock = CStruct ''spinlock'' [Fld '''' (CUnion '''' [Fld ''rlock'' s_raw_spinlock])]"

lemma s_spinlock_sa [simp]: "size_of s_spinlock = 4" "align_of s_spinlock = 4" "wf_type s_spinlock"
  by (simp_all add: s_spinlock_def c_layout del: One_nat_def)

definition t_spinlock_t :: ctype where
  "t_spinlock_t = s_spinlock"

lemma t_spinlock_t_sa [simp]: "size_of t_spinlock_t = 4" "align_of t_spinlock_t = 4" "wf_type t_spinlock_t"
  by (simp_all add: t_spinlock_t_def c_layout del: One_nat_def)

definition s_wake_q_node :: ctype where
  "s_wake_q_node = CStruct ''wake_q_node'' [Fld ''next'' (CPtr ''struct wake_q_node'')]"

lemma s_wake_q_node_sa [simp]: "size_of s_wake_q_node = 8" "align_of s_wake_q_node = 8" "wf_type s_wake_q_node"
  by (simp_all add: s_wake_q_node_def c_layout del: One_nat_def)

definition s_task_io_accounting :: ctype where
  "s_task_io_accounting = CStruct ''task_io_accounting'' [Fld ''rchar'' t_u64,
      Fld ''wchar'' t_u64,
      Fld ''syscr'' t_u64,
      Fld ''syscw'' t_u64,
      Fld ''read_bytes'' t_u64,
      Fld ''write_bytes'' t_u64,
      Fld ''cancelled_write_bytes'' t_u64]"

lemma s_task_io_accounting_sa [simp]: "size_of s_task_io_accounting = 56" "align_of s_task_io_accounting = 8" "wf_type s_task_io_accounting"
  by (simp_all add: s_task_io_accounting_def c_layout del: One_nat_def)

definition t_nodemask_t :: ctype where
  "t_nodemask_t = CStruct '''' [Fld ''bits'' (CArr c_ulong 16)]"

lemma t_nodemask_t_sa [simp]: "size_of t_nodemask_t = 128" "align_of t_nodemask_t = 8" "wf_type t_nodemask_t"
  by (simp_all add: t_nodemask_t_def c_layout del: One_nat_def)

definition s_seqcount_spinlock :: ctype where
  "s_seqcount_spinlock = CStruct ''seqcount_spinlock'' [Fld ''seqcount'' t_seqcount_t]"

lemma s_seqcount_spinlock_sa [simp]: "size_of s_seqcount_spinlock = 4" "align_of s_seqcount_spinlock = 4" "wf_type s_seqcount_spinlock"
  by (simp_all add: s_seqcount_spinlock_def c_layout del: One_nat_def)

definition t_seqcount_spinlock_t :: ctype where
  "t_seqcount_spinlock_t = s_seqcount_spinlock"

lemma t_seqcount_spinlock_t_sa [simp]: "size_of t_seqcount_spinlock_t = 4" "align_of t_seqcount_spinlock_t = 4" "wf_type t_seqcount_spinlock_t"
  by (simp_all add: t_seqcount_spinlock_t_def c_layout del: One_nat_def)

definition s_arch_tlbflush_unmap_batch :: ctype where
  "s_arch_tlbflush_unmap_batch = CStruct ''arch_tlbflush_unmap_batch'' [Fld ''cpumask'' s_cpumask]"

lemma s_arch_tlbflush_unmap_batch_sa [simp]: "size_of s_arch_tlbflush_unmap_batch = 1024" "align_of s_arch_tlbflush_unmap_batch = 8" "wf_type s_arch_tlbflush_unmap_batch"
  by (simp_all add: s_arch_tlbflush_unmap_batch_def c_layout del: One_nat_def)

definition s_tlbflush_unmap_batch :: ctype where
  "s_tlbflush_unmap_batch = CStruct ''tlbflush_unmap_batch'' [Fld ''arch'' s_arch_tlbflush_unmap_batch,
      Fld ''flush_required'' t_bool,
      Fld ''writable'' t_bool]"

lemma s_tlbflush_unmap_batch_sa [simp]: "size_of s_tlbflush_unmap_batch = 1032" "align_of s_tlbflush_unmap_batch = 8" "wf_type s_tlbflush_unmap_batch"
  by (simp_all add: s_tlbflush_unmap_batch_def c_layout del: One_nat_def)

definition s_page_frag :: ctype where
  "s_page_frag = CStruct ''page_frag'' [Fld ''page'' (CPtr ''struct page''),
      Fld ''offset'' t___u32,
      Fld ''size'' t___u32]"

lemma s_page_frag_sa [simp]: "size_of s_page_frag = 16" "align_of s_page_frag = 8" "wf_type s_page_frag"
  by (simp_all add: s_page_frag_def c_layout del: One_nat_def)

definition s_kmap_ctrl :: ctype where
  "s_kmap_ctrl = CStruct ''kmap_ctrl'' []"

lemma s_kmap_ctrl_sa [simp]: "size_of s_kmap_ctrl = 0" "align_of s_kmap_ctrl = 1" "wf_type s_kmap_ctrl"
  by (simp_all add: s_kmap_ctrl_def c_layout del: One_nat_def)

definition s_timer_list :: ctype where
  "s_timer_list = CStruct ''timer_list'' [Fld ''entry'' s_hlist_node,
      Fld ''expires'' c_ulong,
      Fld ''function'' (CPtr ''fn: void''),
      Fld ''flags'' t_u32]"

lemma s_timer_list_sa [simp]: "size_of s_timer_list = 40" "align_of s_timer_list = 8" "wf_type s_timer_list"
  by (simp_all add: s_timer_list_def c_layout del: One_nat_def)

definition s_llist_head :: ctype where
  "s_llist_head = CStruct ''llist_head'' [Fld ''first'' (CPtr ''struct llist_node'')]"

lemma s_llist_head_sa [simp]: "size_of s_llist_head = 8" "align_of s_llist_head = 8" "wf_type s_llist_head"
  by (simp_all add: s_llist_head_def c_layout del: One_nat_def)

definition s_desc_struct :: ctype where
  "s_desc_struct = CStruct ''desc_struct'' [Fld ''limit0'' t_u16,
      Fld ''base0'' t_u16,
      Bits ''base1'' t_u16 8,
      Bits ''type'' t_u16 4,
      Bits ''s'' t_u16 1,
      Bits ''dpl'' t_u16 2,
      Bits ''p'' t_u16 1,
      Bits ''limit1'' t_u16 4,
      Bits ''avl'' t_u16 1,
      Bits ''l'' t_u16 1,
      Bits ''d'' t_u16 1,
      Bits ''g'' t_u16 1,
      Bits ''base2'' t_u16 8]"

lemma s_desc_struct_sa [simp]: "size_of s_desc_struct = 8" "align_of s_desc_struct = 2" "wf_type s_desc_struct"
  by (simp_all add: s_desc_struct_def c_layout del: One_nat_def)

definition s_thread_shstk :: ctype where
  "s_thread_shstk = CStruct ''thread_shstk'' [Fld ''base'' t_u64,
      Fld ''size'' t_u64]"

lemma s_thread_shstk_sa [simp]: "size_of s_thread_shstk = 16" "align_of s_thread_shstk = 8" "wf_type s_thread_shstk"
  by (simp_all add: s_thread_shstk_def c_layout del: One_nat_def)

definition s_fpu_state_perm :: ctype where
  "s_fpu_state_perm = CStruct ''fpu_state_perm'' [Fld ''__state_perm'' t_u64,
      Fld ''__state_size'' c_uint,
      Fld ''__user_state_size'' c_uint]"

lemma s_fpu_state_perm_sa [simp]: "size_of s_fpu_state_perm = 16" "align_of s_fpu_state_perm = 8" "wf_type s_fpu_state_perm"
  by (simp_all add: s_fpu_state_perm_def c_layout del: One_nat_def)

definition s_fregs_state :: ctype where
  "s_fregs_state = CStruct ''fregs_state'' [Fld ''cwd'' t_u32,
      Fld ''swd'' t_u32,
      Fld ''twd'' t_u32,
      Fld ''fip'' t_u32,
      Fld ''fcs'' t_u32,
      Fld ''foo'' t_u32,
      Fld ''fos'' t_u32,
      Fld ''st_space'' (CArr t_u32 20),
      Fld ''status'' t_u32]"

lemma s_fregs_state_sa [simp]: "size_of s_fregs_state = 112" "align_of s_fregs_state = 4" "wf_type s_fregs_state"
  by (simp_all add: s_fregs_state_def c_layout del: One_nat_def)

definition s_fxregs_state :: ctype where
  "s_fxregs_state = CStruct ''fxregs_state'' [Fld ''cwd'' t_u16,
      Fld ''swd'' t_u16,
      Fld ''twd'' t_u16,
      Fld ''fop'' t_u16,
      Fld '''' (CUnion '''' [Fld '''' (CStruct '''' [Fld ''rip'' t_u64,
          Fld ''rdp'' t_u64]),
        Fld '''' (CStruct '''' [Fld ''fip'' t_u32,
          Fld ''fcs'' t_u32,
          Fld ''foo'' t_u32,
          Fld ''fos'' t_u32])]),
      Fld ''mxcsr'' t_u32,
      Fld ''mxcsr_mask'' t_u32,
      Fld ''st_space'' (CArr t_u32 32),
      Fld ''xmm_space'' (CArr t_u32 64),
      Fld ''padding'' (CArr t_u32 12),
      Fld '''' (CUnion '''' [Fld ''padding1'' (CArr t_u32 12),
        Fld ''sw_reserved'' (CArr t_u32 12)])]"

lemma s_fxregs_state_sa [simp]: "size_of s_fxregs_state = 512" "align_of s_fxregs_state = 8" "wf_type s_fxregs_state"
  by (simp_all add: s_fxregs_state_def c_layout del: One_nat_def)

definition s_swregs_state :: ctype where
  "s_swregs_state = CStruct ''swregs_state'' [Fld ''cwd'' t_u32,
      Fld ''swd'' t_u32,
      Fld ''twd'' t_u32,
      Fld ''fip'' t_u32,
      Fld ''fcs'' t_u32,
      Fld ''foo'' t_u32,
      Fld ''fos'' t_u32,
      Fld ''st_space'' (CArr t_u32 20),
      Fld ''ftop'' t_u8,
      Fld ''changed'' t_u8,
      Fld ''lookahead'' t_u8,
      Fld ''no_update'' t_u8,
      Fld ''rm'' t_u8,
      Fld ''alimit'' t_u8,
      Fld ''info'' (CPtr ''struct math_emu_info''),
      Fld ''entry_eip'' t_u32]"

lemma s_swregs_state_sa [simp]: "size_of s_swregs_state = 136" "align_of s_swregs_state = 8" "wf_type s_swregs_state"
  by (simp_all add: s_swregs_state_def c_layout del: One_nat_def)

definition s_xstate_header :: ctype where
  "s_xstate_header = CStruct ''xstate_header'' [Fld ''xfeatures'' t_u64,
      Fld ''xcomp_bv'' t_u64,
      Fld ''reserved'' (CArr t_u64 6)]"

lemma s_xstate_header_sa [simp]: "size_of s_xstate_header = 64" "align_of s_xstate_header = 8" "wf_type s_xstate_header"
  by (simp_all add: s_xstate_header_def c_layout del: One_nat_def)

definition s_xregs_state :: ctype where
  "s_xregs_state = CStruct ''xregs_state'' [Fld ''i387'' s_fxregs_state,
      Fld ''header'' s_xstate_header,
      Fld ''extended_state_area'' (CArr t_u8 0)]"

lemma s_xregs_state_sa [simp]: "size_of s_xregs_state = 576" "align_of s_xregs_state = 8" "wf_type s_xregs_state"
  by (simp_all add: s_xregs_state_def c_layout del: One_nat_def)

definition u_fpregs_state :: ctype where
  "u_fpregs_state = CUnion ''fpregs_state'' [Fld ''fsave'' s_fregs_state,
      Fld ''fxsave'' s_fxregs_state,
      Fld ''soft'' s_swregs_state,
      Fld ''xsave'' s_xregs_state,
      Fld ''__padding'' (CArr t_u8 4096)]"

lemma u_fpregs_state_sa [simp]: "size_of u_fpregs_state = 4096" "align_of u_fpregs_state = 8" "wf_type u_fpregs_state"
  by (simp_all add: u_fpregs_state_def c_layout del: One_nat_def)

definition s_fpstate :: ctype where
  "s_fpstate = CStruct ''fpstate'' [Fld ''size'' c_uint,
      Fld ''user_size'' c_uint,
      Fld ''xfeatures'' t_u64,
      Fld ''user_xfeatures'' t_u64,
      Fld ''xfd'' t_u64,
      Bits ''is_valloc'' c_uint 1,
      Bits ''is_guest'' c_uint 1,
      Bits ''is_confidential'' c_uint 1,
      Bits ''in_use'' c_uint 1,
      Bits '''' c_long 64,
      Bits '''' c_long 64,
      Bits '''' c_long 64,
      Fld ''regs'' u_fpregs_state]"

lemma s_fpstate_sa [simp]: "size_of s_fpstate = 4160" "align_of s_fpstate = 8" "wf_type s_fpstate"
  by (simp_all add: s_fpstate_def c_layout del: One_nat_def)

definition s_fpu :: ctype where
  "s_fpu = CStruct ''fpu'' [Fld ''last_cpu'' c_uint,
      Fld ''avx512_timestamp'' c_ulong,
      Fld ''fpstate'' (CPtr ''struct fpstate''),
      Fld ''__task_fpstate'' (CPtr ''struct fpstate''),
      Fld ''perm'' s_fpu_state_perm,
      Fld ''guest_perm'' s_fpu_state_perm,
      Fld ''__fpstate'' s_fpstate]"

lemma s_fpu_sa [simp]: "size_of s_fpu = 4224" "align_of s_fpu = 8" "wf_type s_fpu"
  by (simp_all add: s_fpu_def c_layout del: One_nat_def)

definition s_thread_struct :: ctype where
  "s_thread_struct = CStruct ''thread_struct'' [Fld ''tls_array'' (CArr s_desc_struct 3),
      Fld ''sp'' c_ulong,
      Fld ''es'' c_ushort,
      Fld ''ds'' c_ushort,
      Fld ''fsindex'' c_ushort,
      Fld ''gsindex'' c_ushort,
      Fld ''fsbase'' c_ulong,
      Fld ''gsbase'' c_ulong,
      Fld ''ptrace_bps'' (CArr (CPtr ''struct perf_event'') 4),
      Fld ''virtual_dr6'' c_ulong,
      Fld ''ptrace_dr7'' c_ulong,
      Fld ''cr2'' c_ulong,
      Fld ''trap_nr'' c_ulong,
      Fld ''error_code'' c_ulong,
      Fld ''io_bitmap'' (CPtr ''struct io_bitmap''),
      Fld ''iopl_emul'' c_ulong,
      Bits ''iopl_warn'' c_uint 1,
      Fld ''pkru'' t_u32,
      Fld ''features'' c_ulong,
      Fld ''features_locked'' c_ulong,
      Fld ''shstk'' s_thread_shstk,
      Bits '''' c_long 64,
      Fld ''fpu'' s_fpu]"

lemma s_thread_struct_sa [simp]: "size_of s_thread_struct = 4416" "align_of s_thread_struct = 8" "wf_type s_thread_struct"
  by (simp_all add: s_thread_struct_def c_layout del: One_nat_def)

definition s_task_struct_f1 :: "cfield list" where
  "s_task_struct_f1 =
    [Fld ''thread_info'' s_thread_info,
      Fld ''__state'' c_uint,
      Fld ''saved_state'' c_uint,
      Fld ''stack'' (CPtr ''void''),
      Fld ''usage'' t_refcount_t,
      Fld ''flags'' c_uint,
      Fld ''ptrace'' c_uint,
      Fld ''on_cpu'' c_int,
      Fld ''wake_entry'' s___call_single_node,
      Fld ''wakee_flips'' c_uint,
      Fld ''wakee_flip_decay_ts'' c_ulong,
      Fld ''last_wakee'' (CPtr ''struct task_struct''),
      Fld ''recent_used_cpu'' c_int,
      Fld ''wake_cpu'' c_int,
      Fld ''on_rq'' c_int,
      Fld ''prio'' c_int,
      Fld ''static_prio'' c_int,
      Fld ''normal_prio'' c_int,
      Fld ''rt_priority'' c_uint,
      Fld ''se'' s_sched_entity,
      Fld ''rt'' s_sched_rt_entity,
      Fld ''dl'' s_sched_dl_entity,
      Fld ''dl_server'' (CPtr ''struct sched_dl_entity''),
      Fld ''sched_class'' (CPtr ''const struct sched_class''),
      Fld ''sched_task_group'' (CPtr ''struct task_group''),
      Fld ''stats'' s_sched_statistics,
      Fld ''preempt_notifiers'' s_hlist_head,
      Fld ''btrace_seq'' c_uint,
      Fld ''policy'' c_uint,
      Fld ''max_allowed_capacity'' c_ulong,
      Fld ''nr_cpus_allowed'' c_int,
      Fld ''cpus_ptr'' (CPtr ''const cpumask_t''),
      Fld ''user_cpus_ptr'' (CPtr ''cpumask_t''),
      Fld ''cpus_mask'' t_cpumask_t,
      Fld ''migration_pending'' (CPtr ''void''),
      Fld ''migration_disabled'' c_ushort]"

lemma s_task_struct_f1_lay [layout]: "lay s_task_struct_f1 0 = 16336" "fields_align s_task_struct_f1 = 8" "wf_fields s_task_struct_f1"
  by (simp_all add: s_task_struct_f1_def c_layout del: One_nat_def)

definition s_task_struct_f2 :: "cfield list" where
  "s_task_struct_f2 =
    [Fld ''migration_flags'' c_ushort,
      Fld ''rcu_read_lock_nesting'' c_int,
      Fld ''rcu_read_unlock_special'' u_rcu_special,
      Fld ''rcu_node_entry'' s_list_head,
      Fld ''rcu_blocked_node'' (CPtr ''struct rcu_node''),
      Fld ''rcu_tasks_nvcsw'' c_ulong,
      Fld ''rcu_tasks_holdout'' t_u8,
      Fld ''rcu_tasks_idx'' t_u8,
      Fld ''rcu_tasks_idle_cpu'' c_int,
      Fld ''rcu_tasks_holdout_list'' s_list_head,
      Fld ''rcu_tasks_exit_cpu'' c_int,
      Fld ''rcu_tasks_exit_list'' s_list_head,
      Fld ''trc_reader_nesting'' c_int,
      Fld ''trc_ipi_to_cpu'' c_int,
      Fld ''trc_reader_special'' u_rcu_special,
      Fld ''trc_holdout_list'' s_list_head,
      Fld ''trc_blkd_node'' s_list_head,
      Fld ''trc_blkd_cpu'' c_int,
      Fld ''sched_info'' s_sched_info,
      Fld ''tasks'' s_list_head,
      Fld ''pushable_tasks'' s_plist_node,
      Fld ''pushable_dl_tasks'' s_rb_node,
      Fld ''mm'' (CPtr ''struct mm_struct''),
      Fld ''active_mm'' (CPtr ''struct mm_struct''),
      Fld ''faults_disabled_mapping'' (CPtr ''struct address_space''),
      Fld ''exit_state'' c_int,
      Fld ''exit_code'' c_int,
      Fld ''exit_signal'' c_int,
      Fld ''pdeath_signal'' c_int,
      Fld ''jobctl'' c_ulong,
      Fld ''personality'' c_uint,
      Bits ''sched_reset_on_fork'' c_uint 1,
      Bits ''sched_contributes_to_load'' c_uint 1,
      Bits ''sched_migrated'' c_uint 1,
      Bits ''sched_task_hot'' c_uint 1,
      Bits '''' c_long 28]"

lemma s_task_struct_f2_lay [layout]: "lay s_task_struct_f2 16336 = 18880" "fields_align s_task_struct_f2 = 8" "wf_fields s_task_struct_f2"
  by (simp_all add: s_task_struct_f2_def c_layout del: One_nat_def)

definition s_task_struct_f3 :: "cfield list" where
  "s_task_struct_f3 =
    [Bits ''sched_remote_wakeup'' c_uint 1,
      Bits ''sched_rt_mutex'' c_uint 1,
      Bits ''in_execve'' c_uint 1,
      Bits ''in_iowait'' c_uint 1,
      Bits ''restore_sigmask'' c_uint 1,
      Bits ''in_lru_fault'' c_uint 1,
      Bits ''no_cgroup_migration'' c_uint 1,
      Bits ''frozen'' c_uint 1,
      Bits ''use_memdelay'' c_uint 1,
      Bits ''in_memstall'' c_uint 1,
      Bits ''in_eventfd'' c_uint 1,
      Bits ''pasid_activated'' c_uint 1,
      Bits ''reported_split_lock'' c_uint 1,
      Bits ''in_thrashing'' c_uint 1,
      Fld ''atomic_flags'' c_ulong,
      Fld ''restart_block'' s_restart_block,
      Fld ''pid'' t_pid_t,
      Fld ''tgid'' t_pid_t,
      Fld ''stack_canary'' c_ulong,
      Fld ''real_parent'' (CPtr ''struct task_struct''),
      Fld ''parent'' (CPtr ''struct task_struct''),
      Fld ''children'' s_list_head,
      Fld ''sibling'' s_list_head,
      Fld ''group_leader'' (CPtr ''struct task_struct''),
      Fld ''ptraced'' s_list_head,
      Fld ''ptrace_entry'' s_list_head,
      Fld ''thread_pid'' (CPtr ''struct pid''),
      Fld ''pid_links'' (CArr s_hlist_node 4),
      Fld ''thread_node'' s_list_head,
      Fld ''vfork_done'' (CPtr ''struct completion''),
      Fld ''set_child_tid'' (CPtr ''int''),
      Fld ''clear_child_tid'' (CPtr ''int''),
      Fld ''worker_private'' (CPtr ''void''),
      Fld ''utime'' t_u64,
      Fld ''stime'' t_u64,
      Fld ''gtime'' t_u64]"

lemma s_task_struct_f3_lay [layout]: "lay s_task_struct_f3 18880 = 21440" "fields_align s_task_struct_f3 = 8" "wf_fields s_task_struct_f3"
  by (simp_all add: s_task_struct_f3_def c_layout del: One_nat_def)

definition s_task_struct_f4 :: "cfield list" where
  "s_task_struct_f4 =
    [Fld ''prev_cputime'' s_prev_cputime,
      Fld ''vtime'' s_vtime,
      Fld ''tick_dep_mask'' t_atomic_t,
      Fld ''nvcsw'' c_ulong,
      Fld ''nivcsw'' c_ulong,
      Fld ''start_time'' t_u64,
      Fld ''start_boottime'' t_u64,
      Fld ''min_flt'' c_ulong,
      Fld ''maj_flt'' c_ulong,
      Fld ''posix_cputimers'' s_posix_cputimers,
      Fld ''posix_cputimers_work'' s_posix_cputimers_work,
      Fld ''ptracer_cred'' (CPtr ''const struct cred''),
      Fld ''real_cred'' (CPtr ''const struct cred''),
      Fld ''cred'' (CPtr ''const struct cred''),
      Fld ''cached_requested_key'' (CPtr ''struct key''),
      Fld ''comm'' (CArr c_char 16),
      Fld ''nameidata'' (CPtr ''struct nameidata''),
      Fld ''sysvsem'' s_sysv_sem,
      Fld ''sysvshm'' s_sysv_shm,
      Fld ''last_switch_count'' c_ulong,
      Fld ''last_switch_time'' c_ulong,
      Fld ''fs'' (CPtr ''struct fs_struct''),
      Fld ''files'' (CPtr ''struct files_struct''),
      Fld ''io_uring'' (CPtr ''struct io_uring_task''),
      Fld ''nsproxy'' (CPtr ''struct nsproxy''),
      Fld ''signal'' (CPtr ''struct signal_struct''),
      Fld ''sighand'' (CPtr ''struct sighand_struct''),
      Fld ''blocked'' t_sigset_t,
      Fld ''real_blocked'' t_sigset_t,
      Fld ''saved_sigmask'' t_sigset_t,
      Fld ''pending'' s_sigpending,
      Fld ''sas_ss_sp'' c_ulong,
      Fld ''sas_ss_size'' t_size_t,
      Fld ''sas_ss_flags'' c_uint,
      Fld ''task_works'' (CPtr ''struct callback_head''),
      Fld ''audit_context'' (CPtr ''struct audit_context'')]"

lemma s_task_struct_f4_lay [layout]: "lay s_task_struct_f4 21440 = 25408" "fields_align s_task_struct_f4 = 8" "wf_fields s_task_struct_f4"
  by (simp_all add: s_task_struct_f4_def c_layout del: One_nat_def)

definition s_task_struct_f5 :: "cfield list" where
  "s_task_struct_f5 =
    [Fld ''loginuid'' t_kuid_t,
      Fld ''sessionid'' c_uint,
      Fld ''seccomp'' s_seccomp,
      Fld ''syscall_dispatch'' s_syscall_user_dispatch,
      Fld ''parent_exec_id'' t_u64,
      Fld ''self_exec_id'' t_u64,
      Fld ''alloc_lock'' t_spinlock_t,
      Fld ''pi_lock'' t_raw_spinlock_t,
      Fld ''wake_q'' s_wake_q_node,
      Fld ''pi_waiters'' s_rb_root_cached,
      Fld ''pi_top_task'' (CPtr ''struct task_struct''),
      Fld ''pi_blocked_on'' (CPtr ''struct rt_mutex_waiter''),
      Fld ''journal_info'' (CPtr ''void''),
      Fld ''bio_list'' (CPtr ''struct bio_list''),
      Fld ''plug'' (CPtr ''struct blk_plug''),
      Fld ''reclaim_state'' (CPtr ''struct reclaim_state''),
      Fld ''io_context'' (CPtr ''struct io_context''),
      Fld ''capture_control'' (CPtr ''struct capture_control''),
      Fld ''ptrace_message'' c_ulong,
      Fld ''last_siginfo'' (CPtr ''kernel_siginfo_t''),
      Fld ''ioac'' s_task_io_accounting,
      Fld ''psi_flags'' c_uint,
      Fld ''acct_rss_mem1'' t_u64,
      Fld ''acct_vm_mem1'' t_u64,
      Fld ''acct_timexpd'' t_u64,
      Fld ''mems_allowed'' t_nodemask_t,
      Fld ''mems_allowed_seq'' t_seqcount_spinlock_t,
      Fld ''cpuset_mem_spread_rotor'' c_int,
      Fld ''cgroups'' (CPtr ''struct css_set''),
      Fld ''cg_list'' s_list_head,
      Fld ''closid'' t_u32,
      Fld ''rmid'' t_u32,
      Fld ''robust_list'' (CPtr ''struct robust_list_head''),
      Fld ''compat_robust_list'' (CPtr ''struct compat_robust_list_head''),
      Fld ''pi_state_list'' s_list_head,
      Fld ''pi_state_cache'' (CPtr ''struct futex_pi_state'')]"

lemma s_task_struct_f5_lay [layout]: "lay s_task_struct_f5 25408 = 29248" "fields_align s_task_struct_f5 = 8" "wf_fields s_task_struct_f5"
  by (simp_all add: s_task_struct_f5_def c_layout del: One_nat_def)

definition s_task_struct_f6 :: "cfield list" where
  "s_task_struct_f6 =
    [Fld ''futex_exit_mutex'' s_mutex,
      Fld ''futex_state'' c_uint,
      Fld ''perf_recursion'' (CArr t_u8 4),
      Fld ''perf_event_ctxp'' (CPtr ''struct perf_event_context''),
      Fld ''perf_event_mutex'' s_mutex,
      Fld ''perf_event_list'' s_list_head,
      Fld ''mempolicy'' (CPtr ''struct mempolicy''),
      Fld ''il_prev'' c_short,
      Fld ''il_weight'' t_u8,
      Fld ''pref_node_fork'' c_short,
      Fld ''numa_scan_seq'' c_int,
      Fld ''numa_scan_period'' c_uint,
      Fld ''numa_scan_period_max'' c_uint,
      Fld ''numa_preferred_nid'' c_int,
      Fld ''numa_migrate_retry'' c_ulong,
      Fld ''node_stamp'' t_u64,
      Fld ''last_task_numa_placement'' t_u64,
      Fld ''last_sum_exec_runtime'' t_u64,
      Fld ''numa_work'' s_callback_head,
      Fld ''numa_group'' (CPtr ''struct numa_group''),
      Fld ''numa_faults'' (CPtr ''long unsigned int''),
      Fld ''total_numa_faults'' c_ulong,
      Fld ''numa_faults_locality'' (CArr c_ulong 3),
      Fld ''numa_pages_migrated'' c_ulong,
      Fld ''rseq'' (CPtr ''struct rseq''),
      Fld ''rseq_len'' t_u32,
      Fld ''rseq_sig'' t_u32,
      Fld ''rseq_event_mask'' c_ulong,
      Fld ''mm_cid'' c_int,
      Fld ''last_mm_cid'' c_int,
      Fld ''migrate_from_cpu'' c_int,
      Fld ''mm_cid_active'' c_int,
      Fld ''cid_work'' s_callback_head,
      Fld ''tlb_ubc'' s_tlbflush_unmap_batch,
      Fld ''splice_pipe'' (CPtr ''struct pipe_inode_info''),
      Fld ''task_frag'' s_page_frag]"

lemma s_task_struct_f6_lay [layout]: "lay s_task_struct_f6 29248 = 40000" "fields_align s_task_struct_f6 = 8" "wf_fields s_task_struct_f6"
  by (simp_all add: s_task_struct_f6_def c_layout del: One_nat_def)

definition s_task_struct_f7 :: "cfield list" where
  "s_task_struct_f7 =
    [Fld ''delays'' (CPtr ''struct task_delay_info''),
      Fld ''nr_dirtied'' c_int,
      Fld ''nr_dirtied_pause'' c_int,
      Fld ''dirty_paused_when'' c_ulong,
      Fld ''timer_slack_ns'' t_u64,
      Fld ''default_timer_slack_ns'' t_u64,
      Fld ''curr_ret_stack'' c_int,
      Fld ''curr_ret_depth'' c_int,
      Fld ''ret_stack'' (CPtr ''long unsigned int''),
      Fld ''ftrace_timestamp'' c_ullong,
      Fld ''trace_overrun'' t_atomic_t,
      Fld ''tracing_graph_pause'' t_atomic_t,
      Fld ''trace_recursion'' c_ulong,
      Fld ''memcg_nr_pages_over_high'' c_uint,
      Fld ''active_memcg'' (CPtr ''struct mem_cgroup''),
      Fld ''objcg'' (CPtr ''struct obj_cgroup''),
      Fld ''throttle_disk'' (CPtr ''struct gendisk''),
      Fld ''utask'' (CPtr ''struct uprobe_task''),
      Fld ''sequential_io'' c_uint,
      Fld ''sequential_io_avg'' c_uint,
      Fld ''kmap_ctrl'' s_kmap_ctrl,
      Fld ''rcu'' s_callback_head,
      Fld ''rcu_users'' t_refcount_t,
      Fld ''pagefault_disabled'' c_int,
      Fld ''oom_reaper_list'' (CPtr ''struct task_struct''),
      Fld ''oom_reaper_timer'' s_timer_list,
      Fld ''stack_vm_area'' (CPtr ''struct vm_struct''),
      Fld ''stack_refcount'' t_refcount_t,
      Fld ''patch_state'' c_int,
      Fld ''security'' (CPtr ''void''),
      Fld ''bpf_storage'' (CPtr ''struct bpf_local_storage''),
      Fld ''bpf_ctx'' (CPtr ''struct bpf_run_ctx''),
      Fld ''bpf_net_context'' (CPtr ''struct bpf_net_context''),
      Fld ''mce_vaddr'' (CPtr ''void''),
      Fld ''mce_kflags'' t___u64,
      Fld ''mce_addr'' t_u64]"

lemma s_task_struct_f7_lay [layout]: "lay s_task_struct_f7 40000 = 42176" "fields_align s_task_struct_f7 = 8" "wf_fields s_task_struct_f7"
  by (simp_all add: s_task_struct_f7_def c_layout del: One_nat_def)

definition s_task_struct_f8 :: "cfield list" where
  "s_task_struct_f8 =
    [Bits ''mce_ripv'' t___u64 1,
      Bits ''mce_whole_page'' t___u64 1,
      Bits ''__mce_reserved'' t___u64 62,
      Fld ''mce_kill_me'' s_callback_head,
      Fld ''mce_count'' c_int,
      Fld ''kretprobe_instances'' s_llist_head,
      Fld ''rethooks'' s_llist_head,
      Fld ''l1d_flush_kill'' s_callback_head,
      Bits '''' c_long 64,
      Bits '''' c_long 64,
      Bits '''' c_long 64,
      Bits '''' c_long 64,
      Bits '''' c_long 64,
      Fld ''thread'' s_thread_struct]"

lemma s_task_struct_f8_lay [layout]: "lay s_task_struct_f8 42176 = 78336" "fields_align s_task_struct_f8 = 8" "wf_fields s_task_struct_f8"
  by (simp_all add: s_task_struct_f8_def c_layout del: One_nat_def)

definition s_task_struct :: ctype where
  "s_task_struct = CStruct ''task_struct'' (s_task_struct_f1 @ s_task_struct_f2 @ s_task_struct_f3 @ s_task_struct_f4 @ s_task_struct_f5 @ s_task_struct_f6 @ s_task_struct_f7 @ s_task_struct_f8)"

lemma s_task_struct_sa [simp]: "size_of s_task_struct = 9792" "align_of s_task_struct = 8" "wf_type s_task_struct"
  by (simp_all add: s_task_struct_def c_layout layout wf_fields_append lay_append fields_align_append del: One_nat_def)

end
