(* ===== verification/KBlock.thy ===== *)
theory KBlock
  imports KTask
begin

text \<open>
  Kernel types of \<open>ebpf/vmlinux.h\<close>, in dependency order: the types \<open>struct request\<close> embeds, and \<open>struct request\<close>: the argument of the block tracepoints.
  A definition keeps every member of its C declaration, in order; each is followed by its size
  and alignment. \<open>s_\<close>, \<open>u_\<close>, \<open>e_\<close> and \<open>t_\<close> stand for struct, union, enum and typedef.
\<close>

definition t_blk_opf_t :: ctype where
  "t_blk_opf_t = t___u32"

lemma t_blk_opf_t_sa [simp]: "size_of t_blk_opf_t = 4" "align_of t_blk_opf_t = 4" "wf_type t_blk_opf_t"
  by (simp_all add: t_blk_opf_t_def c_layout del: One_nat_def)

definition t_req_flags_t :: ctype where
  "t_req_flags_t = t___u32"

lemma t_req_flags_t_sa [simp]: "size_of t_req_flags_t = 4" "align_of t_req_flags_t = 4" "wf_type t_req_flags_t"
  by (simp_all add: t_req_flags_t_def c_layout del: One_nat_def)

definition t_sector_t :: ctype where
  "t_sector_t = t_u64"

lemma t_sector_t_sa [simp]: "size_of t_sector_t = 8" "align_of t_sector_t = 8" "wf_type t_sector_t"
  by (simp_all add: t_sector_t_def c_layout del: One_nat_def)

definition e_mq_rq_state :: ctype where
  "e_mq_rq_state = CEnum ''mq_rq_state'' 4 [(''MQ_RQ_IDLE'', 0),
      (''MQ_RQ_IN_FLIGHT'', 1),
      (''MQ_RQ_COMPLETE'', 2)]"

lemma e_mq_rq_state_sa [simp]: "size_of e_mq_rq_state = 4" "align_of e_mq_rq_state = 4" "wf_type e_mq_rq_state"
  by (simp_all add: e_mq_rq_state_def c_layout del: One_nat_def)

definition s_bio_vec :: ctype where
  "s_bio_vec = CStruct ''bio_vec'' [Fld ''bv_page'' (CPtr ''struct page''),
      Fld ''bv_len'' c_uint,
      Fld ''bv_offset'' c_uint]"

lemma s_bio_vec_sa [simp]: "size_of s_bio_vec = 16" "align_of s_bio_vec = 8" "wf_type s_bio_vec"
  by (simp_all add: s_bio_vec_def c_layout del: One_nat_def)

definition s_request :: ctype where
  "s_request = CStruct ''request'' [Fld ''q'' (CPtr ''struct request_queue''),
      Fld ''mq_ctx'' (CPtr ''struct blk_mq_ctx''),
      Fld ''mq_hctx'' (CPtr ''struct blk_mq_hw_ctx''),
      Fld ''cmd_flags'' t_blk_opf_t,
      Fld ''rq_flags'' t_req_flags_t,
      Fld ''tag'' c_int,
      Fld ''internal_tag'' c_int,
      Fld ''timeout'' c_uint,
      Fld ''__data_len'' c_uint,
      Fld ''__sector'' t_sector_t,
      Fld ''bio'' (CPtr ''struct bio''),
      Fld ''biotail'' (CPtr ''struct bio''),
      Fld '''' (CUnion '''' [Fld ''queuelist'' s_list_head,
        Fld ''rq_next'' (CPtr ''struct request'')]),
      Fld ''part'' (CPtr ''struct block_device''),
      Fld ''alloc_time_ns'' t_u64,
      Fld ''start_time_ns'' t_u64,
      Fld ''io_start_time_ns'' t_u64,
      Fld ''wbt_flags'' c_ushort,
      Fld ''stats_sectors'' c_ushort,
      Fld ''nr_phys_segments'' c_ushort,
      Fld ''nr_integrity_segments'' c_ushort,
      Fld ''state'' e_mq_rq_state,
      Fld ''ref'' t_atomic_t,
      Fld ''deadline'' c_ulong,
      Fld '''' (CUnion '''' [Fld ''hash'' s_hlist_node,
        Fld ''ipi_list'' s_llist_node]),
      Fld '''' (CUnion '''' [Fld ''rb_node'' s_rb_node,
        Fld ''special_vec'' s_bio_vec]),
      Fld ''elv'' (CStruct '''' [Fld ''icq'' (CPtr ''struct io_cq''),
        Fld ''priv'' (CArr (CPtr ''void'') 2)]),
      Fld ''flush'' (CStruct '''' [Fld ''seq'' c_uint,
        Fld ''saved_end_io'' (CPtr ''rq_end_io_fn'')]),
      Fld ''fifo_time'' t_u64,
      Fld ''end_io'' (CPtr ''rq_end_io_fn''),
      Fld ''end_io_data'' (CPtr ''void'')]"

lemma s_request_sa [simp]: "size_of s_request = 248" "align_of s_request = 8" "wf_type s_request"
  by (simp_all add: s_request_def c_layout del: One_nat_def)

end
