(* ===== verification/KCgroup.thy ===== *)
theory KCgroup
  imports KBlock
begin

text \<open>
  Kernel types of \<open>ebpf/vmlinux.h\<close>, in dependency order: the types on the path from a task to its cgroup id: \<open>struct css_set\<close>, \<open>struct cgroup\<close>, \<open>struct kernfs_node\<close>.
  A definition keeps every member of its C declaration, in order; each is followed by its size
  and alignment. \<open>s_\<close>, \<open>u_\<close>, \<open>e_\<close> and \<open>t_\<close> stand for struct, union, enum and typedef.
\<close>

definition s_css_set :: ctype where
  "s_css_set = CStruct ''css_set'' [Fld ''subsys'' (CArr (CPtr ''struct cgroup_subsys_state'') 14),
      Fld ''refcount'' t_refcount_t,
      Fld ''dom_cset'' (CPtr ''struct css_set''),
      Fld ''dfl_cgrp'' (CPtr ''struct cgroup''),
      Fld ''nr_tasks'' c_int,
      Fld ''tasks'' s_list_head,
      Fld ''mg_tasks'' s_list_head,
      Fld ''dying_tasks'' s_list_head,
      Fld ''task_iters'' s_list_head,
      Fld ''e_cset_node'' (CArr s_list_head 14),
      Fld ''threaded_csets'' s_list_head,
      Fld ''threaded_csets_node'' s_list_head,
      Fld ''hlist'' s_hlist_node,
      Fld ''cgrp_links'' s_list_head,
      Fld ''mg_src_preload_node'' s_list_head,
      Fld ''mg_dst_preload_node'' s_list_head,
      Fld ''mg_node'' s_list_head,
      Fld ''mg_src_cgrp'' (CPtr ''struct cgroup''),
      Fld ''mg_dst_cgrp'' (CPtr ''struct cgroup''),
      Fld ''mg_dst_cset'' (CPtr ''struct css_set''),
      Fld ''dead'' t_bool,
      Fld ''callback_head'' s_callback_head]"

lemma s_css_set_sa [simp]: "size_of s_css_set = 592" "align_of s_css_set = 8" "wf_type s_css_set"
  by (simp_all add: s_css_set_def c_layout del: One_nat_def)

definition s_percpu_ref :: ctype where
  "s_percpu_ref = CStruct ''percpu_ref'' [Fld ''percpu_count_ptr'' c_ulong,
      Fld ''data'' (CPtr ''struct percpu_ref_data'')]"

lemma s_percpu_ref_sa [simp]: "size_of s_percpu_ref = 16" "align_of s_percpu_ref = 8" "wf_type s_percpu_ref"
  by (simp_all add: s_percpu_ref_def c_layout del: One_nat_def)

definition t_work_func_t :: ctype where
  "t_work_func_t = CPtr ''fn: void''"

lemma t_work_func_t_sa [simp]: "size_of t_work_func_t = 8" "align_of t_work_func_t = 8" "wf_type t_work_func_t"
  by (simp_all add: t_work_func_t_def c_layout del: One_nat_def)

definition s_work_struct :: ctype where
  "s_work_struct = CStruct ''work_struct'' [Fld ''data'' t_atomic_long_t,
      Fld ''entry'' s_list_head,
      Fld ''func'' t_work_func_t]"

lemma s_work_struct_sa [simp]: "size_of s_work_struct = 32" "align_of s_work_struct = 8" "wf_type s_work_struct"
  by (simp_all add: s_work_struct_def c_layout del: One_nat_def)

definition s_rcu_work :: ctype where
  "s_rcu_work = CStruct ''rcu_work'' [Fld ''work'' s_work_struct,
      Fld ''rcu'' s_callback_head,
      Fld ''wq'' (CPtr ''struct workqueue_struct'')]"

lemma s_rcu_work_sa [simp]: "size_of s_rcu_work = 56" "align_of s_rcu_work = 8" "wf_type s_rcu_work"
  by (simp_all add: s_rcu_work_def c_layout del: One_nat_def)

definition s_cgroup_subsys_state :: ctype where
  "s_cgroup_subsys_state = CStruct ''cgroup_subsys_state'' [Fld ''cgroup'' (CPtr ''struct cgroup''),
      Fld ''ss'' (CPtr ''struct cgroup_subsys''),
      Fld ''refcnt'' s_percpu_ref,
      Fld ''sibling'' s_list_head,
      Fld ''children'' s_list_head,
      Fld ''rstat_css_node'' s_list_head,
      Fld ''id'' c_int,
      Fld ''flags'' c_uint,
      Fld ''serial_nr'' t_u64,
      Fld ''online_cnt'' t_atomic_t,
      Fld ''destroy_work'' s_work_struct,
      Fld ''destroy_rwork'' s_rcu_work,
      Fld ''parent'' (CPtr ''struct cgroup_subsys_state''),
      Fld ''nr_descendants'' c_int]"

lemma s_cgroup_subsys_state_sa [simp]: "size_of s_cgroup_subsys_state = 208" "align_of s_cgroup_subsys_state = 8" "wf_type s_cgroup_subsys_state"
  by (simp_all add: s_cgroup_subsys_state_def c_layout del: One_nat_def)

definition s_cgroup_file :: ctype where
  "s_cgroup_file = CStruct ''cgroup_file'' [Fld ''kn'' (CPtr ''struct kernfs_node''),
      Fld ''notified_at'' c_ulong,
      Fld ''notify_timer'' s_timer_list]"

lemma s_cgroup_file_sa [simp]: "size_of s_cgroup_file = 56" "align_of s_cgroup_file = 8" "wf_type s_cgroup_file"
  by (simp_all add: s_cgroup_file_def c_layout del: One_nat_def)

definition s_cacheline_padding :: ctype where
  "s_cacheline_padding = CStruct ''cacheline_padding'' [Fld ''x'' (CArr c_char 0)]"

lemma s_cacheline_padding_sa [simp]: "size_of s_cacheline_padding = 0" "align_of s_cacheline_padding = 1" "wf_type s_cacheline_padding"
  by (simp_all add: s_cacheline_padding_def c_layout del: One_nat_def)

definition s_task_cputime :: ctype where
  "s_task_cputime = CStruct ''task_cputime'' [Fld ''stime'' t_u64,
      Fld ''utime'' t_u64,
      Fld ''sum_exec_runtime'' c_ullong]"

lemma s_task_cputime_sa [simp]: "size_of s_task_cputime = 24" "align_of s_task_cputime = 8" "wf_type s_task_cputime"
  by (simp_all add: s_task_cputime_def c_layout del: One_nat_def)

definition s_cgroup_base_stat :: ctype where
  "s_cgroup_base_stat = CStruct ''cgroup_base_stat'' [Fld ''cputime'' s_task_cputime,
      Fld ''ntime'' t_u64]"

lemma s_cgroup_base_stat_sa [simp]: "size_of s_cgroup_base_stat = 32" "align_of s_cgroup_base_stat = 8" "wf_type s_cgroup_base_stat"
  by (simp_all add: s_cgroup_base_stat_def c_layout del: One_nat_def)

definition s_wait_queue_head :: ctype where
  "s_wait_queue_head = CStruct ''wait_queue_head'' [Fld ''lock'' t_spinlock_t,
      Fld ''head'' s_list_head]"

lemma s_wait_queue_head_sa [simp]: "size_of s_wait_queue_head = 24" "align_of s_wait_queue_head = 8" "wf_type s_wait_queue_head"
  by (simp_all add: s_wait_queue_head_def c_layout del: One_nat_def)

definition t_wait_queue_head_t :: ctype where
  "t_wait_queue_head_t = s_wait_queue_head"

lemma t_wait_queue_head_t_sa [simp]: "size_of t_wait_queue_head_t = 24" "align_of t_wait_queue_head_t = 8" "wf_type t_wait_queue_head_t"
  by (simp_all add: t_wait_queue_head_t_def c_layout del: One_nat_def)

definition s_cgroup_bpf :: ctype where
  "s_cgroup_bpf = CStruct ''cgroup_bpf'' [Fld ''effective'' (CArr (CPtr ''struct bpf_prog_array'') 38),
      Fld ''progs'' (CArr s_hlist_head 38),
      Fld ''flags'' (CArr t_u8 38),
      Fld ''storages'' s_list_head,
      Fld ''inactive'' (CPtr ''struct bpf_prog_array''),
      Fld ''refcnt'' s_percpu_ref,
      Fld ''release_work'' s_work_struct]"

lemma s_cgroup_bpf_sa [simp]: "size_of s_cgroup_bpf = 720" "align_of s_cgroup_bpf = 8" "wf_type s_cgroup_bpf"
  by (simp_all add: s_cgroup_bpf_def c_layout del: One_nat_def)

definition s_cgroup_freezer_state :: ctype where
  "s_cgroup_freezer_state = CStruct ''cgroup_freezer_state'' [Fld ''freeze'' t_bool,
      Fld ''e_freeze'' c_int,
      Fld ''nr_frozen_descendants'' c_int,
      Fld ''nr_frozen_tasks'' c_int]"

lemma s_cgroup_freezer_state_sa [simp]: "size_of s_cgroup_freezer_state = 16" "align_of s_cgroup_freezer_state = 4" "wf_type s_cgroup_freezer_state"
  by (simp_all add: s_cgroup_freezer_state_def c_layout del: One_nat_def)

definition s_cgroup_f1 :: "cfield list" where
  "s_cgroup_f1 =
    [Fld ''self'' s_cgroup_subsys_state,
      Fld ''flags'' c_ulong,
      Fld ''level'' c_int,
      Fld ''max_depth'' c_int,
      Fld ''nr_descendants'' c_int,
      Fld ''nr_dying_descendants'' c_int,
      Fld ''max_descendants'' c_int,
      Fld ''nr_populated_csets'' c_int,
      Fld ''nr_populated_domain_children'' c_int,
      Fld ''nr_populated_threaded_children'' c_int,
      Fld ''nr_threaded_children'' c_int,
      Fld ''kill_seq'' c_uint,
      Fld ''kn'' (CPtr ''struct kernfs_node''),
      Fld ''procs_file'' s_cgroup_file,
      Fld ''events_file'' s_cgroup_file,
      Fld ''psi_files'' (CArr s_cgroup_file 3),
      Fld ''subtree_control'' t_u16,
      Fld ''subtree_ss_mask'' t_u16,
      Fld ''old_subtree_control'' t_u16,
      Fld ''old_subtree_ss_mask'' t_u16,
      Fld ''subsys'' (CArr (CPtr ''struct cgroup_subsys_state'') 14),
      Fld ''nr_dying_subsys'' (CArr c_int 14),
      Fld ''root'' (CPtr ''struct cgroup_root''),
      Fld ''cset_links'' s_list_head,
      Fld ''e_csets'' (CArr s_list_head 14),
      Fld ''dom_cgrp'' (CPtr ''struct cgroup''),
      Fld ''old_dom_cgrp'' (CPtr ''struct cgroup''),
      Fld ''rstat_cpu'' (CPtr ''struct cgroup_rstat_cpu''),
      Fld ''rstat_css_list'' s_list_head,
      Bits '''' c_long 64,
      Bits '''' c_long 64,
      Fld ''_pad_'' s_cacheline_padding,
      Fld ''rstat_flush_next'' (CPtr ''struct cgroup''),
      Fld ''last_bstat'' s_cgroup_base_stat,
      Fld ''bstat'' s_cgroup_base_stat,
      Fld ''prev_cputime'' s_prev_cputime]"

lemma s_cgroup_f1_lay [layout]: "lay s_cgroup_f1 0 = 8960" "fields_align s_cgroup_f1 = 8" "wf_fields s_cgroup_f1"
  by (simp_all add: s_cgroup_f1_def c_layout del: One_nat_def)

definition s_cgroup_f2 :: "cfield list" where
  "s_cgroup_f2 =
    [Fld ''pidlists'' s_list_head,
      Fld ''pidlist_mutex'' s_mutex,
      Fld ''offline_waitq'' t_wait_queue_head_t,
      Fld ''release_agent_work'' s_work_struct,
      Fld ''psi'' (CPtr ''struct psi_group''),
      Fld ''bpf'' s_cgroup_bpf,
      Fld ''freezer'' s_cgroup_freezer_state,
      Fld ''bpf_cgrp_storage'' (CPtr ''struct bpf_local_storage''),
      Fld ''ancestors'' (CArr (CPtr ''struct cgroup'') 0),
      Bits '''' c_long 64]"

lemma s_cgroup_f2_lay [layout]: "lay s_cgroup_f2 8960 = 15872" "fields_align s_cgroup_f2 = 8" "wf_fields s_cgroup_f2"
  by (simp_all add: s_cgroup_f2_def c_layout del: One_nat_def)

definition s_cgroup :: ctype where
  "s_cgroup = CStruct ''cgroup'' (s_cgroup_f1 @ s_cgroup_f2)"

lemma s_cgroup_sa [simp]: "size_of s_cgroup = 1984" "align_of s_cgroup = 8" "wf_type s_cgroup"
  by (simp_all add: s_cgroup_def c_layout layout wf_fields_append lay_append fields_align_append del: One_nat_def)

definition t_umode_t :: ctype where
  "t_umode_t = c_ushort"

lemma t_umode_t_sa [simp]: "size_of t_umode_t = 2" "align_of t_umode_t = 2" "wf_type t_umode_t"
  by (simp_all add: t_umode_t_def c_layout del: One_nat_def)

definition s_kernfs_elem_dir :: ctype where
  "s_kernfs_elem_dir = CStruct ''kernfs_elem_dir'' [Fld ''subdirs'' c_ulong,
      Fld ''children'' s_rb_root,
      Fld ''root'' (CPtr ''struct kernfs_root''),
      Fld ''rev'' c_ulong]"

lemma s_kernfs_elem_dir_sa [simp]: "size_of s_kernfs_elem_dir = 32" "align_of s_kernfs_elem_dir = 8" "wf_type s_kernfs_elem_dir"
  by (simp_all add: s_kernfs_elem_dir_def c_layout del: One_nat_def)

definition s_kernfs_elem_symlink :: ctype where
  "s_kernfs_elem_symlink = CStruct ''kernfs_elem_symlink'' [Fld ''target_kn'' (CPtr ''struct kernfs_node'')]"

lemma s_kernfs_elem_symlink_sa [simp]: "size_of s_kernfs_elem_symlink = 8" "align_of s_kernfs_elem_symlink = 8" "wf_type s_kernfs_elem_symlink"
  by (simp_all add: s_kernfs_elem_symlink_def c_layout del: One_nat_def)

definition t___kernel_loff_t :: ctype where
  "t___kernel_loff_t = c_llong"

lemma t___kernel_loff_t_sa [simp]: "size_of t___kernel_loff_t = 8" "align_of t___kernel_loff_t = 8" "wf_type t___kernel_loff_t"
  by (simp_all add: t___kernel_loff_t_def c_layout del: One_nat_def)

definition t_loff_t :: ctype where
  "t_loff_t = t___kernel_loff_t"

lemma t_loff_t_sa [simp]: "size_of t_loff_t = 8" "align_of t_loff_t = 8" "wf_type t_loff_t"
  by (simp_all add: t_loff_t_def c_layout del: One_nat_def)

definition s_kernfs_elem_attr :: ctype where
  "s_kernfs_elem_attr = CStruct ''kernfs_elem_attr'' [Fld ''ops'' (CPtr ''const struct kernfs_ops''),
      Fld ''open'' (CPtr ''struct kernfs_open_node''),
      Fld ''size'' t_loff_t,
      Fld ''notify_next'' (CPtr ''struct kernfs_node'')]"

lemma s_kernfs_elem_attr_sa [simp]: "size_of s_kernfs_elem_attr = 32" "align_of s_kernfs_elem_attr = 8" "wf_type s_kernfs_elem_attr"
  by (simp_all add: s_kernfs_elem_attr_def c_layout del: One_nat_def)

definition s_kernfs_node :: ctype where
  "s_kernfs_node = CStruct ''kernfs_node'' [Fld ''count'' t_atomic_t,
      Fld ''active'' t_atomic_t,
      Fld ''parent'' (CPtr ''struct kernfs_node''),
      Fld ''name'' (CPtr ''const char''),
      Fld ''rb'' s_rb_node,
      Fld ''ns'' (CPtr ''const void''),
      Fld ''hash'' c_uint,
      Fld ''flags'' c_ushort,
      Fld ''mode'' t_umode_t,
      Fld '''' (CUnion '''' [Fld ''dir'' s_kernfs_elem_dir,
        Fld ''symlink'' s_kernfs_elem_symlink,
        Fld ''attr'' s_kernfs_elem_attr]),
      Fld ''id'' t_u64,
      Fld ''priv'' (CPtr ''void''),
      Fld ''iattr'' (CPtr ''struct kernfs_iattrs''),
      Fld ''rcu'' s_callback_head]"

lemma s_kernfs_node_sa [simp]: "size_of s_kernfs_node = 136" "align_of s_kernfs_node = 8" "wf_type s_kernfs_node"
  by (simp_all add: s_kernfs_node_def c_layout del: One_nat_def)

end
