(* ===== verification/KBlockNear.thy ===== *)
theory KBlockNear
  imports KCgroup
begin

text \<open>
  Kernel types of \<open>ebpf/vmlinux.h\<close>, in dependency order: the types \<open>struct request\<close> points to directly, with the types these embed.
  A definition keeps every member of its C declaration, in order; each is followed by its size
  and alignment. \<open>s_\<close>, \<open>u_\<close>, \<open>e_\<close> and \<open>t_\<close> stand for struct, union, enum and typedef.
\<close>

definition e_rw_hint :: ctype where
  "e_rw_hint = CEnum ''rw_hint'' 1 [(''WRITE_LIFE_NOT_SET'', 0),
      (''WRITE_LIFE_NONE'', 1),
      (''WRITE_LIFE_SHORT'', 2),
      (''WRITE_LIFE_MEDIUM'', 3),
      (''WRITE_LIFE_LONG'', 4),
      (''WRITE_LIFE_EXTREME'', 5)]"

lemma e_rw_hint_sa [simp]: "size_of e_rw_hint = 1" "align_of e_rw_hint = 1" "wf_type e_rw_hint"
  by (simp_all add: e_rw_hint_def c_layout del: One_nat_def)

definition t_blk_status_t :: ctype where
  "t_blk_status_t = t_u8"

lemma t_blk_status_t_sa [simp]: "size_of t_blk_status_t = 1" "align_of t_blk_status_t = 1" "wf_type t_blk_status_t"
  by (simp_all add: t_blk_status_t_def c_layout del: One_nat_def)

definition s_bvec_iter :: ctype where
  "s_bvec_iter = CPacked ''bvec_iter'' [Fld ''bi_sector'' t_sector_t,
      Fld ''bi_size'' c_uint,
      Fld ''bi_idx'' c_uint,
      Fld ''bi_bvec_done'' c_uint]"

lemma s_bvec_iter_sa [simp]: "size_of s_bvec_iter = 20" "align_of s_bvec_iter = 1" "wf_type s_bvec_iter"
  by (simp_all add: s_bvec_iter_def c_layout del: One_nat_def)

definition t_blk_qc_t :: ctype where
  "t_blk_qc_t = c_uint"

lemma t_blk_qc_t_sa [simp]: "size_of t_blk_qc_t = 4" "align_of t_blk_qc_t = 4" "wf_type t_blk_qc_t"
  by (simp_all add: t_blk_qc_t_def c_layout del: One_nat_def)

definition s_bio_issue :: ctype where
  "s_bio_issue = CStruct ''bio_issue'' [Fld ''value'' t_u64]"

lemma s_bio_issue_sa [simp]: "size_of s_bio_issue = 8" "align_of s_bio_issue = 8" "wf_type s_bio_issue"
  by (simp_all add: s_bio_issue_def c_layout del: One_nat_def)

definition s_bio :: ctype where
  "s_bio = CStruct ''bio'' [Fld ''bi_next'' (CPtr ''struct bio''),
      Fld ''bi_bdev'' (CPtr ''struct block_device''),
      Fld ''bi_opf'' t_blk_opf_t,
      Fld ''bi_flags'' c_ushort,
      Fld ''bi_ioprio'' c_ushort,
      Fld ''bi_write_hint'' e_rw_hint,
      Fld ''bi_status'' t_blk_status_t,
      Fld ''__bi_remaining'' t_atomic_t,
      Fld ''bi_iter'' s_bvec_iter,
      Fld '''' (CUnion '''' [Fld ''bi_cookie'' t_blk_qc_t,
        Fld ''__bi_nr_segments'' c_uint]),
      Fld ''bi_end_io'' (CPtr ''bio_end_io_t''),
      Fld ''bi_private'' (CPtr ''void''),
      Fld ''bi_blkg'' (CPtr ''struct blkcg_gq''),
      Fld ''bi_issue'' s_bio_issue,
      Fld ''bi_iocost_cost'' t_u64,
      Fld ''bi_integrity'' (CPtr ''struct bio_integrity_payload''),
      Fld ''bi_vcnt'' c_ushort,
      Fld ''bi_max_vecs'' c_ushort,
      Fld ''__bi_cnt'' t_atomic_t,
      Fld ''bi_io_vec'' (CPtr ''struct bio_vec''),
      Fld ''bi_pool'' (CPtr ''struct bio_set''),
      Fld ''bi_inline_vecs'' (CArr s_bio_vec 0)]"

lemma s_bio_sa [simp]: "size_of s_bio = 128" "align_of s_bio = 8" "wf_type s_bio"
  by (simp_all add: s_bio_def c_layout del: One_nat_def)

definition s_kref :: ctype where
  "s_kref = CStruct ''kref'' [Fld ''refcount'' t_refcount_t]"

lemma s_kref_sa [simp]: "size_of s_kref = 4" "align_of s_kref = 4" "wf_type s_kref"
  by (simp_all add: s_kref_def c_layout del: One_nat_def)

definition s_kobject :: ctype where
  "s_kobject = CStruct ''kobject'' [Fld ''name'' (CPtr ''const char''),
      Fld ''entry'' s_list_head,
      Fld ''parent'' (CPtr ''struct kobject''),
      Fld ''kset'' (CPtr ''struct kset''),
      Fld ''ktype'' (CPtr ''const struct kobj_type''),
      Fld ''sd'' (CPtr ''struct kernfs_node''),
      Fld ''kref'' s_kref,
      Bits ''state_initialized'' c_uint 1,
      Bits ''state_in_sysfs'' c_uint 1,
      Bits ''state_add_uevent_sent'' c_uint 1,
      Bits ''state_remove_uevent_sent'' c_uint 1,
      Bits ''uevent_suppress'' c_uint 1]"

lemma s_kobject_sa [simp]: "size_of s_kobject = 64" "align_of s_kobject = 8" "wf_type s_kobject"
  by (simp_all add: s_kobject_def c_layout del: One_nat_def)

definition s_blk_mq_ctx :: ctype where
  "s_blk_mq_ctx = CStruct ''blk_mq_ctx'' [Fld '''' (CStruct '''' [Fld ''lock'' t_spinlock_t,
        Fld ''rq_lists'' (CArr s_list_head 3),
        Bits '''' c_long 64]),
      Fld ''cpu'' c_uint,
      Fld ''index_hw'' (CArr c_ushort 3),
      Fld ''hctxs'' (CArr (CPtr ''struct blk_mq_hw_ctx'') 3),
      Fld ''queue'' (CPtr ''struct request_queue''),
      Fld ''ctxs'' (CPtr ''struct blk_mq_ctxs''),
      Fld ''kobj'' s_kobject,
      Bits '''' c_long 64]"

lemma s_blk_mq_ctx_sa [simp]: "size_of s_blk_mq_ctx = 192" "align_of s_blk_mq_ctx = 8" "wf_type s_blk_mq_ctx"
  by (simp_all add: s_blk_mq_ctx_def c_layout del: One_nat_def)

definition s_delayed_work :: ctype where
  "s_delayed_work = CStruct ''delayed_work'' [Fld ''work'' s_work_struct,
      Fld ''timer'' s_timer_list,
      Fld ''wq'' (CPtr ''struct workqueue_struct''),
      Fld ''cpu'' c_int]"

lemma s_delayed_work_sa [simp]: "size_of s_delayed_work = 88" "align_of s_delayed_work = 8" "wf_type s_delayed_work"
  by (simp_all add: s_delayed_work_def c_layout del: One_nat_def)

definition t_cpumask_var_t :: ctype where
  "t_cpumask_var_t = CPtr ''struct cpumask''"

lemma t_cpumask_var_t_sa [simp]: "size_of t_cpumask_var_t = 8" "align_of t_cpumask_var_t = 8" "wf_type t_cpumask_var_t"
  by (simp_all add: t_cpumask_var_t_def c_layout del: One_nat_def)

definition s_sbitmap :: ctype where
  "s_sbitmap = CStruct ''sbitmap'' [Fld ''depth'' c_uint,
      Fld ''shift'' c_uint,
      Fld ''map_nr'' c_uint,
      Fld ''round_robin'' t_bool,
      Fld ''map'' (CPtr ''struct sbitmap_word''),
      Fld ''alloc_hint'' (CPtr ''unsigned int'')]"

lemma s_sbitmap_sa [simp]: "size_of s_sbitmap = 32" "align_of s_sbitmap = 8" "wf_type s_sbitmap"
  by (simp_all add: s_sbitmap_def c_layout del: One_nat_def)

definition t_wait_queue_func_t :: ctype where
  "t_wait_queue_func_t = CPtr ''fn: int''"

lemma t_wait_queue_func_t_sa [simp]: "size_of t_wait_queue_func_t = 8" "align_of t_wait_queue_func_t = 8" "wf_type t_wait_queue_func_t"
  by (simp_all add: t_wait_queue_func_t_def c_layout del: One_nat_def)

definition s_wait_queue_entry :: ctype where
  "s_wait_queue_entry = CStruct ''wait_queue_entry'' [Fld ''flags'' c_uint,
      Fld ''private'' (CPtr ''void''),
      Fld ''func'' t_wait_queue_func_t,
      Fld ''entry'' s_list_head]"

lemma s_wait_queue_entry_sa [simp]: "size_of s_wait_queue_entry = 40" "align_of s_wait_queue_entry = 8" "wf_type s_wait_queue_entry"
  by (simp_all add: s_wait_queue_entry_def c_layout del: One_nat_def)

definition t_wait_queue_entry_t :: ctype where
  "t_wait_queue_entry_t = s_wait_queue_entry"

lemma t_wait_queue_entry_t_sa [simp]: "size_of t_wait_queue_entry_t = 40" "align_of t_wait_queue_entry_t = 8" "wf_type t_wait_queue_entry_t"
  by (simp_all add: t_wait_queue_entry_t_def c_layout del: One_nat_def)

definition s_blk_mq_hw_ctx :: ctype where
  "s_blk_mq_hw_ctx = CStruct ''blk_mq_hw_ctx'' [Fld '''' (CStruct '''' [Fld ''lock'' t_spinlock_t,
        Fld ''dispatch'' s_list_head,
        Fld ''state'' c_ulong,
        Bits '''' c_long 64,
        Bits '''' c_long 64,
        Bits '''' c_long 64,
        Bits '''' c_long 64]),
      Fld ''run_work'' s_delayed_work,
      Fld ''cpumask'' t_cpumask_var_t,
      Fld ''next_cpu'' c_int,
      Fld ''next_cpu_batch'' c_int,
      Fld ''flags'' c_ulong,
      Fld ''sched_data'' (CPtr ''void''),
      Fld ''queue'' (CPtr ''struct request_queue''),
      Fld ''fq'' (CPtr ''struct blk_flush_queue''),
      Fld ''driver_data'' (CPtr ''void''),
      Fld ''ctx_map'' s_sbitmap,
      Fld ''dispatch_from'' (CPtr ''struct blk_mq_ctx''),
      Fld ''dispatch_busy'' c_uint,
      Fld ''type'' c_ushort,
      Fld ''nr_ctx'' c_ushort,
      Fld ''ctxs'' (CPtr ''struct blk_mq_ctx ptr''),
      Fld ''dispatch_wait_lock'' t_spinlock_t,
      Fld ''dispatch_wait'' t_wait_queue_entry_t,
      Fld ''wait_index'' t_atomic_t,
      Fld ''tags'' (CPtr ''struct blk_mq_tags''),
      Fld ''sched_tags'' (CPtr ''struct blk_mq_tags''),
      Fld ''numa_node'' c_uint,
      Fld ''queue_num'' c_uint,
      Fld ''nr_active'' t_atomic_t,
      Fld ''cpuhp_online'' s_hlist_node,
      Fld ''cpuhp_dead'' s_hlist_node,
      Fld ''kobj'' s_kobject,
      Fld ''debugfs_dir'' (CPtr ''struct dentry''),
      Fld ''sched_debugfs_dir'' (CPtr ''struct dentry''),
      Fld ''hctx_list'' s_list_head,
      Bits '''' c_long 64,
      Bits '''' c_long 64,
      Bits '''' c_long 64,
      Bits '''' c_long 64]"

lemma s_blk_mq_hw_ctx_sa [simp]: "size_of s_blk_mq_hw_ctx = 512" "align_of s_blk_mq_hw_ctx = 8" "wf_type s_blk_mq_hw_ctx"
  by (simp_all add: s_blk_mq_hw_ctx_def c_layout del: One_nat_def)

definition t___kernel_dev_t :: ctype where
  "t___kernel_dev_t = t_u32"

lemma t___kernel_dev_t_sa [simp]: "size_of t___kernel_dev_t = 4" "align_of t___kernel_dev_t = 4" "wf_type t___kernel_dev_t"
  by (simp_all add: t___kernel_dev_t_def c_layout del: One_nat_def)

definition t_dev_t :: ctype where
  "t_dev_t = t___kernel_dev_t"

lemma t_dev_t_sa [simp]: "size_of t_dev_t = 4" "align_of t_dev_t = 4" "wf_type t_dev_t"
  by (simp_all add: t_dev_t_def c_layout del: One_nat_def)

definition e_dl_dev_state :: ctype where
  "e_dl_dev_state = CEnum ''dl_dev_state'' 4 [(''DL_DEV_NO_DRIVER'', 0),
      (''DL_DEV_PROBING'', 1),
      (''DL_DEV_DRIVER_BOUND'', 2),
      (''DL_DEV_UNBINDING'', 3)]"

lemma e_dl_dev_state_sa [simp]: "size_of e_dl_dev_state = 4" "align_of e_dl_dev_state = 4" "wf_type e_dl_dev_state"
  by (simp_all add: e_dl_dev_state_def c_layout del: One_nat_def)

definition s_dev_links_info :: ctype where
  "s_dev_links_info = CStruct ''dev_links_info'' [Fld ''suppliers'' s_list_head,
      Fld ''consumers'' s_list_head,
      Fld ''defer_sync'' s_list_head,
      Fld ''status'' e_dl_dev_state]"

lemma s_dev_links_info_sa [simp]: "size_of s_dev_links_info = 56" "align_of s_dev_links_info = 8" "wf_type s_dev_links_info"
  by (simp_all add: s_dev_links_info_def c_layout del: One_nat_def)

definition s_pm_message :: ctype where
  "s_pm_message = CStruct ''pm_message'' [Fld ''event'' c_int]"

lemma s_pm_message_sa [simp]: "size_of s_pm_message = 4" "align_of s_pm_message = 4" "wf_type s_pm_message"
  by (simp_all add: s_pm_message_def c_layout del: One_nat_def)

definition t_pm_message_t :: ctype where
  "t_pm_message_t = s_pm_message"

lemma t_pm_message_t_sa [simp]: "size_of t_pm_message_t = 4" "align_of t_pm_message_t = 4" "wf_type t_pm_message_t"
  by (simp_all add: t_pm_message_t_def c_layout del: One_nat_def)

definition s_swait_queue_head :: ctype where
  "s_swait_queue_head = CStruct ''swait_queue_head'' [Fld ''lock'' t_raw_spinlock_t,
      Fld ''task_list'' s_list_head]"

lemma s_swait_queue_head_sa [simp]: "size_of s_swait_queue_head = 24" "align_of s_swait_queue_head = 8" "wf_type s_swait_queue_head"
  by (simp_all add: s_swait_queue_head_def c_layout del: One_nat_def)

definition s_completion :: ctype where
  "s_completion = CStruct ''completion'' [Fld ''done'' c_uint,
      Fld ''wait'' s_swait_queue_head]"

lemma s_completion_sa [simp]: "size_of s_completion = 32" "align_of s_completion = 8" "wf_type s_completion"
  by (simp_all add: s_completion_def c_layout del: One_nat_def)

definition e_rpm_request :: ctype where
  "e_rpm_request = CEnum ''rpm_request'' 4 [(''RPM_REQ_NONE'', 0),
      (''RPM_REQ_IDLE'', 1),
      (''RPM_REQ_SUSPEND'', 2),
      (''RPM_REQ_AUTOSUSPEND'', 3),
      (''RPM_REQ_RESUME'', 4)]"

lemma e_rpm_request_sa [simp]: "size_of e_rpm_request = 4" "align_of e_rpm_request = 4" "wf_type e_rpm_request"
  by (simp_all add: e_rpm_request_def c_layout del: One_nat_def)

definition e_rpm_status :: ctype where
  "e_rpm_status = CEnum ''rpm_status'' 4 [(''RPM_INVALID'', -1),
      (''RPM_ACTIVE'', 0),
      (''RPM_RESUMING'', 1),
      (''RPM_SUSPENDED'', 2),
      (''RPM_SUSPENDING'', 3)]"

lemma e_rpm_status_sa [simp]: "size_of e_rpm_status = 4" "align_of e_rpm_status = 4" "wf_type e_rpm_status"
  by (simp_all add: e_rpm_status_def c_layout del: One_nat_def)

definition s_dev_pm_info_f1 :: "cfield list" where
  "s_dev_pm_info_f1 =
    [Fld ''power_state'' t_pm_message_t,
      Bits ''can_wakeup'' t_bool 1,
      Bits ''async_suspend'' t_bool 1,
      Bits ''in_dpm_list'' t_bool 1,
      Bits ''is_prepared'' t_bool 1,
      Bits ''is_suspended'' t_bool 1,
      Bits ''is_noirq_suspended'' t_bool 1,
      Bits ''is_late_suspended'' t_bool 1,
      Bits ''no_pm'' t_bool 1,
      Bits ''early_init'' t_bool 1,
      Bits ''direct_complete'' t_bool 1,
      Fld ''driver_flags'' t_u32,
      Fld ''lock'' t_spinlock_t,
      Fld ''entry'' s_list_head,
      Fld ''completion'' s_completion,
      Fld ''wakeup'' (CPtr ''struct wakeup_source''),
      Bits ''wakeup_path'' t_bool 1,
      Bits ''syscore'' t_bool 1,
      Bits ''no_pm_callbacks'' t_bool 1,
      Bits ''async_in_progress'' t_bool 1,
      Bits ''must_resume'' t_bool 1,
      Bits ''may_skip_resume'' t_bool 1,
      Fld ''suspend_timer'' s_hrtimer,
      Fld ''timer_expires'' t_u64,
      Fld ''work'' s_work_struct,
      Fld ''wait_queue'' t_wait_queue_head_t,
      Fld ''wakeirq'' (CPtr ''struct wake_irq''),
      Fld ''usage_count'' t_atomic_t,
      Fld ''child_count'' t_atomic_t,
      Bits ''disable_depth'' c_uint 3,
      Bits ''idle_notification'' t_bool 1,
      Bits ''request_pending'' t_bool 1,
      Bits ''deferred_resume'' t_bool 1,
      Bits ''needs_force_resume'' t_bool 1,
      Bits ''runtime_auto'' t_bool 1,
      Bits ''ignore_children'' t_bool 1]"

lemma s_dev_pm_info_f1_lay [layout]: "lay s_dev_pm_info_f1 0 = 1801" "fields_align s_dev_pm_info_f1 = 8" "wf_fields s_dev_pm_info_f1"
  by (simp_all add: s_dev_pm_info_f1_def c_layout del: One_nat_def)

definition s_dev_pm_info_f2 :: "cfield list" where
  "s_dev_pm_info_f2 =
    [Bits ''no_callbacks'' t_bool 1,
      Bits ''irq_safe'' t_bool 1,
      Bits ''use_autosuspend'' t_bool 1,
      Bits ''timer_autosuspends'' t_bool 1,
      Bits ''memalloc_noio'' t_bool 1,
      Fld ''links_count'' c_uint,
      Fld ''request'' e_rpm_request,
      Fld ''runtime_status'' e_rpm_status,
      Fld ''last_status'' e_rpm_status,
      Fld ''runtime_error'' c_int,
      Fld ''autosuspend_delay'' c_int,
      Fld ''last_busy'' t_u64,
      Fld ''active_time'' t_u64,
      Fld ''suspended_time'' t_u64,
      Fld ''accounting_timestamp'' t_u64,
      Fld ''subsys_data'' (CPtr ''struct pm_subsys_data''),
      Fld ''set_latency_tolerance'' (CPtr ''fn: void''),
      Fld ''qos'' (CPtr ''struct dev_pm_qos'')]"

lemma s_dev_pm_info_f2_lay [layout]: "lay s_dev_pm_info_f2 1801 = 2496" "fields_align s_dev_pm_info_f2 = 8" "wf_fields s_dev_pm_info_f2"
  by (simp_all add: s_dev_pm_info_f2_def c_layout del: One_nat_def)

definition s_dev_pm_info :: ctype where
  "s_dev_pm_info = CStruct ''dev_pm_info'' (s_dev_pm_info_f1 @ s_dev_pm_info_f2)"

lemma s_dev_pm_info_sa [simp]: "size_of s_dev_pm_info = 312" "align_of s_dev_pm_info = 8" "wf_type s_dev_pm_info"
  by (simp_all add: s_dev_pm_info_def c_layout layout wf_fields_append lay_append fields_align_append del: One_nat_def)

definition s_dev_msi_info :: ctype where
  "s_dev_msi_info = CStruct ''dev_msi_info'' [Fld ''domain'' (CPtr ''struct irq_domain''),
      Fld ''data'' (CPtr ''struct msi_device_data'')]"

lemma s_dev_msi_info_sa [simp]: "size_of s_dev_msi_info = 16" "align_of s_dev_msi_info = 8" "wf_type s_dev_msi_info"
  by (simp_all add: s_dev_msi_info_def c_layout del: One_nat_def)

definition s_dev_archdata :: ctype where
  "s_dev_archdata = CStruct ''dev_archdata'' []"

lemma s_dev_archdata_sa [simp]: "size_of s_dev_archdata = 0" "align_of s_dev_archdata = 1" "wf_type s_dev_archdata"
  by (simp_all add: s_dev_archdata_def c_layout del: One_nat_def)

definition e_device_removable :: ctype where
  "e_device_removable = CEnum ''device_removable'' 4 [(''DEVICE_REMOVABLE_NOT_SUPPORTED'', 0),
      (''DEVICE_REMOVABLE_UNKNOWN'', 1),
      (''DEVICE_FIXED'', 2),
      (''DEVICE_REMOVABLE'', 3)]"

lemma e_device_removable_sa [simp]: "size_of e_device_removable = 4" "align_of e_device_removable = 4" "wf_type e_device_removable"
  by (simp_all add: e_device_removable_def c_layout del: One_nat_def)

definition s_device_f1 :: "cfield list" where
  "s_device_f1 =
    [Fld ''kobj'' s_kobject,
      Fld ''parent'' (CPtr ''struct device''),
      Fld ''p'' (CPtr ''struct device_private''),
      Fld ''init_name'' (CPtr ''const char''),
      Fld ''type'' (CPtr ''const struct device_type''),
      Fld ''bus'' (CPtr ''const struct bus_type''),
      Fld ''driver'' (CPtr ''struct device_driver''),
      Fld ''platform_data'' (CPtr ''void''),
      Fld ''driver_data'' (CPtr ''void''),
      Fld ''mutex'' s_mutex,
      Fld ''links'' s_dev_links_info,
      Fld ''power'' s_dev_pm_info,
      Fld ''pm_domain'' (CPtr ''struct dev_pm_domain''),
      Fld ''em_pd'' (CPtr ''struct em_perf_domain''),
      Fld ''pins'' (CPtr ''struct dev_pin_info''),
      Fld ''msi'' s_dev_msi_info,
      Fld ''dma_ops'' (CPtr ''const struct dma_map_ops''),
      Fld ''dma_mask'' (CPtr ''u64''),
      Fld ''coherent_dma_mask'' t_u64,
      Fld ''bus_dma_limit'' t_u64,
      Fld ''dma_range_map'' (CPtr ''const struct bus_dma_region''),
      Fld ''dma_parms'' (CPtr ''struct device_dma_parameters''),
      Fld ''dma_pools'' s_list_head,
      Fld ''dma_io_tlb_mem'' (CPtr ''struct io_tlb_mem''),
      Fld ''archdata'' s_dev_archdata,
      Fld ''of_node'' (CPtr ''struct device_node''),
      Fld ''fwnode'' (CPtr ''struct fwnode_handle''),
      Fld ''numa_node'' c_int,
      Fld ''devt'' t_dev_t,
      Fld ''id'' t_u32,
      Fld ''devres_lock'' t_spinlock_t,
      Fld ''devres_head'' s_list_head,
      Fld ''class'' (CPtr ''const struct class''),
      Fld ''groups'' (CPtr ''const struct attribute_group ptr''),
      Fld ''release'' (CPtr ''fn: void''),
      Fld ''iommu_group'' (CPtr ''struct iommu_group'')]"

lemma s_device_f1_lay [layout]: "lay s_device_f1 0 = 5760" "fields_align s_device_f1 = 8" "wf_fields s_device_f1"
  by (simp_all add: s_device_f1_def c_layout del: One_nat_def)

definition s_device_f2 :: "cfield list" where
  "s_device_f2 =
    [Fld ''iommu'' (CPtr ''struct dev_iommu''),
      Fld ''physical_location'' (CPtr ''struct device_physical_location''),
      Fld ''removable'' e_device_removable,
      Bits ''offline_disabled'' t_bool 1,
      Bits ''offline'' t_bool 1,
      Bits ''of_node_reused'' t_bool 1,
      Bits ''state_synced'' t_bool 1,
      Bits ''can_match'' t_bool 1,
      Bits ''dma_skip_sync'' t_bool 1,
      Bits ''dma_iommu'' t_bool 1]"

lemma s_device_f2_lay [layout]: "lay s_device_f2 5760 = 5927" "fields_align s_device_f2 = 8" "wf_fields s_device_f2"
  by (simp_all add: s_device_f2_def c_layout del: One_nat_def)

definition s_device :: ctype where
  "s_device = CStruct ''device'' (s_device_f1 @ s_device_f2)"

lemma s_device_sa [simp]: "size_of s_device = 744" "align_of s_device = 8" "wf_type s_device"
  by (simp_all add: s_device_def c_layout layout wf_fields_append lay_append fields_align_append del: One_nat_def)

definition s_block_device :: ctype where
  "s_block_device = CStruct ''block_device'' [Fld ''bd_start_sect'' t_sector_t,
      Fld ''bd_nr_sectors'' t_sector_t,
      Fld ''bd_disk'' (CPtr ''struct gendisk''),
      Fld ''bd_queue'' (CPtr ''struct request_queue''),
      Fld ''bd_stats'' (CPtr ''struct disk_stats''),
      Fld ''bd_stamp'' c_ulong,
      Fld ''__bd_flags'' t_atomic_t,
      Fld ''bd_dev'' t_dev_t,
      Fld ''bd_mapping'' (CPtr ''struct address_space''),
      Fld ''bd_openers'' t_atomic_t,
      Fld ''bd_size_lock'' t_spinlock_t,
      Fld ''bd_claiming'' (CPtr ''void''),
      Fld ''bd_holder'' (CPtr ''void''),
      Fld ''bd_holder_ops'' (CPtr ''const struct blk_holder_ops''),
      Fld ''bd_holder_lock'' s_mutex,
      Fld ''bd_holders'' c_int,
      Fld ''bd_holder_dir'' (CPtr ''struct kobject''),
      Fld ''bd_fsfreeze_count'' t_atomic_t,
      Fld ''bd_fsfreeze_mutex'' s_mutex,
      Fld ''bd_meta_info'' (CPtr ''struct partition_meta_info''),
      Fld ''bd_writers'' c_int,
      Fld ''bd_security'' (CPtr ''void''),
      Fld ''bd_device'' s_device]"

lemma s_block_device_sa [simp]: "size_of s_block_device = 952" "align_of s_block_device = 8" "wf_type s_block_device"
  by (simp_all add: s_block_device_def c_layout del: One_nat_def)

definition s_io_cq :: ctype where
  "s_io_cq = CStruct ''io_cq'' [Fld ''q'' (CPtr ''struct request_queue''),
      Fld ''ioc'' (CPtr ''struct io_context''),
      Fld '''' (CUnion '''' [Fld ''q_node'' s_list_head,
        Fld ''__rcu_icq_cache'' (CPtr ''struct kmem_cache'')]),
      Fld '''' (CUnion '''' [Fld ''ioc_node'' s_hlist_node,
        Fld ''__rcu_head'' s_callback_head]),
      Fld ''flags'' c_uint]"

lemma s_io_cq_sa [simp]: "size_of s_io_cq = 56" "align_of s_io_cq = 8" "wf_type s_io_cq"
  by (simp_all add: s_io_cq_def c_layout del: One_nat_def)

definition t_gfp_t :: ctype where
  "t_gfp_t = c_uint"

lemma t_gfp_t_sa [simp]: "size_of t_gfp_t = 4" "align_of t_gfp_t = 4" "wf_type t_gfp_t"
  by (simp_all add: t_gfp_t_def c_layout del: One_nat_def)

definition s_xarray :: ctype where
  "s_xarray = CStruct ''xarray'' [Fld ''xa_lock'' t_spinlock_t,
      Fld ''xa_flags'' t_gfp_t,
      Fld ''xa_head'' (CPtr ''void'')]"

lemma s_xarray_sa [simp]: "size_of s_xarray = 16" "align_of s_xarray = 8" "wf_type s_xarray"
  by (simp_all add: s_xarray_def c_layout del: One_nat_def)

definition s_lock_class_key :: ctype where
  "s_lock_class_key = CStruct ''lock_class_key'' []"

lemma s_lock_class_key_sa [simp]: "size_of s_lock_class_key = 0" "align_of s_lock_class_key = 1" "wf_type s_lock_class_key"
  by (simp_all add: s_lock_class_key_def c_layout del: One_nat_def)

definition s_lockdep_map :: ctype where
  "s_lockdep_map = CStruct ''lockdep_map'' []"

lemma s_lockdep_map_sa [simp]: "size_of s_lockdep_map = 0" "align_of s_lockdep_map = 1" "wf_type s_lockdep_map"
  by (simp_all add: s_lockdep_map_def c_layout del: One_nat_def)

definition t_blk_features_t :: ctype where
  "t_blk_features_t = c_uint"

lemma t_blk_features_t_sa [simp]: "size_of t_blk_features_t = 4" "align_of t_blk_features_t = 4" "wf_type t_blk_features_t"
  by (simp_all add: t_blk_features_t_def c_layout del: One_nat_def)

definition t_blk_flags_t :: ctype where
  "t_blk_flags_t = c_uint"

lemma t_blk_flags_t_sa [simp]: "size_of t_blk_flags_t = 4" "align_of t_blk_flags_t = 4" "wf_type t_blk_flags_t"
  by (simp_all add: t_blk_flags_t_def c_layout del: One_nat_def)

definition e_blk_integrity_checksum :: ctype where
  "e_blk_integrity_checksum = CEnum ''blk_integrity_checksum'' 1 [(''BLK_INTEGRITY_CSUM_NONE'', 0),
      (''BLK_INTEGRITY_CSUM_IP'', 1),
      (''BLK_INTEGRITY_CSUM_CRC'', 2),
      (''BLK_INTEGRITY_CSUM_CRC64'', 3)]"

lemma e_blk_integrity_checksum_sa [simp]: "size_of e_blk_integrity_checksum = 1" "align_of e_blk_integrity_checksum = 1" "wf_type e_blk_integrity_checksum"
  by (simp_all add: e_blk_integrity_checksum_def c_layout del: One_nat_def)

definition s_blk_integrity :: ctype where
  "s_blk_integrity = CStruct ''blk_integrity'' [Fld ''flags'' c_uchar,
      Fld ''csum_type'' e_blk_integrity_checksum,
      Fld ''tuple_size'' c_uchar,
      Fld ''pi_offset'' c_uchar,
      Fld ''interval_exp'' c_uchar,
      Fld ''tag_size'' c_uchar]"

lemma s_blk_integrity_sa [simp]: "size_of s_blk_integrity = 6" "align_of s_blk_integrity = 1" "wf_type s_blk_integrity"
  by (simp_all add: s_blk_integrity_def c_layout del: One_nat_def)

definition s_queue_limits_f1 :: "cfield list" where
  "s_queue_limits_f1 =
    [Fld ''features'' t_blk_features_t,
      Fld ''flags'' t_blk_flags_t,
      Fld ''seg_boundary_mask'' c_ulong,
      Fld ''virt_boundary_mask'' c_ulong,
      Fld ''max_hw_sectors'' c_uint,
      Fld ''max_dev_sectors'' c_uint,
      Fld ''chunk_sectors'' c_uint,
      Fld ''max_sectors'' c_uint,
      Fld ''max_user_sectors'' c_uint,
      Fld ''max_segment_size'' c_uint,
      Fld ''physical_block_size'' c_uint,
      Fld ''logical_block_size'' c_uint,
      Fld ''alignment_offset'' c_uint,
      Fld ''io_min'' c_uint,
      Fld ''io_opt'' c_uint,
      Fld ''max_discard_sectors'' c_uint,
      Fld ''max_hw_discard_sectors'' c_uint,
      Fld ''max_user_discard_sectors'' c_uint,
      Fld ''max_secure_erase_sectors'' c_uint,
      Fld ''max_write_zeroes_sectors'' c_uint,
      Fld ''max_zone_append_sectors'' c_uint,
      Fld ''discard_granularity'' c_uint,
      Fld ''discard_alignment'' c_uint,
      Fld ''zone_write_granularity'' c_uint,
      Fld ''atomic_write_hw_max'' c_uint,
      Fld ''atomic_write_max_sectors'' c_uint,
      Fld ''atomic_write_hw_boundary'' c_uint,
      Fld ''atomic_write_boundary_sectors'' c_uint,
      Fld ''atomic_write_hw_unit_min'' c_uint,
      Fld ''atomic_write_unit_min'' c_uint,
      Fld ''atomic_write_hw_unit_max'' c_uint,
      Fld ''atomic_write_unit_max'' c_uint,
      Fld ''max_segments'' c_ushort,
      Fld ''max_integrity_segments'' c_ushort,
      Fld ''max_discard_segments'' c_ushort,
      Fld ''max_open_zones'' c_uint]"

lemma s_queue_limits_f1_lay [layout]: "lay s_queue_limits_f1 0 = 1184" "fields_align s_queue_limits_f1 = 8" "wf_fields s_queue_limits_f1"
  by (simp_all add: s_queue_limits_f1_def c_layout del: One_nat_def)

definition s_queue_limits_f2 :: "cfield list" where
  "s_queue_limits_f2 =
    [Fld ''max_active_zones'' c_uint,
      Fld ''dma_alignment'' c_uint,
      Fld ''dma_pad_mask'' c_uint,
      Fld ''integrity'' s_blk_integrity]"

lemma s_queue_limits_f2_lay [layout]: "lay s_queue_limits_f2 1184 = 1328" "fields_align s_queue_limits_f2 = 4" "wf_fields s_queue_limits_f2"
  by (simp_all add: s_queue_limits_f2_def c_layout del: One_nat_def)

definition s_queue_limits :: ctype where
  "s_queue_limits = CStruct ''queue_limits'' (s_queue_limits_f1 @ s_queue_limits_f2)"

lemma s_queue_limits_sa [simp]: "size_of s_queue_limits = 168" "align_of s_queue_limits = 8" "wf_type s_queue_limits"
  by (simp_all add: s_queue_limits_def c_layout layout wf_fields_append lay_append fields_align_append del: One_nat_def)

definition s_request_queue_f1 :: "cfield list" where
  "s_request_queue_f1 =
    [Fld ''queuedata'' (CPtr ''void''),
      Fld ''elevator'' (CPtr ''struct elevator_queue''),
      Fld ''mq_ops'' (CPtr ''const struct blk_mq_ops''),
      Fld ''queue_ctx'' (CPtr ''struct blk_mq_ctx''),
      Fld ''queue_flags'' c_ulong,
      Fld ''rq_timeout'' c_uint,
      Fld ''queue_depth'' c_uint,
      Fld ''refs'' t_refcount_t,
      Fld ''nr_hw_queues'' c_uint,
      Fld ''hctx_table'' s_xarray,
      Fld ''q_usage_counter'' s_percpu_ref,
      Fld ''io_lock_cls_key'' s_lock_class_key,
      Fld ''io_lockdep_map'' s_lockdep_map,
      Fld ''q_lock_cls_key'' s_lock_class_key,
      Fld ''q_lockdep_map'' s_lockdep_map,
      Fld ''last_merge'' (CPtr ''struct request''),
      Fld ''queue_lock'' t_spinlock_t,
      Fld ''quiesce_depth'' c_int,
      Fld ''disk'' (CPtr ''struct gendisk''),
      Fld ''mq_kobj'' (CPtr ''struct kobject''),
      Fld ''limits'' s_queue_limits,
      Fld ''dev'' (CPtr ''struct device''),
      Fld ''rpm_status'' e_rpm_status,
      Fld ''pm_only'' t_atomic_t,
      Fld ''stats'' (CPtr ''struct blk_queue_stats''),
      Fld ''rq_qos'' (CPtr ''struct rq_qos''),
      Fld ''rq_qos_mutex'' s_mutex,
      Fld ''id'' c_int,
      Fld ''nr_requests'' c_ulong,
      Fld ''timeout'' s_timer_list,
      Fld ''timeout_work'' s_work_struct,
      Fld ''nr_active_requests_shared_tags'' t_atomic_t,
      Fld ''sched_shared_tags'' (CPtr ''struct blk_mq_tags''),
      Fld ''icq_list'' s_list_head,
      Fld ''blkcg_pols'' (CArr c_ulong 1),
      Fld ''root_blkg'' (CPtr ''struct blkcg_gq'')]"

lemma s_request_queue_f1_lay [layout]: "lay s_request_queue_f1 0 = 3904" "fields_align s_request_queue_f1 = 8" "wf_fields s_request_queue_f1"
  by (simp_all add: s_request_queue_f1_def c_layout del: One_nat_def)

definition s_request_queue_f2 :: "cfield list" where
  "s_request_queue_f2 =
    [Fld ''blkg_list'' s_list_head,
      Fld ''blkcg_mutex'' s_mutex,
      Fld ''node'' c_int,
      Fld ''requeue_lock'' t_spinlock_t,
      Fld ''requeue_list'' s_list_head,
      Fld ''requeue_work'' s_delayed_work,
      Fld ''blk_trace'' (CPtr ''struct blk_trace''),
      Fld ''fq'' (CPtr ''struct blk_flush_queue''),
      Fld ''flush_list'' s_list_head,
      Fld ''sysfs_lock'' s_mutex,
      Fld ''sysfs_dir_lock'' s_mutex,
      Fld ''limits_lock'' s_mutex,
      Fld ''unused_hctx_list'' s_list_head,
      Fld ''unused_hctx_lock'' t_spinlock_t,
      Fld ''mq_freeze_depth'' c_int,
      Fld ''td'' (CPtr ''struct throtl_data''),
      Fld ''callback_head'' s_callback_head,
      Fld ''mq_freeze_wq'' t_wait_queue_head_t,
      Fld ''mq_freeze_lock'' s_mutex,
      Fld ''tag_set'' (CPtr ''struct blk_mq_tag_set''),
      Fld ''tag_set_list'' s_list_head,
      Fld ''debugfs_dir'' (CPtr ''struct dentry''),
      Fld ''sched_debugfs_dir'' (CPtr ''struct dentry''),
      Fld ''rqos_debugfs_dir'' (CPtr ''struct dentry''),
      Fld ''debugfs_mutex'' s_mutex,
      Fld ''mq_sysfs_init_done'' t_bool]"

lemma s_request_queue_f2_lay [layout]: "lay s_request_queue_f2 3904 = 7688" "fields_align s_request_queue_f2 = 8" "wf_fields s_request_queue_f2"
  by (simp_all add: s_request_queue_f2_def c_layout del: One_nat_def)

definition s_request_queue :: ctype where
  "s_request_queue = CStruct ''request_queue'' (s_request_queue_f1 @ s_request_queue_f2)"

lemma s_request_queue_sa [simp]: "size_of s_request_queue = 968" "align_of s_request_queue = 8" "wf_type s_request_queue"
  by (simp_all add: s_request_queue_def c_layout layout wf_fields_append lay_append fields_align_append del: One_nat_def)

end
