(* ===== verification/KCgroupNear.thy ===== *)
theory KCgroupNear
  imports KBlockNear
begin

text \<open>
  Kernel types of \<open>ebpf/vmlinux.h\<close>, in dependency order: the types the cgroup types point to directly, with the types these embed.
  A definition keeps every member of its C declaration, in order; each is followed by its size
  and alignment. \<open>s_\<close>, \<open>u_\<close>, \<open>e_\<close> and \<open>t_\<close> stand for struct, union, enum and typedef.
\<close>

definition s_bpf_local_storage :: ctype where
  "s_bpf_local_storage = CStruct ''bpf_local_storage'' [Fld ''cache'' (CArr (CPtr ''struct bpf_local_storage_data'') 16),
      Fld ''smap'' (CPtr ''struct bpf_local_storage_map''),
      Fld ''list'' s_hlist_head,
      Fld ''owner'' (CPtr ''void''),
      Fld ''rcu'' s_callback_head,
      Fld ''lock'' t_raw_spinlock_t]"

lemma s_bpf_local_storage_sa [simp]: "size_of s_bpf_local_storage = 176" "align_of s_bpf_local_storage = 8" "wf_type s_bpf_local_storage"
  by (simp_all add: s_bpf_local_storage_def c_layout del: One_nat_def)

definition s_cgroup_root :: ctype where
  "s_cgroup_root = CStruct ''cgroup_root'' [Fld ''kf_root'' (CPtr ''struct kernfs_root''),
      Fld ''subsys_mask'' c_uint,
      Fld ''hierarchy_id'' c_int,
      Fld ''root_list'' s_list_head,
      Fld ''rcu'' s_callback_head,
      Bits '''' c_long 64,
      Bits '''' c_long 64,
      Fld ''cgrp'' s_cgroup,
      Fld ''cgrp_ancestor_storage'' (CPtr ''struct cgroup''),
      Fld ''nr_cgrps'' t_atomic_t,
      Fld ''flags'' c_uint,
      Fld ''release_agent_path'' (CArr c_char 4096),
      Fld ''name'' (CArr c_char 64),
      Bits '''' c_long 64,
      Bits '''' c_long 64,
      Bits '''' c_long 64,
      Bits '''' c_long 64,
      Bits '''' c_long 64,
      Bits '''' c_long 64]"

lemma s_cgroup_root_sa [simp]: "size_of s_cgroup_root = 6272" "align_of s_cgroup_root = 8" "wf_type s_cgroup_root"
  by (simp_all add: s_cgroup_root_def c_layout del: One_nat_def)

definition s_u64_stats_sync :: ctype where
  "s_u64_stats_sync = CStruct ''u64_stats_sync'' []"

lemma s_u64_stats_sync_sa [simp]: "size_of s_u64_stats_sync = 0" "align_of s_u64_stats_sync = 1" "wf_type s_u64_stats_sync"
  by (simp_all add: s_u64_stats_sync_def c_layout del: One_nat_def)

definition s_cgroup_rstat_cpu :: ctype where
  "s_cgroup_rstat_cpu = CStruct ''cgroup_rstat_cpu'' [Fld ''bsync'' s_u64_stats_sync,
      Fld ''bstat'' s_cgroup_base_stat,
      Fld ''last_bstat'' s_cgroup_base_stat,
      Fld ''subtree_bstat'' s_cgroup_base_stat,
      Fld ''last_subtree_bstat'' s_cgroup_base_stat,
      Fld ''updated_children'' (CPtr ''struct cgroup''),
      Fld ''updated_next'' (CPtr ''struct cgroup'')]"

lemma s_cgroup_rstat_cpu_sa [simp]: "size_of s_cgroup_rstat_cpu = 144" "align_of s_cgroup_rstat_cpu = 8" "wf_type s_cgroup_rstat_cpu"
  by (simp_all add: s_cgroup_rstat_cpu_def c_layout del: One_nat_def)

definition s_psi_group :: ctype where
  "s_psi_group = CStruct ''psi_group'' [Fld ''parent'' (CPtr ''struct psi_group''),
      Fld ''enabled'' t_bool,
      Fld ''avgs_lock'' s_mutex,
      Fld ''pcpu'' (CPtr ''struct psi_group_cpu''),
      Fld ''avg_total'' (CArr t_u64 6),
      Fld ''avg_last_update'' t_u64,
      Fld ''avg_next_update'' t_u64,
      Fld ''avgs_work'' s_delayed_work,
      Fld ''avg_triggers'' s_list_head,
      Fld ''avg_nr_triggers'' (CArr t_u32 6),
      Fld ''total'' (CArr t_u64 12),
      Fld ''avg'' (CArr c_ulong 18),
      Fld ''rtpoll_task'' (CPtr ''struct task_struct''),
      Fld ''rtpoll_timer'' s_timer_list,
      Fld ''rtpoll_wait'' t_wait_queue_head_t,
      Fld ''rtpoll_wakeup'' t_atomic_t,
      Fld ''rtpoll_scheduled'' t_atomic_t,
      Fld ''rtpoll_trigger_lock'' s_mutex,
      Fld ''rtpoll_triggers'' s_list_head,
      Fld ''rtpoll_nr_triggers'' (CArr t_u32 6),
      Fld ''rtpoll_states'' t_u32,
      Fld ''rtpoll_min_period'' t_u64,
      Fld ''rtpoll_total'' (CArr t_u64 6),
      Fld ''rtpoll_next_update'' t_u64,
      Fld ''rtpoll_until'' t_u64]"

lemma s_psi_group_sa [simp]: "size_of s_psi_group = 720" "align_of s_psi_group = 8" "wf_type s_psi_group"
  by (simp_all add: s_psi_group_def c_layout del: One_nat_def)

definition t___kernel_gid32_t :: ctype where
  "t___kernel_gid32_t = c_uint"

lemma t___kernel_gid32_t_sa [simp]: "size_of t___kernel_gid32_t = 4" "align_of t___kernel_gid32_t = 4" "wf_type t___kernel_gid32_t"
  by (simp_all add: t___kernel_gid32_t_def c_layout del: One_nat_def)

definition t_gid_t :: ctype where
  "t_gid_t = t___kernel_gid32_t"

lemma t_gid_t_sa [simp]: "size_of t_gid_t = 4" "align_of t_gid_t = 4" "wf_type t_gid_t"
  by (simp_all add: t_gid_t_def c_layout del: One_nat_def)

definition t_kgid_t :: ctype where
  "t_kgid_t = CStruct '''' [Fld ''val'' t_gid_t]"

lemma t_kgid_t_sa [simp]: "size_of t_kgid_t = 4" "align_of t_kgid_t = 4" "wf_type t_kgid_t"
  by (simp_all add: t_kgid_t_def c_layout del: One_nat_def)

definition t_time64_t :: ctype where
  "t_time64_t = t___s64"

lemma t_time64_t_sa [simp]: "size_of t_time64_t = 8" "align_of t_time64_t = 8" "wf_type t_time64_t"
  by (simp_all add: t_time64_t_def c_layout del: One_nat_def)

definition s_timespec64 :: ctype where
  "s_timespec64 = CStruct ''timespec64'' [Fld ''tv_sec'' t_time64_t,
      Fld ''tv_nsec'' c_long]"

lemma s_timespec64_sa [simp]: "size_of s_timespec64 = 16" "align_of s_timespec64 = 8" "wf_type s_timespec64"
  by (simp_all add: s_timespec64_def c_layout del: One_nat_def)

definition s_qrwlock :: ctype where
  "s_qrwlock = CStruct ''qrwlock'' [Fld '''' (CUnion '''' [Fld ''cnts'' t_atomic_t,
        Fld '''' (CStruct '''' [Fld ''wlocked'' t_u8,
          Fld ''__lstate'' (CArr t_u8 3)])]),
      Fld ''wait_lock'' t_arch_spinlock_t]"

lemma s_qrwlock_sa [simp]: "size_of s_qrwlock = 8" "align_of s_qrwlock = 4" "wf_type s_qrwlock"
  by (simp_all add: s_qrwlock_def c_layout del: One_nat_def)

definition t_arch_rwlock_t :: ctype where
  "t_arch_rwlock_t = s_qrwlock"

lemma t_arch_rwlock_t_sa [simp]: "size_of t_arch_rwlock_t = 8" "align_of t_arch_rwlock_t = 4" "wf_type t_arch_rwlock_t"
  by (simp_all add: t_arch_rwlock_t_def c_layout del: One_nat_def)

definition t_rwlock_t :: ctype where
  "t_rwlock_t = CStruct '''' [Fld ''raw_lock'' t_arch_rwlock_t]"

lemma t_rwlock_t_sa [simp]: "size_of t_rwlock_t = 8" "align_of t_rwlock_t = 4" "wf_type t_rwlock_t"
  by (simp_all add: t_rwlock_t_def c_layout del: One_nat_def)

definition s_simple_xattrs :: ctype where
  "s_simple_xattrs = CStruct ''simple_xattrs'' [Fld ''rb_root'' s_rb_root,
      Fld ''lock'' t_rwlock_t]"

lemma s_simple_xattrs_sa [simp]: "size_of s_simple_xattrs = 16" "align_of s_simple_xattrs = 8" "wf_type s_simple_xattrs"
  by (simp_all add: s_simple_xattrs_def c_layout del: One_nat_def)

definition s_kernfs_iattrs :: ctype where
  "s_kernfs_iattrs = CStruct ''kernfs_iattrs'' [Fld ''ia_uid'' t_kuid_t,
      Fld ''ia_gid'' t_kgid_t,
      Fld ''ia_atime'' s_timespec64,
      Fld ''ia_mtime'' s_timespec64,
      Fld ''ia_ctime'' s_timespec64,
      Fld ''xattrs'' s_simple_xattrs,
      Fld ''nr_user_xattrs'' t_atomic_t,
      Fld ''user_xattr_size'' t_atomic_t]"

lemma s_kernfs_iattrs_sa [simp]: "size_of s_kernfs_iattrs = 80" "align_of s_kernfs_iattrs = 8" "wf_type s_kernfs_iattrs"
  by (simp_all add: s_kernfs_iattrs_def c_layout del: One_nat_def)

end
