(* ===== verification/KTaskNear.thy ===== *)
theory KTaskNear
  imports KCgroupNear
begin

text \<open>
  Kernel types of \<open>ebpf/vmlinux.h\<close>, in dependency order: the types \<open>struct task_struct\<close> points to directly, with the types these embed.
  A definition keeps every member of its C declaration, in order; each is followed by its size
  and alignment. \<open>s_\<close>, \<open>u_\<close>, \<open>e_\<close> and \<open>t_\<close> stand for struct, union, enum and typedef.
\<close>

definition s_rw_semaphore :: ctype where
  "s_rw_semaphore = CStruct ''rw_semaphore'' [Fld ''count'' t_atomic_long_t,
      Fld ''owner'' t_atomic_long_t,
      Fld ''osq'' s_optimistic_spin_queue,
      Fld ''wait_lock'' t_raw_spinlock_t,
      Fld ''wait_list'' s_list_head]"

lemma s_rw_semaphore_sa [simp]: "size_of s_rw_semaphore = 40" "align_of s_rw_semaphore = 8" "wf_type s_rw_semaphore"
  by (simp_all add: s_rw_semaphore_def c_layout del: One_nat_def)

definition t_errseq_t :: ctype where
  "t_errseq_t = t_u32"

lemma t_errseq_t_sa [simp]: "size_of t_errseq_t = 4" "align_of t_errseq_t = 4" "wf_type t_errseq_t"
  by (simp_all add: t_errseq_t_def c_layout del: One_nat_def)

definition s_address_space :: ctype where
  "s_address_space = CStruct ''address_space'' [Fld ''host'' (CPtr ''struct inode''),
      Fld ''i_pages'' s_xarray,
      Fld ''invalidate_lock'' s_rw_semaphore,
      Fld ''gfp_mask'' t_gfp_t,
      Fld ''i_mmap_writable'' t_atomic_t,
      Fld ''i_mmap'' s_rb_root_cached,
      Fld ''nrpages'' c_ulong,
      Fld ''writeback_index'' c_ulong,
      Fld ''a_ops'' (CPtr ''const struct address_space_operations''),
      Fld ''flags'' c_ulong,
      Fld ''wb_err'' t_errseq_t,
      Fld ''i_private_lock'' t_spinlock_t,
      Fld ''i_private_list'' s_list_head,
      Fld ''i_mmap_rwsem'' s_rw_semaphore,
      Fld ''i_private_data'' (CPtr ''void'')]"

lemma s_address_space_sa [simp]: "size_of s_address_space = 192" "align_of s_address_space = 8" "wf_type s_address_space"
  by (simp_all add: s_address_space_def c_layout del: One_nat_def)

definition e_audit_state :: ctype where
  "e_audit_state = CEnum ''audit_state'' 4 [(''AUDIT_STATE_DISABLED'', 0),
      (''AUDIT_STATE_BUILD'', 1),
      (''AUDIT_STATE_RECORD'', 2)]"

lemma e_audit_state_sa [simp]: "size_of e_audit_state = 4" "align_of e_audit_state = 4" "wf_type e_audit_state"
  by (simp_all add: e_audit_state_def c_layout del: One_nat_def)

definition t_kernel_cap_t :: ctype where
  "t_kernel_cap_t = CStruct '''' [Fld ''val'' t_u64]"

lemma t_kernel_cap_t_sa [simp]: "size_of t_kernel_cap_t = 8" "align_of t_kernel_cap_t = 8" "wf_type t_kernel_cap_t"
  by (simp_all add: t_kernel_cap_t_def c_layout del: One_nat_def)

definition s_audit_cap_data :: ctype where
  "s_audit_cap_data = CStruct ''audit_cap_data'' [Fld ''permitted'' t_kernel_cap_t,
      Fld ''inheritable'' t_kernel_cap_t,
      Fld '''' (CUnion '''' [Fld ''fE'' c_uint,
        Fld ''effective'' t_kernel_cap_t]),
      Fld ''ambient'' t_kernel_cap_t,
      Fld ''rootid'' t_kuid_t]"

lemma s_audit_cap_data_sa [simp]: "size_of s_audit_cap_data = 40" "align_of s_audit_cap_data = 8" "wf_type s_audit_cap_data"
  by (simp_all add: s_audit_cap_data_def c_layout del: One_nat_def)

definition s_audit_names :: ctype where
  "s_audit_names = CStruct ''audit_names'' [Fld ''list'' s_list_head,
      Fld ''name'' (CPtr ''struct filename''),
      Fld ''name_len'' c_int,
      Fld ''hidden'' t_bool,
      Fld ''ino'' c_ulong,
      Fld ''dev'' t_dev_t,
      Fld ''mode'' t_umode_t,
      Fld ''uid'' t_kuid_t,
      Fld ''gid'' t_kgid_t,
      Fld ''rdev'' t_dev_t,
      Fld ''osid'' t_u32,
      Fld ''fcap'' s_audit_cap_data,
      Fld ''fcap_ver'' c_uint,
      Fld ''type'' c_uchar,
      Fld ''should_free'' t_bool]"

lemma s_audit_names_sa [simp]: "size_of s_audit_names = 112" "align_of s_audit_names = 8" "wf_type s_audit_names"
  by (simp_all add: s_audit_names_def c_layout del: One_nat_def)

definition s_path :: ctype where
  "s_path = CStruct ''path'' [Fld ''mnt'' (CPtr ''struct vfsmount''),
      Fld ''dentry'' (CPtr ''struct dentry'')]"

lemma s_path_sa [simp]: "size_of s_path = 16" "align_of s_path = 8" "wf_type s_path"
  by (simp_all add: s_path_def c_layout del: One_nat_def)

definition t___kernel_mqd_t :: ctype where
  "t___kernel_mqd_t = c_int"

lemma t___kernel_mqd_t_sa [simp]: "size_of t___kernel_mqd_t = 4" "align_of t___kernel_mqd_t = 4" "wf_type t___kernel_mqd_t"
  by (simp_all add: t___kernel_mqd_t_def c_layout del: One_nat_def)

definition t_mqd_t :: ctype where
  "t_mqd_t = t___kernel_mqd_t"

lemma t_mqd_t_sa [simp]: "size_of t_mqd_t = 4" "align_of t_mqd_t = 4" "wf_type t_mqd_t"
  by (simp_all add: t_mqd_t_def c_layout del: One_nat_def)

definition t___kernel_long_t :: ctype where
  "t___kernel_long_t = c_long"

lemma t___kernel_long_t_sa [simp]: "size_of t___kernel_long_t = 8" "align_of t___kernel_long_t = 8" "wf_type t___kernel_long_t"
  by (simp_all add: t___kernel_long_t_def c_layout del: One_nat_def)

definition s_mq_attr :: ctype where
  "s_mq_attr = CStruct ''mq_attr'' [Fld ''mq_flags'' t___kernel_long_t,
      Fld ''mq_maxmsg'' t___kernel_long_t,
      Fld ''mq_msgsize'' t___kernel_long_t,
      Fld ''mq_curmsgs'' t___kernel_long_t,
      Fld ''__reserved'' (CArr t___kernel_long_t 4)]"

lemma s_mq_attr_sa [simp]: "size_of s_mq_attr = 64" "align_of s_mq_attr = 8" "wf_type s_mq_attr"
  by (simp_all add: s_mq_attr_def c_layout del: One_nat_def)

definition s_open_how :: ctype where
  "s_open_how = CStruct ''open_how'' [Fld ''flags'' t___u64,
      Fld ''mode'' t___u64,
      Fld ''resolve'' t___u64]"

lemma s_open_how_sa [simp]: "size_of s_open_how = 24" "align_of s_open_how = 8" "wf_type s_open_how"
  by (simp_all add: s_open_how_def c_layout del: One_nat_def)

definition s_audit_ntp_val :: ctype where
  "s_audit_ntp_val = CStruct ''audit_ntp_val'' [Fld ''oldval'' c_llong,
      Fld ''newval'' c_llong]"

lemma s_audit_ntp_val_sa [simp]: "size_of s_audit_ntp_val = 16" "align_of s_audit_ntp_val = 8" "wf_type s_audit_ntp_val"
  by (simp_all add: s_audit_ntp_val_def c_layout del: One_nat_def)

definition s_audit_ntp_data :: ctype where
  "s_audit_ntp_data = CStruct ''audit_ntp_data'' [Fld ''vals'' (CArr s_audit_ntp_val 6)]"

lemma s_audit_ntp_data_sa [simp]: "size_of s_audit_ntp_data = 96" "align_of s_audit_ntp_data = 8" "wf_type s_audit_ntp_data"
  by (simp_all add: s_audit_ntp_data_def c_layout del: One_nat_def)

definition s_audit_proctitle :: ctype where
  "s_audit_proctitle = CStruct ''audit_proctitle'' [Fld ''len'' c_int,
      Fld ''value'' (CPtr ''char'')]"

lemma s_audit_proctitle_sa [simp]: "size_of s_audit_proctitle = 16" "align_of s_audit_proctitle = 8" "wf_type s_audit_proctitle"
  by (simp_all add: s_audit_proctitle_def c_layout del: One_nat_def)

definition s_audit_context_f1 :: "cfield list" where
  "s_audit_context_f1 =
    [Fld ''dummy'' c_int,
      Fld ''context'' (CEnum '''' 4 [(''AUDIT_CTX_UNUSED'', 0),
        (''AUDIT_CTX_SYSCALL'', 1),
        (''AUDIT_CTX_URING'', 2)]),
      Fld ''state'' e_audit_state,
      Fld ''current_state'' e_audit_state,
      Fld ''serial'' c_uint,
      Fld ''major'' c_int,
      Fld ''uring_op'' c_int,
      Fld ''ctime'' s_timespec64,
      Fld ''argv'' (CArr c_ulong 4),
      Fld ''return_code'' c_long,
      Fld ''prio'' t_u64,
      Fld ''return_valid'' c_int,
      Fld ''preallocated_names'' (CArr s_audit_names 5),
      Fld ''name_count'' c_int,
      Fld ''names_list'' s_list_head,
      Fld ''filterkey'' (CPtr ''char''),
      Fld ''pwd'' s_path,
      Fld ''aux'' (CPtr ''struct audit_aux_data''),
      Fld ''aux_pids'' (CPtr ''struct audit_aux_data''),
      Fld ''sockaddr'' (CPtr ''struct __kernel_sockaddr_storage''),
      Fld ''sockaddr_len'' t_size_t,
      Fld ''ppid'' t_pid_t,
      Fld ''uid'' t_kuid_t,
      Fld ''euid'' t_kuid_t,
      Fld ''suid'' t_kuid_t,
      Fld ''fsuid'' t_kuid_t,
      Fld ''gid'' t_kgid_t,
      Fld ''egid'' t_kgid_t,
      Fld ''sgid'' t_kgid_t,
      Fld ''fsgid'' t_kgid_t,
      Fld ''personality'' c_ulong,
      Fld ''arch'' c_int,
      Fld ''target_pid'' t_pid_t,
      Fld ''target_auid'' t_kuid_t,
      Fld ''target_uid'' t_kuid_t,
      Fld ''target_sessionid'' c_uint]"

lemma s_audit_context_f1_lay [layout]: "lay s_audit_context_f1 0 = 6496" "fields_align s_audit_context_f1 = 8" "wf_fields s_audit_context_f1"
  by (simp_all add: s_audit_context_f1_def c_layout del: One_nat_def)

definition s_audit_context_f2 :: "cfield list" where
  "s_audit_context_f2 =
    [Fld ''target_sid'' t_u32,
      Fld ''target_comm'' (CArr c_char 16),
      Fld ''trees'' (CPtr ''struct audit_tree_refs''),
      Fld ''first_trees'' (CPtr ''struct audit_tree_refs''),
      Fld ''killed_trees'' s_list_head,
      Fld ''tree_count'' c_int,
      Fld ''type'' c_int,
      Fld '''' (CUnion '''' [Fld ''socketcall'' (CStruct '''' [Fld ''nargs'' c_int,
          Fld ''args'' (CArr c_long 6)]),
        Fld ''ipc'' (CStruct '''' [Fld ''uid'' t_kuid_t,
          Fld ''gid'' t_kgid_t,
          Fld ''mode'' t_umode_t,
          Fld ''osid'' t_u32,
          Fld ''has_perm'' c_int,
          Fld ''perm_uid'' t_uid_t,
          Fld ''perm_gid'' t_gid_t,
          Fld ''perm_mode'' t_umode_t,
          Fld ''qbytes'' c_ulong]),
        Fld ''mq_getsetattr'' (CStruct '''' [Fld ''mqdes'' t_mqd_t,
          Fld ''mqstat'' s_mq_attr]),
        Fld ''mq_notify'' (CStruct '''' [Fld ''mqdes'' t_mqd_t,
          Fld ''sigev_signo'' c_int]),
        Fld ''mq_sendrecv'' (CStruct '''' [Fld ''mqdes'' t_mqd_t,
          Fld ''msg_len'' t_size_t,
          Fld ''msg_prio'' c_uint,
          Fld ''abs_timeout'' s_timespec64]),
        Fld ''mq_open'' (CStruct '''' [Fld ''oflag'' c_int,
          Fld ''mode'' t_umode_t,
          Fld ''attr'' s_mq_attr]),
        Fld ''capset'' (CStruct '''' [Fld ''pid'' t_pid_t,
          Fld ''cap'' s_audit_cap_data]),
        Fld ''mmap'' (CStruct '''' [Fld ''fd'' c_int,
          Fld ''flags'' c_int]),
        Fld ''openat2'' s_open_how,
        Fld ''execve'' (CStruct '''' [Fld ''argc'' c_int]),
        Fld ''module'' (CStruct '''' [Fld ''name'' (CPtr ''const char'')]),
        Fld ''time'' (CStruct '''' [Fld ''ntp_data'' s_audit_ntp_data,
          Fld ''tk_injoffset'' s_timespec64])]),
      Fld ''fds'' (CArr c_int 2),
      Fld ''proctitle'' s_audit_proctitle]"

lemma s_audit_context_f2_lay [layout]: "lay s_audit_context_f2 6496 = 8064" "fields_align s_audit_context_f2 = 8" "wf_fields s_audit_context_f2"
  by (simp_all add: s_audit_context_f2_def c_layout del: One_nat_def)

definition s_audit_context :: ctype where
  "s_audit_context = CStruct ''audit_context'' (s_audit_context_f1 @ s_audit_context_f2)"

lemma s_audit_context_sa [simp]: "size_of s_audit_context = 1008" "align_of s_audit_context = 8" "wf_type s_audit_context"
  by (simp_all add: s_audit_context_def c_layout layout wf_fields_append lay_append fields_align_append del: One_nat_def)

definition s_bio_list :: ctype where
  "s_bio_list = CStruct ''bio_list'' [Fld ''head'' (CPtr ''struct bio''),
      Fld ''tail'' (CPtr ''struct bio'')]"

lemma s_bio_list_sa [simp]: "size_of s_bio_list = 16" "align_of s_bio_list = 8" "wf_type s_bio_list"
  by (simp_all add: s_bio_list_def c_layout del: One_nat_def)

definition s_rq_list :: ctype where
  "s_rq_list = CStruct ''rq_list'' [Fld ''head'' (CPtr ''struct request''),
      Fld ''tail'' (CPtr ''struct request'')]"

lemma s_rq_list_sa [simp]: "size_of s_rq_list = 16" "align_of s_rq_list = 8" "wf_type s_rq_list"
  by (simp_all add: s_rq_list_def c_layout del: One_nat_def)

definition s_blk_plug :: ctype where
  "s_blk_plug = CStruct ''blk_plug'' [Fld ''mq_list'' s_rq_list,
      Fld ''cached_rqs'' s_rq_list,
      Fld ''cur_ktime'' t_u64,
      Fld ''nr_ios'' c_ushort,
      Fld ''rq_count'' c_ushort,
      Fld ''multiple_queues'' t_bool,
      Fld ''has_elevator'' t_bool,
      Fld ''cb_list'' s_list_head]"

lemma s_blk_plug_sa [simp]: "size_of s_blk_plug = 64" "align_of s_blk_plug = 8" "wf_type s_blk_plug"
  by (simp_all add: s_blk_plug_def c_layout del: One_nat_def)

definition e_bpf_map_type :: ctype where
  "e_bpf_map_type = CEnum ''bpf_map_type'' 4 [(''BPF_MAP_TYPE_UNSPEC'', 0),
      (''BPF_MAP_TYPE_HASH'', 1),
      (''BPF_MAP_TYPE_ARRAY'', 2),
      (''BPF_MAP_TYPE_PROG_ARRAY'', 3),
      (''BPF_MAP_TYPE_PERF_EVENT_ARRAY'', 4),
      (''BPF_MAP_TYPE_PERCPU_HASH'', 5),
      (''BPF_MAP_TYPE_PERCPU_ARRAY'', 6),
      (''BPF_MAP_TYPE_STACK_TRACE'', 7),
      (''BPF_MAP_TYPE_CGROUP_ARRAY'', 8),
      (''BPF_MAP_TYPE_LRU_HASH'', 9),
      (''BPF_MAP_TYPE_LRU_PERCPU_HASH'', 10),
      (''BPF_MAP_TYPE_LPM_TRIE'', 11),
      (''BPF_MAP_TYPE_ARRAY_OF_MAPS'', 12),
      (''BPF_MAP_TYPE_HASH_OF_MAPS'', 13),
      (''BPF_MAP_TYPE_DEVMAP'', 14),
      (''BPF_MAP_TYPE_SOCKMAP'', 15),
      (''BPF_MAP_TYPE_CPUMAP'', 16),
      (''BPF_MAP_TYPE_XSKMAP'', 17),
      (''BPF_MAP_TYPE_SOCKHASH'', 18),
      (''BPF_MAP_TYPE_CGROUP_STORAGE_DEPRECATED'', 19),
      (''BPF_MAP_TYPE_CGROUP_STORAGE'', 19),
      (''BPF_MAP_TYPE_REUSEPORT_SOCKARRAY'', 20),
      (''BPF_MAP_TYPE_PERCPU_CGROUP_STORAGE_DEPRECATED'', 21),
      (''BPF_MAP_TYPE_PERCPU_CGROUP_STORAGE'', 21),
      (''BPF_MAP_TYPE_QUEUE'', 22),
      (''BPF_MAP_TYPE_STACK'', 23),
      (''BPF_MAP_TYPE_SK_STORAGE'', 24),
      (''BPF_MAP_TYPE_DEVMAP_HASH'', 25),
      (''BPF_MAP_TYPE_STRUCT_OPS'', 26),
      (''BPF_MAP_TYPE_RINGBUF'', 27),
      (''BPF_MAP_TYPE_INODE_STORAGE'', 28),
      (''BPF_MAP_TYPE_TASK_STORAGE'', 29),
      (''BPF_MAP_TYPE_BLOOM_FILTER'', 30),
      (''BPF_MAP_TYPE_USER_RINGBUF'', 31),
      (''BPF_MAP_TYPE_CGRP_STORAGE'', 32),
      (''BPF_MAP_TYPE_ARENA'', 33),
      (''__MAX_BPF_MAP_TYPE'', 34)]"

lemma e_bpf_map_type_sa [simp]: "size_of e_bpf_map_type = 4" "align_of e_bpf_map_type = 4" "wf_type e_bpf_map_type"
  by (simp_all add: e_bpf_map_type_def c_layout del: One_nat_def)

definition t___be16 :: ctype where
  "t___be16 = t___u16"

lemma t___be16_sa [simp]: "size_of t___be16 = 2" "align_of t___be16 = 2" "wf_type t___be16"
  by (simp_all add: t___be16_def c_layout del: One_nat_def)

definition t___be32 :: ctype where
  "t___be32 = t___u32"

lemma t___be32_sa [simp]: "size_of t___be32 = 4" "align_of t___be32 = 4" "wf_type t___be32"
  by (simp_all add: t___be32_def c_layout del: One_nat_def)

definition s_in6_addr :: ctype where
  "s_in6_addr = CStruct ''in6_addr'' [Fld ''in6_u'' (CUnion '''' [Fld ''u6_addr8'' (CArr t___u8 16),
        Fld ''u6_addr16'' (CArr t___be16 8),
        Fld ''u6_addr32'' (CArr t___be32 4)])]"

lemma s_in6_addr_sa [simp]: "size_of s_in6_addr = 16" "align_of s_in6_addr = 4" "wf_type s_in6_addr"
  by (simp_all add: s_in6_addr_def c_layout del: One_nat_def)

definition s_bpf_nh_params :: ctype where
  "s_bpf_nh_params = CStruct ''bpf_nh_params'' [Fld ''nh_family'' t_u32,
      Fld '''' (CUnion '''' [Fld ''ipv4_nh'' t_u32,
        Fld ''ipv6_nh'' s_in6_addr])]"

lemma s_bpf_nh_params_sa [simp]: "size_of s_bpf_nh_params = 20" "align_of s_bpf_nh_params = 4" "wf_type s_bpf_nh_params"
  by (simp_all add: s_bpf_nh_params_def c_layout del: One_nat_def)

definition s_bpf_redirect_info :: ctype where
  "s_bpf_redirect_info = CStruct ''bpf_redirect_info'' [Fld ''tgt_index'' t_u64,
      Fld ''tgt_value'' (CPtr ''void''),
      Fld ''map'' (CPtr ''struct bpf_map''),
      Fld ''flags'' t_u32,
      Fld ''map_id'' t_u32,
      Fld ''map_type'' e_bpf_map_type,
      Fld ''nh'' s_bpf_nh_params,
      Fld ''kern_flags'' t_u32]"

lemma s_bpf_redirect_info_sa [simp]: "size_of s_bpf_redirect_info = 64" "align_of s_bpf_redirect_info = 8" "wf_type s_bpf_redirect_info"
  by (simp_all add: s_bpf_redirect_info_def c_layout del: One_nat_def)

definition s_bpf_net_context :: ctype where
  "s_bpf_net_context = CStruct ''bpf_net_context'' [Fld ''ri'' s_bpf_redirect_info,
      Fld ''cpu_map_flush_list'' s_list_head,
      Fld ''dev_map_flush_list'' s_list_head,
      Fld ''xskmap_map_flush_list'' s_list_head]"

lemma s_bpf_net_context_sa [simp]: "size_of s_bpf_net_context = 112" "align_of s_bpf_net_context = 8" "wf_type s_bpf_net_context"
  by (simp_all add: s_bpf_net_context_def c_layout del: One_nat_def)

definition s_bpf_run_ctx :: ctype where
  "s_bpf_run_ctx = CStruct ''bpf_run_ctx'' []"

lemma s_bpf_run_ctx_sa [simp]: "size_of s_bpf_run_ctx = 0" "align_of s_bpf_run_ctx = 1" "wf_type s_bpf_run_ctx"
  by (simp_all add: s_bpf_run_ctx_def c_layout del: One_nat_def)

definition s_capture_control :: ctype where
  "s_capture_control = CStruct ''capture_control'' [Fld ''cc'' (CPtr ''struct compact_control''),
      Fld ''page'' (CPtr ''struct page'')]"

lemma s_capture_control_sa [simp]: "size_of s_capture_control = 16" "align_of s_capture_control = 8" "wf_type s_capture_control"
  by (simp_all add: s_capture_control_def c_layout del: One_nat_def)

definition t_compat_uptr_t :: ctype where
  "t_compat_uptr_t = t_u32"

lemma t_compat_uptr_t_sa [simp]: "size_of t_compat_uptr_t = 4" "align_of t_compat_uptr_t = 4" "wf_type t_compat_uptr_t"
  by (simp_all add: t_compat_uptr_t_def c_layout del: One_nat_def)

definition s_compat_robust_list :: ctype where
  "s_compat_robust_list = CStruct ''compat_robust_list'' [Fld ''next'' t_compat_uptr_t]"

lemma s_compat_robust_list_sa [simp]: "size_of s_compat_robust_list = 4" "align_of s_compat_robust_list = 4" "wf_type s_compat_robust_list"
  by (simp_all add: s_compat_robust_list_def c_layout del: One_nat_def)

definition t___s32 :: ctype where
  "t___s32 = c_int"

lemma t___s32_sa [simp]: "size_of t___s32 = 4" "align_of t___s32 = 4" "wf_type t___s32"
  by (simp_all add: t___s32_def c_layout del: One_nat_def)

definition t_s32 :: ctype where
  "t_s32 = t___s32"

lemma t_s32_sa [simp]: "size_of t_s32 = 4" "align_of t_s32 = 4" "wf_type t_s32"
  by (simp_all add: t_s32_def c_layout del: One_nat_def)

definition t_compat_long_t :: ctype where
  "t_compat_long_t = t_s32"

lemma t_compat_long_t_sa [simp]: "size_of t_compat_long_t = 4" "align_of t_compat_long_t = 4" "wf_type t_compat_long_t"
  by (simp_all add: t_compat_long_t_def c_layout del: One_nat_def)

definition s_compat_robust_list_head :: ctype where
  "s_compat_robust_list_head = CStruct ''compat_robust_list_head'' [Fld ''list'' s_compat_robust_list,
      Fld ''futex_offset'' t_compat_long_t,
      Fld ''list_op_pending'' t_compat_uptr_t]"

lemma s_compat_robust_list_head_sa [simp]: "size_of s_compat_robust_list_head = 12" "align_of s_compat_robust_list_head = 4" "wf_type s_compat_robust_list_head"
  by (simp_all add: s_compat_robust_list_head_def c_layout del: One_nat_def)

definition s_cred :: ctype where
  "s_cred = CStruct ''cred'' [Fld ''usage'' t_atomic_long_t,
      Fld ''uid'' t_kuid_t,
      Fld ''gid'' t_kgid_t,
      Fld ''suid'' t_kuid_t,
      Fld ''sgid'' t_kgid_t,
      Fld ''euid'' t_kuid_t,
      Fld ''egid'' t_kgid_t,
      Fld ''fsuid'' t_kuid_t,
      Fld ''fsgid'' t_kgid_t,
      Fld ''securebits'' c_uint,
      Fld ''cap_inheritable'' t_kernel_cap_t,
      Fld ''cap_permitted'' t_kernel_cap_t,
      Fld ''cap_effective'' t_kernel_cap_t,
      Fld ''cap_bset'' t_kernel_cap_t,
      Fld ''cap_ambient'' t_kernel_cap_t,
      Fld ''jit_keyring'' c_uchar,
      Fld ''session_keyring'' (CPtr ''struct key''),
      Fld ''process_keyring'' (CPtr ''struct key''),
      Fld ''thread_keyring'' (CPtr ''struct key''),
      Fld ''request_key_auth'' (CPtr ''struct key''),
      Fld ''security'' (CPtr ''void''),
      Fld ''user'' (CPtr ''struct user_struct''),
      Fld ''user_ns'' (CPtr ''struct user_namespace''),
      Fld ''ucounts'' (CPtr ''struct ucounts''),
      Fld ''group_info'' (CPtr ''struct group_info''),
      Fld '''' (CUnion '''' [Fld ''non_rcu'' c_int,
        Fld ''rcu'' s_callback_head])]"

lemma s_cred_sa [simp]: "size_of s_cred = 184" "align_of s_cred = 8" "wf_type s_cred"
  by (simp_all add: s_cred_def c_layout del: One_nat_def)

definition s_fdtable :: ctype where
  "s_fdtable = CStruct ''fdtable'' [Fld ''max_fds'' c_uint,
      Fld ''fd'' (CPtr ''struct file ptr''),
      Fld ''close_on_exec'' (CPtr ''long unsigned int''),
      Fld ''open_fds'' (CPtr ''long unsigned int''),
      Fld ''full_fds_bits'' (CPtr ''long unsigned int''),
      Fld ''rcu'' s_callback_head]"

lemma s_fdtable_sa [simp]: "size_of s_fdtable = 56" "align_of s_fdtable = 8" "wf_type s_fdtable"
  by (simp_all add: s_fdtable_def c_layout del: One_nat_def)

definition s_files_struct :: ctype where
  "s_files_struct = CStruct ''files_struct'' [Fld ''count'' t_atomic_t,
      Fld ''resize_in_progress'' t_bool,
      Fld ''resize_wait'' t_wait_queue_head_t,
      Fld ''fdt'' (CPtr ''struct fdtable''),
      Fld ''fdtab'' s_fdtable,
      Bits '''' c_long 64,
      Bits '''' c_long 64,
      Bits '''' c_long 64,
      Bits '''' c_long 64,
      Fld ''file_lock'' t_spinlock_t,
      Fld ''next_fd'' c_uint,
      Fld ''close_on_exec_init'' (CArr c_ulong 1),
      Fld ''open_fds_init'' (CArr c_ulong 1),
      Fld ''full_fds_bits_init'' (CArr c_ulong 1),
      Fld ''fd_array'' (CArr (CPtr ''struct file'') 64),
      Bits '''' c_long 64,
      Bits '''' c_long 64,
      Bits '''' c_long 64,
      Bits '''' c_long 64]"

lemma s_files_struct_sa [simp]: "size_of s_files_struct = 704" "align_of s_files_struct = 8" "wf_type s_files_struct"
  by (simp_all add: s_files_struct_def c_layout del: One_nat_def)

definition s_fs_struct :: ctype where
  "s_fs_struct = CStruct ''fs_struct'' [Fld ''users'' c_int,
      Fld ''lock'' t_spinlock_t,
      Fld ''seq'' t_seqcount_spinlock_t,
      Fld ''umask'' c_int,
      Fld ''in_exec'' c_int,
      Fld ''root'' s_path,
      Fld ''pwd'' s_path]"

lemma s_fs_struct_sa [simp]: "size_of s_fs_struct = 56" "align_of s_fs_struct = 8" "wf_type s_fs_struct"
  by (simp_all add: s_fs_struct_def c_layout del: One_nat_def)

definition s_rt_mutex_base :: ctype where
  "s_rt_mutex_base = CStruct ''rt_mutex_base'' [Fld ''wait_lock'' t_raw_spinlock_t,
      Fld ''waiters'' s_rb_root_cached,
      Fld ''owner'' (CPtr ''struct task_struct'')]"

lemma s_rt_mutex_base_sa [simp]: "size_of s_rt_mutex_base = 32" "align_of s_rt_mutex_base = 8" "wf_type s_rt_mutex_base"
  by (simp_all add: s_rt_mutex_base_def c_layout del: One_nat_def)

definition u_futex_key :: ctype where
  "u_futex_key = CUnion ''futex_key'' [Fld ''shared'' (CStruct '''' [Fld ''i_seq'' t_u64,
        Fld ''pgoff'' c_ulong,
        Fld ''offset'' c_uint]),
      Fld ''private'' (CStruct '''' [Fld '''' (CUnion '''' [Fld ''mm'' (CPtr ''struct mm_struct''),
          Fld ''__tmp'' t_u64]),
        Fld ''address'' c_ulong,
        Fld ''offset'' c_uint]),
      Fld ''both'' (CStruct '''' [Fld ''ptr'' t_u64,
        Fld ''word'' c_ulong,
        Fld ''offset'' c_uint])]"

lemma u_futex_key_sa [simp]: "size_of u_futex_key = 24" "align_of u_futex_key = 8" "wf_type u_futex_key"
  by (simp_all add: u_futex_key_def c_layout del: One_nat_def)

definition s_futex_pi_state :: ctype where
  "s_futex_pi_state = CStruct ''futex_pi_state'' [Fld ''list'' s_list_head,
      Fld ''pi_mutex'' s_rt_mutex_base,
      Fld ''owner'' (CPtr ''struct task_struct''),
      Fld ''refcount'' t_refcount_t,
      Fld ''key'' u_futex_key]"

lemma s_futex_pi_state_sa [simp]: "size_of s_futex_pi_state = 88" "align_of s_futex_pi_state = 8" "wf_type s_futex_pi_state"
  by (simp_all add: s_futex_pi_state_def c_layout del: One_nat_def)

definition s_mempool_s :: ctype where
  "s_mempool_s = CStruct ''mempool_s'' [Fld ''lock'' t_spinlock_t,
      Fld ''min_nr'' c_int,
      Fld ''curr_nr'' c_int,
      Fld ''elements'' (CPtr ''void ptr''),
      Fld ''pool_data'' (CPtr ''void''),
      Fld ''alloc'' (CPtr ''mempool_alloc_t''),
      Fld ''free'' (CPtr ''mempool_free_t''),
      Fld ''wait'' t_wait_queue_head_t]"

lemma s_mempool_s_sa [simp]: "size_of s_mempool_s = 72" "align_of s_mempool_s = 8" "wf_type s_mempool_s"
  by (simp_all add: s_mempool_s_def c_layout del: One_nat_def)

definition t_mempool_t :: ctype where
  "t_mempool_t = s_mempool_s"

lemma t_mempool_t_sa [simp]: "size_of t_mempool_t = 72" "align_of t_mempool_t = 8" "wf_type t_mempool_t"
  by (simp_all add: t_mempool_t_def c_layout del: One_nat_def)

definition s_bio_set :: ctype where
  "s_bio_set = CStruct ''bio_set'' [Fld ''bio_slab'' (CPtr ''struct kmem_cache''),
      Fld ''front_pad'' c_uint,
      Fld ''cache'' (CPtr ''struct bio_alloc_cache''),
      Fld ''bio_pool'' t_mempool_t,
      Fld ''bvec_pool'' t_mempool_t,
      Fld ''bio_integrity_pool'' t_mempool_t,
      Fld ''bvec_integrity_pool'' t_mempool_t,
      Fld ''back_pad'' c_uint,
      Fld ''rescue_lock'' t_spinlock_t,
      Fld ''rescue_list'' s_bio_list,
      Fld ''rescue_work'' s_work_struct,
      Fld ''rescue_workqueue'' (CPtr ''struct workqueue_struct''),
      Fld ''cpuhp_dead'' s_hlist_node]"

lemma s_bio_set_sa [simp]: "size_of s_bio_set = 392" "align_of s_bio_set = 8" "wf_type s_bio_set"
  by (simp_all add: s_bio_set_def c_layout del: One_nat_def)

definition t_blk_mode_t :: ctype where
  "t_blk_mode_t = c_uint"

lemma t_blk_mode_t_sa [simp]: "size_of t_blk_mode_t = 4" "align_of t_blk_mode_t = 4" "wf_type t_blk_mode_t"
  by (simp_all add: t_blk_mode_t_def c_layout del: One_nat_def)

definition s_gendisk_f1 :: "cfield list" where
  "s_gendisk_f1 =
    [Fld ''major'' c_int,
      Fld ''first_minor'' c_int,
      Fld ''minors'' c_int,
      Fld ''disk_name'' (CArr c_char 32),
      Fld ''events'' c_ushort,
      Fld ''event_flags'' c_ushort,
      Fld ''part_tbl'' s_xarray,
      Fld ''part0'' (CPtr ''struct block_device''),
      Fld ''fops'' (CPtr ''const struct block_device_operations''),
      Fld ''queue'' (CPtr ''struct request_queue''),
      Fld ''private_data'' (CPtr ''void''),
      Fld ''bio_split'' s_bio_set,
      Fld ''flags'' c_int,
      Fld ''state'' c_ulong,
      Fld ''open_mutex'' s_mutex,
      Fld ''open_partitions'' c_uint,
      Fld ''bdi'' (CPtr ''struct backing_dev_info''),
      Fld ''queue_kobj'' s_kobject,
      Fld ''slave_dir'' (CPtr ''struct kobject''),
      Fld ''slave_bdevs'' s_list_head,
      Fld ''random'' (CPtr ''struct timer_rand_state''),
      Fld ''sync_io'' t_atomic_t,
      Fld ''ev'' (CPtr ''struct disk_events''),
      Fld ''nr_zones'' c_uint,
      Fld ''zone_capacity'' c_uint,
      Fld ''last_zone_capacity'' c_uint,
      Fld ''conv_zones_bitmap'' (CPtr ''long unsigned int''),
      Fld ''zone_wplugs_hash_bits'' c_uint,
      Fld ''nr_zone_wplugs'' t_atomic_t,
      Fld ''zone_wplugs_lock'' t_spinlock_t,
      Fld ''zone_wplugs_pool'' (CPtr ''struct mempool_s''),
      Fld ''zone_wplugs_hash'' (CPtr ''struct hlist_head''),
      Fld ''zone_wplugs_wq'' (CPtr ''struct workqueue_struct''),
      Fld ''cdi'' (CPtr ''struct cdrom_device_info''),
      Fld ''node_id'' c_int,
      Fld ''bb'' (CPtr ''struct badblocks'')]"

lemma s_gendisk_f1_lay [layout]: "lay s_gendisk_f1 0 = 6016" "fields_align s_gendisk_f1 = 8" "wf_fields s_gendisk_f1"
  by (simp_all add: s_gendisk_f1_def c_layout del: One_nat_def)

definition s_gendisk_f2 :: "cfield list" where
  "s_gendisk_f2 =
    [Fld ''lockdep_map'' s_lockdep_map,
      Fld ''diskseq'' t_u64,
      Fld ''open_mode'' t_blk_mode_t,
      Fld ''ia_ranges'' (CPtr ''struct blk_independent_access_ranges'')]"

lemma s_gendisk_f2_lay [layout]: "lay s_gendisk_f2 6016 = 6208" "fields_align s_gendisk_f2 = 8" "wf_fields s_gendisk_f2"
  by (simp_all add: s_gendisk_f2_def c_layout del: One_nat_def)

definition s_gendisk :: ctype where
  "s_gendisk = CStruct ''gendisk'' (s_gendisk_f1 @ s_gendisk_f2)"

lemma s_gendisk_sa [simp]: "size_of s_gendisk = 776" "align_of s_gendisk = 8" "wf_type s_gendisk"
  by (simp_all add: s_gendisk_def c_layout layout wf_fields_append lay_append fields_align_append del: One_nat_def)

definition s_io_context :: ctype where
  "s_io_context = CStruct ''io_context'' [Fld ''refcount'' t_atomic_long_t,
      Fld ''active_ref'' t_atomic_t,
      Fld ''ioprio'' c_ushort,
      Fld ''lock'' t_spinlock_t,
      Fld ''icq_tree'' s_xarray,
      Fld ''icq_hint'' (CPtr ''struct io_cq''),
      Fld ''icq_list'' s_hlist_head,
      Fld ''release_work'' s_work_struct]"

lemma s_io_context_sa [simp]: "size_of s_io_context = 88" "align_of s_io_context = 8" "wf_type s_io_context"
  by (simp_all add: s_io_context_def c_layout del: One_nat_def)

definition s_percpu_counter :: ctype where
  "s_percpu_counter = CStruct ''percpu_counter'' [Fld ''lock'' t_raw_spinlock_t,
      Fld ''count'' t_s64,
      Fld ''list'' s_list_head,
      Fld ''counters'' (CPtr ''s32'')]"

lemma s_percpu_counter_sa [simp]: "size_of s_percpu_counter = 40" "align_of s_percpu_counter = 8" "wf_type s_percpu_counter"
  by (simp_all add: s_percpu_counter_def c_layout del: One_nat_def)

definition s_io_uring_task :: ctype where
  "s_io_uring_task = CStruct ''io_uring_task'' [Fld ''cached_refs'' c_int,
      Fld ''last'' (CPtr ''const struct io_ring_ctx''),
      Fld ''io_wq'' (CPtr ''struct io_wq''),
      Fld ''registered_rings'' (CArr (CPtr ''struct file'') 16),
      Fld ''xa'' s_xarray,
      Fld ''wait'' s_wait_queue_head,
      Fld ''in_cancel'' t_atomic_t,
      Fld ''inflight_tracked'' t_atomic_t,
      Fld ''inflight'' s_percpu_counter,
      Bits '''' c_long 64,
      Bits '''' c_long 64,
      Fld '''' (CStruct '''' [Fld ''task_list'' s_llist_head,
        Fld ''task_work'' s_callback_head,
        Bits '''' c_long 64,
        Bits '''' c_long 64,
        Bits '''' c_long 64,
        Bits '''' c_long 64,
        Bits '''' c_long 64])]"

lemma s_io_uring_task_sa [simp]: "size_of s_io_uring_task = 320" "align_of s_io_uring_task = 8" "wf_type s_io_uring_task"
  by (simp_all add: s_io_uring_task_def c_layout del: One_nat_def)

definition t_int32_t :: ctype where
  "t_int32_t = t_s32"

lemma t_int32_t_sa [simp]: "size_of t_int32_t = 4" "align_of t_int32_t = 4" "wf_type t_int32_t"
  by (simp_all add: t_int32_t_def c_layout del: One_nat_def)

definition t_key_serial_t :: ctype where
  "t_key_serial_t = t_int32_t"

lemma t_key_serial_t_sa [simp]: "size_of t_key_serial_t = 4" "align_of t_key_serial_t = 4" "wf_type t_key_serial_t"
  by (simp_all add: t_key_serial_t_def c_layout del: One_nat_def)

definition t_uint32_t :: ctype where
  "t_uint32_t = t_u32"

lemma t_uint32_t_sa [simp]: "size_of t_uint32_t = 4" "align_of t_uint32_t = 4" "wf_type t_uint32_t"
  by (simp_all add: t_uint32_t_def c_layout del: One_nat_def)

definition t_key_perm_t :: ctype where
  "t_key_perm_t = t_uint32_t"

lemma t_key_perm_t_sa [simp]: "size_of t_key_perm_t = 4" "align_of t_key_perm_t = 4" "wf_type t_key_perm_t"
  by (simp_all add: t_key_perm_t_def c_layout del: One_nat_def)

definition s_keyring_index_key :: ctype where
  "s_keyring_index_key = CStruct ''keyring_index_key'' [Fld ''hash'' c_ulong,
      Fld '''' (CUnion '''' [Fld '''' (CStruct '''' [Fld ''desc_len'' t_u16,
          Fld ''desc'' (CArr c_char 6)]),
        Fld ''x'' c_ulong]),
      Fld ''type'' (CPtr ''struct key_type''),
      Fld ''domain_tag'' (CPtr ''struct key_tag''),
      Fld ''description'' (CPtr ''const char'')]"

lemma s_keyring_index_key_sa [simp]: "size_of s_keyring_index_key = 40" "align_of s_keyring_index_key = 8" "wf_type s_keyring_index_key"
  by (simp_all add: s_keyring_index_key_def c_layout del: One_nat_def)

definition u_key_payload :: ctype where
  "u_key_payload = CUnion ''key_payload'' [Fld ''rcu_data0'' (CPtr ''void''),
      Fld ''data'' (CArr (CPtr ''void'') 4)]"

lemma u_key_payload_sa [simp]: "size_of u_key_payload = 32" "align_of u_key_payload = 8" "wf_type u_key_payload"
  by (simp_all add: u_key_payload_def c_layout del: One_nat_def)

definition s_assoc_array :: ctype where
  "s_assoc_array = CStruct ''assoc_array'' [Fld ''root'' (CPtr ''struct assoc_array_ptr''),
      Fld ''nr_leaves_on_tree'' c_ulong]"

lemma s_assoc_array_sa [simp]: "size_of s_assoc_array = 16" "align_of s_assoc_array = 8" "wf_type s_assoc_array"
  by (simp_all add: s_assoc_array_def c_layout del: One_nat_def)

definition s_key :: ctype where
  "s_key = CStruct ''key'' [Fld ''usage'' t_refcount_t,
      Fld ''serial'' t_key_serial_t,
      Fld '''' (CUnion '''' [Fld ''graveyard_link'' s_list_head,
        Fld ''serial_node'' s_rb_node]),
      Fld ''sem'' s_rw_semaphore,
      Fld ''user'' (CPtr ''struct key_user''),
      Fld ''security'' (CPtr ''void''),
      Fld '''' (CUnion '''' [Fld ''expiry'' t_time64_t,
        Fld ''revoked_at'' t_time64_t]),
      Fld ''last_used_at'' t_time64_t,
      Fld ''uid'' t_kuid_t,
      Fld ''gid'' t_kgid_t,
      Fld ''perm'' t_key_perm_t,
      Fld ''quotalen'' c_ushort,
      Fld ''datalen'' c_ushort,
      Fld ''state'' c_short,
      Fld ''flags'' c_ulong,
      Fld '''' (CUnion '''' [Fld ''index_key'' s_keyring_index_key,
        Fld '''' (CStruct '''' [Fld ''hash'' c_ulong,
          Fld ''len_desc'' c_ulong,
          Fld ''type'' (CPtr ''struct key_type''),
          Fld ''domain_tag'' (CPtr ''struct key_tag''),
          Fld ''description'' (CPtr ''char'')])]),
      Fld '''' (CUnion '''' [Fld ''payload'' u_key_payload,
        Fld '''' (CStruct '''' [Fld ''name_link'' s_list_head,
          Fld ''keys'' s_assoc_array])]),
      Fld ''restrict_link'' (CPtr ''struct key_restriction'')]"

lemma s_key_sa [simp]: "size_of s_key = 216" "align_of s_key = 8" "wf_type s_key"
  by (simp_all add: s_key_def c_layout del: One_nat_def)

definition s_mem_cgroup_id :: ctype where
  "s_mem_cgroup_id = CStruct ''mem_cgroup_id'' [Fld ''id'' c_int,
      Fld ''ref'' t_refcount_t]"

lemma s_mem_cgroup_id_sa [simp]: "size_of s_mem_cgroup_id = 8" "align_of s_mem_cgroup_id = 4" "wf_type s_mem_cgroup_id"
  by (simp_all add: s_mem_cgroup_id_def c_layout del: One_nat_def)

definition s_page_counter :: ctype where
  "s_page_counter = CStruct ''page_counter'' [Fld ''usage'' t_atomic_long_t,
      Bits '''' c_long 64,
      Bits '''' c_long 64,
      Bits '''' c_long 64,
      Bits '''' c_long 64,
      Bits '''' c_long 64,
      Bits '''' c_long 64,
      Bits '''' c_long 64,
      Fld ''_pad1_'' s_cacheline_padding,
      Fld ''emin'' c_ulong,
      Fld ''min_usage'' t_atomic_long_t,
      Fld ''children_min_usage'' t_atomic_long_t,
      Fld ''elow'' c_ulong,
      Fld ''low_usage'' t_atomic_long_t,
      Fld ''children_low_usage'' t_atomic_long_t,
      Fld ''watermark'' c_ulong,
      Fld ''local_watermark'' c_ulong,
      Fld ''failcnt'' c_ulong,
      Bits '''' c_long 64,
      Bits '''' c_long 64,
      Bits '''' c_long 64,
      Bits '''' c_long 64,
      Bits '''' c_long 64,
      Bits '''' c_long 64,
      Bits '''' c_long 64,
      Fld ''_pad2_'' s_cacheline_padding,
      Fld ''protection_support'' t_bool,
      Fld ''min'' c_ulong,
      Fld ''low'' c_ulong,
      Fld ''high'' c_ulong,
      Fld ''max'' c_ulong,
      Fld ''parent'' (CPtr ''struct page_counter''),
      Bits '''' c_long 64,
      Bits '''' c_long 64]"

lemma s_page_counter_sa [simp]: "size_of s_page_counter = 256" "align_of s_page_counter = 8" "wf_type s_page_counter"
  by (simp_all add: s_page_counter_def c_layout del: One_nat_def)

definition s_vmpressure :: ctype where
  "s_vmpressure = CStruct ''vmpressure'' [Fld ''scanned'' c_ulong,
      Fld ''reclaimed'' c_ulong,
      Fld ''tree_scanned'' c_ulong,
      Fld ''tree_reclaimed'' c_ulong,
      Fld ''sr_lock'' t_spinlock_t,
      Fld ''events'' s_list_head,
      Fld ''events_lock'' s_mutex,
      Fld ''work'' s_work_struct]"

lemma s_vmpressure_sa [simp]: "size_of s_vmpressure = 120" "align_of s_vmpressure = 8" "wf_type s_vmpressure"
  by (simp_all add: s_vmpressure_def c_layout del: One_nat_def)

definition s_fprop_global :: ctype where
  "s_fprop_global = CStruct ''fprop_global'' [Fld ''events'' s_percpu_counter,
      Fld ''period'' c_uint,
      Fld ''sequence'' t_seqcount_t]"

lemma s_fprop_global_sa [simp]: "size_of s_fprop_global = 48" "align_of s_fprop_global = 8" "wf_type s_fprop_global"
  by (simp_all add: s_fprop_global_def c_layout del: One_nat_def)

definition s_wb_domain :: ctype where
  "s_wb_domain = CStruct ''wb_domain'' [Fld ''lock'' t_spinlock_t,
      Fld ''completions'' s_fprop_global,
      Fld ''period_timer'' s_timer_list,
      Fld ''period_time'' c_ulong,
      Fld ''dirty_limit_tstamp'' c_ulong,
      Fld ''dirty_limit'' c_ulong]"

lemma s_wb_domain_sa [simp]: "size_of s_wb_domain = 120" "align_of s_wb_domain = 8" "wf_type s_wb_domain"
  by (simp_all add: s_wb_domain_def c_layout del: One_nat_def)

definition s_wb_completion :: ctype where
  "s_wb_completion = CStruct ''wb_completion'' [Fld ''cnt'' t_atomic_t,
      Fld ''waitq'' (CPtr ''wait_queue_head_t'')]"

lemma s_wb_completion_sa [simp]: "size_of s_wb_completion = 16" "align_of s_wb_completion = 8" "wf_type s_wb_completion"
  by (simp_all add: s_wb_completion_def c_layout del: One_nat_def)

definition s_memcg_cgwb_frn :: ctype where
  "s_memcg_cgwb_frn = CStruct ''memcg_cgwb_frn'' [Fld ''bdi_id'' t_u64,
      Fld ''memcg_id'' c_int,
      Fld ''at'' t_u64,
      Fld ''done'' s_wb_completion]"

lemma s_memcg_cgwb_frn_sa [simp]: "size_of s_memcg_cgwb_frn = 40" "align_of s_memcg_cgwb_frn = 8" "wf_type s_memcg_cgwb_frn"
  by (simp_all add: s_memcg_cgwb_frn_def c_layout del: One_nat_def)

definition s_deferred_split :: ctype where
  "s_deferred_split = CStruct ''deferred_split'' [Fld ''split_queue_lock'' t_spinlock_t,
      Fld ''split_queue'' s_list_head,
      Fld ''split_queue_len'' c_ulong]"

lemma s_deferred_split_sa [simp]: "size_of s_deferred_split = 32" "align_of s_deferred_split = 8" "wf_type s_deferred_split"
  by (simp_all add: s_deferred_split_def c_layout del: One_nat_def)

definition s_lru_gen_mm_list :: ctype where
  "s_lru_gen_mm_list = CStruct ''lru_gen_mm_list'' [Fld ''fifo'' s_list_head,
      Fld ''lock'' t_spinlock_t]"

lemma s_lru_gen_mm_list_sa [simp]: "size_of s_lru_gen_mm_list = 24" "align_of s_lru_gen_mm_list = 8" "wf_type s_lru_gen_mm_list"
  by (simp_all add: s_lru_gen_mm_list_def c_layout del: One_nat_def)

definition s_mem_cgroup_f1 :: "cfield list" where
  "s_mem_cgroup_f1 =
    [Fld ''css'' s_cgroup_subsys_state,
      Fld ''id'' s_mem_cgroup_id,
      Bits '''' c_long 64,
      Bits '''' c_long 64,
      Bits '''' c_long 64,
      Bits '''' c_long 64,
      Bits '''' c_long 64,
      Fld ''memory'' s_page_counter,
      Fld '''' (CUnion '''' [Fld ''swap'' s_page_counter,
        Fld ''memsw'' s_page_counter]),
      Fld ''memory_peaks'' s_list_head,
      Fld ''swap_peaks'' s_list_head,
      Fld ''peaks_lock'' t_spinlock_t,
      Fld ''high_work'' s_work_struct,
      Fld ''zswap_max'' c_ulong,
      Fld ''zswap_writeback'' t_bool,
      Fld ''vmpressure'' s_vmpressure,
      Fld ''oom_group'' t_bool,
      Fld ''swappiness'' c_int,
      Fld ''events_file'' s_cgroup_file,
      Fld ''events_local_file'' s_cgroup_file,
      Fld ''swap_events_file'' s_cgroup_file,
      Fld ''vmstats'' (CPtr ''struct memcg_vmstats''),
      Fld ''memory_events'' (CArr t_atomic_long_t 9),
      Fld ''memory_events_local'' (CArr t_atomic_long_t 9),
      Fld ''socket_pressure'' c_ulong,
      Fld ''kmemcg_id'' c_int,
      Fld ''objcg'' (CPtr ''struct obj_cgroup''),
      Fld ''orig_objcg'' (CPtr ''struct obj_cgroup''),
      Fld ''objcg_list'' s_list_head,
      Fld ''vmstats_percpu'' (CPtr ''struct memcg_vmstats_percpu''),
      Fld ''cgwb_list'' s_list_head,
      Fld ''cgwb_domain'' s_wb_domain,
      Fld ''cgwb_frn'' (CArr s_memcg_cgwb_frn 4),
      Fld ''deferred_split_queue'' s_deferred_split,
      Fld ''mm_list'' s_lru_gen_mm_list,
      Fld ''nodeinfo'' (CArr (CPtr ''struct mem_cgroup_per_node'') 0)]"

lemma s_mem_cgroup_f1_lay [layout]: "lay s_mem_cgroup_f1 0 = 13696" "fields_align s_mem_cgroup_f1 = 8" "wf_fields s_mem_cgroup_f1"
  by (simp_all add: s_mem_cgroup_f1_def c_layout del: One_nat_def)

definition s_mem_cgroup_f2 :: "cfield list" where
  "s_mem_cgroup_f2 =
    [Bits '''' c_long 64,
      Bits '''' c_long 64]"

lemma s_mem_cgroup_f2_lay [layout]: "lay s_mem_cgroup_f2 13696 = 13824" "fields_align s_mem_cgroup_f2 = 1" "wf_fields s_mem_cgroup_f2"
  by (simp_all add: s_mem_cgroup_f2_def c_layout del: One_nat_def)

definition s_mem_cgroup :: ctype where
  "s_mem_cgroup = CStruct ''mem_cgroup'' (s_mem_cgroup_f1 @ s_mem_cgroup_f2)"

lemma s_mem_cgroup_sa [simp]: "size_of s_mem_cgroup = 1728" "align_of s_mem_cgroup = 8" "wf_type s_mem_cgroup"
  by (simp_all add: s_mem_cgroup_def c_layout layout wf_fields_append lay_append fields_align_append del: One_nat_def)

definition s_mempolicy :: ctype where
  "s_mempolicy = CStruct ''mempolicy'' [Fld ''refcnt'' t_atomic_t,
      Fld ''mode'' c_ushort,
      Fld ''flags'' c_ushort,
      Fld ''nodes'' t_nodemask_t,
      Fld ''home_node'' c_int,
      Fld ''w'' (CUnion '''' [Fld ''cpuset_mems_allowed'' t_nodemask_t,
        Fld ''user_nodemask'' t_nodemask_t])]"

lemma s_mempolicy_sa [simp]: "size_of s_mempolicy = 272" "align_of s_mempolicy = 8" "wf_type s_mempolicy"
  by (simp_all add: s_mempolicy_def c_layout del: One_nat_def)

definition t_lockdep_map_p :: ctype where
  "t_lockdep_map_p = CStruct '''' []"

lemma t_lockdep_map_p_sa [simp]: "size_of t_lockdep_map_p = 0" "align_of t_lockdep_map_p = 1" "wf_type t_lockdep_map_p"
  by (simp_all add: t_lockdep_map_p_def c_layout del: One_nat_def)

definition s_maple_tree :: ctype where
  "s_maple_tree = CStruct ''maple_tree'' [Fld '''' (CUnion '''' [Fld ''ma_lock'' t_spinlock_t,
        Fld ''ma_external_lock'' t_lockdep_map_p]),
      Fld ''ma_flags'' c_uint,
      Fld ''ma_root'' (CPtr ''void'')]"

lemma s_maple_tree_sa [simp]: "size_of s_maple_tree = 16" "align_of s_maple_tree = 8" "wf_type s_maple_tree"
  by (simp_all add: s_maple_tree_def c_layout del: One_nat_def)

definition t___s16 :: ctype where
  "t___s16 = c_short"

lemma t___s16_sa [simp]: "size_of t___s16 = 2" "align_of t___s16 = 2" "wf_type t___s16"
  by (simp_all add: t___s16_def c_layout del: One_nat_def)

definition t_s16 :: ctype where
  "t_s16 = t___s16"

lemma t_s16_sa [simp]: "size_of t_s16 = 2" "align_of t_s16 = 2" "wf_type t_s16"
  by (simp_all add: t_s16_def c_layout del: One_nat_def)

definition t_mm_context_t :: ctype where
  "t_mm_context_t = CStruct '''' [Fld ''ctx_id'' t_u64,
      Fld ''tlb_gen'' t_atomic64_t,
      Fld ''next_trim_cpumask'' c_ulong,
      Fld ''ldt_usr_sem'' s_rw_semaphore,
      Fld ''ldt'' (CPtr ''struct ldt_struct''),
      Fld ''flags'' c_ulong,
      Fld ''lock'' s_mutex,
      Fld ''vdso'' (CPtr ''void''),
      Fld ''vdso_image'' (CPtr ''const struct vdso_image''),
      Fld ''perf_rdpmc_allowed'' t_atomic_t,
      Fld ''pkey_allocation_map'' t_u16,
      Fld ''execute_only_pkey'' t_s16]"

lemma t_mm_context_t_sa [simp]: "size_of t_mm_context_t = 136" "align_of t_mm_context_t = 8" "wf_type t_mm_context_t"
  by (simp_all add: t_mm_context_t_def c_layout del: One_nat_def)

definition s_uprobes_state :: ctype where
  "s_uprobes_state = CStruct ''uprobes_state'' [Fld ''xol_area'' (CPtr ''struct xol_area'')]"

lemma s_uprobes_state_sa [simp]: "size_of s_uprobes_state = 8" "align_of s_uprobes_state = 8" "wf_type s_uprobes_state"
  by (simp_all add: s_uprobes_state_def c_layout del: One_nat_def)

definition s_mm_struct :: ctype where
  "s_mm_struct = CStruct ''mm_struct'' [Fld '''' (CStruct '''' [Fld '''' (CStruct '''' [Fld ''mm_count'' t_atomic_t,
          Bits '''' c_long 64,
          Bits '''' c_long 64,
          Bits '''' c_long 64,
          Bits '''' c_long 64,
          Bits '''' c_long 64,
          Bits '''' c_long 64,
          Bits '''' c_long 64]),
        Fld ''mm_mt'' s_maple_tree,
        Fld ''mmap_base'' c_ulong,
        Fld ''mmap_legacy_base'' c_ulong,
        Fld ''mmap_compat_base'' c_ulong,
        Fld ''mmap_compat_legacy_base'' c_ulong,
        Fld ''task_size'' c_ulong,
        Fld ''pgd'' (CPtr ''pgd_t''),
        Fld ''membarrier_state'' t_atomic_t,
        Fld ''mm_users'' t_atomic_t,
        Fld ''pcpu_cid'' (CPtr ''struct mm_cid''),
        Fld ''mm_cid_next_scan'' c_ulong,
        Fld ''pgtables_bytes'' t_atomic_long_t,
        Fld ''map_count'' c_int,
        Fld ''page_table_lock'' t_spinlock_t,
        Fld ''mmap_lock'' s_rw_semaphore,
        Fld ''mmlist'' s_list_head,
        Fld ''mm_lock_seq'' c_int,
        Fld ''hiwater_rss'' c_ulong,
        Fld ''hiwater_vm'' c_ulong,
        Fld ''total_vm'' c_ulong,
        Fld ''locked_vm'' c_ulong,
        Fld ''pinned_vm'' t_atomic64_t,
        Fld ''data_vm'' c_ulong,
        Fld ''exec_vm'' c_ulong,
        Fld ''stack_vm'' c_ulong,
        Fld ''def_flags'' c_ulong,
        Fld ''write_protect_seq'' t_seqcount_t,
        Fld ''arg_lock'' t_spinlock_t,
        Fld ''start_code'' c_ulong,
        Fld ''end_code'' c_ulong,
        Fld ''start_data'' c_ulong,
        Fld ''end_data'' c_ulong,
        Fld ''start_brk'' c_ulong,
        Fld ''brk'' c_ulong,
        Fld ''start_stack'' c_ulong,
        Fld ''arg_start'' c_ulong,
        Fld ''arg_end'' c_ulong,
        Fld ''env_start'' c_ulong,
        Fld ''env_end'' c_ulong,
        Fld ''saved_auxv'' (CArr c_ulong 52),
        Fld ''rss_stat'' (CArr s_percpu_counter 4),
        Fld ''binfmt'' (CPtr ''struct linux_binfmt''),
        Fld ''context'' t_mm_context_t,
        Fld ''flags'' c_ulong,
        Fld ''ioctx_lock'' t_spinlock_t,
        Fld ''ioctx_table'' (CPtr ''struct kioctx_table''),
        Fld ''owner'' (CPtr ''struct task_struct''),
        Fld ''user_ns'' (CPtr ''struct user_namespace''),
        Fld ''exe_file'' (CPtr ''struct file''),
        Fld ''notifier_subscriptions'' (CPtr ''struct mmu_notifier_subscriptions''),
        Fld ''numa_next_scan'' c_ulong,
        Fld ''numa_scan_offset'' c_ulong,
        Fld ''numa_scan_seq'' c_int,
        Fld ''tlb_flush_pending'' t_atomic_t,
        Fld ''tlb_flush_batched'' t_atomic_t,
        Fld ''uprobes_state'' s_uprobes_state,
        Fld ''hugetlb_usage'' t_atomic_long_t,
        Fld ''async_put_work'' s_work_struct,
        Fld ''iommu_mm'' (CPtr ''struct iommu_mm_data''),
        Fld ''ksm_merging_pages'' c_ulong,
        Fld ''ksm_rmap_items'' c_ulong,
        Fld ''ksm_zero_pages'' t_atomic_long_t,
        Fld ''lru_gen'' (CStruct '''' [Fld ''list'' s_list_head,
          Fld ''bitmap'' c_ulong,
          Fld ''memcg'' (CPtr ''struct mem_cgroup'')]),
        Bits '''' c_long 64,
        Bits '''' c_long 64,
        Bits '''' c_long 64]),
      Fld ''cpu_bitmap'' (CArr c_ulong 0)]"

lemma s_mm_struct_sa [simp]: "size_of s_mm_struct = 1344" "align_of s_mm_struct = 8" "wf_type s_mm_struct"
  by (simp_all add: s_mm_struct_def c_layout del: One_nat_def)

definition s_qstr :: ctype where
  "s_qstr = CStruct ''qstr'' [Fld '''' (CUnion '''' [Fld '''' (CStruct '''' [Fld ''hash'' t_u32,
          Fld ''len'' t_u32]),
        Fld ''hash_len'' t_u64]),
      Fld ''name'' (CPtr ''const unsigned char'')]"

lemma s_qstr_sa [simp]: "size_of s_qstr = 16" "align_of s_qstr = 8" "wf_type s_qstr"
  by (simp_all add: s_qstr_def c_layout del: One_nat_def)

definition s_delayed_call :: ctype where
  "s_delayed_call = CStruct ''delayed_call'' [Fld ''fn'' (CPtr ''fn: void''),
      Fld ''arg'' (CPtr ''void'')]"

lemma s_delayed_call_sa [simp]: "size_of s_delayed_call = 16" "align_of s_delayed_call = 8" "wf_type s_delayed_call"
  by (simp_all add: s_delayed_call_def c_layout del: One_nat_def)

definition s_saved :: ctype where
  "s_saved = CStruct ''saved'' [Fld ''link'' s_path,
      Fld ''done'' s_delayed_call,
      Fld ''name'' (CPtr ''const char''),
      Fld ''seq'' c_uint]"

lemma s_saved_sa [simp]: "size_of s_saved = 48" "align_of s_saved = 8" "wf_type s_saved"
  by (simp_all add: s_saved_def c_layout del: One_nat_def)

definition t_vfsuid_t :: ctype where
  "t_vfsuid_t = CStruct '''' [Fld ''val'' t_uid_t]"

lemma t_vfsuid_t_sa [simp]: "size_of t_vfsuid_t = 4" "align_of t_vfsuid_t = 4" "wf_type t_vfsuid_t"
  by (simp_all add: t_vfsuid_t_def c_layout del: One_nat_def)

definition s_nameidata :: ctype where
  "s_nameidata = CStruct ''nameidata'' [Fld ''path'' s_path,
      Fld ''last'' s_qstr,
      Fld ''root'' s_path,
      Fld ''inode'' (CPtr ''struct inode''),
      Fld ''flags'' c_uint,
      Fld ''state'' c_uint,
      Fld ''seq'' c_uint,
      Fld ''next_seq'' c_uint,
      Fld ''m_seq'' c_uint,
      Fld ''r_seq'' c_uint,
      Fld ''last_type'' c_int,
      Fld ''depth'' c_uint,
      Fld ''total_link_count'' c_int,
      Fld ''stack'' (CPtr ''struct saved''),
      Fld ''internal'' (CArr s_saved 2),
      Fld ''name'' (CPtr ''struct filename''),
      Fld ''saved'' (CPtr ''struct nameidata''),
      Fld ''root_seq'' c_uint,
      Fld ''dfd'' c_int,
      Fld ''dir_vfsuid'' t_vfsuid_t,
      Fld ''dir_mode'' t_umode_t]"

lemma s_nameidata_sa [simp]: "size_of s_nameidata = 232" "align_of s_nameidata = 8" "wf_type s_nameidata"
  by (simp_all add: s_nameidata_def c_layout del: One_nat_def)

definition s_nsproxy :: ctype where
  "s_nsproxy = CStruct ''nsproxy'' [Fld ''count'' t_refcount_t,
      Fld ''uts_ns'' (CPtr ''struct uts_namespace''),
      Fld ''ipc_ns'' (CPtr ''struct ipc_namespace''),
      Fld ''mnt_ns'' (CPtr ''struct mnt_namespace''),
      Fld ''pid_ns_for_children'' (CPtr ''struct pid_namespace''),
      Fld ''net_ns'' (CPtr ''struct net''),
      Fld ''time_ns'' (CPtr ''struct time_namespace''),
      Fld ''time_ns_for_children'' (CPtr ''struct time_namespace''),
      Fld ''cgroup_ns'' (CPtr ''struct cgroup_namespace'')]"

lemma s_nsproxy_sa [simp]: "size_of s_nsproxy = 72" "align_of s_nsproxy = 8" "wf_type s_nsproxy"
  by (simp_all add: s_nsproxy_def c_layout del: One_nat_def)

definition s_numa_group :: ctype where
  "s_numa_group = CStruct ''numa_group'' [Fld ''refcount'' t_refcount_t,
      Fld ''lock'' t_spinlock_t,
      Fld ''nr_tasks'' c_int,
      Fld ''gid'' t_pid_t,
      Fld ''active_nodes'' c_int,
      Fld ''rcu'' s_callback_head,
      Fld ''total_faults'' c_ulong,
      Fld ''max_faults_cpu'' c_ulong,
      Fld ''faults'' (CArr c_ulong 0)]"

lemma s_numa_group_sa [simp]: "size_of s_numa_group = 56" "align_of s_numa_group = 8" "wf_type s_numa_group"
  by (simp_all add: s_numa_group_def c_layout del: One_nat_def)

definition s_obj_cgroup :: ctype where
  "s_obj_cgroup = CStruct ''obj_cgroup'' [Fld ''refcnt'' s_percpu_ref,
      Fld ''memcg'' (CPtr ''struct mem_cgroup''),
      Fld ''nr_charged_bytes'' t_atomic_t,
      Fld '''' (CUnion '''' [Fld ''list'' s_list_head,
        Fld ''rcu'' s_callback_head])]"

lemma s_obj_cgroup_sa [simp]: "size_of s_obj_cgroup = 48" "align_of s_obj_cgroup = 8" "wf_type s_obj_cgroup"
  by (simp_all add: s_obj_cgroup_def c_layout del: One_nat_def)

definition s_perf_event_groups :: ctype where
  "s_perf_event_groups = CStruct ''perf_event_groups'' [Fld ''tree'' s_rb_root,
      Fld ''index'' t_u64]"

lemma s_perf_event_groups_sa [simp]: "size_of s_perf_event_groups = 16" "align_of s_perf_event_groups = 8" "wf_type s_perf_event_groups"
  by (simp_all add: s_perf_event_groups_def c_layout del: One_nat_def)

definition t_local_t :: ctype where
  "t_local_t = CStruct '''' [Fld ''a'' t_atomic_long_t]"

lemma t_local_t_sa [simp]: "size_of t_local_t = 8" "align_of t_local_t = 8" "wf_type t_local_t"
  by (simp_all add: t_local_t_def c_layout del: One_nat_def)

definition s_perf_event_context :: ctype where
  "s_perf_event_context = CStruct ''perf_event_context'' [Fld ''lock'' t_raw_spinlock_t,
      Fld ''mutex'' s_mutex,
      Fld ''pmu_ctx_list'' s_list_head,
      Fld ''pinned_groups'' s_perf_event_groups,
      Fld ''flexible_groups'' s_perf_event_groups,
      Fld ''event_list'' s_list_head,
      Fld ''nr_events'' c_int,
      Fld ''nr_user'' c_int,
      Fld ''is_active'' c_int,
      Fld ''nr_task_data'' c_int,
      Fld ''nr_stat'' c_int,
      Fld ''nr_freq'' c_int,
      Fld ''rotate_disable'' c_int,
      Fld ''refcount'' t_refcount_t,
      Fld ''task'' (CPtr ''struct task_struct''),
      Fld ''time'' t_u64,
      Fld ''timestamp'' t_u64,
      Fld ''timeoffset'' t_u64,
      Fld ''parent_ctx'' (CPtr ''struct perf_event_context''),
      Fld ''parent_gen'' t_u64,
      Fld ''generation'' t_u64,
      Fld ''pin_count'' c_int,
      Fld ''nr_cgroups'' c_int,
      Fld ''callback_head'' s_callback_head,
      Fld ''nr_no_switch_fast'' t_local_t]"

lemma s_perf_event_context_sa [simp]: "size_of s_perf_event_context = 224" "align_of s_perf_event_context = 8" "wf_type s_perf_event_context"
  by (simp_all add: s_perf_event_context_def c_layout del: One_nat_def)

definition s_upid :: ctype where
  "s_upid = CStruct ''upid'' [Fld ''nr'' c_int,
      Fld ''ns'' (CPtr ''struct pid_namespace'')]"

lemma s_upid_sa [simp]: "size_of s_upid = 16" "align_of s_upid = 8" "wf_type s_upid"
  by (simp_all add: s_upid_def c_layout del: One_nat_def)

definition s_pid :: ctype where
  "s_pid = CStruct ''pid'' [Fld ''count'' t_refcount_t,
      Fld ''level'' c_uint,
      Fld ''lock'' t_spinlock_t,
      Fld ''stashed'' (CPtr ''struct dentry''),
      Fld ''ino'' t_u64,
      Fld ''tasks'' (CArr s_hlist_head 4),
      Fld ''inodes'' s_hlist_head,
      Fld ''wait_pidfd'' t_wait_queue_head_t,
      Fld ''rcu'' s_callback_head,
      Fld ''numbers'' (CArr s_upid 0)]"

lemma s_pid_sa [simp]: "size_of s_pid = 112" "align_of s_pid = 8" "wf_type s_pid"
  by (simp_all add: s_pid_def c_layout del: One_nat_def)

definition s_pipe_inode_info :: ctype where
  "s_pipe_inode_info = CStruct ''pipe_inode_info'' [Fld ''mutex'' s_mutex,
      Fld ''rd_wait'' t_wait_queue_head_t,
      Fld ''wr_wait'' t_wait_queue_head_t,
      Fld ''head'' c_uint,
      Fld ''tail'' c_uint,
      Fld ''max_usage'' c_uint,
      Fld ''ring_size'' c_uint,
      Fld ''nr_accounted'' c_uint,
      Fld ''readers'' c_uint,
      Fld ''writers'' c_uint,
      Fld ''files'' c_uint,
      Fld ''r_counter'' c_uint,
      Fld ''w_counter'' c_uint,
      Fld ''poll_usage'' t_bool,
      Fld ''tmp_page'' (CPtr ''struct page''),
      Fld ''fasync_readers'' (CPtr ''struct fasync_struct''),
      Fld ''fasync_writers'' (CPtr ''struct fasync_struct''),
      Fld ''bufs'' (CPtr ''struct pipe_buffer''),
      Fld ''user'' (CPtr ''struct user_struct'')]"

lemma s_pipe_inode_info_sa [simp]: "size_of s_pipe_inode_info = 168" "align_of s_pipe_inode_info = 8" "wf_type s_pipe_inode_info"
  by (simp_all add: s_pipe_inode_info_def c_layout del: One_nat_def)

definition s_rt_mutex :: ctype where
  "s_rt_mutex = CStruct ''rt_mutex'' [Fld ''rtmutex'' s_rt_mutex_base]"

lemma s_rt_mutex_sa [simp]: "size_of s_rt_mutex = 32" "align_of s_rt_mutex = 8" "wf_type s_rt_mutex"
  by (simp_all add: s_rt_mutex_def c_layout del: One_nat_def)

definition t_kthread_work_func_t :: ctype where
  "t_kthread_work_func_t = CPtr ''fn: void''"

lemma t_kthread_work_func_t_sa [simp]: "size_of t_kthread_work_func_t = 8" "align_of t_kthread_work_func_t = 8" "wf_type t_kthread_work_func_t"
  by (simp_all add: t_kthread_work_func_t_def c_layout del: One_nat_def)

definition s_kthread_work :: ctype where
  "s_kthread_work = CStruct ''kthread_work'' [Fld ''node'' s_list_head,
      Fld ''func'' t_kthread_work_func_t,
      Fld ''worker'' (CPtr ''struct kthread_worker''),
      Fld ''canceling'' c_int]"

lemma s_kthread_work_sa [simp]: "size_of s_kthread_work = 40" "align_of s_kthread_work = 8" "wf_type s_kthread_work"
  by (simp_all add: s_kthread_work_def c_layout del: One_nat_def)

definition s_rcu_exp_work :: ctype where
  "s_rcu_exp_work = CStruct ''rcu_exp_work'' [Fld ''rew_s'' c_ulong,
      Fld ''rew_work'' s_kthread_work]"

lemma s_rcu_exp_work_sa [simp]: "size_of s_rcu_exp_work = 48" "align_of s_rcu_exp_work = 8" "wf_type s_rcu_exp_work"
  by (simp_all add: s_rcu_exp_work_def c_layout del: One_nat_def)

definition s_rcu_node_f1 :: "cfield list" where
  "s_rcu_node_f1 =
    [Fld ''lock'' t_raw_spinlock_t,
      Fld ''gp_seq'' c_ulong,
      Fld ''gp_seq_needed'' c_ulong,
      Fld ''completedqs'' c_ulong,
      Fld ''qsmask'' c_ulong,
      Fld ''rcu_gp_init_mask'' c_ulong,
      Fld ''qsmaskinit'' c_ulong,
      Fld ''qsmaskinitnext'' c_ulong,
      Fld ''expmask'' c_ulong,
      Fld ''expmaskinit'' c_ulong,
      Fld ''expmaskinitnext'' c_ulong,
      Fld ''exp_kworker'' (CPtr ''struct kthread_worker''),
      Fld ''cbovldmask'' c_ulong,
      Fld ''ffmask'' c_ulong,
      Fld ''grpmask'' c_ulong,
      Fld ''grplo'' c_int,
      Fld ''grphi'' c_int,
      Fld ''grpnum'' t_u8,
      Fld ''level'' t_u8,
      Fld ''wait_blkd_tasks'' t_bool,
      Fld ''parent'' (CPtr ''struct rcu_node''),
      Fld ''blkd_tasks'' s_list_head,
      Fld ''gp_tasks'' (CPtr ''struct list_head''),
      Fld ''exp_tasks'' (CPtr ''struct list_head''),
      Fld ''boost_tasks'' (CPtr ''struct list_head''),
      Fld ''boost_mtx'' s_rt_mutex,
      Fld ''boost_time'' c_ulong,
      Fld ''kthread_mutex'' s_mutex,
      Fld ''boost_kthread_task'' (CPtr ''struct task_struct''),
      Fld ''boost_kthread_status'' c_uint,
      Fld ''n_boosts'' c_ulong,
      Fld ''nocb_gp_wq'' (CArr s_swait_queue_head 2),
      Bits '''' c_long 64,
      Bits '''' c_long 64,
      Bits '''' c_long 64,
      Bits '''' c_long 64]"

lemma s_rcu_node_f1_lay [layout]: "lay s_rcu_node_f1 0 = 2880" "fields_align s_rcu_node_f1 = 8" "wf_fields s_rcu_node_f1"
  by (simp_all add: s_rcu_node_f1_def c_layout del: One_nat_def)

definition s_rcu_node_f2 :: "cfield list" where
  "s_rcu_node_f2 =
    [Bits '''' c_long 64,
      Bits '''' c_long 64,
      Bits '''' c_long 64,
      Fld ''fqslock'' t_raw_spinlock_t,
      Bits '''' c_long 64,
      Bits '''' c_long 64,
      Bits '''' c_long 64,
      Bits '''' c_long 64,
      Bits '''' c_long 64,
      Bits '''' c_long 64,
      Bits '''' c_long 64,
      Fld ''exp_lock'' t_spinlock_t,
      Fld ''exp_seq_rq'' c_ulong,
      Fld ''exp_wq'' (CArr t_wait_queue_head_t 4),
      Fld ''rew'' s_rcu_exp_work,
      Fld ''exp_need_flush'' t_bool,
      Fld ''exp_poll_lock'' t_raw_spinlock_t,
      Fld ''exp_seq_poll_rq'' c_ulong,
      Fld ''exp_poll_wq'' s_work_struct,
      Bits '''' c_long 64,
      Bits '''' c_long 64,
      Bits '''' c_long 64,
      Bits '''' c_long 64,
      Bits '''' c_long 64,
      Bits '''' c_long 64]"

lemma s_rcu_node_f2_lay [layout]: "lay s_rcu_node_f2 2880 = 5632" "fields_align s_rcu_node_f2 = 8" "wf_fields s_rcu_node_f2"
  by (simp_all add: s_rcu_node_f2_def c_layout del: One_nat_def)

definition s_rcu_node :: ctype where
  "s_rcu_node = CStruct ''rcu_node'' (s_rcu_node_f1 @ s_rcu_node_f2)"

lemma s_rcu_node_sa [simp]: "size_of s_rcu_node = 704" "align_of s_rcu_node = 8" "wf_type s_rcu_node"
  by (simp_all add: s_rcu_node_def c_layout layout wf_fields_append lay_append fields_align_append del: One_nat_def)

definition s_reclaim_state :: ctype where
  "s_reclaim_state = CStruct ''reclaim_state'' [Fld ''reclaimed'' c_ulong,
      Fld ''mm_walk'' (CPtr ''struct lru_gen_mm_walk'')]"

lemma s_reclaim_state_sa [simp]: "size_of s_reclaim_state = 16" "align_of s_reclaim_state = 8" "wf_type s_reclaim_state"
  by (simp_all add: s_reclaim_state_def c_layout del: One_nat_def)

definition s_robust_list :: ctype where
  "s_robust_list = CStruct ''robust_list'' [Fld ''next'' (CPtr ''struct robust_list'')]"

lemma s_robust_list_sa [simp]: "size_of s_robust_list = 8" "align_of s_robust_list = 8" "wf_type s_robust_list"
  by (simp_all add: s_robust_list_def c_layout del: One_nat_def)

definition s_robust_list_head :: ctype where
  "s_robust_list_head = CStruct ''robust_list_head'' [Fld ''list'' s_robust_list,
      Fld ''futex_offset'' c_long,
      Fld ''list_op_pending'' (CPtr ''struct robust_list'')]"

lemma s_robust_list_head_sa [simp]: "size_of s_robust_list_head = 24" "align_of s_robust_list_head = 8" "wf_type s_robust_list_head"
  by (simp_all add: s_robust_list_head_def c_layout del: One_nat_def)

definition s_rseq :: ctype where
  "s_rseq = CStruct ''rseq'' [Fld ''cpu_id_start'' t___u32,
      Fld ''cpu_id'' t___u32,
      Fld ''rseq_cs'' t___u64,
      Fld ''flags'' t___u32,
      Fld ''node_id'' t___u32,
      Fld ''mm_cid'' t___u32,
      Fld ''end'' (CArr c_char 0)]"

lemma s_rseq_sa [simp]: "size_of s_rseq = 32" "align_of s_rseq = 8" "wf_type s_rseq"
  by (simp_all add: s_rseq_def c_layout del: One_nat_def)

definition s_rt_waiter_node :: ctype where
  "s_rt_waiter_node = CStruct ''rt_waiter_node'' [Fld ''entry'' s_rb_node,
      Fld ''prio'' c_int,
      Fld ''deadline'' t_u64]"

lemma s_rt_waiter_node_sa [simp]: "size_of s_rt_waiter_node = 40" "align_of s_rt_waiter_node = 8" "wf_type s_rt_waiter_node"
  by (simp_all add: s_rt_waiter_node_def c_layout del: One_nat_def)

definition s_rt_mutex_waiter :: ctype where
  "s_rt_mutex_waiter = CStruct ''rt_mutex_waiter'' [Fld ''tree'' s_rt_waiter_node,
      Fld ''pi_tree'' s_rt_waiter_node,
      Fld ''task'' (CPtr ''struct task_struct''),
      Fld ''lock'' (CPtr ''struct rt_mutex_base''),
      Fld ''wake_state'' c_uint,
      Fld ''ww_ctx'' (CPtr ''struct ww_acquire_ctx'')]"

lemma s_rt_mutex_waiter_sa [simp]: "size_of s_rt_mutex_waiter = 112" "align_of s_rt_mutex_waiter = 8" "wf_type s_rt_mutex_waiter"
  by (simp_all add: s_rt_mutex_waiter_def c_layout del: One_nat_def)

definition s_sched_class :: ctype where
  "s_sched_class = CStruct ''sched_class'' [Fld ''enqueue_task'' (CPtr ''fn: void''),
      Fld ''dequeue_task'' (CPtr ''fn: bool''),
      Fld ''yield_task'' (CPtr ''fn: void''),
      Fld ''yield_to_task'' (CPtr ''fn: bool''),
      Fld ''wakeup_preempt'' (CPtr ''fn: void''),
      Fld ''balance'' (CPtr ''fn: int''),
      Fld ''pick_task'' (CPtr ''fn: struct task_struct ptr''),
      Fld ''pick_next_task'' (CPtr ''fn: struct task_struct ptr''),
      Fld ''put_prev_task'' (CPtr ''fn: void''),
      Fld ''set_next_task'' (CPtr ''fn: void''),
      Fld ''select_task_rq'' (CPtr ''fn: int''),
      Fld ''migrate_task_rq'' (CPtr ''fn: void''),
      Fld ''task_woken'' (CPtr ''fn: void''),
      Fld ''set_cpus_allowed'' (CPtr ''fn: void''),
      Fld ''rq_online'' (CPtr ''fn: void''),
      Fld ''rq_offline'' (CPtr ''fn: void''),
      Fld ''find_lock_rq'' (CPtr ''fn: struct rq ptr''),
      Fld ''task_tick'' (CPtr ''fn: void''),
      Fld ''task_fork'' (CPtr ''fn: void''),
      Fld ''task_dead'' (CPtr ''fn: void''),
      Fld ''switching_to'' (CPtr ''fn: void''),
      Fld ''switched_from'' (CPtr ''fn: void''),
      Fld ''switched_to'' (CPtr ''fn: void''),
      Fld ''reweight_task'' (CPtr ''fn: void''),
      Fld ''prio_changed'' (CPtr ''fn: void''),
      Fld ''get_rr_interval'' (CPtr ''fn: unsigned int''),
      Fld ''update_curr'' (CPtr ''fn: void''),
      Fld ''task_change_group'' (CPtr ''fn: void'')]"

lemma s_sched_class_sa [simp]: "size_of s_sched_class = 224" "align_of s_sched_class = 8" "wf_type s_sched_class"
  by (simp_all add: s_sched_class_def c_layout del: One_nat_def)

definition t___sighandler_t :: ctype where
  "t___sighandler_t = CPtr ''__signalfn_t''"

lemma t___sighandler_t_sa [simp]: "size_of t___sighandler_t = 8" "align_of t___sighandler_t = 8" "wf_type t___sighandler_t"
  by (simp_all add: t___sighandler_t_def c_layout del: One_nat_def)

definition t___sigrestore_t :: ctype where
  "t___sigrestore_t = CPtr ''__restorefn_t''"

lemma t___sigrestore_t_sa [simp]: "size_of t___sigrestore_t = 8" "align_of t___sigrestore_t = 8" "wf_type t___sigrestore_t"
  by (simp_all add: t___sigrestore_t_def c_layout del: One_nat_def)

definition s_sigaction :: ctype where
  "s_sigaction = CStruct ''sigaction'' [Fld ''sa_handler'' t___sighandler_t,
      Fld ''sa_flags'' c_ulong,
      Fld ''sa_restorer'' t___sigrestore_t,
      Fld ''sa_mask'' t_sigset_t]"

lemma s_sigaction_sa [simp]: "size_of s_sigaction = 32" "align_of s_sigaction = 8" "wf_type s_sigaction"
  by (simp_all add: s_sigaction_def c_layout del: One_nat_def)

definition s_k_sigaction :: ctype where
  "s_k_sigaction = CStruct ''k_sigaction'' [Fld ''sa'' s_sigaction]"

lemma s_k_sigaction_sa [simp]: "size_of s_k_sigaction = 32" "align_of s_k_sigaction = 8" "wf_type s_k_sigaction"
  by (simp_all add: s_k_sigaction_def c_layout del: One_nat_def)

definition s_sighand_struct :: ctype where
  "s_sighand_struct = CStruct ''sighand_struct'' [Fld ''siglock'' t_spinlock_t,
      Fld ''count'' t_refcount_t,
      Fld ''signalfd_wqh'' t_wait_queue_head_t,
      Fld ''action'' (CArr s_k_sigaction 64)]"

lemma s_sighand_struct_sa [simp]: "size_of s_sighand_struct = 2080" "align_of s_sighand_struct = 8" "wf_type s_sighand_struct"
  by (simp_all add: s_sighand_struct_def c_layout del: One_nat_def)

definition s_cpu_itimer :: ctype where
  "s_cpu_itimer = CStruct ''cpu_itimer'' [Fld ''expires'' t_u64,
      Fld ''incr'' t_u64]"

lemma s_cpu_itimer_sa [simp]: "size_of s_cpu_itimer = 16" "align_of s_cpu_itimer = 8" "wf_type s_cpu_itimer"
  by (simp_all add: s_cpu_itimer_def c_layout del: One_nat_def)

definition s_task_cputime_atomic :: ctype where
  "s_task_cputime_atomic = CStruct ''task_cputime_atomic'' [Fld ''utime'' t_atomic64_t,
      Fld ''stime'' t_atomic64_t,
      Fld ''sum_exec_runtime'' t_atomic64_t]"

lemma s_task_cputime_atomic_sa [simp]: "size_of s_task_cputime_atomic = 24" "align_of s_task_cputime_atomic = 8" "wf_type s_task_cputime_atomic"
  by (simp_all add: s_task_cputime_atomic_def c_layout del: One_nat_def)

definition s_thread_group_cputimer :: ctype where
  "s_thread_group_cputimer = CStruct ''thread_group_cputimer'' [Fld ''cputime_atomic'' s_task_cputime_atomic]"

lemma s_thread_group_cputimer_sa [simp]: "size_of s_thread_group_cputimer = 24" "align_of s_thread_group_cputimer = 8" "wf_type s_thread_group_cputimer"
  by (simp_all add: s_thread_group_cputimer_def c_layout del: One_nat_def)

definition t_seqlock_t :: ctype where
  "t_seqlock_t = CStruct '''' [Fld ''seqcount'' t_seqcount_spinlock_t,
      Fld ''lock'' t_spinlock_t]"

lemma t_seqlock_t_sa [simp]: "size_of t_seqlock_t = 8" "align_of t_seqlock_t = 4" "wf_type t_seqlock_t"
  by (simp_all add: t_seqlock_t_def c_layout del: One_nat_def)

definition s_rlimit :: ctype where
  "s_rlimit = CStruct ''rlimit'' [Fld ''rlim_cur'' t___kernel_ulong_t,
      Fld ''rlim_max'' t___kernel_ulong_t]"

lemma s_rlimit_sa [simp]: "size_of s_rlimit = 16" "align_of s_rlimit = 8" "wf_type s_rlimit"
  by (simp_all add: s_rlimit_def c_layout del: One_nat_def)

definition s_pacct_struct :: ctype where
  "s_pacct_struct = CStruct ''pacct_struct'' [Fld ''ac_flag'' c_int,
      Fld ''ac_exitcode'' c_long,
      Fld ''ac_mem'' c_ulong,
      Fld ''ac_utime'' t_u64,
      Fld ''ac_stime'' t_u64,
      Fld ''ac_minflt'' c_ulong,
      Fld ''ac_majflt'' c_ulong]"

lemma s_pacct_struct_sa [simp]: "size_of s_pacct_struct = 56" "align_of s_pacct_struct = 8" "wf_type s_pacct_struct"
  by (simp_all add: s_pacct_struct_def c_layout del: One_nat_def)

definition s_signal_struct_f1 :: "cfield list" where
  "s_signal_struct_f1 =
    [Fld ''sigcnt'' t_refcount_t,
      Fld ''live'' t_atomic_t,
      Fld ''nr_threads'' c_int,
      Fld ''quick_threads'' c_int,
      Fld ''thread_head'' s_list_head,
      Fld ''wait_chldexit'' t_wait_queue_head_t,
      Fld ''curr_target'' (CPtr ''struct task_struct''),
      Fld ''shared_pending'' s_sigpending,
      Fld ''multiprocess'' s_hlist_head,
      Fld ''group_exit_code'' c_int,
      Fld ''notify_count'' c_int,
      Fld ''group_exec_task'' (CPtr ''struct task_struct''),
      Fld ''group_stop_count'' c_int,
      Fld ''flags'' c_uint,
      Fld ''core_state'' (CPtr ''struct core_state''),
      Bits ''is_child_subreaper'' c_uint 1,
      Bits ''has_child_subreaper'' c_uint 1,
      Fld ''next_posix_timer_id'' c_uint,
      Fld ''posix_timers'' s_hlist_head,
      Fld ''real_timer'' s_hrtimer,
      Fld ''it_real_incr'' t_ktime_t,
      Fld ''it'' (CArr s_cpu_itimer 2),
      Fld ''cputimer'' s_thread_group_cputimer,
      Fld ''posix_cputimers'' s_posix_cputimers,
      Fld ''pids'' (CArr (CPtr ''struct pid'') 4),
      Fld ''tick_dep_mask'' t_atomic_t,
      Fld ''tty_old_pgrp'' (CPtr ''struct pid''),
      Fld ''leader'' c_int,
      Fld ''tty'' (CPtr ''struct tty_struct''),
      Fld ''autogroup'' (CPtr ''struct autogroup''),
      Fld ''stats_lock'' t_seqlock_t,
      Fld ''utime'' t_u64,
      Fld ''stime'' t_u64,
      Fld ''cutime'' t_u64,
      Fld ''cstime'' t_u64,
      Fld ''gtime'' t_u64]"

lemma s_signal_struct_f1_lay [layout]: "lay s_signal_struct_f1 0 = 3776" "fields_align s_signal_struct_f1 = 8" "wf_fields s_signal_struct_f1"
  by (simp_all add: s_signal_struct_f1_def c_layout del: One_nat_def)

definition s_signal_struct_f2 :: "cfield list" where
  "s_signal_struct_f2 =
    [Fld ''cgtime'' t_u64,
      Fld ''prev_cputime'' s_prev_cputime,
      Fld ''nvcsw'' c_ulong,
      Fld ''nivcsw'' c_ulong,
      Fld ''cnvcsw'' c_ulong,
      Fld ''cnivcsw'' c_ulong,
      Fld ''min_flt'' c_ulong,
      Fld ''maj_flt'' c_ulong,
      Fld ''cmin_flt'' c_ulong,
      Fld ''cmaj_flt'' c_ulong,
      Fld ''inblock'' c_ulong,
      Fld ''oublock'' c_ulong,
      Fld ''cinblock'' c_ulong,
      Fld ''coublock'' c_ulong,
      Fld ''maxrss'' c_ulong,
      Fld ''cmaxrss'' c_ulong,
      Fld ''ioac'' s_task_io_accounting,
      Fld ''sum_sched_runtime'' c_ullong,
      Fld ''rlim'' (CArr s_rlimit 16),
      Fld ''pacct'' s_pacct_struct,
      Fld ''stats'' (CPtr ''struct taskstats''),
      Fld ''audit_tty'' c_uint,
      Fld ''tty_audit_buf'' (CPtr ''struct tty_audit_buf''),
      Fld ''oom_flag_origin'' t_bool,
      Fld ''oom_score_adj'' c_short,
      Fld ''oom_score_adj_min'' c_short,
      Fld ''oom_mm'' (CPtr ''struct mm_struct''),
      Fld ''cred_guard_mutex'' s_mutex,
      Fld ''exec_update_lock'' s_rw_semaphore]"

lemma s_signal_struct_f2_lay [layout]: "lay s_signal_struct_f2 3776 = 8832" "fields_align s_signal_struct_f2 = 8" "wf_fields s_signal_struct_f2"
  by (simp_all add: s_signal_struct_f2_def c_layout del: One_nat_def)

definition s_signal_struct :: ctype where
  "s_signal_struct = CStruct ''signal_struct'' (s_signal_struct_f1 @ s_signal_struct_f2)"

lemma s_signal_struct_sa [simp]: "size_of s_signal_struct = 1104" "align_of s_signal_struct = 8" "wf_type s_signal_struct"
  by (simp_all add: s_signal_struct_def c_layout layout wf_fields_append lay_append fields_align_append del: One_nat_def)

definition s_task_delay_info :: ctype where
  "s_task_delay_info = CStruct ''task_delay_info'' [Fld ''lock'' t_raw_spinlock_t,
      Fld ''blkio_start'' t_u64,
      Fld ''blkio_delay'' t_u64,
      Fld ''swapin_start'' t_u64,
      Fld ''swapin_delay'' t_u64,
      Fld ''blkio_count'' t_u32,
      Fld ''swapin_count'' t_u32,
      Fld ''freepages_start'' t_u64,
      Fld ''freepages_delay'' t_u64,
      Fld ''thrashing_start'' t_u64,
      Fld ''thrashing_delay'' t_u64,
      Fld ''compact_start'' t_u64,
      Fld ''compact_delay'' t_u64,
      Fld ''wpcopy_start'' t_u64,
      Fld ''wpcopy_delay'' t_u64,
      Fld ''irq_delay'' t_u64,
      Fld ''freepages_count'' t_u32,
      Fld ''thrashing_count'' t_u32,
      Fld ''compact_count'' t_u32,
      Fld ''wpcopy_count'' t_u32,
      Fld ''irq_count'' t_u32]"

lemma s_task_delay_info_sa [simp]: "size_of s_task_delay_info = 144" "align_of s_task_delay_info = 8" "wf_type s_task_delay_info"
  by (simp_all add: s_task_delay_info_def c_layout del: One_nat_def)

definition s_cfs_bandwidth :: ctype where
  "s_cfs_bandwidth = CStruct ''cfs_bandwidth'' [Fld ''lock'' t_raw_spinlock_t,
      Fld ''period'' t_ktime_t,
      Fld ''quota'' t_u64,
      Fld ''runtime'' t_u64,
      Fld ''burst'' t_u64,
      Fld ''runtime_snap'' t_u64,
      Fld ''hierarchical_quota'' t_s64,
      Fld ''idle'' t_u8,
      Fld ''period_active'' t_u8,
      Fld ''slack_started'' t_u8,
      Fld ''period_timer'' s_hrtimer,
      Fld ''slack_timer'' s_hrtimer,
      Fld ''throttled_cfs_rq'' s_list_head,
      Fld ''nr_periods'' c_int,
      Fld ''nr_throttled'' c_int,
      Fld ''nr_burst'' c_int,
      Fld ''throttled_time'' t_u64,
      Fld ''burst_time'' t_u64]"

lemma s_cfs_bandwidth_sa [simp]: "size_of s_cfs_bandwidth = 240" "align_of s_cfs_bandwidth = 8" "wf_type s_cfs_bandwidth"
  by (simp_all add: s_cfs_bandwidth_def c_layout del: One_nat_def)

definition s_task_group :: ctype where
  "s_task_group = CStruct ''task_group'' [Fld ''css'' s_cgroup_subsys_state,
      Fld ''idle'' c_int,
      Fld ''se'' (CPtr ''struct sched_entity ptr''),
      Fld ''cfs_rq'' (CPtr ''struct cfs_rq ptr''),
      Fld ''shares'' c_ulong,
      Bits '''' c_long 64,
      Bits '''' c_long 64,
      Fld ''load_avg'' t_atomic_long_t,
      Fld ''rcu'' s_callback_head,
      Fld ''list'' s_list_head,
      Fld ''parent'' (CPtr ''struct task_group''),
      Fld ''siblings'' s_list_head,
      Fld ''children'' s_list_head,
      Fld ''autogroup'' (CPtr ''struct autogroup''),
      Fld ''cfs_bandwidth'' s_cfs_bandwidth,
      Bits '''' c_long 64,
      Bits '''' c_long 64,
      Bits '''' c_long 64,
      Bits '''' c_long 64,
      Bits '''' c_long 64,
      Bits '''' c_long 64,
      Bits '''' c_long 64]"

lemma s_task_group_sa [simp]: "size_of s_task_group = 640" "align_of s_task_group = 8" "wf_type s_task_group"
  by (simp_all add: s_task_group_def c_layout del: One_nat_def)

definition e_uprobe_task_state :: ctype where
  "e_uprobe_task_state = CEnum ''uprobe_task_state'' 4 [(''UTASK_RUNNING'', 0),
      (''UTASK_SSTEP'', 1),
      (''UTASK_SSTEP_ACK'', 2),
      (''UTASK_SSTEP_TRAPPED'', 3)]"

lemma e_uprobe_task_state_sa [simp]: "size_of e_uprobe_task_state = 4" "align_of e_uprobe_task_state = 4" "wf_type e_uprobe_task_state"
  by (simp_all add: e_uprobe_task_state_def c_layout del: One_nat_def)

definition s_arch_uprobe_task :: ctype where
  "s_arch_uprobe_task = CStruct ''arch_uprobe_task'' [Fld ''saved_scratch_register'' c_ulong,
      Fld ''saved_trap_nr'' c_uint,
      Fld ''saved_tf'' c_uint]"

lemma s_arch_uprobe_task_sa [simp]: "size_of s_arch_uprobe_task = 16" "align_of s_arch_uprobe_task = 8" "wf_type s_arch_uprobe_task"
  by (simp_all add: s_arch_uprobe_task_def c_layout del: One_nat_def)

definition s_uprobe_task :: ctype where
  "s_uprobe_task = CStruct ''uprobe_task'' [Fld ''state'' e_uprobe_task_state,
      Fld '''' (CUnion '''' [Fld '''' (CStruct '''' [Fld ''autask'' s_arch_uprobe_task,
          Fld ''vaddr'' c_ulong]),
        Fld '''' (CStruct '''' [Fld ''dup_xol_work'' s_callback_head,
          Fld ''dup_xol_addr'' c_ulong])]),
      Fld ''active_uprobe'' (CPtr ''struct uprobe''),
      Fld ''xol_vaddr'' c_ulong,
      Fld ''auprobe'' (CPtr ''struct arch_uprobe''),
      Fld ''return_instances'' (CPtr ''struct return_instance''),
      Fld ''depth'' c_uint]"

lemma s_uprobe_task_sa [simp]: "size_of s_uprobe_task = 72" "align_of s_uprobe_task = 8" "wf_type s_uprobe_task"
  by (simp_all add: s_uprobe_task_def c_layout del: One_nat_def)

definition t_phys_addr_t :: ctype where
  "t_phys_addr_t = t_u64"

lemma t_phys_addr_t_sa [simp]: "size_of t_phys_addr_t = 8" "align_of t_phys_addr_t = 8" "wf_type t_phys_addr_t"
  by (simp_all add: t_phys_addr_t_def c_layout del: One_nat_def)

definition s_vm_struct :: ctype where
  "s_vm_struct = CStruct ''vm_struct'' [Fld ''next'' (CPtr ''struct vm_struct''),
      Fld ''addr'' (CPtr ''void''),
      Fld ''size'' c_ulong,
      Fld ''flags'' c_ulong,
      Fld ''pages'' (CPtr ''struct page ptr''),
      Fld ''page_order'' c_uint,
      Fld ''nr_pages'' c_uint,
      Fld ''phys_addr'' t_phys_addr_t,
      Fld ''caller'' (CPtr ''const void''),
      Fld ''requested_size'' c_ulong]"

lemma s_vm_struct_sa [simp]: "size_of s_vm_struct = 72" "align_of s_vm_struct = 8" "wf_type s_vm_struct"
  by (simp_all add: s_vm_struct_def c_layout del: One_nat_def)

end
