(* ===== verification/BpfMap.thy ===== *)
theory BpfMap
  imports Prelude "HOL-Library.AList"
begin

text \<open>
  BPF hash maps (\<open>BPF_MAP_TYPE_HASH\<close>) as the two BPF programs use them. The helpers are kernel
  code, so they are parameters: a record of operations on an abstract map state. The locale
  \<open>bpf_hash\<close> states what their documentation promises; \<open>hash_ops\<close> is a bounded association list
  that satisfies it.
\<close>

section \<open>The helpers\<close>

record ('m, 'k, 'v) bpf_ops =
  bpf_lookup :: "'m \<Rightarrow> 'k \<Rightarrow> 'v option" \<comment> \<open>\<open>bpf_map_lookup_elem\<close>: NULL is \<open>None\<close>\<close>
  bpf_update :: "'m \<Rightarrow> 'k \<Rightarrow> 'v \<Rightarrow> 'm" \<comment> \<open>\<open>bpf_map_update_elem\<close> with \<open>BPF_ANY\<close>, result ignored\<close>
  bpf_delete :: "'m \<Rightarrow> 'k \<Rightarrow> 'm" \<comment> \<open>\<open>bpf_map_delete_elem\<close>\<close>
  bpf_write :: "'m \<Rightarrow> 'k \<Rightarrow> 'v \<Rightarrow> 'm" \<comment> \<open>a store through the pointer that a lookup of the key returned\<close>

abbreviation bpf_size :: "('m, 'k, 'v, 'z) bpf_ops_scheme \<Rightarrow> 'm \<Rightarrow> nat" where
  "bpf_size ops m \<equiv> card (dom (bpf_lookup ops m))"

section \<open>What the helpers promise\<close>

locale bpf_hash =
  fixes ops :: "('m, 'k, 'v) bpf_ops" and max_entries :: nat
  assumes finite_dom: "finite (dom (bpf_lookup ops m))"
    and lookup_update:
      "bpf_lookup ops m k \<noteq> None \<or> bpf_size ops m < max_entries \<Longrightarrow>
       bpf_lookup ops (bpf_update ops m k v) = (bpf_lookup ops m)(k \<mapsto> v)"
    and lookup_update_full:
      "bpf_lookup ops m k = None \<Longrightarrow> max_entries \<le> bpf_size ops m \<Longrightarrow>
       bpf_lookup ops (bpf_update ops m k v) = bpf_lookup ops m"
    and lookup_delete: "bpf_lookup ops (bpf_delete ops m k) = (bpf_lookup ops m)(k := None)"
    and lookup_write:
      "bpf_lookup ops m k \<noteq> None \<Longrightarrow>
       bpf_lookup ops (bpf_write ops m k v) = (bpf_lookup ops m)(k \<mapsto> v)"
begin

lemma lookup_update_cases:
  "bpf_lookup ops (bpf_update ops m k v) =
     (if bpf_lookup ops m k \<noteq> None \<or> bpf_size ops m < max_entries
      then (bpf_lookup ops m)(k \<mapsto> v) else bpf_lookup ops m)"
  using lookup_update [of m k v] lookup_update_full [of m k v] by auto

lemma lookup_update_other:
  "k \<noteq> k' \<Longrightarrow> bpf_lookup ops (bpf_update ops m k v) k' = bpf_lookup ops m k'"
  by (simp add: lookup_update_cases)

lemma lookup_update_same:
  "bpf_lookup ops (bpf_update ops m k v) k =
     (if bpf_lookup ops m k \<noteq> None \<or> bpf_size ops m < max_entries then Some v else None)"
  by (auto simp: lookup_update_cases)

text \<open>No helper takes a map beyond its declared capacity.\<close>

lemma size_update: "bpf_size ops m \<le> max_entries \<Longrightarrow> bpf_size ops (bpf_update ops m k v) \<le> max_entries"
  using finite_dom [of m]
  by (auto simp: lookup_update_cases card_insert_if insert_absorb domIff)

lemma size_delete: "bpf_size ops m \<le> max_entries \<Longrightarrow> bpf_size ops (bpf_delete ops m k) \<le> max_entries"
proof -
  assume "bpf_size ops m \<le> max_entries"
  moreover have "bpf_size ops (bpf_delete ops m k) \<le> bpf_size ops m"
    using finite_dom [of m] by (simp add: lookup_delete card_mono Diff_subset)
  ultimately show ?thesis by linarith
qed

lemma size_write:
  "bpf_lookup ops m k \<noteq> None \<Longrightarrow> bpf_size ops (bpf_write ops m k v) = bpf_size ops m"
  by (simp add: lookup_write insert_absorb domIff)

end

section \<open>A bounded association list\<close>

definition hash_update :: "nat \<Rightarrow> ('k \<times> 'v) list \<Rightarrow> 'k \<Rightarrow> 'v \<Rightarrow> ('k \<times> 'v) list" where
  "hash_update n m k v =
     (if k \<in> fst ` set m \<or> card (fst ` set m) < n then AList.update k v m else m)"

definition hash_ops :: "nat \<Rightarrow> (('k \<times> 'v) list, 'k, 'v) bpf_ops" where
  "hash_ops n = \<lparr>bpf_lookup = map_of, bpf_update = hash_update n,
     bpf_delete = (\<lambda>m k. AList.delete k m), bpf_write = (\<lambda>m k v. AList.update k v m)\<rparr>"

lemma hash_ops_simps [bpf_simps]:
  "bpf_lookup (hash_ops n) = map_of"
  "bpf_update (hash_ops n) = hash_update n"
  "bpf_delete (hash_ops n) m k = AList.delete k m"
  "bpf_write (hash_ops n) m k v = AList.update k v m"
  by (simp_all add: hash_ops_def)

lemma hash_ops_bpf_hash: "bpf_hash (hash_ops n) n"
  by unfold_locales
    (auto simp: bpf_simps hash_update_def dom_map_of_conv_image_fst update_conv' delete_conv'
      map_of_eq_None_iff)

interpretation hash: bpf_hash "hash_ops n" n
  by (rule hash_ops_bpf_hash)

end
