(* ===== verification/CoreRead.thy ===== *)
theory CoreRead
  imports Prelude
begin

text \<open>
  \<open>BPF_CORE_READ\<close>: reads of kernel objects through relocated member offsets. The kernel memory and
  the offsets of the running kernel are parameters of the programs that read.
\<close>

section \<open>Reads\<close>

record core_env =
  probe_read :: "u64 \<Rightarrow> nat \<Rightarrow> u64"
    \<comment> \<open>\<open>bpf_probe_read_kernel\<close> of n bytes at an address, zero-extended; 0 when the read faults\<close>
  field_off :: "string \<Rightarrow> string \<Rightarrow> nat"
    \<comment> \<open>byte offset of a member of a struct in the running kernel, as the loader relocates it\<close>

definition core_read :: "core_env \<Rightarrow> string \<Rightarrow> string \<Rightarrow> nat \<Rightarrow> u64 \<Rightarrow> u64" where
  "core_read env s f n p = probe_read env (p + of_nat (field_off env s f)) n"

text \<open>A read of four bytes leaves a value of four bytes.\<close>

definition probe_sized :: "core_env \<Rightarrow> bool" where
  "probe_sized env \<longleftrightarrow> (\<forall>p. unat (probe_read env p 4) < 2 ^ 32)"

lemma unat_ucast_small: "unat (x :: u64) < 2 ^ 32 \<Longrightarrow> unat (ucast x :: u32) = unat x"
  by (simp add: unsigned_ucast_eq unsigned_take_bit_eq take_bit_nat_eq_self)

end
