(* ===== verification/RunqLatency.thy ===== *)
theory RunqLatency
  imports BpfMap CoreRead
begin

text \<open>
  \<open>ebpf/latency/runq_latency.c\<close>: the scheduler programs that measure how long tasks wait on a run
  queue, per cgroup. State: the map from tasks (pid and start time) to the time they became
  runnable, and the map from cgroup ids to accumulated waits. Kernel memory, the clock and the map
  helpers are parameters; every program returns 0.
\<close>

section \<open>Data\<close>

record runq_key_t =
  key_pid :: u32
  key_start_time :: u64

record cgroup_runq_stats_t =
  rq_count :: u64
  rq_total_latency_ns :: u64

definition runq_start_map_entries :: nat where
  "runq_start_map_entries = 16384"

definition runq_stats_by_cgroup_entries :: nat where
  "runq_stats_by_cgroup_entries = 8192"

record ('ms, 'mt) runq_maps =
  rq_start_ops :: "('ms, runq_key_t, u64) bpf_ops"
  rq_stats_ops :: "('mt, u64, cgroup_runq_stats_t) bpf_ops"

record ('ms, 'mt) runq_state =
  rq_start_map :: 'ms
  runq_stats_by_cgroup :: 'mt

definition zero_runq_stats :: cgroup_runq_stats_t where
  "zero_runq_stats = \<lparr>rq_count = 0, rq_total_latency_ns = 0\<rparr>"

section \<open>Helpers\<close>

definition get_task_cgroup_id :: "core_env \<Rightarrow> u64 \<Rightarrow> u64" where
  "get_task_cgroup_id env task =
     core_read env ''kernfs_node'' ''id'' 8
       (core_read env ''cgroup'' ''kn'' 8
         (core_read env ''css_set'' ''dfl_cgrp'' 8
           (core_read env ''task_struct'' ''cgroups'' 8 task)))"

text \<open>\<open>pid\<close> is a signed 32-bit integer stored in an unsigned one.\<close>

definition fill_key :: "core_env \<Rightarrow> u64 \<Rightarrow> runq_key_t" where
  "fill_key env p =
     \<lparr>key_pid = ucast (core_read env ''task_struct'' ''pid'' 4 p),
      key_start_time = core_read env ''task_struct'' ''start_time'' 8 p\<rparr>"

definition handle_wakeup ::
  "('ms, 'mt) runq_maps \<Rightarrow> core_env \<Rightarrow> u64 \<Rightarrow> u64 \<Rightarrow> ('ms, 'mt) runq_state \<Rightarrow>
   ('ms, 'mt) runq_state" where
  "handle_wakeup maps env ts p st =
     st\<lparr>rq_start_map := bpf_update (rq_start_ops maps) (rq_start_map st) (fill_key env p) ts\<rparr>"

section \<open>The programs\<close>

definition sched_wakeup ::
  "('ms, 'mt) runq_maps \<Rightarrow> core_env \<Rightarrow> u64 \<Rightarrow> u64 \<Rightarrow> ('ms, 'mt) runq_state \<Rightarrow>
   ('ms, 'mt) runq_state" where
  "sched_wakeup maps env ts p st = handle_wakeup maps env ts p st"

definition sched_wakeup_new ::
  "('ms, 'mt) runq_maps \<Rightarrow> core_env \<Rightarrow> u64 \<Rightarrow> u64 \<Rightarrow> ('ms, 'mt) runq_state \<Rightarrow>
   ('ms, 'mt) runq_state" where
  "sched_wakeup_new maps env ts p st = handle_wakeup maps env ts p st"

text \<open>The two atomic additions to an entry of \<open>runq_stats_by_cgroup\<close>.\<close>

definition add_runq_stats :: "u64 \<Rightarrow> cgroup_runq_stats_t \<Rightarrow> cgroup_runq_stats_t" where
  "add_runq_stats delta s =
     \<lparr>rq_count = rq_count s + 1, rq_total_latency_ns = rq_total_latency_ns s + delta\<rparr>"

text \<open>
  \<open>now\<close> is the clock when the program stamps \<open>prev\<close>, \<open>ts\<close> the clock when it measures \<open>next\<close>.
  \<open>preempt\<close> is not used.
\<close>

definition sched_switch ::
  "('ms, 'mt) runq_maps \<Rightarrow> core_env \<Rightarrow> u64 \<Rightarrow> u64 \<Rightarrow> bool \<Rightarrow> u64 \<Rightarrow> u64 \<Rightarrow>
   ('ms, 'mt) runq_state \<Rightarrow> ('ms, 'mt) runq_state" where
  "sched_switch maps env now ts preempt prev next st =
     (let prev_state = core_read env ''task_struct'' ''__state'' 4 prev;
          st1 = (if prev_state = 0
                 then st\<lparr>rq_start_map :=
                           bpf_update (rq_start_ops maps) (rq_start_map st) (fill_key env prev) now\<rparr>
                 else st);
          key = fill_key env next
      in case bpf_lookup (rq_start_ops maps) (rq_start_map st1) key of
           None \<Rightarrow> st1
         | Some t \<Rightarrow>
             let delta = ts - t;
                 st2 = st1\<lparr>rq_start_map :=
                             bpf_delete (rq_start_ops maps) (rq_start_map st1) key\<rparr>;
                 cg = get_task_cgroup_id env next;
                 st3 = (case bpf_lookup (rq_stats_ops maps) (runq_stats_by_cgroup st2) cg of
                          Some _ \<Rightarrow> st2
                        | None \<Rightarrow>
                            st2\<lparr>runq_stats_by_cgroup :=
                                  bpf_update (rq_stats_ops maps) (runq_stats_by_cgroup st2) cg
                                    zero_runq_stats\<rparr>)
             in case bpf_lookup (rq_stats_ops maps) (runq_stats_by_cgroup st3) cg of
                  None \<Rightarrow> st3
                | Some stats \<Rightarrow>
                    st3\<lparr>runq_stats_by_cgroup :=
                          bpf_write (rq_stats_ops maps) (runq_stats_by_cgroup st3) cg
                            (add_runq_stats delta stats)\<rparr>)"

section \<open>Runs\<close>

text \<open>The scheduler events, each with the kernel memory at the event.\<close>

datatype runq_event =
    Wakeup core_env u64 u64 \<comment> \<open>clock, task\<close>
  | WakeupNew core_env u64 u64
  | Switch core_env u64 u64 bool u64 u64 \<comment> \<open>the two clock readings, preempt, prev, next\<close>

fun runq_step ::
  "('ms, 'mt) runq_maps \<Rightarrow> runq_event \<Rightarrow> ('ms, 'mt) runq_state \<Rightarrow> ('ms, 'mt) runq_state" where
  "runq_step maps (Wakeup env ts p) st = sched_wakeup maps env ts p st"
| "runq_step maps (WakeupNew env ts p) st = sched_wakeup_new maps env ts p st"
| "runq_step maps (Switch env now ts preempt prev next) st =
     sched_switch maps env now ts preempt prev next st"

definition runq_run ::
  "('ms, 'mt) runq_maps \<Rightarrow> runq_event list \<Rightarrow> ('ms, 'mt) runq_state \<Rightarrow> ('ms, 'mt) runq_state" where
  "runq_run maps evs st = fold (runq_step maps) evs st"

end
