(* ===== verification/RunqSpec.thy ===== *)
theory RunqSpec
  imports RunqLatency
begin

text \<open>
  What the scheduler programs promise: the tasks waiting to run, with the time they became runnable,
  and the list of waits measured so far. A run of the programs is a run of this specification as
  long as neither map overflows.
\<close>

section \<open>The specification\<close>

datatype wait_sample = Waited (wait_cgroup: u64) (wait_delta: u64)

type_synonym runq_spec = "(runq_key_t \<rightharpoonup> u64) \<times> wait_sample list"

text \<open>The tasks waiting after the program has looked at \<open>prev\<close>.\<close>

definition requeue :: "core_env \<Rightarrow> u64 \<Rightarrow> u64 \<Rightarrow> (runq_key_t \<rightharpoonup> u64) \<Rightarrow> (runq_key_t \<rightharpoonup> u64)" where
  "requeue env now prev w =
     (if core_read env ''task_struct'' ''__state'' 4 prev = 0
      then w(fill_key env prev \<mapsto> now) else w)"

fun runq_spec_step :: "runq_event \<Rightarrow> runq_spec \<Rightarrow> runq_spec" where
  "runq_spec_step (Wakeup env ts p) (w, ss) = (w(fill_key env p \<mapsto> ts), ss)"
| "runq_spec_step (WakeupNew env ts p) (w, ss) = (w(fill_key env p \<mapsto> ts), ss)"
| "runq_spec_step (Switch env now ts preempt prev next) (w, ss) =
     (case requeue env now prev w (fill_key env next) of
        None \<Rightarrow> (requeue env now prev w, ss)
      | Some t \<Rightarrow>
          ((requeue env now prev w)(fill_key env next := None),
           ss @ [Waited (get_task_cgroup_id env next) (ts - t)]))"

definition waits_of :: "wait_sample list \<Rightarrow> u64 \<Rightarrow> wait_sample list" where
  "waits_of ss c = filter (\<lambda>s. wait_cgroup s = c) ss"

definition runq_stats_of :: "wait_sample list \<Rightarrow> u64 \<Rightarrow> cgroup_runq_stats_t option" where
  "runq_stats_of ss c =
     (if waits_of ss c = [] then None
      else Some \<lparr>rq_count = of_nat (length (waits_of ss c)),
                 rq_total_latency_ns = sum_list (map wait_delta (waits_of ss c))\<rparr>)"

text \<open>Neither map overflows.\<close>

definition room :: "(runq_key_t \<rightharpoonup> u64) \<Rightarrow> runq_key_t \<Rightarrow> bool" where
  "room w k \<longleftrightarrow> w k \<noteq> None \<or> card (dom w) < runq_start_map_entries"

fun runq_fits_step :: "runq_event \<Rightarrow> runq_spec \<Rightarrow> bool" where
  "runq_fits_step (Wakeup env ts p) (w, ss) = room w (fill_key env p)"
| "runq_fits_step (WakeupNew env ts p) (w, ss) = room w (fill_key env p)"
| "runq_fits_step (Switch env now ts preempt prev next) (w, ss) =
     ((core_read env ''task_struct'' ''__state'' 4 prev = 0 \<longrightarrow> room w (fill_key env prev)) \<and>
      (waits_of ss (get_task_cgroup_id env next) \<noteq> [] \<or>
       card (wait_cgroup ` set ss) < runq_stats_by_cgroup_entries))"

fun runq_fits :: "runq_event list \<Rightarrow> runq_spec \<Rightarrow> bool" where
  "runq_fits [] a = True"
| "runq_fits (e # es) a = (runq_fits_step e a \<and> runq_fits es (runq_spec_step e a))"

lemma waits_of_append:
  "waits_of (ss @ [s]) c = waits_of ss c @ (if wait_cgroup s = c then [s] else [])"
  by (simp add: waits_of_def)

lemma runq_stats_of_append:
  "runq_stats_of (ss @ [s]) =
     (runq_stats_of ss)(wait_cgroup s \<mapsto>
        add_runq_stats (wait_delta s)
          (case runq_stats_of ss (wait_cgroup s) of None \<Rightarrow> zero_runq_stats | Some x \<Rightarrow> x))"
  by (rule ext)
    (auto simp: runq_stats_of_def waits_of_append add_runq_stats_def zero_runq_stats_def)

lemma dom_runq_stats_of: "dom (runq_stats_of ss) = wait_cgroup ` set ss"
  by (auto simp: runq_stats_of_def waits_of_def dom_def filter_empty_conv split: if_splits)

lemma runq_stats_of_Nil: "runq_stats_of [] = Map.empty"
  by (rule ext) (simp add: runq_stats_of_def waits_of_def)

lemma waits_of_empty_iff: "waits_of ss c = [] \<longleftrightarrow> runq_stats_of ss c = None"
  by (simp add: runq_stats_of_def)

section \<open>The contract of the maps, and the simulation\<close>

abbreviation runq_pend ::
  "('ms, 'mt) runq_maps \<Rightarrow> ('ms, 'mt) runq_state \<Rightarrow> runq_key_t \<rightharpoonup> u64" where
  "runq_pend maps st \<equiv> bpf_lookup (rq_start_ops maps) (rq_start_map st)"

abbreviation runq_acc ::
  "('ms, 'mt) runq_maps \<Rightarrow> ('ms, 'mt) runq_state \<Rightarrow> u64 \<rightharpoonup> cgroup_runq_stats_t" where
  "runq_acc maps st \<equiv> bpf_lookup (rq_stats_ops maps) (runq_stats_by_cgroup st)"

definition runq_refines ::
  "('ms, 'mt) runq_maps \<Rightarrow> ('ms, 'mt) runq_state \<Rightarrow> runq_spec \<Rightarrow> bool" where
  "runq_refines maps st a \<longleftrightarrow> runq_pend maps st = fst a \<and> runq_acc maps st = runq_stats_of (snd a)"

locale runq_ctx =
  start: bpf_hash "rq_start_ops maps" runq_start_map_entries +
  stats: bpf_hash "rq_stats_ops maps" runq_stats_by_cgroup_entries
  for maps :: "('ms, 'mt) runq_maps"
begin

abbreviation "pend st \<equiv> runq_pend maps st"
abbreviation "acc st \<equiv> runq_acc maps st"

lemma wakeup_pend:
  "pend (handle_wakeup maps env ts p st) =
     (if room (pend st) (fill_key env p) then (pend st)(fill_key env p \<mapsto> ts) else pend st)"
  by (simp add: handle_wakeup_def room_def start.lookup_update_cases)

lemma wakeup_acc: "acc (handle_wakeup maps env ts p st) = acc st"
  by (simp add: handle_wakeup_def)

text \<open>The state after the program has looked at \<open>prev\<close>.\<close>

lemma switch_requeue:
  assumes "core_read env ''task_struct'' ''__state'' 4 prev = 0 \<Longrightarrow> room (pend st) (fill_key env prev)"
  shows "bpf_lookup (rq_start_ops maps)
      (if core_read env ''task_struct'' ''__state'' 4 prev = 0
       then bpf_update (rq_start_ops maps) (rq_start_map st) (fill_key env prev) now
       else rq_start_map st) = requeue env now prev (pend st)"
  using assms by (simp add: requeue_def room_def start.lookup_update)

lemma switch_pend:
  assumes "core_read env ''task_struct'' ''__state'' 4 prev = 0 \<Longrightarrow> room (pend st) (fill_key env prev)"
  shows "pend (sched_switch maps env now ts preempt prev next st) =
    (requeue env now prev (pend st))(fill_key env next := None)"
  using switch_requeue [OF assms, of now]
  by (auto simp: sched_switch_def Let_def start.lookup_delete fun_upd_idem
      split: option.splits if_splits)

lemma switch_acc:
  assumes "core_read env ''task_struct'' ''__state'' 4 prev = 0 \<Longrightarrow> room (pend st) (fill_key env prev)"
    and "acc st (get_task_cgroup_id env next) \<noteq> None \<or>
      card (dom (acc st)) < runq_stats_by_cgroup_entries"
  shows "acc (sched_switch maps env now ts preempt prev next st) =
    (case requeue env now prev (pend st) (fill_key env next) of
       None \<Rightarrow> acc st
     | Some t \<Rightarrow>
         (acc st)(get_task_cgroup_id env next \<mapsto>
            add_runq_stats (ts - t)
              (case acc st (get_task_cgroup_id env next) of
                 None \<Rightarrow> zero_runq_stats | Some x \<Rightarrow> x)))"
  using switch_requeue [OF assms(1), of now] assms(2)
  by (auto simp: sched_switch_def Let_def stats.lookup_update stats.lookup_write
      split: option.splits if_splits)

lemma runq_step_refines:
  assumes "runq_refines maps st a" and "runq_fits_step e a"
  shows "runq_refines maps (runq_step maps e st) (runq_spec_step e a)"
proof -
  obtain w ss where a: "a = (w, ss)" by (cases a)
  show ?thesis
  proof (cases e)
    case (Switch env now ts preempt prev nxt)
    with assms a have fits:
      "core_read env ''task_struct'' ''__state'' 4 prev = 0 \<Longrightarrow> room (pend st) (fill_key env prev)"
      "acc st (get_task_cgroup_id env nxt) \<noteq> None \<or>
        card (dom (acc st)) < runq_stats_by_cgroup_entries"
      by (auto simp: runq_refines_def dom_runq_stats_of waits_of_empty_iff)
    from assms(1) a Switch show ?thesis
      by (simp add: runq_refines_def switch_pend [OF fits(1)] switch_acc [OF fits]
          runq_stats_of_append fun_upd_idem split: option.split)
  qed (use assms a in \<open>auto simp: runq_refines_def sched_wakeup_def sched_wakeup_new_def wakeup_pend
      wakeup_acc\<close>)
qed

lemma runq_run_refines:
  "runq_refines maps st a \<Longrightarrow> runq_fits evs a \<Longrightarrow>
   runq_refines maps (runq_run maps evs st) (fold runq_spec_step evs a)"
proof (induction evs arbitrary: st a)
  case (Cons e es)
  then show ?case using runq_step_refines [of st a e] by (auto simp: runq_run_def)
qed (simp add: runq_run_def)

end

section \<open>The model's own maps\<close>

definition hash_runq_maps ::
  "((runq_key_t \<times> u64) list, (u64 \<times> cgroup_runq_stats_t) list) runq_maps" where
  "hash_runq_maps =
     \<lparr>rq_start_ops = hash_ops runq_start_map_entries,
      rq_stats_ops = hash_ops runq_stats_by_cgroup_entries\<rparr>"

definition runq_init :: "((runq_key_t \<times> u64) list, (u64 \<times> cgroup_runq_stats_t) list) runq_state" where
  "runq_init = \<lparr>rq_start_map = [], runq_stats_by_cgroup = []\<rparr>"

lemma hash_runq_maps_simps [bpf_simps]:
  "rq_start_ops hash_runq_maps = hash_ops runq_start_map_entries"
  "rq_stats_ops hash_runq_maps = hash_ops runq_stats_by_cgroup_entries"
  by (simp_all add: hash_runq_maps_def)

interpretation hash_runq: runq_ctx hash_runq_maps
  by (simp add: runq_ctx_def bpf_simps hash_ops_bpf_hash)

section \<open>Clocks\<close>

fun runq_clock :: "runq_event \<Rightarrow> u64" where
  "runq_clock (Wakeup _ ts _) = ts"
| "runq_clock (WakeupNew _ ts _) = ts"
| "runq_clock (Switch _ _ ts _ _ _) = ts"

fun runq_clock_first :: "runq_event \<Rightarrow> u64" where
  "runq_clock_first (Wakeup _ ts _) = ts"
| "runq_clock_first (WakeupNew _ ts _) = ts"
| "runq_clock_first (Switch _ now _ _ _ _) = now"

text \<open>The clock does not run backwards, within an event and from one event to the next.\<close>

fun runq_monotone :: "u64 \<Rightarrow> runq_event list \<Rightarrow> u64 \<Rightarrow> bool" where
  "runq_monotone t [] t1 = (t \<le> t1)"
| "runq_monotone t (e # es) t1 =
     (t \<le> runq_clock_first e \<and> runq_clock_first e \<le> runq_clock e \<and>
      runq_monotone (runq_clock e) es t1)"

lemma runq_monotone_le: "runq_monotone t evs t1 \<Longrightarrow> t \<le> t1"
  by (induction evs arbitrary: t) (auto intro: order_trans)

definition runq_timed :: "u64 \<Rightarrow> u64 \<Rightarrow> nat \<Rightarrow> runq_spec \<Rightarrow> bool" where
  "runq_timed t0 t d a \<longleftrightarrow>
     (\<forall>x \<in> ran (fst a). t0 \<le> x \<and> x \<le> t) \<and> (\<forall>s \<in> set (snd a). unat (wait_delta s) \<le> d)"

lemma ran_requeue: "ran (requeue env now prev w) \<subseteq> insert now (ran w)"
  by (auto simp: requeue_def ran_def)

lemma runq_step_timed:
  assumes inv: "runq_timed t0 t (unat t1 - unat t0) a" and "t0 \<le> t"
    and clock: "t \<le> runq_clock_first e" "runq_clock_first e \<le> runq_clock e" "runq_clock e \<le> t1"
  shows "runq_timed t0 (runq_clock e) (unat t1 - unat t0) (runq_spec_step e a)"
proof -
  obtain w ss where a: "a = (w, ss)" by (cases a)
  show ?thesis
  proof (cases e)
    case (Switch env now ts preempt prev nxt)
    let ?w = "requeue env now prev w"
    have le: "t \<le> now" "now \<le> ts" "ts \<le> t1" using clock Switch by auto
    have old: "t0 \<le> x \<and> x \<le> ts" if "x \<in> ran ?w" for x
    proof -
      from that ran_requeue have "x = now \<or> x \<in> ran w" by blast
      moreover have "t0 \<le> x \<and> x \<le> t" if "x \<in> ran w" using inv a that by (auto simp: runq_timed_def)
      ultimately show ?thesis using le \<open>t0 \<le> t\<close> by (auto intro: order_trans)
    qed
    then have "unat (ts - x) \<le> unat t1 - unat t0" if "?w (fill_key env nxt) = Some x" for x
      using old [OF ranI [of ?w "fill_key env nxt" x, OF that]] le(3) by (blast intro: delta_bound)
    moreover have "ran (?w(fill_key env nxt := None)) \<subseteq> ran ?w" by (auto simp: ran_def)
    ultimately show ?thesis
      using inv a Switch old
      by (auto simp: runq_timed_def split: option.splits)
  qed (use assms a in \<open>force simp: runq_timed_def ran_def\<close>)+
qed

lemma runq_run_timed:
  "runq_timed t0 t (unat t1 - unat t0) a \<Longrightarrow> t0 \<le> t \<Longrightarrow> runq_monotone t evs t1 \<Longrightarrow>
   \<forall>s \<in> set (snd (fold runq_spec_step evs a)). unat (wait_delta s) \<le> unat t1 - unat t0"
proof (induction evs arbitrary: t a)
  case (Cons e es)
  from Cons.prems(3) have e: "t \<le> runq_clock_first e" "runq_clock_first e \<le> runq_clock e"
    "runq_clock e \<le> t1" and rest: "runq_monotone (runq_clock e) es t1"
    by (auto intro: runq_monotone_le)
  from runq_step_timed [OF Cons.prems(1,2) e]
  have "runq_timed t0 (runq_clock e) (unat t1 - unat t0) (runq_spec_step e a)" .
  moreover have "t0 \<le> runq_clock e" using Cons.prems(2) e(1,2) by (meson order_trans)
  ultimately show ?case using rest Cons.IH by simp
qed (simp add: runq_timed_def)

lemma runq_samples_length:
  "length (snd (fold runq_spec_step evs a)) \<le> length (snd a) + length evs"
proof (induction evs arbitrary: a)
  case (Cons e es)
  obtain w ss where a: "a = (w, ss)" by (cases a)
  have "length (snd (runq_spec_step e a)) \<le> Suc (length (snd a))"
    unfolding a by (cases e) (auto split: option.splits)
  then show ?case using Cons.IH [of "runq_spec_step e a"] by simp
qed simp

section \<open>Properties\<close>

abbreviation runq_spec_run :: "runq_event list \<Rightarrow> runq_spec" where
  "runq_spec_run evs \<equiv> fold runq_spec_step evs (Map.empty, [])"

definition runq_empty :: "('ms, 'mt) runq_maps \<Rightarrow> ('ms, 'mt) runq_state \<Rightarrow> bool" where
  "runq_empty maps st \<longleftrightarrow> runq_pend maps st = Map.empty \<and> runq_acc maps st = Map.empty"

lemma runq_refines_empty: "runq_empty maps st \<longleftrightarrow> runq_refines maps st (Map.empty, [])"
  by (simp add: runq_empty_def runq_refines_def runq_stats_of_Nil)

text \<open>
  A concrete run on a memory where a task at address \<open>p\<close> has pid \<open>p\<close>, start time 7 and cgroup 7, and
  every member is found at its own distance: task 5 wakes up, runs, and is preempted by task 6.
\<close>

definition demo_kernel :: core_env where
  "demo_kernel =
     \<lparr>probe_read = (\<lambda>a n. if n = 4 then (if 1000 \<le> a then 0 else a) else if 2000 \<le> a then 7 else 2000),
      field_off = (\<lambda>s f. if f = ''__state'' then 1000 else if f = ''start_time'' then 3000 else 0)\<rparr>"

definition demo_sched :: "runq_event list" where
  "demo_sched =
     [Wakeup demo_kernel 100 5, Switch demo_kernel 130 130 False 9 5, WakeupNew demo_kernel 140 6,
      Switch demo_kernel 150 155 True 5 6]"

lemma runq_init_empty: "runq_empty hash_runq_maps runq_init"
  by (simp add: runq_empty_def runq_init_def bpf_simps)

lemmas demo_sched_simps = demo_sched_def demo_kernel_def fill_key_def core_read_def requeue_def
  get_task_cgroup_id_def room_def waits_of_def runq_start_map_entries_def
  runq_stats_by_cgroup_entries_def

lemma demo_sched_fits: "runq_fits demo_sched (Map.empty, [])"
  by (simp add: demo_sched_simps)

text \<open>
  C8: from empty maps, as long as neither overflows, after any sequence of scheduler events the
  tasks recorded as waiting are exactly those that became runnable (woken up, or switched out while
  still in state 0) and have not been switched in since, each with the time of the last such event,
  and the entry of a cgroup holds the number and the sum of the waits its tasks have ended.
\<close>

theorem runq_accounting:
  assumes "runq_ctx maps" and "runq_empty maps st" and "runq_fits evs (Map.empty, [])"
  shows "runq_pend maps (runq_run maps evs st) = fst (runq_spec_run evs) \<and>
    runq_acc maps (runq_run maps evs st) c =
      (let ss = waits_of (snd (runq_spec_run evs)) c in
       if ss = [] then None
       else Some \<lparr>rq_count = of_nat (length ss),
                  rq_total_latency_ns = sum_list (map wait_delta ss)\<rparr>)"
  using runq_ctx.runq_run_refines [OF assms(1) _ assms(3)] assms(2)
  by (simp add: runq_refines_empty runq_refines_def runq_stats_of_def Let_def)

theorem runq_accounting_witness:
  "runq_acc hash_runq_maps (runq_run hash_runq_maps demo_sched runq_init) 7 =
     Some \<lparr>rq_count = 2, rq_total_latency_ns = 45\<rparr>"
  unfolding runq_accounting [OF hash_runq.runq_ctx_axioms runq_init_empty demo_sched_fits,
    THEN conjunct2]
  by (simp add: demo_sched_simps)

text \<open>
  One context switch. A previous task still in state 0 goes back to waiting from now on, one
  that blocked does not; the next task stops waiting, and if it was recorded as waiting its cgroup
  is credited with one event and the time since it became runnable, every other cgroup being left
  alone; a task not recorded as waiting is switched in without being counted.
\<close>

lemma sched_switch_effect:
  assumes "runq_ctx maps"
    and "core_read env ''task_struct'' ''__state'' 4 prev = 0 \<Longrightarrow>
      room (runq_pend maps st) (fill_key env prev)"
    and "runq_acc maps st (get_task_cgroup_id env next) \<noteq> None \<or>
      card (dom (runq_acc maps st)) < runq_stats_by_cgroup_entries"
  shows "runq_pend maps (sched_switch maps env now ts preempt prev next st) =
      (requeue env now prev (runq_pend maps st))(fill_key env next := None) \<and>
    runq_acc maps (sched_switch maps env now ts preempt prev next st) =
      (case requeue env now prev (runq_pend maps st) (fill_key env next) of
         None \<Rightarrow> runq_acc maps st
       | Some t \<Rightarrow>
           (runq_acc maps st)(get_task_cgroup_id env next \<mapsto>
              add_runq_stats (ts - t)
                (case runq_acc maps st (get_task_cgroup_id env next) of
                   None \<Rightarrow> zero_runq_stats | Some x \<Rightarrow> x)))"
  using runq_ctx.switch_pend [OF assms(1,2)] runq_ctx.switch_acc [OF assms] by blast

lemma sched_switch_effect_witness:
  "runq_acc hash_runq_maps
     (sched_switch hash_runq_maps demo_kernel 130 130 False 9 5
        (sched_wakeup hash_runq_maps demo_kernel 100 5 runq_init)) 7 =
   Some \<lparr>rq_count = 1, rq_total_latency_ns = 30\<rparr>"
proof -
  let ?st = "sched_wakeup hash_runq_maps demo_kernel 100 5 runq_init"
  have st: "runq_pend hash_runq_maps ?st = [fill_key demo_kernel 5 \<mapsto> 100]"
    "runq_acc hash_runq_maps ?st = Map.empty"
    by (simp_all add: sched_wakeup_def handle_wakeup_def runq_init_def bpf_simps hash_update_def
        runq_start_map_entries_def)
  have "runq_acc hash_runq_maps (sched_switch hash_runq_maps demo_kernel 130 130 False 9 5 ?st) =
      (case requeue demo_kernel 130 9 (runq_pend hash_runq_maps ?st) (fill_key demo_kernel 5) of
         None \<Rightarrow> runq_acc hash_runq_maps ?st
       | Some t \<Rightarrow>
           (runq_acc hash_runq_maps ?st)(get_task_cgroup_id demo_kernel 5 \<mapsto>
              add_runq_stats (130 - t)
                (case runq_acc hash_runq_maps ?st (get_task_cgroup_id demo_kernel 5) of
                   None \<Rightarrow> zero_runq_stats | Some x \<Rightarrow> x)))"
    by (rule sched_switch_effect [OF hash_runq.runq_ctx_axioms, THEN conjunct2])
      (unfold st, simp_all add: demo_sched_simps)
  then show ?thesis
    unfolding st by (simp add: demo_sched_simps add_runq_stats_def zero_runq_stats_def)
qed

section \<open>A wait belongs to its task\<close>


fun event_env :: "runq_event \<Rightarrow> core_env" where
  "event_env (Wakeup env _ _) = env"
| "event_env (WakeupNew env _ _) = env"
| "event_env (Switch env _ _ _ _ _) = env"

fun event_tasks :: "runq_event \<Rightarrow> u64 list" where
  "event_tasks (Wakeup _ _ p) = [p]"
| "event_tasks (WakeupNew _ _ p) = [p]"
| "event_tasks (Switch _ _ _ _ prev next) = [prev, next]"



text \<open>The statistics after a wait, or as they were when the table is full.\<close>

definition credited ::
  "(u64 \<rightharpoonup> cgroup_runq_stats_t) \<Rightarrow> u64 \<Rightarrow> u64 \<Rightarrow> (u64 \<rightharpoonup> cgroup_runq_stats_t)" where
  "credited A cg d =
     (if A cg \<noteq> None \<or> card (dom A) < runq_stats_by_cgroup_entries
      then A(cg \<mapsto> add_runq_stats d (case A cg of None \<Rightarrow> zero_runq_stats | Some x \<Rightarrow> x)) else A)"

text \<open>Two states that differ in one waiting task only, with slots left for \<open>n\<close> more.\<close>

definition apart_from ::
  "('ms, 'mt) runq_maps \<Rightarrow> runq_key_t \<Rightarrow> u64 \<Rightarrow> nat \<Rightarrow> ('ms, 'mt) runq_state \<Rightarrow> ('ms, 'mt) runq_state \<Rightarrow> bool" where
  "apart_from maps k t n st st' \<longleftrightarrow>
     runq_pend maps st' = (runq_pend maps st)(k \<mapsto> t) \<and> runq_acc maps st' = runq_acc maps st \<and>
     card (dom (runq_pend maps st')) + n \<le> runq_start_map_entries"

context runq_ctx
begin

lemma switch_credits:
  assumes "core_read env ''task_struct'' ''__state'' 4 prev = 0 \<Longrightarrow> room (pend st) (fill_key env prev)"
  shows "acc (sched_switch maps env now ts preempt prev next st) =
    (case requeue env now prev (pend st) (fill_key env next) of
       None \<Rightarrow> acc st | Some t \<Rightarrow> credited (acc st) (get_task_cgroup_id env next) (ts - t))"
  using switch_requeue [OF assms, of now]
  by (auto simp: sched_switch_def Let_def credited_def stats.lookup_update_cases stats.lookup_write
      split: option.splits if_splits)

lemma apart_rooms:
  assumes "apart_from maps k t (Suc n) st st'"
  shows "room (pend st) q" and "room (pend st') q"
proof -
  have "card (dom (pend st)) \<le> card (dom (pend st'))"
    using assms start.finite_dom by (intro card_mono) (auto simp: apart_from_def)
  with assms show "room (pend st) q" "room (pend st') q" by (auto simp: apart_from_def room_def)
qed

lemma apart_pend:
  assumes "apart_from maps k t (Suc n) st st'" and "pend st2' = (pend st2)(k \<mapsto> t)" and "acc st2' = acc st2"
    and "dom (pend st2') \<subseteq> insert q (dom (pend st'))"
  shows "apart_from maps k t n st2 st2'"
proof -
  have "card (dom (pend st2')) \<le> card (insert q (dom (pend st')))"
    using assms(4) start.finite_dom by (intro card_mono) auto
  also have "\<dots> \<le> Suc (card (dom (pend st')))" by (simp add: card_insert_le_m1 card_insert_if start.finite_dom)
  finally have "card (dom (pend st2')) \<le> Suc (card (dom (pend st')))" .
  moreover have "Suc (card (dom (pend st')) + n) \<le> runq_start_map_entries"
    using assms(1) [unfolded apart_from_def, THEN conjunct2, THEN conjunct2] by linarith
  ultimately have "card (dom (pend st2')) + n \<le> runq_start_map_entries" by linarith
  with assms(2,3) show ?thesis by (simp add: apart_from_def)
qed

lemma apart_wakeup:
  assumes "apart_from maps k t (Suc n) st st'" and "fill_key env p \<noteq> k"
  shows "apart_from maps k t n (handle_wakeup maps env ts p st) (handle_wakeup maps env ts p st')"
  by (rule apart_pend [OF assms(1), where q = "fill_key env p"])
    (use assms apart_rooms [OF assms(1)] in \<open>auto simp: wakeup_pend wakeup_acc apart_from_def fun_upd_twist\<close>)

lemma apart_switch:
  assumes "apart_from maps k t (Suc n) st st'" and "fill_key env prev \<noteq> k" "fill_key env nxt \<noteq> k"
  shows "apart_from maps k t n (sched_switch maps env now ts preempt prev nxt st)
    (sched_switch maps env now ts preempt prev nxt st')"
proof (rule apart_pend [OF assms(1), where q = "fill_key env prev"])
  have re: "requeue env now prev (pend st') = (requeue env now prev (pend st))(k \<mapsto> t)"
    using assms by (simp add: requeue_def apart_from_def fun_upd_twist)
  note rooms = apart_rooms [OF assms(1)]
  have "acc st' = acc st" using assms(1) by (simp add: apart_from_def)
  then show "acc (sched_switch maps env now ts preempt prev nxt st') = acc (sched_switch maps env now ts preempt prev nxt st)"
    using assms(3) by (simp add: switch_credits rooms re split: option.split)
  show "pend (sched_switch maps env now ts preempt prev nxt st') =
      (pend (sched_switch maps env now ts preempt prev nxt st))(k \<mapsto> t)"
    using assms(3) by (simp add: switch_pend rooms re fun_upd_twist)
  show "dom (pend (sched_switch maps env now ts preempt prev nxt st')) \<subseteq> insert (fill_key env prev) (dom (pend st'))"
    by (auto simp: switch_pend rooms requeue_def split: if_splits)
qed

lemma apart_run:
  assumes "apart_from maps k t (length evs + n) st st'"
    and "\<And>e p. e \<in> set evs \<Longrightarrow> p \<in> set (event_tasks e) \<Longrightarrow> fill_key (event_env e) p \<noteq> k"
  shows "apart_from maps k t n (runq_run maps evs st) (runq_run maps evs st')"
  using assms
proof (induction evs arbitrary: st st')
  case (Cons e es)
  have "apart_from maps k t (length es + n) (runq_step maps e st) (runq_step maps e st')"
    using Cons.prems(1) Cons.prems(2) [OF list.set_intros(1)]
    by (cases e) (simp_all add: sched_wakeup_def sched_wakeup_new_def apart_wakeup apart_switch)
  from Cons.IH [OF this] Cons.prems(2) show ?case by (simp add: runq_run_def)
qed (simp add: runq_run_def)

lemma wakeup_apart:
  assumes "card (dom (pend st)) + Suc n \<le> runq_start_map_entries"
  shows "apart_from maps (fill_key env p) t n st (handle_wakeup maps env t p st)"
proof -
  have "room (pend st) (fill_key env p)" using assms by (simp add: room_def)
  moreover have "card (insert (fill_key env p) (dom (pend st))) \<le> Suc (card (dom (pend st)))"
    by (simp add: card_insert_if start.finite_dom)
  ultimately show ?thesis using assms by (simp add: apart_from_def wakeup_pend wakeup_acc)
qed

end




text \<open>
  With a clock that does not run backwards, the accumulated wait of a cgroup is at most its
  number of events times the length of the run: no subtraction and no addition has wrapped around.
\<close>

lemma runq_latency_bounded:
  assumes "runq_ctx maps" and "runq_empty maps st" and "runq_fits evs (Map.empty, [])"
    and "runq_monotone t0 evs t1" and "length evs < 2 ^ 64"
    and "length evs * (unat t1 - unat t0) < 2 ^ 64"
    and "runq_acc maps (runq_run maps evs st) c = Some s"
  shows "unat (rq_total_latency_ns s) \<le> unat (rq_count s) * (unat t1 - unat t0)"
proof -
  let ?all = "snd (runq_spec_run evs)" and ?d = "unat t1 - unat t0"
  let ?ss = "waits_of ?all c"
  have "runq_refines maps (runq_run maps evs st) (runq_spec_run evs)"
    using runq_ctx.runq_run_refines [OF assms(1) _ assms(3)] assms(2)
    by (simp add: runq_refines_empty)
  then have s: "s = \<lparr>rq_count = of_nat (length ?ss), rq_total_latency_ns = sum_list (map wait_delta ?ss)\<rparr>"
    using assms(7) by (simp add: runq_refines_def runq_stats_of_def split: if_splits)
  have len: "length ?ss \<le> length evs"
    using runq_samples_length [of evs "(Map.empty, [])"]
    by (simp add: waits_of_def le_trans [OF length_filter_le])
  have "\<forall>x \<in> set ?all. unat (wait_delta x) \<le> ?d"
    by (rule runq_run_timed [OF _ _ assms(4)]) (simp_all add: runq_timed_def)
  then have "\<forall>x \<in> set (map wait_delta ?ss). unat x \<le> ?d" by (auto simp: waits_of_def)
  moreover have "length (map wait_delta ?ss) * ?d < 2 ^ 64"
    using len assms(6) by (simp add: le_less_trans [OF mult_le_mono1])
  ultimately have "unat (sum_list (map wait_delta ?ss)) \<le> length ?ss * ?d"
    using unat_sum_list_le by fastforce
  moreover have "unat (of_nat (length ?ss) :: u64) = length ?ss"
    using len assms(5) by (simp add: unat_of_nat)
  ultimately show ?thesis by (simp add: s)
qed

lemma demo_sched_acc:
  "runq_acc hash_runq_maps (runq_run hash_runq_maps demo_sched runq_init) 7 =
     Some \<lparr>rq_count = 2, rq_total_latency_ns = 45\<rparr>"
  using hash_runq.runq_run_refines [of runq_init "(Map.empty, [])" demo_sched] demo_sched_fits
    runq_init_empty
  by (simp add: runq_refines_empty runq_refines_def runq_stats_of_def)
    (simp add: demo_sched_simps)

lemma runq_latency_bounded_witness:
  "unat (45 :: u64) \<le> unat (2 :: u64) * (unat (155 :: u64) - unat (100 :: u64))"
  using runq_latency_bounded [OF hash_runq.runq_ctx_axioms runq_init_empty demo_sched_fits _ _ _
      demo_sched_acc, of 100 155]
  by (simp add: demo_sched_def)

end
