(* ===== verification/BlockLatency.thy ===== *)
theory BlockLatency
  imports BpfMap CoreRead
begin

text \<open>
  \<open>ebpf/latency/block_latency.c\<close>: the two tracepoint programs that measure block I/O latency per
  cgroup. State: the map from request pointers to the data recorded at issue, and the map from
  cgroup ids to accumulated statistics. The BPF helpers, the clock and the current cgroup are
  parameters; a program is a function from the state to the state (each returns 0).
\<close>

section \<open>Data\<close>

record start_val_t =
  ts_ns :: u64
  bytes :: u32
  cgroup_id :: u64

record cgroup_io_stats_t =
  io_count :: u64
  total_latency_ns :: u64
  total_bytes :: u64
  error_count :: u64

text \<open>The two map declarations: \<open>max_entries\<close>.\<close>

definition start_map_entries :: nat where
  "start_map_entries = 32768"

definition stats_by_cgroup_entries :: nat where
  "stats_by_cgroup_entries = 16384"

record ('ms, 'mt) block_maps =
  start_ops :: "('ms, u64, start_val_t) bpf_ops"
  stats_ops :: "('mt, u64, cgroup_io_stats_t) bpf_ops"

record ('ms, 'mt) block_state =
  start_map :: 'ms
  stats_by_cgroup :: 'mt

definition zero_io_stats :: cgroup_io_stats_t where
  "zero_io_stats = \<lparr>io_count = 0, total_latency_ns = 0, total_bytes = 0, error_count = 0\<rparr>"

section \<open>The programs\<close>

definition block_rq_issue ::
  "('ms, 'mt) block_maps \<Rightarrow> core_env \<Rightarrow> u64 \<Rightarrow> u64 \<Rightarrow> u64 \<Rightarrow> ('ms, 'mt) block_state \<Rightarrow>
   ('ms, 'mt) block_state" where
  \<comment> \<open>\<open>now\<close>: \<open>bpf_ktime_get_ns\<close>; \<open>cg\<close>: \<open>bpf_get_current_cgroup_id\<close>; \<open>rq\<close>: the request pointer\<close>
  "block_rq_issue maps env now cg rq st =
     (let val = \<lparr>ts_ns = now, bytes = ucast (core_read env ''request'' ''__data_len'' 4 rq),
                 cgroup_id = cg\<rparr>
      in st\<lparr>start_map := bpf_update (start_ops maps) (start_map st) rq val\<rparr>)"

text \<open>The four atomic additions to an entry of \<open>stats_by_cgroup\<close>.\<close>

definition add_io_stats :: "u64 \<Rightarrow> u32 \<Rightarrow> u32 \<Rightarrow> cgroup_io_stats_t \<Rightarrow> cgroup_io_stats_t" where
  "add_io_stats delta b error s =
     \<lparr>io_count = io_count s + 1,
      total_latency_ns = total_latency_ns s + delta,
      total_bytes = total_bytes s + ucast b,
      error_count = (if error \<noteq> 0 then error_count s + 1 else error_count s)\<rparr>"

definition block_rq_complete ::
  "('ms, 'mt) block_maps \<Rightarrow> u64 \<Rightarrow> u64 \<Rightarrow> u32 \<Rightarrow> u32 \<Rightarrow> ('ms, 'mt) block_state \<Rightarrow>
   ('ms, 'mt) block_state" where
  "block_rq_complete maps now rq error nr_bytes st =
     (case bpf_lookup (start_ops maps) (start_map st) rq of
        None \<Rightarrow> st
      | Some start \<Rightarrow>
          let delta = now - ts_ns start;
              cg = cgroup_id start;
              st1 = (case bpf_lookup (stats_ops maps) (stats_by_cgroup st) cg of
                       Some _ \<Rightarrow> st
                     | None \<Rightarrow>
                         st\<lparr>stats_by_cgroup :=
                              bpf_update (stats_ops maps) (stats_by_cgroup st) cg zero_io_stats\<rparr>)
          in case bpf_lookup (stats_ops maps) (stats_by_cgroup st1) cg of
               None \<Rightarrow>
                 st1\<lparr>start_map := bpf_delete (start_ops maps) (start_map st1) rq\<rparr>
             | Some stats \<Rightarrow>
                 st1\<lparr>stats_by_cgroup :=
                       bpf_write (stats_ops maps) (stats_by_cgroup st1) cg
                         (add_io_stats delta (bytes start) error stats),
                     start_map := bpf_delete (start_ops maps) (start_map st1) rq\<rparr>)"

section \<open>Runs\<close>

text \<open>
  What the kernel calls: the tracepoints, with the kernel memory, the clock and the current cgroup at
  the call.
\<close>

datatype block_event =
    Issue core_env u64 u64 u64 \<comment> \<open>kernel memory, clock, current cgroup, request\<close>
  | Complete u64 u64 u32 u32 \<comment> \<open>clock, request, error, number of bytes\<close>

fun block_step ::
  "('ms, 'mt) block_maps \<Rightarrow> block_event \<Rightarrow> ('ms, 'mt) block_state \<Rightarrow> ('ms, 'mt) block_state" where
  "block_step maps (Issue env now cg rq) st = block_rq_issue maps env now cg rq st"
| "block_step maps (Complete now rq error nr) st = block_rq_complete maps now rq error nr st"

definition block_run ::
  "('ms, 'mt) block_maps \<Rightarrow> block_event list \<Rightarrow> ('ms, 'mt) block_state \<Rightarrow> ('ms, 'mt) block_state" where
  "block_run maps evs st = fold (block_step maps) evs st"

end
