(* ===== verification/BlockSpec.thy ===== *)
theory BlockSpec
  imports BlockLatency "HOL-Library.Sublist"
begin

text \<open>
  What the block programs promise, stated over finite maps: the requests in flight and the list of
  samples taken so far. A run of the programs is a run of this specification as long as neither
  map overflows; the statistics of a cgroup are the sums over its samples.
\<close>

section \<open>The specification\<close>

datatype io_sample =
  Sample (smp_cgroup: u64) (smp_delta: u64) (smp_bytes: u32) (smp_error: u32)

type_synonym block_spec = "(u64 \<rightharpoonup> start_val_t) \<times> io_sample list"

definition issue_val :: "core_env \<Rightarrow> u64 \<Rightarrow> u64 \<Rightarrow> u64 \<Rightarrow> start_val_t" where
  "issue_val env now cg rq =
     \<lparr>ts_ns = now, bytes = ucast (core_read env ''request'' ''__data_len'' 4 rq), cgroup_id = cg\<rparr>"

definition sample_of :: "start_val_t \<Rightarrow> u64 \<Rightarrow> u32 \<Rightarrow> io_sample" where
  "sample_of v now error = Sample (cgroup_id v) (now - ts_ns v) (bytes v) error"

fun spec_step :: "block_event \<Rightarrow> block_spec \<Rightarrow> block_spec" where
  "spec_step (Issue env now cg rq) (p, ss) = (p(rq \<mapsto> issue_val env now cg rq), ss)"
| "spec_step (Complete now rq error nr) (p, ss) =
     (case p rq of None \<Rightarrow> (p, ss) | Some v \<Rightarrow> (p(rq := None), ss @ [sample_of v now error]))"

definition add_sample :: "io_sample \<Rightarrow> cgroup_io_stats_t \<Rightarrow> cgroup_io_stats_t" where
  "add_sample s = add_io_stats (smp_delta s) (smp_bytes s) (smp_error s)"

definition samples_of :: "io_sample list \<Rightarrow> u64 \<Rightarrow> io_sample list" where
  "samples_of ss c = filter (\<lambda>s. smp_cgroup s = c) ss"

definition stats_of :: "io_sample list \<Rightarrow> u64 \<Rightarrow> cgroup_io_stats_t option" where
  "stats_of ss c =
     (if samples_of ss c = [] then None else Some (fold add_sample (samples_of ss c) zero_io_stats))"

text \<open>Neither map overflows.\<close>

fun fits_step :: "block_event \<Rightarrow> block_spec \<Rightarrow> bool" where
  "fits_step (Issue env now cg rq) (p, ss) = (p rq \<noteq> None \<or> card (dom p) < start_map_entries)"
| "fits_step (Complete now rq error nr) (p, ss) =
     (case p rq of None \<Rightarrow> True
      | Some v \<Rightarrow> samples_of ss (cgroup_id v) \<noteq> [] \<or>
          card (smp_cgroup ` set ss) < stats_by_cgroup_entries)"

fun fits :: "block_event list \<Rightarrow> block_spec \<Rightarrow> bool" where
  "fits [] a = True"
| "fits (e # es) a = (fits_step e a \<and> fits es (spec_step e a))"

text \<open>
  What is promised when a map is full: an issue that finds no slot is not recorded, a completion whose
  cgroup finds no slot takes no sample but still ends its request.
\<close>

fun full_step :: "block_event \<Rightarrow> block_spec \<Rightarrow> block_spec" where
  "full_step (Issue env now cg rq) a =
     (if fits_step (Issue env now cg rq) a then spec_step (Issue env now cg rq) a else a)"
| "full_step (Complete now rq error nr) a =
     (if fits_step (Complete now rq error nr) a then spec_step (Complete now rq error nr) a
      else ((fst a)(rq := None), snd a))"

text \<open>What was recorded, against what happened: fewer requests, fewer samples, nothing else.\<close>

definition within :: "block_spec \<Rightarrow> block_spec \<Rightarrow> bool" where
  "within a b \<longleftrightarrow> fst a \<subseteq>\<^sub>m fst b \<and> subseq (snd a) (snd b)"

lemma full_step_fits: "fits_step e a \<Longrightarrow> full_step e a = spec_step e a"
  by (cases e) simp_all

lemma full_run_fits: "fits evs a \<Longrightarrow> fold full_step evs a = fold spec_step evs a"
  by (induction evs arbitrary: a) (simp_all add: full_step_fits)

lemma full_step_within:
  assumes "within a b"
  shows "within (full_step e a) (spec_step e b)"
proof -
  obtain p ss where a: "a = (p, ss)" by (cases a)
  obtain q rs where b: "b = (q, rs)" by (cases b)
  have le: "p rq = None \<or> p rq = q rq" for rq
    using assms by (cases "p rq") (auto simp: a b within_def map_le_def dom_def)
  show ?thesis
  proof (cases e)
    case (Issue env now cg rq)
    with assms show ?thesis by (auto simp: a b within_def map_le_def)
  next
    case (Complete now rq error nr)
    have "p(rq := None) \<subseteq>\<^sub>m q(rq := None)" "subseq ss rs"
      using assms by (auto simp: a b within_def map_le_def)
    moreover from this(2) have "subseq ss (rs @ [x])" "subseq (ss @ [x]) (rs @ [x])" for x
      by (auto intro: list_emb_append2)
    moreover have "p(rq := None) = p" if "p rq = None" using that by auto
    ultimately show ?thesis
      using le [of rq] Complete by (auto simp: a b within_def fun_upd_idem split: option.splits)
  qed
qed

lemma full_run_within: "within a b \<Longrightarrow> within (fold full_step evs a) (fold spec_step evs b)"
  by (induction evs arbitrary: a b) (simp_all add: full_step_within)

text \<open>The capacities are kept.\<close>

definition in_capacity :: "block_spec \<Rightarrow> bool" where
  "in_capacity a \<longleftrightarrow> finite (dom (fst a)) \<and> card (dom (fst a)) \<le> start_map_entries \<and>
     card (smp_cgroup ` set (snd a)) \<le> stats_by_cgroup_entries"

lemma full_step_capacity:
  assumes "in_capacity a"
  shows "in_capacity (full_step e a)"
proof -
  obtain p ss where a: "a = (p, ss)" by (cases a)
  have del: "finite (dom (p(rq := None)))" "card (dom (p(rq := None))) \<le> start_map_entries" for rq
    using assms card_mono [of "dom p" "dom p - {rq}"] by (auto simp: a in_capacity_def)
  show ?thesis
  proof (cases e)
    case (Issue env now cg rq)
    with assms show ?thesis by (auto simp: a in_capacity_def card_insert_if)
  next
    case (Complete now rq error nr)
    have "samples_of ss c \<noteq> [] \<longleftrightarrow> c \<in> smp_cgroup ` set ss" for c
      by (auto simp: samples_of_def filter_empty_conv)
    with assms del [of rq] Complete show ?thesis
      by (auto simp: a in_capacity_def sample_of_def card_insert_if simp del: dom_fun_upd split: option.splits)
  qed
qed

lemma full_run_capacity: "in_capacity a \<Longrightarrow> in_capacity (fold full_step evs a)"
  by (induction evs arbitrary: a) (simp_all add: full_step_capacity)

lemma samples_of_append: "samples_of (ss @ [s]) c = samples_of ss c @ (if smp_cgroup s = c then [s] else [])"
  by (simp add: samples_of_def)

lemma stats_of_append:
  "stats_of (ss @ [s]) =
     (stats_of ss)(smp_cgroup s \<mapsto>
        add_sample s (case stats_of ss (smp_cgroup s) of None \<Rightarrow> zero_io_stats | Some x \<Rightarrow> x))"
  by (rule ext) (auto simp: stats_of_def samples_of_append)

lemma dom_stats_of: "dom (stats_of ss) = smp_cgroup ` set ss"
  by (auto simp: stats_of_def samples_of_def dom_def filter_empty_conv split: if_splits)

lemma stats_of_Nil: "stats_of [] = Map.empty"
  by (rule ext) (simp add: stats_of_def samples_of_def)

lemma samples_of_empty_iff: "samples_of ss c = [] \<longleftrightarrow> stats_of ss c = None"
  by (simp add: stats_of_def)

section \<open>Closed forms of the sums\<close>

lemma fold_add_sample:
  "io_count (fold add_sample ss z) = io_count z + of_nat (length ss)"
  "total_latency_ns (fold add_sample ss z) = total_latency_ns z + sum_list (map smp_delta ss)"
  "total_bytes (fold add_sample ss z) = total_bytes z + sum_list (map (ucast \<circ> smp_bytes) ss)"
  "error_count (fold add_sample ss z) =
     error_count z + of_nat (length (filter (\<lambda>s. smp_error s \<noteq> 0) ss))"
  by (induction ss arbitrary: z) (simp_all add: add_sample_def add_io_stats_def)

lemma stats_closed:
  "fold add_sample ss zero_io_stats =
     \<lparr>io_count = of_nat (length ss),
      total_latency_ns = sum_list (map smp_delta ss),
      total_bytes = sum_list (map (ucast \<circ> smp_bytes) ss),
      error_count = of_nat (length (filter (\<lambda>s. smp_error s \<noteq> 0) ss))\<rparr>"
  using fold_add_sample [of ss zero_io_stats]
  by (intro cgroup_io_stats_t.equality) (simp_all add: zero_io_stats_def)

section \<open>The contract of the maps, and the simulation\<close>

abbreviation block_pend :: "('ms, 'mt) block_maps \<Rightarrow> ('ms, 'mt) block_state \<Rightarrow> u64 \<rightharpoonup> start_val_t" where
  "block_pend maps st \<equiv> bpf_lookup (start_ops maps) (start_map st)"

abbreviation block_acc ::
  "('ms, 'mt) block_maps \<Rightarrow> ('ms, 'mt) block_state \<Rightarrow> u64 \<rightharpoonup> cgroup_io_stats_t" where
  "block_acc maps st \<equiv> bpf_lookup (stats_ops maps) (stats_by_cgroup st)"

definition block_refines ::
  "('ms, 'mt) block_maps \<Rightarrow> ('ms, 'mt) block_state \<Rightarrow> block_spec \<Rightarrow> bool" where
  "block_refines maps st a \<longleftrightarrow> block_pend maps st = fst a \<and> block_acc maps st = stats_of (snd a)"

locale block_ctx =
  start: bpf_hash "start_ops maps" start_map_entries +
  stats: bpf_hash "stats_ops maps" stats_by_cgroup_entries
  for maps :: "('ms, 'mt) block_maps"
begin

abbreviation "pend st \<equiv> block_pend maps st"
abbreviation "acc st \<equiv> block_acc maps st"

lemma issue_pend:
  "pend (block_rq_issue maps env now cg rq st) =
     (if pend st rq \<noteq> None \<or> card (dom (pend st)) < start_map_entries
      then (pend st)(rq \<mapsto> issue_val env now cg rq) else pend st)"
  by (simp add: block_rq_issue_def issue_val_def start.lookup_update_cases)

lemma issue_acc: "acc (block_rq_issue maps env now cg rq st) = acc st"
  by (simp add: block_rq_issue_def Let_def)

lemma complete_unknown:
  "pend st rq = None \<Longrightarrow> block_rq_complete maps now rq error nr st = st"
  by (simp add: block_rq_complete_def)

lemma complete_pend: "pend (block_rq_complete maps now rq error nr st) = (pend st)(rq := None)"
  by (auto simp: block_rq_complete_def Let_def start.lookup_delete fun_upd_idem
      split: option.splits)

lemma complete_acc:
  assumes "pend st rq = Some v"
    and "acc st (cgroup_id v) \<noteq> None \<or> card (dom (acc st)) < stats_by_cgroup_entries"
  shows "acc (block_rq_complete maps now rq error nr st) =
    (acc st)(cgroup_id v \<mapsto>
      add_sample (sample_of v now error)
        (case acc st (cgroup_id v) of None \<Rightarrow> zero_io_stats | Some x \<Rightarrow> x))"
proof (cases "acc st (cgroup_id v)")
  case None
  with assms show ?thesis
    by (simp add: block_rq_complete_def Let_def stats.lookup_update stats.lookup_write
        add_sample_def sample_of_def)
next
  case (Some x)
  with assms show ?thesis
    by (simp add: block_rq_complete_def Let_def stats.lookup_write add_sample_def sample_of_def)
qed

lemma complete_acc_full:
  assumes "pend st rq = Some v" and "acc st (cgroup_id v) = None"
    and "stats_by_cgroup_entries \<le> card (dom (acc st))"
  shows "acc (block_rq_complete maps now rq error nr st) = acc st"
  using assms by (simp add: block_rq_complete_def Let_def stats.lookup_update_full)

lemma step_refines:
  assumes "block_refines maps st a" and "fits_step e a"
  shows "block_refines maps (block_step maps e st) (spec_step e a)"
proof (cases e)
  case (Issue env now cg rq)
  with assms show ?thesis
    by (cases a) (auto simp: block_refines_def issue_pend issue_acc)
next
  case (Complete now rq error nr)
  obtain p ss where a: "a = (p, ss)" by (cases a)
  show ?thesis
  proof (cases "p rq")
    case None
    with assms a Complete show ?thesis by (simp add: block_refines_def complete_unknown)
  next
    case (Some v)
    with assms a Complete
    have "acc st (cgroup_id v) \<noteq> None \<or> card (dom (acc st)) < stats_by_cgroup_entries"
      by (auto simp: block_refines_def dom_stats_of samples_of_empty_iff)
    moreover have "smp_cgroup (sample_of v now error) = cgroup_id v"
      by (simp add: sample_of_def)
    ultimately show ?thesis
      using assms(1) a Complete Some
      by (simp add: block_refines_def complete_pend complete_acc stats_of_append)
  qed
qed

lemma run_refines:
  "block_refines maps st a \<Longrightarrow> fits evs a \<Longrightarrow>
   block_refines maps (block_run maps evs st) (fold spec_step evs a)"
proof (induction evs arbitrary: st a)
  case (Cons e es)
  then show ?case
    using step_refines [of st a e] by (auto simp: block_run_def)
qed (simp add: block_run_def)

lemma step_refines_full:
  assumes "block_refines maps st a"
  shows "block_refines maps (block_step maps e st) (full_step e a)"
proof (cases "fits_step e a")
  case True
  with step_refines [OF assms True] show ?thesis by (simp add: full_step_fits)
next
  case False
  obtain p ss where a: "a = (p, ss)" by (cases a)
  show ?thesis
  proof (cases e)
    case (Issue env now cg rq)
    with False assms a show ?thesis
      by (auto simp: block_refines_def issue_pend issue_acc)
  next
    case (Complete now rq error nr)
    with False assms a obtain v where v: "pend st rq = Some v" "acc st (cgroup_id v) = None"
      "stats_by_cgroup_entries \<le> card (dom (acc st))"
      by (auto simp: block_refines_def dom_stats_of samples_of_empty_iff split: option.splits)
    with False assms a Complete show ?thesis
      by (simp add: block_refines_def complete_pend complete_acc_full [OF v])
  qed
qed

lemma run_refines_full:
  "block_refines maps st a \<Longrightarrow> block_refines maps (block_run maps evs st) (fold full_step evs a)"
proof (induction evs arbitrary: st a)
  case (Cons e es)
  then show ?case using step_refines_full [of st a e] by (simp add: block_run_def)
qed (simp add: block_run_def)

end

section \<open>The model's own maps\<close>

definition hash_block_maps ::
  "((u64 \<times> start_val_t) list, (u64 \<times> cgroup_io_stats_t) list) block_maps" where
  "hash_block_maps =
     \<lparr>start_ops = hash_ops start_map_entries, stats_ops = hash_ops stats_by_cgroup_entries\<rparr>"

definition block_init :: "((u64 \<times> start_val_t) list, (u64 \<times> cgroup_io_stats_t) list) block_state" where
  "block_init = \<lparr>start_map = [], stats_by_cgroup = []\<rparr>"

lemma hash_block_maps_simps [bpf_simps]:
  "start_ops hash_block_maps = hash_ops start_map_entries"
  "stats_ops hash_block_maps = hash_ops stats_by_cgroup_entries"
  by (simp_all add: hash_block_maps_def)

interpretation hash_block: block_ctx hash_block_maps
  by (simp add: block_ctx_def bpf_simps hash_ops_bpf_hash)

section \<open>Clocks\<close>

fun clock_of :: "block_event \<Rightarrow> u64" where
  "clock_of (Issue _ now _ _) = now"
| "clock_of (Complete now _ _ _) = now"

text \<open>\<open>bpf_ktime_get_ns\<close> never runs backwards between two events of a run from \<open>t\<close> to \<open>t1\<close>.\<close>

fun monotone_clock :: "u64 \<Rightarrow> block_event list \<Rightarrow> u64 \<Rightarrow> bool" where
  "monotone_clock t [] t1 = (t \<le> t1)"
| "monotone_clock t (e # es) t1 = (t \<le> clock_of e \<and> monotone_clock (clock_of e) es t1)"

lemma monotone_clock_le: "monotone_clock t evs t1 \<Longrightarrow> t \<le> t1"
  by (induction evs arbitrary: t) (auto intro: order_trans)

definition timed :: "u64 \<Rightarrow> u64 \<Rightarrow> nat \<Rightarrow> block_spec \<Rightarrow> bool" where
  "timed t0 t d a \<longleftrightarrow>
     (\<forall>v \<in> ran (fst a). t0 \<le> ts_ns v \<and> ts_ns v \<le> t) \<and>
     (\<forall>s \<in> set (snd a). unat (smp_delta s) \<le> d)"

lemma step_timed:
  assumes "timed t0 t (unat t1 - unat t0) a" and "t0 \<le> t" "t \<le> clock_of e" "clock_of e \<le> t1"
  shows "timed t0 (clock_of e) (unat t1 - unat t0) (spec_step e a)"
proof (cases e)
  case (Issue env now cg rq)
  with assms show ?thesis
    by (cases a) (force simp: timed_def ran_def issue_val_def)
next
  case (Complete now rq error nr)
  obtain p ss where a: "a = (p, ss)" by (cases a)
  show ?thesis
  proof (cases "p rq")
    case None
    with assms a Complete show ?thesis by (fastforce simp: timed_def)
  next
    case (Some v)
    then have v: "v \<in> ran p" by (rule ranI)
    with assms a have ts: "t0 \<le> ts_ns v" "ts_ns v \<le> t" by (auto simp: timed_def)
    with assms Complete have "unat (now - ts_ns v) \<le> unat t1 - unat t0"
      by (intro delta_bound) auto
    with assms a Complete Some show ?thesis
      by (fastforce simp: timed_def sample_of_def ran_def split: if_splits)
  qed
qed

lemma run_timed:
  "timed t0 t (unat t1 - unat t0) a \<Longrightarrow> t0 \<le> t \<Longrightarrow> monotone_clock t evs t1 \<Longrightarrow>
   \<forall>s \<in> set (snd (fold spec_step evs a)). unat (smp_delta s) \<le> unat t1 - unat t0"
proof (induction evs arbitrary: t a)
  case (Cons e es)
  from Cons.prems(3) have e: "t \<le> clock_of e" "clock_of e \<le> t1"
    by (auto intro: monotone_clock_le)
  from step_timed [OF Cons.prems(1,2) e]
  have "timed t0 (clock_of e) (unat t1 - unat t0) (spec_step e a)" .
  moreover have "t0 \<le> clock_of e" using Cons.prems(2) e(1) by (rule order_trans)
  ultimately show ?case using Cons.prems(3) Cons.IH by simp
qed (simp add: timed_def)

text \<open>A run takes at most one sample per event.\<close>

lemma spec_samples_length:
  "length (snd (fold spec_step evs a)) \<le> length (snd a) + length evs"
proof (induction evs arbitrary: a)
  case (Cons e es)
  obtain p ss where a: "a = (p, ss)" by (cases a)
  have "length (snd (spec_step e a)) \<le> Suc (length (snd a))"
    unfolding a by (cases e) (auto split: option.splits)
  then show ?case using Cons.IH [of "spec_step e a"] by simp
qed simp

section \<open>Properties\<close>

abbreviation block_spec_run :: "block_event list \<Rightarrow> block_spec" where
  "block_spec_run evs \<equiv> fold spec_step evs (Map.empty, [])"

definition block_empty :: "('ms, 'mt) block_maps \<Rightarrow> ('ms, 'mt) block_state \<Rightarrow> bool" where
  "block_empty maps st \<longleftrightarrow> block_pend maps st = Map.empty \<and> block_acc maps st = Map.empty"

lemma refines_empty: "block_empty maps st \<longleftrightarrow> block_refines maps st (Map.empty, [])"
  by (simp add: block_empty_def block_refines_def stats_of_Nil)

text \<open>A concrete run: two requests of different cgroups, the second one failing.\<close>

definition demo_env :: core_env where
  "demo_env = \<lparr>probe_read = (\<lambda>p n. 4096), field_off = (\<lambda>s f. 0)\<rparr>"

definition demo_events :: "block_event list" where
  "demo_events =
     [Issue demo_env 100 7 1, Issue demo_env 110 8 2, Complete 150 1 0 4096,
      Complete 170 2 5 4096, Complete 180 2 0 0]"

lemma block_init_empty: "block_empty hash_block_maps block_init"
  by (simp add: block_empty_def block_init_def bpf_simps)

lemma demo_fits: "fits demo_events (Map.empty, [])"
  by (simp add: demo_events_def start_map_entries_def stats_by_cgroup_entries_def samples_of_def
      sample_of_def issue_val_def)

lemma hash_block_demo:
  "block_acc hash_block_maps (block_run hash_block_maps demo_events block_init) 8 =
     Some \<lparr>io_count = 1, total_latency_ns = 60, total_bytes = 4096, error_count = 1\<rparr>"
  unfolding block_run_def demo_events_def
  by (simp add: block_rq_issue_def block_rq_complete_def block_init_def bpf_simps
      hash_update_def Let_def start_map_entries_def stats_by_cgroup_entries_def
      zero_io_stats_def add_io_stats_def demo_env_def core_read_def)

text \<open>
  C1: from empty maps, as long as neither hash map overflows, the two tracepoint programs implement
  the accounting specification: after any sequence of issue and complete events the in-flight map
  holds exactly the requests issued and not completed, and the statistics of every cgroup are the
  fold of the four additions over the samples of its own requests, each attributed to the cgroup
  that issued it.
\<close>

theorem block_run_refines_spec:
  assumes "block_ctx maps" and "block_empty maps st" and "fits evs (Map.empty, [])"
  shows "block_refines maps (block_run maps evs st) (block_spec_run evs)"
  using block_ctx.run_refines [OF assms(1) _ assms(3)] assms(2) by (simp add: refines_empty)

theorem block_run_refines_spec_witness:
  "block_refines hash_block_maps (block_run hash_block_maps demo_events block_init)
     (block_spec_run demo_events)"
  by (rule block_run_refines_spec [OF hash_block.block_ctx_axioms block_init_empty demo_fits])

text \<open>
  C2: the statistics in closed form. A cgroup has an entry exactly when one of its requests has
  completed; its count is the number of completions, its bytes the sum of the data lengths read at
  issue, its latency the sum of the issue-to-complete times and its errors the number of
  completions with a non-zero status.
\<close>

theorem block_accounting:
  assumes "block_ctx maps" and "block_empty maps st" and "fits evs (Map.empty, [])"
  shows "block_acc maps (block_run maps evs st) c =
    (let ss = samples_of (snd (block_spec_run evs)) c in
     if ss = [] then None
     else Some \<lparr>io_count = of_nat (length ss),
                total_latency_ns = sum_list (map smp_delta ss),
                total_bytes = sum_list (map (ucast \<circ> smp_bytes) ss),
                error_count = of_nat (length (filter (\<lambda>s. smp_error s \<noteq> 0) ss))\<rparr>)"
proof -
  have "block_refines maps (block_run maps evs st) (block_spec_run evs)"
    using block_ctx.run_refines [OF assms(1) _ assms(3)] assms(2) by (simp add: refines_empty)
  then show ?thesis
    by (simp add: block_refines_def stats_of_def Let_def stats_closed)
qed

theorem block_accounting_witness:
  "block_acc hash_block_maps (block_run hash_block_maps demo_events block_init) 8 =
     Some \<lparr>io_count = 1, total_latency_ns = 60, total_bytes = 4096, error_count = 1\<rparr>"
  unfolding block_accounting [OF hash_block.block_ctx_axioms block_init_empty demo_fits]
  by (simp add: demo_events_def samples_of_def sample_of_def issue_val_def core_read_def demo_env_def)

text \<open>
  A request is accounted at most once. A second completion of the same request, as the kernel
  reports for a request completed in parts, leaves the whole state as the first one left it; so
  does a completion whose issue was never seen.
\<close>

lemma block_complete_once:
  assumes "block_ctx maps"
  shows "block_rq_complete maps now' rq error' nr' (block_rq_complete maps now rq error nr st) =
    block_rq_complete maps now rq error nr st"
  by (simp add: block_ctx.complete_unknown [OF assms] block_ctx.complete_pend [OF assms])

lemma block_complete_once_witness:
  "block_rq_complete hash_block_maps 200 1 5 512
     (block_rq_complete hash_block_maps 150 1 0 512
       (block_rq_issue hash_block_maps demo_env 100 7 1 block_init)) =
   block_rq_complete hash_block_maps 150 1 0 512
     (block_rq_issue hash_block_maps demo_env 100 7 1 block_init)"
  by (rule block_complete_once [OF hash_block.block_ctx_axioms])

text \<open>
  C3: the error path of full maps, with no assumption on their size. Whatever the run, the programs do
  exactly what \<open>full_step\<close> says: an issue that finds the in-flight map full is not recorded, a completion that
  finds the statistics full takes no sample and still frees its slot. So overflow only loses: the
  requests recorded are requests in flight with their latest issue, the samples counted are among the
  samples of the run, in order and under their cgroup, and no map grows beyond its \<open>max_entries\<close>.
\<close>

theorem block_overflow_only_loses:
  assumes "block_ctx maps" and "block_empty maps st"
  shows "let a = fold full_step evs (Map.empty, []) in
    block_refines maps (block_run maps evs st) a \<and> within a (block_spec_run evs) \<and> in_capacity a"
proof -
  have "within (Map.empty, []) (Map.empty, [])" "in_capacity (Map.empty, [])"
    by (simp_all add: within_def in_capacity_def)
  with block_ctx.run_refines_full [OF assms(1)] assms(2) show ?thesis
    by (simp add: Let_def refines_empty full_run_within full_run_capacity)
qed

theorem block_overflow_only_loses_witness:
  "within (fold full_step demo_events (Map.empty, [])) (block_spec_run demo_events) \<and>
   block_acc hash_block_maps (block_run hash_block_maps demo_events block_init) 8 =
     stats_of (snd (fold full_step demo_events (Map.empty, []))) 8"
  using block_overflow_only_loses [OF hash_block.block_ctx_axioms block_init_empty, of demo_events]
  by (simp add: Let_def block_refines_def)

text \<open>
  C4: with a clock that does not run backwards, and a run short enough for the 64-bit sum, the
  accumulated latency of a cgroup is at most its count times the length of the run: no subtraction
  of time stamps and no addition has wrapped around, so the average the collector derives is a time
  that can have elapsed.
\<close>

theorem block_latency_bounded:
  assumes "block_ctx maps" and "block_empty maps st" and "fits evs (Map.empty, [])"
    and "monotone_clock t0 evs t1" and "length evs < 2 ^ 64"
    and "length evs * (unat t1 - unat t0) < 2 ^ 64"
    and "block_acc maps (block_run maps evs st) c = Some s"
  shows "unat (total_latency_ns s) \<le> unat (io_count s) * (unat t1 - unat t0)"
proof -
  let ?all = "snd (block_spec_run evs)" and ?d = "unat t1 - unat t0"
  let ?ss = "samples_of ?all c"
  have "block_refines maps (block_run maps evs st) (block_spec_run evs)"
    using block_ctx.run_refines [OF assms(1) _ assms(3)] assms(2) by (simp add: refines_empty)
  then have s: "s = fold add_sample ?ss zero_io_stats"
    using assms(7) by (simp add: block_refines_def stats_of_def split: if_splits)
  have len: "length ?ss \<le> length evs"
    using spec_samples_length [of evs "(Map.empty, [])"]
    by (simp add: samples_of_def le_trans [OF length_filter_le])
  have "\<forall>x \<in> set ?all. unat (smp_delta x) \<le> ?d"
    by (rule run_timed [OF _ _ assms(4)]) (simp_all add: timed_def)
  then have "\<forall>x \<in> set (map smp_delta ?ss). unat x \<le> ?d"
    by (auto simp: samples_of_def)
  moreover have "length (map smp_delta ?ss) * ?d < 2 ^ 64"
    using len assms(6) by (simp add: le_less_trans [OF mult_le_mono1])
  ultimately have "unat (sum_list (map smp_delta ?ss)) \<le> length ?ss * ?d"
    using unat_sum_list_le by fastforce
  moreover have "unat (of_nat (length ?ss) :: u64) = length ?ss"
    using len assms(5) by (simp add: unat_of_nat)
  ultimately show ?thesis
    by (simp add: s fold_add_sample zero_io_stats_def)
qed

theorem block_latency_bounded_witness:
  "unat (60 :: u64) \<le> unat (1 :: u64) * (unat (180 :: u64) - unat (100 :: u64))"
proof -
  have "block_acc hash_block_maps (block_run hash_block_maps demo_events block_init) 8 =
     Some \<lparr>io_count = 1, total_latency_ns = 60, total_bytes = 4096, error_count = 1\<rparr>"
    by (simp add: hash_block_demo)
  from block_latency_bounded [OF hash_block.block_ctx_axioms block_init_empty demo_fits _ _ _ this,
      of 100 180]
  show ?thesis by (simp add: demo_events_def)
qed

text \<open>
  When the statistics table is full, a completion of a request of a cgroup without an entry
  drops its sample, leaves every other cgroup's statistics alone, and still releases the request's
  in-flight entry.
\<close>

lemma block_complete_table_full:
  assumes "block_ctx maps" and "block_pend maps st rq = Some v"
    and "block_acc maps st (cgroup_id v) = None"
    and "stats_by_cgroup_entries \<le> card (dom (block_acc maps st))"
  shows "block_acc maps (block_rq_complete maps now rq error nr st) = block_acc maps st \<and>
    block_pend maps (block_rq_complete maps now rq error nr st) = (block_pend maps st)(rq := None)"
  using block_ctx.complete_acc_full [OF assms] block_ctx.complete_pend [OF assms(1)] by blast

text \<open>A statistics table with an entry for each of the cgroups 1 to 16384, and one request in flight.\<close>

definition full_stats :: "(u64 \<times> cgroup_io_stats_t) list" where
  "full_stats = map (\<lambda>i. (of_nat i, zero_io_stats)) [1..<16385]"

definition full_state :: "((u64 \<times> start_val_t) list, (u64 \<times> cgroup_io_stats_t) list) block_state" where
  "full_state =
     \<lparr>start_map = [(5, \<lparr>ts_ns = 100, bytes = 512, cgroup_id = 0\<rparr>)], stats_by_cgroup = full_stats\<rparr>"

lemma unat_of_small: "i < 16385 \<Longrightarrow> unat (of_nat i :: u64) = i"
  by (simp add: unat_of_nat)

lemma full_stats_keys: "dom (map_of full_stats) = (of_nat :: nat \<Rightarrow> u64) ` {1..<16385}"
  by (force simp: full_stats_def dom_map_of_conv_image_fst image_image)

lemma full_stats_card: "card (dom (map_of full_stats)) = 16384"
proof -
  have "inj_on (of_nat :: nat \<Rightarrow> u64) {1..<16385}"
    by (rule inj_onI) (metis atLeastLessThan_iff unat_of_small)
  then show ?thesis by (simp add: full_stats_keys card_image)
qed

lemma full_stats_none: "map_of full_stats 0 = None"
proof -
  have "(0::u64) \<notin> of_nat ` {1..<16385}"
  proof
    assume "(0::u64) \<in> of_nat ` {1..<16385}"
    then obtain i where "(0::u64) = of_nat i" "1 \<le> i" "i < 16385" by auto
    then show False using unat_of_small [of i] by (metis not_one_le_zero unat_0)
  qed
  then show ?thesis using full_stats_keys by (metis domIff)
qed

lemma block_complete_table_full_witness:
  "block_acc hash_block_maps (block_rq_complete hash_block_maps 150 5 0 512 full_state) =
     map_of full_stats \<and>
   block_pend hash_block_maps (block_rq_complete hash_block_maps 150 5 0 512 full_state) = Map.empty"
proof -
  have "block_pend hash_block_maps full_state 5 = Some \<lparr>ts_ns = 100, bytes = 512, cgroup_id = 0\<rparr>"
    by (simp add: full_state_def bpf_simps)
  from block_complete_table_full [OF hash_block.block_ctx_axioms this]
  show ?thesis
    by (simp add: full_state_def bpf_simps full_stats_none full_stats_card
        stats_by_cgroup_entries_def)
qed

end
