(* ===== verification/KernelAccess.thy ===== *)
theory KernelAccess
  imports KTaskNear RunqSpec BlockSpec
begin

text \<open>
  The members of kernel structs the two programs read, found in the layout of \<open>ebpf/vmlinux.h\<close>:
  their offsets and types, and \<open>vmlinux_off\<close>, the instance of the relocated offsets where the
  running kernel is the one the header was dumped from. Kernel memory as the header types it, and the
  proof that the programs read it in that way only.
\<close>

section \<open>The members the programs read\<close>

definition kernel_struct :: "string \<Rightarrow> ctype option" where
  "kernel_struct = map_of
     [(''request'', s_request), (''task_struct'', s_task_struct), (''css_set'', s_css_set),
      (''cgroup'', s_cgroup), (''kernfs_node'', s_kernfs_node)]"

definition vmlinux_off :: "string \<Rightarrow> string \<Rightarrow> nat" where
  "vmlinux_off s f =
     (case kernel_struct s of None \<Rightarrow> 0
      | Some t \<Rightarrow> (case offset_of t f of None \<Rightarrow> 0 | Some n \<Rightarrow> n))"

text \<open>
  The finding of a member in a struct whose member list is split in parts: a part that does not
  declare the name only moves the cursor.
\<close>

fun declares :: "cfield list \<Rightarrow> string \<Rightarrow> bool" where
  "declares [] x = False"
| "declares (Fld n t # fs) x = (n = x \<or> n = [] \<or> declares fs x)"
| "declares (Bits n t w # fs) x = (n = x \<or> declares fs x)"

lemma find_field_skip: "\<not> declares fs x \<Longrightarrow> find_field (fs @ gs) pos x = find_field gs (lay fs pos) x"
  by (induction fs x arbitrary: pos rule: declares.induct) (auto simp: Let_def)

lemma find_field_hit: "find_field fs pos x = Some r \<Longrightarrow> find_field (fs @ gs) pos x = Some r"
proof (induction fs x arbitrary: pos rule: declares.induct)
  case (2 n t fs x)
  then show ?case by (auto simp: Let_def split: if_splits option.splits)
qed (auto simp: Let_def split: if_splits)

lemmas find_parts = s_task_struct_f1_def s_task_struct_f2_def s_task_struct_f3_def
  s_task_struct_f4_def s_task_struct_f5_def

lemma task_struct_state: "member s_task_struct ''__state'' = Some (192, c_uint)"
proof -
  have "find_field s_task_struct_f1 0 ''__state'' = Some (192, c_uint)"
    by (simp add: s_task_struct_f1_def c_layout del: One_nat_def)
  then show ?thesis by (simp add: member_def s_task_struct_def find_field_hit)
qed

lemma task_struct_pid: "member s_task_struct ''pid'' = Some (8 * 2432, t_pid_t)"
proof -
  have "\<not> declares s_task_struct_f1 ''pid''" "\<not> declares s_task_struct_f2 ''pid''"
    by (simp_all add: find_parts)
  moreover have "find_field s_task_struct_f3 18880 ''pid'' = Some (8 * 2432, t_pid_t)"
    by (simp add: s_task_struct_f3_def c_layout del: One_nat_def)
  ultimately show ?thesis
    by (simp add: member_def s_task_struct_def find_field_skip find_field_hit layout)
qed

lemma task_struct_start_time: "member s_task_struct ''start_time'' = Some (8 * 2776, t_u64)"
proof -
  have "\<not> declares s_task_struct_f1 ''start_time''" "\<not> declares s_task_struct_f2 ''start_time''"
    "\<not> declares s_task_struct_f3 ''start_time''"
    by (simp_all add: find_parts)
  moreover have "find_field s_task_struct_f4 21440 ''start_time'' = Some (8 * 2776, t_u64)"
    by (simp add: s_task_struct_f4_def c_layout del: One_nat_def)
  ultimately show ?thesis
    by (simp add: member_def s_task_struct_def find_field_skip find_field_hit layout)
qed

lemma task_struct_cgroups:
  "member s_task_struct ''cgroups'' = Some (8 * 3584, CPtr ''struct css_set'')"
proof -
  have "\<not> declares s_task_struct_f1 ''cgroups''" "\<not> declares s_task_struct_f2 ''cgroups''"
    "\<not> declares s_task_struct_f3 ''cgroups''" "\<not> declares s_task_struct_f4 ''cgroups''"
    by (simp_all add: find_parts)
  moreover have
    "find_field s_task_struct_f5 25408 ''cgroups'' = Some (8 * 3584, CPtr ''struct css_set'')"
    by (simp add: s_task_struct_f5_def c_layout del: One_nat_def)
  ultimately show ?thesis
    by (simp add: member_def s_task_struct_def find_field_skip find_field_hit layout)
qed

lemma request_data_len: "member s_request ''__data_len'' = Some (8 * 44, c_uint)"
  by (simp add: s_request_def member_def c_layout del: One_nat_def)

lemma css_set_dfl_cgrp: "member s_css_set ''dfl_cgrp'' = Some (8 * 128, CPtr ''struct cgroup'')"
  by (simp add: s_css_set_def member_def c_layout del: One_nat_def)

lemma cgroup_kn: "member s_cgroup ''kn'' = Some (8 * 256, CPtr ''struct kernfs_node'')"
proof -
  have "find_field s_cgroup_f1 0 ''kn'' = Some (8 * 256, CPtr ''struct kernfs_node'')"
    by (simp add: s_cgroup_f1_def c_layout del: One_nat_def)
  then show ?thesis by (simp add: member_def s_cgroup_def find_field_hit)
qed

lemma kernfs_node_id: "member s_kernfs_node ''id'' = Some (8 * 96, t_u64)"
  by (simp add: s_kernfs_node_def member_def c_layout del: One_nat_def)

lemmas kernel_members [layout] = task_struct_state task_struct_pid task_struct_start_time
  task_struct_cgroups request_data_len css_set_dfl_cgrp cgroup_kn kernfs_node_id

lemma kernel_struct_simps [simp]:
  "kernel_struct ''request'' = Some s_request"
  "kernel_struct ''task_struct'' = Some s_task_struct"
  "kernel_struct ''css_set'' = Some s_css_set"
  "kernel_struct ''cgroup'' = Some s_cgroup"
  "kernel_struct ''kernfs_node'' = Some s_kernfs_node"
  by (simp_all add: kernel_struct_def)

lemma vmlinux_off_simps [simp]:
  "vmlinux_off ''request'' ''__data_len'' = 44"
  "vmlinux_off ''task_struct'' ''__state'' = 24"
  "vmlinux_off ''task_struct'' ''pid'' = 2432"
  "vmlinux_off ''task_struct'' ''start_time'' = 2776"
  "vmlinux_off ''task_struct'' ''cgroups'' = 3584"
  "vmlinux_off ''css_set'' ''dfl_cgrp'' = 128"
  "vmlinux_off ''cgroup'' ''kn'' = 256"
  "vmlinux_off ''kernfs_node'' ''id'' = 96"
  by (simp_all add: vmlinux_off_def offset_of_def kernel_members)

section \<open>Typed memory\<close>

text \<open>
  A kernel whose structs are those of the header: the loader finds every member the header declares at the
  offset computed from it; of other names nothing is known.
\<close>

definition vmlinux_layout :: "core_env \<Rightarrow> bool" where
  "vmlinux_layout env \<longleftrightarrow>
     (\<forall>s t f b u. kernel_struct s = Some t \<longrightarrow> member t f = Some (b, u) \<longrightarrow> field_off env s f = b div 8)"

text \<open>
  \<open>obj p s\<close>: there is an object of \<open>struct s\<close> at \<open>p\<close>. Members declared as pointers to one of the structs point
  to objects of it.
\<close>

definition typed_objects :: "core_env \<Rightarrow> (u64 \<Rightarrow> string \<Rightarrow> bool) \<Rightarrow> bool" where
  "typed_objects env obj \<longleftrightarrow>
     (\<forall>p s t f b s'. obj p s \<longrightarrow> kernel_struct s = Some t \<longrightarrow> member t f = Some (b, CPtr (''struct '' @ s')) \<longrightarrow>
        obj (probe_read env (p + of_nat (b div 8)) 8) s')"

text \<open>Two memories with the same objects: every declared member, read whole, is the same in both.\<close>

definition same_members :: "core_env \<Rightarrow> core_env \<Rightarrow> (u64 \<Rightarrow> string \<Rightarrow> bool) \<Rightarrow> bool" where
  "same_members env env' obj \<longleftrightarrow>
     (\<forall>p s t f b u. obj p s \<longrightarrow> kernel_struct s = Some t \<longrightarrow> member t f = Some (b, u) \<longrightarrow> b mod 8 = 0 \<longrightarrow>
        probe_read env (p + of_nat (b div 8)) (size_of u) = probe_read env' (p + of_nat (b div 8)) (size_of u))"

text \<open>The reads that are typed: a declared member of an object of its struct, at its own width.\<close>

lemma typed_read:
  assumes "vmlinux_layout env" and "vmlinux_layout env'" and "same_members env env' obj"
    and "kernel_struct s = Some t" and "member t f = Some (b, u)" and "b mod 8 = 0"
    and "obj p s" and "size_of u = n"
  shows "core_read env s f n p = core_read env' s f n p"
  using assms unfolding vmlinux_layout_def same_members_def core_read_def by fastforce

lemma typed_pointer:
  assumes "vmlinux_layout env" and "typed_objects env obj"
    and "kernel_struct s = Some t" and "member t f = Some (b, CPtr (''struct '' @ s'))" and "obj p s"
  shows "obj (core_read env s f 8 p) s'"
  using assms unfolding vmlinux_layout_def typed_objects_def core_read_def by fastforce

lemma typed_cgroup_id:
  assumes "vmlinux_layout env" and "vmlinux_layout env'" and "typed_objects env obj"
    and "same_members env env' obj" and "obj p ''task_struct''"
  shows "get_task_cgroup_id env p = get_task_cgroup_id env' p"
proof -
  note read = typed_read [OF assms(1,2,4)] and pointer = typed_pointer [OF assms(1,3)]
  let ?css = "core_read env ''task_struct'' ''cgroups'' 8 p"
  let ?cgrp = "core_read env ''css_set'' ''dfl_cgrp'' 8 ?css"
  let ?kn = "core_read env ''cgroup'' ''kn'' 8 ?cgrp"
  have css: "obj ?css ''css_set''" "?css = core_read env' ''task_struct'' ''cgroups'' 8 p"
    using assms(5) by (auto intro!: pointer read simp: task_struct_cgroups)
  have cgrp: "obj ?cgrp ''cgroup''" "?cgrp = core_read env' ''css_set'' ''dfl_cgrp'' 8 ?css"
    using css(1) by (auto intro!: pointer read simp: css_set_dfl_cgrp)
  have kn: "obj ?kn ''kernfs_node''" "?kn = core_read env' ''cgroup'' ''kn'' 8 ?cgrp"
    using cgrp(1) by (auto intro!: pointer read simp: cgroup_kn)
  have "core_read env ''kernfs_node'' ''id'' 8 ?kn = core_read env' ''kernfs_node'' ''id'' 8 ?kn"
    using kn(1) by (auto intro!: read simp: kernfs_node_id)
  then show ?thesis by (simp add: get_task_cgroup_id_def flip: css(2) cgrp(2) kn(2))
qed

lemma typed_task:
  assumes "vmlinux_layout env" and "vmlinux_layout env'" and "same_members env env' obj" and "obj p ''task_struct''"
  shows "fill_key env p = fill_key env' p"
    and "core_read env ''task_struct'' ''__state'' 4 p = core_read env' ''task_struct'' ''__state'' 4 p"
  using typed_read [OF assms(1-3), of "''task_struct''" s_task_struct _ _ _ p] assms(4)
  by (simp_all add: fill_key_def task_struct_pid task_struct_start_time task_struct_state)

section \<open>Sound layouts\<close>

text \<open>
  The members of a struct in declaration order do not overlap, lie inside the struct, are aligned
  and, for bit-fields, do not straddle a unit of their type.
\<close>

fun member_sound :: "nat \<Rightarrow> cfield \<times> nat \<times> nat \<Rightarrow> bool" where
  "member_sound sz (Fld n t, s, w) =
     (s + w \<le> 8 * sz \<and> w = 8 * size_of t \<and> s mod (8 * align_of t) = 0)"
| "member_sound sz (Bits n t b, s, w) =
     (s + w \<le> 8 * sz \<and> (w = 0 \<or> s mod (8 * size_of t) + w \<le> 8 * size_of t))"

fun sound_layout :: "ctype \<Rightarrow> bool" where
  "sound_layout (CStruct n fs) =
     (sorted_wrt (\<lambda>(_, s, w) (_, s', _). s + w \<le> s') (placed fs 0) \<and>
      list_all (member_sound (size_of (CStruct n fs))) (placed fs 0))"
| "sound_layout _ = True"

lemma wf_sound_layout: "wf_type (CStruct n fs) \<Longrightarrow> sound_layout (CStruct n fs)"
proof -
  assume wf: "wf_type (CStruct n fs)"
  then have wf': "wf_fields fs" by simp
  have "member_sound (size_of (CStruct n fs)) m" if m: "m \<in> set (placed fs 0)" for m
  proof -
    obtain f s w where fsw: "m = (f, s, w)" by (cases m)
    have "s + w \<le> 8 * size_of (CStruct n fs)"
      using placed_within [OF wf', of f s w 0] m fsw struct_size_ge [of fs n] by simp
    then show ?thesis
    proof (cases f)
      case (Fld x t)
      then show ?thesis
        using placed_aligned [of x t s w fs 0] m fsw \<open>s + w \<le> _\<close>
        by (simp add: dvd_eq_mod_eq_0 del: size_of.simps)
    next
      case (Bits x t b)
      then show ?thesis
        using placed_bits_unit [OF wf', of x t b s w 0] m fsw \<open>s + w \<le> _\<close>
        by (auto simp del: size_of.simps)
    qed
  qed
  then show ?thesis using placed_disjoint [OF wf'] by (simp add: list_all_iff del: size_of.simps)
qed

lemma struct_sound: "wf_type t \<Longrightarrow> sound_layout t"
  by (cases t) (auto simp: wf_sound_layout simp del: sound_layout.simps(1) wf_type.simps)

section \<open>Properties\<close>

text \<open>
  The layout computed for the structs the programs read is sound: members do not overlap, lie
  inside the struct, are aligned, and bit-fields stay in a unit of their type.
\<close>

theorem kernel_layouts_sound:
  "list_all sound_layout [s_request, s_task_struct, s_css_set, s_cgroup, s_kernfs_node]"
  by (simp add: struct_sound del: sound_layout.simps)

text \<open>
  C13: the programs read kernel memory as \<open>vmlinux.h\<close> types it. Take two kernels with the layout of the header
  and the same objects, pointers leading to objects of their type, that agree on every declared member of
  these objects and on nothing else: not on other bytes, not on other widths, not on where undeclared names are found.
  Called with a request or with tasks among the objects, every program does the same on both: it reads
  nothing but whole members, of the struct that is there, with the type declared for them. (The remaining
  program, \<open>block_rq_complete\<close>, reads no kernel memory.)
\<close>

theorem programs_read_typed_members:
  assumes "vmlinux_layout env" and "vmlinux_layout env'"
    and "typed_objects env obj" and "same_members env env' obj"
    and "obj rq ''request''" and "obj p ''task_struct''" and "obj q ''task_struct''"
  shows "block_rq_issue bmaps env now cg rq bst = block_rq_issue bmaps env' now cg rq bst \<and>
    sched_wakeup rmaps env now p rst = sched_wakeup rmaps env' now p rst \<and>
    sched_wakeup_new rmaps env now p rst = sched_wakeup_new rmaps env' now p rst \<and>
    sched_switch rmaps env now ts preempt p q rst = sched_switch rmaps env' now ts preempt p q rst"
proof -
  note task = typed_task [OF assms(1,2,4,6)] typed_task [OF assms(1,2,4,7)]
  have "core_read env ''request'' ''__data_len'' 4 rq = core_read env' ''request'' ''__data_len'' 4 rq"
    by (rule typed_read [OF assms(1,2,4) _ request_data_len]) (simp_all add: assms(5))
  then show ?thesis
    unfolding block_rq_issue_def sched_wakeup_def sched_wakeup_new_def handle_wakeup_def sched_switch_def
      task typed_cgroup_id [OF assms(1-4,7)] by simp
qed

text \<open>Two memories that differ below 4096 and in the offsets of undeclared names; all pointers lead to 4096.\<close>

definition page_kernel :: "u64 \<Rightarrow> core_env" where
  "page_kernel low =
     \<lparr>probe_read = (\<lambda>a n. if a < 4096 then low else 4096),
      field_off = (\<lambda>s f. case kernel_struct s of None \<Rightarrow> unat low
         | Some t \<Rightarrow> (case offset_of t f of None \<Rightarrow> unat low | Some n \<Rightarrow> n))\<rparr>"

lemma page_read:
  assumes "kernel_struct s = Some t" and "member t f = Some (b, u)"
  shows "probe_read (page_kernel low) (4096 + of_nat (b div 8)) n = 4096"
proof -
  have "wf_type t \<and> size_of t \<le> 9792" using assms(1) by (auto simp: kernel_struct_def split: if_splits)
  with member_within [OF assms(2)] have "b div 8 \<le> 9792" by auto
  then have "\<not> 4096 + (of_nat (b div 8) :: u64) < 4096"
    by (simp add: word_less_nat_alt unat_word_ariths unat_of_nat)
  then show ?thesis by (simp add: page_kernel_def)
qed

lemma page_layout: "vmlinux_layout (page_kernel low)"
  by (auto simp: vmlinux_layout_def page_kernel_def offset_of_def)

theorem programs_read_typed_members_witness:
  "sched_switch hash_runq_maps (page_kernel 1) 20 20 False 4096 4096 runq_init =
     sched_switch hash_runq_maps (page_kernel 2) 20 20 False 4096 4096 runq_init \<and>
   probe_read (page_kernel 1) 0 8 \<noteq> probe_read (page_kernel 2) 0 8"
proof -
  let ?obj = "\<lambda>p s. p = 4096"
  have "typed_objects (page_kernel 1) ?obj" "same_members (page_kernel 1) (page_kernel 2) ?obj"
    unfolding typed_objects_def same_members_def by (auto simp: page_read)
  from programs_read_typed_members [OF page_layout page_layout this HOL.refl HOL.refl HOL.refl,
      where rmaps = hash_runq_maps and now = 20 and ts = 20 and preempt = False and rst = runq_init, THEN conjunct2, THEN conjunct2, THEN conjunct2]
  show ?thesis by (simp add: page_kernel_def)
qed

text \<open>
  On a kernel with the layout of \<open>vmlinux.h\<close>, the cgroup id of a task is read along its default
  cgroup set: four loads of 8 bytes at the computed offsets, where each of the first three members is
  a pointer to the struct the next load reads from and the last is a \<open>u64\<close>.
\<close>

theorem cgroup_id_path:
  assumes "field_off env = vmlinux_off"
  shows "get_task_cgroup_id env task =
      (let css = probe_read env (task + 3584) 8;
           cgrp = probe_read env (css + 128) 8;
           kn = probe_read env (cgrp + 256) 8
       in probe_read env (kn + 96) 8) \<and>
    type_of_member s_task_struct ''cgroups'' = Some (CPtr ''struct css_set'') \<and>
    type_of_member s_css_set ''dfl_cgrp'' = Some (CPtr ''struct cgroup'') \<and>
    type_of_member s_cgroup ''kn'' = Some (CPtr ''struct kernfs_node'') \<and>
    type_of_member s_kernfs_node ''id'' = Some t_u64"
  by (simp add: get_task_cgroup_id_def core_read_def assms type_of_member_def kernel_members)

theorem cgroup_id_path_witness:
  "get_task_cgroup_id \<lparr>probe_read = (\<lambda>a n. a + 1000), field_off = vmlinux_off\<rparr> 10000 = 18064"
  using cgroup_id_path [of "\<lparr>probe_read = (\<lambda>a n. a + 1000), field_off = vmlinux_off\<rparr>" 10000]
  by simp

text \<open>
  The conversions to the 32-bit members of the map keys and values lose nothing: the pid of a
  task key and the length recorded at issue are the four bytes read.
\<close>

theorem narrow_reads_lossless:
  assumes "probe_sized env"
  shows "unat (key_pid (fill_key env p)) = unat (core_read env ''task_struct'' ''pid'' 4 p) \<and>
    (\<exists>b. block_rq_issue maps env now cg rq st =
        st\<lparr>start_map := bpf_update (start_ops maps) (start_map st) rq
             \<lparr>ts_ns = now, bytes = b, cgroup_id = cg\<rparr>\<rparr> \<and>
       unat b = unat (core_read env ''request'' ''__data_len'' 4 rq))"
proof -
  have small: "unat (core_read env s f 4 x) < 2 ^ 32" for s f x
    using assms by (simp add: core_read_def probe_sized_def)
  then show ?thesis
    by (auto simp: fill_key_def block_rq_issue_def unat_ucast_small [OF small]
        intro!: exI [of _ "ucast (core_read env ''request'' ''__data_len'' 4 rq)"])
qed

theorem narrow_reads_lossless_witness:
  "unat (key_pid (fill_key \<lparr>probe_read = (\<lambda>a n. 1234), field_off = vmlinux_off\<rparr> 0)) = 1234"
  using narrow_reads_lossless [of "\<lparr>probe_read = (\<lambda>a n. 1234), field_off = vmlinux_off\<rparr>" 0]
  by (simp add: probe_sized_def core_read_def fill_key_def)

end
