(* ===== verification/Tracepoints.thy ===== *)
theory Tracepoints
  imports KernelAccess BlockSpec
begin

text \<open>
  How the kernel calls the programs. The kernel makes a context of the arguments of a tracepoint, and
  \<open>BPF_PROG\<close> takes the parameters of the program from it. Neither is code of the repository: they are parameters, with
  the law of the locale \<open>btf_calls\<close>. The types of the tracepoints are those of \<open>ebpf/vmlinux.h\<close>, the
  parameters those of \<open>block_latency.c\<close> and \<open>runq_latency.c\<close>.
\<close>

section \<open>Types of the tracepoints\<close>

definition btf_trace_block_rq_complete :: "ctype list" where
  "btf_trace_block_rq_complete = [CPtr ''void'', CPtr ''struct request'', t_blk_status_t, c_uint]"

definition btf_trace_block_rq_issue :: "ctype list" where
  "btf_trace_block_rq_issue = [CPtr ''void'', CPtr ''struct request'']"

definition btf_trace_sched_switch :: "ctype list" where
  "btf_trace_sched_switch =
     [CPtr ''void'', t_bool, CPtr ''struct task_struct'', CPtr ''struct task_struct'', c_uint]"

definition btf_trace_sched_wakeup :: "ctype list" where
  "btf_trace_sched_wakeup = [CPtr ''void'', CPtr ''struct task_struct'']"

definition btf_trace_sched_wakeup_new :: "ctype list" where
  "btf_trace_sched_wakeup_new = [CPtr ''void'', CPtr ''struct task_struct'']"

section \<open>Parameters of the programs\<close>

definition block_rq_issue_params :: "ctype list" where
  "block_rq_issue_params = [CPtr ''struct request'']"

definition block_rq_complete_params :: "ctype list" where
  "block_rq_complete_params = [CPtr ''struct request'', c_int, c_uint]"

definition sched_wakeup_params :: "ctype list" where
  "sched_wakeup_params = [CPtr ''struct task_struct'']"

definition sched_wakeup_new_params :: "ctype list" where
  "sched_wakeup_new_params = [CPtr ''struct task_struct'']"

definition sched_switch_params :: "ctype list" where
  "sched_switch_params = [t_bool, CPtr ''struct task_struct'', CPtr ''struct task_struct'']"

section \<open>Calls\<close>

text \<open>A parameter can take the argument: the same pointer, or a scalar at least as wide.\<close>

fun takes :: "ctype \<Rightarrow> ctype \<Rightarrow> bool" where
  "takes (CPtr s) (CPtr t) = (s = t)"
| "takes (CPrim s n) (CPrim t m) = (m \<le> n \<and> (CPrim s n = c_bool \<longrightarrow> CPrim t m = c_bool))"
| "takes _ _ = False"

lemma takes_size: "takes p k \<Longrightarrow> size_of k \<le> size_of p"
  by (induction p k rule: takes.induct) simp_all

lemma takes_bool: "takes p k \<Longrightarrow> p = c_bool \<Longrightarrow> k = c_bool"
  by (induction p k rule: takes.induct) simp_all

text \<open>A value of a type: within its width, and 0 or 1 for a boolean.\<close>

definition value_of :: "ctype \<Rightarrow> u64 \<Rightarrow> bool" where
  "value_of t v \<longleftrightarrow> take_bit (8 * size_of t) v = v \<and> (t = c_bool \<longrightarrow> v = 0 \<or> v = 1)"

text \<open>
  \<open>pack\<close>: the context of arguments of given types; \<open>arg\<close>: the parameter of a given type at a position. A
  \<open>tp_btf\<close> program gets the arguments of the tracepoint without the first, its private data; a parameter that can take
  the argument is the argument.
\<close>

locale btf_calls =
  fixes pack :: "ctype list \<Rightarrow> u64 list \<Rightarrow> 'x" and arg :: "ctype \<Rightarrow> nat \<Rightarrow> 'x \<Rightarrow> u64"
  assumes arg_taken: "list_all2 value_of ks vals \<Longrightarrow> i < length vals \<Longrightarrow> takes p (ks ! i) \<Longrightarrow>
    arg p i (pack ks vals) = vals ! i"

text \<open>The parameters a program declares match the first arguments of its tracepoint.\<close>

definition declares_prefix :: "ctype list \<Rightarrow> ctype list \<Rightarrow> bool" where
  "declares_prefix params proto \<longleftrightarrow> proto \<noteq> [] \<and> length params \<le> length (tl proto) \<and>
     (\<forall>i < length params. takes (params ! i) (tl proto ! i))"

definition tp_args :: "(ctype \<Rightarrow> nat \<Rightarrow> 'x \<Rightarrow> u64) \<Rightarrow> ctype list \<Rightarrow> 'x \<Rightarrow> u64 list" where
  "tp_args arg params ctx = map (\<lambda>i. arg (params ! i) i ctx) [0..<length params]"

context btf_calls
begin

lemma args_taken:
  assumes "declares_prefix params proto" and "list_all2 value_of (tl proto) vals"
  shows "tp_args arg params (pack (tl proto) vals) = take (length params) vals"
proof (rule nth_equalityI)
  from assms have len: "length params \<le> length vals"
    by (auto simp: declares_prefix_def dest: list_all2_lengthD)
  then show "length (tp_args arg params (pack (tl proto) vals)) = length (take (length params) vals)"
    by (simp add: tp_args_def)
  fix i
  assume "i < length (tp_args arg params (pack (tl proto) vals))"
  with len have i: "i < length params" "i < length vals" by (simp_all add: tp_args_def)
  have "takes (params ! i) (tl proto ! i)" using assms(1) i by (simp add: declares_prefix_def)
  from arg_taken [OF assms(2) i(2) this] i
  show "tp_args arg params (pack (tl proto) vals) ! i = take (length params) vals ! i" by (simp add: tp_args_def)
qed

end

text \<open>
  Contexts as they are on x86-64: slots of 64 bits, each argument extended with zeros, converted to the
  type of the parameter.
\<close>

definition slots :: "ctype list \<Rightarrow> u64 list \<Rightarrow> u64 list" where
  "slots ks vals = map2 (\<lambda>k v. take_bit (8 * size_of k) v) ks vals"

definition slot_arg :: "ctype \<Rightarrow> nat \<Rightarrow> u64 list \<Rightarrow> u64" where
  "slot_arg p i ctx = (if p = c_bool then of_bool (ctx ! i \<noteq> 0) else take_bit (8 * size_of p) (ctx ! i))"

lemma slot_taken:
  assumes "takes p k" and v: "value_of k v"
  shows "(if p = c_bool then of_bool (v \<noteq> 0) else take_bit (8 * size_of p) v) = v"
proof (cases "p = c_bool")
  case True
  with takes_bool [OF assms(1)] v have "v = 0 \<or> v = 1" unfolding value_of_def by blast
  with True show ?thesis by auto
next
  case False
  from v have "take_bit (8 * size_of k) v = v" by (simp add: value_of_def)
  moreover have "take_bit (8 * size_of p) (take_bit (8 * size_of k) v) = take_bit (8 * size_of k) v"
    using takes_size [OF assms(1)] by (simp add: take_bit_take_bit min_def)
  ultimately show ?thesis using False by simp
qed

interpretation slot_calls: btf_calls slots slot_arg
proof
  fix ks vals i p
  assume vals: "list_all2 value_of ks vals" and i: "i < length vals" and t: "takes p (ks ! i)"
  have v: "value_of (ks ! i) (vals ! i)" using list_all2_nthD2 [OF vals i] .
  have "slots ks vals ! i = vals ! i"
    using v i list_all2_lengthD [OF vals] by (simp add: slots_def value_of_def)
  then show "slot_arg p i (slots ks vals) = vals ! i" unfolding slot_arg_def using slot_taken [OF t v] by presburger
qed

section \<open>The programs from their contexts\<close>

definition tp_block_rq_issue ::
  "(ctype \<Rightarrow> nat \<Rightarrow> 'x \<Rightarrow> u64) \<Rightarrow> ('ms, 'mt) block_maps \<Rightarrow> core_env \<Rightarrow> u64 \<Rightarrow> u64 \<Rightarrow> 'x \<Rightarrow>
   ('ms, 'mt) block_state \<Rightarrow> ('ms, 'mt) block_state" where
  "tp_block_rq_issue arg maps env now cg ctx st =
     (let args = tp_args arg block_rq_issue_params ctx in block_rq_issue maps env now cg (args ! 0) st)"

definition tp_block_rq_complete ::
  "(ctype \<Rightarrow> nat \<Rightarrow> 'x \<Rightarrow> u64) \<Rightarrow> ('ms, 'mt) block_maps \<Rightarrow> u64 \<Rightarrow> 'x \<Rightarrow>
   ('ms, 'mt) block_state \<Rightarrow> ('ms, 'mt) block_state" where
  "tp_block_rq_complete arg maps now ctx st =
     (let args = tp_args arg block_rq_complete_params ctx
      in block_rq_complete maps now (args ! 0) (ucast (args ! 1)) (ucast (args ! 2)) st)"

definition tp_sched_wakeup ::
  "(ctype \<Rightarrow> nat \<Rightarrow> 'x \<Rightarrow> u64) \<Rightarrow> ('ms, 'mt) runq_maps \<Rightarrow> core_env \<Rightarrow> u64 \<Rightarrow> 'x \<Rightarrow>
   ('ms, 'mt) runq_state \<Rightarrow> ('ms, 'mt) runq_state" where
  "tp_sched_wakeup arg maps env now ctx st =
     (let args = tp_args arg sched_wakeup_params ctx in sched_wakeup maps env now (args ! 0) st)"

definition tp_sched_wakeup_new ::
  "(ctype \<Rightarrow> nat \<Rightarrow> 'x \<Rightarrow> u64) \<Rightarrow> ('ms, 'mt) runq_maps \<Rightarrow> core_env \<Rightarrow> u64 \<Rightarrow> 'x \<Rightarrow>
   ('ms, 'mt) runq_state \<Rightarrow> ('ms, 'mt) runq_state" where
  "tp_sched_wakeup_new arg maps env now ctx st =
     (let args = tp_args arg sched_wakeup_new_params ctx in sched_wakeup_new maps env now (args ! 0) st)"

definition tp_sched_switch ::
  "(ctype \<Rightarrow> nat \<Rightarrow> 'x \<Rightarrow> u64) \<Rightarrow> ('ms, 'mt) runq_maps \<Rightarrow> core_env \<Rightarrow> u64 \<Rightarrow> u64 \<Rightarrow> 'x \<Rightarrow>
   ('ms, 'mt) runq_state \<Rightarrow> ('ms, 'mt) runq_state" where
  "tp_sched_switch arg maps env now ts ctx st =
     (let args = tp_args arg sched_switch_params ctx
      in sched_switch maps env now ts (args ! 0 \<noteq> 0) (args ! 1) (args ! 2) st)"

lemma prefixes:
  "declares_prefix block_rq_issue_params btf_trace_block_rq_issue"
  "declares_prefix block_rq_complete_params btf_trace_block_rq_complete"
  "declares_prefix sched_wakeup_params btf_trace_sched_wakeup"
  "declares_prefix sched_wakeup_new_params btf_trace_sched_wakeup_new"
  "declares_prefix sched_switch_params btf_trace_sched_switch"
  by (auto simp: declares_prefix_def less_Suc_eq t_bool_def t_blk_status_t_def t_u8_def t___u8_def
      block_rq_issue_params_def btf_trace_block_rq_issue_def block_rq_complete_params_def
      btf_trace_block_rq_complete_def sched_wakeup_params_def btf_trace_sched_wakeup_def
      sched_wakeup_new_params_def btf_trace_sched_wakeup_new_def sched_switch_params_def btf_trace_sched_switch_def)

lemma value_of_ptr: "value_of (CPtr s) v"
  by (simp add: value_of_def take_bit_word_eq_self)

lemma slot_uint: "take_bit 32 (ucast (v :: u32) :: u64) = ucast v"
  by (rule bit_word_eqI) (auto simp: bit_simps dest: bit_imp_le_length)

lemma slot_status: "take_bit 8 (ucast (v :: 8 word) :: u64) = ucast v"
  by (rule bit_word_eqI) (auto simp: bit_simps dest: bit_imp_le_length)

lemma value_of_uint: "value_of c_uint (ucast (v :: u32))"
  by (simp add: value_of_def slot_uint)

lemma value_of_status: "value_of t_blk_status_t (ucast (v :: 8 word))"
  by (simp add: value_of_def slot_status) (simp add: t_blk_status_t_def t_u8_def t___u8_def)

lemma value_of_bool: "value_of t_bool (of_bool b)"
  by (cases b) (simp_all add: value_of_def t_bool_def)

lemmas values_of = value_of_ptr value_of_uint value_of_status value_of_bool

lemma uint_back: "ucast (ucast (v :: u32) :: u64) = v"
  by (rule bit_word_eqI) (simp add: bit_simps)

lemma status_back: "ucast (ucast (v :: 8 word) :: u64) = (ucast v :: u32)"
  by (rule bit_word_eqI) (auto simp: bit_simps)

lemma status_error: "(ucast (v :: 8 word) :: u32) = 0 \<longleftrightarrow> v = 0"
proof
  assume z: "(ucast v :: u32) = 0"
  have "v = ucast (ucast v :: u32)" by (rule bit_word_eqI) (auto simp: bit_simps)
  then show "v = 0" by (simp add: z)
qed simp

section \<open>Property\<close>

text \<open>
  C14: the programs are declared for the arguments their tracepoints have. Whatever the kernel passes, of the types
  \<open>vmlinux.h\<close> gives the tracepoints, the parameters of each program are the arguments at their
  positions: the request and the tasks are the kernel's pointers, the flag of a switch is the kernel's,
  and the \<open>int error\<close> of a completion, which the kernel passes as an eight-bit \<open>blk_status_t\<close>,
  is that status, so that an error is counted exactly when it is not \<open>BLK_STS_OK\<close>.
\<close>

theorem tracepoint_arguments_delivered:
  fixes status :: "8 word" and nr prev_state :: u32 and bst :: "('ms, 'mt) block_state" and rst :: "('rs, 'rt) runq_state"
  assumes "btf_calls pack arg"
  shows
   "tp_block_rq_issue arg bm env now cg (pack (tl btf_trace_block_rq_issue) [rq]) bst =
      block_rq_issue bm env now cg rq bst \<and>
    tp_block_rq_complete arg bm now (pack (tl btf_trace_block_rq_complete) [rq, ucast status, ucast nr]) bst =
      block_rq_complete bm now rq (ucast status) nr bst \<and>
    ((ucast status :: u32) = 0 \<longleftrightarrow> status = 0) \<and>
    tp_sched_wakeup arg rm env now (pack (tl btf_trace_sched_wakeup) [p]) rst = sched_wakeup rm env now p rst \<and>
    tp_sched_wakeup_new arg rm env now (pack (tl btf_trace_sched_wakeup_new) [p]) rst =
      sched_wakeup_new rm env now p rst \<and>
    tp_sched_switch arg rm env now ts
        (pack (tl btf_trace_sched_switch) [of_bool preempt, prev, next_task, ucast prev_state]) rst =
      sched_switch rm env now ts preempt prev next_task rst"
proof -
  note taken = btf_calls.args_taken [OF assms]
  have "tp_args arg block_rq_issue_params (pack (tl btf_trace_block_rq_issue) [rq]) = [rq]"
    using taken [OF prefixes(1), of "[rq]"]
    by (simp add: btf_trace_block_rq_issue_def block_rq_issue_params_def values_of)
  moreover have "tp_args arg block_rq_complete_params
      (pack (tl btf_trace_block_rq_complete) [rq, ucast status, ucast nr]) = [rq, ucast status, ucast nr]"
    using taken [OF prefixes(2), of "[rq, ucast status, ucast nr]"]
    by (simp add: btf_trace_block_rq_complete_def block_rq_complete_params_def values_of)
  moreover have "tp_args arg sched_wakeup_params (pack (tl btf_trace_sched_wakeup) [p]) = [p]"
    using taken [OF prefixes(3), of "[p]"]
    by (simp add: btf_trace_sched_wakeup_def sched_wakeup_params_def values_of)
  moreover have "tp_args arg sched_wakeup_new_params (pack (tl btf_trace_sched_wakeup_new) [p]) = [p]"
    using taken [OF prefixes(4), of "[p]"]
    by (simp add: btf_trace_sched_wakeup_new_def sched_wakeup_new_params_def values_of)
  moreover have "tp_args arg sched_switch_params
      (pack (tl btf_trace_sched_switch) [of_bool preempt, prev, next_task, ucast prev_state]) =
      [of_bool preempt, prev, next_task]"
    using taken [OF prefixes(5), of "[of_bool preempt, prev, next_task, ucast prev_state]"]
    by (simp add: btf_trace_sched_switch_def sched_switch_params_def values_of)
  ultimately show ?thesis
    by (simp add: tp_block_rq_issue_def tp_block_rq_complete_def tp_sched_wakeup_def tp_sched_wakeup_new_def
        tp_sched_switch_def uint_back status_back status_error)
qed

theorem tracepoint_arguments_delivered_witness:
  "let st = \<lparr>start_map = [(1, \<lparr>ts_ns = 100, bytes = 512, cgroup_id = 7\<rparr>)], stats_by_cgroup = [(7, zero_io_stats)]\<rparr> in
   tp_block_rq_complete slot_arg hash_block_maps 170
      (slots (tl btf_trace_block_rq_complete) [1, ucast (10 :: 8 word), ucast (4096 :: u32)]) st =
   block_rq_complete hash_block_maps 170 1 (ucast (10 :: 8 word)) 4096 st"
  unfolding Let_def
  by (rule tracepoint_arguments_delivered [OF slot_calls.btf_calls_axioms, THEN conjunct2, THEN conjunct1])

end
