(* ===== verification/KSched.thy ===== *)
theory KSched
  imports KTaskNear
begin

text \<open>
  Kernel types of \<open>ebpf/vmlinux.h\<close>, in dependency order: the run queues of the scheduler, \<open>struct rq\<close> and the queues of its classes, and the types they point to.
  A definition keeps every member of its C declaration, in order; each is followed by its size
  and alignment. \<open>s_\<close>, \<open>u_\<close>, \<open>e_\<close> and \<open>t_\<close> stand for struct, union, enum and typedef.
\<close>

definition t_smp_call_func_t :: ctype where
  "t_smp_call_func_t = CPtr ''fn: void''"

lemma t_smp_call_func_t_sa [simp]: "size_of t_smp_call_func_t = 8" "align_of t_smp_call_func_t = 8" "wf_type t_smp_call_func_t"
  by (simp_all add: t_smp_call_func_t_def c_layout del: One_nat_def)

definition s___call_single_data :: ctype where
  "s___call_single_data = CStruct ''__call_single_data'' [Fld ''node'' s___call_single_node,
      Fld ''func'' t_smp_call_func_t,
      Fld ''info'' (CPtr ''void'')]"

lemma s___call_single_data_sa [simp]: "size_of s___call_single_data = 32" "align_of s___call_single_data = 8" "wf_type s___call_single_data"
  by (simp_all add: s___call_single_data_def c_layout del: One_nat_def)

definition t_call_single_data_t :: ctype where
  "t_call_single_data_t = s___call_single_data"

lemma t_call_single_data_t_sa [simp]: "size_of t_call_single_data_t = 32" "align_of t_call_single_data_t = 8" "wf_type t_call_single_data_t"
  by (simp_all add: t_call_single_data_t_def c_layout del: One_nat_def)

definition s_cfs_rq_f1 :: "cfield list" where
  "s_cfs_rq_f1 =
    [Fld ''load'' s_load_weight,
      Fld ''nr_running'' c_uint,
      Fld ''h_nr_queued'' c_uint,
      Fld ''h_nr_runnable'' c_uint,
      Fld ''idle_nr_running'' c_uint,
      Fld ''idle_h_nr_running'' c_uint,
      Fld ''h_nr_delayed'' c_uint,
      Fld ''avg_vruntime'' t_s64,
      Fld ''avg_load'' t_u64,
      Fld ''zero_vruntime'' t_u64,
      Fld ''tasks_timeline'' s_rb_root_cached,
      Fld ''curr'' (CPtr ''struct sched_entity''),
      Fld ''next'' (CPtr ''struct sched_entity''),
      Bits '''' c_long 64,
      Bits '''' c_long 64,
      Bits '''' c_long 64,
      Bits '''' c_long 64,
      Fld ''avg'' s_sched_avg,
      Fld ''removed'' (CStruct '''' [Fld ''lock'' t_raw_spinlock_t,
        Fld ''nr'' c_int,
        Fld ''load_avg'' c_ulong,
        Fld ''util_avg'' c_ulong,
        Fld ''runnable_avg'' c_ulong,
        Bits '''' c_long 64,
        Bits '''' c_long 64,
        Bits '''' c_long 64,
        Bits '''' c_long 64]),
      Fld ''last_update_tg_load_avg'' t_u64,
      Fld ''tg_load_avg_contrib'' c_ulong,
      Fld ''propagate'' c_long,
      Fld ''prop_runnable_sum'' c_long,
      Fld ''h_load'' c_ulong,
      Fld ''last_h_load_update'' t_u64,
      Fld ''h_load_next'' (CPtr ''struct sched_entity''),
      Fld ''rq'' (CPtr ''struct rq''),
      Fld ''on_list'' c_int,
      Fld ''leaf_cfs_rq_list'' s_list_head,
      Fld ''tg'' (CPtr ''struct task_group''),
      Fld ''idle'' c_int,
      Fld ''runtime_enabled'' c_int,
      Fld ''runtime_remaining'' t_s64,
      Fld ''throttled_pelt_idle'' t_u64,
      Fld ''throttled_clock'' t_u64,
      Fld ''throttled_clock_pelt'' t_u64]"

lemma s_cfs_rq_f1_lay [layout]: "lay s_cfs_rq_f1 0 = 3136" "fields_align s_cfs_rq_f1 = 8" "wf_fields s_cfs_rq_f1"
  by (simp_all add: s_cfs_rq_f1_def c_layout del: One_nat_def)

definition s_cfs_rq_f2 :: "cfield list" where
  "s_cfs_rq_f2 =
    [Fld ''throttled_clock_pelt_time'' t_u64,
      Fld ''throttled_clock_self'' t_u64,
      Fld ''throttled_clock_self_time'' t_u64,
      Fld ''throttled'' c_int,
      Fld ''throttle_count'' c_int,
      Fld ''throttled_list'' s_list_head,
      Fld ''throttled_csd_list'' s_list_head,
      Bits '''' c_long 64,
      Bits '''' c_long 64,
      Bits '''' c_long 64,
      Bits '''' c_long 64,
      Bits '''' c_long 64,
      Bits '''' c_long 64,
      Bits '''' c_long 64]"

lemma s_cfs_rq_f2_lay [layout]: "lay s_cfs_rq_f2 3136 = 4096" "fields_align s_cfs_rq_f2 = 8" "wf_fields s_cfs_rq_f2"
  by (simp_all add: s_cfs_rq_f2_def c_layout del: One_nat_def)

definition s_cfs_rq :: ctype where
  "s_cfs_rq = CStruct ''cfs_rq'' (s_cfs_rq_f1 @ s_cfs_rq_f2)"

lemma s_cfs_rq_sa [simp]: "size_of s_cfs_rq = 512" "align_of s_cfs_rq = 8" "wf_type s_cfs_rq"
  by (simp_all add: s_cfs_rq_def c_layout layout wf_fields_append lay_append fields_align_append del: One_nat_def)

definition s_rt_prio_array :: ctype where
  "s_rt_prio_array = CStruct ''rt_prio_array'' [Fld ''bitmap'' (CArr c_ulong 2),
      Fld ''queue'' (CArr s_list_head 100)]"

lemma s_rt_prio_array_sa [simp]: "size_of s_rt_prio_array = 1616" "align_of s_rt_prio_array = 8" "wf_type s_rt_prio_array"
  by (simp_all add: s_rt_prio_array_def c_layout del: One_nat_def)

definition s_plist_head :: ctype where
  "s_plist_head = CStruct ''plist_head'' [Fld ''node_list'' s_list_head]"

lemma s_plist_head_sa [simp]: "size_of s_plist_head = 16" "align_of s_plist_head = 8" "wf_type s_plist_head"
  by (simp_all add: s_plist_head_def c_layout del: One_nat_def)

definition s_rt_rq :: ctype where
  "s_rt_rq = CStruct ''rt_rq'' [Fld ''active'' s_rt_prio_array,
      Fld ''rt_nr_running'' c_uint,
      Fld ''rr_nr_running'' c_uint,
      Fld ''highest_prio'' (CStruct '''' [Fld ''curr'' c_int,
        Fld ''next'' c_int]),
      Fld ''overloaded'' t_bool,
      Fld ''pushable_tasks'' s_plist_head,
      Fld ''rt_queued'' c_int]"

lemma s_rt_rq_sa [simp]: "size_of s_rt_rq = 1664" "align_of s_rt_rq = 8" "wf_type s_rt_rq"
  by (simp_all add: s_rt_rq_def c_layout del: One_nat_def)

definition s_dl_rq :: ctype where
  "s_dl_rq = CStruct ''dl_rq'' [Fld ''root'' s_rb_root_cached,
      Fld ''dl_nr_running'' c_uint,
      Fld ''earliest_dl'' (CStruct '''' [Fld ''curr'' t_u64,
        Fld ''next'' t_u64]),
      Fld ''overloaded'' t_bool,
      Fld ''pushable_dl_tasks_root'' s_rb_root_cached,
      Fld ''running_bw'' t_u64,
      Fld ''this_bw'' t_u64,
      Fld ''extra_bw'' t_u64,
      Fld ''max_bw'' t_u64,
      Fld ''bw_ratio'' t_u64]"

lemma s_dl_rq_sa [simp]: "size_of s_dl_rq = 104" "align_of s_dl_rq = 8" "wf_type s_dl_rq"
  by (simp_all add: s_dl_rq_def c_layout del: One_nat_def)

definition t_cpu_stop_fn_t :: ctype where
  "t_cpu_stop_fn_t = CPtr ''fn: int''"

lemma t_cpu_stop_fn_t_sa [simp]: "size_of t_cpu_stop_fn_t = 8" "align_of t_cpu_stop_fn_t = 8" "wf_type t_cpu_stop_fn_t"
  by (simp_all add: t_cpu_stop_fn_t_def c_layout del: One_nat_def)

definition s_cpu_stop_work :: ctype where
  "s_cpu_stop_work = CStruct ''cpu_stop_work'' [Fld ''list'' s_list_head,
      Fld ''fn'' t_cpu_stop_fn_t,
      Fld ''caller'' c_ulong,
      Fld ''arg'' (CPtr ''void''),
      Fld ''done'' (CPtr ''struct cpu_stop_done'')]"

lemma s_cpu_stop_work_sa [simp]: "size_of s_cpu_stop_work = 48" "align_of s_cpu_stop_work = 8" "wf_type s_cpu_stop_work"
  by (simp_all add: s_cpu_stop_work_def c_layout del: One_nat_def)

definition s_rcuwait :: ctype where
  "s_rcuwait = CStruct ''rcuwait'' [Fld ''task'' (CPtr ''struct task_struct'')]"

lemma s_rcuwait_sa [simp]: "size_of s_rcuwait = 8" "align_of s_rcuwait = 8" "wf_type s_rcuwait"
  by (simp_all add: s_rcuwait_def c_layout del: One_nat_def)

definition s_rq_f1 :: "cfield list" where
  "s_rq_f1 =
    [Fld ''__lock'' t_raw_spinlock_t,
      Fld ''nr_running'' c_uint,
      Fld ''nr_numa_running'' c_uint,
      Fld ''nr_preferred_running'' c_uint,
      Fld ''numa_migrate_on'' c_uint,
      Fld ''last_blocked_load_update_tick'' c_ulong,
      Fld ''has_blocked_load'' c_uint,
      Bits '''' c_long 64,
      Bits '''' c_long 64,
      Bits '''' c_long 64,
      Fld ''nohz_csd'' t_call_single_data_t,
      Fld ''nohz_tick_stopped'' c_uint,
      Fld ''nohz_flags'' t_atomic_t,
      Fld ''ttwu_pending'' c_uint,
      Fld ''nr_switches'' t_u64,
      Bits '''' c_long 64,
      Fld ''cfs'' s_cfs_rq,
      Fld ''rt'' s_rt_rq,
      Fld ''dl'' s_dl_rq,
      Fld ''fair_server'' s_sched_dl_entity,
      Fld ''leaf_cfs_rq_list'' s_list_head,
      Fld ''tmp_alone_branch'' (CPtr ''struct list_head''),
      Fld ''nr_uninterruptible'' c_ulong,
      Fld ''curr'' (CPtr ''struct task_struct''),
      Fld ''dl_server'' (CPtr ''struct sched_dl_entity''),
      Fld ''idle'' (CPtr ''struct task_struct''),
      Fld ''stop'' (CPtr ''struct task_struct''),
      Fld ''next_balance'' c_ulong,
      Fld ''prev_mm'' (CPtr ''struct mm_struct''),
      Fld ''clock_update_flags'' c_uint,
      Fld ''clock'' t_u64,
      Fld ''clock_task'' t_u64,
      Fld ''clock_pelt'' t_u64,
      Fld ''lost_idle_time'' c_ulong,
      Fld ''clock_pelt_idle'' t_u64,
      Fld ''clock_idle'' t_u64]"

lemma s_rq_f1_lay [layout]: "lay s_rq_f1 0 = 22336" "fields_align s_rq_f1 = 8" "wf_fields s_rq_f1"
  by (simp_all add: s_rq_f1_def c_layout del: One_nat_def)

definition s_rq_f2 :: "cfield list" where
  "s_rq_f2 =
    [Fld ''nr_iowait'' t_atomic_t,
      Fld ''last_seen_need_resched_ns'' t_u64,
      Fld ''ticks_without_resched'' c_int,
      Fld ''membarrier_state'' c_int,
      Fld ''rd'' (CPtr ''struct root_domain''),
      Fld ''sd'' (CPtr ''struct sched_domain''),
      Fld ''cpu_capacity'' c_ulong,
      Fld ''balance_callback'' (CPtr ''struct balance_callback''),
      Fld ''nohz_idle_balance'' c_uchar,
      Fld ''idle_balance'' c_uchar,
      Fld ''misfit_task_load'' c_ulong,
      Fld ''active_balance'' c_int,
      Fld ''push_cpu'' c_int,
      Fld ''active_balance_work'' s_cpu_stop_work,
      Fld ''cpu'' c_int,
      Fld ''online'' c_int,
      Fld ''cfs_tasks'' s_list_head,
      Fld ''avg_rt'' s_sched_avg,
      Fld ''avg_dl'' s_sched_avg,
      Fld ''idle_stamp'' t_u64,
      Fld ''avg_idle'' t_u64,
      Fld ''max_idle_balance_cost'' t_u64,
      Fld ''hotplug_wait'' s_rcuwait,
      Fld ''prev_steal_time'' t_u64,
      Fld ''calc_load_update'' c_ulong,
      Fld ''calc_load_active'' c_long,
      Bits '''' c_long 64,
      Fld ''hrtick_csd'' t_call_single_data_t,
      Fld ''hrtick_timer'' s_hrtimer,
      Fld ''hrtick_time'' t_ktime_t,
      Fld ''rq_sched_info'' s_sched_info,
      Fld ''rq_cpu_time'' c_ullong,
      Fld ''yld_count'' c_uint,
      Fld ''sched_count'' c_uint,
      Fld ''sched_goidle'' c_uint,
      Fld ''ttwu_count'' c_uint]"

lemma s_rq_f2_lay [layout]: "lay s_rq_f2 22336 = 26368" "fields_align s_rq_f2 = 8" "wf_fields s_rq_f2"
  by (simp_all add: s_rq_f2_def c_layout del: One_nat_def)

definition s_rq_f3 :: "cfield list" where
  "s_rq_f3 =
    [Fld ''ttwu_local'' c_uint,
      Fld ''idle_state'' (CPtr ''struct cpuidle_state''),
      Fld ''nr_pinned'' c_uint,
      Fld ''push_busy'' c_uint,
      Fld ''push_work'' s_cpu_stop_work,
      Fld ''scratch_mask'' t_cpumask_var_t,
      Bits '''' c_long 64,
      Bits '''' c_long 64,
      Fld ''cfsb_csd'' t_call_single_data_t,
      Fld ''cfsb_csd_list'' s_list_head,
      Bits '''' c_long 64,
      Bits '''' c_long 64]"

lemma s_rq_f3_lay [layout]: "lay s_rq_f3 26368 = 27648" "fields_align s_rq_f3 = 8" "wf_fields s_rq_f3"
  by (simp_all add: s_rq_f3_def c_layout del: One_nat_def)

definition s_rq :: ctype where
  "s_rq = CStruct ''rq'' (s_rq_f1 @ s_rq_f2 @ s_rq_f3)"

lemma s_rq_sa [simp]: "size_of s_rq = 3456" "align_of s_rq = 8" "wf_type s_rq"
  by (simp_all add: s_rq_def c_layout layout wf_fields_append lay_append fields_align_append del: One_nat_def)

definition s_balance_callback :: ctype where
  "s_balance_callback = CStruct ''balance_callback'' [Fld ''next'' (CPtr ''struct balance_callback''),
      Fld ''func'' (CPtr ''fn: void'')]"

lemma s_balance_callback_sa [simp]: "size_of s_balance_callback = 16" "align_of s_balance_callback = 8" "wf_type s_balance_callback"
  by (simp_all add: s_balance_callback_def c_layout del: One_nat_def)

definition s_cpuidle_state :: ctype where
  "s_cpuidle_state = CStruct ''cpuidle_state'' [Fld ''name'' (CArr c_char 16),
      Fld ''desc'' (CArr c_char 32),
      Fld ''exit_latency_ns'' t_s64,
      Fld ''target_residency_ns'' t_s64,
      Fld ''flags'' c_uint,
      Fld ''exit_latency'' c_uint,
      Fld ''power_usage'' c_int,
      Fld ''target_residency'' c_uint,
      Fld ''enter'' (CPtr ''fn: int''),
      Fld ''enter_dead'' (CPtr ''fn: int''),
      Fld ''enter_s2idle'' (CPtr ''fn: int'')]"

lemma s_cpuidle_state_sa [simp]: "size_of s_cpuidle_state = 104" "align_of s_cpuidle_state = 8" "wf_type s_cpuidle_state"
  by (simp_all add: s_cpuidle_state_def c_layout del: One_nat_def)

definition s_dl_bw :: ctype where
  "s_dl_bw = CStruct ''dl_bw'' [Fld ''lock'' t_raw_spinlock_t,
      Fld ''bw'' t_u64,
      Fld ''total_bw'' t_u64]"

lemma s_dl_bw_sa [simp]: "size_of s_dl_bw = 24" "align_of s_dl_bw = 8" "wf_type s_dl_bw"
  by (simp_all add: s_dl_bw_def c_layout del: One_nat_def)

definition s_cpudl :: ctype where
  "s_cpudl = CStruct ''cpudl'' [Fld ''lock'' t_raw_spinlock_t,
      Fld ''size'' c_int,
      Fld ''free_cpus'' t_cpumask_var_t,
      Fld ''elements'' (CPtr ''struct cpudl_item'')]"

lemma s_cpudl_sa [simp]: "size_of s_cpudl = 24" "align_of s_cpudl = 8" "wf_type s_cpudl"
  by (simp_all add: s_cpudl_def c_layout del: One_nat_def)

definition s_irq_work :: ctype where
  "s_irq_work = CStruct ''irq_work'' [Fld ''node'' s___call_single_node,
      Fld ''func'' (CPtr ''fn: void''),
      Fld ''irqwait'' s_rcuwait]"

lemma s_irq_work_sa [simp]: "size_of s_irq_work = 32" "align_of s_irq_work = 8" "wf_type s_irq_work"
  by (simp_all add: s_irq_work_def c_layout del: One_nat_def)

definition s_cpupri_vec :: ctype where
  "s_cpupri_vec = CStruct ''cpupri_vec'' [Fld ''count'' t_atomic_t,
      Fld ''mask'' t_cpumask_var_t]"

lemma s_cpupri_vec_sa [simp]: "size_of s_cpupri_vec = 16" "align_of s_cpupri_vec = 8" "wf_type s_cpupri_vec"
  by (simp_all add: s_cpupri_vec_def c_layout del: One_nat_def)

definition s_cpupri :: ctype where
  "s_cpupri = CStruct ''cpupri'' [Fld ''pri_to_cpu'' (CArr s_cpupri_vec 101),
      Fld ''cpu_to_pri'' (CPtr ''int'')]"

lemma s_cpupri_sa [simp]: "size_of s_cpupri = 1624" "align_of s_cpupri = 8" "wf_type s_cpupri"
  by (simp_all add: s_cpupri_def c_layout del: One_nat_def)

definition s_root_domain :: ctype where
  "s_root_domain = CStruct ''root_domain'' [Fld ''refcount'' t_atomic_t,
      Fld ''rto_count'' t_atomic_t,
      Fld ''rcu'' s_callback_head,
      Fld ''span'' t_cpumask_var_t,
      Fld ''online'' t_cpumask_var_t,
      Fld ''overloaded'' t_bool,
      Fld ''overutilized'' t_bool,
      Fld ''dlo_mask'' t_cpumask_var_t,
      Fld ''dlo_count'' t_atomic_t,
      Fld ''dl_bw'' s_dl_bw,
      Fld ''cpudl'' s_cpudl,
      Fld ''visit_gen'' t_u64,
      Fld ''rto_push_work'' s_irq_work,
      Fld ''rto_lock'' t_raw_spinlock_t,
      Fld ''rto_loop'' c_int,
      Fld ''rto_cpu'' c_int,
      Fld ''rto_loop_next'' t_atomic_t,
      Fld ''rto_loop_start'' t_atomic_t,
      Fld ''rto_mask'' t_cpumask_var_t,
      Fld ''cpupri'' s_cpupri,
      Fld ''pd'' (CPtr ''struct perf_domain'')]"

lemma s_root_domain_sa [simp]: "size_of s_root_domain = 1816" "align_of s_root_domain = 8" "wf_type s_root_domain"
  by (simp_all add: s_root_domain_def c_layout del: One_nat_def)

definition s_sched_domain_f1 :: "cfield list" where
  "s_sched_domain_f1 =
    [Fld ''parent'' (CPtr ''struct sched_domain''),
      Fld ''child'' (CPtr ''struct sched_domain''),
      Fld ''groups'' (CPtr ''struct sched_group''),
      Fld ''min_interval'' c_ulong,
      Fld ''max_interval'' c_ulong,
      Fld ''busy_factor'' c_uint,
      Fld ''imbalance_pct'' c_uint,
      Fld ''cache_nice_tries'' c_uint,
      Fld ''imb_numa_nr'' c_uint,
      Fld ''nohz_idle'' c_int,
      Fld ''flags'' c_int,
      Fld ''level'' c_int,
      Fld ''last_balance'' c_ulong,
      Fld ''balance_interval'' c_uint,
      Fld ''nr_balance_failed'' c_uint,
      Fld ''newidle_call'' c_uint,
      Fld ''newidle_success'' c_uint,
      Fld ''newidle_ratio'' c_uint,
      Fld ''max_newidle_lb_cost'' t_u64,
      Fld ''last_decay_max_lb_cost'' c_ulong,
      Fld ''lb_count'' (CArr c_uint 3),
      Fld ''lb_failed'' (CArr c_uint 3),
      Fld ''lb_balanced'' (CArr c_uint 3),
      Fld ''lb_imbalance'' (CArr c_uint 3),
      Fld ''lb_gained'' (CArr c_uint 3),
      Fld ''lb_hot_gained'' (CArr c_uint 3),
      Fld ''lb_nobusyg'' (CArr c_uint 3),
      Fld ''lb_nobusyq'' (CArr c_uint 3),
      Fld ''alb_count'' c_uint,
      Fld ''alb_failed'' c_uint,
      Fld ''alb_pushed'' c_uint,
      Fld ''sbe_count'' c_uint,
      Fld ''sbe_balanced'' c_uint,
      Fld ''sbe_pushed'' c_uint,
      Fld ''sbf_count'' c_uint,
      Fld ''sbf_balanced'' c_uint]"

lemma s_sched_domain_f1_lay [layout]: "lay s_sched_domain_f1 0 = 1984" "fields_align s_sched_domain_f1 = 8" "wf_fields s_sched_domain_f1"
  by (simp_all add: s_sched_domain_f1_def c_layout del: One_nat_def)

definition s_sched_domain_f2 :: "cfield list" where
  "s_sched_domain_f2 =
    [Fld ''sbf_pushed'' c_uint,
      Fld ''ttwu_wake_remote'' c_uint,
      Fld ''ttwu_move_affine'' c_uint,
      Fld ''ttwu_move_balance'' c_uint,
      Fld ''name'' (CPtr ''char''),
      Fld '''' (CUnion '''' [Fld ''private'' (CPtr ''void''),
        Fld ''rcu'' s_callback_head]),
      Fld ''shared'' (CPtr ''struct sched_domain_shared''),
      Fld ''span_weight'' c_uint,
      Fld ''span'' (CArr c_ulong 0)]"

lemma s_sched_domain_f2_lay [layout]: "lay s_sched_domain_f2 1984 = 2432" "fields_align s_sched_domain_f2 = 8" "wf_fields s_sched_domain_f2"
  by (simp_all add: s_sched_domain_f2_def c_layout del: One_nat_def)

definition s_sched_domain :: ctype where
  "s_sched_domain = CStruct ''sched_domain'' (s_sched_domain_f1 @ s_sched_domain_f2)"

lemma s_sched_domain_sa [simp]: "size_of s_sched_domain = 304" "align_of s_sched_domain = 8" "wf_type s_sched_domain"
  by (simp_all add: s_sched_domain_def c_layout layout wf_fields_append lay_append fields_align_append del: One_nat_def)

end
