(* ===== verification/KBlockFar.thy ===== *)
theory KBlockFar
  imports KSched
begin

text \<open>
  Kernel types of \<open>ebpf/vmlinux.h\<close>, in dependency order: the types the request queue, the bio, the disk and the hardware queues of a request point to, with the types these embed.
  A definition keeps every member of its C declaration, in order; each is followed by its size
  and alignment. \<open>s_\<close>, \<open>u_\<close>, \<open>e_\<close> and \<open>t_\<close> stand for struct, union, enum and typedef.
\<close>

definition s_blk_flush_queue :: ctype where
  "s_blk_flush_queue = CStruct ''blk_flush_queue'' [Fld ''mq_flush_lock'' t_spinlock_t,
      Bits ''flush_pending_idx'' c_uint 1,
      Bits ''flush_running_idx'' c_uint 1,
      Fld ''rq_status'' t_blk_status_t,
      Fld ''flush_pending_since'' c_ulong,
      Fld ''flush_queue'' (CArr s_list_head 2),
      Fld ''flush_data_in_flight'' c_ulong,
      Fld ''flush_rq'' (CPtr ''struct request'')]"

lemma s_blk_flush_queue_sa [simp]: "size_of s_blk_flush_queue = 64" "align_of s_blk_flush_queue = 8" "wf_type s_blk_flush_queue"
  by (simp_all add: s_blk_flush_queue_def c_layout del: One_nat_def)

definition s_blk_mq_ops :: ctype where
  "s_blk_mq_ops = CStruct ''blk_mq_ops'' [Fld ''queue_rq'' (CPtr ''fn: blk_status_t''),
      Fld ''commit_rqs'' (CPtr ''fn: void''),
      Fld ''queue_rqs'' (CPtr ''fn: void''),
      Fld ''get_budget'' (CPtr ''fn: int''),
      Fld ''put_budget'' (CPtr ''fn: void''),
      Fld ''set_rq_budget_token'' (CPtr ''fn: void''),
      Fld ''get_rq_budget_token'' (CPtr ''fn: int''),
      Fld ''timeout'' (CPtr ''fn: enum blk_eh_timer_return''),
      Fld ''poll'' (CPtr ''fn: int''),
      Fld ''complete'' (CPtr ''fn: void''),
      Fld ''init_hctx'' (CPtr ''fn: int''),
      Fld ''exit_hctx'' (CPtr ''fn: void''),
      Fld ''init_request'' (CPtr ''fn: int''),
      Fld ''exit_request'' (CPtr ''fn: void''),
      Fld ''cleanup_rq'' (CPtr ''fn: void''),
      Fld ''busy'' (CPtr ''fn: bool''),
      Fld ''map_queues'' (CPtr ''fn: void''),
      Fld ''show_rq'' (CPtr ''fn: void'')]"

lemma s_blk_mq_ops_sa [simp]: "size_of s_blk_mq_ops = 144" "align_of s_blk_mq_ops = 8" "wf_type s_blk_mq_ops"
  by (simp_all add: s_blk_mq_ops_def c_layout del: One_nat_def)

definition s_blk_mq_queue_map :: ctype where
  "s_blk_mq_queue_map = CStruct ''blk_mq_queue_map'' [Fld ''mq_map'' (CPtr ''unsigned int''),
      Fld ''nr_queues'' c_uint,
      Fld ''queue_offset'' c_uint]"

lemma s_blk_mq_queue_map_sa [simp]: "size_of s_blk_mq_queue_map = 16" "align_of s_blk_mq_queue_map = 8" "wf_type s_blk_mq_queue_map"
  by (simp_all add: s_blk_mq_queue_map_def c_layout del: One_nat_def)

definition s_blk_mq_tag_set :: ctype where
  "s_blk_mq_tag_set = CStruct ''blk_mq_tag_set'' [Fld ''ops'' (CPtr ''const struct blk_mq_ops''),
      Fld ''map'' (CArr s_blk_mq_queue_map 3),
      Fld ''nr_maps'' c_uint,
      Fld ''nr_hw_queues'' c_uint,
      Fld ''queue_depth'' c_uint,
      Fld ''reserved_tags'' c_uint,
      Fld ''cmd_size'' c_uint,
      Fld ''numa_node'' c_int,
      Fld ''timeout'' c_uint,
      Fld ''flags'' c_uint,
      Fld ''driver_data'' (CPtr ''void''),
      Fld ''tags'' (CPtr ''struct blk_mq_tags ptr''),
      Fld ''shared_tags'' (CPtr ''struct blk_mq_tags''),
      Fld ''tag_list_lock'' s_mutex,
      Fld ''tag_list'' s_list_head,
      Fld ''srcu'' (CPtr ''struct srcu_struct'')]"

lemma s_blk_mq_tag_set_sa [simp]: "size_of s_blk_mq_tag_set = 168" "align_of s_blk_mq_tag_set = 8" "wf_type s_blk_mq_tag_set"
  by (simp_all add: s_blk_mq_tag_set_def c_layout del: One_nat_def)

definition s_sbitmap_queue :: ctype where
  "s_sbitmap_queue = CStruct ''sbitmap_queue'' [Fld ''sb'' s_sbitmap,
      Fld ''wake_batch'' c_uint,
      Fld ''wake_index'' t_atomic_t,
      Fld ''ws'' (CPtr ''struct sbq_wait_state''),
      Fld ''ws_active'' t_atomic_t,
      Fld ''min_shallow_depth'' c_uint,
      Fld ''completion_cnt'' t_atomic_t,
      Fld ''wakeup_cnt'' t_atomic_t]"

lemma s_sbitmap_queue_sa [simp]: "size_of s_sbitmap_queue = 64" "align_of s_sbitmap_queue = 8" "wf_type s_sbitmap_queue"
  by (simp_all add: s_sbitmap_queue_def c_layout del: One_nat_def)

definition s_blk_mq_tags :: ctype where
  "s_blk_mq_tags = CStruct ''blk_mq_tags'' [Fld ''nr_tags'' c_uint,
      Fld ''nr_reserved_tags'' c_uint,
      Fld ''active_queues'' c_uint,
      Fld ''bitmap_tags'' s_sbitmap_queue,
      Fld ''breserved_tags'' s_sbitmap_queue,
      Fld ''rqs'' (CPtr ''struct request ptr''),
      Fld ''static_rqs'' (CPtr ''struct request ptr''),
      Fld ''page_list'' s_list_head,
      Fld ''lock'' t_spinlock_t]"

lemma s_blk_mq_tags_sa [simp]: "size_of s_blk_mq_tags = 184" "align_of s_blk_mq_tags = 8" "wf_type s_blk_mq_tags"
  by (simp_all add: s_blk_mq_tags_def c_layout del: One_nat_def)

definition s_blk_queue_stats :: ctype where
  "s_blk_queue_stats = CStruct ''blk_queue_stats'' [Fld ''callbacks'' s_list_head,
      Fld ''lock'' t_spinlock_t,
      Fld ''accounting'' c_int]"

lemma s_blk_queue_stats_sa [simp]: "size_of s_blk_queue_stats = 24" "align_of s_blk_queue_stats = 8" "wf_type s_blk_queue_stats"
  by (simp_all add: s_blk_queue_stats_def c_layout del: One_nat_def)

definition s_blk_trace :: ctype where
  "s_blk_trace = CStruct ''blk_trace'' [Fld ''trace_state'' c_int,
      Fld ''rchan'' (CPtr ''struct rchan''),
      Fld ''sequence'' (CPtr ''long unsigned int''),
      Fld ''msg_data'' (CPtr ''unsigned char''),
      Fld ''act_mask'' t_u16,
      Fld ''start_lba'' t_u64,
      Fld ''end_lba'' t_u64,
      Fld ''pid'' t_u32,
      Fld ''dev'' t_u32,
      Fld ''dir'' (CPtr ''struct dentry''),
      Fld ''running_list'' s_list_head,
      Fld ''dropped'' t_atomic_t]"

lemma s_blk_trace_sa [simp]: "size_of s_blk_trace = 96" "align_of s_blk_trace = 8" "wf_type s_blk_trace"
  by (simp_all add: s_blk_trace_def c_layout del: One_nat_def)

definition s_blkg_iostat :: ctype where
  "s_blkg_iostat = CStruct ''blkg_iostat'' [Fld ''bytes'' (CArr t_u64 3),
      Fld ''ios'' (CArr t_u64 3)]"

lemma s_blkg_iostat_sa [simp]: "size_of s_blkg_iostat = 48" "align_of s_blkg_iostat = 8" "wf_type s_blkg_iostat"
  by (simp_all add: s_blkg_iostat_def c_layout del: One_nat_def)

definition s_blkg_iostat_set :: ctype where
  "s_blkg_iostat_set = CStruct ''blkg_iostat_set'' [Fld ''sync'' s_u64_stats_sync,
      Fld ''blkg'' (CPtr ''struct blkcg_gq''),
      Fld ''lnode'' s_llist_node,
      Fld ''lqueued'' c_int,
      Fld ''cur'' s_blkg_iostat,
      Fld ''last'' s_blkg_iostat]"

lemma s_blkg_iostat_set_sa [simp]: "size_of s_blkg_iostat_set = 120" "align_of s_blkg_iostat_set = 8" "wf_type s_blkg_iostat_set"
  by (simp_all add: s_blkg_iostat_set_def c_layout del: One_nat_def)

definition s_blkcg_gq :: ctype where
  "s_blkcg_gq = CStruct ''blkcg_gq'' [Fld ''q'' (CPtr ''struct request_queue''),
      Fld ''q_node'' s_list_head,
      Fld ''blkcg_node'' s_hlist_node,
      Fld ''blkcg'' (CPtr ''struct blkcg''),
      Fld ''parent'' (CPtr ''struct blkcg_gq''),
      Fld ''refcnt'' s_percpu_ref,
      Fld ''online'' t_bool,
      Fld ''iostat_cpu'' (CPtr ''struct blkg_iostat_set''),
      Fld ''iostat'' s_blkg_iostat_set,
      Fld ''pd'' (CArr (CPtr ''struct blkg_policy_data'') 6),
      Fld ''async_bio_lock'' t_spinlock_t,
      Fld ''async_bios'' s_bio_list,
      Fld '''' (CUnion '''' [Fld ''async_bio_work'' s_work_struct,
        Fld ''free_work'' s_work_struct]),
      Fld ''use_delay'' t_atomic_t,
      Fld ''delay_nsec'' t_atomic64_t,
      Fld ''delay_start'' t_atomic64_t,
      Fld ''last_delay'' t_u64,
      Fld ''last_use'' c_int,
      Fld ''callback_head'' s_callback_head]"

lemma s_blkcg_gq_sa [simp]: "size_of s_blkcg_gq = 368" "align_of s_blkcg_gq = 8" "wf_type s_blkcg_gq"
  by (simp_all add: s_blkcg_gq_def c_layout del: One_nat_def)

definition s_hlist_bl_node :: ctype where
  "s_hlist_bl_node = CStruct ''hlist_bl_node'' [Fld ''next'' (CPtr ''struct hlist_bl_node''),
      Fld ''pprev'' (CPtr ''struct hlist_bl_node ptr'')]"

lemma s_hlist_bl_node_sa [simp]: "size_of s_hlist_bl_node = 16" "align_of s_hlist_bl_node = 8" "wf_type s_hlist_bl_node"
  by (simp_all add: s_hlist_bl_node_def c_layout del: One_nat_def)

definition s_lockref :: ctype where
  "s_lockref = CStruct ''lockref'' [Fld '''' (CUnion '''' [Fld ''lock_count'' t___u64,
        Fld '''' (CStruct '''' [Fld ''lock'' t_spinlock_t,
          Fld ''count'' c_int])])]"

lemma s_lockref_sa [simp]: "size_of s_lockref = 8" "align_of s_lockref = 8" "wf_type s_lockref"
  by (simp_all add: s_lockref_def c_layout del: One_nat_def)

definition s_dentry :: ctype where
  "s_dentry = CStruct ''dentry'' [Fld ''d_flags'' c_uint,
      Fld ''d_seq'' t_seqcount_spinlock_t,
      Fld ''d_hash'' s_hlist_bl_node,
      Fld ''d_parent'' (CPtr ''struct dentry''),
      Fld ''d_name'' s_qstr,
      Fld ''d_inode'' (CPtr ''struct inode''),
      Fld ''d_iname'' (CArr c_uchar 40),
      Fld ''d_op'' (CPtr ''const struct dentry_operations''),
      Fld ''d_sb'' (CPtr ''struct super_block''),
      Fld ''d_time'' c_ulong,
      Fld ''d_fsdata'' (CPtr ''void''),
      Fld ''d_lockref'' s_lockref,
      Fld '''' (CUnion '''' [Fld ''d_lru'' s_list_head,
        Fld ''d_wait'' (CPtr ''wait_queue_head_t'')]),
      Fld ''d_sib'' s_hlist_node,
      Fld ''d_children'' s_hlist_head,
      Fld ''d_u'' (CUnion '''' [Fld ''d_alias'' s_hlist_node,
        Fld ''d_in_lookup_hash'' s_hlist_bl_node,
        Fld ''d_rcu'' s_callback_head])]"

lemma s_dentry_sa [simp]: "size_of s_dentry = 192" "align_of s_dentry = 8" "wf_type s_dentry"
  by (simp_all add: s_dentry_def c_layout del: One_nat_def)

definition s_elevator_queue :: ctype where
  "s_elevator_queue = CStruct ''elevator_queue'' [Fld ''type'' (CPtr ''struct elevator_type''),
      Fld ''elevator_data'' (CPtr ''void''),
      Fld ''kobj'' s_kobject,
      Fld ''sysfs_lock'' s_mutex,
      Fld ''flags'' c_ulong,
      Fld ''hash'' (CArr s_hlist_head 64)]"

lemma s_elevator_queue_sa [simp]: "size_of s_elevator_queue = 632" "align_of s_elevator_queue = 8" "wf_type s_elevator_queue"
  by (simp_all add: s_elevator_queue_def c_layout del: One_nat_def)

definition e_rq_qos_id :: ctype where
  "e_rq_qos_id = CEnum ''rq_qos_id'' 4 [(''RQ_QOS_WBT'', 0),
      (''RQ_QOS_LATENCY'', 1),
      (''RQ_QOS_COST'', 2)]"

lemma e_rq_qos_id_sa [simp]: "size_of e_rq_qos_id = 4" "align_of e_rq_qos_id = 4" "wf_type e_rq_qos_id"
  by (simp_all add: e_rq_qos_id_def c_layout del: One_nat_def)

definition s_rq_qos :: ctype where
  "s_rq_qos = CStruct ''rq_qos'' [Fld ''ops'' (CPtr ''const struct rq_qos_ops''),
      Fld ''disk'' (CPtr ''struct gendisk''),
      Fld ''id'' e_rq_qos_id,
      Fld ''next'' (CPtr ''struct rq_qos''),
      Fld ''debugfs_dir'' (CPtr ''struct dentry'')]"

lemma s_rq_qos_sa [simp]: "size_of s_rq_qos = 40" "align_of s_rq_qos = 8" "wf_type s_rq_qos"
  by (simp_all add: s_rq_qos_def c_layout del: One_nat_def)

definition s_throtl_service_queue :: ctype where
  "s_throtl_service_queue = CStruct ''throtl_service_queue'' [Fld ''parent_sq'' (CPtr ''struct throtl_service_queue''),
      Fld ''queued'' (CArr s_list_head 2),
      Fld ''nr_queued'' (CArr c_uint 2),
      Fld ''pending_tree'' s_rb_root_cached,
      Fld ''nr_pending'' c_uint,
      Fld ''first_pending_disptime'' c_ulong,
      Fld ''pending_timer'' s_timer_list]"

lemma s_throtl_service_queue_sa [simp]: "size_of s_throtl_service_queue = 120" "align_of s_throtl_service_queue = 8" "wf_type s_throtl_service_queue"
  by (simp_all add: s_throtl_service_queue_def c_layout del: One_nat_def)

definition s_throtl_data :: ctype where
  "s_throtl_data = CStruct ''throtl_data'' [Fld ''service_queue'' s_throtl_service_queue,
      Fld ''queue'' (CPtr ''struct request_queue''),
      Fld ''nr_queued'' (CArr c_uint 2),
      Fld ''throtl_slice'' c_uint,
      Fld ''dispatch_work'' s_work_struct,
      Fld ''track_bio_latency'' t_bool]"

lemma s_throtl_data_sa [simp]: "size_of s_throtl_data = 184" "align_of s_throtl_data = 8" "wf_type s_throtl_data"
  by (simp_all add: s_throtl_data_def c_layout del: One_nat_def)

definition s_bio_integrity_payload :: ctype where
  "s_bio_integrity_payload = CStruct ''bio_integrity_payload'' [Fld ''bip_bio'' (CPtr ''struct bio''),
      Fld ''bip_iter'' s_bvec_iter,
      Fld ''bip_vcnt'' c_ushort,
      Fld ''bip_max_vcnt'' c_ushort,
      Fld ''bip_flags'' c_ushort,
      Bits '''' c_int 0,
      Fld ''bio_iter'' s_bvec_iter,
      Fld ''bip_work'' s_work_struct,
      Fld ''bip_vec'' (CPtr ''struct bio_vec''),
      Fld ''bip_inline_vecs'' (CArr s_bio_vec 0)]"

lemma s_bio_integrity_payload_sa [simp]: "size_of s_bio_integrity_payload = 96" "align_of s_bio_integrity_payload = 8" "wf_type s_bio_integrity_payload"
  by (simp_all add: s_bio_integrity_payload_def c_layout del: One_nat_def)

definition s_fprop_local_percpu :: ctype where
  "s_fprop_local_percpu = CStruct ''fprop_local_percpu'' [Fld ''events'' s_percpu_counter,
      Fld ''period'' c_uint,
      Fld ''lock'' t_raw_spinlock_t]"

lemma s_fprop_local_percpu_sa [simp]: "size_of s_fprop_local_percpu = 48" "align_of s_fprop_local_percpu = 8" "wf_type s_fprop_local_percpu"
  by (simp_all add: s_fprop_local_percpu_def c_layout del: One_nat_def)

definition e_wb_reason :: ctype where
  "e_wb_reason = CEnum ''wb_reason'' 4 [(''WB_REASON_BACKGROUND'', 0),
      (''WB_REASON_VMSCAN'', 1),
      (''WB_REASON_SYNC'', 2),
      (''WB_REASON_PERIODIC'', 3),
      (''WB_REASON_LAPTOP_TIMER'', 4),
      (''WB_REASON_FS_FREE_SPACE'', 5),
      (''WB_REASON_FORKER_THREAD'', 6),
      (''WB_REASON_FOREIGN_FLUSH'', 7),
      (''WB_REASON_MAX'', 8)]"

lemma e_wb_reason_sa [simp]: "size_of e_wb_reason = 4" "align_of e_wb_reason = 4" "wf_type e_wb_reason"
  by (simp_all add: e_wb_reason_def c_layout del: One_nat_def)

definition s_bdi_writeback :: ctype where
  "s_bdi_writeback = CStruct ''bdi_writeback'' [Fld ''bdi'' (CPtr ''struct backing_dev_info''),
      Fld ''state'' c_ulong,
      Fld ''last_old_flush'' c_ulong,
      Fld ''b_dirty'' s_list_head,
      Fld ''b_io'' s_list_head,
      Fld ''b_more_io'' s_list_head,
      Fld ''b_dirty_time'' s_list_head,
      Fld ''list_lock'' t_spinlock_t,
      Fld ''writeback_inodes'' t_atomic_t,
      Fld ''stat'' (CArr s_percpu_counter 4),
      Fld ''bw_time_stamp'' c_ulong,
      Fld ''dirtied_stamp'' c_ulong,
      Fld ''written_stamp'' c_ulong,
      Fld ''write_bandwidth'' c_ulong,
      Fld ''avg_write_bandwidth'' c_ulong,
      Fld ''dirty_ratelimit'' c_ulong,
      Fld ''balanced_dirty_ratelimit'' c_ulong,
      Fld ''completions'' s_fprop_local_percpu,
      Fld ''dirty_exceeded'' c_int,
      Fld ''start_all_reason'' e_wb_reason,
      Fld ''work_lock'' t_spinlock_t,
      Fld ''work_list'' s_list_head,
      Fld ''dwork'' s_delayed_work,
      Fld ''bw_dwork'' s_delayed_work,
      Fld ''bdi_node'' s_list_head,
      Fld ''refcnt'' s_percpu_ref,
      Fld ''memcg_completions'' s_fprop_local_percpu,
      Fld ''memcg_css'' (CPtr ''struct cgroup_subsys_state''),
      Fld ''blkcg_css'' (CPtr ''struct cgroup_subsys_state''),
      Fld ''memcg_node'' s_list_head,
      Fld ''blkcg_node'' s_list_head,
      Fld ''b_attached'' s_list_head,
      Fld ''offline_node'' s_list_head,
      Fld '''' (CUnion '''' [Fld ''release_work'' s_work_struct,
        Fld ''rcu'' s_callback_head])]"

lemma s_bdi_writeback_sa [simp]: "size_of s_bdi_writeback = 760" "align_of s_bdi_writeback = 8" "wf_type s_bdi_writeback"
  by (simp_all add: s_bdi_writeback_def c_layout del: One_nat_def)

definition s_backing_dev_info :: ctype where
  "s_backing_dev_info = CStruct ''backing_dev_info'' [Fld ''id'' t_u64,
      Fld ''rb_node'' s_rb_node,
      Fld ''bdi_list'' s_list_head,
      Fld ''ra_pages'' c_ulong,
      Fld ''io_pages'' c_ulong,
      Fld ''refcnt'' s_kref,
      Fld ''capabilities'' c_uint,
      Fld ''min_ratio'' c_uint,
      Fld ''max_ratio'' c_uint,
      Fld ''max_prop_frac'' c_uint,
      Fld ''tot_write_bandwidth'' t_atomic_long_t,
      Fld ''last_bdp_sleep'' c_ulong,
      Fld ''wb'' s_bdi_writeback,
      Fld ''wb_list'' s_list_head,
      Fld ''cgwb_tree'' s_xarray,
      Fld ''cgwb_release_mutex'' s_mutex,
      Fld ''wb_switch_rwsem'' s_rw_semaphore,
      Fld ''wb_waitq'' t_wait_queue_head_t,
      Fld ''dev'' (CPtr ''struct device''),
      Fld ''dev_name'' (CArr c_char 64),
      Fld ''owner'' (CPtr ''struct device''),
      Fld ''laptop_mode_wb_timer'' s_timer_list,
      Fld ''debug_dir'' (CPtr ''struct dentry'')]"

lemma s_backing_dev_info_sa [simp]: "size_of s_backing_dev_info = 1120" "align_of s_backing_dev_info = 8" "wf_type s_backing_dev_info"
  by (simp_all add: s_backing_dev_info_def c_layout del: One_nat_def)

definition s_badblocks :: ctype where
  "s_badblocks = CStruct ''badblocks'' [Fld ''dev'' (CPtr ''struct device''),
      Fld ''count'' c_int,
      Fld ''unacked_exist'' c_int,
      Fld ''shift'' c_int,
      Fld ''page'' (CPtr ''u64''),
      Fld ''changed'' c_int,
      Fld ''lock'' t_seqlock_t,
      Fld ''sector'' t_sector_t,
      Fld ''size'' t_sector_t]"

lemma s_badblocks_sa [simp]: "size_of s_badblocks = 64" "align_of s_badblocks = 8" "wf_type s_badblocks"
  by (simp_all add: s_badblocks_def c_layout del: One_nat_def)

definition s_blk_independent_access_range :: ctype where
  "s_blk_independent_access_range = CStruct ''blk_independent_access_range'' [Fld ''kobj'' s_kobject,
      Fld ''sector'' t_sector_t,
      Fld ''nr_sectors'' t_sector_t]"

lemma s_blk_independent_access_range_sa [simp]: "size_of s_blk_independent_access_range = 80" "align_of s_blk_independent_access_range = 8" "wf_type s_blk_independent_access_range"
  by (simp_all add: s_blk_independent_access_range_def c_layout del: One_nat_def)

definition s_blk_independent_access_ranges :: ctype where
  "s_blk_independent_access_ranges = CStruct ''blk_independent_access_ranges'' [Fld ''kobj'' s_kobject,
      Fld ''sysfs_registered'' t_bool,
      Fld ''nr_ia_ranges'' c_uint,
      Fld ''ia_range'' (CArr s_blk_independent_access_range 0)]"

lemma s_blk_independent_access_ranges_sa [simp]: "size_of s_blk_independent_access_ranges = 72" "align_of s_blk_independent_access_ranges = 8" "wf_type s_blk_independent_access_ranges"
  by (simp_all add: s_blk_independent_access_ranges_def c_layout del: One_nat_def)

definition s_block_device_operations :: ctype where
  "s_block_device_operations = CStruct ''block_device_operations'' [Fld ''submit_bio'' (CPtr ''fn: void''),
      Fld ''poll_bio'' (CPtr ''fn: int''),
      Fld ''open'' (CPtr ''fn: int''),
      Fld ''release'' (CPtr ''fn: void''),
      Fld ''ioctl'' (CPtr ''fn: int''),
      Fld ''compat_ioctl'' (CPtr ''fn: int''),
      Fld ''check_events'' (CPtr ''fn: unsigned int''),
      Fld ''unlock_native_capacity'' (CPtr ''fn: void''),
      Fld ''getgeo'' (CPtr ''fn: int''),
      Fld ''set_read_only'' (CPtr ''fn: int''),
      Fld ''free_disk'' (CPtr ''fn: void''),
      Fld ''swap_slot_free_notify'' (CPtr ''fn: void''),
      Fld ''report_zones'' (CPtr ''fn: int''),
      Fld ''devnode'' (CPtr ''fn: char ptr''),
      Fld ''get_unique_id'' (CPtr ''fn: int''),
      Fld ''owner'' (CPtr ''struct module''),
      Fld ''pr_ops'' (CPtr ''const struct pr_ops''),
      Fld ''alternative_gpt_sector'' (CPtr ''fn: int'')]"

lemma s_block_device_operations_sa [simp]: "size_of s_block_device_operations = 144" "align_of s_block_device_operations = 8" "wf_type s_block_device_operations"
  by (simp_all add: s_block_device_operations_def c_layout del: One_nat_def)

definition s_cdrom_device_info :: ctype where
  "s_cdrom_device_info = CStruct ''cdrom_device_info'' [Fld ''ops'' (CPtr ''const struct cdrom_device_ops''),
      Fld ''list'' s_list_head,
      Fld ''disk'' (CPtr ''struct gendisk''),
      Fld ''handle'' (CPtr ''void''),
      Fld ''mask'' c_int,
      Fld ''speed'' c_int,
      Fld ''capacity'' c_int,
      Bits ''options'' c_uint 30,
      Bits ''mc_flags'' c_uint 2,
      Fld ''vfs_events'' c_uint,
      Fld ''ioctl_events'' c_uint,
      Fld ''use_count'' c_int,
      Fld ''name'' (CArr c_char 20),
      Bits ''sanyo_slot'' t___u8 2,
      Bits ''keeplocked'' t___u8 1,
      Bits ''reserved'' t___u8 5,
      Fld ''cdda_method'' c_int,
      Fld ''last_sense'' t___u8,
      Fld ''media_written'' t___u8,
      Fld ''mmc3_profile'' c_ushort,
      Fld ''exit'' (CPtr ''fn: int''),
      Fld ''mrw_mode_page'' c_int,
      Fld ''opened_for_data'' t_bool,
      Fld ''last_media_change_ms'' t___s64]"

lemma s_cdrom_device_info_sa [simp]: "size_of s_cdrom_device_info = 128" "align_of s_cdrom_device_info = 8" "wf_type s_cdrom_device_info"
  by (simp_all add: s_cdrom_device_info_def c_layout del: One_nat_def)

definition s_disk_events :: ctype where
  "s_disk_events = CStruct ''disk_events'' [Fld ''node'' s_list_head,
      Fld ''disk'' (CPtr ''struct gendisk''),
      Fld ''lock'' t_spinlock_t,
      Fld ''block_mutex'' s_mutex,
      Fld ''block'' c_int,
      Fld ''pending'' c_uint,
      Fld ''clearing'' c_uint,
      Fld ''poll_msecs'' c_long,
      Fld ''dwork'' s_delayed_work]"

lemma s_disk_events_sa [simp]: "size_of s_disk_events = 176" "align_of s_disk_events = 8" "wf_type s_disk_events"
  by (simp_all add: s_disk_events_def c_layout del: One_nat_def)

definition s_timer_rand_state :: ctype where
  "s_timer_rand_state = CStruct ''timer_rand_state'' [Fld ''last_time'' c_ulong,
      Fld ''last_delta'' c_long,
      Fld ''last_delta2'' c_long]"

lemma s_timer_rand_state_sa [simp]: "size_of s_timer_rand_state = 24" "align_of s_timer_rand_state = 8" "wf_type s_timer_rand_state"
  by (simp_all add: s_timer_rand_state_def c_layout del: One_nat_def)

definition s_workqueue_struct :: ctype where
  "s_workqueue_struct = CStruct ''workqueue_struct'' [Fld ''pwqs'' s_list_head,
      Fld ''list'' s_list_head,
      Fld ''mutex'' s_mutex,
      Fld ''work_color'' c_int,
      Fld ''flush_color'' c_int,
      Fld ''nr_pwqs_to_flush'' t_atomic_t,
      Fld ''first_flusher'' (CPtr ''struct wq_flusher''),
      Fld ''flusher_queue'' s_list_head,
      Fld ''flusher_overflow'' s_list_head,
      Fld ''maydays'' s_list_head,
      Fld ''rescuer'' (CPtr ''struct worker''),
      Fld ''nr_drainers'' c_int,
      Fld ''max_active'' c_int,
      Fld ''min_active'' c_int,
      Fld ''saved_max_active'' c_int,
      Fld ''saved_min_active'' c_int,
      Fld ''unbound_attrs'' (CPtr ''struct workqueue_attrs''),
      Fld ''dfl_pwq'' (CPtr ''struct pool_workqueue''),
      Fld ''wq_dev'' (CPtr ''struct wq_device''),
      Fld ''name'' (CArr c_char 32),
      Fld ''rcu'' s_callback_head,
      Bits '''' c_long 64,
      Bits '''' c_long 64,
      Fld ''flags'' c_uint,
      Fld ''cpu_pwq'' (CPtr ''struct pool_workqueue ptr''),
      Fld ''node_nr_active'' (CArr (CPtr ''struct wq_node_nr_active'') 0),
      Bits '''' c_long 64,
      Bits '''' c_long 64,
      Bits '''' c_long 64,
      Bits '''' c_long 64,
      Bits '''' c_long 64,
      Bits '''' c_long 64]"

lemma s_workqueue_struct_sa [simp]: "size_of s_workqueue_struct = 320" "align_of s_workqueue_struct = 8" "wf_type s_workqueue_struct"
  by (simp_all add: s_workqueue_struct_def c_layout del: One_nat_def)

definition s_blk_holder_ops :: ctype where
  "s_blk_holder_ops = CStruct ''blk_holder_ops'' [Fld ''mark_dead'' (CPtr ''fn: void''),
      Fld ''sync'' (CPtr ''fn: void''),
      Fld ''freeze'' (CPtr ''fn: int''),
      Fld ''thaw'' (CPtr ''fn: int'')]"

lemma s_blk_holder_ops_sa [simp]: "size_of s_blk_holder_ops = 32" "align_of s_blk_holder_ops = 8" "wf_type s_blk_holder_ops"
  by (simp_all add: s_blk_holder_ops_def c_layout del: One_nat_def)

definition s_disk_stats :: ctype where
  "s_disk_stats = CStruct ''disk_stats'' [Fld ''nsecs'' (CArr t_u64 4),
      Fld ''sectors'' (CArr c_ulong 4),
      Fld ''ios'' (CArr c_ulong 4),
      Fld ''merges'' (CArr c_ulong 4),
      Fld ''io_ticks'' c_ulong,
      Fld ''in_flight'' (CArr t_local_t 2)]"

lemma s_disk_stats_sa [simp]: "size_of s_disk_stats = 152" "align_of s_disk_stats = 8" "wf_type s_disk_stats"
  by (simp_all add: s_disk_stats_def c_layout del: One_nat_def)

definition s_partition_meta_info :: ctype where
  "s_partition_meta_info = CStruct ''partition_meta_info'' [Fld ''uuid'' (CArr c_char 37),
      Fld ''volname'' (CArr t_u8 64)]"

lemma s_partition_meta_info_sa [simp]: "size_of s_partition_meta_info = 101" "align_of s_partition_meta_info = 1" "wf_type s_partition_meta_info"
  by (simp_all add: s_partition_meta_info_def c_layout del: One_nat_def)

definition s_blk_mq_ctxs :: ctype where
  "s_blk_mq_ctxs = CStruct ''blk_mq_ctxs'' [Fld ''kobj'' s_kobject,
      Fld ''queue_ctx'' (CPtr ''struct blk_mq_ctx'')]"

lemma s_blk_mq_ctxs_sa [simp]: "size_of s_blk_mq_ctxs = 72" "align_of s_blk_mq_ctxs = 8" "wf_type s_blk_mq_ctxs"
  by (simp_all add: s_blk_mq_ctxs_def c_layout del: One_nat_def)

end
