(* ===== verification/KTaskFar.thy ===== *)
theory KTaskFar
  imports KBlockFar
begin

text \<open>
  Kernel types of \<open>ebpf/vmlinux.h\<close>, in dependency order: the types the memory map and the signal data of a task point to, with the types these embed.
  A definition keeps every member of its C declaration, in order; each is followed by its size
  and alignment. \<open>s_\<close>, \<open>u_\<close>, \<open>e_\<close> and \<open>t_\<close> stand for struct, union, enum and typedef.
\<close>

definition t_fmode_t :: ctype where
  "t_fmode_t = c_uint"

lemma t_fmode_t_sa [simp]: "size_of t_fmode_t = 4" "align_of t_fmode_t = 4" "wf_type t_fmode_t"
  by (simp_all add: t_fmode_t_def c_layout del: One_nat_def)

definition s_file_ra_state :: ctype where
  "s_file_ra_state = CStruct ''file_ra_state'' [Fld ''start'' c_ulong,
      Fld ''size'' c_uint,
      Fld ''async_size'' c_uint,
      Fld ''ra_pages'' c_uint,
      Fld ''mmap_miss'' c_uint,
      Fld ''prev_pos'' t_loff_t]"

lemma s_file_ra_state_sa [simp]: "size_of s_file_ra_state = 32" "align_of s_file_ra_state = 8" "wf_type s_file_ra_state"
  by (simp_all add: s_file_ra_state_def c_layout del: One_nat_def)

definition t_freeptr_t :: ctype where
  "t_freeptr_t = CStruct '''' [Fld ''v'' c_ulong]"

lemma t_freeptr_t_sa [simp]: "size_of t_freeptr_t = 8" "align_of t_freeptr_t = 8" "wf_type t_freeptr_t"
  by (simp_all add: t_freeptr_t_def c_layout del: One_nat_def)

definition s_file :: ctype where
  "s_file = CStruct ''file'' [Fld ''f_count'' t_atomic_long_t,
      Fld ''f_lock'' t_spinlock_t,
      Fld ''f_mode'' t_fmode_t,
      Fld ''f_op'' (CPtr ''const struct file_operations''),
      Fld ''f_mapping'' (CPtr ''struct address_space''),
      Fld ''private_data'' (CPtr ''void''),
      Fld ''f_inode'' (CPtr ''struct inode''),
      Fld ''f_flags'' c_uint,
      Fld ''f_iocb_flags'' c_uint,
      Fld ''f_cred'' (CPtr ''const struct cred''),
      Fld ''f_path'' s_path,
      Fld '''' (CUnion '''' [Fld ''f_pos_lock'' s_mutex,
        Fld ''f_pipe'' t_u64]),
      Fld ''f_pos'' t_loff_t,
      Fld ''f_security'' (CPtr ''void''),
      Fld ''f_owner'' (CPtr ''struct fown_struct''),
      Fld ''f_wb_err'' t_errseq_t,
      Fld ''f_sb_err'' t_errseq_t,
      Fld ''f_ep'' (CPtr ''struct hlist_head''),
      Fld '''' (CUnion '''' [Fld ''f_task_work'' s_callback_head,
        Fld ''f_llist'' s_llist_node,
        Fld ''f_ra'' s_file_ra_state,
        Fld ''f_freeptr'' t_freeptr_t])]"

lemma s_file_sa [simp]: "size_of s_file = 184" "align_of s_file = 8" "wf_type s_file"
  by (simp_all add: s_file_def c_layout del: One_nat_def)

definition s_iommu_mm_data :: ctype where
  "s_iommu_mm_data = CStruct ''iommu_mm_data'' [Fld ''pasid'' t_u32,
      Fld ''sva_domains'' s_list_head]"

lemma s_iommu_mm_data_sa [simp]: "size_of s_iommu_mm_data = 24" "align_of s_iommu_mm_data = 8" "wf_type s_iommu_mm_data"
  by (simp_all add: s_iommu_mm_data_def c_layout del: One_nat_def)

definition s_kioctx_table :: ctype where
  "s_kioctx_table = CStruct ''kioctx_table'' [Fld ''rcu'' s_callback_head,
      Fld ''nr'' c_uint,
      Fld ''table'' (CArr (CPtr ''struct kioctx'') 0)]"

lemma s_kioctx_table_sa [simp]: "size_of s_kioctx_table = 24" "align_of s_kioctx_table = 8" "wf_type s_kioctx_table"
  by (simp_all add: s_kioctx_table_def c_layout del: One_nat_def)

definition s_linux_binfmt :: ctype where
  "s_linux_binfmt = CStruct ''linux_binfmt'' [Fld ''lh'' s_list_head,
      Fld ''module'' (CPtr ''struct module''),
      Fld ''load_binary'' (CPtr ''fn: int''),
      Fld ''load_shlib'' (CPtr ''fn: int''),
      Fld ''core_dump'' (CPtr ''fn: int''),
      Fld ''min_coredump'' c_ulong]"

lemma s_linux_binfmt_sa [simp]: "size_of s_linux_binfmt = 56" "align_of s_linux_binfmt = 8" "wf_type s_linux_binfmt"
  by (simp_all add: s_linux_binfmt_def c_layout del: One_nat_def)

definition s_mm_cid :: ctype where
  "s_mm_cid = CStruct ''mm_cid'' [Fld ''time'' t_u64,
      Fld ''cid'' c_int]"

lemma s_mm_cid_sa [simp]: "size_of s_mm_cid = 16" "align_of s_mm_cid = 8" "wf_type s_mm_cid"
  by (simp_all add: s_mm_cid_def c_layout del: One_nat_def)

definition s_mmu_notifier_subscriptions :: ctype where
  "s_mmu_notifier_subscriptions = CStruct ''mmu_notifier_subscriptions'' [Fld ''list'' s_hlist_head,
      Fld ''has_itree'' t_bool,
      Fld ''lock'' t_spinlock_t,
      Fld ''invalidate_seq'' c_ulong,
      Fld ''active_invalidate_ranges'' c_ulong,
      Fld ''itree'' s_rb_root_cached,
      Fld ''wq'' t_wait_queue_head_t,
      Fld ''deferred_list'' s_hlist_head]"

lemma s_mmu_notifier_subscriptions_sa [simp]: "size_of s_mmu_notifier_subscriptions = 80" "align_of s_mmu_notifier_subscriptions = 8" "wf_type s_mmu_notifier_subscriptions"
  by (simp_all add: s_mmu_notifier_subscriptions_def c_layout del: One_nat_def)

definition s_uid_gid_extent :: ctype where
  "s_uid_gid_extent = CStruct ''uid_gid_extent'' [Fld ''first'' t_u32,
      Fld ''lower_first'' t_u32,
      Fld ''count'' t_u32]"

lemma s_uid_gid_extent_sa [simp]: "size_of s_uid_gid_extent = 12" "align_of s_uid_gid_extent = 4" "wf_type s_uid_gid_extent"
  by (simp_all add: s_uid_gid_extent_def c_layout del: One_nat_def)

definition s_uid_gid_map :: ctype where
  "s_uid_gid_map = CStruct ''uid_gid_map'' [Fld '''' (CUnion '''' [Fld '''' (CStruct '''' [Fld ''extent'' (CArr s_uid_gid_extent 5),
          Fld ''nr_extents'' t_u32]),
        Fld '''' (CStruct '''' [Fld ''forward'' (CPtr ''struct uid_gid_extent''),
          Fld ''reverse'' (CPtr ''struct uid_gid_extent'')])])]"

lemma s_uid_gid_map_sa [simp]: "size_of s_uid_gid_map = 64" "align_of s_uid_gid_map = 8" "wf_type s_uid_gid_map"
  by (simp_all add: s_uid_gid_map_def c_layout del: One_nat_def)

definition s_ns_common :: ctype where
  "s_ns_common = CStruct ''ns_common'' [Fld ''stashed'' (CPtr ''struct dentry''),
      Fld ''ops'' (CPtr ''const struct proc_ns_operations''),
      Fld ''inum'' c_uint,
      Fld ''count'' t_refcount_t]"

lemma s_ns_common_sa [simp]: "size_of s_ns_common = 24" "align_of s_ns_common = 8" "wf_type s_ns_common"
  by (simp_all add: s_ns_common_def c_layout del: One_nat_def)

definition s_ctl_table_header :: ctype where
  "s_ctl_table_header = CStruct ''ctl_table_header'' [Fld '''' (CUnion '''' [Fld '''' (CStruct '''' [Fld ''ctl_table'' (CPtr ''struct ctl_table''),
          Fld ''ctl_table_size'' c_int,
          Fld ''used'' c_int,
          Fld ''count'' c_int,
          Fld ''nreg'' c_int]),
        Fld ''rcu'' s_callback_head]),
      Fld ''unregistering'' (CPtr ''struct completion''),
      Fld ''ctl_table_arg'' (CPtr ''const struct ctl_table''),
      Fld ''root'' (CPtr ''struct ctl_table_root''),
      Fld ''set'' (CPtr ''struct ctl_table_set''),
      Fld ''parent'' (CPtr ''struct ctl_dir''),
      Fld ''node'' (CPtr ''struct ctl_node''),
      Fld ''inodes'' s_hlist_head,
      Fld ''type'' (CEnum '''' 4 [(''SYSCTL_TABLE_TYPE_DEFAULT'', 0),
        (''SYSCTL_TABLE_TYPE_PERMANENTLY_EMPTY'', 1)])]"

lemma s_ctl_table_header_sa [simp]: "size_of s_ctl_table_header = 88" "align_of s_ctl_table_header = 8" "wf_type s_ctl_table_header"
  by (simp_all add: s_ctl_table_header_def c_layout del: One_nat_def)

definition s_ctl_dir :: ctype where
  "s_ctl_dir = CStruct ''ctl_dir'' [Fld ''header'' s_ctl_table_header,
      Fld ''root'' s_rb_root]"

lemma s_ctl_dir_sa [simp]: "size_of s_ctl_dir = 96" "align_of s_ctl_dir = 8" "wf_type s_ctl_dir"
  by (simp_all add: s_ctl_dir_def c_layout del: One_nat_def)

definition s_ctl_table_set :: ctype where
  "s_ctl_table_set = CStruct ''ctl_table_set'' [Fld ''is_seen'' (CPtr ''fn: int''),
      Fld ''dir'' s_ctl_dir]"

lemma s_ctl_table_set_sa [simp]: "size_of s_ctl_table_set = 104" "align_of s_ctl_table_set = 8" "wf_type s_ctl_table_set"
  by (simp_all add: s_ctl_table_set_def c_layout del: One_nat_def)

definition s_user_namespace :: ctype where
  "s_user_namespace = CStruct ''user_namespace'' [Fld ''uid_map'' s_uid_gid_map,
      Fld ''gid_map'' s_uid_gid_map,
      Fld ''projid_map'' s_uid_gid_map,
      Fld ''parent'' (CPtr ''struct user_namespace''),
      Fld ''level'' c_int,
      Fld ''owner'' t_kuid_t,
      Fld ''group'' t_kgid_t,
      Fld ''ns'' s_ns_common,
      Fld ''flags'' c_ulong,
      Fld ''parent_could_setfcap'' t_bool,
      Fld ''keyring_name_list'' s_list_head,
      Fld ''user_keyring_register'' (CPtr ''struct key''),
      Fld ''keyring_sem'' s_rw_semaphore,
      Fld ''persistent_keyring_register'' (CPtr ''struct key''),
      Fld ''work'' s_work_struct,
      Fld ''set'' s_ctl_table_set,
      Fld ''sysctls'' (CPtr ''struct ctl_table_header''),
      Fld ''ucounts'' (CPtr ''struct ucounts''),
      Fld ''ucount_max'' (CArr c_long 12),
      Fld ''rlimit_max'' (CArr c_long 4),
      Fld ''binfmt_misc'' (CPtr ''struct binfmt_misc'')]"

lemma s_user_namespace_sa [simp]: "size_of s_user_namespace = 616" "align_of s_user_namespace = 8" "wf_type s_user_namespace"
  by (simp_all add: s_user_namespace_def c_layout del: One_nat_def)

definition s_autogroup :: ctype where
  "s_autogroup = CStruct ''autogroup'' [Fld ''kref'' s_kref,
      Fld ''tg'' (CPtr ''struct task_group''),
      Fld ''lock'' s_rw_semaphore,
      Fld ''id'' c_ulong,
      Fld ''nice'' c_int]"

lemma s_autogroup_sa [simp]: "size_of s_autogroup = 72" "align_of s_autogroup = 8" "wf_type s_autogroup"
  by (simp_all add: s_autogroup_def c_layout del: One_nat_def)

definition s_core_thread :: ctype where
  "s_core_thread = CStruct ''core_thread'' [Fld ''task'' (CPtr ''struct task_struct''),
      Fld ''next'' (CPtr ''struct core_thread'')]"

lemma s_core_thread_sa [simp]: "size_of s_core_thread = 16" "align_of s_core_thread = 8" "wf_type s_core_thread"
  by (simp_all add: s_core_thread_def c_layout del: One_nat_def)

definition s_core_state :: ctype where
  "s_core_state = CStruct ''core_state'' [Fld ''nr_threads'' t_atomic_t,
      Fld ''dumper'' s_core_thread,
      Fld ''startup'' s_completion]"

lemma s_core_state_sa [simp]: "size_of s_core_state = 56" "align_of s_core_state = 8" "wf_type s_core_state"
  by (simp_all add: s_core_state_def c_layout del: One_nat_def)

definition s_taskstats_f1 :: "cfield list" where
  "s_taskstats_f1 =
    [Fld ''version'' t___u16,
      Fld ''ac_exitcode'' t___u32,
      Fld ''ac_flag'' t___u8,
      Fld ''ac_nice'' t___u8,
      Fld ''cpu_count'' t___u64,
      Fld ''cpu_delay_total'' t___u64,
      Fld ''blkio_count'' t___u64,
      Fld ''blkio_delay_total'' t___u64,
      Fld ''swapin_count'' t___u64,
      Fld ''swapin_delay_total'' t___u64,
      Fld ''cpu_run_real_total'' t___u64,
      Fld ''cpu_run_virtual_total'' t___u64,
      Fld ''ac_comm'' (CArr c_char 32),
      Fld ''ac_sched'' t___u8,
      Fld ''ac_pad'' (CArr t___u8 3),
      Bits '''' c_long 0,
      Fld ''ac_uid'' t___u32,
      Fld ''ac_gid'' t___u32,
      Fld ''ac_pid'' t___u32,
      Fld ''ac_ppid'' t___u32,
      Fld ''ac_btime'' t___u32,
      Fld ''ac_etime'' t___u64,
      Fld ''ac_utime'' t___u64,
      Fld ''ac_stime'' t___u64,
      Fld ''ac_minflt'' t___u64,
      Fld ''ac_majflt'' t___u64,
      Fld ''coremem'' t___u64,
      Fld ''virtmem'' t___u64,
      Fld ''hiwater_rss'' t___u64,
      Fld ''hiwater_vm'' t___u64,
      Fld ''read_char'' t___u64,
      Fld ''write_char'' t___u64,
      Fld ''read_syscalls'' t___u64,
      Fld ''write_syscalls'' t___u64,
      Fld ''read_bytes'' t___u64,
      Fld ''write_bytes'' t___u64]"

lemma s_taskstats_f1_lay [layout]: "lay s_taskstats_f1 0 = 2112" "fields_align s_taskstats_f1 = 8" "wf_fields s_taskstats_f1"
  by (simp_all add: s_taskstats_f1_def c_layout del: One_nat_def)

definition s_taskstats_f2 :: "cfield list" where
  "s_taskstats_f2 =
    [Fld ''cancelled_write_bytes'' t___u64,
      Fld ''nvcsw'' t___u64,
      Fld ''nivcsw'' t___u64,
      Fld ''ac_utimescaled'' t___u64,
      Fld ''ac_stimescaled'' t___u64,
      Fld ''cpu_scaled_run_real_total'' t___u64,
      Fld ''freepages_count'' t___u64,
      Fld ''freepages_delay_total'' t___u64,
      Fld ''thrashing_count'' t___u64,
      Fld ''thrashing_delay_total'' t___u64,
      Fld ''ac_btime64'' t___u64,
      Fld ''compact_count'' t___u64,
      Fld ''compact_delay_total'' t___u64,
      Fld ''ac_tgid'' t___u32,
      Fld ''ac_tgetime'' t___u64,
      Fld ''ac_exe_dev'' t___u64,
      Fld ''ac_exe_inode'' t___u64,
      Fld ''wpcopy_count'' t___u64,
      Fld ''wpcopy_delay_total'' t___u64,
      Fld ''irq_count'' t___u64,
      Fld ''irq_delay_total'' t___u64]"

lemma s_taskstats_f2_lay [layout]: "lay s_taskstats_f2 2112 = 3456" "fields_align s_taskstats_f2 = 8" "wf_fields s_taskstats_f2"
  by (simp_all add: s_taskstats_f2_def c_layout del: One_nat_def)

definition s_taskstats :: ctype where
  "s_taskstats = CStruct ''taskstats'' (s_taskstats_f1 @ s_taskstats_f2)"

lemma s_taskstats_sa [simp]: "size_of s_taskstats = 432" "align_of s_taskstats = 8" "wf_type s_taskstats"
  by (simp_all add: s_taskstats_def c_layout layout wf_fields_append lay_append fields_align_append del: One_nat_def)

definition s_tty_audit_buf :: ctype where
  "s_tty_audit_buf = CStruct ''tty_audit_buf'' [Fld ''mutex'' s_mutex,
      Fld ''dev'' t_dev_t,
      Fld ''icanon'' t_bool,
      Fld ''valid'' t_size_t,
      Fld ''data'' (CPtr ''u8'')]"

lemma s_tty_audit_buf_sa [simp]: "size_of s_tty_audit_buf = 56" "align_of s_tty_audit_buf = 8" "wf_type s_tty_audit_buf"
  by (simp_all add: s_tty_audit_buf_def c_layout del: One_nat_def)

definition s_ld_semaphore :: ctype where
  "s_ld_semaphore = CStruct ''ld_semaphore'' [Fld ''count'' t_atomic_long_t,
      Fld ''wait_lock'' t_raw_spinlock_t,
      Fld ''wait_readers'' c_uint,
      Fld ''read_wait'' s_list_head,
      Fld ''write_wait'' s_list_head]"

lemma s_ld_semaphore_sa [simp]: "size_of s_ld_semaphore = 48" "align_of s_ld_semaphore = 8" "wf_type s_ld_semaphore"
  by (simp_all add: s_ld_semaphore_def c_layout del: One_nat_def)

definition t_tcflag_t :: ctype where
  "t_tcflag_t = c_uint"

lemma t_tcflag_t_sa [simp]: "size_of t_tcflag_t = 4" "align_of t_tcflag_t = 4" "wf_type t_tcflag_t"
  by (simp_all add: t_tcflag_t_def c_layout del: One_nat_def)

definition t_cc_t :: ctype where
  "t_cc_t = c_uchar"

lemma t_cc_t_sa [simp]: "size_of t_cc_t = 1" "align_of t_cc_t = 1" "wf_type t_cc_t"
  by (simp_all add: t_cc_t_def c_layout del: One_nat_def)

definition t_speed_t :: ctype where
  "t_speed_t = c_uint"

lemma t_speed_t_sa [simp]: "size_of t_speed_t = 4" "align_of t_speed_t = 4" "wf_type t_speed_t"
  by (simp_all add: t_speed_t_def c_layout del: One_nat_def)

definition s_ktermios :: ctype where
  "s_ktermios = CStruct ''ktermios'' [Fld ''c_iflag'' t_tcflag_t,
      Fld ''c_oflag'' t_tcflag_t,
      Fld ''c_cflag'' t_tcflag_t,
      Fld ''c_lflag'' t_tcflag_t,
      Fld ''c_line'' t_cc_t,
      Fld ''c_cc'' (CArr t_cc_t 19),
      Fld ''c_ispeed'' t_speed_t,
      Fld ''c_ospeed'' t_speed_t]"

lemma s_ktermios_sa [simp]: "size_of s_ktermios = 44" "align_of s_ktermios = 4" "wf_type s_ktermios"
  by (simp_all add: s_ktermios_def c_layout del: One_nat_def)

definition s_winsize :: ctype where
  "s_winsize = CStruct ''winsize'' [Fld ''ws_row'' c_ushort,
      Fld ''ws_col'' c_ushort,
      Fld ''ws_xpixel'' c_ushort,
      Fld ''ws_ypixel'' c_ushort]"

lemma s_winsize_sa [simp]: "size_of s_winsize = 8" "align_of s_winsize = 2" "wf_type s_winsize"
  by (simp_all add: s_winsize_def c_layout del: One_nat_def)

definition s_tty_struct_f1 :: "cfield list" where
  "s_tty_struct_f1 =
    [Fld ''kref'' s_kref,
      Fld ''index'' c_int,
      Fld ''dev'' (CPtr ''struct device''),
      Fld ''driver'' (CPtr ''struct tty_driver''),
      Fld ''port'' (CPtr ''struct tty_port''),
      Fld ''ops'' (CPtr ''const struct tty_operations''),
      Fld ''ldisc'' (CPtr ''struct tty_ldisc''),
      Fld ''ldisc_sem'' s_ld_semaphore,
      Fld ''atomic_write_lock'' s_mutex,
      Fld ''legacy_mutex'' s_mutex,
      Fld ''throttle_mutex'' s_mutex,
      Fld ''termios_rwsem'' s_rw_semaphore,
      Fld ''winsize_mutex'' s_mutex,
      Fld ''termios'' s_ktermios,
      Fld ''termios_locked'' s_ktermios,
      Fld ''name'' (CArr c_char 64),
      Fld ''flags'' c_ulong,
      Fld ''count'' c_int,
      Fld ''receive_room'' c_uint,
      Fld ''winsize'' s_winsize,
      Fld ''flow'' (CStruct '''' [Fld ''lock'' t_spinlock_t,
        Fld ''stopped'' t_bool,
        Fld ''tco_stopped'' t_bool]),
      Fld ''ctrl'' (CStruct '''' [Fld ''pgrp'' (CPtr ''struct pid''),
        Fld ''session'' (CPtr ''struct pid''),
        Fld ''lock'' t_spinlock_t,
        Fld ''pktstatus'' c_uchar,
        Fld ''packet'' t_bool]),
      Fld ''hw_stopped'' t_bool,
      Fld ''closing'' t_bool,
      Fld ''flow_change'' c_int,
      Fld ''link'' (CPtr ''struct tty_struct''),
      Fld ''fasync'' (CPtr ''struct fasync_struct''),
      Fld ''write_wait'' t_wait_queue_head_t,
      Fld ''read_wait'' t_wait_queue_head_t,
      Fld ''hangup_work'' s_work_struct,
      Fld ''disc_data'' (CPtr ''void''),
      Fld ''driver_data'' (CPtr ''void''),
      Fld ''files_lock'' t_spinlock_t,
      Fld ''write_cnt'' c_int,
      Fld ''write_buf'' (CPtr ''u8''),
      Fld ''tty_files'' s_list_head]"

lemma s_tty_struct_f1_lay [layout]: "lay s_tty_struct_f1 0 = 4992" "fields_align s_tty_struct_f1 = 8" "wf_fields s_tty_struct_f1"
  by (simp_all add: s_tty_struct_f1_def c_layout del: One_nat_def)

definition s_tty_struct_f2 :: "cfield list" where
  "s_tty_struct_f2 =
    [Fld ''SAK_work'' s_work_struct]"

lemma s_tty_struct_f2_lay [layout]: "lay s_tty_struct_f2 4992 = 5248" "fields_align s_tty_struct_f2 = 8" "wf_fields s_tty_struct_f2"
  by (simp_all add: s_tty_struct_f2_def c_layout del: One_nat_def)

definition s_tty_struct :: ctype where
  "s_tty_struct = CStruct ''tty_struct'' (s_tty_struct_f1 @ s_tty_struct_f2)"

lemma s_tty_struct_sa [simp]: "size_of s_tty_struct = 656" "align_of s_tty_struct = 8" "wf_type s_tty_struct"
  by (simp_all add: s_tty_struct_def c_layout layout wf_fields_append lay_append fields_align_append del: One_nat_def)

end
