(* ===== verification/KBpf.thy ===== *)
theory KBpf
  imports KTaskFar
begin

text \<open>
  Kernel types of \<open>ebpf/vmlinux.h\<close>, in dependency order: the kernel side of the BPF maps and programs: map and program types, update flags, helper numbers, the attributes of the \<open>bpf\<close> system call, maps, hash tables, helper prototypes, programs.
  A definition keeps every member of its C declaration, in order; each is followed by its size
  and alignment. \<open>s_\<close>, \<open>u_\<close>, \<open>e_\<close> and \<open>t_\<close> stand for struct, union, enum and typedef.
\<close>

definition e_bpf_update_flags :: ctype where
  "e_bpf_update_flags = CEnum '''' 4 [(''BPF_ANY'', 0),
      (''BPF_NOEXIST'', 1),
      (''BPF_EXIST'', 2),
      (''BPF_F_LOCK'', 4)]"

lemma e_bpf_update_flags_sa [simp]: "size_of e_bpf_update_flags = 4" "align_of e_bpf_update_flags = 4" "wf_type e_bpf_update_flags"
  by (simp_all add: e_bpf_update_flags_def c_layout del: One_nat_def)

definition e_bpf_func_id :: ctype where
  "e_bpf_func_id = CEnum ''bpf_func_id'' 4 [(''BPF_FUNC_unspec'', 0),
      (''BPF_FUNC_map_lookup_elem'', 1),
      (''BPF_FUNC_map_update_elem'', 2),
      (''BPF_FUNC_map_delete_elem'', 3),
      (''BPF_FUNC_probe_read'', 4),
      (''BPF_FUNC_ktime_get_ns'', 5),
      (''BPF_FUNC_trace_printk'', 6),
      (''BPF_FUNC_get_prandom_u32'', 7),
      (''BPF_FUNC_get_smp_processor_id'', 8),
      (''BPF_FUNC_skb_store_bytes'', 9),
      (''BPF_FUNC_l3_csum_replace'', 10),
      (''BPF_FUNC_l4_csum_replace'', 11),
      (''BPF_FUNC_tail_call'', 12),
      (''BPF_FUNC_clone_redirect'', 13),
      (''BPF_FUNC_get_current_pid_tgid'', 14),
      (''BPF_FUNC_get_current_uid_gid'', 15),
      (''BPF_FUNC_get_current_comm'', 16),
      (''BPF_FUNC_get_cgroup_classid'', 17),
      (''BPF_FUNC_skb_vlan_push'', 18),
      (''BPF_FUNC_skb_vlan_pop'', 19),
      (''BPF_FUNC_skb_get_tunnel_key'', 20),
      (''BPF_FUNC_skb_set_tunnel_key'', 21),
      (''BPF_FUNC_perf_event_read'', 22),
      (''BPF_FUNC_redirect'', 23),
      (''BPF_FUNC_get_route_realm'', 24),
      (''BPF_FUNC_perf_event_output'', 25),
      (''BPF_FUNC_skb_load_bytes'', 26),
      (''BPF_FUNC_get_stackid'', 27),
      (''BPF_FUNC_csum_diff'', 28),
      (''BPF_FUNC_skb_get_tunnel_opt'', 29),
      (''BPF_FUNC_skb_set_tunnel_opt'', 30),
      (''BPF_FUNC_skb_change_proto'', 31),
      (''BPF_FUNC_skb_change_type'', 32),
      (''BPF_FUNC_skb_under_cgroup'', 33),
      (''BPF_FUNC_get_hash_recalc'', 34),
      (''BPF_FUNC_get_current_task'', 35),
      (''BPF_FUNC_probe_write_user'', 36),
      (''BPF_FUNC_current_task_under_cgroup'', 37),
      (''BPF_FUNC_skb_change_tail'', 38),
      (''BPF_FUNC_skb_pull_data'', 39),
      (''BPF_FUNC_csum_update'', 40),
      (''BPF_FUNC_set_hash_invalid'', 41),
      (''BPF_FUNC_get_numa_node_id'', 42),
      (''BPF_FUNC_skb_change_head'', 43),
      (''BPF_FUNC_xdp_adjust_head'', 44),
      (''BPF_FUNC_probe_read_str'', 45),
      (''BPF_FUNC_get_socket_cookie'', 46),
      (''BPF_FUNC_get_socket_uid'', 47),
      (''BPF_FUNC_set_hash'', 48),
      (''BPF_FUNC_setsockopt'', 49),
      (''BPF_FUNC_skb_adjust_room'', 50),
      (''BPF_FUNC_redirect_map'', 51),
      (''BPF_FUNC_sk_redirect_map'', 52),
      (''BPF_FUNC_sock_map_update'', 53),
      (''BPF_FUNC_xdp_adjust_meta'', 54),
      (''BPF_FUNC_perf_event_read_value'', 55),
      (''BPF_FUNC_perf_prog_read_value'', 56),
      (''BPF_FUNC_getsockopt'', 57),
      (''BPF_FUNC_override_return'', 58),
      (''BPF_FUNC_sock_ops_cb_flags_set'', 59),
      (''BPF_FUNC_msg_redirect_map'', 60),
      (''BPF_FUNC_msg_apply_bytes'', 61),
      (''BPF_FUNC_msg_cork_bytes'', 62),
      (''BPF_FUNC_msg_pull_data'', 63),
      (''BPF_FUNC_bind'', 64),
      (''BPF_FUNC_xdp_adjust_tail'', 65),
      (''BPF_FUNC_skb_get_xfrm_state'', 66),
      (''BPF_FUNC_get_stack'', 67),
      (''BPF_FUNC_skb_load_bytes_relative'', 68),
      (''BPF_FUNC_fib_lookup'', 69),
      (''BPF_FUNC_sock_hash_update'', 70),
      (''BPF_FUNC_msg_redirect_hash'', 71),
      (''BPF_FUNC_sk_redirect_hash'', 72),
      (''BPF_FUNC_lwt_push_encap'', 73),
      (''BPF_FUNC_lwt_seg6_store_bytes'', 74),
      (''BPF_FUNC_lwt_seg6_adjust_srh'', 75),
      (''BPF_FUNC_lwt_seg6_action'', 76),
      (''BPF_FUNC_rc_repeat'', 77),
      (''BPF_FUNC_rc_keydown'', 78),
      (''BPF_FUNC_skb_cgroup_id'', 79),
      (''BPF_FUNC_get_current_cgroup_id'', 80),
      (''BPF_FUNC_get_local_storage'', 81),
      (''BPF_FUNC_sk_select_reuseport'', 82),
      (''BPF_FUNC_skb_ancestor_cgroup_id'', 83),
      (''BPF_FUNC_sk_lookup_tcp'', 84),
      (''BPF_FUNC_sk_lookup_udp'', 85),
      (''BPF_FUNC_sk_release'', 86),
      (''BPF_FUNC_map_push_elem'', 87),
      (''BPF_FUNC_map_pop_elem'', 88),
      (''BPF_FUNC_map_peek_elem'', 89),
      (''BPF_FUNC_msg_push_data'', 90),
      (''BPF_FUNC_msg_pop_data'', 91),
      (''BPF_FUNC_rc_pointer_rel'', 92),
      (''BPF_FUNC_spin_lock'', 93),
      (''BPF_FUNC_spin_unlock'', 94),
      (''BPF_FUNC_sk_fullsock'', 95),
      (''BPF_FUNC_tcp_sock'', 96),
      (''BPF_FUNC_skb_ecn_set_ce'', 97),
      (''BPF_FUNC_get_listener_sock'', 98),
      (''BPF_FUNC_skc_lookup_tcp'', 99),
      (''BPF_FUNC_tcp_check_syncookie'', 100),
      (''BPF_FUNC_sysctl_get_name'', 101),
      (''BPF_FUNC_sysctl_get_current_value'', 102),
      (''BPF_FUNC_sysctl_get_new_value'', 103),
      (''BPF_FUNC_sysctl_set_new_value'', 104),
      (''BPF_FUNC_strtol'', 105),
      (''BPF_FUNC_strtoul'', 106),
      (''BPF_FUNC_sk_storage_get'', 107),
      (''BPF_FUNC_sk_storage_delete'', 108),
      (''BPF_FUNC_send_signal'', 109),
      (''BPF_FUNC_tcp_gen_syncookie'', 110),
      (''BPF_FUNC_skb_output'', 111),
      (''BPF_FUNC_probe_read_user'', 112),
      (''BPF_FUNC_probe_read_kernel'', 113),
      (''BPF_FUNC_probe_read_user_str'', 114),
      (''BPF_FUNC_probe_read_kernel_str'', 115),
      (''BPF_FUNC_tcp_send_ack'', 116),
      (''BPF_FUNC_send_signal_thread'', 117),
      (''BPF_FUNC_jiffies64'', 118),
      (''BPF_FUNC_read_branch_records'', 119),
      (''BPF_FUNC_get_ns_current_pid_tgid'', 120),
      (''BPF_FUNC_xdp_output'', 121),
      (''BPF_FUNC_get_netns_cookie'', 122),
      (''BPF_FUNC_get_current_ancestor_cgroup_id'', 123),
      (''BPF_FUNC_sk_assign'', 124),
      (''BPF_FUNC_ktime_get_boot_ns'', 125),
      (''BPF_FUNC_seq_printf'', 126),
      (''BPF_FUNC_seq_write'', 127),
      (''BPF_FUNC_sk_cgroup_id'', 128),
      (''BPF_FUNC_sk_ancestor_cgroup_id'', 129),
      (''BPF_FUNC_ringbuf_output'', 130),
      (''BPF_FUNC_ringbuf_reserve'', 131),
      (''BPF_FUNC_ringbuf_submit'', 132),
      (''BPF_FUNC_ringbuf_discard'', 133),
      (''BPF_FUNC_ringbuf_query'', 134),
      (''BPF_FUNC_csum_level'', 135),
      (''BPF_FUNC_skc_to_tcp6_sock'', 136),
      (''BPF_FUNC_skc_to_tcp_sock'', 137),
      (''BPF_FUNC_skc_to_tcp_timewait_sock'', 138),
      (''BPF_FUNC_skc_to_tcp_request_sock'', 139),
      (''BPF_FUNC_skc_to_udp6_sock'', 140),
      (''BPF_FUNC_get_task_stack'', 141),
      (''BPF_FUNC_load_hdr_opt'', 142),
      (''BPF_FUNC_store_hdr_opt'', 143),
      (''BPF_FUNC_reserve_hdr_opt'', 144),
      (''BPF_FUNC_inode_storage_get'', 145),
      (''BPF_FUNC_inode_storage_delete'', 146),
      (''BPF_FUNC_d_path'', 147),
      (''BPF_FUNC_copy_from_user'', 148),
      (''BPF_FUNC_snprintf_btf'', 149),
      (''BPF_FUNC_seq_printf_btf'', 150),
      (''BPF_FUNC_skb_cgroup_classid'', 151),
      (''BPF_FUNC_redirect_neigh'', 152),
      (''BPF_FUNC_per_cpu_ptr'', 153),
      (''BPF_FUNC_this_cpu_ptr'', 154),
      (''BPF_FUNC_redirect_peer'', 155),
      (''BPF_FUNC_task_storage_get'', 156),
      (''BPF_FUNC_task_storage_delete'', 157),
      (''BPF_FUNC_get_current_task_btf'', 158),
      (''BPF_FUNC_bprm_opts_set'', 159),
      (''BPF_FUNC_ktime_get_coarse_ns'', 160),
      (''BPF_FUNC_ima_inode_hash'', 161),
      (''BPF_FUNC_sock_from_file'', 162),
      (''BPF_FUNC_check_mtu'', 163),
      (''BPF_FUNC_for_each_map_elem'', 164),
      (''BPF_FUNC_snprintf'', 165),
      (''BPF_FUNC_sys_bpf'', 166),
      (''BPF_FUNC_btf_find_by_name_kind'', 167),
      (''BPF_FUNC_sys_close'', 168),
      (''BPF_FUNC_timer_init'', 169),
      (''BPF_FUNC_timer_set_callback'', 170),
      (''BPF_FUNC_timer_start'', 171),
      (''BPF_FUNC_timer_cancel'', 172),
      (''BPF_FUNC_get_func_ip'', 173),
      (''BPF_FUNC_get_attach_cookie'', 174),
      (''BPF_FUNC_task_pt_regs'', 175),
      (''BPF_FUNC_get_branch_snapshot'', 176),
      (''BPF_FUNC_trace_vprintk'', 177),
      (''BPF_FUNC_skc_to_unix_sock'', 178),
      (''BPF_FUNC_kallsyms_lookup_name'', 179),
      (''BPF_FUNC_find_vma'', 180),
      (''BPF_FUNC_loop'', 181),
      (''BPF_FUNC_strncmp'', 182),
      (''BPF_FUNC_get_func_arg'', 183),
      (''BPF_FUNC_get_func_ret'', 184),
      (''BPF_FUNC_get_func_arg_cnt'', 185),
      (''BPF_FUNC_get_retval'', 186),
      (''BPF_FUNC_set_retval'', 187),
      (''BPF_FUNC_xdp_get_buff_len'', 188),
      (''BPF_FUNC_xdp_load_bytes'', 189),
      (''BPF_FUNC_xdp_store_bytes'', 190),
      (''BPF_FUNC_copy_from_user_task'', 191),
      (''BPF_FUNC_skb_set_tstamp'', 192),
      (''BPF_FUNC_ima_file_hash'', 193),
      (''BPF_FUNC_kptr_xchg'', 194),
      (''BPF_FUNC_map_lookup_percpu_elem'', 195),
      (''BPF_FUNC_skc_to_mptcp_sock'', 196),
      (''BPF_FUNC_dynptr_from_mem'', 197),
      (''BPF_FUNC_ringbuf_reserve_dynptr'', 198),
      (''BPF_FUNC_ringbuf_submit_dynptr'', 199),
      (''BPF_FUNC_ringbuf_discard_dynptr'', 200),
      (''BPF_FUNC_dynptr_read'', 201),
      (''BPF_FUNC_dynptr_write'', 202),
      (''BPF_FUNC_dynptr_data'', 203),
      (''BPF_FUNC_tcp_raw_gen_syncookie_ipv4'', 204),
      (''BPF_FUNC_tcp_raw_gen_syncookie_ipv6'', 205),
      (''BPF_FUNC_tcp_raw_check_syncookie_ipv4'', 206),
      (''BPF_FUNC_tcp_raw_check_syncookie_ipv6'', 207),
      (''BPF_FUNC_ktime_get_tai_ns'', 208),
      (''BPF_FUNC_user_ringbuf_drain'', 209),
      (''BPF_FUNC_cgrp_storage_get'', 210),
      (''BPF_FUNC_cgrp_storage_delete'', 211),
      (''__BPF_FUNC_MAX_ID'', 212)]"

lemma e_bpf_func_id_sa [simp]: "size_of e_bpf_func_id = 4" "align_of e_bpf_func_id = 4" "wf_type e_bpf_func_id"
  by (simp_all add: e_bpf_func_id_def c_layout del: One_nat_def)

definition e_bpf_prog_type :: ctype where
  "e_bpf_prog_type = CEnum ''bpf_prog_type'' 4 [(''BPF_PROG_TYPE_UNSPEC'', 0),
      (''BPF_PROG_TYPE_SOCKET_FILTER'', 1),
      (''BPF_PROG_TYPE_KPROBE'', 2),
      (''BPF_PROG_TYPE_SCHED_CLS'', 3),
      (''BPF_PROG_TYPE_SCHED_ACT'', 4),
      (''BPF_PROG_TYPE_TRACEPOINT'', 5),
      (''BPF_PROG_TYPE_XDP'', 6),
      (''BPF_PROG_TYPE_PERF_EVENT'', 7),
      (''BPF_PROG_TYPE_CGROUP_SKB'', 8),
      (''BPF_PROG_TYPE_CGROUP_SOCK'', 9),
      (''BPF_PROG_TYPE_LWT_IN'', 10),
      (''BPF_PROG_TYPE_LWT_OUT'', 11),
      (''BPF_PROG_TYPE_LWT_XMIT'', 12),
      (''BPF_PROG_TYPE_SOCK_OPS'', 13),
      (''BPF_PROG_TYPE_SK_SKB'', 14),
      (''BPF_PROG_TYPE_CGROUP_DEVICE'', 15),
      (''BPF_PROG_TYPE_SK_MSG'', 16),
      (''BPF_PROG_TYPE_RAW_TRACEPOINT'', 17),
      (''BPF_PROG_TYPE_CGROUP_SOCK_ADDR'', 18),
      (''BPF_PROG_TYPE_LWT_SEG6LOCAL'', 19),
      (''BPF_PROG_TYPE_LIRC_MODE2'', 20),
      (''BPF_PROG_TYPE_SK_REUSEPORT'', 21),
      (''BPF_PROG_TYPE_FLOW_DISSECTOR'', 22),
      (''BPF_PROG_TYPE_CGROUP_SYSCTL'', 23),
      (''BPF_PROG_TYPE_RAW_TRACEPOINT_WRITABLE'', 24),
      (''BPF_PROG_TYPE_CGROUP_SOCKOPT'', 25),
      (''BPF_PROG_TYPE_TRACING'', 26),
      (''BPF_PROG_TYPE_STRUCT_OPS'', 27),
      (''BPF_PROG_TYPE_EXT'', 28),
      (''BPF_PROG_TYPE_LSM'', 29),
      (''BPF_PROG_TYPE_SK_LOOKUP'', 30),
      (''BPF_PROG_TYPE_SYSCALL'', 31),
      (''BPF_PROG_TYPE_NETFILTER'', 32),
      (''__MAX_BPF_PROG_TYPE'', 33)]"

lemma e_bpf_prog_type_sa [simp]: "size_of e_bpf_prog_type = 4" "align_of e_bpf_prog_type = 4" "wf_type e_bpf_prog_type"
  by (simp_all add: e_bpf_prog_type_def c_layout del: One_nat_def)

definition e_bpf_attach_type :: ctype where
  "e_bpf_attach_type = CEnum ''bpf_attach_type'' 4 [(''BPF_CGROUP_INET_INGRESS'', 0),
      (''BPF_CGROUP_INET_EGRESS'', 1),
      (''BPF_CGROUP_INET_SOCK_CREATE'', 2),
      (''BPF_CGROUP_SOCK_OPS'', 3),
      (''BPF_SK_SKB_STREAM_PARSER'', 4),
      (''BPF_SK_SKB_STREAM_VERDICT'', 5),
      (''BPF_CGROUP_DEVICE'', 6),
      (''BPF_SK_MSG_VERDICT'', 7),
      (''BPF_CGROUP_INET4_BIND'', 8),
      (''BPF_CGROUP_INET6_BIND'', 9),
      (''BPF_CGROUP_INET4_CONNECT'', 10),
      (''BPF_CGROUP_INET6_CONNECT'', 11),
      (''BPF_CGROUP_INET4_POST_BIND'', 12),
      (''BPF_CGROUP_INET6_POST_BIND'', 13),
      (''BPF_CGROUP_UDP4_SENDMSG'', 14),
      (''BPF_CGROUP_UDP6_SENDMSG'', 15),
      (''BPF_LIRC_MODE2'', 16),
      (''BPF_FLOW_DISSECTOR'', 17),
      (''BPF_CGROUP_SYSCTL'', 18),
      (''BPF_CGROUP_UDP4_RECVMSG'', 19),
      (''BPF_CGROUP_UDP6_RECVMSG'', 20),
      (''BPF_CGROUP_GETSOCKOPT'', 21),
      (''BPF_CGROUP_SETSOCKOPT'', 22),
      (''BPF_TRACE_RAW_TP'', 23),
      (''BPF_TRACE_FENTRY'', 24),
      (''BPF_TRACE_FEXIT'', 25),
      (''BPF_MODIFY_RETURN'', 26),
      (''BPF_LSM_MAC'', 27),
      (''BPF_TRACE_ITER'', 28),
      (''BPF_CGROUP_INET4_GETPEERNAME'', 29),
      (''BPF_CGROUP_INET6_GETPEERNAME'', 30),
      (''BPF_CGROUP_INET4_GETSOCKNAME'', 31),
      (''BPF_CGROUP_INET6_GETSOCKNAME'', 32),
      (''BPF_XDP_DEVMAP'', 33),
      (''BPF_CGROUP_INET_SOCK_RELEASE'', 34),
      (''BPF_XDP_CPUMAP'', 35),
      (''BPF_SK_LOOKUP'', 36),
      (''BPF_XDP'', 37),
      (''BPF_SK_SKB_VERDICT'', 38),
      (''BPF_SK_REUSEPORT_SELECT'', 39),
      (''BPF_SK_REUSEPORT_SELECT_OR_MIGRATE'', 40),
      (''BPF_PERF_EVENT'', 41),
      (''BPF_TRACE_KPROBE_MULTI'', 42),
      (''BPF_LSM_CGROUP'', 43),
      (''BPF_STRUCT_OPS'', 44),
      (''BPF_NETFILTER'', 45),
      (''BPF_TCX_INGRESS'', 46),
      (''BPF_TCX_EGRESS'', 47),
      (''BPF_TRACE_UPROBE_MULTI'', 48),
      (''BPF_CGROUP_UNIX_CONNECT'', 49),
      (''BPF_CGROUP_UNIX_SENDMSG'', 50),
      (''BPF_CGROUP_UNIX_RECVMSG'', 51),
      (''BPF_CGROUP_UNIX_GETPEERNAME'', 52),
      (''BPF_CGROUP_UNIX_GETSOCKNAME'', 53),
      (''BPF_NETKIT_PRIMARY'', 54),
      (''BPF_NETKIT_PEER'', 55),
      (''BPF_TRACE_KPROBE_SESSION'', 56),
      (''__MAX_BPF_ATTACH_TYPE'', 57)]"

lemma e_bpf_attach_type_sa [simp]: "size_of e_bpf_attach_type = 4" "align_of e_bpf_attach_type = 4" "wf_type e_bpf_attach_type"
  by (simp_all add: e_bpf_attach_type_def c_layout del: One_nat_def)

definition e_bpf_cmd :: ctype where
  "e_bpf_cmd = CEnum ''bpf_cmd'' 4 [(''BPF_MAP_CREATE'', 0),
      (''BPF_MAP_LOOKUP_ELEM'', 1),
      (''BPF_MAP_UPDATE_ELEM'', 2),
      (''BPF_MAP_DELETE_ELEM'', 3),
      (''BPF_MAP_GET_NEXT_KEY'', 4),
      (''BPF_PROG_LOAD'', 5),
      (''BPF_OBJ_PIN'', 6),
      (''BPF_OBJ_GET'', 7),
      (''BPF_PROG_ATTACH'', 8),
      (''BPF_PROG_DETACH'', 9),
      (''BPF_PROG_TEST_RUN'', 10),
      (''BPF_PROG_RUN'', 10),
      (''BPF_PROG_GET_NEXT_ID'', 11),
      (''BPF_MAP_GET_NEXT_ID'', 12),
      (''BPF_PROG_GET_FD_BY_ID'', 13),
      (''BPF_MAP_GET_FD_BY_ID'', 14),
      (''BPF_OBJ_GET_INFO_BY_FD'', 15),
      (''BPF_PROG_QUERY'', 16),
      (''BPF_RAW_TRACEPOINT_OPEN'', 17),
      (''BPF_BTF_LOAD'', 18),
      (''BPF_BTF_GET_FD_BY_ID'', 19),
      (''BPF_TASK_FD_QUERY'', 20),
      (''BPF_MAP_LOOKUP_AND_DELETE_ELEM'', 21),
      (''BPF_MAP_FREEZE'', 22),
      (''BPF_BTF_GET_NEXT_ID'', 23),
      (''BPF_MAP_LOOKUP_BATCH'', 24),
      (''BPF_MAP_LOOKUP_AND_DELETE_BATCH'', 25),
      (''BPF_MAP_UPDATE_BATCH'', 26),
      (''BPF_MAP_DELETE_BATCH'', 27),
      (''BPF_LINK_CREATE'', 28),
      (''BPF_LINK_UPDATE'', 29),
      (''BPF_LINK_GET_FD_BY_ID'', 30),
      (''BPF_LINK_GET_NEXT_ID'', 31),
      (''BPF_ENABLE_STATS'', 32),
      (''BPF_ITER_CREATE'', 33),
      (''BPF_LINK_DETACH'', 34),
      (''BPF_PROG_BIND_MAP'', 35),
      (''BPF_TOKEN_CREATE'', 36),
      (''__MAX_BPF_CMD'', 37)]"

lemma e_bpf_cmd_sa [simp]: "size_of e_bpf_cmd = 4" "align_of e_bpf_cmd = 4" "wf_type e_bpf_cmd"
  by (simp_all add: e_bpf_cmd_def c_layout del: One_nat_def)

definition s_bpf_insn :: ctype where
  "s_bpf_insn = CStruct ''bpf_insn'' [Fld ''code'' t___u8,
      Bits ''dst_reg'' t___u8 4,
      Bits ''src_reg'' t___u8 4,
      Fld ''off'' t___s16,
      Fld ''imm'' t___s32]"

lemma s_bpf_insn_sa [simp]: "size_of s_bpf_insn = 8" "align_of s_bpf_insn = 4" "wf_type s_bpf_insn"
  by (simp_all add: s_bpf_insn_def c_layout del: One_nat_def)

definition u_bpf_attr :: ctype where
  "u_bpf_attr = CUnion ''bpf_attr'' [Fld '''' (CStruct '''' [Fld ''map_type'' t___u32,
        Fld ''key_size'' t___u32,
        Fld ''value_size'' t___u32,
        Fld ''max_entries'' t___u32,
        Fld ''map_flags'' t___u32,
        Fld ''inner_map_fd'' t___u32,
        Fld ''numa_node'' t___u32,
        Fld ''map_name'' (CArr c_char 16),
        Fld ''map_ifindex'' t___u32,
        Fld ''btf_fd'' t___u32,
        Fld ''btf_key_type_id'' t___u32,
        Fld ''btf_value_type_id'' t___u32,
        Fld ''btf_vmlinux_value_type_id'' t___u32,
        Fld ''map_extra'' t___u64,
        Fld ''value_type_btf_obj_fd'' t___s32,
        Fld ''map_token_fd'' t___s32]),
      Fld '''' (CStruct '''' [Fld ''map_fd'' t___u32,
        Fld ''key'' t___u64,
        Fld '''' (CUnion '''' [Fld ''value'' t___u64,
          Fld ''next_key'' t___u64]),
        Fld ''flags'' t___u64]),
      Fld ''batch'' (CStruct '''' [Fld ''in_batch'' t___u64,
        Fld ''out_batch'' t___u64,
        Fld ''keys'' t___u64,
        Fld ''values'' t___u64,
        Fld ''count'' t___u32,
        Fld ''map_fd'' t___u32,
        Fld ''elem_flags'' t___u64,
        Fld ''flags'' t___u64]),
      Fld '''' (CStruct '''' [Fld ''prog_type'' t___u32,
        Fld ''insn_cnt'' t___u32,
        Fld ''insns'' t___u64,
        Fld ''license'' t___u64,
        Fld ''log_level'' t___u32,
        Fld ''log_size'' t___u32,
        Fld ''log_buf'' t___u64,
        Fld ''kern_version'' t___u32,
        Fld ''prog_flags'' t___u32,
        Fld ''prog_name'' (CArr c_char 16),
        Fld ''prog_ifindex'' t___u32,
        Fld ''expected_attach_type'' t___u32,
        Fld ''prog_btf_fd'' t___u32,
        Fld ''func_info_rec_size'' t___u32,
        Fld ''func_info'' t___u64,
        Fld ''func_info_cnt'' t___u32,
        Fld ''line_info_rec_size'' t___u32,
        Fld ''line_info'' t___u64,
        Fld ''line_info_cnt'' t___u32,
        Fld ''attach_btf_id'' t___u32,
        Fld '''' (CUnion '''' [Fld ''attach_prog_fd'' t___u32,
          Fld ''attach_btf_obj_fd'' t___u32]),
        Fld ''core_relo_cnt'' t___u32,
        Fld ''fd_array'' t___u64,
        Fld ''core_relos'' t___u64,
        Fld ''core_relo_rec_size'' t___u32,
        Fld ''log_true_size'' t___u32,
        Fld ''prog_token_fd'' t___s32]),
      Fld '''' (CStruct '''' [Fld ''pathname'' t___u64,
        Fld ''bpf_fd'' t___u32,
        Fld ''file_flags'' t___u32,
        Fld ''path_fd'' t___s32]),
      Fld '''' (CStruct '''' [Fld '''' (CUnion '''' [Fld ''target_fd'' t___u32,
          Fld ''target_ifindex'' t___u32]),
        Fld ''attach_bpf_fd'' t___u32,
        Fld ''attach_type'' t___u32,
        Fld ''attach_flags'' t___u32,
        Fld ''replace_bpf_fd'' t___u32,
        Fld '''' (CUnion '''' [Fld ''relative_fd'' t___u32,
          Fld ''relative_id'' t___u32]),
        Fld ''expected_revision'' t___u64]),
      Fld ''test'' (CStruct '''' [Fld ''prog_fd'' t___u32,
        Fld ''retval'' t___u32,
        Fld ''data_size_in'' t___u32,
        Fld ''data_size_out'' t___u32,
        Fld ''data_in'' t___u64,
        Fld ''data_out'' t___u64,
        Fld ''repeat'' t___u32,
        Fld ''duration'' t___u32,
        Fld ''ctx_size_in'' t___u32,
        Fld ''ctx_size_out'' t___u32,
        Fld ''ctx_in'' t___u64,
        Fld ''ctx_out'' t___u64,
        Fld ''flags'' t___u32,
        Fld ''cpu'' t___u32,
        Fld ''batch_size'' t___u32]),
      Fld '''' (CStruct '''' [Fld '''' (CUnion '''' [Fld ''start_id'' t___u32,
          Fld ''prog_id'' t___u32,
          Fld ''map_id'' t___u32,
          Fld ''btf_id'' t___u32,
          Fld ''link_id'' t___u32]),
        Fld ''next_id'' t___u32,
        Fld ''open_flags'' t___u32]),
      Fld ''info'' (CStruct '''' [Fld ''bpf_fd'' t___u32,
        Fld ''info_len'' t___u32,
        Fld ''info'' t___u64]),
      Fld ''query'' (CStruct '''' [Fld '''' (CUnion '''' [Fld ''target_fd'' t___u32,
          Fld ''target_ifindex'' t___u32]),
        Fld ''attach_type'' t___u32,
        Fld ''query_flags'' t___u32,
        Fld ''attach_flags'' t___u32,
        Fld ''prog_ids'' t___u64,
        Fld '''' (CUnion '''' [Fld ''prog_cnt'' t___u32,
          Fld ''count'' t___u32]),
        Fld ''prog_attach_flags'' t___u64,
        Fld ''link_ids'' t___u64,
        Fld ''link_attach_flags'' t___u64,
        Fld ''revision'' t___u64]),
      Fld ''raw_tracepoint'' (CStruct '''' [Fld ''name'' t___u64,
        Fld ''prog_fd'' t___u32,
        Fld ''cookie'' t___u64]),
      Fld '''' (CStruct '''' [Fld ''btf'' t___u64,
        Fld ''btf_log_buf'' t___u64,
        Fld ''btf_size'' t___u32,
        Fld ''btf_log_size'' t___u32,
        Fld ''btf_log_level'' t___u32,
        Fld ''btf_log_true_size'' t___u32,
        Fld ''btf_flags'' t___u32,
        Fld ''btf_token_fd'' t___s32]),
      Fld ''task_fd_query'' (CStruct '''' [Fld ''pid'' t___u32,
        Fld ''fd'' t___u32,
        Fld ''flags'' t___u32,
        Fld ''buf_len'' t___u32,
        Fld ''buf'' t___u64,
        Fld ''prog_id'' t___u32,
        Fld ''fd_type'' t___u32,
        Fld ''probe_offset'' t___u64,
        Fld ''probe_addr'' t___u64]),
      Fld ''link_create'' (CStruct '''' [Fld '''' (CUnion '''' [Fld ''prog_fd'' t___u32,
          Fld ''map_fd'' t___u32]),
        Fld '''' (CUnion '''' [Fld ''target_fd'' t___u32,
          Fld ''target_ifindex'' t___u32]),
        Fld ''attach_type'' t___u32,
        Fld ''flags'' t___u32,
        Fld '''' (CUnion '''' [Fld ''target_btf_id'' t___u32,
          Fld '''' (CStruct '''' [Fld ''iter_info'' t___u64,
            Fld ''iter_info_len'' t___u32]),
          Fld ''perf_event'' (CStruct '''' [Fld ''bpf_cookie'' t___u64]),
          Fld ''kprobe_multi'' (CStruct '''' [Fld ''flags'' t___u32,
            Fld ''cnt'' t___u32,
            Fld ''syms'' t___u64,
            Fld ''addrs'' t___u64,
            Fld ''cookies'' t___u64]),
          Fld ''tracing'' (CStruct '''' [Fld ''target_btf_id'' t___u32,
            Fld ''cookie'' t___u64]),
          Fld ''netfilter'' (CStruct '''' [Fld ''pf'' t___u32,
            Fld ''hooknum'' t___u32,
            Fld ''priority'' t___s32,
            Fld ''flags'' t___u32]),
          Fld ''tcx'' (CStruct '''' [Fld '''' (CUnion '''' [Fld ''relative_fd'' t___u32,
              Fld ''relative_id'' t___u32]),
            Fld ''expected_revision'' t___u64]),
          Fld ''uprobe_multi'' (CStruct '''' [Fld ''path'' t___u64,
            Fld ''offsets'' t___u64,
            Fld ''ref_ctr_offsets'' t___u64,
            Fld ''cookies'' t___u64,
            Fld ''cnt'' t___u32,
            Fld ''flags'' t___u32,
            Fld ''pid'' t___u32]),
          Fld ''netkit'' (CStruct '''' [Fld '''' (CUnion '''' [Fld ''relative_fd'' t___u32,
              Fld ''relative_id'' t___u32]),
            Fld ''expected_revision'' t___u64])])]),
      Fld ''link_update'' (CStruct '''' [Fld ''link_fd'' t___u32,
        Fld '''' (CUnion '''' [Fld ''new_prog_fd'' t___u32,
          Fld ''new_map_fd'' t___u32]),
        Fld ''flags'' t___u32,
        Fld '''' (CUnion '''' [Fld ''old_prog_fd'' t___u32,
          Fld ''old_map_fd'' t___u32])]),
      Fld ''link_detach'' (CStruct '''' [Fld ''link_fd'' t___u32]),
      Fld ''enable_stats'' (CStruct '''' [Fld ''type'' t___u32]),
      Fld ''iter_create'' (CStruct '''' [Fld ''link_fd'' t___u32,
        Fld ''flags'' t___u32]),
      Fld ''prog_bind_map'' (CStruct '''' [Fld ''prog_fd'' t___u32,
        Fld ''map_fd'' t___u32,
        Fld ''flags'' t___u32]),
      Fld ''token_create'' (CStruct '''' [Fld ''flags'' t___u32,
        Fld ''bpffs_fd'' t___u32])]"

lemma u_bpf_attr_sa [simp]: "size_of u_bpf_attr = 152" "align_of u_bpf_attr = 8" "wf_type u_bpf_attr"
  by (simp_all add: u_bpf_attr_def c_layout del: One_nat_def)

definition s_bpf_map :: ctype where
  "s_bpf_map = CStruct ''bpf_map'' [Fld ''ops'' (CPtr ''const struct bpf_map_ops''),
      Fld ''inner_map_meta'' (CPtr ''struct bpf_map''),
      Fld ''security'' (CPtr ''void''),
      Fld ''map_type'' e_bpf_map_type,
      Fld ''key_size'' t_u32,
      Fld ''value_size'' t_u32,
      Fld ''max_entries'' t_u32,
      Fld ''map_extra'' t_u64,
      Fld ''map_flags'' t_u32,
      Fld ''id'' t_u32,
      Fld ''record'' (CPtr ''struct btf_record''),
      Fld ''numa_node'' c_int,
      Fld ''btf_key_type_id'' t_u32,
      Fld ''btf_value_type_id'' t_u32,
      Fld ''btf_vmlinux_value_type_id'' t_u32,
      Fld ''btf'' (CPtr ''struct btf''),
      Fld ''objcg'' (CPtr ''struct obj_cgroup''),
      Fld ''name'' (CArr c_char 16),
      Fld ''freeze_mutex'' s_mutex,
      Fld ''refcnt'' t_atomic64_t,
      Fld ''usercnt'' t_atomic64_t,
      Fld '''' (CUnion '''' [Fld ''work'' s_work_struct,
        Fld ''rcu'' s_callback_head]),
      Fld ''writecnt'' t_atomic64_t,
      Fld ''owner_lock'' t_spinlock_t,
      Fld ''owner'' (CPtr ''struct bpf_map_owner''),
      Fld ''bypass_spec_v1'' t_bool,
      Fld ''frozen'' t_bool,
      Fld ''free_after_mult_rcu_gp'' t_bool,
      Fld ''free_after_rcu_gp'' t_bool,
      Fld ''sleepable_refcnt'' t_atomic64_t,
      Fld ''elem_count'' (CPtr ''s64''),
      Fld ''cookie'' t_u64]"

lemma s_bpf_map_sa [simp]: "size_of s_bpf_map = 248" "align_of s_bpf_map = 8" "wf_type s_bpf_map"
  by (simp_all add: s_bpf_map_def c_layout del: One_nat_def)

definition s_bpf_map_ops_f1 :: "cfield list" where
  "s_bpf_map_ops_f1 =
    [Fld ''map_alloc_check'' (CPtr ''fn: int''),
      Fld ''map_alloc'' (CPtr ''fn: struct bpf_map ptr''),
      Fld ''map_release'' (CPtr ''fn: void''),
      Fld ''map_free'' (CPtr ''fn: void''),
      Fld ''map_get_next_key'' (CPtr ''fn: int''),
      Fld ''map_release_uref'' (CPtr ''fn: void''),
      Fld ''map_lookup_elem_sys_only'' (CPtr ''fn: void ptr''),
      Fld ''map_lookup_batch'' (CPtr ''fn: int''),
      Fld ''map_lookup_and_delete_elem'' (CPtr ''fn: int''),
      Fld ''map_lookup_and_delete_batch'' (CPtr ''fn: int''),
      Fld ''map_update_batch'' (CPtr ''fn: int''),
      Fld ''map_delete_batch'' (CPtr ''fn: int''),
      Fld ''map_lookup_elem'' (CPtr ''fn: void ptr''),
      Fld ''map_update_elem'' (CPtr ''fn: long int''),
      Fld ''map_delete_elem'' (CPtr ''fn: long int''),
      Fld ''map_push_elem'' (CPtr ''fn: long int''),
      Fld ''map_pop_elem'' (CPtr ''fn: long int''),
      Fld ''map_peek_elem'' (CPtr ''fn: long int''),
      Fld ''map_lookup_percpu_elem'' (CPtr ''fn: void ptr''),
      Fld ''map_fd_get_ptr'' (CPtr ''fn: void ptr''),
      Fld ''map_fd_put_ptr'' (CPtr ''fn: void''),
      Fld ''map_gen_lookup'' (CPtr ''fn: int''),
      Fld ''map_fd_sys_lookup_elem'' (CPtr ''fn: u32''),
      Fld ''map_seq_show_elem'' (CPtr ''fn: void''),
      Fld ''map_check_btf'' (CPtr ''fn: int''),
      Fld ''map_poke_track'' (CPtr ''fn: int''),
      Fld ''map_poke_untrack'' (CPtr ''fn: void''),
      Fld ''map_poke_run'' (CPtr ''fn: void''),
      Fld ''map_direct_value_addr'' (CPtr ''fn: int''),
      Fld ''map_direct_value_meta'' (CPtr ''fn: int''),
      Fld ''map_mmap'' (CPtr ''fn: int''),
      Fld ''map_poll'' (CPtr ''fn: __poll_t''),
      Fld ''map_get_unmapped_area'' (CPtr ''fn: long unsigned int''),
      Fld ''map_local_storage_charge'' (CPtr ''fn: int''),
      Fld ''map_local_storage_uncharge'' (CPtr ''fn: void''),
      Fld ''map_owner_storage_ptr'' (CPtr ''fn: struct bpf_local_storage ptr ptr'')]"

lemma s_bpf_map_ops_f1_lay [layout]: "lay s_bpf_map_ops_f1 0 = 2304" "fields_align s_bpf_map_ops_f1 = 8" "wf_fields s_bpf_map_ops_f1"
  by (simp_all add: s_bpf_map_ops_f1_def c_layout del: One_nat_def)

definition s_bpf_map_ops_f2 :: "cfield list" where
  "s_bpf_map_ops_f2 =
    [Fld ''map_redirect'' (CPtr ''fn: long int''),
      Fld ''map_meta_equal'' (CPtr ''fn: bool''),
      Fld ''map_set_for_each_callback_args'' (CPtr ''fn: int''),
      Fld ''map_for_each_callback'' (CPtr ''fn: long int''),
      Fld ''map_mem_usage'' (CPtr ''fn: u64''),
      Fld ''map_btf_id'' (CPtr ''int''),
      Fld ''iter_seq_info'' (CPtr ''const struct bpf_iter_seq_info'')]"

lemma s_bpf_map_ops_f2_lay [layout]: "lay s_bpf_map_ops_f2 2304 = 2752" "fields_align s_bpf_map_ops_f2 = 8" "wf_fields s_bpf_map_ops_f2"
  by (simp_all add: s_bpf_map_ops_f2_def c_layout del: One_nat_def)

definition s_bpf_map_ops :: ctype where
  "s_bpf_map_ops = CStruct ''bpf_map_ops'' (s_bpf_map_ops_f1 @ s_bpf_map_ops_f2)"

lemma s_bpf_map_ops_sa [simp]: "size_of s_bpf_map_ops = 344" "align_of s_bpf_map_ops = 8" "wf_type s_bpf_map_ops"
  by (simp_all add: s_bpf_map_ops_def c_layout layout wf_fields_append lay_append fields_align_append del: One_nat_def)

definition s_bpf_mem_alloc :: ctype where
  "s_bpf_mem_alloc = CStruct ''bpf_mem_alloc'' [Fld ''caches'' (CPtr ''struct bpf_mem_caches''),
      Fld ''cache'' (CPtr ''struct bpf_mem_cache''),
      Fld ''objcg'' (CPtr ''struct obj_cgroup''),
      Fld ''percpu'' t_bool,
      Fld ''work'' s_work_struct]"

lemma s_bpf_mem_alloc_sa [simp]: "size_of s_bpf_mem_alloc = 64" "align_of s_bpf_mem_alloc = 8" "wf_type s_bpf_mem_alloc"
  by (simp_all add: s_bpf_mem_alloc_def c_layout del: One_nat_def)

definition s_pcpu_freelist_head :: ctype where
  "s_pcpu_freelist_head = CStruct ''pcpu_freelist_head'' [Fld ''first'' (CPtr ''struct pcpu_freelist_node''),
      Fld ''lock'' t_raw_spinlock_t]"

lemma s_pcpu_freelist_head_sa [simp]: "size_of s_pcpu_freelist_head = 16" "align_of s_pcpu_freelist_head = 8" "wf_type s_pcpu_freelist_head"
  by (simp_all add: s_pcpu_freelist_head_def c_layout del: One_nat_def)

definition s_pcpu_freelist :: ctype where
  "s_pcpu_freelist = CStruct ''pcpu_freelist'' [Fld ''freelist'' (CPtr ''struct pcpu_freelist_head''),
      Fld ''extralist'' s_pcpu_freelist_head]"

lemma s_pcpu_freelist_sa [simp]: "size_of s_pcpu_freelist = 24" "align_of s_pcpu_freelist = 8" "wf_type s_pcpu_freelist"
  by (simp_all add: s_pcpu_freelist_def c_layout del: One_nat_def)

definition s_bpf_lru_list :: ctype where
  "s_bpf_lru_list = CStruct ''bpf_lru_list'' [Fld ''lists'' (CArr s_list_head 3),
      Fld ''counts'' (CArr c_uint 2),
      Fld ''next_inactive_rotation'' (CPtr ''struct list_head''),
      Fld ''lock'' t_raw_spinlock_t,
      Bits '''' c_long 64,
      Bits '''' c_long 64,
      Bits '''' c_long 64,
      Bits '''' c_long 64,
      Bits '''' c_long 64,
      Bits '''' c_long 64,
      Bits '''' c_long 64]"

lemma s_bpf_lru_list_sa [simp]: "size_of s_bpf_lru_list = 128" "align_of s_bpf_lru_list = 8" "wf_type s_bpf_lru_list"
  by (simp_all add: s_bpf_lru_list_def c_layout del: One_nat_def)

definition s_bpf_common_lru :: ctype where
  "s_bpf_common_lru = CStruct ''bpf_common_lru'' [Fld ''lru_list'' s_bpf_lru_list,
      Fld ''local_list'' (CPtr ''struct bpf_lru_locallist''),
      Bits '''' c_long 64,
      Bits '''' c_long 64,
      Bits '''' c_long 64,
      Bits '''' c_long 64,
      Bits '''' c_long 64,
      Bits '''' c_long 64,
      Bits '''' c_long 64]"

lemma s_bpf_common_lru_sa [simp]: "size_of s_bpf_common_lru = 192" "align_of s_bpf_common_lru = 8" "wf_type s_bpf_common_lru"
  by (simp_all add: s_bpf_common_lru_def c_layout del: One_nat_def)

definition t_del_from_htab_func :: ctype where
  "t_del_from_htab_func = CPtr ''fn: bool''"

lemma t_del_from_htab_func_sa [simp]: "size_of t_del_from_htab_func = 8" "align_of t_del_from_htab_func = 8" "wf_type t_del_from_htab_func"
  by (simp_all add: t_del_from_htab_func_def c_layout del: One_nat_def)

definition s_bpf_lru :: ctype where
  "s_bpf_lru = CStruct ''bpf_lru'' [Fld '''' (CUnion '''' [Fld ''common_lru'' s_bpf_common_lru,
        Fld ''percpu_lru'' (CPtr ''struct bpf_lru_list'')]),
      Fld ''del_from_htab'' t_del_from_htab_func,
      Fld ''del_arg'' (CPtr ''void''),
      Fld ''hash_offset'' c_uint,
      Fld ''target_free'' c_uint,
      Fld ''nr_scans'' c_uint,
      Fld ''percpu'' t_bool,
      Bits '''' c_long 64,
      Bits '''' c_long 64,
      Bits '''' c_long 64,
      Bits '''' c_long 64]"

lemma s_bpf_lru_sa [simp]: "size_of s_bpf_lru = 256" "align_of s_bpf_lru = 8" "wf_type s_bpf_lru"
  by (simp_all add: s_bpf_lru_def c_layout del: One_nat_def)

definition s_bpf_htab :: ctype where
  "s_bpf_htab = CStruct ''bpf_htab'' [Fld ''map'' s_bpf_map,
      Fld ''ma'' s_bpf_mem_alloc,
      Fld ''pcpu_ma'' s_bpf_mem_alloc,
      Fld ''buckets'' (CPtr ''struct bucket''),
      Fld ''elems'' (CPtr ''void''),
      Bits '''' c_long 64,
      Bits '''' c_long 64,
      Bits '''' c_long 64,
      Bits '''' c_long 64,
      Bits '''' c_long 64,
      Bits '''' c_long 64,
      Bits '''' c_long 64,
      Fld '''' (CUnion '''' [Fld ''freelist'' s_pcpu_freelist,
        Fld ''lru'' s_bpf_lru]),
      Fld ''extra_elems'' (CPtr ''struct htab_elem ptr''),
      Fld ''pcount'' s_percpu_counter,
      Fld ''count'' t_atomic_t,
      Fld ''use_percpu_counter'' t_bool,
      Fld ''n_buckets'' t_u32,
      Fld ''elem_size'' t_u32,
      Fld ''hashrnd'' t_u32,
      Fld ''lockdep_key'' s_lock_class_key,
      Fld ''map_locked'' (CArr (CPtr ''int'') 8),
      Bits '''' c_long 64,
      Bits '''' c_long 64,
      Bits '''' c_long 64,
      Bits '''' c_long 64,
      Bits '''' c_long 64,
      Bits '''' c_long 64,
      Bits '''' c_long 64]"

lemma s_bpf_htab_sa [simp]: "size_of s_bpf_htab = 896" "align_of s_bpf_htab = 8" "wf_type s_bpf_htab"
  by (simp_all add: s_bpf_htab_def c_layout del: One_nat_def)

definition e_bpf_return_type :: ctype where
  "e_bpf_return_type = CEnum ''bpf_return_type'' 4 [(''RET_INTEGER'', 0),
      (''RET_VOID'', 1),
      (''RET_PTR_TO_MAP_VALUE'', 2),
      (''RET_PTR_TO_SOCKET'', 3),
      (''RET_PTR_TO_TCP_SOCK'', 4),
      (''RET_PTR_TO_SOCK_COMMON'', 5),
      (''RET_PTR_TO_MEM'', 6),
      (''RET_PTR_TO_MEM_OR_BTF_ID'', 7),
      (''RET_PTR_TO_BTF_ID'', 8),
      (''__BPF_RET_TYPE_MAX'', 9),
      (''RET_PTR_TO_MAP_VALUE_OR_NULL'', 258),
      (''RET_PTR_TO_SOCKET_OR_NULL'', 259),
      (''RET_PTR_TO_TCP_SOCK_OR_NULL'', 260),
      (''RET_PTR_TO_SOCK_COMMON_OR_NULL'', 261),
      (''RET_PTR_TO_RINGBUF_MEM_OR_NULL'', 1286),
      (''RET_PTR_TO_DYNPTR_MEM_OR_NULL'', 262),
      (''RET_PTR_TO_BTF_ID_OR_NULL'', 264),
      (''RET_PTR_TO_BTF_ID_TRUSTED'', 1048584),
      (''__BPF_RET_TYPE_LIMIT'', 134217727)]"

lemma e_bpf_return_type_sa [simp]: "size_of e_bpf_return_type = 4" "align_of e_bpf_return_type = 4" "wf_type e_bpf_return_type"
  by (simp_all add: e_bpf_return_type_def c_layout del: One_nat_def)

definition e_bpf_arg_type :: ctype where
  "e_bpf_arg_type = CEnum ''bpf_arg_type'' 4 [(''ARG_DONTCARE'', 0),
      (''ARG_CONST_MAP_PTR'', 1),
      (''ARG_PTR_TO_MAP_KEY'', 2),
      (''ARG_PTR_TO_MAP_VALUE'', 3),
      (''ARG_PTR_TO_MEM'', 4),
      (''ARG_PTR_TO_ARENA'', 5),
      (''ARG_CONST_SIZE'', 6),
      (''ARG_CONST_SIZE_OR_ZERO'', 7),
      (''ARG_PTR_TO_CTX'', 8),
      (''ARG_ANYTHING'', 9),
      (''ARG_PTR_TO_SPIN_LOCK'', 10),
      (''ARG_PTR_TO_SOCK_COMMON'', 11),
      (''ARG_PTR_TO_SOCKET'', 12),
      (''ARG_PTR_TO_BTF_ID'', 13),
      (''ARG_PTR_TO_RINGBUF_MEM'', 14),
      (''ARG_CONST_ALLOC_SIZE_OR_ZERO'', 15),
      (''ARG_PTR_TO_BTF_ID_SOCK_COMMON'', 16),
      (''ARG_PTR_TO_PERCPU_BTF_ID'', 17),
      (''ARG_PTR_TO_FUNC'', 18),
      (''ARG_PTR_TO_STACK'', 19),
      (''ARG_PTR_TO_CONST_STR'', 20),
      (''ARG_PTR_TO_TIMER'', 21),
      (''ARG_KPTR_XCHG_DEST'', 22),
      (''ARG_PTR_TO_DYNPTR'', 23),
      (''__BPF_ARG_TYPE_MAX'', 24),
      (''ARG_PTR_TO_MAP_VALUE_OR_NULL'', 259),
      (''ARG_PTR_TO_MEM_OR_NULL'', 260),
      (''ARG_PTR_TO_CTX_OR_NULL'', 264),
      (''ARG_PTR_TO_SOCKET_OR_NULL'', 268),
      (''ARG_PTR_TO_STACK_OR_NULL'', 275),
      (''ARG_PTR_TO_BTF_ID_OR_NULL'', 269),
      (''ARG_PTR_TO_UNINIT_MEM'', 67141636),
      (''ARG_PTR_TO_FIXED_SIZE_MEM'', 262148),
      (''__BPF_ARG_TYPE_LIMIT'', 134217727)]"

lemma e_bpf_arg_type_sa [simp]: "size_of e_bpf_arg_type = 4" "align_of e_bpf_arg_type = 4" "wf_type e_bpf_arg_type"
  by (simp_all add: e_bpf_arg_type_def c_layout del: One_nat_def)

definition s_bpf_func_proto :: ctype where
  "s_bpf_func_proto = CStruct ''bpf_func_proto'' [Fld ''func'' (CPtr ''fn: u64''),
      Fld ''gpl_only'' t_bool,
      Fld ''pkt_access'' t_bool,
      Fld ''might_sleep'' t_bool,
      Fld ''allow_fastcall'' t_bool,
      Fld ''ret_type'' e_bpf_return_type,
      Fld '''' (CUnion '''' [Fld '''' (CStruct '''' [Fld ''arg1_type'' e_bpf_arg_type,
          Fld ''arg2_type'' e_bpf_arg_type,
          Fld ''arg3_type'' e_bpf_arg_type,
          Fld ''arg4_type'' e_bpf_arg_type,
          Fld ''arg5_type'' e_bpf_arg_type]),
        Fld ''arg_type'' (CArr e_bpf_arg_type 5)]),
      Fld '''' (CUnion '''' [Fld '''' (CStruct '''' [Fld ''arg1_btf_id'' (CPtr ''u32''),
          Fld ''arg2_btf_id'' (CPtr ''u32''),
          Fld ''arg3_btf_id'' (CPtr ''u32''),
          Fld ''arg4_btf_id'' (CPtr ''u32''),
          Fld ''arg5_btf_id'' (CPtr ''u32'')]),
        Fld ''arg_btf_id'' (CArr (CPtr ''u32'') 5),
        Fld '''' (CStruct '''' [Fld ''arg1_size'' t_size_t,
          Fld ''arg2_size'' t_size_t,
          Fld ''arg3_size'' t_size_t,
          Fld ''arg4_size'' t_size_t,
          Fld ''arg5_size'' t_size_t]),
        Fld ''arg_size'' (CArr t_size_t 5)]),
      Fld ''ret_btf_id'' (CPtr ''int''),
      Fld ''allowed'' (CPtr ''fn: bool'')]"

lemma s_bpf_func_proto_sa [simp]: "size_of s_bpf_func_proto = 96" "align_of s_bpf_func_proto = 8" "wf_type s_bpf_func_proto"
  by (simp_all add: s_bpf_func_proto_def c_layout del: One_nat_def)

definition s_sock_filter :: ctype where
  "s_sock_filter = CStruct ''sock_filter'' [Fld ''code'' t___u16,
      Fld ''jt'' t___u8,
      Fld ''jf'' t___u8,
      Fld ''k'' t___u32]"

lemma s_sock_filter_sa [simp]: "size_of s_sock_filter = 8" "align_of s_sock_filter = 4" "wf_type s_sock_filter"
  by (simp_all add: s_sock_filter_def c_layout del: One_nat_def)

definition s_bpf_prog :: ctype where
  "s_bpf_prog = CStruct ''bpf_prog'' [Fld ''pages'' t_u16,
      Bits ''jited'' t_u16 1,
      Bits ''jit_requested'' t_u16 1,
      Bits ''gpl_compatible'' t_u16 1,
      Bits ''cb_access'' t_u16 1,
      Bits ''dst_needed'' t_u16 1,
      Bits ''blinding_requested'' t_u16 1,
      Bits ''blinded'' t_u16 1,
      Bits ''is_func'' t_u16 1,
      Bits ''kprobe_override'' t_u16 1,
      Bits ''has_callchain_buf'' t_u16 1,
      Bits ''enforce_expected_attach_type'' t_u16 1,
      Bits ''call_get_stack'' t_u16 1,
      Bits ''call_get_func_ip'' t_u16 1,
      Bits ''tstamp_type_access'' t_u16 1,
      Bits ''sleepable'' t_u16 1,
      Fld ''type'' e_bpf_prog_type,
      Fld ''expected_attach_type'' e_bpf_attach_type,
      Fld ''len'' t_u32,
      Fld ''jited_len'' t_u32,
      Fld ''tag'' (CArr t_u8 8),
      Fld ''stats'' (CPtr ''struct bpf_prog_stats''),
      Fld ''active'' (CPtr ''int''),
      Fld ''bpf_func'' (CPtr ''fn: unsigned int''),
      Fld ''aux'' (CPtr ''struct bpf_prog_aux''),
      Fld ''orig_prog'' (CPtr ''struct sock_fprog_kern''),
      Fld '''' (CUnion '''' [Fld '''' (CStruct '''' [Fld ''__empty_insns'' (CStruct '''' []),
          Fld ''insns'' (CArr s_sock_filter 0)]),
        Fld '''' (CStruct '''' [Fld ''__empty_insnsi'' (CStruct '''' []),
          Fld ''insnsi'' (CArr s_bpf_insn 0)])])]"

lemma s_bpf_prog_sa [simp]: "size_of s_bpf_prog = 72" "align_of s_bpf_prog = 8" "wf_type s_bpf_prog"
  by (simp_all add: s_bpf_prog_def c_layout del: One_nat_def)

definition s_latch_tree_node :: ctype where
  "s_latch_tree_node = CStruct ''latch_tree_node'' [Fld ''node'' (CArr s_rb_node 2)]"

lemma s_latch_tree_node_sa [simp]: "size_of s_latch_tree_node = 48" "align_of s_latch_tree_node = 8" "wf_type s_latch_tree_node"
  by (simp_all add: s_latch_tree_node_def c_layout del: One_nat_def)

definition s_bpf_ksym :: ctype where
  "s_bpf_ksym = CStruct ''bpf_ksym'' [Fld ''start'' c_ulong,
      Fld ''end'' c_ulong,
      Fld ''name'' (CArr c_char 512),
      Fld ''lnode'' s_list_head,
      Fld ''tnode'' s_latch_tree_node,
      Fld ''prog'' t_bool]"

lemma s_bpf_ksym_sa [simp]: "size_of s_bpf_ksym = 600" "align_of s_bpf_ksym = 8" "wf_type s_bpf_ksym"
  by (simp_all add: s_bpf_ksym_def c_layout del: One_nat_def)

definition s_bpf_prog_aux_f1 :: "cfield list" where
  "s_bpf_prog_aux_f1 =
    [Fld ''refcnt'' t_atomic64_t,
      Fld ''used_map_cnt'' t_u32,
      Fld ''used_btf_cnt'' t_u32,
      Fld ''max_ctx_offset'' t_u32,
      Fld ''max_pkt_offset'' t_u32,
      Fld ''max_tp_access'' t_u32,
      Fld ''stack_depth'' t_u32,
      Fld ''id'' t_u32,
      Fld ''func_cnt'' t_u32,
      Fld ''real_func_cnt'' t_u32,
      Fld ''func_idx'' t_u32,
      Fld ''attach_btf_id'' t_u32,
      Fld ''ctx_arg_info_size'' t_u32,
      Fld ''max_rdonly_access'' t_u32,
      Fld ''max_rdwr_access'' t_u32,
      Fld ''attach_btf'' (CPtr ''struct btf''),
      Fld ''ctx_arg_info'' (CPtr ''const struct bpf_ctx_arg_aux''),
      Fld ''dst_mutex'' s_mutex,
      Fld ''dst_prog'' (CPtr ''struct bpf_prog''),
      Fld ''dst_trampoline'' (CPtr ''struct bpf_trampoline''),
      Fld ''saved_dst_prog_type'' e_bpf_prog_type,
      Fld ''saved_dst_attach_type'' e_bpf_attach_type,
      Fld ''verifier_zext'' t_bool,
      Fld ''dev_bound'' t_bool,
      Fld ''offload_requested'' t_bool,
      Fld ''attach_btf_trace'' t_bool,
      Fld ''attach_tracing_prog'' t_bool,
      Fld ''func_proto_unreliable'' t_bool,
      Fld ''tail_call_reachable'' t_bool,
      Fld ''xdp_has_frags'' t_bool,
      Fld ''exception_cb'' t_bool,
      Fld ''exception_boundary'' t_bool,
      Fld ''is_extended'' t_bool,
      Fld ''changes_pkt_data'' t_bool,
      Fld ''prog_array_member_cnt'' t_u64,
      Fld ''ext_mutex'' s_mutex]"

lemma s_bpf_prog_aux_f1_lay [layout]: "lay s_bpf_prog_aux_f1 0 = 1536" "fields_align s_bpf_prog_aux_f1 = 8" "wf_fields s_bpf_prog_aux_f1"
  by (simp_all add: s_bpf_prog_aux_f1_def c_layout del: One_nat_def)

definition s_bpf_prog_aux_f2 :: "cfield list" where
  "s_bpf_prog_aux_f2 =
    [Fld ''arena'' (CPtr ''struct bpf_arena''),
      Fld ''attach_func_proto'' (CPtr ''const struct btf_type''),
      Fld ''attach_func_name'' (CPtr ''const char''),
      Fld ''func'' (CPtr ''struct bpf_prog ptr''),
      Fld ''jit_data'' (CPtr ''void''),
      Fld ''poke_tab'' (CPtr ''struct bpf_jit_poke_descriptor''),
      Fld ''kfunc_tab'' (CPtr ''struct bpf_kfunc_desc_tab''),
      Fld ''kfunc_btf_tab'' (CPtr ''struct bpf_kfunc_btf_tab''),
      Fld ''size_poke_tab'' t_u32,
      Fld ''ksym'' s_bpf_ksym,
      Fld ''ops'' (CPtr ''const struct bpf_prog_ops''),
      Fld ''used_maps'' (CPtr ''struct bpf_map ptr''),
      Fld ''used_maps_mutex'' s_mutex,
      Fld ''used_btfs'' (CPtr ''struct btf_mod_pair''),
      Fld ''prog'' (CPtr ''struct bpf_prog''),
      Fld ''user'' (CPtr ''struct user_struct''),
      Fld ''load_time'' t_u64,
      Fld ''verified_insns'' t_u32,
      Fld ''cgroup_atype'' c_int,
      Fld ''cgroup_storage'' (CArr (CPtr ''struct bpf_map'') 2),
      Fld ''name'' (CArr c_char 16),
      Fld ''bpf_exception_cb'' (CPtr ''fn: u64''),
      Fld ''security'' (CPtr ''void''),
      Fld ''token'' (CPtr ''struct bpf_token''),
      Fld ''offload'' (CPtr ''struct bpf_prog_offload''),
      Fld ''btf'' (CPtr ''struct btf''),
      Fld ''func_info'' (CPtr ''struct bpf_func_info''),
      Fld ''func_info_aux'' (CPtr ''struct bpf_func_info_aux''),
      Fld ''linfo'' (CPtr ''struct bpf_line_info''),
      Fld ''jited_linfo'' (CPtr ''void ptr''),
      Fld ''func_info_cnt'' t_u32,
      Fld ''nr_linfo'' t_u32,
      Fld ''linfo_idx'' t_u32,
      Fld ''mod'' (CPtr ''struct module''),
      Fld ''num_exentries'' t_u32,
      Fld ''extable'' (CPtr ''struct exception_table_entry'')]"

lemma s_bpf_prog_aux_f2_lay [layout]: "lay s_bpf_prog_aux_f2 1536 = 8768" "fields_align s_bpf_prog_aux_f2 = 8" "wf_fields s_bpf_prog_aux_f2"
  by (simp_all add: s_bpf_prog_aux_f2_def c_layout del: One_nat_def)

definition s_bpf_prog_aux_f3 :: "cfield list" where
  "s_bpf_prog_aux_f3 =
    [Fld '''' (CUnion '''' [Fld ''work'' s_work_struct,
        Fld ''rcu'' s_callback_head])]"

lemma s_bpf_prog_aux_f3_lay [layout]: "lay s_bpf_prog_aux_f3 8768 = 9024" "fields_align s_bpf_prog_aux_f3 = 8" "wf_fields s_bpf_prog_aux_f3"
  by (simp_all add: s_bpf_prog_aux_f3_def c_layout del: One_nat_def)

definition s_bpf_prog_aux :: ctype where
  "s_bpf_prog_aux = CStruct ''bpf_prog_aux'' (s_bpf_prog_aux_f1 @ s_bpf_prog_aux_f2 @ s_bpf_prog_aux_f3)"

lemma s_bpf_prog_aux_sa [simp]: "size_of s_bpf_prog_aux = 1128" "align_of s_bpf_prog_aux = 8" "wf_type s_bpf_prog_aux"
  by (simp_all add: s_bpf_prog_aux_def c_layout layout wf_fields_append lay_append fields_align_append del: One_nat_def)

definition s_bpf_verifier_ops :: ctype where
  "s_bpf_verifier_ops = CStruct ''bpf_verifier_ops'' [Fld ''get_func_proto'' (CPtr ''fn: const struct bpf_func_proto ptr''),
      Fld ''is_valid_access'' (CPtr ''fn: bool''),
      Fld ''gen_prologue'' (CPtr ''fn: int''),
      Fld ''gen_epilogue'' (CPtr ''fn: int''),
      Fld ''gen_ld_abs'' (CPtr ''fn: int''),
      Fld ''convert_ctx_access'' (CPtr ''fn: u32''),
      Fld ''btf_struct_access'' (CPtr ''fn: int'')]"

lemma s_bpf_verifier_ops_sa [simp]: "size_of s_bpf_verifier_ops = 56" "align_of s_bpf_verifier_ops = 8" "wf_type s_bpf_verifier_ops"
  by (simp_all add: s_bpf_verifier_ops_def c_layout del: One_nat_def)

definition s_fred_cs :: ctype where
  "s_fred_cs = CStruct ''fred_cs'' [Bits ''cs'' t_u64 16,
      Bits ''sl'' t_u64 2,
      Bits ''wfe'' t_u64 1]"

lemma s_fred_cs_sa [simp]: "size_of s_fred_cs = 8" "align_of s_fred_cs = 8" "wf_type s_fred_cs"
  by (simp_all add: s_fred_cs_def c_layout del: One_nat_def)

definition s_fred_ss :: ctype where
  "s_fred_ss = CStruct ''fred_ss'' [Bits ''ss'' t_u64 16,
      Bits ''sti'' t_u64 1,
      Bits ''swevent'' t_u64 1,
      Bits ''nmi'' t_u64 1,
      Bits '''' c_int 13,
      Bits ''vector'' t_u64 8,
      Bits '''' c_short 8,
      Bits ''type'' t_u64 4,
      Bits '''' c_char 4,
      Bits ''enclave'' t_u64 1,
      Bits ''lm'' t_u64 1,
      Bits ''nested'' t_u64 1,
      Bits '''' c_char 1,
      Bits ''insnlen'' t_u64 4]"

lemma s_fred_ss_sa [simp]: "size_of s_fred_ss = 8" "align_of s_fred_ss = 8" "wf_type s_fred_ss"
  by (simp_all add: s_fred_ss_def c_layout del: One_nat_def)

definition s_pt_regs :: ctype where
  "s_pt_regs = CStruct ''pt_regs'' [Fld ''r15'' c_ulong,
      Fld ''r14'' c_ulong,
      Fld ''r13'' c_ulong,
      Fld ''r12'' c_ulong,
      Fld ''bp'' c_ulong,
      Fld ''bx'' c_ulong,
      Fld ''r11'' c_ulong,
      Fld ''r10'' c_ulong,
      Fld ''r9'' c_ulong,
      Fld ''r8'' c_ulong,
      Fld ''ax'' c_ulong,
      Fld ''cx'' c_ulong,
      Fld ''dx'' c_ulong,
      Fld ''si'' c_ulong,
      Fld ''di'' c_ulong,
      Fld ''orig_ax'' c_ulong,
      Fld ''ip'' c_ulong,
      Fld '''' (CUnion '''' [Fld ''cs'' t_u16,
        Fld ''csx'' t_u64,
        Fld ''fred_cs'' s_fred_cs]),
      Fld ''flags'' c_ulong,
      Fld ''sp'' c_ulong,
      Fld '''' (CUnion '''' [Fld ''ss'' t_u16,
        Fld ''ssx'' t_u64,
        Fld ''fred_ss'' s_fred_ss])]"

lemma s_pt_regs_sa [simp]: "size_of s_pt_regs = 168" "align_of s_pt_regs = 8" "wf_type s_pt_regs"
  by (simp_all add: s_pt_regs_def c_layout del: One_nat_def)

definition s_bpf_trace_run_ctx :: ctype where
  "s_bpf_trace_run_ctx = CStruct ''bpf_trace_run_ctx'' [Fld ''run_ctx'' s_bpf_run_ctx,
      Fld ''bpf_cookie'' t_u64,
      Fld ''is_uprobe'' t_bool]"

lemma s_bpf_trace_run_ctx_sa [simp]: "size_of s_bpf_trace_run_ctx = 16" "align_of s_bpf_trace_run_ctx = 8" "wf_type s_bpf_trace_run_ctx"
  by (simp_all add: s_bpf_trace_run_ctx_def c_layout del: One_nat_def)

definition s_bpf_raw_event_map :: ctype where
  "s_bpf_raw_event_map = CStruct ''bpf_raw_event_map'' [Fld ''tp'' (CPtr ''struct tracepoint''),
      Fld ''bpf_func'' (CPtr ''void''),
      Fld ''num_args'' t_u32,
      Fld ''writable_size'' t_u32,
      Bits '''' c_long 64]"

lemma s_bpf_raw_event_map_sa [simp]: "size_of s_bpf_raw_event_map = 32" "align_of s_bpf_raw_event_map = 8" "wf_type s_bpf_raw_event_map"
  by (simp_all add: s_bpf_raw_event_map_def c_layout del: One_nat_def)

definition s_btf_header :: ctype where
  "s_btf_header = CStruct ''btf_header'' [Fld ''magic'' t___u16,
      Fld ''version'' t___u8,
      Fld ''flags'' t___u8,
      Fld ''hdr_len'' t___u32,
      Fld ''type_off'' t___u32,
      Fld ''type_len'' t___u32,
      Fld ''str_off'' t___u32,
      Fld ''str_len'' t___u32]"

lemma s_btf_header_sa [simp]: "size_of s_btf_header = 24" "align_of s_btf_header = 4" "wf_type s_btf_header"
  by (simp_all add: s_btf_header_def c_layout del: One_nat_def)

definition s_btf :: ctype where
  "s_btf = CStruct ''btf'' [Fld ''data'' (CPtr ''void''),
      Fld ''types'' (CPtr ''struct btf_type ptr''),
      Fld ''resolved_ids'' (CPtr ''u32''),
      Fld ''resolved_sizes'' (CPtr ''u32''),
      Fld ''strings'' (CPtr ''const char''),
      Fld ''nohdr_data'' (CPtr ''void''),
      Fld ''hdr'' s_btf_header,
      Fld ''nr_types'' t_u32,
      Fld ''types_size'' t_u32,
      Fld ''data_size'' t_u32,
      Fld ''refcnt'' t_refcount_t,
      Fld ''id'' t_u32,
      Fld ''rcu'' s_callback_head,
      Fld ''kfunc_set_tab'' (CPtr ''struct btf_kfunc_set_tab''),
      Fld ''dtor_kfunc_tab'' (CPtr ''struct btf_id_dtor_kfunc_tab''),
      Fld ''struct_meta_tab'' (CPtr ''struct btf_struct_metas''),
      Fld ''struct_ops_tab'' (CPtr ''struct btf_struct_ops_tab''),
      Fld ''base_btf'' (CPtr ''struct btf''),
      Fld ''start_id'' t_u32,
      Fld ''start_str_off'' t_u32,
      Fld ''name'' (CArr c_char 56),
      Fld ''kernel_btf'' t_bool,
      Fld ''base_id_map'' (CPtr ''__u32'')]"

lemma s_btf_sa [simp]: "size_of s_btf = 232" "align_of s_btf = 8" "wf_type s_btf"
  by (simp_all add: s_btf_def c_layout del: One_nat_def)

end
