(* ===== verification/CgroupPath.thy ===== *)
theory CgroupPath
  imports Prelude
begin

text \<open>
  \<open>collector/cgroup_classifier.go\<close> and \<open>collector/kube_path_parser.go\<close>: what kind of cgroup a path
  names, and which pod, container and runtime it carries. Strings are byte strings; the three regular
  expressions have a fixed length, so a leftmost match is the first position at which every byte is
  in its class.
\<close>

section \<open>The classifier\<close>

datatype CgroupKind =
    CgroupKindHost | CgroupKindSystemd | CgroupKindContainer | CgroupKindKubernetes
  | CgroupKindUnknown

text \<open>The constants' string values, \<open>string(kind)\<close>.\<close>

fun kind_string :: "CgroupKind \<Rightarrow> string" where
  "kind_string CgroupKindHost = ''host''"
| "kind_string CgroupKindSystemd = ''systemd''"
| "kind_string CgroupKindContainer = ''container''"
| "kind_string CgroupKindKubernetes = ''kubernetes''"
| "kind_string CgroupKindUnknown = ''unknown''"

definition ClassifyCgroupPath :: "string \<Rightarrow> CgroupKind" where
  "ClassifyCgroupPath path =
     (if path = '''' \<or> path = ''<desconocido>'' then CgroupKindUnknown
      else if path = ''/sys/fs/cgroup'' then CgroupKindHost
      else if contains path ''kubepods'' then CgroupKindKubernetes
      else if contains path ''containerd'' \<or> contains path ''docker'' \<or>
              contains path ''cri-containerd'' then CgroupKindContainer
      else if contains path ''.slice'' \<or> contains path ''system.slice'' \<or>
              contains path ''user.slice'' \<or> contains path ''init.scope'' then CgroupKindSystemd
      else CgroupKindUnknown)"

section \<open>The regular expressions\<close>

type_synonym class_seq = "(char \<Rightarrow> bool) list"

definition hex :: "char \<Rightarrow> bool" where
  "hex c \<longleftrightarrow> c \<in> set ''0123456789abcdef''"

definition lits :: "string \<Rightarrow> class_seq" where
  "lits s = map (\<lambda>c x. x = c) s"

definition hexes :: "nat \<Rightarrow> class_seq" where
  "hexes n = replicate n hex"

definition uid_pattern :: "char \<Rightarrow> class_seq" where
  "uid_pattern sep =
     hexes 8 @ lits [sep] @ hexes 4 @ lits [sep] @ hexes 4 @ lits [sep] @ hexes 4 @ lits [sep] @ hexes 12"

definition rePodUIDDashed :: class_seq where
  "rePodUIDDashed = lits ''pod'' @ uid_pattern CHR ''-''"

definition rePodUIDUnderscore :: class_seq where
  "rePodUIDUnderscore = lits ''pod'' @ uid_pattern CHR ''_''"

definition reContainerID :: class_seq where
  "reContainerID = hexes 64"

text \<open>The text at the head of \<open>s\<close> that the classes match.\<close>

fun match_here :: "class_seq \<Rightarrow> string \<Rightarrow> string option" where
  "match_here [] s = Some []"
| "match_here (p # ps) [] = None"
| "match_here (p # ps) (c # cs) =
     (if p c then map_option ((#) c) (match_here ps cs) else None)"

text \<open>The leftmost match.\<close>

fun find_match :: "class_seq \<Rightarrow> string \<Rightarrow> string option" where
  "find_match ps [] = match_here ps []"
| "find_match ps (c # cs) =
     (case match_here ps (c # cs) of Some m \<Rightarrow> Some m | None \<Rightarrow> find_match ps cs)"

section \<open>The parser\<close>

record KubePathInfo =
  IsKubernetes :: bool
  PodUID :: string
  ContainerID :: string
  Runtime :: string

definition ParseKubePath :: "string \<Rightarrow> KubePathInfo" where
  "ParseKubePath path =
     \<lparr>IsKubernetes = contains path ''kubepods'',
      PodUID =
        (case find_match rePodUIDDashed path of
           Some m \<Rightarrow> drop 3 m
         | None \<Rightarrow>
             (case find_match rePodUIDUnderscore path of
                Some m \<Rightarrow> map (\<lambda>c. if c = CHR ''_'' then CHR ''-'' else c) (drop 3 m)
              | None \<Rightarrow> '''')),
      ContainerID = (case find_match reContainerID path of Some m \<Rightarrow> m | None \<Rightarrow> ''''),
      Runtime =
        (if contains path ''containerd'' \<or> contains path ''cri-containerd'' then ''containerd''
         else if contains path ''docker'' then ''docker'' else '''')\<rparr>"

section \<open>Lemmas on matching\<close>

lemma match_here_iff:
  "match_here ps s = Some m \<longleftrightarrow> m = take (length ps) s \<and> list_all2 (\<lambda>p c. p c) ps m"
proof (induction ps s arbitrary: m rule: match_here.induct)
  case (3 p ps c cs)
  then show ?case by (auto simp: list_all2_Cons1)
qed auto

lemma match_here_None:
  "match_here ps s = None \<longleftrightarrow> \<not> list_all2 (\<lambda>p c. p c) ps (take (length ps) s)"
  by (metis match_here_iff not_Some_eq)

lemma match_here_append:
  "list_all2 (\<lambda>p c. p c) ps m \<Longrightarrow> match_here ps (m @ s) = Some m"
  by (simp add: match_here_iff list_all2_lengthD)

lemma match_here_sound:
  "match_here ps s = Some m \<Longrightarrow> list_all2 (\<lambda>p c. p c) ps m \<and> (\<exists>b. s = m @ b)"
  by (metis match_here_iff append_take_drop_id)

lemma find_match_sound:
  "find_match ps s = Some m \<Longrightarrow> list_all2 (\<lambda>p c. p c) ps m \<and> (\<exists>a b. s = a @ m @ b)"
proof (induction ps s rule: find_match.induct)
  case (1 ps)
  then show ?case by (auto dest: match_here_sound)
next
  case (2 ps c cs)
  show ?case
  proof (cases "match_here ps (c # cs)")
    case None
    with 2 obtain a b where "list_all2 (\<lambda>p c. p c) ps m" "cs = a @ m @ b" by auto
    then show ?thesis by (metis append_Cons)
  next
    case (Some m')
    with "2.prems" have "match_here ps (c # cs) = Some m" by simp
    then show ?thesis by (metis match_here_sound append_Nil)
  qed
qed

text \<open>
  \<open>blocked ps a\<close>: at every position of \<open>a\<close> the pattern fails on a byte of \<open>a\<close>, whatever follows.
\<close>

fun fails_within :: "class_seq \<Rightarrow> string \<Rightarrow> bool" where
  "fails_within [] s = False"
| "fails_within ps [] = False"
| "fails_within (p # ps) (c # cs) = (\<not> p c \<or> fails_within ps cs)"

fun blocked :: "class_seq \<Rightarrow> string \<Rightarrow> bool" where
  "blocked ps [] = True"
| "blocked ps (c # cs) = (fails_within ps (c # cs) \<and> blocked ps cs)"

lemma fails_within_append: "fails_within ps a \<Longrightarrow> fails_within ps (a @ s)"
  by (induction ps a rule: fails_within.induct) auto

lemma fails_within_match: "fails_within ps a \<Longrightarrow> match_here ps (a @ s) = None"
  by (induction ps a rule: fails_within.induct) auto

lemma blocked_append: "blocked ps a \<Longrightarrow> blocked ps b \<Longrightarrow> blocked ps (a @ b)"
proof (induction a)
  case (Cons c cs)
  then show ?case using fails_within_append [of ps "c # cs" b] by simp
qed simp

lemma find_match_blocked: "blocked ps a \<Longrightarrow> find_match ps (a @ s) = find_match ps s"
proof (induction a)
  case (Cons c cs)
  then show ?case using fails_within_match [of ps "c # cs" s] by simp
qed simp

lemma find_match_none: "blocked ps a \<Longrightarrow> ps \<noteq> [] \<Longrightarrow> find_match ps a = None"
  using find_match_blocked [of ps a "[]"] by (cases ps) simp_all

lemma blocked_head: "ps \<noteq> [] \<Longrightarrow> \<forall>c \<in> set a. \<not> hd ps c \<Longrightarrow> blocked ps a"
proof (induction a)
  case (Cons c cs)
  then show ?case by (cases ps) auto
qed simp

text \<open>A byte outside the class blocks a run of the class that is longer than what precedes it.\<close>

lemma fails_within_replicate:
  "length a < n \<Longrightarrow> \<not> p c \<Longrightarrow> fails_within (replicate n p) (a @ c # b)"
proof (induction a arbitrary: n)
  case Nil
  then show ?case by (cases n) simp_all
next
  case (Cons x a)
  then show ?case by (cases n) simp_all
qed

lemma blocked_replicate:
  "length a < n \<Longrightarrow> \<not> p c \<Longrightarrow> blocked (replicate n p) (a @ [c])"
proof (induction a)
  case Nil
  then show ?case by (cases n) simp_all
next
  case (Cons x a)
  then show ?case using fails_within_replicate [of "x # a" n p c "[]"] by simp
qed

lemma find_match_here:
  "list_all2 (\<lambda>p c. p c) ps m \<Longrightarrow> find_match ps (m @ s) = Some m"
  by (cases "m @ s") (auto simp: match_here_append dest: match_here_append [of ps m s])

section \<open>Pod UIDs\<close>

definition pod_uid :: "string \<Rightarrow> bool" where
  "pod_uid u \<longleftrightarrow> list_all2 (\<lambda>p c. p c) (uid_pattern CHR ''-'') u"

definition container_id :: "string \<Rightarrow> bool" where
  "container_id c \<longleftrightarrow> length c = 64 \<and> (\<forall>x \<in> set c. hex x)"

definition underscored :: "string \<Rightarrow> string" where
  "underscored u = map (\<lambda>c. if c = CHR ''-'' then CHR ''_'' else c) u"

definition dashed :: "string \<Rightarrow> string" where
  "dashed u = map (\<lambda>c. if c = CHR ''_'' then CHR ''-'' else c) u"

lemma hex_not_sep: "hex c \<Longrightarrow> c \<noteq> CHR ''_'' \<and> c \<noteq> CHR ''-'' \<and> c \<noteq> CHR ''|'' \<and> c \<noteq> CHR ''p''"
  by (auto simp: hex_def)

lemma list_all2_hexes: "list_all2 (\<lambda>p c. p c) (hexes n) s \<longleftrightarrow> length s = n \<and> (\<forall>c \<in> set s. hex c)"
  unfolding hexes_def
proof (induction n arbitrary: s)
  case (Suc n)
  then show ?case by (cases s) auto
qed auto

lemma list_all2_lits: "list_all2 (\<lambda>p c. p c) (lits l) s \<longleftrightarrow> s = l"
proof (induction l arbitrary: s)
  case (Cons c l)
  then show ?case by (cases s) (auto simp: lits_def)
qed (simp add: lits_def)

lemma hexes_group:
  assumes "list_all2 (\<lambda>p c. p c) (hexes n @ lits [sep] @ ps) s"
  obtains a r where "s = a @ [sep] @ r" "length a = n \<and> (\<forall>x \<in> set a. hex x)"
    "list_all2 (\<lambda>p c. p c) ps r"
proof -
  from assms obtain a t where 1: "s = a @ t" "list_all2 (\<lambda>p c. p c) (hexes n) a"
    "list_all2 (\<lambda>p c. p c) (lits [sep] @ ps) t"
    by (metis list_all2_append1)
  from 1(3) obtain l r where 2: "t = l @ r" "list_all2 (\<lambda>p c. p c) (lits [sep]) l"
    "list_all2 (\<lambda>p c. p c) ps r"
    by (metis list_all2_append1)
  show thesis
    by (rule that [of a r]) (use 1 2 in \<open>simp_all add: list_all2_hexes list_all2_lits\<close>)
qed

text \<open>The five groups of a UID.\<close>

lemma uid_split:
  "list_all2 (\<lambda>p c. p c) (uid_pattern sep) u \<longleftrightarrow>
     (\<exists>a b c d e. u = a @ [sep] @ b @ [sep] @ c @ [sep] @ d @ [sep] @ e \<and>
        length a = 8 \<and> length b = 4 \<and> length c = 4 \<and> length d = 4 \<and> length e = 12 \<and>
        (\<forall>x \<in> set (a @ b @ c @ d @ e). hex x))"
proof
  assume "list_all2 (\<lambda>p c. p c) (uid_pattern sep) u"
  then obtain a r1 where 1: "u = a @ [sep] @ r1" "length a = 8 \<and> (\<forall>x \<in> set a. hex x)"
    "list_all2 (\<lambda>p c. p c) (hexes 4 @ lits [sep] @ hexes 4 @ lits [sep] @ hexes 4 @ lits [sep] @ hexes 12) r1"
    unfolding uid_pattern_def by (rule hexes_group)
  from 1(3) obtain b r2 where 2: "r1 = b @ [sep] @ r2" "length b = 4 \<and> (\<forall>x \<in> set b. hex x)"
    "list_all2 (\<lambda>p c. p c) (hexes 4 @ lits [sep] @ hexes 4 @ lits [sep] @ hexes 12) r2"
    by (rule hexes_group)
  from 2(3) obtain c r3 where 3: "r2 = c @ [sep] @ r3" "length c = 4 \<and> (\<forall>x \<in> set c. hex x)"
    "list_all2 (\<lambda>p c. p c) (hexes 4 @ lits [sep] @ hexes 12) r3"
    by (rule hexes_group)
  from 3(3) obtain d e where 4: "r3 = d @ [sep] @ e" "length d = 4 \<and> (\<forall>x \<in> set d. hex x)"
    "list_all2 (\<lambda>p c. p c) (hexes 12) e"
    by (rule hexes_group)
  have 5: "length e = 12 \<and> (\<forall>x \<in> set e. hex x)" using 4(3) by (simp add: list_all2_hexes)
  show "\<exists>a b c d e. u = a @ [sep] @ b @ [sep] @ c @ [sep] @ d @ [sep] @ e \<and>
        length a = 8 \<and> length b = 4 \<and> length c = 4 \<and> length d = 4 \<and> length e = 12 \<and>
        (\<forall>x \<in> set (a @ b @ c @ d @ e). hex x)"
  proof (intro exI conjI)
    show "u = a @ [sep] @ b @ [sep] @ c @ [sep] @ d @ [sep] @ e"
      unfolding 1(1) 2(1) 3(1) 4(1) append_assoc ..
    show "\<forall>x \<in> set (a @ b @ c @ d @ e). hex x"
      using 1(2) 2(2) 3(2) 4(2) 5 unfolding set_append by blast
  qed (use 1(2) 2(2) 3(2) 4(2) 5 in blast)+
next
  assume "\<exists>a b c d e. u = a @ [sep] @ b @ [sep] @ c @ [sep] @ d @ [sep] @ e \<and>
        length a = 8 \<and> length b = 4 \<and> length c = 4 \<and> length d = 4 \<and> length e = 12 \<and>
        (\<forall>x \<in> set (a @ b @ c @ d @ e). hex x)"
  then obtain a b c d e where u: "u = a @ [sep] @ b @ [sep] @ c @ [sep] @ d @ [sep] @ e"
    and len: "length a = 8" "length b = 4" "length c = 4" "length d = 4" "length e = 12"
    and hx: "\<forall>x \<in> set (a @ b @ c @ d @ e). hex x" by blast
  have "list_all2 (\<lambda>p c. p c) (hexes 8) a" "list_all2 (\<lambda>p c. p c) (hexes 4) b"
    "list_all2 (\<lambda>p c. p c) (hexes 4) c" "list_all2 (\<lambda>p c. p c) (hexes 4) d"
    "list_all2 (\<lambda>p c. p c) (hexes 12) e" "list_all2 (\<lambda>p c. p c) (lits [sep]) [sep]"
    using len hx by (simp_all add: list_all2_hexes list_all2_lits)
  then show "list_all2 (\<lambda>p c. p c) (uid_pattern sep) u"
    unfolding u uid_pattern_def by (intro list_all2_appendI)
qed

lemma map_hex_id:
  assumes "\<forall>x \<in> set s. hex x" and "\<And>c. hex c \<Longrightarrow> f c = c"
  shows "map f s = s"
  using assms by (simp add: map_idI)

lemma dashed_uid:
  assumes "list_all2 (\<lambda>p c. p c) (uid_pattern CHR ''_'') u"
  shows "pod_uid (dashed u)"
proof -
  from assms obtain a b c d e where u: "u = a @ ''_'' @ b @ ''_'' @ c @ ''_'' @ d @ ''_'' @ e"
    and len: "length a = 8" "length b = 4" "length c = 4" "length d = 4" "length e = 12"
    and hx: "\<forall>x \<in> set (a @ b @ c @ d @ e). hex x" unfolding uid_split by blast
  have "dashed s = s" if "\<forall>x \<in> set s. hex x" for s
    unfolding dashed_def using that by (rule map_hex_id) (auto dest: hex_not_sep)
  moreover have "dashed (x @ y) = dashed x @ dashed y" "dashed (CHR ''_'' # y) = CHR ''-'' # dashed y" for x y
    by (simp_all add: dashed_def)
  ultimately have "dashed u = a @ ''-'' @ b @ ''-'' @ c @ ''-'' @ d @ ''-'' @ e"
    using u hx by simp
  then show ?thesis
    unfolding pod_uid_def uid_split using len hx by blast
qed

lemma pod_uid_chars:
  assumes "pod_uid u" and "x \<in> set u"
  shows "hex x \<or> x = CHR ''-''"
proof -
  from assms(1) obtain a b c d e where "u = a @ ''-'' @ b @ ''-'' @ c @ ''-'' @ d @ ''-'' @ e"
    and hx: "\<forall>x \<in> set (a @ b @ c @ d @ e). hex x" unfolding pod_uid_def uid_split by blast
  with assms(2) have "x \<in> set (a @ b @ c @ d @ e) \<or> x = CHR ''-''"
    unfolding set_append by (simp only: set_append Un_iff list.set empty_iff insert_iff) blast
  with hx show ?thesis by blast
qed

lemma dashed_underscored: "pod_uid u \<Longrightarrow> dashed (underscored u) = u"
proof -
  assume "pod_uid u"
  then have "c \<noteq> CHR ''_''" if "c \<in> set u" for c
    using pod_uid_chars [OF _ that] by (auto dest: hex_not_sep)
  then show ?thesis by (simp add: dashed_def underscored_def comp_def map_idI)
qed

lemma underscored_uid:
  assumes "pod_uid u"
  shows "list_all2 (\<lambda>p c. p c) (uid_pattern CHR ''_'') (underscored u)"
proof -
  from assms obtain a b c d e where u: "u = a @ ''-'' @ b @ ''-'' @ c @ ''-'' @ d @ ''-'' @ e"
    and len: "length a = 8" "length b = 4" "length c = 4" "length d = 4" "length e = 12"
    and hx: "\<forall>x \<in> set (a @ b @ c @ d @ e). hex x" unfolding pod_uid_def uid_split by blast
  have "underscored s = s" if "\<forall>x \<in> set s. hex x" for s
    unfolding underscored_def using that by (rule map_hex_id) (auto dest: hex_not_sep)
  moreover have "underscored (x @ y) = underscored x @ underscored y"
    "underscored (CHR ''-'' # y) = CHR ''_'' # underscored y" for x y
    by (simp_all add: underscored_def)
  ultimately have "underscored u = a @ ''_'' @ b @ ''_'' @ c @ ''_'' @ d @ ''_'' @ e"
    using u hx by simp
  then show ?thesis unfolding uid_split using len hx by blast
qed

lemma pod_uid_length: "pod_uid u \<Longrightarrow> length u = 36"
  unfolding pod_uid_def
  by (drule list_all2_lengthD) (simp add: uid_pattern_def hexes_def lits_def)

section \<open>What is matched and what is missed\<close>

lemma find_match_app: "list_all2 (\<lambda>p c. p c) ps m \<Longrightarrow> find_match ps (a @ m @ b) \<noteq> None"
proof (induction a)
  case Nil
  then show ?case by (simp add: find_match_here)
next
  case (Cons c a)
  then show ?case by (simp split: option.splits)
qed

lemma find_match_None_iff:
  "find_match ps s = None \<longleftrightarrow> (\<nexists>m. list_all2 (\<lambda>p c. p c) ps m \<and> contains s m)"
  unfolding contains_iff using find_match_app find_match_sound by (metis option.exhaust)

lemma find_match_SomeD:
  "find_match ps s = Some m \<Longrightarrow> list_all2 (\<lambda>p c. p c) ps m \<and> contains s m"
  unfolding contains_iff by (rule find_match_sound)

lemma lits_append_match:
  "list_all2 (\<lambda>p c. p c) (lits l @ ps) m \<longleftrightarrow> (\<exists>u. m = l @ u \<and> list_all2 (\<lambda>p c. p c) ps u)"
  unfolding list_all2_append1 list_all2_lits
  by (auto simp: lits_def list_all2_conv_all_nth)

lemma dashed_match:
  "list_all2 (\<lambda>p c. p c) rePodUIDDashed m \<longleftrightarrow> (\<exists>u. m = ''pod'' @ u \<and> pod_uid u)"
  unfolding rePodUIDDashed_def lits_append_match pod_uid_def ..

lemma underscored_dashed:
  assumes "list_all2 (\<lambda>p c. p c) (uid_pattern CHR ''_'') u"
  shows "underscored (dashed u) = u"
proof -
  from assms obtain a b c d e where u: "u = a @ ''_'' @ b @ ''_'' @ c @ ''_'' @ d @ ''_'' @ e"
    and hx: "\<forall>x \<in> set (a @ b @ c @ d @ e). hex x" unfolding uid_split by blast
  have "x \<noteq> CHR ''-''" if "x \<in> set u" for x
  proof -
    from that u have "x \<in> set (a @ b @ c @ d @ e) \<or> x = CHR ''_''"
      by (simp only: set_append Un_iff list.set empty_iff insert_iff) blast
    with hx show ?thesis by (auto dest: hex_not_sep)
  qed
  then show ?thesis by (simp add: dashed_def underscored_def comp_def map_idI)
qed

lemma underscore_match:
  "list_all2 (\<lambda>p c. p c) rePodUIDUnderscore m \<longleftrightarrow> (\<exists>u. m = ''pod'' @ underscored u \<and> pod_uid u)"
  unfolding rePodUIDUnderscore_def lits_append_match
  by (metis underscored_dashed dashed_uid underscored_uid)

lemma container_match: "list_all2 (\<lambda>p c. p c) reContainerID m \<longleftrightarrow> container_id m"
  by (simp add: reContainerID_def list_all2_hexes container_id_def)

text \<open>The path spells the UID in one of the two forms the kubelet's cgroup drivers use.\<close>

definition spells_uid :: "string \<Rightarrow> string \<Rightarrow> bool" where
  "spells_uid path u \<longleftrightarrow>
     pod_uid u \<and> (contains path (''pod'' @ u) \<or> contains path (''pod'' @ underscored u))"

lemma PodUID_cases:
  "PodUID (ParseKubePath path) = '''' \<and> (\<nexists>u. spells_uid path u) \<or>
   spells_uid path (PodUID (ParseKubePath path))"
proof (cases "find_match rePodUIDDashed path")
  case (Some m)
  then obtain u where "m = ''pod'' @ u" "pod_uid u" "contains path m"
    using find_match_SomeD dashed_match by metis
  with Some show ?thesis by (simp add: ParseKubePath_def spells_uid_def)
next
  case None
  then have nd: "\<nexists>u. pod_uid u \<and> contains path (''pod'' @ u)"
    unfolding find_match_None_iff dashed_match by blast
  show ?thesis
  proof (cases "find_match rePodUIDUnderscore path")
    case (Some m)
    then obtain u where u: "m = ''pod'' @ underscored u" "pod_uid u" "contains path m"
      using find_match_SomeD underscore_match by metis
    then have "PodUID (ParseKubePath path) = dashed (underscored u)"
      using None Some by (simp add: ParseKubePath_def dashed_def)
    with u show ?thesis by (simp add: spells_uid_def dashed_underscored)
  next
    case n: None
    then have "\<nexists>u. pod_uid u \<and> contains path (''pod'' @ underscored u)"
      unfolding find_match_None_iff underscore_match by blast
    with nd None n show ?thesis by (auto simp: ParseKubePath_def spells_uid_def)
  qed
qed

lemma ContainerID_cases:
  "ContainerID (ParseKubePath path) = '''' \<and> (\<nexists>c. container_id c \<and> contains path c) \<or>
   container_id (ContainerID (ParseKubePath path)) \<and> contains path (ContainerID (ParseKubePath path))"
proof (cases "find_match reContainerID path")
  case (Some m)
  then show ?thesis
    using find_match_SomeD [OF Some] by (simp add: ParseKubePath_def container_match)
next
  case None
  then have "\<nexists>c. container_id c \<and> contains path c"
    unfolding find_match_None_iff container_match .
  with None show ?thesis by (simp add: ParseKubePath_def)
qed

lemma not_empty_uid: "pod_uid u \<Longrightarrow> u \<noteq> ''''"
  by (drule pod_uid_length) auto

lemma PodUID_no_bar: "CHR ''|'' \<notin> set (PodUID (ParseKubePath path))"
  using PodUID_cases [of path] pod_uid_chars [of "PodUID (ParseKubePath path)" "CHR ''|''"]
  by (auto simp: spells_uid_def dest: hex_not_sep)

lemma ContainerID_no_bar: "CHR ''|'' \<notin> set (ContainerID (ParseKubePath path))"
  using ContainerID_cases [of path] by (auto simp: container_id_def dest: hex_not_sep)

text \<open>
  C15: \<open>ParseKubePath\<close> finds a pod UID exactly when the path spells one after \<open>pod\<close>, with dashes
  or underscores, and then reports a well-formed, dashed UID that the path spells; it finds a
  container id exactly when the path has 64 hexadecimal digits in a row, and reports such a run.
\<close>

theorem parse_sound_complete:
  "(if \<exists>u. spells_uid path u then spells_uid path (PodUID (ParseKubePath path))
    else PodUID (ParseKubePath path) = '''') \<and>
   (if \<exists>c. container_id c \<and> contains path c
    then container_id (ContainerID (ParseKubePath path)) \<and> contains path (ContainerID (ParseKubePath path))
    else ContainerID (ParseKubePath path) = '''')"
proof -
  have "PodUID (ParseKubePath path) \<noteq> ''''" if "spells_uid path (PodUID (ParseKubePath path))"
    using that unfolding spells_uid_def by (blast dest: not_empty_uid)
  moreover have "ContainerID (ParseKubePath path) \<noteq> ''''"
    if "container_id (ContainerID (ParseKubePath path))"
    using that by (auto simp: container_id_def)
  ultimately show ?thesis
    using PodUID_cases [of path] ContainerID_cases [of path] by (simp split: if_splits) blast
qed

section \<open>Classifier and parser\<close>

lemma cri_containerd: "contains path ''cri-containerd'' \<Longrightarrow> contains path ''containerd''"
  by (erule contains_mono [of _ _ "''cri-''" _ "''''"]) simp

lemma some_slice:
  "contains path ''system.slice'' \<Longrightarrow> contains path ''.slice''"
  "contains path ''user.slice'' \<Longrightarrow> contains path ''.slice''"
  by (erule contains_mono [of _ _ "''system''" _ "''''"], simp)
    (erule contains_mono [of _ _ "''user''" _ "''''"], simp)

text \<open>The tests that decide: the classifier and the runtime of the parser without those a path can only pass with another.\<close>

definition classify_short :: "string \<Rightarrow> CgroupKind" where
  "classify_short path =
     (if path = '''' \<or> path = ''<desconocido>'' then CgroupKindUnknown
      else if path = ''/sys/fs/cgroup'' then CgroupKindHost
      else if contains path ''kubepods'' then CgroupKindKubernetes
      else if contains path ''containerd'' \<or> contains path ''docker'' then CgroupKindContainer
      else if contains path ''.slice'' \<or> contains path ''init.scope'' then CgroupKindSystemd
      else CgroupKindUnknown)"

definition runtime_short :: "string \<Rightarrow> string" where
  "runtime_short path =
     (if contains path ''containerd'' then ''containerd'' else if contains path ''docker'' then ''docker'' else '''')"

text \<open>
  C16: the two readings of a path agree: a path is classified as Kubernetes exactly when the parser
  says so, as a plain container exactly when it is not and the parser finds a runtime; and the
  classifier's tests for \<open>cri-containerd\<close>, \<open>system.slice\<close> and \<open>user.slice\<close> and the parser's for
  \<open>cri-containerd\<close> decide nothing: on every path both functions are the ones without these tests.
\<close>

theorem classify_agrees_with_parser:
  "(ClassifyCgroupPath path = CgroupKindKubernetes \<longleftrightarrow> IsKubernetes (ParseKubePath path)) \<and>
   (ClassifyCgroupPath path = CgroupKindContainer \<longleftrightarrow>
      \<not> IsKubernetes (ParseKubePath path) \<and> Runtime (ParseKubePath path) \<noteq> '''') \<and>
   (ClassifyCgroupPath path = CgroupKindSystemd \<longleftrightarrow>
      \<not> IsKubernetes (ParseKubePath path) \<and> Runtime (ParseKubePath path) = '''' \<and>
      (contains path ''.slice'' \<or> contains path ''init.scope'')) \<and>
   ClassifyCgroupPath path = classify_short path \<and> Runtime (ParseKubePath path) = runtime_short path"
proof -
  have "ClassifyCgroupPath path = classify_short path"
    using cri_containerd [of path] some_slice [of path] by (auto simp: ClassifyCgroupPath_def classify_short_def)
  moreover have "Runtime (ParseKubePath path) = runtime_short path"
    using cri_containerd [of path] by (auto simp: ParseKubePath_def runtime_short_def)
  moreover have "IsKubernetes (ParseKubePath path) \<longleftrightarrow> contains path ''kubepods''" by (simp add: ParseKubePath_def)
  ultimately show ?thesis by (auto simp: classify_short_def runtime_short_def)
qed

section \<open>Round trips of the kubelet's paths\<close>

lemma pod_uid_no_p: "pod_uid u \<Longrightarrow> CHR ''p'' \<notin> set u"
  using pod_uid_chars hex_not_sep by fastforce

lemma underscored_no_p: "CHR ''p'' \<notin> set u \<Longrightarrow> CHR ''p'' \<notin> set (underscored u)"
  by (auto simp: underscored_def split: if_splits)

lemma uid_pattern_ne:
  "lits ''pod'' @ ps \<noteq> []" "lits ''pod'' \<noteq> []" "hd (lits ''pod'' @ ps) c = (c = CHR ''p'')"
  "hd (lits ''pod'') c = (c = CHR ''p'')"
  by (simp_all add: lits_def)

lemma no_p_blocked: "CHR ''p'' \<notin> set a \<Longrightarrow> blocked (lits ''pod'' @ ps) a"
  by (rule blocked_head) (auto simp: uid_pattern_ne)

lemma fails_within_skip:
  "list_all2 (\<lambda>p c. p c) ps a \<Longrightarrow> fails_within (ps @ qs) (a @ b) = fails_within qs b"
proof (induction ps a rule: list_all2_induct)
  case (Cons p ps c a)
  then show ?case by simp
qed simp

text \<open>The dashed pattern fails on an underscored UID.\<close>

lemma dashed_blocked_underscored:
  assumes "pod_uid u"
  shows "blocked rePodUIDDashed (''pod'' @ underscored u)"
proof -
  from underscored_uid [OF assms] obtain a r where
    a: "underscored u = a @ ''_'' @ r" "length a = 8" "\<forall>x \<in> set a. hex x"
    unfolding uid_split by auto
  have "fails_within (uid_pattern CHR ''-'') (underscored u)"
    using a unfolding uid_pattern_def by (simp add: fails_within_skip list_all2_hexes lits_def)
  moreover have "blocked rePodUIDDashed (underscored u)"
    unfolding rePodUIDDashed_def
    by (intro no_p_blocked underscored_no_p pod_uid_no_p assms)
  ultimately show ?thesis by (simp add: rePodUIDDashed_def lits_def)
qed

text \<open>The two layouts: the systemd driver's scopes and the cgroupfs driver's directories.\<close>

definition systemd_path :: "string \<Rightarrow> string \<Rightarrow> string \<Rightarrow> string" where
  "systemd_path pre uid cid =
     pre @ ''pod'' @ underscored uid @ ''.slice/cri-containerd-'' @ cid @ ''.scope''"

definition cgroupfs_path :: "string \<Rightarrow> string \<Rightarrow> string \<Rightarrow> string" where
  "cgroupfs_path pre uid cid = pre @ ''pod'' @ uid @ ''/'' @ cid"

text \<open>A parent directory that names neither a pod nor a container itself.\<close>

definition plain_parent :: "string \<Rightarrow> bool" where
  "plain_parent pre \<longleftrightarrow>
     contains pre ''kubepods'' \<and> blocked rePodUIDDashed pre \<and> blocked rePodUIDUnderscore pre \<and>
     blocked reContainerID pre"

lemma uid_blocks_id:
  assumes "length u = 36" "length tail < 25" "\<not> hex c"
  shows "blocked reContainerID (''pod'' @ u @ tail @ [c])"
proof -
  have "blocked (replicate 64 hex) ((''pod'' @ u @ tail) @ [c])"
    by (rule blocked_replicate) (use assms in simp_all)
  then show ?thesis by (simp add: reContainerID_def hexes_def)
qed

lemma cid_no_p: "container_id cid \<Longrightarrow> CHR ''p'' \<notin> set cid"
  unfolding container_id_def using hex_not_sep by blast

lemma underscored_length: "length (underscored u) = length u"
  by (simp add: underscored_def)

lemma parse_systemd:
  assumes "plain_parent pre" and "pod_uid uid" and "container_id cid"
  shows "ParseKubePath (systemd_path pre uid cid) =
    \<lparr>IsKubernetes = True, PodUID = uid, ContainerID = cid, Runtime = ''containerd''\<rparr>"
proof -
  let ?sep = "''.slice/cri-containerd-''"
  let ?path = "systemd_path pre uid cid"
  have len: "length (underscored uid) = 36"
    using assms(2) by (simp add: underscored_length pod_uid_length)
  have scope: "blocked rePodUIDDashed ''.scope''"
    by (simp add: rePodUIDDashed_def lits_def)
  have "blocked rePodUIDDashed ?sep" "blocked rePodUIDDashed cid"
    unfolding rePodUIDDashed_def by (rule no_p_blocked, simp, rule no_p_blocked, rule cid_no_p, rule assms(3))
  with assms(1,2) scope have "blocked rePodUIDDashed ((pre @ (''pod'' @ underscored uid)) @ (?sep @ cid) @ ''.scope'')"
    unfolding plain_parent_def by (intro blocked_append dashed_blocked_underscored) blast+
  then have d: "find_match rePodUIDDashed ?path = None"
    by (intro find_match_none) (simp_all add: systemd_path_def rePodUIDDashed_def uid_pattern_ne)
  have "list_all2 (\<lambda>p c. p c) rePodUIDUnderscore (''pod'' @ underscored uid)"
    unfolding underscore_match using assms(2) by blast
  from find_match_here [OF this, of "?sep @ cid @ ''.scope''"]
  have u: "find_match rePodUIDUnderscore ?path = Some (''pod'' @ underscored uid)"
    using assms(1) by (simp add: systemd_path_def plain_parent_def find_match_blocked)
  have "blocked reContainerID (''pod'' @ underscored uid @ ''.slice/cri-containerd'' @ ''-'')"
    by (rule uid_blocks_id) (simp_all add: len hex_def)
  then have "blocked reContainerID (pre @ (''pod'' @ underscored uid @ ''.slice/cri-containerd'' @ ''-''))"
    by (rule blocked_append [rotated]) (use assms(1) in \<open>simp add: plain_parent_def\<close>)
  from find_match_blocked [OF this, of "cid @ ''.scope''"]
  have c: "find_match reContainerID ?path = Some cid"
    using find_match_here [of reContainerID cid "''.scope''"] assms(3)
    by (simp add: systemd_path_def container_match)
  have k: "contains ?path ''kubepods''"
    using assms(1) contains_append [of pre "''kubepods''" "[]"]
    by (simp add: systemd_path_def plain_parent_def)
  have "contains ?sep ''containerd''" by simp
  from contains_append [OF this, of "pre @ ''pod'' @ underscored uid" "cid @ ''.scope''"]
  have r: "contains ?path ''containerd''" by (simp add: systemd_path_def)
  have "map (\<lambda>c. if c = CHR ''_'' then CHR ''-'' else c) (drop 3 (''pod'' @ underscored uid)) = uid"
    using dashed_underscored [OF assms(2)] by (simp add: dashed_def)
  with d u c k r show ?thesis by (simp add: ParseKubePath_def)
qed

lemma parse_cgroupfs:
  assumes "plain_parent pre" and "pod_uid uid" and "container_id cid"
  shows "PodUID (ParseKubePath (cgroupfs_path pre uid cid)) = uid"
    and "ContainerID (ParseKubePath (cgroupfs_path pre uid cid)) = cid"
    and "IsKubernetes (ParseKubePath (cgroupfs_path pre uid cid))"
proof -
  let ?path = "cgroupfs_path pre uid cid"
  have "list_all2 (\<lambda>p c. p c) rePodUIDDashed (''pod'' @ uid)"
    unfolding dashed_match using assms(2) by blast
  from find_match_here [OF this, of "''/'' @ cid"]
  have "find_match rePodUIDDashed ?path = Some (''pod'' @ uid)"
    using assms(1) by (simp add: cgroupfs_path_def plain_parent_def find_match_blocked)
  then show "PodUID (ParseKubePath ?path) = uid" by (simp add: ParseKubePath_def)
  have "blocked reContainerID (''pod'' @ uid @ '''' @ ''/'')"
    by (rule uid_blocks_id) (simp_all add: assms(2) pod_uid_length hex_def)
  then have "blocked reContainerID (pre @ (''pod'' @ uid @ '''' @ ''/''))"
    by (rule blocked_append [rotated]) (use assms(1) in \<open>simp add: plain_parent_def\<close>)
  from find_match_blocked [OF this, of cid]
  have "find_match reContainerID ?path = Some cid"
    using find_match_here [of reContainerID cid "[]"] assms(3)
    by (simp add: cgroupfs_path_def container_match)
  then show "ContainerID (ParseKubePath ?path) = cid" by (simp add: ParseKubePath_def)
  show "IsKubernetes (ParseKubePath ?path)"
    using assms(1) contains_append [of pre "''kubepods''" "[]"]
    by (simp add: cgroupfs_path_def plain_parent_def ParseKubePath_def)
qed

text \<open>
  C17: whatever the pod and the container, the path the kubelet builds for them under the systemd or
  the cgroupfs driver, below a parent that names neither, parses back to this pod, this container
  and, for the systemd layout, the runtime; and it is classified as Kubernetes.
\<close>

theorem parse_roundtrip:
  assumes "plain_parent pre" and "pod_uid uid" and "container_id cid"
  shows "ParseKubePath (systemd_path pre uid cid) =
      \<lparr>IsKubernetes = True, PodUID = uid, ContainerID = cid, Runtime = ''containerd''\<rparr> \<and>
    PodUID (ParseKubePath (cgroupfs_path pre uid cid)) = uid \<and>
    ContainerID (ParseKubePath (cgroupfs_path pre uid cid)) = cid \<and>
    IsKubernetes (ParseKubePath (cgroupfs_path pre uid cid))"
  using parse_systemd [OF assms] parse_cgroupfs [OF assms] by blast

definition burstable_parent :: string where
  "burstable_parent = ''/sys/fs/cgroup/kubepods.slice/kubepods-burstable.slice/kubepods-burstable-''"

definition sample_uid :: string where
  "sample_uid = ''0a1b2c3d-4e5f-6789-abcd-ef0123456789''"

definition sample_cid :: string where
  "sample_cid = concat (replicate 4 ''0123456789abcdef'')"

theorem parse_roundtrip_witness:
  "ParseKubePath (systemd_path burstable_parent sample_uid sample_cid) =
      \<lparr>IsKubernetes = True, PodUID = sample_uid, ContainerID = sample_cid, Runtime = ''containerd''\<rparr> \<and>
    PodUID (ParseKubePath (cgroupfs_path burstable_parent sample_uid sample_cid)) = sample_uid \<and>
    ContainerID (ParseKubePath (cgroupfs_path burstable_parent sample_uid sample_cid)) = sample_cid \<and>
    IsKubernetes (ParseKubePath (cgroupfs_path burstable_parent sample_uid sample_cid))"
proof (rule parse_roundtrip)
  show "plain_parent burstable_parent"
    by code_simp
  show "pod_uid sample_uid" by code_simp
  show "container_id sample_cid" by code_simp
qed

end
