(* ===== verification/CgroupResolver.thy ===== *)
theory CgroupResolver
  imports CgroupPath
begin

text \<open>
  \<open>collector/cgroup_resolver.go\<close>: the table from cgroup ids to the directories of the cgroup file
  system. \<open>filepath.WalkDir\<close> is modelled by the calls it makes to its function; what it finds on
  disk and the \<open>name_to_handle_at\<close> system call are parameters.
\<close>

unbundle bit_operations_syntax

section \<open>File handles\<close>

text \<open>\<open>binary.LittleEndian.Uint64\<close>; the first byte is the low one.\<close>

fun little_endian :: "u8 list \<Rightarrow> u64" where
  "little_endian [] = 0"
| "little_endian (b # bs) = ucast b OR push_bit 8 (little_endian bs)"

text \<open>\<open>binary.NativeEndian.Uint64\<close>, on a machine whose byte order is given.\<close>

definition native_uint64 :: "bool \<Rightarrow> u8 list \<Rightarrow> u64" where
  "native_uint64 big_endian raw = little_endian (if big_endian then rev raw else raw)"

text \<open>
  \<open>name_to_handle_at\<close>: an error, or the bytes of the handle of the file at the path.
\<close>

type_synonym name_to_handle = "string \<Rightarrow> string + u8 list"

definition CgroupIDFromPath :: "bool \<Rightarrow> name_to_handle \<Rightarrow> string \<Rightarrow> string + u64" where
  "CgroupIDFromPath big_endian nth_at path =
     (case nth_at path of
        Inl err \<Rightarrow> Inl err
      | Inr raw \<Rightarrow>
          if length raw \<noteq> 8 then Inl (''file handle inesperado para '' @ path @ '': '' @ decimal (length raw) @ '' bytes'')
          else Inr (native_uint64 big_endian raw))"

section \<open>The resolver\<close>

record CgroupResolver =
  ByID :: "u64 \<rightharpoonup> string"

text \<open>
  One call of the function that \<open>WalkDir\<close> is given: the path, the directory flag of the entry, the
  error of the entry.
\<close>

record walk_call =
  wc_path :: string
  wc_is_dir :: bool
  wc_err :: "string option"

definition walk_fn ::
  "bool \<Rightarrow> name_to_handle \<Rightarrow> walk_call \<Rightarrow> CgroupResolver \<Rightarrow> string option \<times> CgroupResolver" where
  \<comment> \<open>the error the function returns, and the resolver after it\<close>
  "walk_fn big_endian nth_at call resolver =
     (if wc_err call \<noteq> None then (None, resolver)
      else if \<not> wc_is_dir call then (None, resolver)
      else case CgroupIDFromPath big_endian nth_at (wc_path call) of
             Inl err \<Rightarrow> (None, resolver)
           | Inr i \<Rightarrow> (None, resolver\<lparr>ByID := (ByID resolver)(i \<mapsto> wc_path call)\<rparr>))"

text \<open>\<open>WalkDir\<close> calls the function on each entry and stops at the first error it returns.\<close>

fun WalkDir :: "(walk_call \<Rightarrow> 's \<Rightarrow> string option \<times> 's) \<Rightarrow> walk_call list \<Rightarrow> 's \<Rightarrow> string option \<times> 's" where
  "WalkDir f [] s = (None, s)"
| "WalkDir f (c # cs) s =
     (case f c s of (Some e, s') \<Rightarrow> (Some e, s') | (None, s') \<Rightarrow> WalkDir f cs s')"

definition BuildCgroupResolver ::
  "bool \<Rightarrow> name_to_handle \<Rightarrow> walk_call list \<Rightarrow> string + CgroupResolver" where
  "BuildCgroupResolver big_endian nth_at calls =
     (case WalkDir (walk_fn big_endian nth_at) calls \<lparr>ByID = Map.empty\<rparr> of
        (Some err, _) \<Rightarrow> Inl err
      | (None, resolver) \<Rightarrow> Inr resolver)"

definition unknown_path :: string where
  "unknown_path = ''<desconocido>''"

definition Resolve :: "CgroupResolver \<Rightarrow> u64 \<Rightarrow> string" where
  "Resolve r i = (case ByID r i of Some path \<Rightarrow> path | None \<Rightarrow> unknown_path)"

section \<open>Handles and ids\<close>

text \<open>The bytes in which a machine stores the id.\<close>

definition little_bytes :: "u64 \<Rightarrow> u8 list" where
  "little_bytes i = map (\<lambda>n. ucast (drop_bit (8 * n) i)) [0, 1, 2, 3, 4, 5, 6, 7]"

definition native_bytes :: "bool \<Rightarrow> u64 \<Rightarrow> u8 list" where
  "native_bytes big_endian i = (if big_endian then rev (little_bytes i) else little_bytes i)"

lemma little_endian_split:
  fixes w :: u64
  shows "ucast (ucast w :: u8) OR push_bit 8 (take_bit (8 * m) (drop_bit 8 w)) = take_bit (8 * Suc m) w"
proof (rule bit_word_eqI)
  fix n assume n: "n < LENGTH(64)"
  show "bit (ucast (ucast w :: u8) OR push_bit 8 (take_bit (8 * m) (drop_bit 8 w))) n =
        bit (take_bit (8 * Suc m) w) n"
  proof (cases "n < 8")
    case True
    with n show ?thesis by (simp add: bit_or_iff bit_push_bit_iff bit_ucast_iff bit_take_bit_iff)
  next
    case False
    with n show ?thesis
      by (auto simp: bit_or_iff bit_push_bit_iff bit_ucast_iff bit_take_bit_iff bit_drop_bit_eq)
  qed
qed

lemma little_endian_upt:
  fixes i :: u64
  shows "little_endian (map (\<lambda>n. ucast (drop_bit (8 * n) i)) [k..<k + m]) =
         take_bit (8 * m) (drop_bit (8 * k) i)"
proof (induction m arbitrary: k)
  case (Suc m)
  have "[k..<k + Suc m] = k # [Suc k..<Suc k + m]" by (simp add: upt_rec)
  moreover have "drop_bit (8 * Suc k) i = drop_bit 8 (drop_bit (8 * k) i)" by simp
  ultimately show ?case
    using Suc.IH [of "Suc k"] little_endian_split [of "drop_bit (8 * k) i" m] by simp
qed simp

lemma little_endian_bytes: "little_endian (little_bytes i) = i"
proof -
  have "[0, 1, 2, 3, 4, 5, 6, 7] = [0..<0 + 8 :: nat]" by (simp add: upt_rec)
  then have "little_endian (little_bytes i) = take_bit (8 * 8) (drop_bit (8 * 0) i)"
    unfolding little_bytes_def using little_endian_upt [of i 0 8] by metis
  then show ?thesis by (simp add: take_bit_word_eq_self)
qed

lemma length_native_bytes: "length (native_bytes be i) = 8"
  by (simp add: native_bytes_def little_bytes_def)

lemma native_roundtrip: "native_uint64 be (native_bytes be i) = i"
  by (simp add: native_uint64_def native_bytes_def little_endian_bytes)

section \<open>What the walk leaves in the table\<close>

text \<open>The id a call contributes: of a directory that the walk could read and whose handle is an id.\<close>

definition found_id :: "bool \<Rightarrow> name_to_handle \<Rightarrow> walk_call \<Rightarrow> u64 option" where
  "found_id be nth_at c =
     (if wc_err c = None \<and> wc_is_dir c
      then (case CgroupIDFromPath be nth_at (wc_path c) of Inl _ \<Rightarrow> None | Inr i \<Rightarrow> Some i)
      else None)"

lemma walk_fn_found:
  "walk_fn be nth_at c r =
     (None, case found_id be nth_at c of
              None \<Rightarrow> r | Some i \<Rightarrow> r\<lparr>ByID := (ByID r)(i \<mapsto> wc_path c)\<rparr>)"
  by (auto simp: walk_fn_def found_id_def split: sum.splits)

lemma WalkDir_None: "fst (WalkDir (walk_fn be nth_at) cs r) = None"
  by (induction cs arbitrary: r) (simp_all add: walk_fn_found)

lemma WalkDir_snoc:
  "snd (WalkDir (walk_fn be nth_at) (cs @ [c]) r) =
   snd (walk_fn be nth_at c (snd (WalkDir (walk_fn be nth_at) cs r)))"
  by (induction cs arbitrary: r) (simp_all add: walk_fn_found)

lemma Build_eq:
  "BuildCgroupResolver be nth_at cs = Inr (snd (WalkDir (walk_fn be nth_at) cs \<lparr>ByID = Map.empty\<rparr>))"
  using WalkDir_None [of be nth_at cs "\<lparr>ByID = Map.empty\<rparr>"]
  by (auto simp: BuildCgroupResolver_def split: prod.splits)

text \<open>The last call with an id decides its path.\<close>

definition last_with_id :: "bool \<Rightarrow> name_to_handle \<Rightarrow> walk_call list \<Rightarrow> u64 \<Rightarrow> string \<Rightarrow> bool" where
  "last_with_id be nth_at cs i path \<longleftrightarrow>
     (\<exists>as c bs. cs = as @ c # bs \<and> found_id be nth_at c = Some i \<and> wc_path c = path \<and>
        (\<forall>c' \<in> set bs. found_id be nth_at c' \<noteq> Some i))"

lemma snoc_split:
  "cs @ [c] = as @ d # bs \<longleftrightarrow> bs = [] \<and> as = cs \<and> d = c \<or> (\<exists>bs'. bs = bs' @ [c] \<and> cs = as @ d # bs')"
  by (cases bs rule: rev_cases) auto

lemma last_with_id_snoc:
  "last_with_id be nth_at (cs @ [c]) i path \<longleftrightarrow>
     (if found_id be nth_at c = Some i then wc_path c = path else last_with_id be nth_at cs i path)"
proof
  assume "last_with_id be nth_at (cs @ [c]) i path"
  then obtain as d bs where d: "cs @ [c] = as @ d # bs" "found_id be nth_at d = Some i" "wc_path d = path"
    "\<forall>c' \<in> set bs. found_id be nth_at c' \<noteq> Some i" unfolding last_with_id_def by blast
  from d(1) consider "bs = []" "d = c" | bs' where "bs = bs' @ [c]" "cs = as @ d # bs'" unfolding snoc_split by blast
  then show "if found_id be nth_at c = Some i then wc_path c = path else last_with_id be nth_at cs i path"
  proof cases
    case 2
    with d show ?thesis unfolding last_with_id_def by auto
  qed (use d in simp)
next
  assume if_c: "if found_id be nth_at c = Some i then wc_path c = path else last_with_id be nth_at cs i path"
  show "last_with_id be nth_at (cs @ [c]) i path"
  proof (cases "found_id be nth_at c = Some i")
    case True
    with if_c show ?thesis
      unfolding last_with_id_def by (intro exI [of _ cs] exI [of _ c] exI [of _ "[]"]) simp
  next
    case False
    with if_c obtain as d bs where "cs = as @ d # bs" "found_id be nth_at d = Some i" "wc_path d = path"
      "\<forall>c' \<in> set bs. found_id be nth_at c' \<noteq> Some i" unfolding last_with_id_def by auto
    with False show ?thesis
      unfolding last_with_id_def by (intro exI [of _ as] exI [of _ d] exI [of _ "bs @ [c]"]) simp
  qed
qed

lemma resolver_last:
  "ByID (snd (WalkDir (walk_fn be nth_at) cs \<lparr>ByID = Map.empty\<rparr>)) i = Some path \<longleftrightarrow>
   last_with_id be nth_at cs i path"
proof (induction cs arbitrary: path rule: rev_induct)
  case Nil
  then show ?case by (simp add: last_with_id_def)
next
  case (snoc c cs)
  show ?case
    unfolding last_with_id_snoc WalkDir_snoc walk_fn_found [of be nth_at c]
    by (cases "found_id be nth_at c")
      (simp_all add: snoc.IH eq_commute [of "wc_path c" path] eq_commute [of i])
qed

text \<open>
  C18: building the resolver never fails, whatever the walk and the handles do (the function given to
  \<open>WalkDir\<close> returns no error, so the error branches of \<open>BuildCgroupResolver\<close> and of the collector
  loop are dead), and the table it returns maps exactly the ids of the directories the walk read,
  each to the last directory with that id.
\<close>

theorem build_resolver_total:
  "\<exists>r. BuildCgroupResolver be nth_at calls = Inr r \<and>
     (\<forall>i path. ByID r i = Some path \<longleftrightarrow> last_with_id be nth_at calls i path)"
  unfolding Build_eq by (intro exI conjI, rule HOL.refl, intro allI, rule resolver_last)

lemma found_native:
  assumes "nth_at (wc_path c) = Inr (native_bytes be (id_of (wc_path c)))"
  shows "found_id be nth_at c =
    (if wc_err c = None \<and> wc_is_dir c then Some (id_of (wc_path c)) else None)"
  using assms by (simp add: found_id_def CgroupIDFromPath_def length_native_bytes native_roundtrip)

lemma last_with_id_ex:
  "(\<exists>path. last_with_id be nth_at cs i path) \<longleftrightarrow> (\<exists>c \<in> set cs. found_id be nth_at c = Some i)"
proof (induction cs rule: rev_induct)
  case Nil
  then show ?case by (simp add: last_with_id_def)
next
  case (snoc c cs)
  then show ?case by (cases "found_id be nth_at c = Some i") (simp_all add: last_with_id_snoc)
qed

text \<open>The directories a walk reads.\<close>

definition walk_dirs :: "walk_call list \<Rightarrow> string set" where
  "walk_dirs calls = set (map wc_path (filter (\<lambda>c. wc_err c = None \<and> wc_is_dir c) calls))"

text \<open>
  C19: on a machine of either byte order, where the handle of a cgroup directory is the id of the
  cgroup in native byte order and distinct directories have distinct ids, the resolver turns the id
  of every directory of the walk back into its path, and every other id into the marker of an unknown
  cgroup.
\<close>

theorem resolver_roundtrip:
  assumes "\<forall>d \<in> walk_dirs calls. nth_at d = Inr (native_bytes be (id_of d))"
    and "inj_on id_of (walk_dirs calls)"
  shows "\<exists>r. BuildCgroupResolver be nth_at calls = Inr r \<and>
    (\<forall>d \<in> walk_dirs calls. Resolve r (id_of d) = d) \<and>
    (\<forall>i. i \<notin> id_of ` walk_dirs calls \<longrightarrow> Resolve r i = unknown_path)"
proof -
  let ?r = "snd (WalkDir (walk_fn be nth_at) calls \<lparr>ByID = Map.empty\<rparr>)"
  have found: "found_id be nth_at c = Some i \<longleftrightarrow> wc_path c \<in> walk_dirs calls \<and> wc_err c = None \<and>
      wc_is_dir c \<and> id_of (wc_path c) = i" if "c \<in> set calls" for c i
  proof (cases "wc_err c = None \<and> wc_is_dir c")
    case True
    with that have "wc_path c \<in> walk_dirs calls" by (auto simp: walk_dirs_def)
    with True assms(1) show ?thesis by (simp add: found_native)
  qed (auto simp: found_id_def)
  have known: "last_with_id be nth_at calls (id_of d) d" if d: "d \<in> walk_dirs calls" for d
  proof -
    from d obtain c where c: "c \<in> set calls" "wc_path c = d" "wc_err c = None" "wc_is_dir c"
      by (auto simp: walk_dirs_def)
    then have "found_id be nth_at c = Some (id_of d)" using found d by blast
    with c obtain path where p: "last_with_id be nth_at calls (id_of d) path"
      using last_with_id_ex by blast
    then obtain c' where "c' \<in> set calls" "found_id be nth_at c' = Some (id_of d)" "wc_path c' = path"
      unfolding last_with_id_def by (metis in_set_conv_decomp)
    then have "path \<in> walk_dirs calls" "id_of path = id_of d" using found by auto
    then have "path = d" using assms(2) d by (auto dest: inj_onD)
    with p show ?thesis by simp
  qed
  have "Resolve ?r (id_of d) = d" if "d \<in> walk_dirs calls" for d
    using known [OF that] by (simp add: Resolve_def resolver_last [symmetric])
  moreover have "Resolve ?r i = unknown_path" if "i \<notin> id_of ` walk_dirs calls" for i
  proof -
    have "\<nexists>path. last_with_id be nth_at calls i path"
      unfolding last_with_id_ex using found that by auto
    then have "ByID ?r i = None" by (metis resolver_last not_None_eq)
    then show ?thesis by (simp add: Resolve_def)
  qed
  ultimately show ?thesis unfolding Build_eq by blast
qed

definition demo_walk :: "walk_call list" where
  "demo_walk =
     [\<lparr>wc_path = ''/sys/fs/cgroup'', wc_is_dir = True, wc_err = None\<rparr>,
      \<lparr>wc_path = ''/sys/fs/cgroup/cgroup.procs'', wc_is_dir = False, wc_err = None\<rparr>,
      \<lparr>wc_path = ''/sys/fs/cgroup/gone'', wc_is_dir = True, wc_err = Some ''ENOENT''\<rparr>,
      \<lparr>wc_path = ''/sys/fs/cgroup/kubepods.slice'', wc_is_dir = True, wc_err = None\<rparr>]"

definition demo_id :: "string \<Rightarrow> u64" where
  "demo_id d = (if d = ''/sys/fs/cgroup'' then 1 else 4500)"

lemma demo_walk_dirs: "walk_dirs demo_walk = {''/sys/fs/cgroup'', ''/sys/fs/cgroup/kubepods.slice''}"
  by (auto simp: walk_dirs_def demo_walk_def)

theorem resolver_roundtrip_witness:
  "\<exists>r. BuildCgroupResolver True (\<lambda>d. Inr (native_bytes True (demo_id d))) demo_walk = Inr r \<and>
    (\<forall>d \<in> walk_dirs demo_walk. Resolve r (demo_id d) = d) \<and>
    (\<forall>i. i \<notin> demo_id ` walk_dirs demo_walk \<longrightarrow> Resolve r i = unknown_path)"
  by (rule resolver_roundtrip) (simp_all add: demo_walk_dirs demo_id_def)

end
