(* ===== verification/Collector.thy ===== *)
theory Collector
  imports CgroupResolver BpfMap "HOL-Library.Multiset"
begin

text \<open>
  \<open>collector/main.go\<close>: one pass over the two pinned statistics maps (\<open>readStats\<close>). The maps are
  reached through \<open>github.com/cilium/ebpf\<close>, so iteration and deletion are parameters; the locale
  \<open>pinned_map\<close> states what they promise on a map nobody writes to during the pass.
\<close>

section \<open>Data\<close>

record CgroupIOStats =
  IOCount :: u64
  TotalLatencyNs :: u64
  TotalBytes :: u64
  ErrorCount :: u64

record CgroupRunqStats =
  RunqCount :: u64
  RunqTotalLatencyNs :: u64

record Row =
  CgroupID :: u64
  CgroupPath :: string
  Kind :: CgroupKind
  KubeInfo :: KubePathInfo
  Stats :: CgroupIOStats
  RunqStats :: CgroupRunqStats
  AvgNs :: u64

text \<open>Go's zero values.\<close>

definition zero_io :: CgroupIOStats where
  "zero_io = \<lparr>IOCount = 0, TotalLatencyNs = 0, TotalBytes = 0, ErrorCount = 0\<rparr>"

definition zero_runq :: CgroupRunqStats where
  "zero_runq = \<lparr>RunqCount = 0, RunqTotalLatencyNs = 0\<rparr>"

section \<open>Pinned maps\<close>

record ('m, 'v) map_ops =
  Iterate :: "'m \<Rightarrow> (u64 \<times> 'v) list \<times> string option" \<comment> \<open>the pairs \<open>Next\<close> yields, the final \<open>Err\<close>\<close>
  Delete :: "'m \<Rightarrow> u64 \<Rightarrow> 'm"
  Entries :: "'m \<Rightarrow> u64 \<rightharpoonup> 'v" \<comment> \<open>what the map holds; the collector never asks\<close>

locale pinned_map =
  fixes ops :: "('m, 'v) map_ops"
  assumes iterate_entries: "Iterate ops m = (items, None) \<Longrightarrow> Entries ops m = map_of items"
    and iterate_distinct: "Iterate ops m = (items, None) \<Longrightarrow> distinct (map fst items)"
    and delete_entries: "Entries ops (Delete ops m k) = (Entries ops m)(k := None)"
begin

lemma delete_all:
  "Entries ops (fold (\<lambda>k m. Delete ops m k) ks m) k =
     (if k \<in> set ks then None else Entries ops m k)"
  by (induction ks arbitrary: m) (auto simp: delete_entries)

lemma iterate_set:
  "Iterate ops m = (items, None) \<Longrightarrow> (k, v) \<in> set items \<longleftrightarrow> Entries ops m k = Some v"
  by (simp add: iterate_entries iterate_distinct)

lemma iterate_keys:
  "Iterate ops m = (items, None) \<Longrightarrow> fst ` set items = dom (Entries ops m)"
  by (simp add: iterate_entries dom_map_of_conv_image_fst)

end

text \<open>The collector's view of the bounded association list that stands for a BPF hash map.\<close>

definition pinned :: "((u64 \<times> 'v) list, 'v) map_ops" where
  "pinned = \<lparr>Iterate = (\<lambda>m. (AList.clearjunk m, None)), Delete = (\<lambda>m k. AList.delete k m),
             Entries = map_of\<rparr>"

interpretation pin: pinned_map pinned
  by unfold_locales (auto simp: pinned_def map_of_clearjunk delete_conv' distinct_clearjunk)

section \<open>The pass\<close>

text \<open>The variables of \<open>readStats\<close>: the rows by id (as an association list), the stale keys, the flag.\<close>

record scan =
  rowMap :: "(u64 \<times> Row) list"
  stale :: "u64 list"
  hadUnknown :: bool

definition block_row :: "string \<Rightarrow> u64 \<Rightarrow> CgroupIOStats \<Rightarrow> Row" where
  "block_row path key val =
     \<lparr>CgroupID = key, CgroupPath = path, Kind = ClassifyCgroupPath path, KubeInfo = ParseKubePath path,
      Stats = val, RunqStats = zero_runq,
      AvgNs = (if IOCount val > 0 then TotalLatencyNs val div IOCount val else 0)\<rparr>"

definition runq_row :: "string \<Rightarrow> u64 \<Rightarrow> CgroupRunqStats \<Rightarrow> Row" where
  "runq_row path key val =
     \<lparr>CgroupID = key, CgroupPath = path, Kind = ClassifyCgroupPath path, KubeInfo = ParseKubePath path,
      Stats = zero_io, RunqStats = val, AvgNs = 0\<rparr>"

text \<open>The body of the loop over the block map, and of the loop over the run-queue map.\<close>

definition block_item :: "CgroupResolver \<Rightarrow> u64 \<times> CgroupIOStats \<Rightarrow> scan \<Rightarrow> scan" where
  "block_item r kv s =
     (case kv of (key, val) \<Rightarrow>
        if Resolve r key = unknown_path
        then s\<lparr>stale := stale s @ [key], hadUnknown := True\<rparr>
        else s\<lparr>rowMap := AList.update key (block_row (Resolve r key) key val) (rowMap s)\<rparr>)"

definition runq_item :: "CgroupResolver \<Rightarrow> u64 \<times> CgroupRunqStats \<Rightarrow> scan \<Rightarrow> scan" where
  "runq_item r kv s =
     (case kv of (key, val) \<Rightarrow>
        (case map_of (rowMap s) key of
           Some row \<Rightarrow> s\<lparr>rowMap := AList.update key (row\<lparr>RunqStats := val\<rparr>) (rowMap s)\<rparr>
         | None \<Rightarrow>
             if Resolve r key = unknown_path
             then s\<lparr>stale := stale s @ [key], hadUnknown := True\<rparr>
             else s\<lparr>rowMap := AList.update key (runq_row (Resolve r key) key val) (rowMap s)\<rparr>))"

text \<open>The rows of the map, sorted by id.\<close>

definition sorted_rows :: "(u64 \<times> Row) list \<Rightarrow> Row list" where
  "sorted_rows rm = sort_key CgroupID (map snd rm)"

record ('b, 'r) readout =
  result :: "string + Row list"
  unknown_seen :: bool
  block_after :: 'b
  runq_after :: "'r option"

definition readStats ::
  "('b, CgroupIOStats) map_ops \<Rightarrow> ('r, CgroupRunqStats) map_ops \<Rightarrow> 'b \<Rightarrow> 'r option \<Rightarrow> CgroupResolver \<Rightarrow>
   ('b, 'r) readout" where
  \<comment> \<open>\<open>runqMap\<close> is \<open>None\<close> where the code has a nil map\<close>
  "readStats bops rops blockMap runqMap r =
     (let (items, berr) = Iterate bops blockMap;
          s1 = fold (block_item r) items \<lparr>rowMap = [], stale = [], hadUnknown = False\<rparr>
      in case berr of
           Some err \<Rightarrow>
             \<lparr>result = Inl (''block iter: '' @ err), unknown_seen = hadUnknown s1,
              block_after = blockMap, runq_after = runqMap\<rparr>
         | None \<Rightarrow>
             let blockMap' = fold (\<lambda>k m. Delete bops m k) (stale s1) blockMap
             in case runqMap of
                  None \<Rightarrow>
                    \<lparr>result = Inr (sorted_rows (rowMap s1)), unknown_seen = hadUnknown s1,
                     block_after = blockMap', runq_after = None\<rparr>
                | Some rmap \<Rightarrow>
                    let (ritems, rerr) = Iterate rops rmap;
                        s2 = fold (runq_item r) ritems (s1\<lparr>stale := []\<rparr>)
                    in case rerr of
                         Some err \<Rightarrow>
                           \<lparr>result = Inl (''runq iter: '' @ err), unknown_seen = hadUnknown s2,
                            block_after = blockMap', runq_after = Some rmap\<rparr>
                       | None \<Rightarrow>
                           \<lparr>result = Inr (sorted_rows (rowMap s2)), unknown_seen = hadUnknown s2,
                            block_after = blockMap',
                            runq_after = Some (fold (\<lambda>k m. Delete rops m k) (stale s2) rmap)\<rparr>)"

definition formatKind :: "CgroupKind \<Rightarrow> string" where
  "formatKind kind =
     (case kind of
        CgroupKindHost \<Rightarrow> ''[HOST]''
      | CgroupKindSystemd \<Rightarrow> ''[SYSTEMD]''
      | CgroupKindContainer \<Rightarrow> ''[CONTAINER]''
      | CgroupKindKubernetes \<Rightarrow> ''[KUBERNETES]''
      | CgroupKindUnknown \<Rightarrow> ''[UNKNOWN]'')"

section \<open>The two loops in closed form\<close>

definition scan_start :: scan where
  "scan_start = \<lparr>rowMap = [], stale = [], hadUnknown = False\<rparr>"

definition unknown_id :: "CgroupResolver \<Rightarrow> u64 \<Rightarrow> bool" where
  "unknown_id r k \<longleftrightarrow> Resolve r k = unknown_path"

text \<open>Every row stands under its own id, each id once.\<close>

definition rows_keyed :: "(u64 \<times> Row) list \<Rightarrow> bool" where
  "rows_keyed rm \<longleftrightarrow> distinct (map fst rm) \<and> (\<forall>(k, row) \<in> set rm. CgroupID row = k)"

lemma rows_keyed_update:
  "rows_keyed rm \<Longrightarrow> CgroupID row = k \<Longrightarrow> rows_keyed (AList.update k row rm)"
  unfolding rows_keyed_def
proof (intro conjI ballI)
  assume a: "distinct (map fst rm) \<and> (\<forall>(k, row) \<in> set rm. CgroupID row = k)" "CgroupID row = k"
  then show d: "distinct (map fst (AList.update k row rm))" by (simp add: distinct_update)
  fix x assume "x \<in> set (AList.update k row rm)"
  then have "map_of (AList.update k row rm) (fst x) = Some (snd x)" using d by simp
  then show "case x of (k, row) \<Rightarrow> CgroupID row = k"
    using a by (auto simp: update_conv' split: if_splits prod.splits dest: map_of_SomeD)
qed

lemma rows_keyed_map_of: "rows_keyed rm \<Longrightarrow> map_of rm k = Some row \<Longrightarrow> CgroupID row = k"
  unfolding rows_keyed_def by (auto dest: map_of_SomeD)

lemma block_scan:
  defines "s items r \<equiv> fold (block_item r) items scan_start"
  shows "rows_keyed (rowMap (s items r))"
    and "map_of (rowMap (s items r)) k =
      (if unknown_id r k then None else map_option (block_row (Resolve r k) k) (map_of (rev items) k))"
    and "set (stale (s items r)) = {k \<in> fst ` set items. unknown_id r k}"
    and "hadUnknown (s items r) \<longleftrightarrow> (\<exists>k \<in> fst ` set items. unknown_id r k)"
proof -
  have "rows_keyed (rowMap (s items r)) \<and>
    (\<forall>k. map_of (rowMap (s items r)) k =
      (if unknown_id r k then None else map_option (block_row (Resolve r k) k) (map_of (rev items) k))) \<and>
    set (stale (s items r)) = {k \<in> fst ` set items. unknown_id r k} \<and>
    (hadUnknown (s items r) \<longleftrightarrow> (\<exists>k \<in> fst ` set items. unknown_id r k))"
  proof (induction items rule: rev_induct)
    case Nil
    then show ?case by (simp add: s_def scan_start_def rows_keyed_def)
  next
    case (snoc kv items)
    obtain key val where kv: "kv = (key, val)" by (cases kv)
    have step: "s (items @ [kv]) r = block_item r (key, val) (s items r)" by (simp add: s_def kv)
    show ?case
    proof (cases "unknown_id r key")
      case True
      with snoc.IH show ?thesis
        unfolding step by (auto simp: kv block_item_def unknown_id_def)
    next
      case False
      with snoc.IH show ?thesis
        unfolding step
        by (auto simp: kv block_item_def unknown_id_def update_conv' rows_keyed_update block_row_def)
    qed
  qed
  then show "rows_keyed (rowMap (s items r))"
    and "map_of (rowMap (s items r)) k =
      (if unknown_id r k then None else map_option (block_row (Resolve r k) k) (map_of (rev items) k))"
    and "set (stale (s items r)) = {k \<in> fst ` set items. unknown_id r k}"
    and "hadUnknown (s items r) \<longleftrightarrow> (\<exists>k \<in> fst ` set items. unknown_id r k)" by blast+
qed

text \<open>The row the run-queue loop leaves for an id, from the row and the value before it.\<close>

definition with_runq :: "CgroupResolver \<Rightarrow> u64 \<Rightarrow> Row option \<Rightarrow> CgroupRunqStats option \<Rightarrow> Row option" where
  "with_runq r k row v =
     (case v of None \<Rightarrow> row
      | Some val \<Rightarrow>
          Some (case row of Some rw \<Rightarrow> rw\<lparr>RunqStats := val\<rparr> | None \<Rightarrow> runq_row (Resolve r k) k val))"

lemma with_runq_again:
  "with_runq r k row v = Some rw \<Longrightarrow> with_runq r k row (Some val) = Some (rw\<lparr>RunqStats := val\<rparr>)"
  by (auto simp: with_runq_def runq_row_def split: option.splits)

text \<open>What the run-queue loop has done after some of the items, from a state \<open>s\<close>.\<close>

definition scanned :: "CgroupResolver \<Rightarrow> scan \<Rightarrow> (u64 \<times> CgroupRunqStats) list \<Rightarrow> scan \<Rightarrow> bool" where
  "scanned r s items t \<longleftrightarrow> rows_keyed (rowMap t) \<and>
     (\<forall>k. map_of (rowMap t) k =
       (if unknown_id r k then None else with_runq r k (map_of (rowMap s) k) (map_of (rev items) k))) \<and>
     set (stale t) = set (stale s) \<union> {k \<in> fst ` set items. unknown_id r k} \<and>
     (hadUnknown t \<longleftrightarrow> hadUnknown s \<or> (\<exists>k \<in> fst ` set items. unknown_id r k))"

lemma scanned_unknown:
  assumes "scanned r s items t" and "unknown_id r key"
  shows "scanned r s (items @ [(key, val)]) (runq_item r (key, val) t)"
proof -
  have "map_of (rowMap t) key = None" using assms by (simp add: scanned_def)
  with assms show ?thesis by (auto simp: scanned_def runq_item_def unknown_id_def)
qed

lemma scanned_new:
  assumes "scanned r s items t" and "\<not> unknown_id r key" and "map_of (rowMap t) key = None"
  shows "scanned r s (items @ [(key, val)]) (runq_item r (key, val) t)"
proof -
  have eq: "runq_item r (key, val) t =
      t\<lparr>rowMap := AList.update key (runq_row (Resolve r key) key val) (rowMap t)\<rparr>"
    using assms(2,3) by (simp add: runq_item_def unknown_id_def)
  have "with_runq r key (map_of (rowMap s) key) (map_of (rev items) key) = None"
    using assms by (simp add: scanned_def)
  then have "map_of (rowMap s) key = None" by (auto simp: with_runq_def split: option.splits)
  with assms show ?thesis
    unfolding eq by (auto simp: scanned_def update_conv' with_runq_def rows_keyed_update runq_row_def)
qed

lemma scanned_again:
  assumes "scanned r s items t" and "map_of (rowMap t) key = Some row"
  shows "scanned r s (items @ [(key, val)]) (runq_item r (key, val) t)"
proof -
  have known: "\<not> unknown_id r key" and id: "CgroupID row = key"
    and w: "with_runq r key (map_of (rowMap s) key) (map_of (rev items) key) = Some row"
    using assms rows_keyed_map_of by (auto simp: scanned_def split: if_splits)
  have eq: "runq_item r (key, val) t = t\<lparr>rowMap := AList.update key (row\<lparr>RunqStats := val\<rparr>) (rowMap t)\<rparr>"
    by (simp add: runq_item_def assms(2))
  show ?thesis
    using assms(1) known id with_runq_again [OF w]
    unfolding eq by (auto simp: scanned_def update_conv' rows_keyed_update)
qed

lemma runq_scan:
  assumes keyed: "rows_keyed (rowMap s)"
    and unk: "\<And>k. unknown_id r k \<Longrightarrow> map_of (rowMap s) k = None"
  shows "rows_keyed (rowMap (fold (runq_item r) items s))"
    and "map_of (rowMap (fold (runq_item r) items s)) k =
      (if unknown_id r k then None else with_runq r k (map_of (rowMap s) k) (map_of (rev items) k))"
    and "set (stale (fold (runq_item r) items s)) = set (stale s) \<union> {k \<in> fst ` set items. unknown_id r k}"
    and "hadUnknown (fold (runq_item r) items s) \<longleftrightarrow>
      hadUnknown s \<or> (\<exists>k \<in> fst ` set items. unknown_id r k)"
proof -
  have "scanned r s items (fold (runq_item r) items s)"
  proof (induction items rule: rev_induct)
    case Nil
    then show ?case using keyed unk by (simp add: scanned_def with_runq_def)
  next
    case (snoc kv items)
    obtain key val where kv: "kv = (key, val)" by (cases kv)
    show ?case
      using snoc scanned_unknown scanned_new scanned_again unfolding kv
      by (cases "map_of (rowMap (fold (runq_item r) items s)) key"; cases "unknown_id r key") simp_all
  qed
  then show "rows_keyed (rowMap (fold (runq_item r) items s))"
    and "map_of (rowMap (fold (runq_item r) items s)) k =
      (if unknown_id r k then None else with_runq r k (map_of (rowMap s) k) (map_of (rev items) k))"
    and "set (stale (fold (runq_item r) items s)) = set (stale s) \<union> {k \<in> fst ` set items. unknown_id r k}"
    and "hadUnknown (fold (runq_item r) items s) \<longleftrightarrow>
      hadUnknown s \<or> (\<exists>k \<in> fst ` set items. unknown_id r k)"
    unfolding scanned_def by blast+
qed

section \<open>Sorted rows\<close>

lemma rows_keyed_ids: "rows_keyed rm \<Longrightarrow> map CgroupID (map snd rm) = map fst rm"
  unfolding rows_keyed_def by (auto simp: comp_def)

lemma sorted_rows_strict:
  assumes "rows_keyed rm"
  shows "sorted_wrt (<) (map CgroupID (sorted_rows rm))"
proof -
  have "mset (map CgroupID (sorted_rows rm)) = mset (map fst rm)"
    using rows_keyed_ids [OF assms] by (metis sorted_rows_def mset_map mset_sort)
  moreover have "distinct (map fst rm)" using assms by (simp add: rows_keyed_def)
  ultimately have "distinct (map CgroupID (sorted_rows rm))"
    using mset_eq_imp_distinct_iff by blast
  moreover have "sorted (map CgroupID (sorted_rows rm))" by (simp add: sorted_rows_def)
  ultimately show ?thesis by (simp add: strict_sorted_iff)
qed

lemma sorted_rows_mem:
  assumes "rows_keyed rm"
  shows "row \<in> set (sorted_rows rm) \<longleftrightarrow> map_of rm (CgroupID row) = Some row"
proof
  assume "row \<in> set (sorted_rows rm)"
  then obtain k where "(k, row) \<in> set rm" by (auto simp: sorted_rows_def)
  then show "map_of rm (CgroupID row) = Some row" using assms by (auto simp: rows_keyed_def)
next
  assume "map_of rm (CgroupID row) = Some row"
  then show "row \<in> set (sorted_rows rm)" by (force simp: sorted_rows_def dest: map_of_SomeD)
qed

text \<open>Go ranges over a map in any order; the sorted result does not depend on it.\<close>

lemma sorted_rows_any_order:
  assumes "rows_keyed rm" and "mset xs = mset (map snd rm)"
  shows "sort_key CgroupID xs = sorted_rows rm"
proof (rule sort_key_inj_key_eq)
  show "mset xs = mset (sorted_rows rm)" using assms(2) by (simp add: sorted_rows_def)
  have "mset (map CgroupID xs) = mset (map fst rm)"
    using assms rows_keyed_ids [OF assms(1)] by (metis mset_map)
  moreover have "distinct (map fst rm)" using assms(1) by (simp add: rows_keyed_def)
  ultimately have "distinct (map CgroupID xs)" using mset_eq_imp_distinct_iff by blast
  then show "inj_on CgroupID (set xs)" by (simp add: distinct_map)
  show "sorted (map CgroupID (sorted_rows rm))" by (simp add: sorted_rows_def)
qed

section \<open>What a pass delivers\<close>

definition runq_entries :: "('r, CgroupRunqStats) map_ops \<Rightarrow> 'r option \<Rightarrow> u64 \<rightharpoonup> CgroupRunqStats" where
  "runq_entries rops rm = (case rm of None \<Rightarrow> Map.empty | Some m \<Rightarrow> Entries rops m)"

definition runq_ok :: "('r, CgroupRunqStats) map_ops \<Rightarrow> 'r option \<Rightarrow> bool" where
  "runq_ok rops rm = (case rm of None \<Rightarrow> True | Some m \<Rightarrow> snd (Iterate rops m) = None)"

text \<open>The row a cgroup should have, from the entries of the two maps.\<close>

definition expected_row ::
  "CgroupResolver \<Rightarrow> (u64 \<rightharpoonup> CgroupIOStats) \<Rightarrow> (u64 \<rightharpoonup> CgroupRunqStats) \<Rightarrow> u64 \<Rightarrow> Row option" where
  "expected_row r B Q k =
     (if unknown_id r k \<or> B k = None \<and> Q k = None then None
      else Some \<lparr>CgroupID = k, CgroupPath = Resolve r k, Kind = ClassifyCgroupPath (Resolve r k),
                 KubeInfo = ParseKubePath (Resolve r k),
                 Stats = (case B k of Some v \<Rightarrow> v | None \<Rightarrow> zero_io),
                 RunqStats = (case Q k of Some v \<Rightarrow> v | None \<Rightarrow> zero_runq),
                 AvgNs = (case B k of Some v \<Rightarrow> TotalLatencyNs v div IOCount v | None \<Rightarrow> 0)\<rparr>)"

lemma avg_guard: "(if (0 :: u64) < c then t div c else 0) = t div c"
  by (cases "c = 0") (simp_all add: word_neq_0_conv)

lemma expected_parts:
  "expected_row r B Q k =
     (if unknown_id r k then None
      else with_runq r k (map_option (block_row (Resolve r k) k) (B k)) (Q k))"
  by (cases "B k"; cases "Q k")
    (simp_all add: expected_row_def with_runq_def block_row_def runq_row_def avg_guard
      del: word_neq_0_conv)

lemma map_of_rev: "distinct (map fst xs) \<Longrightarrow> map_of (rev xs) = map_of xs"
proof (rule ext)
  fix k assume d: "distinct (map fst xs)"
  then have "distinct (map fst (rev xs))" by (simp flip: rev_map)
  with d show "map_of (rev xs) k = map_of xs k"
    by (metis map_of_eq_Some_iff map_of_eq_None_iff set_rev option.exhaust image_set)
qed

locale collector_maps = b: pinned_map bops + q: pinned_map rops
  for bops :: "('b, CgroupIOStats) map_ops" and rops :: "('r, CgroupRunqStats) map_ops"
begin

lemma block_scan_entries:
  assumes "Iterate bops bm = (items, None)"
  shows "map_of (rowMap (fold (block_item r) items scan_start)) k =
      (if unknown_id r k then None
       else map_option (block_row (Resolve r k) k) (Entries bops bm k))"
    and "set (stale (fold (block_item r) items scan_start)) = {k \<in> dom (Entries bops bm). unknown_id r k}"
    and "hadUnknown (fold (block_item r) items scan_start) \<longleftrightarrow>
      (\<exists>k \<in> dom (Entries bops bm). unknown_id r k)"
  unfolding block_scan b.iterate_keys [OF assms]
  by (simp_all add: map_of_rev b.iterate_entries [OF assms] b.iterate_distinct [OF assms])

lemma runq_scan_entries:
  assumes "Iterate bops bm = (items, None)" and "Iterate rops m = (ritems, None)"
  and s: "s = fold (runq_item r) ritems ((fold (block_item r) items scan_start)\<lparr>stale := []\<rparr>)"
  shows "rows_keyed (rowMap s)"
    and "map_of (rowMap s) k = expected_row r (Entries bops bm) (Entries rops m) k"
    and "set (stale s) = {k \<in> dom (Entries rops m). unknown_id r k}"
    and "hadUnknown s \<longleftrightarrow> (\<exists>k \<in> dom (Entries bops bm) \<union> dom (Entries rops m). unknown_id r k)"
proof -
  let ?s1 = "(fold (block_item r) items scan_start)\<lparr>stale := []\<rparr>"
  have k: "rows_keyed (rowMap ?s1)" using block_scan(1) [of r items] by simp
  have u: "unknown_id r k \<Longrightarrow> map_of (rowMap ?s1) k = None" for k
    using block_scan_entries(1) [OF assms(1)] by simp
  note scan = runq_scan [where s = ?s1 and r = r and items = ritems, OF k u]
  show "rows_keyed (rowMap s)" unfolding s using scan(1) .
  show "map_of (rowMap s) k = expected_row r (Entries bops bm) (Entries rops m) k"
    using scan(2) [of k] block_scan_entries(1) [OF assms(1), of r k]
      q.iterate_entries [OF assms(2)] q.iterate_distinct [OF assms(2)]
    by (simp add: s expected_parts map_of_rev)
  show "set (stale s) = {k \<in> dom (Entries rops m). unknown_id r k}"
    using scan(3) unfolding s q.iterate_keys [OF assms(2)] by simp
  show "hadUnknown s \<longleftrightarrow> (\<exists>k \<in> dom (Entries bops bm) \<union> dom (Entries rops m). unknown_id r k)"
    using scan(4) block_scan_entries(3) [OF assms(1), of r]
    unfolding s q.iterate_keys [OF assms(2)] by (simp add: bex_Un)
qed

lemma expected_block_only:
  "expected_row r B Map.empty k =
     (if unknown_id r k then None else map_option (block_row (Resolve r k) k) (B k))"
  by (simp add: expected_parts with_runq_def)

lemma read_rows:
  assumes "snd (Iterate bops bm) = None" and "runq_ok rops rm"
  shows "\<exists>rows. result (readStats bops rops bm rm r) = Inr rows \<and>
    sorted_wrt (<) (map CgroupID rows) \<and>
    (\<forall>row. row \<in> set rows \<longleftrightarrow>
       expected_row r (Entries bops bm) (runq_entries rops rm) (CgroupID row) = Some row)"
proof -
  obtain items where it: "Iterate bops bm = (items, None)" using assms(1) by (metis prod.collapse)
  have "\<exists>t. rows_keyed t \<and> (\<forall>k. map_of t k = expected_row r (Entries bops bm) (runq_entries rops rm) k) \<and>
    result (readStats bops rops bm rm r) = Inr (sorted_rows t)"
  proof (cases rm)
    case None
    with it block_scan(1) [of r items] show ?thesis
      by (intro exI [of _ "rowMap (fold (block_item r) items scan_start)"])
        (simp add: readStats_def Let_def scan_start_def [symmetric] runq_entries_def
          expected_block_only block_scan_entries(1))
  next
    case (Some m)
    then obtain ritems where rit: "Iterate rops m = (ritems, None)"
      using assms(2) by (cases "Iterate rops m") (auto simp: runq_ok_def)
    from Some it rit runq_scan_entries(1,2) [OF it rit] show ?thesis
      by (intro exI [of _ "rowMap (fold (runq_item r) ritems
            ((fold (block_item r) items scan_start)\<lparr>stale := []\<rparr>))"])
        (simp add: readStats_def Let_def scan_start_def [symmetric] runq_entries_def)
  qed
  then show ?thesis using sorted_rows_strict sorted_rows_mem by metis
qed

lemma delete_unknown:
  assumes "Iterate bops bm = (items, None)"
  shows "Entries bops (fold (\<lambda>k m. Delete bops m k) (stale (fold (block_item r) items scan_start)) bm) =
     Entries bops bm |` {k. \<not> unknown_id r k}"
  by (rule ext) (auto simp: b.delete_all block_scan_entries(2) [OF assms] restrict_map_def domIff)

lemma delete_unknown_runq:
  assumes "Iterate bops bm = (items, None)" and "Iterate rops m = (ritems, None)"
    and "set ks = {k \<in> dom (Entries rops m). unknown_id r k}"
  shows "Entries rops (fold (\<lambda>k m. Delete rops m k) ks m) = Entries rops m |` {k. \<not> unknown_id r k}"
  by (rule ext) (auto simp: q.delete_all assms(3) restrict_map_def domIff)

lemma read_deletes:
  assumes "snd (Iterate bops bm) = None" and "runq_ok rops rm"
  defines "out \<equiv> readStats bops rops bm rm"
  shows "Entries bops (block_after (out r)) = Entries bops bm |` {k. \<not> unknown_id r k} \<and>
    runq_entries rops (runq_after (out r)) = runq_entries rops rm |` {k. \<not> unknown_id r k} \<and>
    (unknown_seen (out r) \<longleftrightarrow>
       (\<exists>k \<in> dom (Entries bops bm) \<union> dom (runq_entries rops rm). unknown_id r k))"
proof -
  obtain items where it: "Iterate bops bm = (items, None)" using assms(1) by (metis prod.collapse)
  show ?thesis
  proof (cases rm)
    case None
    with it show ?thesis
      by (simp add: out_def readStats_def Let_def scan_start_def [symmetric] runq_entries_def
          delete_unknown block_scan_entries(3))
  next
    case (Some m)
    then obtain ritems where rit: "Iterate rops m = (ritems, None)"
      using assms(2) by (cases "Iterate rops m") (auto simp: runq_ok_def)
    note scan = runq_scan_entries [OF it rit, OF HOL.refl]
    from Some it rit show ?thesis
      by (simp add: out_def readStats_def Let_def scan_start_def [symmetric] runq_entries_def
          delete_unknown delete_unknown_runq [OF it rit scan(3)] scan(4))
  qed
qed

lemma read_errors:
  "Iterate bops bm = (items, Some e) \<Longrightarrow>
     result (readStats bops rops bm rm r) = Inl (''block iter: '' @ e) \<and>
     block_after (readStats bops rops bm rm r) = bm \<and> runq_after (readStats bops rops bm rm r) = rm"
  "Iterate bops bm = (items, None) \<Longrightarrow> Iterate rops m = (ritems, Some e) \<Longrightarrow>
     result (readStats bops rops bm (Some m) r) = Inl (''runq iter: '' @ e) \<and>
     runq_after (readStats bops rops bm (Some m) r) = Some m \<and>
     Entries bops (block_after (readStats bops rops bm (Some m) r)) =
       Entries bops bm |` {k. \<not> unknown_id r k}"
  by (simp_all add: readStats_def Let_def scan_start_def [symmetric] delete_unknown)

end

interpretation coll: collector_maps pinned pinned
  by unfold_locales

section \<open>The properties of a pass\<close>

definition demo_resolver :: CgroupResolver where
  "demo_resolver = \<lparr>ByID = [7 \<mapsto> ''/sys/fs/cgroup/kubepods.slice'', 9 \<mapsto> ''/sys/fs/cgroup/system.slice'']\<rparr>"

definition demo_blocks :: "(u64 \<times> CgroupIOStats) list" where
  "demo_blocks =
     [(9, \<lparr>IOCount = 4, TotalLatencyNs = 1000, TotalBytes = 4096, ErrorCount = 1\<rparr>),
      (3, \<lparr>IOCount = 2, TotalLatencyNs = 50, TotalBytes = 512, ErrorCount = 0\<rparr>)]"

definition demo_runqs :: "(u64 \<times> CgroupRunqStats) list" where
  "demo_runqs = [(7, \<lparr>RunqCount = 5, RunqTotalLatencyNs = 90\<rparr>), (9, \<lparr>RunqCount = 1, RunqTotalLatencyNs = 8\<rparr>)]"

lemma demo_ok: "snd (Iterate pinned demo_blocks) = None" "runq_ok pinned (Some demo_runqs)"
  by (simp_all add: pinned_def runq_ok_def)

text \<open>
  C20: when both iterations complete, \<open>readStats\<close> returns the rows in strictly increasing order of
  cgroup id, exactly one for every cgroup that has an entry in either map and whose id the resolver
  knows; the row carries the path, its classification and parse, the values of the two maps (zero
  where a map has none) and the mean latency, total divided by count, zero when nothing completed.
\<close>

theorem readStats_rows:
  assumes "collector_maps bops rops"
    and "snd (Iterate bops bm) = None" and "runq_ok rops rm"
  shows "\<exists>rows. result (readStats bops rops bm rm r) = Inr rows \<and>
    sorted_wrt (<) (map CgroupID rows) \<and>
    (\<forall>row. row \<in> set rows \<longleftrightarrow>
       expected_row r (Entries bops bm) (runq_entries rops rm) (CgroupID row) = Some row)"
  using assms by (rule collector_maps.read_rows)

theorem readStats_rows_witness:
  "\<exists>rows. result (readStats pinned pinned demo_blocks (Some demo_runqs) demo_resolver) = Inr rows \<and>
    sorted_wrt (<) (map CgroupID rows) \<and>
    (\<forall>row. row \<in> set rows \<longleftrightarrow>
       expected_row demo_resolver (Entries pinned demo_blocks) (runq_entries pinned (Some demo_runqs))
         (CgroupID row) = Some row)"
  by (rule readStats_rows [OF coll.collector_maps_axioms demo_ok])

text \<open>
  C21: when both iterations complete, \<open>readStats\<close> deletes from the kernel maps exactly the entries of
  the ids the resolver does not know, never those of a known cgroup, and reports an unknown cgroup
  exactly when there was such an entry in either map. An entry of a cgroup created after the
  resolver was built is among those deleted.
\<close>

theorem readStats_deletes_unknown:
  assumes "collector_maps bops rops"
    and "snd (Iterate bops bm) = None" and "runq_ok rops rm"
  shows "Entries bops (block_after (readStats bops rops bm rm r)) = Entries bops bm |` {k. \<not> unknown_id r k} \<and>
    runq_entries rops (runq_after (readStats bops rops bm rm r)) =
      runq_entries rops rm |` {k. \<not> unknown_id r k} \<and>
    (unknown_seen (readStats bops rops bm rm r) \<longleftrightarrow>
       (\<exists>k \<in> dom (Entries bops bm) \<union> dom (runq_entries rops rm). unknown_id r k))"
  using assms by (rule collector_maps.read_deletes)

theorem readStats_deletes_unknown_witness:
  "Entries pinned (block_after (readStats pinned pinned demo_blocks (Some demo_runqs) demo_resolver)) =
      Entries pinned demo_blocks |` {k. \<not> unknown_id demo_resolver k} \<and>
    runq_entries pinned (runq_after (readStats pinned pinned demo_blocks (Some demo_runqs) demo_resolver)) =
      runq_entries pinned (Some demo_runqs) |` {k. \<not> unknown_id demo_resolver k} \<and>
    (unknown_seen (readStats pinned pinned demo_blocks (Some demo_runqs) demo_resolver) \<longleftrightarrow>
       (\<exists>k \<in> dom (Entries pinned demo_blocks) \<union> dom (runq_entries pinned (Some demo_runqs)).
          unknown_id demo_resolver k))"
  by (rule readStats_deletes_unknown [OF coll.collector_maps_axioms demo_ok])

lemma demo_effect:
  "map CgroupID (case result (readStats pinned pinned demo_blocks (Some demo_runqs) demo_resolver) of
     Inr rows \<Rightarrow> rows | Inl _ \<Rightarrow> []) = [7, 9]"
  "map AvgNs (case result (readStats pinned pinned demo_blocks (Some demo_runqs) demo_resolver) of
     Inr rows \<Rightarrow> rows | Inl _ \<Rightarrow> []) = [0, 250]"
  by code_simp+

definition failing :: "((u64 \<times> 'v) list, 'v) map_ops" where
  "failing = \<lparr>Iterate = (\<lambda>m. ([], Some ''EPERM'')), Delete = (\<lambda>m k. AList.delete k m), Entries = map_of\<rparr>"

lemma failing_pinned: "pinned_map failing"
  by unfold_locales (auto simp: failing_def delete_conv')

text \<open>
  C22: an iteration that ends in an error yields an error and no rows. After an error on the block
  map neither map has changed; after an error on the run-queue map this map has not changed, but the
  unknown entries of the block map are already gone.
\<close>

theorem readStats_errors:
  assumes "collector_maps bops rops"
  shows "(case Iterate bops bm of
       (_, Some e) \<Rightarrow>
         result (readStats bops rops bm rm r) = Inl (''block iter: '' @ e) \<and>
         block_after (readStats bops rops bm rm r) = bm \<and> runq_after (readStats bops rops bm rm r) = rm
     | (_, None) \<Rightarrow>
         (case rm of None \<Rightarrow> True
          | Some m \<Rightarrow>
              (case Iterate rops m of (_, None) \<Rightarrow> True
               | (_, Some e) \<Rightarrow>
                   result (readStats bops rops bm rm r) = Inl (''runq iter: '' @ e) \<and>
                   runq_after (readStats bops rops bm rm r) = rm \<and>
                   Entries bops (block_after (readStats bops rops bm rm r)) =
                     Entries bops bm |` {k. \<not> unknown_id r k})))"
  using collector_maps.read_errors [OF assms] by (auto split: option.splits prod.splits)

lemma failing_collector_maps:
  "collector_maps (pinned :: ((u64 \<times> CgroupIOStats) list, CgroupIOStats) map_ops)
     (failing :: ((u64 \<times> CgroupRunqStats) list, CgroupRunqStats) map_ops)"
  by (intro collector_maps.intro pin.pinned_map_axioms failing_pinned)

theorem readStats_errors_witness:
  "result (readStats pinned failing demo_blocks (Some demo_runqs) demo_resolver) =
     Inl ''runq iter: EPERM'' \<and>
   runq_after (readStats pinned failing demo_blocks (Some demo_runqs) demo_resolver) = Some demo_runqs \<and>
   Entries pinned (block_after (readStats pinned failing demo_blocks (Some demo_runqs) demo_resolver)) =
     Entries pinned demo_blocks |` {k. \<not> unknown_id demo_resolver k}"
  using readStats_errors [OF failing_collector_maps, of demo_blocks "Some demo_runqs" demo_resolver]
  by (simp add: pinned_def failing_def)

end
