(* ===== verification/PromMetrics.thy ===== *)
theory PromMetrics
  imports Collector
begin

text \<open>
  \<open>collector/prom_metrics.go\<close>: the Prometheus series of a collector. \<open>Update\<close> sums the rows of a pass
  per pod, adds to each counter what grew since the last pass, and drops the series of pods that are
  gone. The client library's vectors are parameters with the locales \<open>counter_vec\<close> and
  \<open>gauge_vec\<close> for what they promise. A \<open>float64\<close> that holds a non-negative integer is the integer:
  conversion from \<open>uint64\<close> rounds to 53 significant bits, and the additions of a counter are exact as
  long as the sum is at most \<open>2^53\<close>.
\<close>

section \<open>Floating point\<close>

text \<open>How many low bits a number has beyond the 53 a \<open>float64\<close> keeps.\<close>

fun shift_of :: "nat \<Rightarrow> nat" where
  "shift_of n = (if n < 2 ^ 53 then 0 else Suc (shift_of (n div 2)))"

declare shift_of.simps [simp del]

text \<open>The nearest \<open>float64\<close>, ties to even.\<close>

definition float64 :: "nat \<Rightarrow> nat" where
  "float64 n =
     (let e = shift_of n; q = n div 2 ^ e; r = n mod 2 ^ e
      in if 2 * r > 2 ^ e \<or> (2 * r = 2 ^ e \<and> odd q) then (q + 1) * 2 ^ e else q * 2 ^ e)"

lemma float64_exact: "n \<le> 2 ^ 53 \<Longrightarrow> float64 n = n"
proof (cases "n = 2 ^ 53")
  case True
  then have "shift_of n = 1" by (simp add: shift_of.simps [of "9007199254740992"] shift_of.simps [of "4503599627370496"])
  with True show ?thesis by (simp add: float64_def)
next
  case False
  moreover assume "n \<le> 2 ^ 53"
  ultimately have "shift_of n = 0" by (simp add: shift_of.simps [of n])
  then show ?thesis by (simp add: float64_def)
qed

section \<open>Labels and keys\<close>

record Labels =
  lbl_kind :: string
  lbl_pod_uid :: string

definition row_labels :: "Row \<Rightarrow> Labels" where
  "row_labels r = \<lparr>lbl_kind = kind_string (Kind r), lbl_pod_uid = PodUID (KubeInfo r)\<rparr>"

definition key_of :: "Labels \<Rightarrow> string" where
  "key_of labels = lbl_kind labels @ ''|'' @ lbl_pod_uid labels"

text \<open>The loop over the bytes of the key: the first bar splits it, none gives two empty labels.\<close>

fun split_key :: "string \<Rightarrow> string \<Rightarrow> Labels" where
  "split_key seen [] = \<lparr>lbl_kind = '''', lbl_pod_uid = ''''\<rparr>"
| "split_key seen (c # cs) =
     (if c = CHR ''|'' then \<lparr>lbl_kind = seen, lbl_pod_uid = cs\<rparr> else split_key (seen @ [c]) cs)"

definition labelsFromKey :: "string \<Rightarrow> Labels" where
  "labelsFromKey key = split_key '''' key"

section \<open>The vectors of the client library\<close>

record 'v counter_ops =
  CounterAdd :: "'v \<Rightarrow> Labels \<Rightarrow> nat \<Rightarrow> 'v" \<comment> \<open>\<open>With(labels).Add\<close>\<close>
  CounterDelete :: "'v \<Rightarrow> Labels \<Rightarrow> 'v"
  CounterSample :: "'v \<Rightarrow> Labels \<rightharpoonup> nat" \<comment> \<open>what a scrape reads\<close>

record 'g gauge_ops =
  GaugeSet :: "'g \<Rightarrow> Labels \<Rightarrow> nat \<Rightarrow> 'g" \<comment> \<open>\<open>With(labels).Set\<close>\<close>
  GaugeDelete :: "'g \<Rightarrow> Labels \<Rightarrow> 'g"
  GaugeSample :: "'g \<Rightarrow> Labels \<rightharpoonup> nat"

abbreviation or_zero :: "nat option \<Rightarrow> nat" where
  "or_zero x \<equiv> (case x of None \<Rightarrow> 0 | Some n \<Rightarrow> n)"

text \<open>A series after an addition: its value is the sum as long as a \<open>float64\<close> is sure to hold it.\<close>

definition raised :: "nat option \<Rightarrow> nat \<Rightarrow> nat option \<Rightarrow> bool" where
  "raised old d new \<longleftrightarrow>
     (case new of None \<Rightarrow> False | Some x \<Rightarrow> or_zero old + d \<le> 2 ^ 53 \<longrightarrow> x = or_zero old + d)"

lemma raised_exact: "raised old d new \<Longrightarrow> or_zero old + d \<le> 2 ^ 53 \<Longrightarrow> new = Some (or_zero old + d)"
  by (cases new) (simp_all add: raised_def)

locale counter_vec =
  fixes vops :: "'v counter_ops"
  assumes sample_add: "raised (CounterSample vops v l) d (CounterSample vops (CounterAdd vops v l d) l)"
    and sample_add_other: "l' \<noteq> l \<Longrightarrow> CounterSample vops (CounterAdd vops v l d) l' = CounterSample vops v l'"
    and sample_delete: "CounterSample vops (CounterDelete vops v l) = (CounterSample vops v)(l := None)"

locale gauge_vec =
  fixes gops :: "'g gauge_ops"
  assumes sample_set: "GaugeSample gops (GaugeSet gops g l d) = (GaugeSample gops g)(l \<mapsto> d)"
    and gauge_delete: "GaugeSample gops (GaugeDelete gops g l) = (GaugeSample gops g)(l := None)"

text \<open>Vectors as maps from labels to the value of the series.\<close>

definition map_counters :: "(Labels \<rightharpoonup> nat) counter_ops" where
  "map_counters = \<lparr>CounterAdd = (\<lambda>v l d. v(l \<mapsto> float64 (or_zero (v l) + d))),
     CounterDelete = (\<lambda>v l. v(l := None)), CounterSample = id\<rparr>"

definition map_gauges :: "(Labels \<rightharpoonup> nat) gauge_ops" where
  "map_gauges = \<lparr>GaugeSet = (\<lambda>g l d. g(l \<mapsto> d)), GaugeDelete = (\<lambda>g l. g(l := None)), GaugeSample = id\<rparr>"

interpretation map_counters: counter_vec map_counters
  by unfold_locales (simp_all add: map_counters_def raised_def float64_exact)

interpretation map_gauges: gauge_vec map_gauges
  by unfold_locales (simp_all add: map_gauges_def)

section \<open>Data\<close>

record aggregate =
  ioCount :: u64
  totalBytes :: u64
  totalLatencyNs :: u64
  errorCount :: u64
  runqEvents :: u64
  runqLatencyNs :: u64
  avg :: u64

definition zero_aggregate :: aggregate where
  "zero_aggregate = \<lparr>ioCount = 0, totalBytes = 0, totalLatencyNs = 0, errorCount = 0, runqEvents = 0,
     runqLatencyNs = 0, avg = 0\<rparr>"

record ('v, 'g) PromMetrics =
  pm_ioCount :: 'v
  pm_totalBytes :: 'v
  pm_totalLatencyNs :: 'v
  pm_errorCount :: 'v
  pm_runqEvents :: 'v
  pm_runqLatencyNs :: 'v
  pm_avgLatencyNs :: 'g
  prev :: "(string \<times> aggregate) list" \<comment> \<open>a map, as an association list\<close>

text \<open>\<open>NewPromMetrics\<close>: new vectors, no previous values.\<close>

definition NewPromMetrics :: "'v \<Rightarrow> 'g \<Rightarrow> ('v, 'g) PromMetrics" where
  "NewPromMetrics v g = \<lparr>pm_ioCount = v, pm_totalBytes = v, pm_totalLatencyNs = v, pm_errorCount = v,
     pm_runqEvents = v, pm_runqLatencyNs = v, pm_avgLatencyNs = g, prev = []\<rparr>"

text \<open>The names under which it registers the six counters, and the names of the labels.\<close>

definition counter_names :: "string list" where
  "counter_names = [''ebpf_block_io_count_total'', ''ebpf_block_io_bytes_total'',
     ''ebpf_block_io_latency_ns_total'', ''ebpf_block_io_errors_total'', ''ebpf_cpu_runq_events_total'',
     ''ebpf_cpu_runq_latency_ns_total'']"

definition labelNames :: "string list" where
  "labelNames = [''kind'', ''pod_uid'']"

definition deltaFloat :: "u64 \<Rightarrow> u64 \<Rightarrow> nat" where
  "deltaFloat cur prv = (if cur < prv then float64 (unat cur) else float64 (unat (cur - prv)))"

section \<open>Update\<close>

definition agg_or_zero :: "(string \<times> aggregate) list \<Rightarrow> string \<Rightarrow> aggregate" where
  "agg_or_zero m key = (case map_of m key of Some a \<Rightarrow> a | None \<Rightarrow> zero_aggregate)"

text \<open>The body of the loop over the rows: what a row adds to the aggregate of its key.\<close>

definition add_row :: "Row \<Rightarrow> aggregate \<Rightarrow> aggregate" where
  "add_row r a =
     (let a' = a\<lparr>ioCount := ioCount a + IOCount (Stats r),
                 totalBytes := totalBytes a + TotalBytes (Stats r),
                 totalLatencyNs := totalLatencyNs a + TotalLatencyNs (Stats r),
                 errorCount := errorCount a + ErrorCount (Stats r),
                 runqEvents := runqEvents a + RunqCount (RunqStats r),
                 runqLatencyNs := runqLatencyNs a + RunqTotalLatencyNs (RunqStats r)\<rparr>
      in if ioCount a' > 0 then a'\<lparr>avg := totalLatencyNs a' div ioCount a'\<rparr> else a')"

definition add_to_current ::
  "Row \<Rightarrow> (string \<times> aggregate) list \<times> (string \<times> Labels) list \<Rightarrow>
   (string \<times> aggregate) list \<times> (string \<times> Labels) list" where
  "add_to_current r ck =
     (case ck of (current, keyLabels) \<Rightarrow>
        let labels = row_labels r; key = key_of labels
        in (AList.update key (add_row r (agg_or_zero current key)) current,
            AList.update key labels keyLabels))"

definition aggregate_rows :: "Row list \<Rightarrow> (string \<times> aggregate) list \<times> (string \<times> Labels) list" where
  "aggregate_rows rows = fold add_to_current rows ([], [])"

text \<open>The body of the loop over \<open>current\<close>.\<close>

definition publish ::
  "'v counter_ops \<Rightarrow> 'g gauge_ops \<Rightarrow> (string \<times> aggregate) list \<Rightarrow> (string \<times> Labels) list \<Rightarrow> string \<Rightarrow>
   ('v, 'g) PromMetrics \<Rightarrow> ('v, 'g) PromMetrics" where
  "publish vops gops current keyLabels key pm =
     (let a = agg_or_zero current key;
          labels = (case map_of keyLabels key of Some l \<Rightarrow> l | None \<Rightarrow> \<lparr>lbl_kind = '''', lbl_pod_uid = ''''\<rparr>);
          p = agg_or_zero (prev pm) key
      in pm\<lparr>pm_ioCount := CounterAdd vops (pm_ioCount pm) labels (deltaFloat (ioCount a) (ioCount p)),
            pm_totalBytes :=
              CounterAdd vops (pm_totalBytes pm) labels (deltaFloat (totalBytes a) (totalBytes p)),
            pm_totalLatencyNs :=
              CounterAdd vops (pm_totalLatencyNs pm) labels (deltaFloat (totalLatencyNs a) (totalLatencyNs p)),
            pm_errorCount :=
              CounterAdd vops (pm_errorCount pm) labels (deltaFloat (errorCount a) (errorCount p)),
            pm_runqEvents :=
              CounterAdd vops (pm_runqEvents pm) labels (deltaFloat (runqEvents a) (runqEvents p)),
            pm_runqLatencyNs :=
              CounterAdd vops (pm_runqLatencyNs pm) labels (deltaFloat (runqLatencyNs a) (runqLatencyNs p)),
            pm_avgLatencyNs := GaugeSet gops (pm_avgLatencyNs pm) labels (float64 (unat (avg a))),
            prev := AList.update key a (prev pm)\<rparr>)"

text \<open>The body of the loop over \<open>pm.prev\<close>.\<close>

definition drop_gone ::
  "'v counter_ops \<Rightarrow> 'g gauge_ops \<Rightarrow> (string \<times> aggregate) list \<Rightarrow> string \<Rightarrow>
   ('v, 'g) PromMetrics \<Rightarrow> ('v, 'g) PromMetrics" where
  "drop_gone vops gops current key pm =
     (if map_of current key \<noteq> None then pm
      else
        let labels = labelsFromKey key
        in pm\<lparr>pm_ioCount := CounterDelete vops (pm_ioCount pm) labels,
              pm_totalBytes := CounterDelete vops (pm_totalBytes pm) labels,
              pm_totalLatencyNs := CounterDelete vops (pm_totalLatencyNs pm) labels,
              pm_errorCount := CounterDelete vops (pm_errorCount pm) labels,
              pm_runqEvents := CounterDelete vops (pm_runqEvents pm) labels,
              pm_runqLatencyNs := CounterDelete vops (pm_runqLatencyNs pm) labels,
              pm_avgLatencyNs := GaugeDelete gops (pm_avgLatencyNs pm) labels,
              prev := AList.delete key (prev pm)\<rparr>)"

text \<open>\<open>rng\<close>: the order in which Go ranges over the keys of a map.\<close>

definition Update ::
  "(string list \<Rightarrow> string list) \<Rightarrow> 'v counter_ops \<Rightarrow> 'g gauge_ops \<Rightarrow> Row list \<Rightarrow>
   ('v, 'g) PromMetrics \<Rightarrow> ('v, 'g) PromMetrics" where
  "Update rng vops gops rows pm =
     (case aggregate_rows rows of (current, keyLabels) \<Rightarrow>
        let pm1 = fold (publish vops gops current keyLabels) (rng (map fst current)) pm
        in fold (drop_gone vops gops current) (rng (map fst (prev pm1))) pm1)"

section \<open>Keys and labels\<close>

text \<open>A kind is one of the five strings, none of which has a bar.\<close>

definition valid_labels :: "Labels \<Rightarrow> bool" where
  "valid_labels l \<longleftrightarrow> (\<exists>k. lbl_kind l = kind_string k)"

lemma kind_string_no_bar: "CHR ''|'' \<notin> set (kind_string k)"
  by (cases k) simp_all

lemma split_key_append:
  "CHR ''|'' \<notin> set k \<Longrightarrow> split_key seen (k @ CHR ''|'' # u) = \<lparr>lbl_kind = seen @ k, lbl_pod_uid = u\<rparr>"
  by (induction k arbitrary: seen) auto

lemma labels_of_key: "valid_labels l \<Longrightarrow> labelsFromKey (key_of l) = l"
proof -
  assume "valid_labels l"
  then have "CHR ''|'' \<notin> set (lbl_kind l)"
    using kind_string_no_bar by (auto simp: valid_labels_def)
  then show ?thesis
    by (simp add: labelsFromKey_def key_of_def split_key_append)
qed

lemma key_of_inj: "valid_labels l \<Longrightarrow> valid_labels l' \<Longrightarrow> key_of l = key_of l' \<Longrightarrow> l = l'"
  by (metis labels_of_key)

lemma row_labels_valid: "valid_labels (row_labels r)"
  by (auto simp: valid_labels_def row_labels_def)

section \<open>Aggregation\<close>

definition agg_list :: "aggregate \<Rightarrow> u64 list" where
  "agg_list a = [ioCount a, totalBytes a, totalLatencyNs a, errorCount a, runqEvents a, runqLatencyNs a]"

definition row_list :: "Row \<Rightarrow> u64 list" where
  "row_list r = [IOCount (Stats r), TotalBytes (Stats r), TotalLatencyNs (Stats r), ErrorCount (Stats r),
     RunqCount (RunqStats r), RunqTotalLatencyNs (RunqStats r)]"

definition row_key :: "Row \<Rightarrow> string" where
  "row_key r = key_of (row_labels r)"

lemma six: "i < 6 \<Longrightarrow> i = 0 \<or> i = 1 \<or> i = 2 \<or> i = 3 \<or> i = 4 \<or> i = (5 :: nat)"
  by arith

lemma add_row_list: "i < 6 \<Longrightarrow> agg_list (add_row r a) ! i = agg_list a ! i + row_list r ! i"
  by (drule six, elim disjE) (simp_all add: agg_list_def row_list_def add_row_def Let_def)

lemma zero_list: "i < 6 \<Longrightarrow> agg_list zero_aggregate ! i = 0"
  by (drule six, elim disjE) (simp_all add: agg_list_def zero_aggregate_def)

lemma aggregate_snoc: "aggregate_rows (rows @ [r]) = add_to_current r (aggregate_rows rows)"
  by (simp add: aggregate_rows_def)

lemma aggregate_keys:
  "distinct (map fst (fst (aggregate_rows rows))) \<and>
   set (map fst (fst (aggregate_rows rows))) = row_key ` set rows"
proof (induction rows rule: rev_induct)
  case Nil
  then show ?case by (simp add: aggregate_rows_def)
next
  case (snoc r rows)
  obtain cur kl where ck: "aggregate_rows rows = (cur, kl)" by fastforce
  have "fst (aggregate_rows (rows @ [r])) =
      AList.update (row_key r) (add_row r (agg_or_zero cur (row_key r))) cur"
    by (simp add: aggregate_snoc ck add_to_current_def Let_def row_key_def)
  with snoc show ?case by (simp add: ck distinct_update dom_update)
qed

lemma aggregate_labels:
  "map_of (snd (aggregate_rows rows)) key = Some l \<longleftrightarrow> l \<in> row_labels ` set rows \<and> key = key_of l"
proof (induction rows arbitrary: key l rule: rev_induct)
  case Nil
  then show ?case by (simp add: aggregate_rows_def)
next
  case (snoc r rows)
  have "map_of (snd (aggregate_rows (rows @ [r]))) =
      (map_of (snd (aggregate_rows rows)))(key_of (row_labels r) \<mapsto> row_labels r)"
    by (simp add: aggregate_snoc add_to_current_def Let_def update_conv' split: prod.splits)
  with snoc.IH show ?case
    using row_labels_valid key_of_inj by (auto simp: row_key_def)
qed

lemma aggregate_sums:
  assumes "i < 6"
  shows "agg_list (agg_or_zero (fst (aggregate_rows rows)) key) ! i =
    sum_list (map (\<lambda>r. row_list r ! i) (filter (\<lambda>r. row_key r = key) rows))"
proof (induction rows rule: rev_induct)
  case Nil
  then show ?case using assms by (simp add: aggregate_rows_def agg_or_zero_def zero_list)
next
  case (snoc r rows)
  obtain cur kl where ck: "aggregate_rows rows = (cur, kl)" by fastforce
  have "agg_or_zero (fst (aggregate_rows (rows @ [r]))) key =
      (if row_key r = key then add_row r (agg_or_zero cur key) else agg_or_zero cur key)"
    by (simp add: aggregate_snoc ck add_to_current_def Let_def update_conv' agg_or_zero_def row_key_def)
  with snoc.IH show ?case using assms by (simp add: ck add_row_list)
qed

lemma aggregate_avg:
  "0 < ioCount (agg_or_zero (fst (aggregate_rows rows)) key) \<Longrightarrow>
   avg (agg_or_zero (fst (aggregate_rows rows)) key) =
   totalLatencyNs (agg_or_zero (fst (aggregate_rows rows)) key) div
   ioCount (agg_or_zero (fst (aggregate_rows rows)) key)"
proof (induction rows rule: rev_induct)
  case Nil
  then show ?case by (simp add: aggregate_rows_def agg_or_zero_def zero_aggregate_def)
next
  case (snoc r rows)
  obtain cur kl where ck: "aggregate_rows rows = (cur, kl)" by fastforce
  have "agg_or_zero (fst (aggregate_rows (rows @ [r]))) key =
      (if row_key r = key then add_row r (agg_or_zero cur key) else agg_or_zero cur key)"
    by (simp add: aggregate_snoc ck add_to_current_def Let_def update_conv' agg_or_zero_def row_key_def)
  with snoc show ?case
    by (auto simp: ck add_row_def Let_def split: if_splits)
qed

section \<open>The two loops of \<open>Update\<close>\<close>

definition pm_vecs :: "('v, 'g) PromMetrics \<Rightarrow> 'v list" where
  "pm_vecs pm = [pm_ioCount pm, pm_totalBytes pm, pm_totalLatencyNs pm, pm_errorCount pm,
     pm_runqEvents pm, pm_runqLatencyNs pm]"

lemma publish_vec:
  assumes "i < 6" and "map_of keyLabels key = Some l"
  shows "pm_vecs (publish vops gops current keyLabels key pm) ! i =
    CounterAdd vops (pm_vecs pm ! i) l
      (deltaFloat (agg_list (agg_or_zero current key) ! i) (agg_list (agg_or_zero (prev pm) key) ! i))"
  using six [OF assms(1)] assms(2)
  by (elim disjE) (simp_all add: publish_def Let_def pm_vecs_def agg_list_def)

lemma publish_prev: "prev (publish vops gops current keyLabels key pm) =
    AList.update key (agg_or_zero current key) (prev pm)"
  by (simp add: publish_def Let_def)

lemma publish_gauge: "map_of keyLabels key = Some l \<Longrightarrow>
   pm_avgLatencyNs (publish vops gops current keyLabels key pm) =
   GaugeSet gops (pm_avgLatencyNs pm) l (float64 (unat (avg (agg_or_zero current key))))"
  by (simp add: publish_def Let_def)

lemma drop_vec:
  "i < 6 \<Longrightarrow> pm_vecs (drop_gone vops gops current key pm) ! i =
    (if map_of current key \<noteq> None then pm_vecs pm ! i
     else CounterDelete vops (pm_vecs pm ! i) (labelsFromKey key))"
  by (drule six, elim disjE) (simp_all add: drop_gone_def Let_def pm_vecs_def)

lemma drop_prev: "map_of (prev (drop_gone vops gops current key pm)) =
    (if map_of current key \<noteq> None then map_of (prev pm) else (map_of (prev pm))(key := None))"
  by (simp add: drop_gone_def Let_def delete_conv')

lemma drop_gauge:
  "pm_avgLatencyNs (drop_gone vops gops current key pm) =
    (if map_of current key \<noteq> None then pm_avgLatencyNs pm
     else GaugeDelete gops (pm_avgLatencyNs pm) (labelsFromKey key))"
  by (simp add: drop_gone_def Let_def)

text \<open>The labels whose series the second loop drops at the keys \<open>ks\<close>.\<close>

definition gone_labels :: "(string \<times> aggregate) list \<Rightarrow> string list \<Rightarrow> Labels \<Rightarrow> bool" where
  "gone_labels cur ks l \<longleftrightarrow> (\<exists>k \<in> set ks. map_of cur k = None \<and> labelsFromKey k = l)"

lemma gone_labels_snoc:
  "gone_labels cur (ks @ [k]) l \<longleftrightarrow> gone_labels cur ks l \<or> map_of cur k = None \<and> labelsFromKey k = l"
  by (auto simp: gone_labels_def)

text \<open>The total of a pod's rows in one of the six columns.\<close>

definition pod_total :: "Row list \<Rightarrow> string \<Rightarrow> nat \<Rightarrow> u64" where
  "pod_total rows key i = sum_list (map (\<lambda>r. row_list r ! i) (filter (\<lambda>r. row_key r = key) rows))"

lemma agg_pod_total:
  "i < 6 \<Longrightarrow> agg_list (agg_or_zero (fst (aggregate_rows rows)) key) ! i = pod_total rows key i"
  unfolding pod_total_def by (rule aggregate_sums)

text \<open>
  The state after a pass: what \<open>prev\<close> holds is the aggregate of the pass, and every counter equals
  the total of its pod in the pass.
\<close>

definition in_step :: "'v counter_ops \<Rightarrow> Row list \<Rightarrow> ('v, 'g) PromMetrics \<Rightarrow> bool" where
  "in_step vops rows pm \<longleftrightarrow> map_of (prev pm) = map_of (fst (aggregate_rows rows)) \<and>
     (\<forall>i < 6. \<forall>l. CounterSample vops (pm_vecs pm ! i) l =
        (if l \<in> row_labels ` set rows then Some (unat (pod_total rows (key_of l) i)) else None))"

text \<open>The totals of the pods seen in both passes do not shrink; totals are exact as \<open>float64\<close>.\<close>

definition grows :: "Row list \<Rightarrow> Row list \<Rightarrow> bool" where
  "grows old new \<longleftrightarrow> (\<forall>r \<in> set new. row_key r \<in> row_key ` set old \<longrightarrow>
     (\<forall>i \<in> set [0..<6]. pod_total old (row_key r) i \<le> pod_total new (row_key r) i))"

definition exact :: "Row list \<Rightarrow> bool" where
  "exact rows \<longleftrightarrow> (\<forall>r \<in> set rows. \<forall>i \<in> set [0..<6]. unat (pod_total rows (row_key r) i) \<le> 2 ^ 53)"

fun good_passes :: "Row list \<Rightarrow> Row list list \<Rightarrow> bool" where
  "good_passes old [] = True"
| "good_passes old (rows # passes) = (grows old rows \<and> exact rows \<and> good_passes rows passes)"

lemma deltaFloat_exact:
  "p \<le> a \<Longrightarrow> unat a \<le> 2 ^ 53 \<Longrightarrow> deltaFloat a p = unat a - unat p"
proof -
  assume a: "p \<le> a" "unat a \<le> 2 ^ 53"
  then have "unat (a - p) = unat a - unat p" by (simp add: unat_sub)
  moreover have "\<not> a < p" using a(1) by simp
  ultimately show ?thesis using a(2) by (simp add: deltaFloat_def float64_exact)
qed

locale prom_vecs = c: counter_vec vops + g: gauge_vec gops
  for vops :: "'v counter_ops" and gops :: "'g gauge_ops" +
  fixes rng :: "string list \<Rightarrow> string list"
  assumes rng_perm: "mset (rng xs) = mset xs"
begin

lemma rng_set: "set (rng xs) = set xs"
  by (metis rng_perm set_mset_mset)

lemma rng_distinct: "distinct (rng xs) = distinct xs"
  using mset_eq_imp_distinct_iff [OF rng_perm] .

abbreviation sample :: "nat \<Rightarrow> ('v, 'g) PromMetrics \<Rightarrow> Labels \<rightharpoonup> nat" where
  "sample i pm \<equiv> CounterSample vops (pm_vecs pm ! i)"

abbreviation gauge :: "('v, 'g) PromMetrics \<Rightarrow> Labels \<rightharpoonup> nat" where
  "gauge pm \<equiv> GaugeSample gops (pm_avgLatencyNs pm)"

text \<open>The loop over \<open>current\<close>, as far as the keys \<open>ks\<close>.\<close>

lemma publish_loop:
  assumes "distinct ks" and "set ks \<subseteq> row_key ` set rows" and i: "i < 6"
    and pm': "pm' = fold (publish vops gops cur (snd (aggregate_rows rows))) ks pm"
  shows "(if l \<in> row_labels ` set rows \<and> key_of l \<in> set ks
       then raised (sample i pm l)
              (deltaFloat (agg_list (agg_or_zero cur (key_of l)) ! i)
                (agg_list (agg_or_zero (prev pm) (key_of l)) ! i)) (sample i pm' l)
       else sample i pm' l = sample i pm l) \<and>
    gauge pm' l =
      (if l \<in> row_labels ` set rows \<and> key_of l \<in> set ks
       then Some (float64 (unat (avg (agg_or_zero cur (key_of l))))) else gauge pm l) \<and>
    map_of (prev pm') key = (if key \<in> set ks then Some (agg_or_zero cur key) else map_of (prev pm) key)"
  unfolding pm' using assms(1,2)
proof (induction ks arbitrary: l key rule: rev_induct)
  case (snoc k ks)
  let ?s = "fold (publish vops gops cur (snd (aggregate_rows rows))) ks pm"
  from snoc.prems obtain m where m: "m \<in> row_labels ` set rows" "key_of m = k"
    by (auto simp: row_key_def)
  then have kl: "map_of (snd (aggregate_rows rows)) k = Some m" by (simp add: aggregate_labels)
  have IH: "if l \<in> row_labels ` set rows \<and> key_of l \<in> set ks
       then raised (sample i pm l)
              (deltaFloat (agg_list (agg_or_zero cur (key_of l)) ! i)
                (agg_list (agg_or_zero (prev pm) (key_of l)) ! i)) (sample i ?s l)
       else sample i ?s l = sample i pm l"
    "gauge ?s l = (if l \<in> row_labels ` set rows \<and> key_of l \<in> set ks
       then Some (float64 (unat (avg (agg_or_zero cur (key_of l))))) else gauge pm l)"
    "map_of (prev ?s) key = (if key \<in> set ks then Some (agg_or_zero cur key) else map_of (prev pm) key)"
    for l key using snoc.IH [of l key] snoc.prems by auto
  have k: "k \<notin> set ks" using snoc.prems by simp
  have p: "agg_or_zero (prev ?s) k = agg_or_zero (prev pm) k"
    using IH(3) [of k] k by (simp add: agg_or_zero_def)
  have mem: "l \<in> row_labels ` set rows \<and> key_of l \<in> set (ks @ [k]) \<longleftrightarrow>
      l = m \<or> l \<in> row_labels ` set rows \<and> key_of l \<in> set ks"
    using m key_of_inj row_labels_valid by auto
  have step: "fold (publish vops gops cur (snd (aggregate_rows rows))) (ks @ [k]) pm =
      publish vops gops cur (snd (aggregate_rows rows)) k ?s" by simp
  show ?case
  proof (cases "l = m")
    case True
    have s: "sample i ?s m = sample i pm m" using IH(1) [of m] m k by simp
    have "raised (sample i pm m) d (CounterSample vops (CounterAdd vops (pm_vecs ?s ! i) m d) m)" for d
      using c.sample_add [of "pm_vecs ?s ! i" m d] unfolding s .
    then show ?thesis
      unfolding step mem publish_vec [OF i kl] publish_gauge [OF kl] publish_prev p g.sample_set update_conv' True
      using IH(2) [of m] IH(3) [of key] m by simp
  next
    case False
    then show ?thesis
      unfolding step mem publish_vec [OF i kl] publish_gauge [OF kl] publish_prev p
        c.sample_add_other [OF False] g.sample_set update_conv'
      using IH(1,2) [of l] IH(3) [of key] by simp
  qed
qed simp

lemma drop_loop:
  assumes i: "i < 6"
  shows "sample i (fold (drop_gone vops gops cur) ks pm) l =
      (if gone_labels cur ks l then None else sample i pm l) \<and>
    gauge (fold (drop_gone vops gops cur) ks pm) l =
      (if gone_labels cur ks l then None else gauge pm l) \<and>
    map_of (prev (fold (drop_gone vops gops cur) ks pm)) key =
      (if key \<in> set ks \<and> map_of cur key = None then None else map_of (prev pm) key)"
proof (induction ks rule: rev_induct)
  case Nil
  then show ?case by (simp add: gone_labels_def)
next
  case (snoc k ks)
  have step: "fold (drop_gone vops gops cur) (ks @ [k]) pm =
      drop_gone vops gops cur k (fold (drop_gone vops gops cur) ks pm)" by simp
  show ?case
  proof (cases "map_of cur k")
    case None
    with snoc.IH show ?thesis
      unfolding step drop_vec [OF i] drop_gauge drop_prev gone_labels_snoc
      by (auto simp: c.sample_delete g.gauge_delete)
  next
    case (Some a)
    with snoc.IH show ?thesis
      unfolding step drop_vec [OF i] drop_gauge drop_prev gone_labels_snoc by auto
  qed
qed

lemma cur_dom: "map_of (fst (aggregate_rows rows)) k = None \<longleftrightarrow> k \<notin> row_key ` set rows"
  using aggregate_keys [of rows] by (auto simp: map_of_eq_None_iff)

lemma cur_Some: "k \<in> row_key ` set rows \<Longrightarrow>
  map_of (fst (aggregate_rows rows)) k = Some (agg_or_zero (fst (aggregate_rows rows)) k)"
  using cur_dom [of rows k] by (auto simp: agg_or_zero_def)

text \<open>The first loop over all of \<open>current\<close>.\<close>

lemma published:
  assumes i: "i < 6" and cur_def: "cur = fst (aggregate_rows rows)"
    and pm1: "pm1 = fold (publish vops gops cur (snd (aggregate_rows rows))) (rng (map fst cur)) pm"
  shows "if l \<in> row_labels ` set rows
       then raised (sample i pm l)
              (deltaFloat (agg_list (agg_or_zero cur (key_of l)) ! i)
                (agg_list (agg_or_zero (prev pm) (key_of l)) ! i)) (sample i pm1 l)
       else sample i pm1 l = sample i pm l"
    and "gauge pm1 l = (if l \<in> row_labels ` set rows
       then Some (float64 (unat (avg (agg_or_zero cur (key_of l))))) else gauge pm l)"
    and "map_of (prev pm1) key =
      (if key \<in> row_key ` set rows then Some (agg_or_zero cur key) else map_of (prev pm) key)"
    and "key \<in> set (rng (map fst (prev pm1))) \<longleftrightarrow> key \<in> row_key ` set rows \<or> map_of (prev pm) key \<noteq> None"
proof -
  let ?ks = "rng (map fst cur)"
  have ks: "distinct ?ks" "set ?ks = row_key ` set rows"
    using aggregate_keys [of rows] by (simp_all add: cur_def rng_distinct rng_set)
  note pub = publish_loop [where i = i and pm = pm and cur = cur and rows = rows, OF ks(1) _ i pm1,
      unfolded ks(2), OF subset_refl]
  have in_keys: "l \<in> row_labels ` set rows \<Longrightarrow> key_of l \<in> row_key ` set rows"
    by (auto simp: row_key_def)
  show "if l \<in> row_labels ` set rows
       then raised (sample i pm l)
              (deltaFloat (agg_list (agg_or_zero cur (key_of l)) ! i)
                (agg_list (agg_or_zero (prev pm) (key_of l)) ! i)) (sample i pm1 l)
       else sample i pm1 l = sample i pm l"
    using conjunct1 [OF pub [of l]] in_keys by simp
  show "gauge pm1 l = (if l \<in> row_labels ` set rows
       then Some (float64 (unat (avg (agg_or_zero cur (key_of l))))) else gauge pm l)"
    using conjunct1 [OF conjunct2 [OF pub [of l]]] in_keys by simp
  show prev1: "map_of (prev pm1) key =
      (if key \<in> row_key ` set rows then Some (agg_or_zero cur key) else map_of (prev pm) key)" for key
    using pub [of undefined key] by blast
  show "key \<in> set (rng (map fst (prev pm1))) \<longleftrightarrow> key \<in> row_key ` set rows \<or> map_of (prev pm) key \<noteq> None"
    using prev1 [of key] unfolding rng_set set_map by (metis map_of_eq_None_iff option.distinct(1))
qed

text \<open>The series the second loop drops: those of keys of earlier passes that no row has any more.\<close>

lemma gone_iff:
  assumes keys: "\<forall>k \<in> dom (map_of p). \<exists>l. valid_labels l \<and> k = key_of l"
    and cd: "\<And>k. map_of cur k = None \<longleftrightarrow> k \<notin> row_key ` set rows"
    and ks: "\<And>k. k \<in> set ks \<longleftrightarrow> k \<in> row_key ` set rows \<or> map_of p k \<noteq> None"
  shows "gone_labels cur ks l \<longleftrightarrow>
    l \<notin> row_labels ` set rows \<and> valid_labels l \<and> map_of p (key_of l) \<noteq> None"
  unfolding gone_labels_def
proof
  assume "\<exists>k \<in> set ks. map_of cur k = None \<and> labelsFromKey k = l"
  then obtain k where k0: "k \<in> set ks" "map_of cur k = None" and lk: "labelsFromKey k = l"
    by (elim bexE conjE)
  have k: "k \<notin> row_key ` set rows" "map_of p k \<noteq> None" using k0 unfolding ks cd by simp_all
  then obtain l' where "valid_labels l'" "k = key_of l'" using keys by blast
  with k lk show "l \<notin> row_labels ` set rows \<and> valid_labels l \<and> map_of p (key_of l) \<noteq> None"
    using labels_of_key [of l'] by (auto simp: row_key_def)
next
  assume l: "l \<notin> row_labels ` set rows \<and> valid_labels l \<and> map_of p (key_of l) \<noteq> None"
  then have "key_of l \<notin> row_key ` set rows"
    using key_of_inj row_labels_valid by (auto simp: row_key_def)
  with l show "\<exists>k \<in> set ks. map_of cur k = None \<and> labelsFromKey k = l"
    by (intro bexI [of _ "key_of l"]) (simp_all only: cd ks labels_of_key not_False_eq_True simp_thms)
qed

text \<open>What \<open>Update\<close> does to every series.\<close>

lemma update_series:
  assumes keys: "\<forall>k \<in> dom (map_of (prev pm)). \<exists>l. valid_labels l \<and> k = key_of l" and i: "i < 6"
    and cur_def: "cur = fst (aggregate_rows rows)"
    and pm'_def: "pm' = Update rng vops gops rows pm"
  shows "if l \<in> row_labels ` set rows
       then raised (sample i pm l)
              (deltaFloat (agg_list (agg_or_zero cur (key_of l)) ! i)
                (agg_list (agg_or_zero (prev pm) (key_of l)) ! i)) (sample i pm' l)
       else sample i pm' l =
         (if valid_labels l \<and> map_of (prev pm) (key_of l) \<noteq> None then None else sample i pm l)"
    and "gauge pm' l =
      (if l \<in> row_labels ` set rows then Some (float64 (unat (avg (agg_or_zero cur (key_of l)))))
       else if valid_labels l \<and> map_of (prev pm) (key_of l) \<noteq> None then None else gauge pm l)"
    and "map_of (prev pm') = map_of cur"
proof -
  let ?pm1 = "fold (publish vops gops cur (snd (aggregate_rows rows))) (rng (map fst cur)) pm"
  note pub = published [where pm = pm, OF i cur_def HOL.refl]
  have up: "pm' = fold (drop_gone vops gops cur) (rng (map fst (prev ?pm1))) ?pm1"
    by (simp add: pm'_def Update_def cur_def Let_def case_prod_beta)
  have cd: "map_of cur k = None \<longleftrightarrow> k \<notin> row_key ` set rows" for k
    unfolding cur_def by (rule cur_dom)
  note gone = gone_iff [OF keys cd pub(4), of l]
  note dl = drop_loop [OF i, of cur "rng (map fst (prev ?pm1))" ?pm1, folded up]
  show "if l \<in> row_labels ` set rows
       then raised (sample i pm l)
              (deltaFloat (agg_list (agg_or_zero cur (key_of l)) ! i)
                (agg_list (agg_or_zero (prev pm) (key_of l)) ! i)) (sample i pm' l)
       else sample i pm' l =
         (if valid_labels l \<and> map_of (prev pm) (key_of l) \<noteq> None then None else sample i pm l)"
    using conjunct1 [OF dl [of l]] pub(1) [of l] unfolding gone
    by (cases "map_of (prev pm) (key_of l)") simp_all
  show "gauge pm' l =
      (if l \<in> row_labels ` set rows then Some (float64 (unat (avg (agg_or_zero cur (key_of l)))))
       else if valid_labels l \<and> map_of (prev pm) (key_of l) \<noteq> None then None else gauge pm l)"
    using conjunct1 [OF conjunct2 [OF dl [of l]]] pub(2) [of l]
    unfolding gone by (cases "map_of (prev pm) (key_of l)") simp_all
  show "map_of (prev pm') = map_of cur"
  proof (rule ext)
    fix k show "map_of (prev pm') k = map_of cur k"
      using conjunct2 [OF conjunct2 [OF dl [of undefined k]]] pub(3) [of k] pub(4) [of k]
        cur_Some [of k rows] cur_dom [of rows k]
      unfolding cur_def [symmetric] by (metis (no_types))
  qed
qed

lemma in_step_keys: "in_step vops rows pm \<Longrightarrow> \<forall>k \<in> dom (map_of (prev pm)). \<exists>l. valid_labels l \<and> k = key_of l"
proof
  fix k assume "in_step vops rows pm" "k \<in> dom (map_of (prev pm))"
  then have "map_of (fst (aggregate_rows rows)) k \<noteq> None" by (auto simp: in_step_def)
  then have "k \<in> row_key ` set rows" unfolding cur_dom by simp
  then obtain r where "k = key_of (row_labels r)" by (auto simp: row_key_def)
  then show "\<exists>l. valid_labels l \<and> k = key_of l" using row_labels_valid by blast
qed

lemma in_step_prev: "in_step vops old pm \<Longrightarrow> i < 6 \<Longrightarrow> agg_list (agg_or_zero (prev pm) key) ! i = pod_total old key i"
  using agg_pod_total [of i old key] by (simp add: in_step_def agg_or_zero_def)

lemma key_in_rows: "valid_labels l \<Longrightarrow> key_of l \<in> row_key ` set rows \<longleftrightarrow> l \<in> row_labels ` set rows"
  using key_of_inj row_labels_valid by (auto simp: row_key_def)

text \<open>After a pass in step, a pass of any kind.\<close>

lemma update_from_step:
  assumes "in_step vops old pm" and i: "i < 6"
  shows "if l \<in> row_labels ` set rows
     then raised (if l \<in> row_labels ` set old then Some (unat (pod_total old (key_of l) i)) else None)
            (deltaFloat (pod_total rows (key_of l) i) (pod_total old (key_of l) i))
            (sample i (Update rng vops gops rows pm) l)
     else sample i (Update rng vops gops rows pm) l = None"
proof -
  have s: "sample i pm l =
      (if l \<in> row_labels ` set old then Some (unat (pod_total old (key_of l) i)) else None)"
    using assms by (simp add: in_step_def)
  have p: "map_of (prev pm) (key_of l) \<noteq> None \<longleftrightarrow> key_of l \<in> row_key ` set old"
    using assms(1) cur_dom [of old "key_of l"] by (auto simp: in_step_def)
  have v: "l \<in> row_labels ` set old \<Longrightarrow> valid_labels l" using row_labels_valid by blast
  show ?thesis
    using update_series(1) [OF in_step_keys [OF assms(1)] i HOL.refl HOL.refl, of l rows]
      s p v key_in_rows [of l old]
    unfolding agg_pod_total [OF i] in_step_prev [OF assms(1) i]
    by (cases "l \<in> row_labels ` set rows"; cases "l \<in> row_labels ` set old") simp_all
qed

lemma pod_total_none: "l \<notin> row_labels ` set old \<Longrightarrow> valid_labels l \<Longrightarrow> pod_total old (key_of l) i = 0"
proof -
  assume "l \<notin> row_labels ` set old" "valid_labels l"
  then have "key_of l \<notin> row_key ` set old" using key_in_rows by blast
  then have "\<forall>r \<in> set old. row_key r \<noteq> key_of l" by (metis imageI)
  then have "filter (\<lambda>r. row_key r = key_of l) old = []" by (simp add: filter_empty_conv)
  then show ?thesis by (simp add: pod_total_def)
qed

lemma update_in_step:
  assumes "in_step vops old pm" and "grows old rows" and "exact rows"
  shows "in_step vops rows (Update rng vops gops rows pm)"
proof -
  have "sample i (Update rng vops gops rows pm) l =
      (if l \<in> row_labels ` set rows then Some (unat (pod_total rows (key_of l) i)) else None)"
    if i: "i < 6" for i l
  proof (cases "l \<in> row_labels ` set rows")
    case True
    then obtain r where r: "r \<in> set rows" "l = row_labels r" by blast
    have small: "unat (pod_total rows (key_of l) i) \<le> 2 ^ 53"
      using assms(3) r i by (simp add: exact_def row_key_def)
    have mono: "pod_total old (key_of l) i \<le> pod_total rows (key_of l) i"
    proof (cases "l \<in> row_labels ` set old")
      case True
      then have "row_key r \<in> row_key ` set old" using r by (auto simp: row_key_def)
      then show ?thesis using assms(2) r i by (simp add: grows_def row_key_def)
    next
      case False
      then show ?thesis using pod_total_none [of l old i] row_labels_valid r(2) by simp
    qed
    have "unat (pod_total old (key_of l) i) \<le> unat (pod_total rows (key_of l) i)"
      using mono by (simp add: word_le_nat_alt)
    moreover have "raised (if l \<in> row_labels ` set old then Some (unat (pod_total old (key_of l) i)) else None)
        (unat (pod_total rows (key_of l) i) - unat (pod_total old (key_of l) i))
        (sample i (Update rng vops gops rows pm) l)"
      using update_from_step [OF assms(1) i, of l rows] True unfolding deltaFloat_exact [OF mono small] by simp
    ultimately show ?thesis
      using True small pod_total_none [of l old i] row_labels_valid r(2)
      by (cases "l \<in> row_labels ` set old") (auto dest!: raised_exact)
  next
    case False
    then show ?thesis using update_from_step [OF assms(1) i, of l rows] by simp
  qed
  moreover have "map_of (prev (Update rng vops gops rows pm)) = map_of (fst (aggregate_rows rows))"
    by (rule update_series(3) [OF in_step_keys [OF assms(1)] _ HOL.refl HOL.refl, of 0]) simp
  ultimately show ?thesis by (simp add: in_step_def)
qed

lemma new_in_step:
  "CounterSample vops v = Map.empty \<Longrightarrow> in_step vops [] (NewPromMetrics v g)"
proof -
  assume v: "CounterSample vops v = Map.empty"
  have "pm_vecs (NewPromMetrics v g) ! i = v" if "i < 6" for i
    using six [OF that] by (elim disjE) (simp_all add: pm_vecs_def NewPromMetrics_def)
  with v show ?thesis by (simp add: in_step_def NewPromMetrics_def aggregate_rows_def)
qed

lemma passes_in_step:
  "in_step vops old pm \<Longrightarrow> good_passes old passes \<Longrightarrow>
   in_step vops (last (old # passes)) (fold (Update rng vops gops) passes pm)"
proof (induction passes arbitrary: old pm)
  case (Cons rows passes)
  then have "in_step vops (last (rows # passes))
      (fold (Update rng vops gops) passes (Update rng vops gops rows pm))"
    by (intro Cons.IH) (simp_all add: update_in_step)
  then show ?case by simp
qed simp

text \<open>The gauge has a series for the pods of the last pass and no other.\<close>

definition gauge_keys :: "('v, 'g) PromMetrics \<Rightarrow> bool" where
  "gauge_keys pm \<longleftrightarrow> (\<forall>k \<in> dom (map_of (prev pm)). \<exists>l. valid_labels l \<and> k = key_of l) \<and>
     (\<forall>l. gauge pm l \<noteq> None \<longrightarrow> valid_labels l \<and> map_of (prev pm) (key_of l) \<noteq> None)"

lemma update_gauge:
  assumes "gauge_keys pm"
  shows "gauge (Update rng vops gops rows pm) l =
    (if l \<in> row_labels ` set rows
     then Some (float64 (unat (avg (agg_or_zero (fst (aggregate_rows rows)) (key_of l))))) else None)"
  using assms update_series(2) [OF _ _ HOL.refl HOL.refl, of pm 0 rows l]
  by (cases "gauge pm l") (auto simp: gauge_keys_def)

lemma update_gauge_keys:
  assumes "gauge_keys pm"
  shows "gauge_keys (Update rng vops gops rows pm)"
proof -
  have p: "map_of (prev (Update rng vops gops rows pm)) = map_of (fst (aggregate_rows rows))"
    using assms update_series(3) [OF _ _ HOL.refl HOL.refl, of pm 0 rows] by (simp add: gauge_keys_def)
  have "\<exists>l. valid_labels l \<and> k = key_of l" if "k \<in> row_key ` set rows" for k
    using that row_labels_valid by (auto simp: row_key_def)
  moreover have "valid_labels l \<and> key_of l \<in> row_key ` set rows" if "l \<in> row_labels ` set rows" for l
    using that row_labels_valid by (auto simp: row_key_def)
  ultimately show ?thesis
    unfolding gauge_keys_def p update_gauge [OF assms] by (auto simp: dom_def cur_dom)
qed

lemma passes_gauge_keys: "gauge_keys pm \<Longrightarrow> gauge_keys (fold (Update rng vops gops) passes pm)"
  by (induction passes arbitrary: pm) (simp_all add: update_gauge_keys)

lemma new_gauge_keys: "GaugeSample gops g = Map.empty \<Longrightarrow> gauge_keys (NewPromMetrics v g)"
  by (simp add: gauge_keys_def NewPromMetrics_def)

end

interpretation prom: prom_vecs map_counters map_gauges rev
  by unfold_locales simp

section \<open>The properties of the series\<close>

definition pod_row :: "u64 \<Rightarrow> string \<Rightarrow> u64 \<Rightarrow> u64 \<Rightarrow> Row" where
  "pod_row i uid n t =
     \<lparr>CgroupID = i, CgroupPath = '''', Kind = CgroupKindKubernetes,
      KubeInfo = \<lparr>IsKubernetes = True, PodUID = uid, ContainerID = '''', Runtime = ''containerd''\<rparr>,
      Stats = \<lparr>IOCount = n, TotalLatencyNs = t, TotalBytes = 512 * n, ErrorCount = 0\<rparr>,
      RunqStats = zero_runq, AvgNs = 0\<rparr>"

definition pass1 :: "Row list" where
  "pass1 = [pod_row 1 ''a'' 100 5000, pod_row 2 ''a'' 50 1000, pod_row 3 ''b'' 7 70]"

definition pass2 :: "Row list" where
  "pass2 = [pod_row 1 ''a'' 120 6000, pod_row 2 ''a'' 50 1000]"

text \<open>In the third pass one container of the pod has left.\<close>

definition pass3 :: "Row list" where
  "pass3 = [pod_row 1 ''a'' 130 6500]"

definition label_a :: Labels where
  "label_a = \<lparr>lbl_kind = ''kubernetes'', lbl_pod_uid = ''a''\<rparr>"

lemma fresh_maps: "CounterSample map_counters Map.empty = Map.empty" "GaugeSample map_gauges Map.empty = Map.empty"
  by (simp_all add: map_counters_def map_gauges_def)

lemmas demo_rows = row_key_def key_of_def row_labels_def pod_row_def pod_total_def row_list_def
  zero_runq_def label_a_def pass1_def pass2_def pass3_def

lemma six_list: "set [0..<6] = {0, 1, 2, 3, 4, 5 :: nat}"
  by (auto simp del: upt_Suc)

lemma demo_totals:
  "pod_total pass2 (key_of label_a) 0 = 170" "pod_total pass3 (key_of label_a) 0 = 130"
  "pod_total pass3 (key_of label_a) 2 = 6500" "label_a \<in> row_labels ` set pass2"
  "label_a \<in> row_labels ` set pass3"
  by (simp_all add: demo_rows)

lemma demo_passes: "good_passes [] [pass1, pass2]"
  unfolding good_passes.simps grows_def exact_def six_list
  by (simp add: demo_rows)

text \<open>
  C23: over any sequence of passes in which the totals of a pod do not shrink and stay below
  \<open>2\<^sup>53\<close>, whatever the order in which Go ranges over its maps, each of the six counters reads, for
  every pod of the last pass, exactly the sum of the values of its cgroups in that pass, and has
  no series for any other pod.
\<close>

theorem counters_equal_totals:
  assumes "prom_vecs vops gops rng" and "CounterSample vops v = Map.empty"
    and "good_passes [] passes" and "i < 6"
  shows "CounterSample vops (pm_vecs (fold (Update rng vops gops) passes (NewPromMetrics v g)) ! i) l =
    (if l \<in> row_labels ` set (last ([] # passes))
     then Some (unat (pod_total (last ([] # passes)) (key_of l) i)) else None)"
  using prom_vecs.passes_in_step [OF assms(1) prom_vecs.new_in_step [OF assms(1,2), of g] assms(3)] assms(4)
  by (simp add: in_step_def)

theorem counters_equal_totals_witness:
  "CounterSample map_counters (pm_vecs (fold (Update rev map_counters map_gauges) [pass1, pass2]
       (NewPromMetrics Map.empty Map.empty)) ! 0) label_a = Some 170"
  using counters_equal_totals [OF prom.prom_vecs_axioms fresh_maps(1) demo_passes, of 0 Map.empty label_a]
  by (simp add: demo_totals)

text \<open>
  When the total of a pod shrinks between two passes (a container of a pod that goes on has left), the
  counter does not stop growing: the whole remaining total is added again.
\<close>

lemma shrunk_total_counted_again:
  assumes "prom_vecs vops gops rng" and "CounterSample vops v = Map.empty"
    and "good_passes [] passes" and "i < 6"
    and "l \<in> row_labels ` set (last ([] # passes))" and "l \<in> row_labels ` set rows"
    and "pod_total rows (key_of l) i < pod_total (last ([] # passes)) (key_of l) i"
    and "unat (pod_total (last ([] # passes)) (key_of l) i) + unat (pod_total rows (key_of l) i) \<le> 2 ^ 53"
  shows "CounterSample vops (pm_vecs (fold (Update rng vops gops) (passes @ [rows]) (NewPromMetrics v g)) ! i) l =
    Some (unat (pod_total (last ([] # passes)) (key_of l) i) + unat (pod_total rows (key_of l) i))"
proof -
  let ?old = "pod_total (last ([] # passes)) (key_of l) i"
  let ?new = "pod_total rows (key_of l) i"
  have "deltaFloat ?new ?old = unat ?new" using assms(7,8) by (simp add: deltaFloat_def float64_exact)
  with prom_vecs.update_from_step [OF assms(1) prom_vecs.passes_in_step [OF assms(1)
        prom_vecs.new_in_step [OF assms(1,2), of g] assms(3)] assms(4), of l rows] assms(5,6)
  have "raised (Some (unat ?old)) (unat ?new)
      (CounterSample vops (pm_vecs (fold (Update rng vops gops) (passes @ [rows]) (NewPromMetrics v g)) ! i) l)"
    by simp
  from raised_exact [OF this] assms(8) show ?thesis by simp
qed

text \<open>
  C24: after any sequence of passes the latency gauge has a series exactly for the pods of the last
  pass, and it reads the mean latency of the pod over its cgroups, total latency divided by total
  count, whenever something completed.
\<close>

theorem gauge_is_pod_mean:
  assumes "prom_vecs vops gops rng" and "GaugeSample gops g = Map.empty"
    and reading: "reading = GaugeSample gops
      (pm_avgLatencyNs (fold (Update rng vops gops) (passes @ [rows]) (NewPromMetrics v g)))"
  shows "(reading l \<noteq> None \<longleftrightarrow> l \<in> row_labels ` set rows) \<and>
    (l \<in> row_labels ` set rows \<and> 0 < pod_total rows (key_of l) 0 \<longrightarrow>
       reading l = Some (float64 (unat (pod_total rows (key_of l) 2 div pod_total rows (key_of l) 0))))"
proof -
  let ?a = "agg_or_zero (fst (aggregate_rows rows)) (key_of l)"
  have "agg_list ?a ! 0 = pod_total rows (key_of l) 0" "agg_list ?a ! 2 = pod_total rows (key_of l) 2"
    by (simp_all add: agg_pod_total)
  then have "0 < pod_total rows (key_of l) 0 \<Longrightarrow>
      avg ?a = pod_total rows (key_of l) 2 div pod_total rows (key_of l) 0"
    using aggregate_avg [of rows "key_of l"] by (simp add: agg_list_def)
  then show ?thesis
    using prom_vecs.update_gauge [OF assms(1) prom_vecs.passes_gauge_keys [OF assms(1)
          prom_vecs.new_gauge_keys [OF assms(1,2), of v]], of rows passes l]
    by (simp add: reading)
qed

theorem gauge_is_pod_mean_witness:
  "GaugeSample map_gauges (pm_avgLatencyNs (fold (Update rev map_counters map_gauges) ([pass1, pass2] @ [pass3])
     (NewPromMetrics Map.empty Map.empty))) label_a = Some 50"
  using gauge_is_pod_mean [OF prom.prom_vecs_axioms fresh_maps(2) HOL.refl, of "[pass1, pass2]" pass3
      Map.empty label_a] by (simp add: demo_totals float64_exact)

text \<open>
  The key under which \<open>Update\<close> remembers a series determines its labels: \<open>labelsFromKey\<close> gives
  back the labels of the row, so the series dropped is the one that was published, and two rows
  share a key only when they share both labels.
\<close>

theorem labels_roundtrip:
  "labelsFromKey (key_of (row_labels r)) = row_labels r \<and>
   (key_of (row_labels r) = key_of (row_labels r') \<longleftrightarrow> row_labels r = row_labels r')"
  using labels_of_key row_labels_valid key_of_inj by metis

end
