(* ===== verification/CollectorLoop.thy ===== *)
theory CollectorLoop
  imports PromMetrics BlockSpec
begin

text \<open>
  \<open>collector/main.go\<close>, \<open>startCollectorLoop\<close>: what one tick of the collector does with the resolver, the
  kernel maps and the series; and the way of a block statistic from the tracepoint programs to a row
  of the collector. Between two ticks the kernel changes the maps as it likes.
\<close>

section \<open>A tick\<close>

record ('b, 'r, 'v, 'g) collector =
  cl_resolver :: "CgroupResolver option" \<comment> \<open>nil before the first build and after an unknown id\<close>
  cl_block :: 'b
  cl_runq :: "'r option"
  cl_prom :: "('v, 'g) PromMetrics"

text \<open>What a tick meets outside the process: the byte order, the file handles, the walk of \<open>cgroupRoot\<close>.\<close>

record cgroup_fs =
  fs_big_endian :: bool
  fs_handles :: name_to_handle
  fs_walk :: "walk_call list"

definition collector_tick ::
  "('b, CgroupIOStats) map_ops \<Rightarrow> ('r, CgroupRunqStats) map_ops \<Rightarrow> (string list \<Rightarrow> string list) \<Rightarrow>
   'v counter_ops \<Rightarrow> 'g gauge_ops \<Rightarrow> cgroup_fs \<Rightarrow> ('b, 'r, 'v, 'g) collector \<Rightarrow>
   ('b, 'r, 'v, 'g) collector" where
  "collector_tick bops rops rng vops gops fs st =
     (case (case cl_resolver st of
              Some r \<Rightarrow> Inr r
            | None \<Rightarrow> BuildCgroupResolver (fs_big_endian fs) (fs_handles fs) (fs_walk fs)) of
        Inl err \<Rightarrow> st
      | Inr r \<Rightarrow>
          let out = readStats bops rops (cl_block st) (cl_runq st) r
          in \<lparr>cl_resolver = (if unknown_seen out then None else Some r),
              cl_block = block_after out,
              cl_runq = runq_after out,
              cl_prom = (case result out of
                           Inl err \<Rightarrow> cl_prom st
                         | Inr rows \<Rightarrow> Update rng vops gops rows (cl_prom st))\<rparr>)"

text \<open>The resolver a tick works with.\<close>

definition tick_resolver :: "cgroup_fs \<Rightarrow> ('b, 'r, 'v, 'g) collector \<Rightarrow> CgroupResolver" where
  "tick_resolver fs st =
     (case cl_resolver st of
        Some r \<Rightarrow> r
      | None \<Rightarrow> snd (WalkDir (walk_fn (fs_big_endian fs) (fs_handles fs)) (fs_walk fs) \<lparr>ByID = Map.empty\<rparr>))"

lemma tick_eq:
  "collector_tick bops rops rng vops gops fs st =
     (let out = readStats bops rops (cl_block st) (cl_runq st) (tick_resolver fs st)
      in \<lparr>cl_resolver = (if unknown_seen out then None else Some (tick_resolver fs st)),
          cl_block = block_after out,
          cl_runq = runq_after out,
          cl_prom = (case result out of
                       Inl err \<Rightarrow> cl_prom st
                     | Inr rows \<Rightarrow> Update rng vops gops rows (cl_prom st))\<rparr>)"
  by (cases "cl_resolver st") (simp_all add: collector_tick_def tick_resolver_def Build_eq Let_def)

lemma fresh_resolver:
  "BuildCgroupResolver (fs_big_endian fs) (fs_handles fs) (fs_walk fs) = Inr r \<Longrightarrow>
   cl_resolver st = None \<Longrightarrow> tick_resolver fs st = r"
  by (simp add: tick_resolver_def Build_eq)

text \<open>The file system of the machine, as in the round trip of the resolver.\<close>

definition sound_fs :: "(string \<Rightarrow> u64) \<Rightarrow> cgroup_fs \<Rightarrow> bool" where
  "sound_fs id_of fs \<longleftrightarrow>
     (\<forall>d \<in> walk_dirs (fs_walk fs). fs_handles fs d = Inr (native_bytes (fs_big_endian fs) (id_of d))) \<and>
     inj_on id_of (walk_dirs (fs_walk fs)) \<and> unknown_path \<notin> walk_dirs (fs_walk fs)"

lemma walked_known:
  assumes "sound_fs id_of fs" and "d \<in> walk_dirs (fs_walk fs)" and "cl_resolver st = None"
  shows "\<not> unknown_id (tick_resolver fs st) (id_of d)"
proof -
  let ?r = "tick_resolver fs st"
  have r: "?r = snd (WalkDir (walk_fn (fs_big_endian fs) (fs_handles fs)) (fs_walk fs) \<lparr>ByID = Map.empty\<rparr>)"
    using assms(3) by (simp add: tick_resolver_def)
  have "\<exists>c \<in> set (fs_walk fs). found_id (fs_big_endian fs) (fs_handles fs) c = Some (id_of d)"
  proof -
    from assms(2) obtain c where c: "c \<in> set (fs_walk fs)" "wc_path c = d" "wc_err c = None" "wc_is_dir c"
      by (auto simp: walk_dirs_def)
    have "fs_handles fs (wc_path c) = Inr (native_bytes (fs_big_endian fs) (id_of (wc_path c)))"
      using assms(1,2) c(2) unfolding sound_fs_def by blast
    from found_native [of "fs_handles fs" c "fs_big_endian fs" id_of, OF this] c show ?thesis by (intro bexI [of _ c]) simp_all
  qed
  then obtain p where p: "ByID ?r (id_of d) = Some p"
    unfolding last_with_id_ex [symmetric] r resolver_last [symmetric] by blast
  then have "last_with_id (fs_big_endian fs) (fs_handles fs) (fs_walk fs) (id_of d) p"
    unfolding r resolver_last .
  then obtain c where "c \<in> set (fs_walk fs)" "wc_path c = p"
      "found_id (fs_big_endian fs) (fs_handles fs) c \<noteq> None"
    unfolding last_with_id_def by (metis in_set_conv_decomp option.distinct(1))
  then have "p \<in> walk_dirs (fs_walk fs)"
    by (auto simp: walk_dirs_def found_id_def split: if_splits)
  with p assms(1) show ?thesis by (auto simp: unknown_id_def Resolve_def sound_fs_def)
qed

section \<open>From the tracepoint programs to the rows\<close>

text \<open>The Go struct holds the bytes of the C struct: four 64-bit words in the same order.\<close>

definition io_of_c :: "cgroup_io_stats_t \<Rightarrow> CgroupIOStats" where
  "io_of_c s = \<lparr>IOCount = io_count s, TotalLatencyNs = total_latency_ns s, TotalBytes = total_bytes s,
     ErrorCount = error_count s\<rparr>"

text \<open>The collector's view of the map the block programs fill.\<close>

definition pinned_block :: "((u64 \<times> cgroup_io_stats_t) list, CgroupIOStats) map_ops" where
  "pinned_block =
     \<lparr>Iterate = (\<lambda>m. (map (\<lambda>(k, v). (k, io_of_c v)) (AList.clearjunk m), None)),
      Delete = (\<lambda>m k. AList.delete k m), Entries = (\<lambda>m k. map_option io_of_c (map_of m k))\<rparr>"

lemma map_of_io: "map_of (map (\<lambda>(k, v). (k, io_of_c v)) m) = map_option io_of_c \<circ> map_of m"
  by (rule map_of_map)

interpretation pin_block: pinned_map pinned_block
  by unfold_locales
    (auto simp: pinned_block_def map_of_io map_of_clearjunk delete_conv' fun_eq_iff
      distinct_clearjunk comp_def case_prod_beta)

interpretation coll_block: collector_maps pinned_block pinned
  by unfold_locales

lemma expected_id: "expected_row r B Q k = Some row \<Longrightarrow> CgroupID row = k"
  by (auto simp: expected_row_def split: if_splits)

lemma filter_expected:
  assumes "sorted_wrt (<) (map CgroupID rows)"
    and "\<And>row. row \<in> set rows \<longleftrightarrow> e (CgroupID row) = Some row"
    and "\<And>row. e c = Some row \<Longrightarrow> CgroupID row = c"
  shows "filter (\<lambda>row. CgroupID row = c) rows = (case e c of None \<Rightarrow> [] | Some row \<Rightarrow> [row])"
proof -
  let ?f = "filter (\<lambda>row. CgroupID row = c) rows"
  have "distinct (map CgroupID rows)" using assms(1) by (simp add: strict_sorted_iff)
  then have d: "distinct ?f" by (simp add: distinct_map)
  show ?thesis
  proof (cases "e c")
    case None
    then have "row \<notin> set ?f" for row using assms(2) [of row] by auto
    then have "?f = []" by (metis list.set_intros(1) neq_Nil_conv)
    with None show ?thesis by simp
  next
    case (Some row)
    then have "set ?f = {row}" using assms(2,3) by auto
    then have "?f = [row]"
      using d by (cases ?f; cases "tl ?f") auto
    with Some show ?thesis by simp
  qed
qed

section \<open>Properties\<close>

text \<open>A machine with one cgroup more than the resolver of \<open>demo_resolver\<close> knows.\<close>

definition demo_fs :: cgroup_fs where
  "demo_fs = \<lparr>fs_big_endian = False, fs_handles = (\<lambda>d. Inr (native_bytes False (demo_id d))),
     fs_walk = demo_walk\<rparr>"

definition demo_collector ::
  "((u64 \<times> CgroupIOStats) list, (u64 \<times> CgroupRunqStats) list, Labels \<rightharpoonup> nat, Labels \<rightharpoonup> nat) collector" where
  "demo_collector = \<lparr>cl_resolver = Some demo_resolver, cl_block = [(4500, zero_io\<lparr>IOCount := 3\<rparr>)],
     cl_runq = None, cl_prom = NewPromMetrics Map.empty Map.empty\<rparr>"

lemma demo_fs_sound: "sound_fs demo_id demo_fs"
  by (simp add: sound_fs_def demo_fs_def demo_walk_dirs demo_id_def unknown_path_def)

text \<open>
  What a tick over readable maps publishes: the rows of the cgroups its resolver knows, of those only.
\<close>

definition known_entries ::
  "('b, CgroupIOStats) map_ops \<Rightarrow> ('r, CgroupRunqStats) map_ops \<Rightarrow> CgroupResolver \<Rightarrow> 'b \<Rightarrow> 'r option \<Rightarrow> u64 set" where
  "known_entries bops rops r bm rm =
     {c. \<not> unknown_id r c \<and> (Entries bops bm c \<noteq> None \<or> runq_entries rops rm c \<noteq> None)}"

definition publishes ::
  "('b, CgroupIOStats) map_ops \<Rightarrow> ('r, CgroupRunqStats) map_ops \<Rightarrow> (string list \<Rightarrow> string list) \<Rightarrow>
   'v counter_ops \<Rightarrow> 'g gauge_ops \<Rightarrow> cgroup_fs \<Rightarrow> ('b, 'r, 'v, 'g) collector \<Rightarrow> u64 set \<Rightarrow> bool" where
  "publishes bops rops rng vops gops fs st ids \<longleftrightarrow>
     (\<exists>rows. result (readStats bops rops (cl_block st) (cl_runq st) (tick_resolver fs st)) = Inr rows \<and>
        CgroupID ` set rows = ids \<and>
        cl_prom (collector_tick bops rops rng vops gops fs st) = Update rng vops gops rows (cl_prom st))"

lemma known_tick_publishes:
  assumes "collector_maps bops rops"
    and "snd (Iterate bops (cl_block st)) = None" and "runq_ok rops (cl_runq st)"
  shows "publishes bops rops rng vops gops fs st
    (known_entries bops rops (tick_resolver fs st) (cl_block st) (cl_runq st))"
proof -
  let ?r = "tick_resolver fs st"
  let ?e = "expected_row ?r (Entries bops (cl_block st)) (runq_entries rops (cl_runq st))"
  obtain rows where rows: "result (readStats bops rops (cl_block st) (cl_runq st) ?r) = Inr rows"
    "\<And>row. row \<in> set rows \<longleftrightarrow> ?e (CgroupID row) = Some row"
    using collector_maps.read_rows [OF assms, of ?r] by blast
  have "CgroupID ` set rows = {c. ?e c \<noteq> None}"
  proof (intro set_eqI iffI)
    fix c assume "c \<in> {c. ?e c \<noteq> None}"
    then obtain row where "?e c = Some row" by blast
    moreover from this have "CgroupID row = c" by (rule expected_id)
    ultimately show "c \<in> CgroupID ` set rows" using rows(2) [of row] by auto
  qed (auto simp: rows(2))
  also have "\<dots> = known_entries bops rops ?r (cl_block st) (cl_runq st)"
    by (auto simp: known_entries_def expected_row_def split: if_splits)
  finally show ?thesis using rows(1) by (auto simp: publishes_def tick_eq Let_def)
qed

text \<open>
  C25: a tick that meets an entry of a cgroup its resolver does not know, in either map, publishes the rows of
  the cgroups it knows and nothing of this one, deletes the entry from both maps, and forgets the resolver;
  the next tick then builds a new one and, of whatever the kernel has recorded since, keeps
  every entry of a cgroup its walk reads and publishes a row for it.
\<close>

theorem unknown_tick_recovers:
  assumes "collector_maps bops rops"
    and "snd (Iterate bops (cl_block st)) = None" and "runq_ok rops (cl_runq st)"
    and "Entries bops (cl_block st) k \<noteq> None \<or> runq_entries rops (cl_runq st) k \<noteq> None"
    and "unknown_id (tick_resolver fs st) k"
    and "st1 = collector_tick bops rops rng vops gops fs st"
    and "snd (Iterate bops bm') = None" and "runq_ok rops rm'"
    and "sound_fs id_of fs'" and "d \<in> walk_dirs (fs_walk fs')"
    and "mid = st1\<lparr>cl_block := bm', cl_runq := rm'\<rparr>"
    and "st2 = collector_tick bops rops rng vops gops fs' mid"
  shows "(\<exists>ids. publishes bops rops rng vops gops fs st ids \<and> k \<notin> ids \<and>
      (\<forall>c. \<not> unknown_id (tick_resolver fs st) c \<longrightarrow>
         (c \<in> ids \<longleftrightarrow> Entries bops (cl_block st) c \<noteq> None \<or> runq_entries rops (cl_runq st) c \<noteq> None))) \<and>
    Entries bops (cl_block st1) k = None \<and> runq_entries rops (cl_runq st1) k = None \<and> cl_resolver st1 = None \<and>
    Entries bops (cl_block st2) (id_of d) = Entries bops bm' (id_of d) \<and>
    runq_entries rops (cl_runq st2) (id_of d) = runq_entries rops rm' (id_of d) \<and>
    (\<exists>ids. publishes bops rops rng vops gops fs' mid ids \<and>
      (id_of d \<in> ids \<longleftrightarrow> Entries bops bm' (id_of d) \<noteq> None \<or> runq_entries rops rm' (id_of d) \<noteq> None))"
proof -
  note first = collector_maps.read_deletes [OF assms(1-3), of "tick_resolver fs st"]
  have 1: "Entries bops (cl_block st1) k = None" "runq_entries rops (cl_runq st1) k = None" "cl_resolver st1 = None"
    using first assms(4,5) by (auto simp: assms(6) tick_eq Let_def restrict_map_def)
  have known: "\<not> unknown_id (tick_resolver fs' mid) (id_of d)"
    by (rule walked_known [OF assms(9,10)]) (simp add: 1 assms(11))
  then have kept: "Entries bops (cl_block st2) (id_of d) = Entries bops bm' (id_of d) \<and>
      runq_entries rops (cl_runq st2) (id_of d) = runq_entries rops rm' (id_of d)"
    using collector_maps.read_deletes [OF assms(1,7,8), of "tick_resolver fs' mid"]
    by (simp add: assms(11,12) tick_eq Let_def restrict_map_def)
  have "publishes bops rops rng vops gops fs' mid (known_entries bops rops (tick_resolver fs' mid) bm' rm')"
    using known_tick_publishes [OF assms(1), of mid] assms(7,8) by (simp add: assms(11))
  with known have "\<exists>ids. publishes bops rops rng vops gops fs' mid ids \<and>
      (id_of d \<in> ids \<longleftrightarrow> Entries bops bm' (id_of d) \<noteq> None \<or> runq_entries rops rm' (id_of d) \<noteq> None)"
    by (intro exI conjI) (assumption, simp add: known_entries_def)
  with 1 kept known_tick_publishes [OF assms(1-3), of rng vops gops fs] assms(5) show ?thesis
    by (auto simp: known_entries_def intro!: exI [of _ "known_entries bops rops (tick_resolver fs st) (cl_block st) (cl_runq st)"])
qed

text \<open>An unknown cgroup in each map.\<close>

theorem unknown_tick_recovers_witness:
  "\<exists>st1. st1 = collector_tick pinned pinned rev map_counters map_gauges demo_fs
       (demo_collector\<lparr>cl_runq := Some [(4500, zero_runq)]\<rparr>) \<and>
     Entries pinned (cl_block st1) 4500 = None \<and> runq_entries pinned (cl_runq st1) 4500 = None \<and>
     cl_resolver st1 = None \<and>
     (\<exists>ids. publishes pinned pinned rev map_counters map_gauges demo_fs
        (st1\<lparr>cl_block := [(4500, zero_io\<lparr>IOCount := 5\<rparr>)], cl_runq := None\<rparr>) ids \<and> 4500 \<in> ids)"
proof -
  let ?st = "demo_collector\<lparr>cl_runq := Some [(4500, zero_runq)]\<rparr>"
  have "snd (Iterate pinned (cl_block ?st)) = None" "runq_ok pinned (cl_runq ?st)"
    "Entries pinned (cl_block ?st) 4500 \<noteq> None \<or> runq_entries pinned (cl_runq ?st) 4500 \<noteq> None"
    "unknown_id (tick_resolver demo_fs ?st) 4500"
    "snd (Iterate pinned [(4500, zero_io\<lparr>IOCount := 5\<rparr>)]) = None" "runq_ok pinned None"
    "''/sys/fs/cgroup/kubepods.slice'' \<in> walk_dirs (fs_walk demo_fs)"
    by (simp_all add: pinned_def runq_ok_def demo_collector_def tick_resolver_def unknown_id_def
        Resolve_def demo_resolver_def demo_fs_def demo_walk_dirs)
  from unknown_tick_recovers [OF coll.collector_maps_axioms this(1-4) HOL.refl this(5,6) demo_fs_sound
      this(7) HOL.refl HOL.refl, of rev map_counters map_gauges]
  show ?thesis by (simp add: demo_id_def pinned_def)
qed

text \<open>
  From the tracepoints to the row. Whatever block I/O a machine does from empty maps, as long as
  neither hash map overflows, a pass of the collector returns exactly one row for every known cgroup
  whose requests completed, and this row carries the number of its completions, the sum of their
  latencies, of the bytes read at issue and of the failures, and the mean latency.
\<close>

theorem rows_account_block_io:
  assumes "fits evs (Map.empty, [])" and "\<not> unknown_id r c"
    and "ss = samples_of (snd (block_spec_run evs)) c"
    and "m = stats_by_cgroup (block_run hash_block_maps evs block_init)"
  shows "\<exists>rows. result (readStats pinned_block pinned m None r) = Inr rows \<and>
    filter (\<lambda>row. CgroupID row = c) rows =
      (if ss = [] then []
       else [\<lparr>CgroupID = c, CgroupPath = Resolve r c, Kind = ClassifyCgroupPath (Resolve r c),
              KubeInfo = ParseKubePath (Resolve r c),
              Stats = \<lparr>IOCount = of_nat (length ss), TotalLatencyNs = sum_list (map smp_delta ss),
                       TotalBytes = sum_list (map (ucast \<circ> smp_bytes) ss),
                       ErrorCount = of_nat (length (filter (\<lambda>s. smp_error s \<noteq> 0) ss))\<rparr>,
              RunqStats = zero_runq,
              AvgNs = sum_list (map smp_delta ss) div of_nat (length ss)\<rparr>])"
proof -
  have "block_refines hash_block_maps (block_run hash_block_maps evs block_init) (block_spec_run evs)"
    using hash_block.run_refines [OF _ assms(1)] block_init_empty by (simp add: refines_empty)
  then have m: "map_of m c = (if ss = [] then None else Some (fold add_sample ss zero_io_stats))"
    by (simp add: block_refines_def bpf_simps assms(3,4) stats_of_def)
  let ?e = "expected_row r (Entries pinned_block m) (runq_entries pinned None)"
  from coll_block.read_rows [of m "None" r] obtain rows where
    rows: "result (readStats pinned_block pinned m None r) = Inr rows"
      "sorted_wrt (<) (map CgroupID rows)" "\<And>row. row \<in> set rows \<longleftrightarrow> ?e (CgroupID row) = Some row"
    by (auto simp: pinned_block_def runq_ok_def)
  have "filter (\<lambda>row. CgroupID row = c) rows = (case ?e c of None \<Rightarrow> [] | Some row \<Rightarrow> [row])"
    by (rule filter_expected [OF rows(2,3)]) (rule expected_id)
  moreover have "?e c = (case map_of m c of None \<Rightarrow> None
      | Some s \<Rightarrow> Some \<lparr>CgroupID = c, CgroupPath = Resolve r c, Kind = ClassifyCgroupPath (Resolve r c),
          KubeInfo = ParseKubePath (Resolve r c), Stats = io_of_c s, RunqStats = zero_runq,
          AvgNs = total_latency_ns s div io_count s\<rparr>)"
    using assms(2)
    by (simp add: expected_row_def pinned_block_def runq_entries_def io_of_c_def split: option.splits)
  ultimately show ?thesis
    using rows(1) by (simp add: m stats_closed io_of_c_def)
qed

lemma demo_samples8:
  "samples_of (snd (block_spec_run demo_events)) 8 = [Sample 8 60 4096 5]"
  by (simp add: demo_events_def samples_of_def sample_of_def issue_val_def core_read_def demo_env_def)

theorem rows_account_block_io_witness:
  "\<exists>rows. result (readStats pinned_block pinned
       (stats_by_cgroup (block_run hash_block_maps demo_events block_init)) None
       \<lparr>ByID = [8 \<mapsto> ''/sys/fs/cgroup/system.slice'']\<rparr>) = Inr rows \<and>
    map (\<lambda>row. (IOCount (Stats row), TotalLatencyNs (Stats row), ErrorCount (Stats row)))
      (filter (\<lambda>row. CgroupID row = 8) rows) = [(1, 60, 1)]"
proof -
  have "\<not> unknown_id \<lparr>ByID = [8 \<mapsto> ''/sys/fs/cgroup/system.slice'']\<rparr> 8"
    by (simp add: unknown_id_def Resolve_def unknown_path_def)
  from rows_account_block_io [OF demo_fits this demo_samples8 [symmetric] HOL.refl]
  show ?thesis by auto
qed

end
