(* ===== verification/MapBytes.thy ===== *)
theory MapBytes
  imports KBpf CollectorLoop RunqLatency
begin

text \<open>
  The maps in memory. The kernel stores keys and values as bytes: it compares the bytes of keys, and
  the collector, another program in another language, reads the bytes of the values. The structs of
  the two programs are laid out by the rules of \<open>CLayout\<close>, written to memory and read back, by C and
  by Go.
\<close>

section \<open>Integers in memory\<close>

definition word_bytes :: "bool \<Rightarrow> nat \<Rightarrow> u64 \<Rightarrow> u8 list" where
  "word_bytes be n w =
     (let bs = map (\<lambda>i. ucast (drop_bit (8 * i) w)) [0..<n] in if be then rev bs else bs)"

definition put_at :: "nat \<Rightarrow> u8 list \<Rightarrow> u8 list \<Rightarrow> u8 list" where
  "put_at off bs mem = take off mem @ bs @ drop (off + length bs) mem"

definition load_at :: "bool \<Rightarrow> nat \<Rightarrow> nat \<Rightarrow> u8 list \<Rightarrow> u64" where
  "load_at be off n mem = native_uint64 be (take n (drop off mem))"

lemma length_word_bytes [simp]: "length (word_bytes be n w) = n"
  by (simp add: word_bytes_def Let_def)

lemma native_word_bytes: "native_uint64 be (word_bytes be n w) = take_bit (8 * n) w"
  using little_endian_upt [of w 0 n] by (simp add: native_uint64_def word_bytes_def Let_def)

lemma length_put_at [simp]: "off + length bs \<le> length mem \<Longrightarrow> length (put_at off bs mem) = length mem"
  by (simp add: put_at_def)

lemma load_put_same:
  "off + n \<le> length mem \<Longrightarrow> load_at be off n (put_at off (word_bytes be n w) mem) = take_bit (8 * n) w"
  by (simp add: load_at_def put_at_def native_word_bytes)

lemma load_put_after:
  assumes "off + n \<le> off'" and "off' + length bs \<le> length mem"
  shows "load_at be off n (put_at off' bs mem) = load_at be off n mem"
proof -
  have "take n (drop off (put_at off' bs mem)) = take n (drop off mem)"
    using assms by (intro nth_equalityI) (simp_all add: put_at_def nth_append)
  then show ?thesis by (simp add: load_at_def)
qed

section \<open>Structs in memory\<close>

text \<open>
  A struct object starts as zeros (the initialisers of the programs name every member or are \<open>{}\<close>);
  its members are stored left to right at their offsets.
\<close>

definition store_members :: "bool \<Rightarrow> (cfield \<times> nat \<times> nat) list \<Rightarrow> u64 list \<Rightarrow> u8 list \<Rightarrow> u8 list" where
  "store_members be ms vs mem =
     fold (\<lambda>((f, s, w), v). put_at (s div 8) (word_bytes be (w div 8) v)) (zip ms vs) mem"

fun struct_bytes :: "bool \<Rightarrow> ctype \<Rightarrow> u64 list \<Rightarrow> u8 list" where
  "struct_bytes be (CStruct n fs) vs =
     store_members be (placed fs 0) vs (replicate (size_of (CStruct n fs)) 0)"
| "struct_bytes be _ vs = []"

declare struct_bytes.simps [simp del]

text \<open>Members stored at disjoint places are read back.\<close>

lemma store_members_length:
  "\<forall>(f, s, w) \<in> set ms. s div 8 + w div 8 \<le> length mem \<Longrightarrow> length (store_members be ms vs mem) = length mem"
proof (induction ms arbitrary: vs mem)
  case (Cons m ms)
  then show ?case by (cases m; cases vs) (auto simp: store_members_def)
qed (simp add: store_members_def)

lemma load_before:
  assumes "\<forall>(f, s, w) \<in> set ms. off + n \<le> s div 8 \<and> s div 8 + w div 8 \<le> length mem"
  shows "load_at be off n (store_members be ms vs mem) = load_at be off n mem"
  using assms
proof (induction ms arbitrary: vs mem)
  case (Cons m ms)
  obtain f s w where m: "m = (f, s, w)" by (cases m)
  show ?case
  proof (cases vs)
    case (Cons v vs')
    have "load_at be off n (store_members be ms vs' (put_at (s div 8) (word_bytes be (w div 8) v) mem)) =
        load_at be off n (put_at (s div 8) (word_bytes be (w div 8) v) mem)"
      by (rule Cons.IH) (use Cons.prems m in auto)
    with Cons.prems m show ?thesis by (simp add: Cons store_members_def load_put_after)
  qed (simp add: store_members_def)
qed (simp add: store_members_def)

lemma load_member:
  assumes "sorted_wrt (\<lambda>(_, s, w) (_, s', _). s div 8 + w div 8 \<le> s' div 8) ms"
    and "\<forall>(f, s, w) \<in> set ms. s div 8 + w div 8 \<le> length mem" and "length vs = length ms"
    and "i < length ms" and "ms ! i = (f, s, w)"
  shows "load_at be (s div 8) (w div 8) (store_members be ms vs mem) = take_bit (8 * (w div 8)) (vs ! i)"
  using assms
proof (induction ms arbitrary: vs mem i)
  case (Cons m ms)
  obtain f0 s0 w0 where m: "m = (f0, s0, w0)" by (cases m)
  obtain v vs' where vs: "vs = v # vs'" using Cons.prems(3) by (cases vs) auto
  let ?mem = "put_at (s0 div 8) (word_bytes be (w0 div 8) v) mem"
  have len: "length ?mem = length mem" using Cons.prems(2) m by simp
  have store: "store_members be (m # ms) vs mem = store_members be ms vs' ?mem"
    by (simp add: store_members_def m vs)
  show ?case
  proof (cases i)
    case 0
    then have "(f, s, w) = (f0, s0, w0)" using Cons.prems(5) m by simp
    moreover have "load_at be (s0 div 8) (w0 div 8) (store_members be ms vs' ?mem) =
        load_at be (s0 div 8) (w0 div 8) ?mem"
      by (rule load_before) (use Cons.prems(1,2) m len in auto)
    ultimately show ?thesis unfolding store 0 using Cons.prems(2) m vs by (simp add: load_put_same)
  next
    case (Suc j)
    have "load_at be (s div 8) (w div 8) (store_members be ms vs' ?mem) = take_bit (8 * (w div 8)) (vs' ! j)"
      by (rule Cons.IH) (use Cons.prems m vs len Suc in auto)
    then show ?thesis unfolding store by (simp add: Suc vs)
  qed
qed simp

text \<open>A struct of whole bytes has its size, and every member is read back at its offset.\<close>

definition whole_bytes :: "cfield list \<Rightarrow> bool" where
  "whole_bytes fs \<longleftrightarrow> wf_fields fs \<and> list_all (\<lambda>(f, s, w). s mod 8 = 0 \<and> w mod 8 = 0) (placed fs 0)"

lemma length_placed [simp]: "length (placed fs pos) = length fs"
  by (induction fs arbitrary: pos) simp_all

lemma placed_in_struct:
  assumes "whole_bytes fs"
  shows "\<forall>(f, s, w) \<in> set (placed fs 0). s div 8 + w div 8 \<le> size_of (CStruct n fs)"
proof clarify
  fix f s w assume m: "(f, s, w) \<in> set (placed fs 0)"
  with assms have "wf_fields fs" "s mod 8 = 0" "w mod 8 = 0" by (auto simp: whole_bytes_def list_all_iff)
  with placed_within [OF this(1) m] struct_size_ge [of fs n] show "s div 8 + w div 8 \<le> size_of (CStruct n fs)"
    by (auto simp del: size_of.simps)
qed

lemma struct_loads:
  assumes "whole_bytes fs" and "length vs = length fs"
  shows "length (struct_bytes be (CStruct n fs) vs) = size_of (CStruct n fs)"
    and "i < length fs \<Longrightarrow> placed fs 0 ! i = (f, s, w) \<Longrightarrow>
      load_at be (s div 8) (w div 8) (struct_bytes be (CStruct n fs) vs) = take_bit (8 * (w div 8)) (vs ! i)"
proof -
  have within: "\<forall>(f, s, w) \<in> set (placed fs 0).
      s div 8 + w div 8 \<le> length (replicate (size_of (CStruct n fs)) (0 :: u8))"
    using placed_in_struct [OF assms(1), of n] by simp
  show "length (struct_bytes be (CStruct n fs) vs) = size_of (CStruct n fs)"
    by (simp only: struct_bytes.simps store_members_length [OF within] length_replicate)
  have "sorted_wrt (\<lambda>(_, s, w) (_, s', _). s + w \<le> s') (placed fs 0)"
    using assms(1) placed_disjoint [of fs 0] by (simp add: whole_bytes_def)
  then have "sorted_wrt (\<lambda>(_, s, w) (_, s', _). s div 8 + w div 8 \<le> s' div 8) (placed fs 0)"
    by (rule sorted_wrt_mono_rel [rotated])
      (use assms(1) in \<open>auto simp: whole_bytes_def list_all_iff\<close>)
  from load_member [OF this within] assms(2)
  show "i < length fs \<Longrightarrow> placed fs 0 ! i = (f, s, w) \<Longrightarrow>
      load_at be (s div 8) (w div 8) (struct_bytes be (CStruct n fs) vs) = take_bit (8 * (w div 8)) (vs ! i)"
    by (simp only: struct_bytes.simps length_placed)
qed

fun fields_of :: "ctype \<Rightarrow> cfield list" where
  "fields_of (CStruct n fs) = fs"
| "fields_of _ = []"

lemma struct_loads_all:
  assumes "whole_bytes (fields_of t)" and "length vs = length (fields_of t)" and "t = CStruct n (fields_of t)"
  shows "map (\<lambda>(f, s, w). load_at be (s div 8) (w div 8) (struct_bytes be t vs)) (placed (fields_of t) 0) =
    map2 (\<lambda>(f, s, w) v. take_bit (8 * (w div 8)) v) (placed (fields_of t) 0) vs"
proof (rule nth_equalityI)
  fix i assume "i < length (map (\<lambda>(f, s, w). load_at be (s div 8) (w div 8) (struct_bytes be t vs)) (placed (fields_of t) 0))"
  then have i: "i < length (fields_of t)" by simp
  obtain f s w where p: "placed (fields_of t) 0 ! i = (f, s, w)" by (cases "placed (fields_of t) 0 ! i") auto
  from struct_loads(2) [OF assms(1,2) i p, of be n] i p assms(2,3)
  show "map (\<lambda>(f, s, w). load_at be (s div 8) (w div 8) (struct_bytes be t vs)) (placed (fields_of t) 0) ! i =
    map2 (\<lambda>(f, s, w) v. take_bit (8 * (w div 8)) v) (placed (fields_of t) 0) vs ! i" by simp
qed (simp add: assms(2))

lemma struct_length:
  assumes "whole_bytes (fields_of t)" and "length vs = length (fields_of t)" and "t = CStruct n (fields_of t)"
  shows "length (struct_bytes be t vs) = size_of t"
  using struct_loads(1) [OF assms(1,2), of be n] assms(3) by simp

section \<open>The structs of the programs\<close>

definition s_start_val_t :: ctype where
  "s_start_val_t = CStruct ''start_val_t'' [Fld ''ts_ns'' t_u64, Fld ''bytes'' t_u32, Fld ''cgroup_id'' t_u64]"

definition s_cgroup_io_stats_t :: ctype where
  "s_cgroup_io_stats_t = CStruct ''cgroup_io_stats_t''
     [Fld ''io_count'' t_u64, Fld ''total_latency_ns'' t_u64, Fld ''total_bytes'' t_u64, Fld ''error_count'' t_u64]"

definition s_runq_key_t :: ctype where
  "s_runq_key_t = CStruct ''runq_key_t'' [Fld ''pid'' t_u32, Fld ''start_time'' t_u64]"

definition s_cgroup_runq_stats_t :: ctype where
  "s_cgroup_runq_stats_t = CStruct ''cgroup_runq_stats_t'' [Fld ''count'' t_u64, Fld ''total_latency_ns'' t_u64]"

lemmas program_structs = s_start_val_t_def s_cgroup_io_stats_t_def s_runq_key_t_def s_cgroup_runq_stats_t_def

lemma program_structs_sa [simp]:
  "size_of s_start_val_t = 24" "size_of s_cgroup_io_stats_t = 32"
  "size_of s_runq_key_t = 16" "size_of s_cgroup_runq_stats_t = 16"
  by (simp_all add: program_structs c_layout del: One_nat_def)

definition start_val_bytes :: "bool \<Rightarrow> start_val_t \<Rightarrow> u8 list" where
  "start_val_bytes be v = struct_bytes be s_start_val_t [ts_ns v, ucast (bytes v), BlockLatency.cgroup_id v]"

definition io_stats_bytes :: "bool \<Rightarrow> cgroup_io_stats_t \<Rightarrow> u8 list" where
  "io_stats_bytes be s = struct_bytes be s_cgroup_io_stats_t
     [io_count s, total_latency_ns s, total_bytes s, error_count s]"

definition runq_key_bytes :: "bool \<Rightarrow> runq_key_t \<Rightarrow> u8 list" where
  "runq_key_bytes be k = struct_bytes be s_runq_key_t [ucast (key_pid k), key_start_time k]"

definition runq_stats_bytes :: "bool \<Rightarrow> cgroup_runq_stats_t \<Rightarrow> u8 list" where
  "runq_stats_bytes be s = struct_bytes be s_cgroup_runq_stats_t [rq_count s, rq_total_latency_ns s]"

section \<open>The structs of the collector\<close>

text \<open>
  Go stores the members of a struct in order, 64-bit integers at multiples of eight bytes. A value of
  another length than the struct is refused.
\<close>

definition read_CgroupIOStats :: "bool \<Rightarrow> u8 list \<Rightarrow> CgroupIOStats option" where
  "read_CgroupIOStats be raw =
     (if length raw \<noteq> 32 then None
      else Some \<lparr>IOCount = load_at be 0 8 raw, TotalLatencyNs = load_at be 8 8 raw,
        TotalBytes = load_at be 16 8 raw, ErrorCount = load_at be 24 8 raw\<rparr>)"

definition read_CgroupRunqStats :: "bool \<Rightarrow> u8 list \<Rightarrow> CgroupRunqStats option" where
  "read_CgroupRunqStats be raw =
     (if length raw \<noteq> 16 then None
      else Some \<lparr>RunqCount = load_at be 0 8 raw, RunqTotalLatencyNs = load_at be 8 8 raw\<rparr>)"

section \<open>Members read back\<close>

lemma take_bit_64 [simp]: "take_bit 64 (w :: u64) = w"
  by (simp add: take_bit_word_eq_self)

lemma take_bit_ucast_32 [simp]: "take_bit 32 (ucast (w :: u32) :: u64) = ucast w"
  by (rule bit_word_eqI) (auto simp: bit_take_bit_iff bit_ucast_iff dest: bit_imp_le_length)

lemma program_structs_whole:
  "whole_bytes (fields_of s_start_val_t)" "whole_bytes (fields_of s_cgroup_io_stats_t)"
  "whole_bytes (fields_of s_runq_key_t)" "whole_bytes (fields_of s_cgroup_runq_stats_t)"
  by (simp_all add: program_structs whole_bytes_def c_layout del: One_nat_def)

lemma start_val_loads:
  "load_at be 0 8 (start_val_bytes be v) = ts_ns v"
  "load_at be 8 4 (start_val_bytes be v) = ucast (bytes v)"
  "load_at be 16 8 (start_val_bytes be v) = BlockLatency.cgroup_id v"
  "length (start_val_bytes be v) = 24"
  unfolding start_val_bytes_def
  using struct_loads_all [OF program_structs_whole(1), of "[ts_ns v, ucast (bytes v), BlockLatency.cgroup_id v]" _ be]
    struct_length [OF program_structs_whole(1), of "[ts_ns v, ucast (bytes v), BlockLatency.cgroup_id v]" _ be]
  by (simp_all add: program_structs c_layout del: One_nat_def)

lemma ucast_32_64 [simp]: "ucast (ucast (w :: u32) :: u64) = w"
  by (rule bit_word_eqI) (auto simp: bit_ucast_iff)

lemma io_stats_loads:
  "load_at be 0 8 (io_stats_bytes be s) = io_count s"
  "load_at be 8 8 (io_stats_bytes be s) = total_latency_ns s"
  "load_at be 16 8 (io_stats_bytes be s) = total_bytes s"
  "load_at be 24 8 (io_stats_bytes be s) = error_count s"
  "length (io_stats_bytes be s) = 32"
  unfolding io_stats_bytes_def
  using struct_loads_all [OF program_structs_whole(2), of "[io_count s, total_latency_ns s, total_bytes s, error_count s]" _ be]
    struct_length [OF program_structs_whole(2), of "[io_count s, total_latency_ns s, total_bytes s, error_count s]" _ be]
  by (simp_all add: program_structs c_layout del: One_nat_def)

lemma runq_key_loads:
  "load_at be 0 4 (runq_key_bytes be k) = ucast (key_pid k)"
  "load_at be 8 8 (runq_key_bytes be k) = key_start_time k"
  "length (runq_key_bytes be k) = 16"
  unfolding runq_key_bytes_def
  using struct_loads_all [OF program_structs_whole(3), of "[ucast (key_pid k), key_start_time k]" _ be]
    struct_length [OF program_structs_whole(3), of "[ucast (key_pid k), key_start_time k]" _ be]
  by (simp_all add: program_structs c_layout del: One_nat_def)

lemma runq_stats_loads:
  "load_at be 0 8 (runq_stats_bytes be s) = rq_count s"
  "load_at be 8 8 (runq_stats_bytes be s) = rq_total_latency_ns s"
  "length (runq_stats_bytes be s) = 16"
  unfolding runq_stats_bytes_def
  using struct_loads_all [OF program_structs_whole(4), of "[rq_count s, rq_total_latency_ns s]" _ be]
    struct_length [OF program_structs_whole(4), of "[rq_count s, rq_total_latency_ns s]" _ be]
  by (simp_all add: program_structs c_layout del: One_nat_def)

lemma runq_key_bytes_inj: "runq_key_bytes be k = runq_key_bytes be k' \<longleftrightarrow> k = k'"
proof
  assume e: "runq_key_bytes be k = runq_key_bytes be k'"
  have "ucast (key_pid k) = (ucast (key_pid k') :: u64)"
    using runq_key_loads(1) [of be k] runq_key_loads(1) [of be k'] e by simp
  then have "key_pid k = key_pid k'" by (metis ucast_32_64)
  moreover have "key_start_time k = key_start_time k'"
    using runq_key_loads(2) [of be k] runq_key_loads(2) [of be k'] e by simp
  ultimately show "k = k'" by simp
qed simp

section \<open>Maps of bytes\<close>

text \<open>The declarations of the four maps, with the kernel's number of their type.\<close>

record map_decl =
  decl_type :: int
  decl_max_entries :: nat
  decl_key_size :: nat
  decl_value_size :: nat

fun enum_constants :: "ctype \<Rightarrow> (string \<times> int) list" where
  "enum_constants (CEnum n sz cs) = cs"
| "enum_constants _ = []"

definition hash_map_type :: int where
  "hash_map_type = the (map_of (enum_constants e_bpf_map_type) ''BPF_MAP_TYPE_HASH'')"

lemma hash_map_type_number: "hash_map_type = 1"
  by (simp add: hash_map_type_def e_bpf_map_type_def)

definition block_start_decl :: map_decl where
  "block_start_decl = \<lparr>decl_type = hash_map_type, decl_max_entries = start_map_entries,
     decl_key_size = size_of t_u64, decl_value_size = size_of s_start_val_t\<rparr>"

definition block_stats_decl :: map_decl where
  "block_stats_decl = \<lparr>decl_type = hash_map_type, decl_max_entries = stats_by_cgroup_entries,
     decl_key_size = size_of t_u64, decl_value_size = size_of s_cgroup_io_stats_t\<rparr>"

definition runq_start_decl :: map_decl where
  "runq_start_decl = \<lparr>decl_type = hash_map_type, decl_max_entries = runq_start_map_entries,
     decl_key_size = size_of s_runq_key_t, decl_value_size = size_of t_u64\<rparr>"

definition runq_stats_decl :: map_decl where
  "runq_stats_decl = \<lparr>decl_type = hash_map_type, decl_max_entries = runq_stats_by_cgroup_entries,
     decl_key_size = size_of t_u64, decl_value_size = size_of s_cgroup_runq_stats_t\<rparr>"

definition runq_of_c :: "cgroup_runq_stats_t \<Rightarrow> CgroupRunqStats" where
  "runq_of_c s = \<lparr>RunqCount = rq_count s, RunqTotalLatencyNs = rq_total_latency_ns s\<rparr>"

section \<open>Properties\<close>

text \<open>
  C12: the maps carry what the programs put into them, on either byte order. A value the C programs
  write has the declared size and is read by the collector's Go structs member for member; the value
  recorded at issue is read back by the completion; and two tasks have the same key bytes, padding
  included, exactly when their pid and start time agree, so comparing bytes compares tasks.
\<close>

theorem map_bytes_roundtrip:
  "length (io_stats_bytes be s) = decl_value_size block_stats_decl \<and>
   read_CgroupIOStats be (io_stats_bytes be s) = Some (io_of_c s) \<and>
   length (runq_stats_bytes be r) = decl_value_size runq_stats_decl \<and>
   read_CgroupRunqStats be (runq_stats_bytes be r) = Some (runq_of_c r) \<and>
   length (start_val_bytes be v) = decl_value_size block_start_decl \<and>
   load_at be 0 8 (start_val_bytes be v) = ts_ns v \<and>
   ucast (load_at be 8 4 (start_val_bytes be v)) = bytes v \<and>
   load_at be 16 8 (start_val_bytes be v) = BlockLatency.cgroup_id v \<and>
   length (runq_key_bytes be k) = decl_key_size runq_start_decl \<and>
   (runq_key_bytes be k = runq_key_bytes be k') = (k = k')"
  by (simp add: io_stats_loads runq_stats_loads start_val_loads runq_key_loads runq_key_bytes_inj
      read_CgroupIOStats_def read_CgroupRunqStats_def io_of_c_def runq_of_c_def
      block_stats_decl_def runq_stats_decl_def block_start_decl_def runq_start_decl_def)

end
