(* ===== verification/CollectorRun.thy ===== *)
theory CollectorRun
  imports MapBytes RunqSpec
begin

text \<open>
  The collector running beside the kernel programs. A round is what the kernel does between two passes,
  then one tick of the collector; what a scrape reads afterwards is related to the entries of the maps
  and, through the specifications of the two programs, to the requests completed and the waits ended.
\<close>

section \<open>Pods and their cgroups\<close>

definition cgroup_labels :: "CgroupResolver \<Rightarrow> u64 \<Rightarrow> Labels" where
  "cgroup_labels r k =
     \<lparr>lbl_kind = kind_string (ClassifyCgroupPath (Resolve r k)), lbl_pod_uid = PodUID (ParseKubePath (Resolve r k))\<rparr>"

lemma cgroup_labels_valid [simp]: "valid_labels (cgroup_labels r k)"
  by (auto simp: valid_labels_def cgroup_labels_def)

text \<open>The known cgroups of a pod that have an entry in one of the maps.\<close>

definition pod_cgroups ::
  "CgroupResolver \<Rightarrow> (u64 \<rightharpoonup> CgroupIOStats) \<Rightarrow> (u64 \<rightharpoonup> CgroupRunqStats) \<Rightarrow> Labels \<Rightarrow> u64 set" where
  "pod_cgroups r B Q l = {k \<in> dom B \<union> dom Q. \<not> unknown_id r k \<and> cgroup_labels r k = l}"

text \<open>The six columns of a cgroup, zero where it has no entry.\<close>

definition columns :: "(u64 \<rightharpoonup> CgroupIOStats) \<Rightarrow> (u64 \<rightharpoonup> CgroupRunqStats) \<Rightarrow> u64 \<Rightarrow> u64 list" where
  "columns B Q k =
     (let v = (case B k of Some v \<Rightarrow> v | None \<Rightarrow> zero_io); q = (case Q k of Some q \<Rightarrow> q | None \<Rightarrow> zero_runq)
      in [IOCount v, TotalBytes v, TotalLatencyNs v, ErrorCount v, RunqCount q, RunqTotalLatencyNs q])"

definition entries_total ::
  "CgroupResolver \<Rightarrow> (u64 \<rightharpoonup> CgroupIOStats) \<Rightarrow> (u64 \<rightharpoonup> CgroupRunqStats) \<Rightarrow> Labels \<Rightarrow> nat \<Rightarrow> u64" where
  "entries_total r B Q l i = (\<Sum>k \<in> pod_cgroups r B Q l. columns B Q k ! i)"

lemma expected_labels: "expected_row r B Q k = Some row \<Longrightarrow> row_labels row = cgroup_labels r k"
  by (auto simp: expected_row_def row_labels_def cgroup_labels_def split: if_splits)

lemma expected_columns: "expected_row r B Q k = Some row \<Longrightarrow> row_list row = columns B Q k"
  by (auto simp: expected_row_def row_list_def columns_def Let_def split: if_splits)

lemma expected_iff: "(\<exists>row. expected_row r B Q k = Some row) \<longleftrightarrow> k \<in> dom B \<union> dom Q \<and> \<not> unknown_id r k"
  by (auto simp: expected_row_def)

lemma row_key_labels: "valid_labels l \<Longrightarrow> row_key row = key_of l \<longleftrightarrow> row_labels row = l"
  unfolding row_key_def using key_of_inj [OF row_labels_valid] by blast

text \<open>The rows of a pass, summed per pod, are the entries summed over the cgroups of the pod.\<close>

lemma rows_totals:
  assumes rows: "\<And>row. row \<in> set rows \<longleftrightarrow> expected_row r B Q (CgroupID row) = Some row"
    and strict: "sorted_wrt (<) (map CgroupID rows)"
  shows "l \<in> row_labels ` set rows \<longleftrightarrow> pod_cgroups r B Q l \<noteq> {}"
    and "valid_labels l \<Longrightarrow> pod_total rows (key_of l) i = entries_total r B Q l i"
proof -
  let ?rows = "{row \<in> set rows. row_labels row = l}"
  have mem: "row \<in> ?rows \<longleftrightarrow> CgroupID row \<in> pod_cgroups r B Q l \<and>
      expected_row r B Q (CgroupID row) = Some row" for row
    using rows [of row] expected_iff [of r B Q "CgroupID row"] expected_labels [of r B Q "CgroupID row" row]
    by (auto simp: pod_cgroups_def)
  have row_of: "the (expected_row r B Q k) \<in> ?rows \<and> CgroupID (the (expected_row r B Q k)) = k \<and>
      expected_row r B Q k = Some (the (expected_row r B Q k))"
    if k: "k \<in> pod_cgroups r B Q l" for k
  proof -
    from k obtain row where row: "expected_row r B Q k = Some row"
      using expected_iff [of r B Q k] by (auto simp: pod_cgroups_def)
    moreover have id: "CgroupID row = k" by (rule expected_id [OF row])
    ultimately show ?thesis using mem [of row] k row by simp
  qed
  show "l \<in> row_labels ` set rows \<longleftrightarrow> pod_cgroups r B Q l \<noteq> {}"
    using mem row_of by fastforce
  assume v: "valid_labels l"
  have "distinct (map CgroupID rows)" using strict by (simp add: strict_sorted_iff)
  then have d: "distinct (filter (\<lambda>row. row_labels row = l) rows)" by (simp add: distinct_map)
  have "pod_total rows (key_of l) i = (\<Sum>row \<in> ?rows. row_list row ! i)"
    unfolding pod_total_def row_key_labels [OF v] sum_list_distinct_conv_sum_set [OF d] by simp
  also have "\<dots> = (\<Sum>k \<in> pod_cgroups r B Q l. columns B Q k ! i)"
    by (rule sum.reindex_bij_witness [where i = "\<lambda>k. the (expected_row r B Q k)" and j = CgroupID])
      (use mem row_of in \<open>auto simp: expected_columns\<close>)
  finally show "pod_total rows (key_of l) i = entries_total r B Q l i" by (simp add: entries_total_def)
qed

section \<open>Passes over maps of known cgroups\<close>

text \<open>One pass: what the kernel maps hold when the tick begins, then the tick.\<close>

definition collector_pass ::
  "('b, CgroupIOStats) map_ops \<Rightarrow> ('r, CgroupRunqStats) map_ops \<Rightarrow> (string list \<Rightarrow> string list) \<Rightarrow>
   'v counter_ops \<Rightarrow> 'g gauge_ops \<Rightarrow> cgroup_fs \<Rightarrow> 'b \<times> 'r option \<Rightarrow> ('b, 'r, 'v, 'g) collector \<Rightarrow>
   ('b, 'r, 'v, 'g) collector" where
  "collector_pass bops rops rng vops gops fs maps st =
     collector_tick bops rops rng vops gops fs (st\<lparr>cl_block := fst maps, cl_runq := snd maps\<rparr>)"

locale exporter = collector_maps bops rops + prom_vecs vops gops rng
  for bops :: "('b, CgroupIOStats) map_ops" and rops :: "('r, CgroupRunqStats) map_ops"
    and vops :: "'v counter_ops" and gops :: "'g gauge_ops" and rng :: "string list \<Rightarrow> string list"
begin

abbreviation blk :: "'b \<times> 'r option \<Rightarrow> u64 \<rightharpoonup> CgroupIOStats" where
  "blk maps \<equiv> Entries bops (fst maps)"

abbreviation rnq :: "'b \<times> 'r option \<Rightarrow> u64 \<rightharpoonup> CgroupRunqStats" where
  "rnq maps \<equiv> runq_entries rops (snd maps)"

text \<open>The iterations complete, and the resolver knows every cgroup.\<close>

definition quiet :: "CgroupResolver \<Rightarrow> 'b \<times> 'r option \<Rightarrow> bool" where
  "quiet r maps \<longleftrightarrow> snd (Iterate bops (fst maps)) = None \<and> runq_ok rops (snd maps) \<and>
     (\<forall>k \<in> dom (blk maps) \<union> dom (rnq maps). \<not> unknown_id r k)"

text \<open>The counters show the totals of the entries.\<close>

definition shows_entries :: "CgroupResolver \<Rightarrow> 'b \<times> 'r option \<Rightarrow> ('v, 'g) PromMetrics \<Rightarrow> bool" where
  "shows_entries r maps pm \<longleftrightarrow> (\<exists>rows. in_step vops rows pm \<and>
     sorted_wrt (<) (map CgroupID rows) \<and>
     (\<forall>row. row \<in> set rows \<longleftrightarrow> expected_row r (blk maps) (rnq maps) (CgroupID row) = Some row))"

lemma shows_entries_sample:
  assumes "shows_entries r maps pm" and i: "i < 6"
  shows "sample i pm l = (if pod_cgroups r (blk maps) (rnq maps) l \<noteq> {}
    then Some (unat (entries_total r (blk maps) (rnq maps) l i)) else None)"
proof -
  from assms(1) obtain rows where step: "in_step vops rows pm"
    and rows: "sorted_wrt (<) (map CgroupID rows)"
      "\<And>row. row \<in> set rows \<longleftrightarrow> expected_row r (blk maps) (rnq maps) (CgroupID row) = Some row"
    by (auto simp: shows_entries_def)
  note tot = rows_totals [OF rows(2,1), of l]
  have v: "l \<in> row_labels ` set rows \<Longrightarrow> valid_labels l" using row_labels_valid by blast
  from step i have "sample i pm l =
      (if l \<in> row_labels ` set rows then Some (unat (pod_total rows (key_of l) i)) else None)"
    by (simp add: in_step_def)
  with tot(1) tot(2) [OF v] show ?thesis by (cases "l \<in> row_labels ` set rows") simp_all
qed

lemma quiet_pass:
  assumes "quiet r maps" and "cl_resolver st = Some r" and "shows_entries r old (cl_prom st)"
    and grow: "\<And>l i. i < 6 \<Longrightarrow> pod_cgroups r (blk old) (rnq old) l \<noteq> {} \<Longrightarrow>
      entries_total r (blk old) (rnq old) l i \<le> entries_total r (blk maps) (rnq maps) l i"
    and small: "\<And>l i. i < 6 \<Longrightarrow> unat (entries_total r (blk maps) (rnq maps) l i) \<le> 2 ^ 53"
    and st': "st' = collector_pass bops rops rng vops gops fs maps st"
  shows "cl_resolver st' = Some r" and "shows_entries r maps (cl_prom st')"
    and "Entries bops (cl_block st') = blk maps" and "runq_entries rops (cl_runq st') = rnq maps"
proof -
  let ?out = "readStats bops rops (fst maps) (snd maps) r"
  have ok: "snd (Iterate bops (fst maps)) = None" "runq_ok rops (snd maps)"
    using assms(1) by (simp_all add: quiet_def)
  note del = read_deletes [OF ok, of r]
  have known: "\<not> unknown_seen ?out" using del assms(1) by (auto simp: quiet_def)
  have "blk maps k = None" "rnq maps k = None" if "unknown_id r k" for k
    using assms(1) that by (fastforce simp: quiet_def)+
  then have keep: "blk maps |` {k. \<not> unknown_id r k} = blk maps" "rnq maps |` {k. \<not> unknown_id r k} = rnq maps"
    by (simp_all add: restrict_map_def fun_eq_iff)
  from read_rows [OF ok, of r] obtain rows where rows: "result ?out = Inr rows"
      "sorted_wrt (<) (map CgroupID rows)"
      "\<And>row. row \<in> set rows \<longleftrightarrow> expected_row r (blk maps) (rnq maps) (CgroupID row) = Some row"
    by blast
  have st: "st' = \<lparr>cl_resolver = Some r, cl_block = block_after ?out, cl_runq = runq_after ?out,
      cl_prom = Update rng vops gops rows (cl_prom st)\<rparr>"
    using known rows(1) assms(2) by (simp add: st' collector_pass_def collector_tick_def Let_def)
  show "cl_resolver st' = Some r" by (simp add: st)
  show "Entries bops (cl_block st') = blk maps" "runq_entries rops (cl_runq st') = rnq maps"
    using del keep by (simp_all add: st)
  from assms(3) obtain olds where olds: "in_step vops olds (cl_prom st)"
      "sorted_wrt (<) (map CgroupID olds)"
      "\<And>row. row \<in> set olds \<longleftrightarrow> expected_row r (blk old) (rnq old) (CgroupID row) = Some row"
    by (auto simp: shows_entries_def)
  have total: "pod_total rows (row_key row) i = entries_total r (blk maps) (rnq maps) (row_labels row) i"
      "pod_total olds (row_key row) i = entries_total r (blk old) (rnq old) (row_labels row) i" for row i
    unfolding row_key_def
    using rows_totals(2) [OF rows(3,2)] rows_totals(2) [OF olds(3,2)] row_labels_valid by blast+
  have old_pod: "row_key row \<in> row_key ` set olds \<Longrightarrow> pod_cgroups r (blk old) (rnq old) (row_labels row) \<noteq> {}"
    for row
    using rows_totals(1) [OF olds(3,2), of "row_labels row"] key_in_rows [OF row_labels_valid, of row olds]
    by (simp add: row_key_def)
  have "grows olds rows" unfolding grows_def total using grow old_pod by simp
  moreover have "exact rows" unfolding exact_def total using small by simp
  ultimately have "in_step vops rows (cl_prom st')" using update_in_step [OF olds(1)] by (simp add: st)
  with rows show "shows_entries r maps (cl_prom st')" unfolding shows_entries_def by blast
qed

lemma nothing_shown:
  assumes "CounterSample vops v = Map.empty" and "blk maps = Map.empty" and "rnq maps = Map.empty"
  shows "shows_entries r maps (NewPromMetrics v g)"
  unfolding shows_entries_def assms(2,3)
  by (rule exI [of _ "[]"]) (simp add: new_in_step [OF assms(1)] expected_row_def)

end

section \<open>The kernel programs and the collector together\<close>

text \<open>The collector's view of the map the scheduler programs fill.\<close>

definition pinned_runq :: "((u64 \<times> cgroup_runq_stats_t) list, CgroupRunqStats) map_ops" where
  "pinned_runq =
     \<lparr>Iterate = (\<lambda>m. (map (\<lambda>(k, v). (k, runq_of_c v)) (AList.clearjunk m), None)),
      Delete = (\<lambda>m k. AList.delete k m), Entries = (\<lambda>m k. map_option runq_of_c (map_of m k))\<rparr>"

lemma map_of_runq: "map_of (map (\<lambda>(k, v). (k, runq_of_c v)) m) = map_option runq_of_c \<circ> map_of m"
  by (rule map_of_map)

interpretation pin_runq: pinned_map pinned_runq
  by unfold_locales
    (auto simp: pinned_runq_def map_of_runq map_of_clearjunk delete_conv' fun_eq_iff
      distinct_clearjunk comp_def case_prod_beta)

interpretation coll_kernel: collector_maps pinned_block pinned_runq
  by unfold_locales

interpretation exp_kernel: exporter pinned_block pinned_runq map_counters map_gauges rev
  by unfold_locales

record ('v, 'g) machine =
  mc_block :: "((u64 \<times> start_val_t) list, (u64 \<times> cgroup_io_stats_t) list) block_state"
  mc_runq :: "((runq_key_t \<times> u64) list, (u64 \<times> cgroup_runq_stats_t) list) runq_state"
  mc_collector :: "((u64 \<times> cgroup_io_stats_t) list, (u64 \<times> cgroup_runq_stats_t) list, 'v, 'g) collector"

text \<open>
  A round: block events, scheduler events, a tick. The collector works on the very maps of the
  programs; what it deletes is gone for them.
\<close>

definition machine_round ::
  "(string list \<Rightarrow> string list) \<Rightarrow> 'v counter_ops \<Rightarrow> 'g gauge_ops \<Rightarrow>
   cgroup_fs \<times> block_event list \<times> runq_event list \<Rightarrow> ('v, 'g) machine \<Rightarrow> ('v, 'g) machine" where
  "machine_round rng vops gops rd mc =
     (case rd of (fs, bevs, revs) \<Rightarrow>
        let bs = block_run hash_block_maps bevs (mc_block mc);
            rs = runq_run hash_runq_maps revs (mc_runq mc);
            cl = collector_pass pinned_block pinned_runq rng vops gops fs
                   (stats_by_cgroup bs, Some (runq_stats_by_cgroup rs)) (mc_collector mc)
        in \<lparr>mc_block = bs\<lparr>stats_by_cgroup := cl_block cl\<rparr>,
            mc_runq = rs\<lparr>runq_stats_by_cgroup := (case cl_runq cl of None \<Rightarrow> [] | Some m \<Rightarrow> m)\<rparr>,
            mc_collector = cl\<rparr>)"

definition machine_start :: "CgroupResolver \<Rightarrow> 'v \<Rightarrow> 'g \<Rightarrow> ('v, 'g) machine" where
  "machine_start r v g = \<lparr>mc_block = block_init, mc_runq = runq_init,
     mc_collector = \<lparr>cl_resolver = Some r, cl_block = [], cl_runq = Some [], cl_prom = NewPromMetrics v g\<rparr>\<rparr>"

section \<open>What has happened\<close>

text \<open>The contributions of a completion and of a wait to the six columns.\<close>

definition io_columns :: "io_sample \<Rightarrow> nat list" where
  "io_columns s = [1, unat (smp_bytes s), unat (smp_delta s), if smp_error s \<noteq> 0 then 1 else 0, 0, 0]"

definition wait_columns :: "wait_sample \<Rightarrow> nat list" where
  "wait_columns w = [0, 0, 0, 0, 1, unat (wait_delta w)]"

definition history_total :: "CgroupResolver \<Rightarrow> io_sample list \<Rightarrow> wait_sample list \<Rightarrow> Labels \<Rightarrow> nat \<Rightarrow> nat" where
  "history_total r ss ws l i =
     sum_list (map (\<lambda>s. io_columns s ! i) (filter (\<lambda>s. cgroup_labels r (smp_cgroup s) = l) ss)) +
     sum_list (map (\<lambda>w. wait_columns w ! i) (filter (\<lambda>w. cgroup_labels r (wait_cgroup w) = l) ws))"

definition io_entries :: "io_sample list \<Rightarrow> u64 \<rightharpoonup> CgroupIOStats" where
  "io_entries ss k = map_option io_of_c (stats_of ss k)"

definition wait_entries :: "wait_sample list \<Rightarrow> u64 \<rightharpoonup> CgroupRunqStats" where
  "wait_entries ws k = map_option runq_of_c (runq_stats_of ws k)"

lemma of_nat_sum_list: "(of_nat (sum_list xs) :: u64) = sum_list (map of_nat xs)"
  by (induction xs) simp_all

lemma dom_io_entries: "dom (io_entries ss) = smp_cgroup ` set ss"
  using dom_stats_of [of ss] by (auto simp: io_entries_def dom_def)

lemma dom_wait_entries: "dom (wait_entries ws) = wait_cgroup ` set ws"
  using dom_runq_stats_of [of ws] by (auto simp: wait_entries_def dom_def)

lemma count_filter: "length (filter P xs) = sum_list (map (\<lambda>x. if P x then 1 else 0) xs)"
  by (induction xs) simp_all

lemma columns_history:
  assumes "i < 6"
  shows "columns (io_entries ss) (wait_entries ws) k ! i =
    of_nat (sum_list (map (\<lambda>s. io_columns s ! i) (samples_of ss k)) +
      sum_list (map (\<lambda>w. wait_columns w ! i) (waits_of ws k)))"
  using six [OF assms]
  by (elim disjE)
    (simp_all add: columns_def Let_def io_entries_def wait_entries_def stats_of_def runq_stats_of_def
      stats_closed io_of_c_def runq_of_c_def zero_io_def zero_runq_def io_columns_def wait_columns_def
      of_nat_sum_list comp_def count_filter sum_list_triv if_distrib [of of_nat] cong: if_cong)

lemma sum_by_class:
  assumes "finite K"
  shows "(\<Sum>k \<in> K. sum_list (map f (filter (\<lambda>x. g x = k) xs))) = (sum_list (map f (filter (\<lambda>x. g x \<in> K) xs)) :: nat)"
proof (induction xs)
  case (Cons x xs)
  have "(\<Sum>k \<in> K. sum_list (map f (filter (\<lambda>y. g y = k) (x # xs)))) =
      (\<Sum>k \<in> K. (if k = g x then f x else 0) + sum_list (map f (filter (\<lambda>y. g y = k) xs)))"
    by (rule sum.cong) auto
  also have "\<dots> = (if g x \<in> K then f x else 0) + sum_list (map f (filter (\<lambda>x. g x \<in> K) xs))"
    using assms by (simp add: sum.distrib Cons)
  finally show ?case by simp
qed simp

text \<open>The entries of known cgroups, summed per pod, count what has happened to the pod.\<close>

definition all_known :: "CgroupResolver \<Rightarrow> io_sample list \<Rightarrow> wait_sample list \<Rightarrow> bool" where
  "all_known r ss ws \<longleftrightarrow> (\<forall>s \<in> set ss. \<not> unknown_id r (smp_cgroup s)) \<and>
     (\<forall>w \<in> set ws. \<not> unknown_id r (wait_cgroup w))"

definition seen_pod :: "CgroupResolver \<Rightarrow> io_sample list \<Rightarrow> wait_sample list \<Rightarrow> Labels \<Rightarrow> bool" where
  "seen_pod r ss ws l \<longleftrightarrow> (\<exists>s \<in> set ss. cgroup_labels r (smp_cgroup s) = l) \<or>
     (\<exists>w \<in> set ws. cgroup_labels r (wait_cgroup w) = l)"

lemma pod_cgroups_history:
  assumes "all_known r ss ws"
  shows "pod_cgroups r (io_entries ss) (wait_entries ws) l =
    {k \<in> smp_cgroup ` set ss \<union> wait_cgroup ` set ws. cgroup_labels r k = l}"
  using assms unfolding pod_cgroups_def dom_io_entries dom_wait_entries all_known_def by blast

lemma seen_pod_iff:
  "all_known r ss ws \<Longrightarrow> seen_pod r ss ws l \<longleftrightarrow> pod_cgroups r (io_entries ss) (wait_entries ws) l \<noteq> {}"
  by (auto simp: pod_cgroups_history seen_pod_def)

lemma entries_history:
  assumes "all_known r ss ws" and "i < 6"
  shows "entries_total r (io_entries ss) (wait_entries ws) l i = of_nat (history_total r ss ws l i)"
proof -
  let ?K = "{k \<in> smp_cgroup ` set ss \<union> wait_cgroup ` set ws. cgroup_labels r k = l}"
  let ?io = "\<lambda>s. io_columns s ! i" and ?wait = "\<lambda>w. wait_columns w ! i"
  have K: "finite ?K" by simp
  have "entries_total r (io_entries ss) (wait_entries ws) l i =
      of_nat ((\<Sum>k \<in> ?K. sum_list (map ?io (samples_of ss k))) + (\<Sum>k \<in> ?K. sum_list (map ?wait (waits_of ws k))))"
    unfolding entries_total_def pod_cgroups_history [OF assms(1)] columns_history [OF assms(2)]
    by (simp add: sum.distrib)
  also have "\<dots> = of_nat (sum_list (map ?io (filter (\<lambda>s. smp_cgroup s \<in> ?K) ss)) +
      sum_list (map ?wait (filter (\<lambda>w. wait_cgroup w \<in> ?K) ws)))"
    unfolding samples_of_def waits_of_def sum_by_class [OF K] ..
  also have "filter (\<lambda>s. smp_cgroup s \<in> ?K) ss = filter (\<lambda>s. cgroup_labels r (smp_cgroup s) = l) ss"
    by (rule filter_cong) auto
  also have "filter (\<lambda>w. wait_cgroup w \<in> ?K) ws = filter (\<lambda>w. cgroup_labels r (wait_cgroup w) = l) ws"
    by (rule filter_cong) auto
  finally show ?thesis by (simp only: history_total_def)
qed

section \<open>Histories only grow\<close>

lemma fits_append: "fits (es @ es') a \<longleftrightarrow> fits es a \<and> fits es' (fold spec_step es a)"
  by (induction es arbitrary: a) simp_all

lemma runq_fits_append: "runq_fits (es @ es') a \<longleftrightarrow> runq_fits es a \<and> runq_fits es' (fold runq_spec_step es a)"
  by (induction es arbitrary: a) simp_all

lemma spec_grows: "\<exists>ss. snd (fold spec_step es a) = snd a @ ss"
proof (induction es arbitrary: a)
  case (Cons e es)
  have "\<exists>ss. snd (spec_step e a) = snd a @ ss"
    by (cases e; cases a) (auto split: option.splits)
  with Cons [of "spec_step e a"] show ?case by fastforce
qed simp

lemma runq_spec_grows: "\<exists>ws. snd (fold runq_spec_step es a) = snd a @ ws"
proof (induction es arbitrary: a)
  case (Cons e es)
  have "\<exists>ws. snd (runq_spec_step e a) = snd a @ ws"
    by (cases e; cases a) (auto split: option.splits)
  with Cons [of "runq_spec_step e a"] show ?case by fastforce
qed simp

lemma history_total_append:
  "history_total r (ss @ ss') (ws @ ws') l i = history_total r ss ws l i + history_total r ss' ws' l i"
  by (simp add: history_total_def)

definition block_history :: "(cgroup_fs \<times> block_event list \<times> runq_event list) list \<Rightarrow> io_sample list" where
  "block_history rounds = snd (block_spec_run (concat (map (\<lambda>(fs, bevs, revs). bevs) rounds)))"

definition runq_history :: "(cgroup_fs \<times> block_event list \<times> runq_event list) list \<Rightarrow> wait_sample list" where
  "runq_history rounds = snd (runq_spec_run (concat (map (\<lambda>(fs, bevs, revs). revs) rounds)))"

lemma histories_grow:
  "\<exists>ss ws. block_history (rounds @ [rd]) = block_history rounds @ ss \<and>
     runq_history (rounds @ [rd]) = runq_history rounds @ ws"
proof -
  obtain fs bevs revs where rd: "rd = (fs, bevs, revs)" by (cases rd)
  show ?thesis
    using spec_grows [of bevs "block_spec_run (concat (map (\<lambda>(fs, bevs, revs). bevs) rounds))"]
      runq_spec_grows [of revs "runq_spec_run (concat (map (\<lambda>(fs, bevs, revs). revs) rounds))"]
    by (simp add: block_history_def runq_history_def rd)
qed

section \<open>The machine after any number of rounds\<close>

locale kernel_exporter = prom_vecs vops gops rng
  for vops :: "'v counter_ops" and gops :: "'g gauge_ops" and rng :: "string list \<Rightarrow> string list"

sublocale kernel_exporter \<subseteq> ex: exporter pinned_block pinned_runq vops gops rng
  by unfold_locales

interpretation map_machine: kernel_exporter map_counters map_gauges rev
  by unfold_locales

definition fitting :: "(cgroup_fs \<times> block_event list \<times> runq_event list) list \<Rightarrow> bool" where
  "fitting rounds \<longleftrightarrow> fits (concat (map (\<lambda>(fs, bevs, revs). bevs) rounds)) (Map.empty, []) \<and>
     runq_fits (concat (map (\<lambda>(fs, bevs, revs). revs) rounds)) (Map.empty, [])"

definition countable_history :: "CgroupResolver \<Rightarrow> io_sample list \<Rightarrow> wait_sample list \<Rightarrow> bool" where
  "countable_history r ss ws \<longleftrightarrow> (\<forall>l. \<forall>i < 6. history_total r ss ws l i \<le> 2 ^ 53)"

lemma io_of_c_inj: "map_option io_of_c x = map_option io_of_c y \<longleftrightarrow> x = y"
  by (cases x; cases y) (auto simp: io_of_c_def intro: cgroup_io_stats_t.equality)

lemma runq_of_c_inj: "map_option runq_of_c x = map_option runq_of_c y \<longleftrightarrow> x = y"
  by (cases x; cases y) (auto simp: runq_of_c_def intro: cgroup_runq_stats_t.equality)

text \<open>The collector's entries determine what the programs find in their maps.\<close>

lemma block_entries:
  "Entries pinned_block (stats_by_cgroup bs) = io_entries ss \<longleftrightarrow> block_acc hash_block_maps bs = stats_of ss"
  "Entries pinned_block (stats_by_cgroup bs) = Entries pinned_block (stats_by_cgroup bs') \<longleftrightarrow>
   block_acc hash_block_maps bs = block_acc hash_block_maps bs'"
  by (simp_all add: pinned_block_def io_entries_def fun_eq_iff io_of_c_inj bpf_simps)

lemma runq_entries_eq:
  "runq_entries pinned_runq (Some (runq_stats_by_cgroup rs)) = wait_entries ws \<longleftrightarrow>
   runq_acc hash_runq_maps rs = runq_stats_of ws"
  "runq_entries pinned_runq (Some (runq_stats_by_cgroup rs)) =
     runq_entries pinned_runq (Some (runq_stats_by_cgroup rs')) \<longleftrightarrow>
   runq_acc hash_runq_maps rs = runq_acc hash_runq_maps rs'"
  by (simp_all add: runq_entries_def pinned_runq_def wait_entries_def fun_eq_iff runq_of_c_inj bpf_simps)

lemma totals_ordered:
  assumes "all_known r (ss @ ss') (ws @ ws')" and "countable_history r (ss @ ss') (ws @ ws')" and "i < 6"
  shows "entries_total r (io_entries ss) (wait_entries ws) l i \<le>
      entries_total r (io_entries (ss @ ss')) (wait_entries (ws @ ws')) l i"
    and "unat (entries_total r (io_entries (ss @ ss')) (wait_entries (ws @ ws')) l i) =
      history_total r (ss @ ss') (ws @ ws') l i"
proof -
  let ?old = "history_total r ss ws l i" and ?new = "history_total r (ss @ ss') (ws @ ws') l i"
  have "all_known r ss ws" using assms(1) by (simp add: all_known_def)
  note tot = entries_history [OF this assms(3), of l] entries_history [OF assms(1,3), of l]
  have "?new \<le> 2 ^ 53" using assms(2,3) by (simp add: countable_history_def)
  moreover have "?old \<le> ?new" by (simp add: history_total_append)
  ultimately have u: "unat (of_nat ?new :: u64) = ?new" "unat (of_nat ?old :: u64) = ?old"
    by (simp_all add: unat_of_nat)
  show "unat (entries_total r (io_entries (ss @ ss')) (wait_entries (ws @ ws')) l i) = ?new"
    by (simp add: tot u)
  show "entries_total r (io_entries ss) (wait_entries ws) l i \<le>
      entries_total r (io_entries (ss @ ss')) (wait_entries (ws @ ws')) l i"
    unfolding tot word_le_nat_alt u by (simp add: history_total_append)
qed

context kernel_exporter begin

definition machine_inv ::
  "CgroupResolver \<Rightarrow> (cgroup_fs \<times> block_event list \<times> runq_event list) list \<Rightarrow> ('v, 'g) machine \<Rightarrow> bool" where
  "machine_inv r rounds mc \<longleftrightarrow>
     block_refines hash_block_maps (mc_block mc) (block_spec_run (concat (map (\<lambda>(fs, bevs, revs). bevs) rounds))) \<and>
     runq_refines hash_runq_maps (mc_runq mc) (runq_spec_run (concat (map (\<lambda>(fs, bevs, revs). revs) rounds))) \<and>
     cl_resolver (mc_collector mc) = Some r \<and>
     ex.shows_entries r (stats_by_cgroup (mc_block mc), Some (runq_stats_by_cgroup (mc_runq mc)))
       (cl_prom (mc_collector mc))"

lemma shows_entries_cong:
  "ex.blk maps = ex.blk maps' \<Longrightarrow> ex.rnq maps = ex.rnq maps' \<Longrightarrow>
   ex.shows_entries r maps pm = ex.shows_entries r maps' pm"
  by (simp add: ex.shows_entries_def)

lemma start_inv:
  assumes "CounterSample vops v = Map.empty"
  shows "machine_inv r [] (machine_start r v g)"
proof -
  have "ex.shows_entries r ([], Some []) (NewPromMetrics v g)"
    by (rule ex.nothing_shown [OF assms]) (simp_all add: pinned_block_def pinned_runq_def runq_entries_def)
  then show ?thesis
    using block_init_empty runq_init_empty
    by (simp add: machine_inv_def machine_start_def refines_empty runq_refines_empty block_init_def runq_init_def)
qed

lemma round_inv:
  assumes inv: "machine_inv r rounds mc" and fit: "fitting (rounds @ [rd])"
    and known: "all_known r (block_history (rounds @ [rd])) (runq_history (rounds @ [rd]))"
    and count: "countable_history r (block_history (rounds @ [rd])) (runq_history (rounds @ [rd]))"
  shows "machine_inv r (rounds @ [rd]) (machine_round rng vops gops rd mc)"
proof -
  obtain fs bevs revs where rd: "rd = (fs, bevs, revs)" by (cases rd)
  let ?bs = "block_run hash_block_maps bevs (mc_block mc)" and ?rs = "runq_run hash_runq_maps revs (mc_runq mc)"
  let ?maps = "(stats_by_cgroup ?bs, Some (runq_stats_by_cgroup ?rs))"
  let ?old = "(stats_by_cgroup (mc_block mc), Some (runq_stats_by_cgroup (mc_runq mc)))"
  let ?cl = "collector_pass pinned_block pinned_runq rng vops gops fs ?maps (mc_collector mc)"
  have bref: "block_refines hash_block_maps ?bs
      (block_spec_run (concat (map (\<lambda>(fs, bevs, revs). bevs) (rounds @ [rd]))))"
    using hash_block.run_refines inv fit by (simp add: machine_inv_def fitting_def fits_append rd)
  have rref: "runq_refines hash_runq_maps ?rs
      (runq_spec_run (concat (map (\<lambda>(fs, bevs, revs). revs) (rounds @ [rd]))))"
    using hash_runq.runq_run_refines inv fit by (simp add: machine_inv_def fitting_def runq_fits_append rd)
  obtain ss ws where grow: "block_history (rounds @ [rd]) = block_history rounds @ ss"
      "runq_history (rounds @ [rd]) = runq_history rounds @ ws" using histories_grow by blast
  have new: "ex.blk ?maps = io_entries (block_history rounds @ ss)"
      "ex.rnq ?maps = wait_entries (runq_history rounds @ ws)"
    using bref rref unfolding grow [symmetric] fst_conv snd_conv block_entries(1) runq_entries_eq(1)
    by (simp_all add: block_refines_def runq_refines_def block_history_def runq_history_def)
  have old: "ex.blk ?old = io_entries (block_history rounds)" "ex.rnq ?old = wait_entries (runq_history rounds)"
    using inv unfolding fst_conv snd_conv block_entries(1) runq_entries_eq(1)
    by (simp_all add: machine_inv_def block_refines_def runq_refines_def block_history_def runq_history_def)
  note ord = totals_ordered [OF known [unfolded grow] count [unfolded grow]]
  have quiet: "ex.quiet r ?maps"
    using known unfolding ex.quiet_def new dom_io_entries dom_wait_entries grow all_known_def
    by (auto simp: pinned_block_def pinned_runq_def runq_ok_def)
  have shown: "ex.shows_entries r ?old (cl_prom (mc_collector mc))" and res: "cl_resolver (mc_collector mc) = Some r"
    using inv by (simp_all add: machine_inv_def)
  have less: "entries_total r (ex.blk ?old) (ex.rnq ?old) l i \<le> entries_total r (ex.blk ?maps) (ex.rnq ?maps) l i"
    if "i < 6" for l i unfolding old new by (rule ord(1) [OF that])
  have small: "unat (entries_total r (ex.blk ?maps) (ex.rnq ?maps) l i) \<le> 2 ^ 53" if "i < 6" for l i
    unfolding new ord(2) [OF that] using count that by (simp add: countable_history_def grow)
  note pass = ex.quiet_pass [OF quiet res shown less small HOL.refl, of fs]
  let ?m = "case cl_runq ?cl of None \<Rightarrow> [] | Some m \<Rightarrow> m"
  have run: "runq_entries pinned_runq (Some ?m) = runq_entries pinned_runq (cl_runq ?cl)"
    by (cases "cl_runq ?cl") (simp_all add: runq_entries_def pinned_runq_def)
  have mc: "machine_round rng vops gops rd mc = \<lparr>mc_block = ?bs\<lparr>stats_by_cgroup := cl_block ?cl\<rparr>,
      mc_runq = ?rs\<lparr>runq_stats_by_cgroup := ?m\<rparr>, mc_collector = ?cl\<rparr>"
    by (simp add: machine_round_def rd Let_def)
  have "block_acc hash_block_maps (?bs\<lparr>stats_by_cgroup := cl_block ?cl\<rparr>) = block_acc hash_block_maps ?bs"
    using pass(3) unfolding block_entries(2) [symmetric] by simp
  moreover have "runq_acc hash_runq_maps (?rs\<lparr>runq_stats_by_cgroup := ?m\<rparr>) = runq_acc hash_runq_maps ?rs"
    using pass(4) run unfolding runq_entries_eq(2) [symmetric] by simp
  moreover have "ex.shows_entries r (cl_block ?cl, Some ?m) (cl_prom ?cl)"
    using pass(2) shows_entries_cong [of "(cl_block ?cl, Some ?m)" ?maps r "cl_prom ?cl"] pass(3,4) run by simp
  ultimately show ?thesis
    using bref rref pass(1) by (simp add: machine_inv_def mc block_refines_def runq_refines_def)
qed

lemma countable_prefix: "countable_history r (ss @ ss') (ws @ ws') \<Longrightarrow> countable_history r ss ws"
  unfolding countable_history_def history_total_append by (meson add_leD1)

lemma rounds_inv:
  assumes "CounterSample vops v = Map.empty"
  shows "fitting rounds \<Longrightarrow> all_known r (block_history rounds) (runq_history rounds) \<Longrightarrow>
    countable_history r (block_history rounds) (runq_history rounds) \<Longrightarrow>
    machine_inv r rounds (fold (machine_round rng vops gops) rounds (machine_start r v g))"
proof (induction rounds rule: rev_induct)
  case Nil
  show ?case using start_inv [OF assms] by simp
next
  case (snoc rd rounds)
  obtain ss ws where grow: "block_history (rounds @ [rd]) = block_history rounds @ ss"
      "runq_history (rounds @ [rd]) = runq_history rounds @ ws" using histories_grow by blast
  have "fitting rounds" using snoc.prems(1) by (simp add: fitting_def fits_append runq_fits_append)
  moreover have "all_known r (block_history rounds) (runq_history rounds)"
    using snoc.prems(2) by (simp add: grow all_known_def)
  moreover have "countable_history r (block_history rounds) (runq_history rounds)"
    using snoc.prems(3) unfolding grow by (rule countable_prefix)
  ultimately show ?case using round_inv [OF snoc.IH snoc.prems] by simp
qed

lemma inv_sample:
  assumes inv: "machine_inv r rounds mc"
    and known: "all_known r (block_history rounds) (runq_history rounds)"
    and count: "countable_history r (block_history rounds) (runq_history rounds)" and i: "i < 6"
  shows "sample i (cl_prom (mc_collector mc)) l =
    (if seen_pod r (block_history rounds) (runq_history rounds) l
     then Some (history_total r (block_history rounds) (runq_history rounds) l i) else None)"
proof -
  let ?maps = "(stats_by_cgroup (mc_block mc), Some (runq_stats_by_cgroup (mc_runq mc)))"
  have maps: "ex.blk ?maps = io_entries (block_history rounds)" "ex.rnq ?maps = wait_entries (runq_history rounds)"
    using inv unfolding fst_conv snd_conv block_entries(1) runq_entries_eq(1)
    by (simp_all add: machine_inv_def block_refines_def runq_refines_def block_history_def runq_history_def)
  have "ex.shows_entries r ?maps (cl_prom (mc_collector mc))" using inv by (simp add: machine_inv_def)
  from ex.shows_entries_sample [OF this i, of l] show ?thesis
    unfolding maps seen_pod_iff [OF known]
    using totals_ordered(2) [of r "block_history rounds" "[]" "runq_history rounds" "[]" i l] known count i by simp
qed

end

section \<open>Properties\<close>

text \<open>
  C27: what Prometheus scrapes is what has happened. The kernel programs start from empty maps and the
  collector with a resolver that knows every cgroup that is ever accounted; between its passes any
  block and scheduler events happen. As long as no hash map overflows and no total of a pod exceeds
  \<open>2^53\<close>, after every number of rounds each of the six counters of a pod is exactly the number of its
  completed requests, their bytes, their latencies, their failures, the number of its waits and their
  length, summed over all its cgroups, and pods without any have no series.
\<close>

theorem exported_is_history:
  assumes "prom_vecs vops gops rng" and "CounterSample vops v = Map.empty"
    and "fitting rounds" and "all_known r (block_history rounds) (runq_history rounds)"
    and "countable_history r (block_history rounds) (runq_history rounds)" and "i < 6"
  shows "CounterSample vops (pm_vecs (cl_prom (mc_collector
      (fold (machine_round rng vops gops) rounds (machine_start r v g)))) ! i) l =
    (if seen_pod r (block_history rounds) (runq_history rounds) l
     then Some (history_total r (block_history rounds) (runq_history rounds) l i) else None)"
proof -
  have ctx: "kernel_exporter vops gops rng" using assms(1) by (simp add: kernel_exporter_def)
  show ?thesis
    by (rule kernel_exporter.inv_sample [OF ctx kernel_exporter.rounds_inv [OF ctx assms(2-5)] assms(4-6)])
qed

text \<open>Two rounds: a request is issued and task 5 runs, then the request completes with an error.\<close>

definition demo_rounds :: "(cgroup_fs \<times> block_event list \<times> runq_event list) list" where
  "demo_rounds = [(demo_fs, [Issue demo_env 100 7 1], demo_sched), (demo_fs, [Complete 170 1 5 4096], [])]"

definition pod_resolver :: CgroupResolver where
  "pod_resolver = \<lparr>ByID = [7 \<mapsto> ''/sys/fs/cgroup/kubepods.slice'']\<rparr>"

lemma demo_histories:
  "block_history demo_rounds = [Sample 7 70 4096 5]"
  "runq_history demo_rounds = [Waited 7 30, Waited 7 15]"
  by (simp_all add: block_history_def runq_history_def demo_rounds_def demo_sched_simps sample_of_def
      issue_val_def demo_env_def)

lemma demo_fitting: "fitting demo_rounds"
  using demo_sched_fits
  by (simp add: fitting_def demo_rounds_def start_map_entries_def stats_by_cgroup_entries_def samples_of_def
      sample_of_def issue_val_def)

lemma demo_countable: "countable_history pod_resolver (block_history demo_rounds) (runq_history demo_rounds)"
proof -
  have "history_total pod_resolver (block_history demo_rounds) (runq_history demo_rounds) l i \<le> 2 ^ 53"
    if "i < 6" for l i
    using six [OF that] unfolding demo_histories
    by (elim disjE) (simp_all add: history_total_def io_columns_def wait_columns_def)
  then show ?thesis by (simp add: countable_history_def)
qed

lemma demo_all_known: "all_known pod_resolver (block_history demo_rounds) (runq_history demo_rounds)"
  by (simp add: demo_histories all_known_def pod_resolver_def unknown_id_def Resolve_def unknown_path_def)

theorem exported_is_history_witness:
  "CounterSample map_counters (pm_vecs (cl_prom (mc_collector
      (fold (machine_round rev map_counters map_gauges) demo_rounds
         (machine_start pod_resolver Map.empty Map.empty)))) ! 5) (cgroup_labels pod_resolver 7) = Some 45"
  using exported_is_history [OF prom.prom_vecs_axioms fresh_maps(1) demo_fitting demo_all_known demo_countable,
      of 5 Map.empty "cgroup_labels pod_resolver 7"]
  by (simp add: demo_histories seen_pod_def history_total_def io_columns_def wait_columns_def)

end
