(* ===== verification/LivePass.thy ===== *)
theory LivePass
  imports CollectorRun "HOL-Library.Sublist"
begin

text \<open>
  \<open>collector/main.go\<close>, the pass of the collector over maps the kernel keeps writing to: the iteration is
  a system call per entry, and block and scheduler events happen between any two of them, and between
  the deletions. \<open>readStats_live\<close> is \<open>readStats\<close> with these changes in their places. What a pass over a
  live map delivers for a cgroup is what its entry held at some moment of the pass; what Prometheus
  scrapes afterwards lies between what had happened when the pass began and when it ended.
\<close>

section \<open>The pass over live maps\<close>

text \<open>
  An iteration: each read of an entry is preceded by what the kernel has done to the map meanwhile. A key
  that has gone is skipped; a key can be met twice.
\<close>

fun live_scan :: "('m \<Rightarrow> u64 \<rightharpoonup> 'v) \<Rightarrow> (('m \<Rightarrow> 'm) \<times> u64) list \<Rightarrow> 'm \<Rightarrow> (u64 \<times> 'v) list \<times> 'm" where
  "live_scan ent [] m = ([], m)"
| "live_scan ent ((change, k) # reads) m =
     (let m1 = change m; (items, m2) = live_scan ent reads m1
      in (case ent m1 k of None \<Rightarrow> items | Some v \<Rightarrow> (k, v) # items, m2))"

record ('b, 'r) meanwhile =
  mw_block_reads :: "(('b \<Rightarrow> 'b) \<times> u64) list"
  mw_block_err :: "string option"
  mw_block_deletes :: "u64 \<Rightarrow> 'b \<Rightarrow> 'b" \<comment> \<open>what happens to the map just before the key is deleted\<close>
  mw_runq_reads :: "(('r \<Rightarrow> 'r) \<times> u64) list"
  mw_runq_err :: "string option"
  mw_runq_deletes :: "u64 \<Rightarrow> 'r \<Rightarrow> 'r"

definition readStats_live ::
  "('b, CgroupIOStats) map_ops \<Rightarrow> ('r, CgroupRunqStats) map_ops \<Rightarrow> ('b, 'r) meanwhile \<Rightarrow> 'b \<Rightarrow> 'r option \<Rightarrow>
   CgroupResolver \<Rightarrow> ('b, 'r) readout" where
  "readStats_live bops rops mw blockMap runqMap r =
     (let (items, blockMap1) = live_scan (Entries bops) (mw_block_reads mw) blockMap;
          s1 = fold (block_item r) items \<lparr>rowMap = [], stale = [], hadUnknown = False\<rparr>
      in case mw_block_err mw of
           Some err \<Rightarrow>
             \<lparr>result = Inl (''block iter: '' @ err), unknown_seen = hadUnknown s1,
              block_after = blockMap1, runq_after = runqMap\<rparr>
         | None \<Rightarrow>
             let blockMap' = fold (\<lambda>k m. Delete bops (mw_block_deletes mw k m) k) (stale s1) blockMap1
             in case runqMap of
                  None \<Rightarrow>
                    \<lparr>result = Inr (sorted_rows (rowMap s1)), unknown_seen = hadUnknown s1,
                     block_after = blockMap', runq_after = None\<rparr>
                | Some rmap \<Rightarrow>
                    let (ritems, rmap1) = live_scan (Entries rops) (mw_runq_reads mw) rmap;
                        s2 = fold (runq_item r) ritems (s1\<lparr>stale := []\<rparr>)
                    in case mw_runq_err mw of
                         Some err \<Rightarrow>
                           \<lparr>result = Inl (''runq iter: '' @ err), unknown_seen = hadUnknown s2,
                            block_after = blockMap', runq_after = Some rmap1\<rparr>
                       | None \<Rightarrow>
                           \<lparr>result = Inr (sorted_rows (rowMap s2)), unknown_seen = hadUnknown s2,
                            block_after = blockMap',
                            runq_after = Some (fold (\<lambda>k m. Delete rops (mw_runq_deletes mw k m) k)
                              (stale s2) rmap1)\<rparr>)"

text \<open>On a kernel that does nothing meanwhile this is \<open>readStats\<close>.\<close>

lemma live_scan_still: "live_scan ent (map (\<lambda>(k, v). (\<lambda>m. m, k)) items) m =
    (concat (map (\<lambda>(k, v). case ent m k of None \<Rightarrow> [] | Some w \<Rightarrow> [(k, w)]) items), m)"
  by (induction items) (auto split: option.split)

lemma still_items:
  "distinct (map fst items) \<Longrightarrow>
   concat (map (\<lambda>(k, v). case map_of items k of None \<Rightarrow> [] | Some w \<Rightarrow> [(k, w)]) items) = items"
proof -
  assume d: "distinct (map fst items)"
  have "concat (map (\<lambda>(k, v). case map_of items k of None \<Rightarrow> [] | Some w \<Rightarrow> [(k, w)]) xs) = xs"
    if "set xs \<subseteq> set items" for xs
    using that by (induction xs) (use d in auto)
  then show ?thesis by simp
qed

definition nothing_meanwhile :: "(u64 \<times> 'x) list \<Rightarrow> string option \<Rightarrow> (u64 \<times> 'y) list \<Rightarrow> string option \<Rightarrow> ('b, 'r) meanwhile" where
  "nothing_meanwhile items berr ritems rerr =
     \<lparr>mw_block_reads = map (\<lambda>(k, v). (\<lambda>m. m, k)) items, mw_block_err = berr, mw_block_deletes = (\<lambda>k m. m),
      mw_runq_reads = map (\<lambda>(k, v). (\<lambda>m. m, k)) ritems, mw_runq_err = rerr, mw_runq_deletes = (\<lambda>k m. m)\<rparr>"

context collector_maps
begin

lemma live_scan_iterate:
  "Iterate bops bm = (items, None) \<Longrightarrow>
     live_scan (Entries bops) (map (\<lambda>(k, v). (\<lambda>m. m, k)) items) bm = (items, bm)"
  "Iterate rops m = (ritems, None) \<Longrightarrow>
     live_scan (Entries rops) (map (\<lambda>(k, v). (\<lambda>m. m, k)) ritems) m = (ritems, m)"
  by (simp_all add: live_scan_still b.iterate_entries q.iterate_entries still_items b.iterate_distinct
      q.iterate_distinct)

lemma live_is_readStats:
  assumes "Iterate bops bm = (items, None)" and "\<And>m. rm = Some m \<Longrightarrow> Iterate rops m = (ritems, None)"
  shows "readStats_live bops rops (nothing_meanwhile items None ritems None) bm rm r =
    readStats bops rops bm rm r"
  using assms live_scan_iterate
  by (cases rm) (simp_all add: readStats_live_def readStats_def nothing_meanwhile_def Let_def)

end

section \<open>What a live pass delivers\<close>

text \<open>The entries observed: of a key met twice the last observation counts.\<close>

definition observed :: "('m \<Rightarrow> u64 \<rightharpoonup> 'v) \<Rightarrow> (('m \<Rightarrow> 'm) \<times> u64) list \<Rightarrow> 'm \<Rightarrow> u64 \<rightharpoonup> 'v" where
  "observed ent reads m = map_of (rev (fst (live_scan ent reads m)))"

definition observed_runq ::
  "('r, CgroupRunqStats) map_ops \<Rightarrow> ('b, 'r) meanwhile \<Rightarrow> 'r option \<Rightarrow> u64 \<rightharpoonup> CgroupRunqStats" where
  "observed_runq rops mw rm =
     (case rm of None \<Rightarrow> Map.empty | Some m \<Rightarrow> observed (Entries rops) (mw_runq_reads mw) m)"

text \<open>The map at the end of the iteration.\<close>

definition scanned_map :: "('m \<Rightarrow> u64 \<rightharpoonup> 'v) \<Rightarrow> (('m \<Rightarrow> 'm) \<times> u64) list \<Rightarrow> 'm \<Rightarrow> 'm" where
  "scanned_map ent reads m = snd (live_scan ent reads m)"

lemma live_scan_split: "live_scan ent reads m = (fst (live_scan ent reads m), scanned_map ent reads m)"
  by (simp add: scanned_map_def)

lemma observed_keys: "fst ` set (fst (live_scan ent reads m)) = dom (observed ent reads m)"
  by (simp add: observed_def dom_map_of_conv_image_fst)

definition calm :: "('b, 'r) meanwhile \<Rightarrow> bool" where
  "calm mw \<longleftrightarrow> mw_block_err mw = None \<and> mw_runq_err mw = None"

text \<open>The two loops as one: the state after both, what it says of the entries, and what it leads to.\<close>

definition pass_ends ::
  "('b, CgroupIOStats) map_ops \<Rightarrow> ('r, CgroupRunqStats) map_ops \<Rightarrow> ('b, 'r) meanwhile \<Rightarrow> 'b \<Rightarrow> 'r option \<Rightarrow>
   CgroupResolver \<Rightarrow> scan \<Rightarrow> (u64 \<rightharpoonup> CgroupIOStats) \<Rightarrow> (u64 \<rightharpoonup> CgroupRunqStats) \<Rightarrow> ('b, 'r) readout \<Rightarrow> bool" where
  "pass_ends bops rops mw bm rm r s B Q out \<longleftrightarrow>
     rows_keyed (rowMap s) \<and> (\<forall>k. map_of (rowMap s) k = expected_row r B Q k) \<and>
     result out = Inr (sorted_rows (rowMap s)) \<and> unknown_seen out = hadUnknown s \<and>
     (hadUnknown s \<longleftrightarrow> (\<exists>k \<in> dom B \<union> dom Q. unknown_id r k)) \<and>
     ((\<forall>k \<in> dom B \<union> dom Q. \<not> unknown_id r k) \<longrightarrow>
        block_after out = scanned_map (Entries bops) (mw_block_reads mw) bm \<and>
        runq_after out = map_option (scanned_map (Entries rops) (mw_runq_reads mw)) rm)"

lemma none_stale: "set ks = {k \<in> D. P k} \<Longrightarrow> \<forall>k \<in> D. \<not> P k \<Longrightarrow> ks = []"
  by (simp add: set_empty [symmetric] del: set_empty)

lemma live_block_only:
  assumes "calm mw" and B: "B = observed (Entries bops) (mw_block_reads mw) bm"
  shows "\<exists>s. pass_ends bops rops mw bm None r s B Map.empty (readStats_live bops rops mw bm None r)"
proof -
  let ?items = "fst (live_scan (Entries bops) (mw_block_reads mw) bm)"
  let ?s = "fold (block_item r) ?items scan_start"
  note block = block_scan [where items = ?items and r = r, folded observed_def B]
  have keys: "fst ` set ?items = dom B" unfolding B by (rule observed_keys)
  have "(\<forall>k \<in> dom B. \<not> unknown_id r k) \<longrightarrow> stale ?s = []"
    using none_stale [OF block(3) [unfolded keys]] by blast
  then show ?thesis
    using assms(1) block(1) block(2) block(4) unfolding keys
    by (intro exI [of _ ?s])
      (auto simp: pass_ends_def readStats_live_def Let_def scan_start_def [symmetric] calm_def
        case_prod_beta scanned_map_def expected_parts with_runq_def)
qed

lemma live_both:
  assumes "calm mw" and B: "B = observed (Entries bops) (mw_block_reads mw) bm"
    and Q: "Q = observed (Entries rops) (mw_runq_reads mw) m"
  shows "\<exists>s. pass_ends bops rops mw bm (Some m) r s B Q (readStats_live bops rops mw bm (Some m) r)"
proof -
  let ?items = "fst (live_scan (Entries bops) (mw_block_reads mw) bm)"
  let ?ritems = "fst (live_scan (Entries rops) (mw_runq_reads mw) m)"
  define s1 where "s1 = fold (block_item r) ?items scan_start"
  define s2 where "s2 = fold (runq_item r) ?ritems (s1\<lparr>stale := []\<rparr>)"
  note block = block_scan [where items = ?items and r = r, folded s1_def observed_def B]
  have "rows_keyed (rowMap (s1\<lparr>stale := []\<rparr>))" using block(1) by simp
  moreover have "unknown_id r k \<Longrightarrow> map_of (rowMap (s1\<lparr>stale := []\<rparr>)) k = None" for k
    by (simp add: block(2))
  ultimately have keyed: "rows_keyed (rowMap (s1\<lparr>stale := []\<rparr>))"
    and unk: "\<And>k. unknown_id r k \<Longrightarrow> map_of (rowMap (s1\<lparr>stale := []\<rparr>)) k = None" by blast+
  note runq = runq_scan [where items = ?ritems and r = r and s = "s1\<lparr>stale := []\<rparr>", OF keyed unk,
      folded s2_def observed_def Q]
  have keys: "fst ` set ?items = dom B" "fst ` set ?ritems = dom Q" unfolding B Q by (rule observed_keys)+
  have "(\<forall>k \<in> dom B \<union> dom Q. \<not> unknown_id r k) \<longrightarrow> stale s1 = [] \<and> stale s2 = []"
    using none_stale [OF block(3) [unfolded keys]] none_stale [of "stale s2" "dom Q" "unknown_id r"] runq(3)
    unfolding keys by auto
  then show ?thesis
    using assms(1) runq(1) runq(2) runq(4) block(2) block(4) unfolding keys
    by (intro exI [of _ s2])
      (auto simp: pass_ends_def readStats_live_def Let_def scan_start_def [symmetric] s1_def [symmetric]
        s2_def [symmetric] calm_def case_prod_beta scanned_map_def expected_parts)
qed

lemma live_pass_ends:
  assumes "calm mw"
  shows "\<exists>s. pass_ends bops rops mw bm rm r s (observed (Entries bops) (mw_block_reads mw) bm)
    (observed_runq rops mw rm) (readStats_live bops rops mw bm rm r)"
  using live_block_only [OF assms HOL.refl] live_both [OF assms HOL.refl HOL.refl]
  by (cases rm) (simp_all add: observed_runq_def)

lemma pass_ends_rows:
  assumes "pass_ends bops rops mw bm rm r s B Q out"
  shows "\<exists>rows. result out = Inr rows \<and> sorted_wrt (<) (map CgroupID rows) \<and>
    (\<forall>row. row \<in> set rows \<longleftrightarrow> expected_row r B Q (CgroupID row) = Some row)"
  using assms sorted_rows_strict [of "rowMap s"] sorted_rows_mem [of "rowMap s"]
  by (simp add: pass_ends_def)

section \<open>A map and the history behind it\<close>

text \<open>
  What a program that fills a map promises the collector: the entries are a function (\<open>view\<close>) of what
  has happened so far, events extend that history, and an entry does not disappear.
\<close>

locale kernel_history =
  fixes ent :: "'m \<Rightarrow> u64 \<rightharpoonup> 'v" and run :: "'e list \<Rightarrow> 'm \<Rightarrow> 'm"
    and spec :: "'e list \<Rightarrow> 'a \<Rightarrow> 'a" and ok :: "'e list \<Rightarrow> 'a \<Rightarrow> bool" and rel :: "'m \<Rightarrow> 'a \<Rightarrow> bool"
    and hist :: "'a \<Rightarrow> 'h list" and view :: "'h list \<Rightarrow> u64 \<rightharpoonup> 'v"
  assumes rel_ent: "rel m a \<Longrightarrow> ent m = view (hist a)"
    and rel_run: "rel m a \<Longrightarrow> ok es a \<Longrightarrow> rel (run es m) (spec es a)"
    and ok_append: "ok (es @ es') a \<longleftrightarrow> ok es a \<and> ok es' (spec es a)"
    and spec_nil: "spec [] a = a"
    and spec_append: "spec (es @ es') a = spec es' (spec es a)"
    and hist_grows: "prefix (hist a) (hist (spec es a))"
    and view_grows: "view h k \<noteq> None \<Longrightarrow> prefix h h' \<Longrightarrow> view h' k \<noteq> None"
begin

abbreviation reads_of :: "('e list \<times> u64) list \<Rightarrow> (('m \<Rightarrow> 'm) \<times> u64) list" where
  "reads_of scan \<equiv> map (\<lambda>x. (run (fst x), snd x)) scan"

abbreviation events_of :: "('e list \<times> u64) list \<Rightarrow> 'e list" where
  "events_of scan \<equiv> concat (map fst scan)"

lemma scan_related:
  "rel m a \<Longrightarrow> ok (events_of scan) a \<Longrightarrow> rel (scanned_map ent (reads_of scan) m) (spec (events_of scan) a)"
proof (induction scan arbitrary: m a)
  case (Cons x scan)
  have "rel (run (fst x) m) (spec (fst x) a)" "ok (events_of scan) (spec (fst x) a)"
    using Cons.prems rel_run by (simp_all add: ok_append)
  from Cons.IH [OF this] show ?case by (simp add: scanned_map_def spec_append Let_def case_prod_beta)
qed (simp add: scanned_map_def spec_nil)

lemma scan_observes:
  "rel m a \<Longrightarrow> ok (events_of scan) a \<Longrightarrow> (k, v) \<in> set (fst (live_scan ent (reads_of scan) m)) \<Longrightarrow>
   \<exists>h. prefix (hist a) h \<and> prefix h (hist (spec (events_of scan) a)) \<and> view h k = Some v"
proof (induction scan arbitrary: m a)
  case (Cons x scan)
  let ?m = "run (fst x) m" and ?a = "spec (fst x) a"
  have rel: "rel ?m ?a" "ok (events_of scan) ?a" using Cons.prems(1,2) rel_run by (simp_all add: ok_append)
  have grow: "prefix (hist a) (hist ?a)" "prefix (hist ?a) (hist (spec (events_of scan) ?a))"
    by (rule hist_grows)+
  from Cons.prems(3) have
    "(k, v) \<in> set (fst (live_scan ent (reads_of scan) ?m)) \<or> k = snd x \<and> ent ?m (snd x) = Some v"
    by (auto simp: Let_def case_prod_beta split: option.splits)
  then show ?case
  proof
    assume "(k, v) \<in> set (fst (live_scan ent (reads_of scan) ?m))"
    from Cons.IH [OF rel this] grow(1) show ?case by (auto simp: spec_append intro: prefix_order.trans)
  next
    assume "k = snd x \<and> ent ?m (snd x) = Some v"
    with grow rel_ent [OF rel(1)] show ?case by (auto simp: spec_append)
  qed
qed simp

lemma scan_reads_all:
  "rel m a \<Longrightarrow> ok (events_of scan) a \<Longrightarrow> k \<in> snd ` set scan \<Longrightarrow> view (hist a) k \<noteq> None \<Longrightarrow>
   k \<in> fst ` set (fst (live_scan ent (reads_of scan) m))"
proof (induction scan arbitrary: m a)
  case (Cons x scan)
  let ?m = "run (fst x) m" and ?a = "spec (fst x) a"
  have rel: "rel ?m ?a" "ok (events_of scan) ?a" using Cons.prems(1,2) rel_run by (simp_all add: ok_append)
  have there: "view (hist ?a) k \<noteq> None" by (rule view_grows [OF Cons.prems(4) hist_grows])
  from Cons.prems(3) have "k = snd x \<or> k \<in> snd ` set scan" by auto
  then show ?case
  proof
    assume "k = snd x"
    with there rel_ent [OF rel(1)] show ?case by (auto simp: Let_def case_prod_beta)
  next
    assume "k \<in> snd ` set scan"
    from Cons.IH [OF rel this there] show ?case by (auto simp: Let_def case_prod_beta split: option.split)
  qed
qed simp

lemmas scan_moments = scan_related scan_observes scan_reads_all

text \<open>An iteration is complete when it reads every key that was there when it began.\<close>

definition complete :: "'m \<Rightarrow> ('e list \<times> u64) list \<Rightarrow> bool" where
  "complete m scan \<longleftrightarrow> dom (ent m) \<subseteq> snd ` set scan"

text \<open>Each entry observed is the entry after some part of what happened during the iteration.\<close>

lemma observed_moment:
  assumes rel: "rel m a" and ok: "ok (events_of scan) a" and full: "complete m scan"
  shows "\<exists>h. prefix (hist a) h \<and> prefix h (hist (spec (events_of scan) a)) \<and>
    observed ent (reads_of scan) m k = view h k"
proof (cases "observed ent (reads_of scan) m k")
  case None
  then have "k \<notin> fst ` set (fst (live_scan ent (reads_of scan) m))" unfolding observed_keys by auto
  then have "k \<notin> snd ` set scan \<or> view (hist a) k = None" using scan_moments(3) [OF rel ok] by blast
  then have "view (hist a) k = None" using full rel_ent [OF rel] by (auto simp: complete_def)
  then show ?thesis using None hist_grows by (intro exI [of _ "hist a"]) simp
next
  case (Some v)
  then have "(k, v) \<in> set (fst (live_scan ent (reads_of scan) m))"
    by (auto simp: observed_def dest: map_of_SomeD)
  from scan_moments(2) [OF rel ok this] Some show ?thesis by metis
qed

end

section \<open>The maps of the kernel programs, while the programs run\<close>

text \<open>The collector's view of the state of the block programs, and of the scheduler programs.\<close>

definition live_block ::
  "(((u64 \<times> start_val_t) list, (u64 \<times> cgroup_io_stats_t) list) block_state, CgroupIOStats) map_ops" where
  "live_block =
     \<lparr>Iterate = (\<lambda>bs. Iterate pinned_block (stats_by_cgroup bs)),
      Delete = (\<lambda>bs k. bs\<lparr>stats_by_cgroup := Delete pinned_block (stats_by_cgroup bs) k\<rparr>),
      Entries = (\<lambda>bs. Entries pinned_block (stats_by_cgroup bs))\<rparr>"

definition live_runq ::
  "(((runq_key_t \<times> u64) list, (u64 \<times> cgroup_runq_stats_t) list) runq_state, CgroupRunqStats) map_ops" where
  "live_runq =
     \<lparr>Iterate = (\<lambda>rs. Iterate pinned_runq (runq_stats_by_cgroup rs)),
      Delete = (\<lambda>rs k. rs\<lparr>runq_stats_by_cgroup := Delete pinned_runq (runq_stats_by_cgroup rs) k\<rparr>),
      Entries = (\<lambda>rs. Entries pinned_runq (runq_stats_by_cgroup rs))\<rparr>"

interpretation live_block: pinned_map live_block
  by unfold_locales
    (simp_all add: live_block_def pin_block.iterate_entries pin_block.iterate_distinct pin_block.delete_entries)

interpretation live_runq: pinned_map live_runq
  by unfold_locales
    (simp_all add: live_runq_def pin_runq.iterate_entries pin_runq.iterate_distinct pin_runq.delete_entries)

interpretation coll_live: collector_maps live_block live_runq
  by unfold_locales

lemma view_io_grows: "io_entries h k \<noteq> None \<Longrightarrow> prefix h h' \<Longrightarrow> io_entries h' k \<noteq> None"
  by (auto simp: io_entries_def stats_of_def samples_of_def prefix_def split: if_splits)

lemma view_wait_grows: "wait_entries h k \<noteq> None \<Longrightarrow> prefix h h' \<Longrightarrow> wait_entries h' k \<noteq> None"
  by (auto simp: wait_entries_def runq_stats_of_def waits_of_def prefix_def split: if_splits)

interpretation block_kernel: kernel_history "Entries live_block" "block_run hash_block_maps"
  "fold spec_step" fits "block_refines hash_block_maps" snd io_entries
proof unfold_locales
  show "prefix (snd a) (snd (fold spec_step es a))" for a es
    using spec_grows [of es a] by (auto simp: prefix_def)
  show "Entries live_block m = io_entries (snd a)" if "block_refines hash_block_maps m a" for m a
    using that by (simp add: live_block_def block_entries(1) block_refines_def)
qed (simp_all add: hash_block.run_refines fits_append view_io_grows)

interpretation runq_kernel: kernel_history "Entries live_runq" "runq_run hash_runq_maps"
  "fold runq_spec_step" runq_fits "runq_refines hash_runq_maps" snd wait_entries
proof unfold_locales
  show "prefix (snd a) (snd (fold runq_spec_step es a))" for a es
    using runq_spec_grows [of es a] by (auto simp: prefix_def)
  show "Entries live_runq m = wait_entries (snd a)" if "runq_refines hash_runq_maps m a" for m a
    using that runq_entries_eq(1) [of m "snd a"]
    by (simp add: live_runq_def runq_refines_def runq_entries_def)
qed (simp_all add: hash_runq.runq_run_refines runq_fits_append view_wait_grows)


end
