(* ===== verification/LiveRun.thy ===== *)
theory LiveRun
  imports LivePass
begin

text \<open>
  The collector beside a kernel that never pauses: events happen between the passes and, within a pass,
  before every entry it reads. The totals of the entries a pass observes, each at a moment of its own, and
  the counters that Prometheus scrapes after it, lie between the history at the beginning of the pass and
  the history at its end.
\<close>

section \<open>Counting entries observed at different moments\<close>

text \<open>What has happened to one cgroup.\<close>

definition cgroup_total :: "io_sample list \<Rightarrow> wait_sample list \<Rightarrow> u64 \<Rightarrow> nat \<Rightarrow> nat" where
  "cgroup_total ss ws k i =
     sum_list (map (\<lambda>s. io_columns s ! i) (samples_of ss k)) +
     sum_list (map (\<lambda>w. wait_columns w ! i) (waits_of ws k))"

text \<open>\<open>B\<close> and \<open>Q\<close> hold entries observed between two moments, of each cgroup at a moment of its own.\<close>

definition seen_between ::
  "io_sample list \<times> wait_sample list \<Rightarrow> io_sample list \<times> wait_sample list \<Rightarrow>
   (u64 \<rightharpoonup> CgroupIOStats) \<Rightarrow> (u64 \<rightharpoonup> CgroupRunqStats) \<Rightarrow> bool" where
  "seen_between h0 h1 B Q \<longleftrightarrow> (\<forall>k. \<exists>ss ws. prefix (fst h0) ss \<and> prefix ss (fst h1) \<and>
     prefix (snd h0) ws \<and> prefix ws (snd h1) \<and> B k = io_entries ss k \<and> Q k = wait_entries ws k)"

lemma cgroup_total_mono:
  "prefix ss ss' \<Longrightarrow> prefix ws ws' \<Longrightarrow> cgroup_total ss ws k i \<le> cgroup_total ss' ws' k i"
  by (auto simp: prefix_def cgroup_total_def samples_of_def waits_of_def)

lemma cgroup_total_none:
  "io_entries ss k = None \<Longrightarrow> wait_entries ws k = None \<Longrightarrow> cgroup_total ss ws k i = 0"
  by (simp add: cgroup_total_def io_entries_def wait_entries_def stats_of_def runq_stats_of_def
      split: if_splits)

lemma entry_iff:
  "io_entries ss k \<noteq> None \<or> wait_entries ws k \<noteq> None \<longleftrightarrow> k \<in> smp_cgroup ` set ss \<union> wait_cgroup ` set ws"
  unfolding dom_io_entries [symmetric] dom_wait_entries [symmetric] by (simp only: Un_iff domIff)

lemma entry_grows:
  "prefix ss ss' \<Longrightarrow> prefix ws ws' \<Longrightarrow> io_entries ss k \<noteq> None \<or> wait_entries ws k \<noteq> None \<Longrightarrow>
   io_entries ss' k \<noteq> None \<or> wait_entries ws' k \<noteq> None"
  using view_io_grows view_wait_grows by blast

lemma known_iff:
  "all_known r ss ws \<Longrightarrow> k \<in> smp_cgroup ` set ss \<union> wait_cgroup ` set ws \<Longrightarrow> \<not> unknown_id r k"
  unfolding all_known_def by blast

text \<open>The total of a pod, cgroup by cgroup.\<close>

lemma history_by_cgroup:
  assumes "finite K" and "\<And>k. k \<in> K \<Longrightarrow> cgroup_labels r k = l"
    and "\<And>k. k \<in> smp_cgroup ` set ss \<union> wait_cgroup ` set ws \<Longrightarrow> cgroup_labels r k = l \<Longrightarrow> k \<in> K"
  shows "history_total r ss ws l i = (\<Sum>k \<in> K. cgroup_total ss ws k i)"
proof -
  have "filter (\<lambda>s. cgroup_labels r (smp_cgroup s) = l) ss = filter (\<lambda>s. smp_cgroup s \<in> K) ss"
    using assms(2) assms(3) [OF UnI1 [OF imageI]] by (intro filter_cong HOL.refl) metis
  moreover have "filter (\<lambda>w. cgroup_labels r (wait_cgroup w) = l) ws = filter (\<lambda>w. wait_cgroup w \<in> K) ws"
    using assms(2) assms(3) [OF UnI2 [OF imageI]] by (intro filter_cong HOL.refl) metis
  ultimately show ?thesis
    by (simp add: history_total_def cgroup_total_def samples_of_def waits_of_def sum.distrib
        sum_by_class [OF assms(1)])
qed

text \<open>The pod's total over entries observed at moments of their own.\<close>

lemma moments_total:
  assumes at: "\<And>k. prefix (S k) ss1" "\<And>k. prefix (W k) ws1"
      "\<And>k. B k = io_entries (S k) k" "\<And>k. Q k = wait_entries (W k) k"
    and known: "all_known r ss1 ws1" and i: "i < 6"
    and K: "K = {k \<in> smp_cgroup ` set ss1 \<union> wait_cgroup ` set ws1. cgroup_labels r k = l}"
  shows "entries_total r B Q l i = of_nat (\<Sum>k \<in> K. cgroup_total (S k) (W k) k i)"
proof -
  let ?n = "\<lambda>k. cgroup_total (S k) (W k) k i"
  have dom: "pod_cgroups r B Q l \<subseteq> K"
  proof
    fix k assume k: "k \<in> pod_cgroups r B Q l"
    then have "io_entries (S k) k \<noteq> None \<or> wait_entries (W k) k \<noteq> None"
      by (auto simp: pod_cgroups_def at(3,4))
    then have "io_entries ss1 k \<noteq> None \<or> wait_entries ws1 k \<noteq> None" by (rule entry_grows [OF at(1,2)])
    then show "k \<in> K" unfolding entry_iff using k by (simp add: K pod_cgroups_def)
  qed
  have none: "?n k = 0" if "k \<in> K - pod_cgroups r B Q l" for k
  proof -
    have "\<not> unknown_id r k" using known_iff [OF known] that by (simp add: K)
    with that have "B k = None" "Q k = None" by (auto simp: K pod_cgroups_def)
    then show ?thesis using cgroup_total_none at(3,4) by metis
  qed
  have "columns B Q k ! i = of_nat (?n k)" for k
  proof -
    have "columns B Q k = columns (io_entries (S k)) (wait_entries (W k)) k"
      by (simp add: columns_def at(3,4))
    then show ?thesis by (simp only: columns_history [OF i] cgroup_total_def)
  qed
  then have "entries_total r B Q l i = of_nat (\<Sum>k \<in> pod_cgroups r B Q l. ?n k)"
    by (simp add: entries_total_def)
  also have "(\<Sum>k \<in> pod_cgroups r B Q l. ?n k) = (\<Sum>k \<in> K. ?n k)"
    by (rule sum.mono_neutral_left) (use dom none in \<open>auto simp: K\<close>)
  finally show ?thesis .
qed

lemma between_total:
  assumes seen: "seen_between (ss0, ws0) (ss1, ws1) B Q" and known: "all_known r ss1 ws1"
    and i: "i < 6" and small: "history_total r ss1 ws1 l i \<le> 2 ^ 53"
  shows "history_total r ss0 ws0 l i \<le> unat (entries_total r B Q l i)"
    and "unat (entries_total r B Q l i) \<le> history_total r ss1 ws1 l i"
proof -
  from seen obtain S W where at:
    "\<And>k. prefix ss0 (S k)" "\<And>k. prefix (S k) ss1" "\<And>k. prefix ws0 (W k)" "\<And>k. prefix (W k) ws1"
    "\<And>k. B k = io_entries (S k) k" "\<And>k. Q k = wait_entries (W k) k"
    unfolding seen_between_def fst_conv snd_conv by metis
  define K where "K = {k \<in> smp_cgroup ` set ss1 \<union> wait_cgroup ` set ws1. cgroup_labels r k = l}"
  define n where "n = (\<Sum>k \<in> K. cgroup_total (S k) (W k) k i)"
  have tot: "entries_total r B Q l i = of_nat n"
    unfolding n_def by (rule moments_total [OF at(2,4,5,6) known i K_def])
  have fin: "finite K" by (simp add: K_def)
  have sub: "set ss0 \<subseteq> set ss1" "set ws0 \<subseteq> set ws1"
    using at(1,2,3,4) by (meson prefix_order.trans set_mono_prefix)+
  have "history_total r ss0 ws0 l i = (\<Sum>k \<in> K. cgroup_total ss0 ws0 k i)"
    by (rule history_by_cgroup [OF fin]) (use sub in \<open>auto simp: K_def\<close>)
  moreover have "history_total r ss1 ws1 l i = (\<Sum>k \<in> K. cgroup_total ss1 ws1 k i)"
    by (rule history_by_cgroup [OF fin]) (auto simp: K_def)
  ultimately have le: "history_total r ss0 ws0 l i \<le> n" "n \<le> history_total r ss1 ws1 l i"
    unfolding n_def by (simp_all add: sum_mono cgroup_total_mono at)
  then have "unat (entries_total r B Q l i) = n" using small by (simp add: tot unat_of_nat)
  with le show "history_total r ss0 ws0 l i \<le> unat (entries_total r B Q l i)"
    and "unat (entries_total r B Q l i) \<le> history_total r ss1 ws1 l i" by simp_all
qed

lemma between_pods:
  assumes seen: "seen_between (ss0, ws0) (ss1, ws1) B Q" and known: "all_known r ss1 ws1"
  shows "seen_pod r ss0 ws0 l \<Longrightarrow> pod_cgroups r B Q l \<noteq> {}"
    and "pod_cgroups r B Q l \<noteq> {} \<Longrightarrow> seen_pod r ss1 ws1 l"
proof -
  have at: "\<exists>S W. prefix ss0 S \<and> prefix S ss1 \<and> prefix ws0 W \<and> prefix W ws1 \<and>
    B k = io_entries S k \<and> Q k = wait_entries W k" for k
    using seen by (simp add: seen_between_def)
  {
    assume "seen_pod r ss0 ws0 l"
    then obtain k where k: "cgroup_labels r k = l" "k \<in> smp_cgroup ` set ss0 \<union> wait_cgroup ` set ws0"
      unfolding seen_pod_def by blast
    obtain S W where SW: "prefix ss0 S" "prefix S ss1" "prefix ws0 W" "prefix W ws1"
      "B k = io_entries S k" "Q k = wait_entries W k" using at by metis
    from entry_grows [OF SW(1,3)] k(2) have there: "io_entries S k \<noteq> None \<or> wait_entries W k \<noteq> None"
      unfolding entry_iff by blast
    with entry_grows [OF SW(2,4)] have "\<not> unknown_id r k"
      using known_iff [OF known] unfolding entry_iff by blast
    with there k(1) have "k \<in> pod_cgroups r B Q l"
      by (simp only: pod_cgroups_def mem_Collect_eq Un_iff domIff SW(5,6)) simp
    then show "pod_cgroups r B Q l \<noteq> {}" by blast
  next
    assume "pod_cgroups r B Q l \<noteq> {}"
    then obtain k where k: "cgroup_labels r k = l" "B k \<noteq> None \<or> Q k \<noteq> None"
      by (auto simp: pod_cgroups_def)
    obtain S W where SW: "prefix S ss1" "prefix W ws1" "B k = io_entries S k" "Q k = wait_entries W k"
      using at by metis
    from entry_grows [OF SW(1,2)] k(2) have "k \<in> smp_cgroup ` set ss1 \<union> wait_cgroup ` set ws1"
      unfolding SW(3,4) entry_iff by blast
    with k(1) show "seen_pod r ss1 ws1 l" unfolding seen_pod_def by blast
  }
qed

section \<open>A tick on live maps\<close>

definition live_tick ::
  "('b, CgroupIOStats) map_ops \<Rightarrow> ('r, CgroupRunqStats) map_ops \<Rightarrow> (string list \<Rightarrow> string list) \<Rightarrow>
   'v counter_ops \<Rightarrow> 'g gauge_ops \<Rightarrow> cgroup_fs \<Rightarrow> ('b, 'r) meanwhile \<Rightarrow> ('b, 'r, 'v, 'g) collector \<Rightarrow>
   ('b, 'r, 'v, 'g) collector" where
  "live_tick bops rops rng vops gops fs mw st =
     (case (case cl_resolver st of
              Some r \<Rightarrow> Inr r
            | None \<Rightarrow> BuildCgroupResolver (fs_big_endian fs) (fs_handles fs) (fs_walk fs)) of
        Inl err \<Rightarrow> st
      | Inr r \<Rightarrow>
          let out = readStats_live bops rops mw (cl_block st) (cl_runq st) r
          in \<lparr>cl_resolver = (if unknown_seen out then None else Some r),
              cl_block = block_after out,
              cl_runq = runq_after out,
              cl_prom = (case result out of
                           Inl err \<Rightarrow> cl_prom st
                         | Inr rows \<Rightarrow> Update rng vops gops rows (cl_prom st))\<rparr>)"

lemma rows_unique:
  assumes "sorted_wrt (<) (map CgroupID xs)" and "sorted_wrt (<) (map CgroupID ys)" and "set xs = set ys"
  shows "xs = ys"
proof (rule map_sorted_distinct_set_unique)
  show "inj_on CgroupID (set xs \<union> set ys)"
    using assms by (simp add: strict_sorted_iff distinct_map)
qed (use assms in \<open>simp_all add: strict_sorted_iff\<close>)

text \<open>The same tick on maps that hold what was observed and do not change.\<close>

definition frozen :: "CgroupResolver \<Rightarrow> (u64 \<times> CgroupIOStats) list \<Rightarrow> (u64 \<times> CgroupRunqStats) list option \<Rightarrow>
  ('v, 'g) PromMetrics \<Rightarrow> ((u64 \<times> CgroupIOStats) list, (u64 \<times> CgroupRunqStats) list, 'v, 'g) collector" where
  "frozen r items ritems pm = \<lparr>cl_resolver = Some r, cl_block = items, cl_runq = ritems, cl_prom = pm\<rparr>"

lemma pinned_iterates: "snd (Iterate pinned m) = None" "runq_ok pinned rm"
  by (simp_all add: pinned_def runq_ok_def split: option.split)

lemma frozen_pass:
  assumes "\<forall>k \<in> dom (Entries pinned items) \<union> dom (runq_entries pinned ritems). \<not> unknown_id r k"
  shows "\<exists>rows. cl_prom (collector_pass pinned pinned rng vops gops fs (items, ritems) (frozen r items ritems pm)) =
      Update rng vops gops rows pm \<and> sorted_wrt (<) (map CgroupID rows) \<and>
      (\<forall>row. row \<in> set rows \<longleftrightarrow>
         expected_row r (Entries pinned items) (runq_entries pinned ritems) (CgroupID row) = Some row)"
proof -
  from coll.read_rows [OF pinned_iterates, of items ritems r] obtain rows where
    "result (readStats pinned pinned items ritems r) = Inr rows" "sorted_wrt (<) (map CgroupID rows)"
    "\<forall>row. row \<in> set rows \<longleftrightarrow>
       expected_row r (Entries pinned items) (runq_entries pinned ritems) (CgroupID row) = Some row" by blast
  then show ?thesis
    by (intro exI [of _ rows]) (simp add: collector_pass_def collector_tick_def frozen_def Let_def)
qed

lemma live_tick_frozen:
  assumes calm: "calm mw" and r: "cl_resolver st = Some r"
    and B: "observed (Entries bops) (mw_block_reads mw) (cl_block st) = Entries pinned items"
    and Q: "observed_runq rops mw (cl_runq st) = runq_entries pinned ritems"
    and known: "\<forall>k \<in> dom (Entries pinned items) \<union> dom (runq_entries pinned ritems). \<not> unknown_id r k"
    and st': "st' = live_tick bops rops rng vops gops fs mw st"
  shows "cl_resolver st' = Some r"
    and "cl_block st' = scanned_map (Entries bops) (mw_block_reads mw) (cl_block st)"
    and "cl_runq st' = map_option (scanned_map (Entries rops) (mw_runq_reads mw)) (cl_runq st)"
    and "cl_prom st' =
      cl_prom (collector_pass pinned pinned rng vops gops fs (items, ritems) (frozen r items ritems (cl_prom st)))"
proof -
  let ?out = "readStats_live bops rops mw (cl_block st) (cl_runq st) r"
  obtain s where ends: "pass_ends bops rops mw (cl_block st) (cl_runq st) r s
      (Entries pinned items) (runq_entries pinned ritems) ?out"
    using live_pass_ends [OF calm, of bops rops "cl_block st" "cl_runq st" r] unfolding B Q by blast
  obtain rows where rows: "result ?out = Inr rows" "sorted_wrt (<) (map CgroupID rows)"
    "\<And>row. row \<in> set rows \<longleftrightarrow>
      expected_row r (Entries pinned items) (runq_entries pinned ritems) (CgroupID row) = Some row"
    using pass_ends_rows [OF ends] by blast
  from ends known have out: "\<not> unknown_seen ?out"
    "block_after ?out = scanned_map (Entries bops) (mw_block_reads mw) (cl_block st)"
    "runq_after ?out = map_option (scanned_map (Entries rops) (mw_runq_reads mw)) (cl_runq st)"
    by (auto simp: pass_ends_def)
  have tick: "st' = \<lparr>cl_resolver = Some r, cl_block = block_after ?out, cl_runq = runq_after ?out,
      cl_prom = Update rng vops gops rows (cl_prom st)\<rparr>"
    using out(1) rows(1) r by (simp add: st' live_tick_def Let_def)
  obtain rows' where frozen: "cl_prom (collector_pass pinned pinned rng vops gops fs (items, ritems)
        (frozen r items ritems (cl_prom st))) = Update rng vops gops rows' (cl_prom st)"
    "sorted_wrt (<) (map CgroupID rows')"
    "\<And>row. row \<in> set rows' \<longleftrightarrow>
      expected_row r (Entries pinned items) (runq_entries pinned ritems) (CgroupID row) = Some row"
    using frozen_pass [OF known, of rng vops gops fs "cl_prom st"] by blast
  have "rows = rows'" by (rule rows_unique) (use rows frozen in blast)+
  with frozen(1) show "cl_prom st' = cl_prom (collector_pass pinned pinned rng vops gops fs (items, ritems)
      (frozen r items ritems (cl_prom st)))" by (simp add: tick)
  from out tick show "cl_resolver st' = Some r"
    and "cl_block st' = scanned_map (Entries bops) (mw_block_reads mw) (cl_block st)"
    and "cl_runq st' = map_option (scanned_map (Entries rops) (mw_runq_reads mw)) (cl_runq st)" by simp_all
qed

section \<open>Rounds without a pause\<close>

text \<open>
  What the kernel does from one pass to the next and while the pass reads the maps: the events before the
  iteration of each map, and those before each entry read, with the key read.
\<close>

record live_round =
  rd_fs :: cgroup_fs
  rd_block :: "block_event list"
  rd_block_scan :: "(block_event list \<times> u64) list"
  rd_runq :: "runq_event list"
  rd_runq_scan :: "(runq_event list \<times> u64) list"

type_synonym ('v, 'g) live_machine =
  "(((u64 \<times> start_val_t) list, (u64 \<times> cgroup_io_stats_t) list) block_state,
    ((runq_key_t \<times> u64) list, (u64 \<times> cgroup_runq_stats_t) list) runq_state, 'v, 'g) collector"

definition round_meanwhile :: "live_round \<Rightarrow>
  (((u64 \<times> start_val_t) list, (u64 \<times> cgroup_io_stats_t) list) block_state,
   ((runq_key_t \<times> u64) list, (u64 \<times> cgroup_runq_stats_t) list) runq_state) meanwhile" where
  "round_meanwhile rd =
     \<lparr>mw_block_reads = block_kernel.reads_of (rd_block_scan rd), mw_block_err = None,
      mw_block_deletes = (\<lambda>k m. m), mw_runq_reads = runq_kernel.reads_of (rd_runq_scan rd),
      mw_runq_err = None, mw_runq_deletes = (\<lambda>k m. m)\<rparr>"

definition live_step :: "(string list \<Rightarrow> string list) \<Rightarrow> 'v counter_ops \<Rightarrow> 'g gauge_ops \<Rightarrow> live_round \<Rightarrow>
  ('v, 'g) live_machine \<Rightarrow> ('v, 'g) live_machine" where
  "live_step rng vops gops rd st =
     live_tick live_block live_runq rng vops gops (rd_fs rd) (round_meanwhile rd)
       (st\<lparr>cl_block := block_run hash_block_maps (rd_block rd) (cl_block st),
           cl_runq := map_option (runq_run hash_runq_maps (rd_runq rd)) (cl_runq st)\<rparr>)"

definition live_start :: "CgroupResolver \<Rightarrow> 'v \<Rightarrow> 'g \<Rightarrow> ('v, 'g) live_machine" where
  "live_start r v g = \<lparr>cl_resolver = Some r, cl_block = block_init, cl_runq = Some runq_init,
     cl_prom = NewPromMetrics v g\<rparr>"

text \<open>The specifications of the two programs at the beginning and at the end of the pass of a round.\<close>

type_synonym past = "block_spec \<times> runq_spec"

definition pass_begins :: "live_round \<Rightarrow> past \<Rightarrow> past" where
  "pass_begins rd p = (fold spec_step (rd_block rd) (fst p), fold runq_spec_step (rd_runq rd) (snd p))"

definition pass_over :: "live_round \<Rightarrow> past \<Rightarrow> past" where
  "pass_over rd p =
     (fold spec_step (block_kernel.events_of (rd_block_scan rd)) (fst (pass_begins rd p)),
      fold runq_spec_step (runq_kernel.events_of (rd_runq_scan rd)) (snd (pass_begins rd p)))"

abbreviation past_of :: "live_round list \<Rightarrow> past" where
  "past_of rounds \<equiv> fold pass_over rounds ((Map.empty, []), (Map.empty, []))"

text \<open>The maps do not overflow and each iteration reads every key that was there when it began.\<close>

definition live_fits :: "live_round \<Rightarrow> past \<Rightarrow> bool" where
  "live_fits rd p \<longleftrightarrow>
     fits (rd_block rd @ block_kernel.events_of (rd_block_scan rd)) (fst p) \<and>
     runq_fits (rd_runq rd @ runq_kernel.events_of (rd_runq_scan rd)) (snd p) \<and>
     smp_cgroup ` set (snd (fst (pass_begins rd p))) \<subseteq> snd ` set (rd_block_scan rd) \<and>
     wait_cgroup ` set (snd (snd (pass_begins rd p))) \<subseteq> snd ` set (rd_runq_scan rd)"

fun all_fit :: "live_round list \<Rightarrow> past \<Rightarrow> bool" where
  "all_fit [] p = True"
| "all_fit (rd # rds) p = (live_fits rd p \<and> all_fit rds (pass_over rd p))"

lemma all_fit_snoc: "all_fit (rds @ [rd]) p \<longleftrightarrow> all_fit rds p \<and> live_fits rd (fold pass_over rds p)"
  by (induction rds arbitrary: p) simp_all

abbreviation happened :: "past \<Rightarrow> io_sample list \<times> wait_sample list" where
  "happened p \<equiv> (snd (fst p), snd (snd p))"

sublocale kernel_exporter \<subseteq> fz: exporter pinned pinned vops gops rng
  by unfold_locales

section \<open>The machine after any number of rounds\<close>

lemma begins_grow:
  "prefix (snd (fst p)) (snd (fst (pass_begins rd p)))" "prefix (snd (snd p)) (snd (snd (pass_begins rd p)))"
  "prefix (snd (fst (pass_begins rd p))) (snd (fst (pass_over rd p)))"
  "prefix (snd (snd (pass_begins rd p))) (snd (snd (pass_over rd p)))"
  by (simp_all add: pass_begins_def pass_over_def block_kernel.hist_grows runq_kernel.hist_grows)

lemma history_mono:
  "prefix ss ss' \<Longrightarrow> prefix ws ws' \<Longrightarrow> history_total r ss ws l i \<le> history_total r ss' ws' l i"
  by (auto simp: prefix_def history_total_append)

lemma known_mono: "prefix ss ss' \<Longrightarrow> prefix ws ws' \<Longrightarrow> all_known r ss' ws' \<Longrightarrow> all_known r ss ws"
  by (auto simp: prefix_def all_known_def)

lemma countable_mono:
  "prefix ss ss' \<Longrightarrow> prefix ws ws' \<Longrightarrow> countable_history r ss' ws' \<Longrightarrow> countable_history r ss ws"
  unfolding countable_history_def using history_mono le_trans by meson

lemma pass_grows:
  "prefix (snd (fst p)) (snd (fst (pass_over rd p)))" "prefix (snd (snd p)) (snd (snd (pass_over rd p)))"
  by (rule prefix_order.trans [OF begins_grow(1,3)], rule prefix_order.trans [OF begins_grow(2,4)])

text \<open>What the pass of a round observes.\<close>

lemma round_observes:
  assumes b: "block_refines hash_block_maps bs (fst p)" and q: "runq_refines hash_runq_maps rs (snd p)"
    and fit: "live_fits rd p"
  defines "bs' \<equiv> block_run hash_block_maps (rd_block rd) bs" and "rs' \<equiv> runq_run hash_runq_maps (rd_runq rd) rs"
  defines "breads \<equiv> block_kernel.reads_of (rd_block_scan rd)" and "qreads \<equiv> runq_kernel.reads_of (rd_runq_scan rd)"
  shows "seen_between (happened (pass_begins rd p)) (happened (pass_over rd p))
      (observed (Entries live_block) breads bs') (observed (Entries live_runq) qreads rs')"
    and "block_refines hash_block_maps (scanned_map (Entries live_block) breads bs') (fst (pass_over rd p))"
    and "runq_refines hash_runq_maps (scanned_map (Entries live_runq) qreads rs') (snd (pass_over rd p))"
proof -
  have bf: "fits (rd_block rd) (fst p)" "fits (block_kernel.events_of (rd_block_scan rd)) (fst (pass_begins rd p))"
    and qf: "runq_fits (rd_runq rd) (snd p)" "runq_fits (runq_kernel.events_of (rd_runq_scan rd)) (snd (pass_begins rd p))"
    using fit by (simp_all add: live_fits_def fits_append runq_fits_append pass_begins_def)
  have b': "block_refines hash_block_maps bs' (fst (pass_begins rd p))"
    using block_kernel.rel_run [OF b bf(1)] by (simp add: bs'_def pass_begins_def)
  have q': "runq_refines hash_runq_maps rs' (snd (pass_begins rd p))"
    using runq_kernel.rel_run [OF q qf(1)] by (simp add: rs'_def pass_begins_def)
  have "block_kernel.complete bs' (rd_block_scan rd)"
    using fit unfolding block_kernel.complete_def block_kernel.rel_ent [OF b'] dom_io_entries live_fits_def by blast
  note bm = block_kernel.observed_moment [OF b' bf(2) this]
  have "runq_kernel.complete rs' (rd_runq_scan rd)"
    using fit unfolding runq_kernel.complete_def runq_kernel.rel_ent [OF q'] dom_wait_entries live_fits_def by blast
  note qm = runq_kernel.observed_moment [OF q' qf(2) this]
  show "seen_between (happened (pass_begins rd p)) (happened (pass_over rd p))
      (observed (Entries live_block) breads bs') (observed (Entries live_runq) qreads rs')"
    unfolding seen_between_def breads_def qreads_def using bm qm by (simp add: pass_over_def) meson
  show "block_refines hash_block_maps (scanned_map (Entries live_block) breads bs') (fst (pass_over rd p))"
    unfolding breads_def using block_kernel.scan_moments(1) [OF b' bf(2)] by (simp add: pass_over_def)
  show "runq_refines hash_runq_maps (scanned_map (Entries live_runq) qreads rs') (snd (pass_over rd p))"
    unfolding qreads_def using runq_kernel.scan_moments(1) [OF q' qf(2)] by (simp add: pass_over_def)
qed

lemma between_known:
  assumes "seen_between h0 (ss1, ws1) B Q" and "all_known r ss1 ws1" and "k \<in> dom B \<union> dom Q"
  shows "\<not> unknown_id r k"
proof -
  obtain S W where SW: "prefix S ss1" "prefix W ws1" "B k = io_entries S k" "Q k = wait_entries W k"
    using assms(1) unfolding seen_between_def by fastforce
  have "io_entries S k \<noteq> None \<or> wait_entries W k \<noteq> None" using assms(3) SW(3,4) by auto
  from entry_grows [OF SW(1,2) this] show ?thesis using known_iff [OF assms(2)] unfolding entry_iff by blast
qed

lemmas pass_order = begins_grow(1,2) begins_grow(3,4)

text \<open>From one pass to the next no total shrinks.\<close>

lemma between_grow:
  assumes old: "seen_between h0 (ss, ws) B0 Q0" and new: "seen_between (ss', ws') (ss1, ws1) B Q"
    and p: "prefix ss ss'" "prefix ws ws'" "prefix ss' ss1" "prefix ws' ws1"
    and known: "all_known r ss1 ws1" and count: "countable_history r ss1 ws1" and i: "i < 6"
  shows "entries_total r B0 Q0 l i \<le> entries_total r B Q l i"
    and "unat (entries_total r B Q l i) \<le> 2 ^ 53"
proof -
  have q: "prefix ss ss1" "prefix ws ws1" using p by (meson prefix_order.trans)+
  have le: "history_total r ss1 ws1 l i \<le> 2 ^ 53" "history_total r ss ws l i \<le> 2 ^ 53"
    using count countable_mono [OF q count] i by (simp_all add: countable_history_def)
  obtain ss0 ws0 where h0: "h0 = (ss0, ws0)" by (cases h0)
  note lower = between_total(1) [OF new known i le(1)] and upper = between_total(2) [OF new known i le(1)]
  have "unat (entries_total r B0 Q0 l i) \<le> history_total r ss ws l i"
    by (rule between_total(2) [OF old [unfolded h0] known_mono [OF q known] i le(2)])
  also have "\<dots> \<le> history_total r ss' ws' l i" by (rule history_mono [OF p(1,2)])
  also note lower
  finally show "entries_total r B0 Q0 l i \<le> entries_total r B Q l i" by (simp add: word_le_nat_alt)
  show "unat (entries_total r B Q l i) \<le> 2 ^ 53" using upper le(1) by (rule le_trans)
qed

context kernel_exporter begin

definition live_inv :: "CgroupResolver \<Rightarrow> io_sample list \<times> wait_sample list \<Rightarrow> past \<Rightarrow> ('v, 'g) live_machine \<Rightarrow> bool" where
  "live_inv r h0 p st \<longleftrightarrow>
     block_refines hash_block_maps (cl_block st) (fst p) \<and>
     (\<exists>rs. cl_runq st = Some rs \<and> runq_refines hash_runq_maps rs (snd p)) \<and>
     cl_resolver st = Some r \<and>
     (\<exists>items ritems. fz.shows_entries r (items, ritems) (cl_prom st) \<and>
        seen_between h0 (happened p) (Entries pinned items) (runq_entries pinned ritems))"

lemma live_step_inv:
  assumes inv: "live_inv r h0 p st" and fit: "live_fits rd p"
    and known: "all_known r (snd (fst (pass_over rd p))) (snd (snd (pass_over rd p)))"
    and count: "countable_history r (snd (fst (pass_over rd p))) (snd (snd (pass_over rd p)))"
  shows "live_inv r (happened (pass_begins rd p)) (pass_over rd p) (live_step rng vops gops rd st)"
proof -
  from inv obtain rs items0 ritems0 where b: "block_refines hash_block_maps (cl_block st) (fst p)"
    and q: "cl_runq st = Some rs" "runq_refines hash_runq_maps rs (snd p)" and r: "cl_resolver st = Some r"
    and shown: "fz.shows_entries r (items0, ritems0) (cl_prom st)"
    and old: "seen_between h0 (happened p) (Entries pinned items0) (runq_entries pinned ritems0)"
    by (auto simp: live_inv_def)
  let ?mw = "round_meanwhile rd"
  let ?st = "st\<lparr>cl_block := block_run hash_block_maps (rd_block rd) (cl_block st),
    cl_runq := map_option (runq_run hash_runq_maps (rd_runq rd)) (cl_runq st)\<rparr>"
  let ?st' = "live_step rng vops gops rd st"
  define items where "items = rev (fst (live_scan (Entries live_block) (mw_block_reads ?mw) (cl_block ?st)))"
  define ritems where "ritems =
    rev (fst (live_scan (Entries live_runq) (mw_runq_reads ?mw) (runq_run hash_runq_maps (rd_runq rd) rs)))"
  have obs: "observed (Entries live_block) (mw_block_reads ?mw) (cl_block ?st) = Entries pinned items"
    "observed_runq live_runq ?mw (cl_runq ?st) = runq_entries pinned (Some ritems)"
    using q(1) by (simp_all add: items_def ritems_def observed_def observed_runq_def pinned_def runq_entries_def)
  note round = round_observes [OF b q(2) fit]
  have new: "seen_between (happened (pass_begins rd p)) (happened (pass_over rd p))
      (Entries pinned items) (runq_entries pinned (Some ritems))"
    using round(1) obs q(1) by (simp add: round_meanwhile_def observed_runq_def)
  have all: "\<forall>k \<in> dom (Entries pinned items) \<union> dom (runq_entries pinned (Some ritems)). \<not> unknown_id r k"
    using between_known [OF new known] by blast
  have calm: "calm ?mw" by (simp add: calm_def round_meanwhile_def)
  have r': "cl_resolver ?st = Some r" using r by simp
  note tick = live_tick_frozen [OF calm r' obs all live_step_def]
  have quiet: "fz.quiet r (items, Some ritems)"
    unfolding fz.quiet_def fst_conv snd_conv using all pinned_iterates by blast
  note totals = between_grow [OF old new pass_order(1,2) pass_order(3,4) known count]
  have "fz.shows_entries r (items, Some ritems) (cl_prom ?st')"
    unfolding tick(4) by (rule fz.quiet_pass(2) [OF quiet, where old = "(items0, ritems0)"])
      (use shown totals in \<open>simp_all add: frozen_def\<close>)
  with new round(2,3) tick q(1) show ?thesis
    by (auto simp: live_inv_def round_meanwhile_def)
qed

lemma live_start_inv:
  assumes "CounterSample vops v = Map.empty"
  shows "live_inv r ([], []) ((Map.empty, []), (Map.empty, [])) (live_start r v g)"
proof -
  have "fz.shows_entries r ([], Some []) (NewPromMetrics v g)"
    by (rule fz.nothing_shown [OF assms]) (simp_all add: pinned_def runq_entries_def)
  moreover have "seen_between ([], []) ([], []) (Entries pinned []) (runq_entries pinned (Some []))"
    by (simp add: seen_between_def pinned_def runq_entries_def io_entries_def wait_entries_def
        stats_of_def runq_stats_of_def samples_of_def waits_of_def)
  ultimately show ?thesis
    using block_init_empty runq_init_empty
    by (auto simp: live_inv_def live_start_def refines_empty runq_refines_empty)
qed

lemma live_rounds_inv:
  assumes "CounterSample vops v = Map.empty"
  shows "all_fit rounds ((Map.empty, []), (Map.empty, [])) \<Longrightarrow>
    all_known r (snd (fst (past_of rounds))) (snd (snd (past_of rounds))) \<Longrightarrow>
    countable_history r (snd (fst (past_of rounds))) (snd (snd (past_of rounds))) \<Longrightarrow>
    live_inv r (if rounds = [] then ([], []) else happened (pass_begins (last rounds) (past_of (butlast rounds))))
      (past_of rounds) (fold (live_step rng vops gops) rounds (live_start r v g))"
proof (induction rounds rule: rev_induct)
  case Nil
  show ?case using live_start_inv [OF assms] by simp
next
  case (snoc rd rounds)
  let ?p = "past_of rounds"
  have fit: "all_fit rounds ((Map.empty, []), (Map.empty, []))" "live_fits rd ?p"
    using snoc.prems(1) by (simp_all add: all_fit_snoc)
  have over: "past_of (rounds @ [rd]) = pass_over rd ?p" by simp
  note later = snoc.prems(2,3) [unfolded over]
  note inv = snoc.IH [OF fit(1) known_mono [OF pass_grows later(1)] countable_mono [OF pass_grows later(2)]]
  show ?case using live_step_inv [OF inv fit(2) later] by simp
qed

lemma live_sample:
  assumes inv: "live_inv r h0 p st" and known: "all_known r (snd (fst p)) (snd (snd p))"
    and count: "countable_history r (snd (fst p)) (snd (snd p))" and i: "i < 6"
  shows "case sample i (cl_prom st) l of
      None \<Rightarrow> \<not> seen_pod r (fst h0) (snd h0) l
    | Some n \<Rightarrow> seen_pod r (snd (fst p)) (snd (snd p)) l \<and> history_total r (fst h0) (snd h0) l i \<le> n \<and>
        n \<le> history_total r (snd (fst p)) (snd (snd p)) l i"
proof -
  obtain ss0 ws0 where h0: "h0 = (ss0, ws0)" by (cases h0)
  from inv obtain items ritems where shown: "fz.shows_entries r (items, ritems) (cl_prom st)"
    and seen: "seen_between (ss0, ws0) (happened p) (Entries pinned items) (runq_entries pinned ritems)"
    by (auto simp: live_inv_def h0)
  have small: "history_total r (snd (fst p)) (snd (snd p)) l i \<le> 2 ^ 53"
    using count i by (simp add: countable_history_def)
  note tot = between_total [OF seen known i small] and pods = between_pods [OF seen known, of l]
  show ?thesis
    using fz.shows_entries_sample [OF shown i, of l] tot pods by (auto simp: h0 split: if_splits)
qed

end

section \<open>Properties\<close>

text \<open>
  C29: what Prometheus scrapes from a machine that never pauses. Block and scheduler events happen
  between the passes of the collector and, during a pass, before every single entry it reads. As long as
  the resolver knows every cgroup, no map overflows, every iteration reads the keys that were there when
  it began and no total exceeds \<open>2^53\<close>, after each pass each of the six counters of a pod lies between
  what had happened to the pod when that pass began to read and what had happened when it had ended,
  a pod seen before the pass has its series, and a series is that of a pod seen by its end.
\<close>

theorem scraped_between_histories:
  assumes "prom_vecs vops gops rng" and "CounterSample vops v = Map.empty"
    and "all_fit (rounds @ [rd]) ((Map.empty, []), (Map.empty, []))"
    and "e = happened (past_of (rounds @ [rd]))" and "b = happened (pass_begins rd (past_of rounds))"
    and "all_known r (fst e) (snd e)" and "countable_history r (fst e) (snd e)" and "i < 6"
  shows "case CounterSample vops (pm_vecs (cl_prom
        (fold (live_step rng vops gops) (rounds @ [rd]) (live_start r v g))) ! i) l of
      None \<Rightarrow> \<not> seen_pod r (fst b) (snd b) l
    | Some n \<Rightarrow> seen_pod r (fst e) (snd e) l \<and>
        history_total r (fst b) (snd b) l i \<le> n \<and> n \<le> history_total r (fst e) (snd e) l i"
proof -
  have ctx: "kernel_exporter vops gops rng" using assms(1) by (simp add: kernel_exporter_def)
  let ?p = "past_of (rounds @ [rd])"
  have known: "all_known r (snd (fst ?p)) (snd (snd ?p))" and count: "countable_history r (snd (fst ?p)) (snd (snd ?p))"
    using assms(4,6,7) by simp_all
  have "kernel_exporter.live_inv vops r b ?p (fold (live_step rng vops gops) (rounds @ [rd]) (live_start r v g))"
    using kernel_exporter.live_rounds_inv [OF ctx assms(2,3) known count] assms(5) by simp
  from kernel_exporter.live_sample [OF ctx this known count assms(8)]
  show ?thesis unfolding assms(4) fst_conv snd_conv .
qed

text \<open>
  One round: a request of cgroup 7 has completed and tasks have run before the pass, another request
  completes while the pass is about to read the entry of cgroup 7.
\<close>

definition busy_round :: live_round where
  "busy_round =
     \<lparr>rd_fs = demo_fs,
      rd_block = [Issue demo_env 100 7 1, Complete 170 1 5 4096, Issue demo_env 180 7 2],
      rd_block_scan = [([Complete 200 2 0 4096], 7)],
      rd_runq = demo_sched, rd_runq_scan = [([], 7)]\<rparr>"

lemma busy_begins:
  "happened (pass_begins busy_round (past_of [])) =
     ([Sample 7 70 4096 5], [Waited 7 30, Waited 7 15])"
  by (simp add: busy_round_def pass_begins_def demo_sched_simps sample_of_def issue_val_def demo_env_def)

lemma busy_ends:
  "happened (past_of ([] @ [busy_round])) = ([Sample 7 70 4096 5, Sample 7 20 4096 0], [Waited 7 30, Waited 7 15])"
  by (simp add: busy_round_def pass_over_def pass_begins_def demo_sched_simps sample_of_def issue_val_def
      demo_env_def)

lemma busy_fits: "all_fit ([] @ [busy_round]) ((Map.empty, []), (Map.empty, []))"
  using demo_sched_fits busy_begins
  by (auto simp: live_fits_def)
    (simp_all add: busy_round_def start_map_entries_def stats_by_cgroup_entries_def samples_of_def
      sample_of_def issue_val_def demo_env_def)

theorem scraped_between_histories_witness:
  "\<exists>n. CounterSample map_counters (pm_vecs (cl_prom
      (fold (live_step rev map_counters map_gauges) ([] @ [busy_round])
         (live_start pod_resolver Map.empty Map.empty))) ! 0) (cgroup_labels pod_resolver 7) = Some n \<and>
     1 \<le> n \<and> n \<le> 2"
proof -
  let ?e = "happened (past_of ([] @ [busy_round]))"
  have known: "all_known pod_resolver (fst ?e) (snd ?e)"
    unfolding busy_ends by (simp add: all_known_def pod_resolver_def unknown_id_def Resolve_def unknown_path_def)
  have count: "countable_history pod_resolver (fst ?e) (snd ?e)"
    unfolding countable_history_def
  proof (intro allI impI)
    fix l i assume "i < (6 :: nat)"
    from six [OF this] show "history_total pod_resolver (fst ?e) (snd ?e) l i \<le> 2 ^ 53"
      unfolding busy_ends by (elim disjE) (simp_all add: history_total_def io_columns_def wait_columns_def)
  qed
  have "0 < (6 :: nat)" by simp
  note main = scraped_between_histories [OF prom.prom_vecs_axioms fresh_maps(1) busy_fits HOL.refl
      HOL.refl known count this, where g = Map.empty and l = "cgroup_labels pod_resolver 7"]
  then show ?thesis
    unfolding busy_ends busy_begins fst_conv snd_conv
    by (auto simp: seen_pod_def history_total_def io_columns_def wait_columns_def split: option.splits)
qed

end
