(* ===== verification/CounterLedger.thy ===== *)
theory CounterLedger
  imports CollectorRun
begin

text \<open>
  \<open>collector/main.go\<close> and \<open>prom_metrics.go\<close>: what the counters read after any sequence of ticks. Cgroups come
  and go between the ticks, entries appear, shrink and disappear, the resolver is forgotten and built
  anew, iterations fail. A counter is then no longer the total of its pod: it is the total plus what every
  shrinking of the total has left behind.
\<close>

section \<open>Any passes\<close>

text \<open>
  The totals lost by a series that exists now, over the passes so far, the last pass first: the total
  before each pass in which it shrank, as far back as the pod was seen without a break.
\<close>

fun lost :: "nat \<Rightarrow> Labels \<Rightarrow> Row list list \<Rightarrow> nat" where
  "lost i l (rows # old # older) =
     (if l \<in> row_labels ` set old
      then (if pod_total rows (key_of l) i < pod_total old (key_of l) i
            then unat (pod_total old (key_of l) i) else 0) + lost i l (old # older)
      else 0)"
| "lost i l older = 0"

definition ledger :: "nat \<Rightarrow> Labels \<Rightarrow> Row list list \<Rightarrow> nat" where
  "ledger i l passes = unat (pod_total (hd passes) (key_of l) i) + lost i l passes"

lemma deltaFloat_grown:
  assumes "unat a \<le> 2 ^ 53"
  shows "deltaFloat a p + unat p = unat a + (if a < p then unat p else 0)"
proof (cases "a < p")
  case True
  then show ?thesis using assms by (simp add: deltaFloat_def float64_exact)
next
  case False
  then have "unat p \<le> unat a" by (simp add: not_less word_le_nat_alt)
  then show ?thesis using False assms deltaFloat_exact [of p a] by simp
qed

context prom_vecs
begin

definition remembers :: "Row list \<Rightarrow> ('v, 'g) PromMetrics \<Rightarrow> bool" where
  "remembers rows pm \<longleftrightarrow> map_of (prev pm) = map_of (fst (aggregate_rows rows)) \<and>
     (\<forall>i < 6. \<forall>l. sample i pm l \<noteq> None \<longleftrightarrow> l \<in> row_labels ` set rows)"

lemma remembers_new: "CounterSample vops v = Map.empty \<Longrightarrow> remembers [] (NewPromMetrics v g)"
  using new_in_step [of v g] by (simp add: in_step_def remembers_def)

lemma remembers_keys: "remembers rows pm \<Longrightarrow> \<forall>k \<in> dom (map_of (prev pm)). \<exists>l. valid_labels l \<and> k = key_of l"
proof
  fix k assume "remembers rows pm" "k \<in> dom (map_of (prev pm))"
  then have "k \<in> row_key ` set rows" using cur_dom [of rows k] by (auto simp: remembers_def)
  then show "\<exists>l. valid_labels l \<and> k = key_of l" using row_labels_valid by (auto simp: row_key_def)
qed

lemma remembers_update:
  assumes mem: "remembers old pm" and i: "i < 6"
  shows "if l \<in> row_labels ` set rows
     then raised (sample i pm l) (deltaFloat (pod_total rows (key_of l) i) (pod_total old (key_of l) i))
            (sample i (Update rng vops gops rows pm) l)
     else sample i (Update rng vops gops rows pm) l = None"
proof -
  have prev: "agg_list (agg_or_zero (prev pm) (key_of l)) ! i = pod_total old (key_of l) i"
    using mem agg_pod_total [OF i, of old "key_of l"] by (simp add: remembers_def agg_or_zero_def)
  have p: "map_of (prev pm) (key_of l) \<noteq> None \<longleftrightarrow> key_of l \<in> row_key ` set old"
    using mem cur_dom [of old "key_of l"] by (simp add: remembers_def)
  have s: "sample i pm l \<noteq> None \<longleftrightarrow> l \<in> row_labels ` set old" using mem i by (simp add: remembers_def)
  then have "valid_labels l \<and> map_of (prev pm) (key_of l) \<noteq> None" if "sample i pm l \<noteq> None"
    using that key_in_rows [of l old] row_labels_valid p by auto
  then show ?thesis
    using update_series(1) [OF remembers_keys [OF mem] i HOL.refl HOL.refl, of l rows]
    unfolding agg_pod_total [OF i] prev by (cases "sample i pm l") auto
qed

lemma remembers_step: "remembers old pm \<Longrightarrow> remembers rows (Update rng vops gops rows pm)"
proof -
  assume mem: "remembers old pm"
  have "map_of (prev (Update rng vops gops rows pm)) = map_of (fst (aggregate_rows rows))"
    by (rule update_series(3) [OF remembers_keys [OF mem] _ HOL.refl HOL.refl, of 0]) simp
  moreover have "sample i (Update rng vops gops rows pm) l \<noteq> None \<longleftrightarrow> l \<in> row_labels ` set rows"
    if "i < 6" for i l
    using remembers_update [OF mem that, of l rows] by (auto simp: raised_def split: if_splits option.splits)
  ultimately show ?thesis by (simp add: remembers_def)
qed

text \<open>After any passes.\<close>

lemma passes_ledger:
  assumes new: "CounterSample vops v = Map.empty"
  shows "remembers (case passes of [] \<Rightarrow> [] | rows # _ \<Rightarrow> rows) (foldr (Update rng vops gops) passes (NewPromMetrics v g)) \<and>
    (i < 6 \<longrightarrow> passes \<noteq> [] \<longrightarrow> l \<in> row_labels ` set (hd passes) \<longrightarrow> ledger i l passes \<le> 2 ^ 53 \<longrightarrow>
       sample i (foldr (Update rng vops gops) passes (NewPromMetrics v g)) l = Some (ledger i l passes))"
proof (induction passes)
  case Nil
  then show ?case using remembers_new [OF new] by simp
next
  case (Cons rows older)
  let ?old = "case older of [] \<Rightarrow> [] | rows # _ \<Rightarrow> rows"
  let ?pm = "foldr (Update rng vops gops) older (NewPromMetrics v g)"
  let ?t = "pod_total rows (key_of l) i" and ?p = "pod_total ?old (key_of l) i"
  have mem: "remembers ?old ?pm" using Cons.IH by blast
  have "sample i (Update rng vops gops rows ?pm) l = Some (ledger i l (rows # older))"
    if i: "i < 6" and l: "l \<in> row_labels ` set rows" and small: "ledger i l (rows # older) \<le> 2 ^ 53"
  proof -
    have up: "raised (sample i ?pm l) (deltaFloat ?t ?p) (sample i (Update rng vops gops rows ?pm) l)"
      using remembers_update [OF mem i, of l rows] l by simp
    have "unat ?t \<le> 2 ^ 53" using small by (simp add: ledger_def)
    note grown = deltaFloat_grown [OF this, of ?p]
    show ?thesis
    proof (cases "l \<in> row_labels ` set ?old")
      case False
      then have "?p = 0" using pod_total_none [of l ?old i] row_labels_valid l by blast
      moreover have "sample i ?pm l = None" using mem i False unfolding remembers_def by blast
      moreover have "lost i l (rows # older) = 0" using False by (cases older) auto
      ultimately show ?thesis using up grown small by (auto simp: ledger_def dest!: raised_exact)
    next
      case True
      then obtain old rest where older: "older = old # rest" by (cases older) auto
      have led: "ledger i l (rows # older) = deltaFloat ?t ?p + ledger i l older"
        using True grown by (simp add: ledger_def older)
      then have "sample i ?pm l = Some (ledger i l older)" using Cons.IH True i small by (simp add: older)
      then show ?thesis using up led small by (auto dest!: raised_exact)
    qed
  qed
  then show ?case using remembers_step [OF mem, of rows] by simp
qed

end

section \<open>Any ticks\<close>

text \<open>
  What a pass over the maps sees: the resolver it works with and the entries. A pass whose iteration fails
  publishes nothing; every pass tells the next one whether to build the resolver anew.
\<close>

type_synonym view = "CgroupResolver \<times> (u64 \<rightharpoonup> CgroupIOStats) \<times> (u64 \<rightharpoonup> CgroupRunqStats)"

definition resolver_at :: "cgroup_fs \<Rightarrow> CgroupResolver option \<Rightarrow> CgroupResolver" where
  "resolver_at fs res =
     (case res of
        Some r \<Rightarrow> r
      | None \<Rightarrow> snd (WalkDir (walk_fn (fs_big_endian fs) (fs_handles fs)) (fs_walk fs) \<lparr>ByID = Map.empty\<rparr>))"

definition view_step ::
  "('b, CgroupIOStats) map_ops \<Rightarrow> ('r, CgroupRunqStats) map_ops \<Rightarrow> cgroup_fs \<times> 'b \<times> 'r option \<Rightarrow>
   CgroupResolver option \<times> view list \<Rightarrow> CgroupResolver option \<times> view list" where
  "view_step bops rops tick past =
     (let r = resolver_at (fst tick) (fst past); maps = snd tick
      in (if unknown_seen (readStats bops rops (fst maps) (snd maps) r) then None else Some r,
          if snd (Iterate bops (fst maps)) = None \<and> runq_ok rops (snd maps)
          then (r, Entries bops (fst maps), runq_entries rops (snd maps)) # snd past else snd past))"

text \<open>The views of the passes that published, the last one first.\<close>

definition views ::
  "('b, CgroupIOStats) map_ops \<Rightarrow> ('r, CgroupRunqStats) map_ops \<Rightarrow> CgroupResolver option \<Rightarrow>
   (cgroup_fs \<times> 'b \<times> 'r option) list \<Rightarrow> view list" where
  "views bops rops res ticks = snd (fold (view_step bops rops) ticks (res, []))"

definition view_pod :: "Labels \<Rightarrow> view \<Rightarrow> bool" where
  "view_pod l v = (case v of (r, B, Q) \<Rightarrow> pod_cgroups r B Q l \<noteq> {})"

definition view_total :: "nat \<Rightarrow> Labels \<Rightarrow> view \<Rightarrow> u64" where
  "view_total i l v = (case v of (r, B, Q) \<Rightarrow> entries_total r B Q l i)"

fun view_lost :: "nat \<Rightarrow> Labels \<Rightarrow> view list \<Rightarrow> nat" where
  "view_lost i l (v # old # older) =
     (if view_pod l old
      then (if view_total i l v < view_total i l old then unat (view_total i l old) else 0) +
           view_lost i l (old # older)
      else 0)"
| "view_lost i l older = 0"

text \<open>The rows a pass makes of a view.\<close>

definition rows_of :: "view \<Rightarrow> Row list \<Rightarrow> bool" where
  "rows_of v rows = (case v of (r, B, Q) \<Rightarrow> sorted_wrt (<) (map CgroupID rows) \<and>
     (\<forall>row. row \<in> set rows \<longleftrightarrow> expected_row r B Q (CgroupID row) = Some row))"

lemma rows_of_pod: "rows_of v rows \<Longrightarrow> l \<in> row_labels ` set rows \<longleftrightarrow> view_pod l v"
  using rows_totals(1) [of rows _ _ _ l] by (auto simp: rows_of_def view_pod_def split: prod.splits)

lemma rows_of_total: "rows_of v rows \<Longrightarrow> valid_labels l \<Longrightarrow> pod_total rows (key_of l) i = view_total i l v"
  using rows_totals(2) [of rows _ _ _ l i] by (auto simp: rows_of_def view_total_def split: prod.splits)

lemma rows_of_lost:
  "list_all2 rows_of vs passes \<Longrightarrow> valid_labels l \<Longrightarrow> lost i l passes = view_lost i l vs"
proof (induction vs passes rule: list_all2_induct)
  case (Cons v vs rows passes)
  show ?case
  proof (cases vs)
    case (Cons old older)
    then obtain p ps where "passes = p # ps" "rows_of old p" using Cons.hyps by (auto simp: list_all2_Cons1)
    with Cons Cons.IH Cons.hyps Cons.prems show ?thesis
      by (simp add: rows_of_pod [of old p] rows_of_total [of old p] rows_of_total [of v rows])
  qed (use Cons.hyps in simp)
qed simp

context exporter
begin

abbreviation tick :: "cgroup_fs \<times> 'b \<times> 'r option \<Rightarrow> ('b, 'r, 'v, 'g) collector \<Rightarrow> ('b, 'r, 'v, 'g) collector" where
  "tick t \<equiv> collector_pass bops rops rng vops gops (fst t) (snd t)"

text \<open>The rows published by the ticks are those of their views.\<close>

lemma tick_publishes:
  assumes "st' = tick t st" and "past = (cl_resolver st, vs)"
  shows "cl_resolver st' = fst (view_step bops rops t past)"
    and "(snd (view_step bops rops t past) = vs \<and> cl_prom st' = cl_prom st) \<or>
      (\<exists>v rows. snd (view_step bops rops t past) = v # vs \<and> rows_of v rows \<and>
         cl_prom st' = Update rng vops gops rows (cl_prom st))"
proof -
  obtain fs maps where t: "t = (fs, maps)" by (cases t)
  let ?r = "resolver_at fs (cl_resolver st)"
  let ?out = "readStats bops rops (fst maps) (snd maps) ?r"
  have r: "tick_resolver fs (st\<lparr>cl_block := b, cl_runq := q\<rparr>) = ?r" for b q
    by (simp add: tick_resolver_def resolver_at_def)
  have st': "st' = \<lparr>cl_resolver = (if unknown_seen ?out then None else Some ?r), cl_block = block_after ?out,
      cl_runq = runq_after ?out, cl_prom = (case result ?out of Inl err \<Rightarrow> cl_prom st
        | Inr rows \<Rightarrow> Update rng vops gops rows (cl_prom st))\<rparr>"
    unfolding assms(1) t by (simp add: collector_pass_def tick_eq r Let_def split: sum.split)
  show "cl_resolver st' = fst (view_step bops rops t past)" by (simp add: st' view_step_def t assms(2) Let_def)
  show "(snd (view_step bops rops t past) = vs \<and> cl_prom st' = cl_prom st) \<or>
      (\<exists>v rows. snd (view_step bops rops t past) = v # vs \<and> rows_of v rows \<and>
         cl_prom st' = Update rng vops gops rows (cl_prom st))"
  proof (cases "snd (Iterate bops (fst maps)) = None \<and> runq_ok rops (snd maps)")
    case True
    then obtain rows where "result ?out = Inr rows" "sorted_wrt (<) (map CgroupID rows)"
      "\<forall>row. row \<in> set rows \<longleftrightarrow>
         expected_row ?r (Entries bops (fst maps)) (runq_entries rops (snd maps)) (CgroupID row) = Some row"
      using read_rows [of "fst maps" "snd maps" ?r] by blast
    then show ?thesis using True
      by (intro disjI2 exI [of _ "(?r, Entries bops (fst maps), runq_entries rops (snd maps))"] exI [of _ rows])
        (simp add: st' view_step_def t assms(2) Let_def rows_of_def)
  next
    case False
    have "\<exists>e. result ?out = Inl e"
    proof (cases "snd (Iterate bops (fst maps))")
      case None
      with False obtain m e where "snd maps = Some m" "snd (Iterate rops m) = Some e"
        by (auto simp: runq_ok_def split: option.splits)
      with None read_errors(2) [of "fst maps" _ m _ e ?r] show ?thesis by (metis prod.collapse)
    next
      case (Some e)
      with read_errors(1) [of "fst maps" _ e "snd maps" ?r] show ?thesis by (metis prod.collapse)
    qed
    with False show ?thesis by (auto simp: st' view_step_def t assms(2) Let_def)
  qed
qed

lemma ticks_publish:
  "st = fold tick ts \<lparr>cl_resolver = res, cl_block = bm, cl_runq = rm, cl_prom = pm\<rparr> \<Longrightarrow>
   past = fold (view_step bops rops) ts (res, []) \<Longrightarrow>
   cl_resolver st = fst past \<and>
   (\<exists>passes. list_all2 rows_of (snd past) passes \<and> cl_prom st = foldr (Update rng vops gops) passes pm)"
proof (induction ts arbitrary: st past rule: rev_induct)
  case Nil
  then show ?case by (auto intro: exI [of _ "[]"])
next
  case (snoc t ts)
  let ?st = "fold tick ts \<lparr>cl_resolver = res, cl_block = bm, cl_runq = rm, cl_prom = pm\<rparr>"
  let ?past = "fold (view_step bops rops) ts (res, [])"
  obtain passes where passes: "list_all2 rows_of (snd ?past) passes"
    "cl_prom ?st = foldr (Update rng vops gops) passes pm" and "cl_resolver ?st = fst ?past"
    using snoc.IH [OF HOL.refl HOL.refl] by blast
  then have past: "?past = (cl_resolver ?st, snd ?past)" by simp
  have st: "st = tick t ?st" and later: "past = view_step bops rops t ?past" using snoc.prems by simp_all
  note tick = tick_publishes [OF st past, folded later]
  from tick(2) have "\<exists>passes. list_all2 rows_of (snd past) passes \<and> cl_prom st = foldr (Update rng vops gops) passes pm"
  proof
    assume "\<exists>v rows. snd past = v # snd ?past \<and> rows_of v rows \<and>
         cl_prom st = Update rng vops gops rows (cl_prom ?st)"
    then obtain v rows where "snd past = v # snd ?past" "rows_of v rows"
      "cl_prom st = Update rng vops gops rows (cl_prom ?st)" by blast
    with passes show ?thesis by (intro exI [of _ "rows # passes"]) simp
  qed (use passes in auto)
  with tick(1) show ?case by blast
qed

lemma ticks_ledger:
  assumes new: "CounterSample vops v = Map.empty" and i: "i < 6"
    and st: "st = fold tick ts \<lparr>cl_resolver = res, cl_block = bm, cl_runq = rm, cl_prom = NewPromMetrics v g\<rparr>"
  shows "case views bops rops res ts of
      [] \<Rightarrow> sample i (cl_prom st) l = None
    | v # vs \<Rightarrow> (sample i (cl_prom st) l \<noteq> None \<longleftrightarrow> view_pod l v) \<and>
        (view_pod l v \<and> unat (view_total i l v) + view_lost i l (v # vs) \<le> 2 ^ 53 \<longrightarrow>
           sample i (cl_prom st) l = Some (unat (view_total i l v) + view_lost i l (v # vs)))"
proof -
  from ticks_publish [OF st HOL.refl] obtain passes where passes: "list_all2 rows_of (views bops rops res ts) passes"
    and prom: "cl_prom st = foldr (Update rng vops gops) passes (NewPromMetrics v g)"
    unfolding views_def by blast
  note led = passes_ledger [OF new, of passes g i l]
  show ?thesis
  proof (cases "views bops rops res ts")
    case Nil
    with passes led i show ?thesis by (simp add: prom remembers_def)
  next
    case (Cons w ws)
    then obtain p ps where p: "passes = p # ps" "rows_of w p" using passes by (auto simp: list_all2_Cons1)
    have "ledger i l passes = unat (view_total i l w) + view_lost i l (w # ws)" if "l \<in> row_labels ` set p"
    proof -
      from that have "valid_labels l" using row_labels_valid by blast
      then show ?thesis using rows_of_lost passes p by (simp add: ledger_def rows_of_total Cons)
    qed
    with led i p show ?thesis by (simp add: Cons prom remembers_def rows_of_pod [of w p])
  qed
qed

end

section \<open>Property\<close>

text \<open>
  C26: what a counter reads after any ticks. The ticks may meet any contents of the maps: cgroups come
  and go, entries shrink or vanish, are unknown, and then the resolver is built anew; iterations may fail.
  Afterwards a pod has its series exactly if one of its cgroups was known and had an entry in the last
  pass that did not fail, and the counter is the total of the pod in that pass plus the total before
  every pass in which it shrank since the series exists, as long as this is at most \<open>2^53\<close>.
\<close>

theorem counters_account_for_ticks:
  assumes "exporter bops rops vops gops rng" and "CounterSample vops v = Map.empty" and "i < 6"
    and "st = fold (\<lambda>(fs, maps). collector_pass bops rops rng vops gops fs maps) ticks
      \<lparr>cl_resolver = res, cl_block = bm, cl_runq = rm, cl_prom = NewPromMetrics v g\<rparr>"
  shows "case views bops rops res ticks of
      [] \<Rightarrow> CounterSample vops (pm_vecs (cl_prom st) ! i) l = None
    | w # ws \<Rightarrow> (CounterSample vops (pm_vecs (cl_prom st) ! i) l \<noteq> None \<longleftrightarrow> view_pod l w) \<and>
        (view_pod l w \<and> unat (view_total i l w) + view_lost i l (w # ws) \<le> 2 ^ 53 \<longrightarrow>
           CounterSample vops (pm_vecs (cl_prom st) ! i) l =
             Some (unat (view_total i l w) + view_lost i l (w # ws)))"
  by (rule exporter.ticks_ledger [OF assms(1-3), where bm = bm and rm = rm and g = g])
    (simp only: assms(4) case_prod_beta')

text \<open>Two containers of a pod; one of them leaves between the ticks.\<close>

definition pair_resolver :: CgroupResolver where
  "pair_resolver = \<lparr>ByID = [7 \<mapsto> ''/kubepods.slice/a'', 8 \<mapsto> ''/kubepods.slice/b'']\<rparr>"

definition ops_done :: "u64 \<Rightarrow> cgroup_io_stats_t" where
  "ops_done n = zero_io_stats\<lparr>io_count := n\<rparr>"

definition pair_ticks :: "(cgroup_fs \<times> (u64 \<times> cgroup_io_stats_t) list \<times> (u64 \<times> cgroup_runq_stats_t) list option) list" where
  "pair_ticks = [(demo_fs, [(7, ops_done 5), (8, ops_done 3)], None), (demo_fs, [(7, ops_done 6)], None)]"

lemma pair_known: "\<not> unknown_id pair_resolver 7" "\<not> unknown_id pair_resolver 8"
  by (simp_all add: unknown_id_def pair_resolver_def Resolve_def unknown_path_def)

lemma pair_labels: "cgroup_labels pair_resolver 8 = cgroup_labels pair_resolver 7"
proof -
  have "ClassifyCgroupPath ''/kubepods.slice/b'' = ClassifyCgroupPath ''/kubepods.slice/a''" by code_simp
  moreover have "ParseKubePath ''/kubepods.slice/b'' = ParseKubePath ''/kubepods.slice/a''" by code_simp
  ultimately show ?thesis by (simp add: cgroup_labels_def pair_resolver_def Resolve_def)
qed

definition pair_entries :: "(u64 \<times> cgroup_io_stats_t) list \<Rightarrow> view" where
  "pair_entries m = (pair_resolver, Entries pinned_block m, Map.empty)"

lemma pair_views:
  "views pinned_block pinned_runq (Some pair_resolver) pair_ticks =
     [pair_entries [(7, ops_done 6)], pair_entries [(7, ops_done 5), (8, ops_done 3)]]"
proof -
  have none: "runq_entries pinned_runq None = Map.empty" by (simp add: runq_entries_def)
  have ok: "snd (Iterate pinned_block m) = None" "runq_ok pinned_runq None" for m
    by (simp_all add: pinned_block_def runq_ok_def)
  have "\<not> unknown_seen (readStats pinned_block pinned_runq m None pair_resolver)"
    if "set (map fst m) \<subseteq> {7, 8}" for m
  proof -
    have "k \<in> dom (Entries pinned_block m) \<Longrightarrow> k \<in> {7, 8}" for k
      using that by (force simp: pinned_block_def dest: map_of_SomeD)
    with coll_kernel.read_deletes [OF ok, of m pair_resolver] pair_known show ?thesis by (auto simp: none)
  qed
  then show ?thesis
    by (simp add: views_def pair_ticks_def view_step_def resolver_at_def ok none pair_entries_def Let_def)
qed

lemma pair_totals:
  "view_pod (cgroup_labels pair_resolver 7) (pair_entries [(7, ops_done 6)])"
  "view_pod (cgroup_labels pair_resolver 7) (pair_entries [(7, ops_done 5), (8, ops_done 3)])"
  "view_total 0 (cgroup_labels pair_resolver 7) (pair_entries [(7, ops_done 6)]) = 6"
  "view_total 0 (cgroup_labels pair_resolver 7) (pair_entries [(7, ops_done 5), (8, ops_done 3)]) = 8"
proof -
  have one: "pod_cgroups pair_resolver (Entries pinned_block [(7, ops_done 6)]) Map.empty
      (cgroup_labels pair_resolver 7) = {7}"
    using pair_known by (auto simp: pod_cgroups_def pinned_block_def split: if_splits)
  have two: "pod_cgroups pair_resolver (Entries pinned_block [(7, ops_done 5), (8, ops_done 3)]) Map.empty
      (cgroup_labels pair_resolver 7) = {7, 8}"
    using pair_known pair_labels by (auto simp: pod_cgroups_def pinned_block_def split: if_splits)
  show "view_pod (cgroup_labels pair_resolver 7) (pair_entries [(7, ops_done 6)])"
    "view_pod (cgroup_labels pair_resolver 7) (pair_entries [(7, ops_done 5), (8, ops_done 3)])"
    by (simp_all add: view_pod_def pair_entries_def one two)
  show "view_total 0 (cgroup_labels pair_resolver 7) (pair_entries [(7, ops_done 6)]) = 6"
    "view_total 0 (cgroup_labels pair_resolver 7) (pair_entries [(7, ops_done 5), (8, ops_done 3)]) = 8"
    unfolding view_total_def pair_entries_def prod.case entries_total_def one two
    by (simp_all add: columns_def Let_def pinned_block_def ops_done_def zero_io_stats_def io_of_c_def)
qed

theorem counters_account_for_ticks_witness:
  "CounterSample map_counters (pm_vecs (cl_prom (fold
      (\<lambda>(fs, maps). collector_pass pinned_block pinned_runq rev map_counters map_gauges fs maps) pair_ticks
      \<lparr>cl_resolver = Some pair_resolver, cl_block = [], cl_runq = None,
       cl_prom = NewPromMetrics Map.empty Map.empty\<rparr>)) ! 0) (cgroup_labels pair_resolver 7) = Some 14"
  using counters_account_for_ticks [OF exp_kernel.exporter_axioms fresh_maps(1) _ HOL.refl,
      where i = 0 and res = "Some pair_resolver" and ticks = pair_ticks and bm = "[]" and rm = None and
        g = Map.empty and l = "cgroup_labels pair_resolver 7"]
  by (simp add: pair_views pair_totals)

end
