(* ===== verification/Interleave.thy ===== *)
theory Interleave
  imports Prelude
begin

text \<open>
  Programs running at the same time. A processor is inside a program, at some piece of it, and holds
  its local variables; a piece takes the clock, the local variables and the shared state to the next
  local variables and shared state; one move of the system is one piece on one processor. Stated for
  any such program (\<open>piece\<close>, and \<open>over\<close>, which says that the processor has returned): the moves,
  runs of any length, runs along a given schedule, and, when every piece brings the processor closer
  to returning, that every run ends and can always be continued until all processors have returned.
\<close>

section \<open>Moves and runs\<close>

type_synonym ('c, 's) system = "'c list \<times> 's"

inductive par_move ::
  "('t \<Rightarrow> 'c \<Rightarrow> 's \<Rightarrow> 'c \<times> 's) \<Rightarrow> ('c \<Rightarrow> bool) \<Rightarrow> ('c, 's) system \<Rightarrow> ('c, 's) system \<Rightarrow> bool"
  for piece over where
  move: "i < length cs \<Longrightarrow> \<not> over (cs ! i) \<Longrightarrow> piece now (cs ! i) st = (c, st') \<Longrightarrow>
     par_move piece over (cs, st) (cs[i := c], st')"

inductive_cases par_moveE: "par_move piece over s t"

inductive par_run ::
  "('t \<Rightarrow> 'c \<Rightarrow> 's \<Rightarrow> 'c \<times> 's) \<Rightarrow> ('c \<Rightarrow> bool) \<Rightarrow> ('c, 's) system \<Rightarrow> ('c, 's) system \<Rightarrow> bool"
  for piece over where
  here: "par_run piece over s s"
| onward: "par_run piece over s t \<Longrightarrow> par_move piece over t u \<Longrightarrow> par_run piece over s u"

lemma par_run_move: "par_run piece over t u \<Longrightarrow> par_move piece over s t \<Longrightarrow> par_run piece over s u"
  by (induction rule: par_run.induct) (auto intro: par_run.intros)

lemma par_run_trans: "par_run piece over t u \<Longrightarrow> par_run piece over s t \<Longrightarrow> par_run piece over s u"
  by (induction rule: par_run.induct) (auto intro: par_run.intros)

text \<open>What every move keeps holds of every state reached.\<close>

lemma par_run_invariant:
  assumes "par_run piece over s t" and "P s"
    and "\<And>cs st i now c st'. P (cs, st) \<Longrightarrow> i < length cs \<Longrightarrow> \<not> over (cs ! i) \<Longrightarrow>
      piece now (cs ! i) st = (c, st') \<Longrightarrow> P (cs[i := c], st')"
  shows "P t"
  using assms(1,2)
proof (induction rule: par_run.induct)
  case (onward s t u)
  then have "P t" by simp
  with onward(2) show ?case by (cases rule: par_moveE) (auto intro: assms(3))
qed

lemma par_run_length: "par_run piece over s t \<Longrightarrow> length (fst t) = length (fst s)"
  by (induction rule: par_run.induct) (auto elim: par_moveE)

section \<open>Schedules\<close>

text \<open>A schedule: which processor moves, and the clock at that moment.\<close>

definition sched_move ::
  "('t \<Rightarrow> 'c \<Rightarrow> 's \<Rightarrow> 'c \<times> 's) \<Rightarrow> ('c \<Rightarrow> bool) \<Rightarrow> nat \<times> 't \<Rightarrow> ('c, 's) system \<Rightarrow>
   ('c, 's) system option" where
  "sched_move piece over = (\<lambda>(i, now) (cs, st).
     if i < length cs \<and> \<not> over (cs ! i)
     then (case piece now (cs ! i) st of (c, st') \<Rightarrow> Some (cs[i := c], st'))
     else None)"

fun sched_run ::
  "('t \<Rightarrow> 'c \<Rightarrow> 's \<Rightarrow> 'c \<times> 's) \<Rightarrow> ('c \<Rightarrow> bool) \<Rightarrow> (nat \<times> 't) list \<Rightarrow> ('c, 's) system \<Rightarrow>
   ('c, 's) system option" where
  "sched_run piece over [] s = Some s"
| "sched_run piece over (x # sched) s =
     (case sched_move piece over x s of None \<Rightarrow> None | Some t \<Rightarrow> sched_run piece over sched t)"

lemma sched_move_par_move: "sched_move piece over x s = Some t \<Longrightarrow> par_move piece over s t"
  by (cases s; cases x)
    (auto simp: sched_move_def split: if_splits prod.splits intro: par_move.intros)

lemma sched_run_par_run: "sched_run piece over sched s = Some t \<Longrightarrow> par_run piece over s t"
proof (induction sched arbitrary: s)
  case (Cons x sched)
  then show ?case
    by (auto split: option.splits intro: par_run_move sched_move_par_move)
qed (simp add: par_run.here)

text \<open>What every move of a schedule keeps holds after it.\<close>

lemma sched_run_invariant:
  assumes "sched_run piece over sched s = Some t" and "P s"
    and "\<And>cs st i now c st'. (i, now) \<in> set sched \<Longrightarrow> P (cs, st) \<Longrightarrow> i < length cs \<Longrightarrow> \<not> over (cs ! i) \<Longrightarrow>
      piece now (cs ! i) st = (c, st') \<Longrightarrow> P (cs[i := c], st')"
  shows "P t"
  using assms
proof (induction sched arbitrary: s)
  case (Cons x sched)
  then obtain u where u: "sched_move piece over x s = Some u" "sched_run piece over sched u = Some t"
    by (auto split: option.splits)
  obtain i now where x: "x = (i, now)" by (cases x)
  obtain cs st where s: "s = (cs, st)" by (cases s)
  from u(1) Cons.prems(2) have "P u"
    by (auto simp: x s sched_move_def split: if_splits prod.splits intro!: Cons.prems(3))
  with u(2) show ?case by (rule Cons.IH) (erule (3) Cons.prems(3) [OF list.set_intros(2)])
qed simp

section \<open>Programs whose pieces come to an end\<close>

locale ending_program =
  fixes piece :: "'t \<Rightarrow> 'c \<Rightarrow> 's \<Rightarrow> 'c \<times> 's" and over :: "'c \<Rightarrow> bool" and ahead :: "'c \<Rightarrow> nat"
  assumes piece_ahead: "\<not> over c \<Longrightarrow> piece now c st = (c', st') \<Longrightarrow> ahead c' < ahead c"
begin

definition total_ahead :: "('c, 's) system \<Rightarrow> nat" where
  "total_ahead s = sum_list (map ahead (fst s))"

lemma move_ahead: "par_move piece over s t \<Longrightarrow> total_ahead t < total_ahead s"
  by (elim par_moveE) (auto simp: total_ahead_def intro!: sum_list_update_less piece_ahead)

lemma no_infinite_run: "wfP (\<lambda>t s. par_move piece over s t)"
  by (rule wfp_if_convertible_to_nat [of _ total_ahead]) (rule move_ahead)

text \<open>A run has at most as many moves as its processors have pieces ahead of them.\<close>

lemma sched_run_length:
  "sched_run piece over sched s = Some t \<Longrightarrow> length sched + total_ahead t \<le> total_ahead s"
proof (induction sched arbitrary: s)
  case (Cons x sched)
  then obtain u where "sched_move piece over x s = Some u" "sched_run piece over sched u = Some t"
    by (auto split: option.splits)
  then show ?case
    using Cons.IH [of u] move_ahead [OF sched_move_par_move [of piece over x s u]] by simp
qed simp

lemma stuck_over: "(\<forall>t. \<not> par_move piece over s t) \<longleftrightarrow> list_all over (fst s)"
proof
  assume stuck: "\<forall>t. \<not> par_move piece over s t"
  have "over (fst s ! i)" if "i < length (fst s)" for i
  proof (rule ccontr)
    assume "\<not> over (fst s ! i)"
    moreover obtain c st' where "piece undefined (fst s ! i) (snd s) = (c, st')" by fastforce
    ultimately show False using stuck that par_move.move [of i "fst s" over] by (metis prod.collapse)
  qed
  then show "list_all over (fst s)" by (simp add: list_all_length)
qed (auto elim: par_moveE simp: list_all_length)

text \<open>From every state the processors can all return, whoever moves first.\<close>

lemma all_return: "\<exists>t. par_run piece over s t \<and> list_all over (fst t)"
proof (induction "total_ahead s" arbitrary: s rule: less_induct)
  case less
  show ?case
  proof (cases "list_all over (fst s)")
    case True
    then show ?thesis by (blast intro: par_run.here)
  next
    case False
    then obtain t where t: "par_move piece over s t" using stuck_over [of s] by blast
    with less [OF move_ahead] show ?thesis by (blast intro: par_run_move)
  qed
qed

end

end
