(* ===== verification/BlockInterleave.thy ===== *)
theory BlockInterleave
  imports BlockSpec Interleave
begin

text \<open>
  Completions running at the same time on several CPUs. \<open>block_rq_complete\<close> is split at its helper
  calls and atomic additions; a step of the system is one such piece on one CPU. Three results: a CPU
  alone computes what the program computes; when every cgroup concerned already has an entry, every
  interleaving accounts every completion exactly; when the entry is still missing, two CPUs can both
  create it, and the second creation discards what the first one counted.

  A completion keeps the values its \<open>start\<close> pointer led to when it was looked up: the block layer does
  not issue a request again before its completion returns.
\<close>

section \<open>One CPU inside the program\<close>

datatype pc =
    LookupStart \<comment> \<open>\<open>start = bpf_map_lookup_elem(&start_map, &key)\<close>\<close>
  | Ktime \<comment> \<open>\<open>now = bpf_ktime_get_ns(); delta = now - start->ts_ns\<close>\<close>
  | LookupStats \<comment> \<open>\<open>stats = bpf_map_lookup_elem(&stats_by_cgroup, &cgroup_id)\<close>\<close>
  | InitStats \<comment> \<open>\<open>bpf_map_update_elem(&stats_by_cgroup, &cgroup_id, &zero, BPF_ANY)\<close>\<close>
  | LookupAgain \<comment> \<open>the second lookup\<close>
  | DropStart \<comment> \<open>\<open>bpf_map_delete_elem\<close> on the path without statistics\<close>
  | AddCount | AddLatency | AddBytes | AddError \<comment> \<open>the four \<open>__sync_fetch_and_add\<close>\<close>
  | DeleteStart \<comment> \<open>\<open>bpf_map_delete_elem(&start_map, &key)\<close>\<close>
  | Finished \<comment> \<open>returned, sample accounted\<close>
  | Returned \<comment> \<open>returned early\<close>

record cpu =
  cpu_pc :: pc
  cpu_rq :: u64
  cpu_error :: u32
  cpu_start :: "start_val_t option"
  cpu_delta :: u64

definition final :: "cpu \<Rightarrow> bool" where
  "final c \<longleftrightarrow> cpu_pc c = Finished \<or> cpu_pc c = Returned"

definition entering :: "u64 \<Rightarrow> u32 \<Rightarrow> cpu" where
  "entering rq error =
     \<lparr>cpu_pc = LookupStart, cpu_rq = rq, cpu_error = error, cpu_start = None, cpu_delta = 0\<rparr>"

text \<open>A CPU that holds the pointers \<open>start\<close> and \<open>stats\<close>, before its additions.\<close>

definition adding :: "u64 \<Rightarrow> u32 \<Rightarrow> start_val_t \<Rightarrow> u64 \<Rightarrow> cpu" where
  "adding rq error v d =
     \<lparr>cpu_pc = AddCount, cpu_rq = rq, cpu_error = error, cpu_start = Some v, cpu_delta = d\<rparr>"

text \<open>An atomic addition through the pointer to the entry of \<open>cg\<close>, if the entry is still there.\<close>

definition add_through ::
  "('ms, 'mt) block_maps \<Rightarrow> u64 \<Rightarrow> (cgroup_io_stats_t \<Rightarrow> cgroup_io_stats_t) \<Rightarrow>
   ('ms, 'mt) block_state \<Rightarrow> ('ms, 'mt) block_state" where
  "add_through maps cg f st =
     (case bpf_lookup (stats_ops maps) (stats_by_cgroup st) cg of
        None \<Rightarrow> st
      | Some s \<Rightarrow>
          st\<lparr>stats_by_cgroup := bpf_write (stats_ops maps) (stats_by_cgroup st) cg (f s)\<rparr>)"

text \<open>One piece of the program; \<open>now\<close> is what the clock says, should the piece read it.\<close>

fun cpu_exec ::
  "('ms, 'mt) block_maps \<Rightarrow> u64 \<Rightarrow> pc \<Rightarrow> start_val_t \<Rightarrow> cpu \<Rightarrow> ('ms, 'mt) block_state \<Rightarrow>
   cpu \<times> ('ms, 'mt) block_state" where
  "cpu_exec maps now LookupStart v c st =
     (case bpf_lookup (start_ops maps) (start_map st) (cpu_rq c) of
        None \<Rightarrow> (c\<lparr>cpu_pc := Returned\<rparr>, st)
      | Some s \<Rightarrow> (c\<lparr>cpu_start := Some s, cpu_pc := Ktime\<rparr>, st))"
| "cpu_exec maps now Ktime v c st =
     (c\<lparr>cpu_delta := now - ts_ns v, cpu_pc := LookupStats\<rparr>, st)"
| "cpu_exec maps now LookupStats v c st =
     (case bpf_lookup (stats_ops maps) (stats_by_cgroup st) (cgroup_id v) of
        None \<Rightarrow> (c\<lparr>cpu_pc := InitStats\<rparr>, st)
      | Some _ \<Rightarrow> (c\<lparr>cpu_pc := AddCount\<rparr>, st))"
| "cpu_exec maps now InitStats v c st =
     (c\<lparr>cpu_pc := LookupAgain\<rparr>,
      st\<lparr>stats_by_cgroup :=
           bpf_update (stats_ops maps) (stats_by_cgroup st) (cgroup_id v) zero_io_stats\<rparr>)"
| "cpu_exec maps now LookupAgain v c st =
     (case bpf_lookup (stats_ops maps) (stats_by_cgroup st) (cgroup_id v) of
        None \<Rightarrow> (c\<lparr>cpu_pc := DropStart\<rparr>, st)
      | Some _ \<Rightarrow> (c\<lparr>cpu_pc := AddCount\<rparr>, st))"
| "cpu_exec maps now DropStart v c st =
     (c\<lparr>cpu_pc := Returned\<rparr>,
      st\<lparr>start_map := bpf_delete (start_ops maps) (start_map st) (cpu_rq c)\<rparr>)"
| "cpu_exec maps now AddCount v c st =
     (c\<lparr>cpu_pc := AddLatency\<rparr>,
      add_through maps (cgroup_id v) (\<lambda>s. s\<lparr>io_count := io_count s + 1\<rparr>) st)"
| "cpu_exec maps now AddLatency v c st =
     (c\<lparr>cpu_pc := AddBytes\<rparr>,
      add_through maps (cgroup_id v)
        (\<lambda>s. s\<lparr>total_latency_ns := total_latency_ns s + cpu_delta c\<rparr>) st)"
| "cpu_exec maps now AddBytes v c st =
     (c\<lparr>cpu_pc := AddError\<rparr>,
      add_through maps (cgroup_id v)
        (\<lambda>s. s\<lparr>total_bytes := total_bytes s + ucast (bytes v)\<rparr>) st)"
| "cpu_exec maps now AddError v c st =
     (c\<lparr>cpu_pc := DeleteStart\<rparr>,
      if cpu_error c \<noteq> 0
      then add_through maps (cgroup_id v) (\<lambda>s. s\<lparr>error_count := error_count s + 1\<rparr>) st
      else st)"
| "cpu_exec maps now DeleteStart v c st =
     (c\<lparr>cpu_pc := Finished\<rparr>,
      st\<lparr>start_map := bpf_delete (start_ops maps) (start_map st) (cpu_rq c)\<rparr>)"
| "cpu_exec maps now Finished v c st = (c, st)"
| "cpu_exec maps now Returned v c st = (c, st)"

text \<open>\<open>start\<close> is NULL only before its lookup, which does not use it.\<close>

definition cpu_step ::
  "('ms, 'mt) block_maps \<Rightarrow> u64 \<Rightarrow> cpu \<Rightarrow> ('ms, 'mt) block_state \<Rightarrow> cpu \<times> ('ms, 'mt) block_state" where
  "cpu_step maps now c st =
     cpu_exec maps now (cpu_pc c)
       (case cpu_start c of Some v \<Rightarrow> v | None \<Rightarrow> \<lparr>ts_ns = 0, bytes = 0, cgroup_id = 0\<rparr>) c st"

fun cpu_run ::
  "nat \<Rightarrow> ('ms, 'mt) block_maps \<Rightarrow> u64 \<Rightarrow> cpu \<times> ('ms, 'mt) block_state \<Rightarrow>
   cpu \<times> ('ms, 'mt) block_state" where
  "cpu_run 0 maps now (c, st) = (c, st)"
| "cpu_run (Suc n) maps now (c, st) =
     (if final c then (c, st) else cpu_run n maps now (cpu_step maps now c st))"

section \<open>Several CPUs\<close>

type_synonym ('ms, 'mt) sys = "(cpu, ('ms, 'mt) block_state) system"

abbreviation interleave ::
  "('ms, 'mt) block_maps \<Rightarrow> ('ms, 'mt) sys \<Rightarrow> ('ms, 'mt) sys \<Rightarrow> bool" where
  "interleave maps \<equiv> par_move (cpu_step maps) final"

abbreviation interleaves ::
  "('ms, 'mt) block_maps \<Rightarrow> ('ms, 'mt) sys \<Rightarrow> ('ms, 'mt) sys \<Rightarrow> bool" where
  "interleaves maps \<equiv> par_run (cpu_step maps) final"

section \<open>A CPU alone is the program\<close>

lemma cpu_run_Suc:
  "\<not> final c \<Longrightarrow> cpu_run (Suc n) maps now (c, st) = cpu_run n maps now (cpu_step maps now c st)"
  by simp

lemma cpu_run_final: "final c \<Longrightarrow> cpu_run n maps now (c, st) = (c, st)"
  by (cases n) simp_all

declare cpu_run.simps [simp del]

context block_ctx
begin

lemma add_through_acc:
  "acc (add_through maps cg f st) = (case acc st cg of None \<Rightarrow> acc st | Some s \<Rightarrow> (acc st)(cg \<mapsto> f s))"
  by (simp add: add_through_def stats.lookup_write split: option.split)

lemma add_through_pend: "pend (add_through maps cg f st) = pend st"
  by (simp add: add_through_def split: option.split)

lemma add_through_start: "start_map (add_through maps cg f st) = start_map st"
  by (simp add: add_through_def split: option.split)

text \<open>The part of the program that adds and deletes, from an entry that is there.\<close>

lemma run_adds:
  assumes "acc st (cgroup_id v) = Some s"
  shows "\<exists>st'. cpu_run (5 + n) maps now (adding rq error v d, st) =
      ((adding rq error v d)\<lparr>cpu_pc := Finished\<rparr>, st') \<and>
    pend st' = (pend st)(rq := None) \<and>
    acc st' = (acc st)(cgroup_id v \<mapsto> add_io_stats d (bytes v) error s)"
  using assms
  by (cases s) (simp add: adding_def cpu_run.simps numeral_eq_Suc final_def cpu_step_def
      add_through_acc add_through_pend add_through_start start.lookup_delete add_io_stats_def cpu_run_final)

lemma run_entering:
  assumes "pend st rq = Some v"
  shows "cpu_run (Suc (Suc n)) maps now (entering rq error, st) =
    cpu_run n maps now ((adding rq error v (now - ts_ns v))\<lparr>cpu_pc := LookupStats\<rparr>, st)"
  using assms by (simp add: entering_def adding_def cpu_run.simps final_def cpu_step_def)

text \<open>A CPU alone ends within ten steps, and leaves what the program leaves.\<close>

abbreviation alone_computes :: "u64 \<Rightarrow> u64 \<Rightarrow> u32 \<Rightarrow> u32 \<Rightarrow> ('ms, 'mt) block_state \<Rightarrow> bool" where
  "alone_computes now rq error nr st \<equiv>
     \<exists>c st'. cpu_run 10 maps now (entering rq error, st) = (c, st') \<and> final c \<and>
       pend st' = pend (block_rq_complete maps now rq error nr st) \<and>
       acc st' = acc (block_rq_complete maps now rq error nr st)"

lemma enter_alone:
  "pend st rq = Some v \<Longrightarrow> cpu_run 10 maps now (entering rq error, st) =
     cpu_run 8 maps now ((adding rq error v (now - ts_ns v))\<lparr>cpu_pc := LookupStats\<rparr>, st)"
  using run_entering [of st rq v 8] by simp

lemma finished_final: "final ((adding rq error v d)\<lparr>cpu_pc := Finished\<rparr>)"
  by (simp add: final_def)

lemma alone_hit:
  assumes v: "pend st rq = Some v" and s: "acc st (cgroup_id v) = Some s"
  shows "alone_computes now rq error nr st"
proof -
  let ?d = "now - ts_ns v" and ?cg = "cgroup_id v"
  let ?a = "adding rq error v (now - ts_ns v)"
  have "cpu_run 8 maps now (?a\<lparr>cpu_pc := LookupStats\<rparr>, st) = cpu_run 7 maps now (?a, st)"
    using s by (simp add: cpu_run.simps numeral_eq_Suc final_def cpu_step_def adding_def)
  moreover obtain st' where "cpu_run 7 maps now (?a, st) = (?a\<lparr>cpu_pc := Finished\<rparr>, st')"
    "pend st' = (pend st)(rq := None)" "acc st' = (acc st)(?cg \<mapsto> add_io_stats ?d (bytes v) error s)"
    using run_adds [OF s, of 2 now rq error ?d] by auto
  ultimately show ?thesis
    using enter_alone [OF v, of now error] finished_final complete_pend complete_acc [OF v, of now error nr] s
    by (auto simp: add_sample_def sample_of_def)
qed

lemma alone_miss:
  assumes v: "pend st rq = Some v" and none: "acc st (cgroup_id v) = None"
  shows "alone_computes now rq error nr st"
proof -
  let ?d = "now - ts_ns v" and ?cg = "cgroup_id v"
  let ?a = "adding rq error v (now - ts_ns v)"
  let ?st = "st\<lparr>stats_by_cgroup := bpf_update (stats_ops maps) (stats_by_cgroup st) ?cg zero_io_stats\<rparr>"
  have look: "cpu_run 8 maps now (?a\<lparr>cpu_pc := LookupStats\<rparr>, st) =
      cpu_run 6 maps now (?a\<lparr>cpu_pc := LookupAgain\<rparr>, ?st)"
    using none by (simp add: cpu_run.simps numeral_eq_Suc final_def cpu_step_def adding_def)
  show ?thesis
  proof (cases "card (dom (acc st)) < stats_by_cgroup_entries")
    case True
    then have s: "acc ?st = (acc st)(?cg \<mapsto> zero_io_stats)" by (simp add: stats.lookup_update)
    then have "cpu_run 6 maps now (?a\<lparr>cpu_pc := LookupAgain\<rparr>, ?st) = cpu_run 5 maps now (?a, ?st)"
      by (simp add: cpu_run.simps numeral_eq_Suc final_def cpu_step_def adding_def)
    moreover obtain st' where "cpu_run 5 maps now (?a, ?st) = (?a\<lparr>cpu_pc := Finished\<rparr>, st')"
      "pend st' = (pend ?st)(rq := None)"
      "acc st' = (acc ?st)(?cg \<mapsto> add_io_stats ?d (bytes v) error zero_io_stats)"
      using run_adds [of ?st v zero_io_stats 0 now rq error ?d] s by auto
    ultimately show ?thesis
      using enter_alone [OF v, of now error] finished_final look complete_pend s True none
        complete_acc [OF v, of now error nr]
      by (auto simp: add_sample_def sample_of_def)
  next
    case False
    then have s: "acc ?st = acc st" using none by (simp add: stats.lookup_update_full)
    then have "cpu_run 6 maps now (?a\<lparr>cpu_pc := LookupAgain\<rparr>, ?st) =
        (?a\<lparr>cpu_pc := Returned\<rparr>, ?st\<lparr>start_map := bpf_delete (start_ops maps) (start_map st) rq\<rparr>)"
      using none by (simp add: cpu_run.simps numeral_eq_Suc final_def cpu_step_def adding_def)
    then show ?thesis
      using enter_alone [OF v, of now error] look complete_pend s False none
        complete_acc_full [OF v none, of now error nr]
      by (simp add: final_def start.lookup_delete)
  qed
qed

lemma cpu_alone: "alone_computes now rq error nr st"
proof (cases "pend st rq")
  case None
  then show ?thesis
    by (simp add: entering_def cpu_run.simps numeral_eq_Suc final_def cpu_step_def complete_unknown)
next
  case (Some v)
  then show ?thesis by (cases "acc st (cgroup_id v)") (simp_all only: alone_hit alone_miss)
qed

end

section \<open>Every interleaving accounts exactly, once the entries exist\<close>

text \<open>What a CPU has added so far to each field of the entry of cgroup \<open>cg\<close>.\<close>

fun added :: "pc \<Rightarrow> pc set" where
  "added p = (if p \<in> {AddLatency, AddBytes, AddError, DeleteStart, Finished} then {AddCount} else {}) \<union>
     (if p \<in> {AddBytes, AddError, DeleteStart, Finished} then {AddLatency} else {}) \<union>
     (if p \<in> {AddError, DeleteStart, Finished} then {AddBytes} else {}) \<union>
     (if p \<in> {DeleteStart, Finished} then {AddError} else {})"

definition share :: "pc \<Rightarrow> u64 \<Rightarrow> cpu \<Rightarrow> u64" where
  "share field cg c =
     (case cpu_start c of None \<Rightarrow> 0
      | Some v \<Rightarrow>
          if cgroup_id v = cg \<and> field \<in> added (cpu_pc c)
          then (case field of
                  AddCount \<Rightarrow> 1
                | AddLatency \<Rightarrow> cpu_delta c
                | AddBytes \<Rightarrow> ucast (bytes v)
                | AddError \<Rightarrow> (if cpu_error c \<noteq> 0 then 1 else 0)
                | _ \<Rightarrow> 0)
          else 0)"

definition total_share :: "pc \<Rightarrow> u64 \<Rightarrow> cpu list \<Rightarrow> u64" where
  "total_share field cg cpus = sum_list (map (share field cg) cpus)"

definition with_shares :: "u64 \<Rightarrow> cpu list \<Rightarrow> cgroup_io_stats_t \<Rightarrow> cgroup_io_stats_t" where
  "with_shares cg cpus s =
     \<lparr>io_count = io_count s + total_share AddCount cg cpus,
      total_latency_ns = total_latency_ns s + total_share AddLatency cg cpus,
      total_bytes = total_bytes s + total_share AddBytes cg cpus,
      error_count = error_count s + total_share AddError cg cpus\<rparr>"

lemma total_share_update:
  "i < length cpus \<Longrightarrow>
   total_share field cg (cpus[i := c]) =
     total_share field cg cpus + (share field cg c - share field cg (cpus ! i))"
  by (simp add: total_share_def sum_list_update_group)

text \<open>A CPU's local state fits the requests that were in flight when the CPUs entered.\<close>

definition cpu_ok :: "(u64 \<rightharpoonup> start_val_t) \<Rightarrow> (u64 \<rightharpoonup> cgroup_io_stats_t) \<Rightarrow> cpu \<Rightarrow> bool" where
  "cpu_ok p0 a0 c \<longleftrightarrow>
     cpu_pc c \<notin> {InitStats, LookupAgain, DropStart, Returned} \<and>
     (\<exists>v. p0 (cpu_rq c) = Some v \<and> a0 (cgroup_id v) \<noteq> None \<and>
          cpu_start c = (if cpu_pc c = LookupStart then None else Some v))"

definition finished_rqs :: "cpu list \<Rightarrow> u64 set" where
  "finished_rqs cpus = cpu_rq ` {c \<in> set cpus. cpu_pc c = Finished}"

abbreviation cpu_job :: "cpu \<Rightarrow> u64 \<times> u32" where
  "cpu_job c \<equiv> (cpu_rq c, cpu_error c)"

definition sys_inv ::
  "('ms, 'mt) block_maps \<Rightarrow> (u64 \<rightharpoonup> start_val_t) \<Rightarrow> (u64 \<rightharpoonup> cgroup_io_stats_t) \<Rightarrow>
   (u64 \<times> u32) list \<Rightarrow>   ('ms, 'mt) sys \<Rightarrow> bool" where
  "sys_inv maps p0 a0 jobs s \<longleftrightarrow>
     map cpu_job (fst s) = jobs \<and>
     list_all (cpu_ok p0 a0) (fst s) \<and>
     block_pend maps (snd s) = p0 |` (- finished_rqs (fst s)) \<and>
     (\<forall>cg. block_acc maps (snd s) cg = map_option (with_shares cg (fst s)) (a0 cg))"

lemma share_cases:
  "share field cg c = 0" if "cpu_pc c \<in> {LookupStart, Ktime, LookupStats, AddCount}"
  using that by (auto simp: share_def split: option.split)

lemma share_deleted:
  "cpu_pc c = DeleteStart \<Longrightarrow> share field cg (c\<lparr>cpu_pc := Finished\<rparr>) = share field cg c"
  by (cases field) (simp_all add: share_def split: option.split)

lemma with_shares_same:
  assumes "i < length cpus" and "\<And>field. share field cg c = share field cg (cpus ! i)"
  shows "with_shares cg (cpus[i := c]) s = with_shares cg cpus s"
  using assms by (simp add: with_shares_def total_share_update)

text \<open>The four additions move the fields of the entry and the share of the CPU together.\<close>

lemma with_shares_add:
  assumes "i < length cpus" and "cpu_start (cpus ! i) = Some v" and "cpu_pc (cpus ! i) = p"
  shows
    "p = AddCount \<Longrightarrow> with_shares cg (cpus[i := (cpus ! i)\<lparr>cpu_pc := AddLatency\<rparr>]) s =
       (let w = with_shares cg cpus s in
        if cgroup_id v = cg then w\<lparr>io_count := io_count w + 1\<rparr> else w)"
    "p = AddLatency \<Longrightarrow> with_shares cg (cpus[i := (cpus ! i)\<lparr>cpu_pc := AddBytes\<rparr>]) s =
       (let w = with_shares cg cpus s in
        if cgroup_id v = cg
        then w\<lparr>total_latency_ns := total_latency_ns w + cpu_delta (cpus ! i)\<rparr> else w)"
    "p = AddBytes \<Longrightarrow> with_shares cg (cpus[i := (cpus ! i)\<lparr>cpu_pc := AddError\<rparr>]) s =
       (let w = with_shares cg cpus s in
        if cgroup_id v = cg then w\<lparr>total_bytes := total_bytes w + ucast (bytes v)\<rparr> else w)"
    "p = AddError \<Longrightarrow> with_shares cg (cpus[i := (cpus ! i)\<lparr>cpu_pc := DeleteStart\<rparr>]) s =
       (let w = with_shares cg cpus s in
        if cgroup_id v = cg \<and> cpu_error (cpus ! i) \<noteq> 0
        then w\<lparr>error_count := error_count w + 1\<rparr> else w)"
  using assms
  by (auto simp: with_shares_def total_share_update share_def Let_def)

lemma finished_rqs_iff:
  "q \<in> finished_rqs cpus \<longleftrightarrow>
     (\<exists>j < length cpus. cpu_pc (cpus ! j) = Finished \<and> cpu_rq (cpus ! j) = q)"
  by (auto simp: finished_rqs_def in_set_conv_nth)

lemma finished_rqs_update:
  assumes "i < length cpus" and "cpu_pc (cpus ! i) \<noteq> Finished" and "cpu_rq c = cpu_rq (cpus ! i)"
  shows "finished_rqs (cpus[i := c]) =
    finished_rqs cpus \<union> (if cpu_pc c = Finished then {cpu_rq c} else {})"
  (is "?L = ?R")
proof (rule set_eqI)
  fix q
  show "q \<in> ?L \<longleftrightarrow> q \<in> ?R"
    using assms by (auto simp: finished_rqs_iff nth_list_update split: if_splits)
qed

lemma not_finished_rq:
  assumes "distinct (map cpu_rq cpus)" and "i < length cpus" and "cpu_pc (cpus ! i) \<noteq> Finished"
  shows "cpu_rq (cpus ! i) \<notin> finished_rqs cpus"
  using assms by (auto simp: finished_rqs_iff distinct_conv_nth)

text \<open>A move that changes neither map nor the share of the CPU.\<close>

lemma sys_inv_local:
  assumes "sys_inv maps p0 a0 jobs (cpus, st)" and "i < length cpus"
    and "cpu_pc (cpus ! i) \<noteq> Finished" and "cpu_job c = cpu_job (cpus ! i)"
    and "cpu_pc c \<noteq> Finished" and "cpu_ok p0 a0 c"
    and "\<And>cg s. with_shares cg (cpus[i := c]) s = with_shares cg cpus s"
  shows "sys_inv maps p0 a0 jobs (cpus[i := c], st)"
  using assms
  by (auto simp: sys_inv_def finished_rqs_update list_all_length nth_list_update map_update
      list_update_same_conv intro!: map_option_cong)

text \<open>A move that adds to the entry of the CPU's cgroup.\<close>

context block_ctx
begin

lemma sys_inv_add:
  assumes "sys_inv maps p0 a0 jobs (cpus, st)" and "i < length cpus"
    and "cpu_pc (cpus ! i) \<noteq> Finished" and "cpu_job c = cpu_job (cpus ! i)"
    and "cpu_pc c \<noteq> Finished" and "cpu_ok p0 a0 c"
    and "\<And>cg s. with_shares cg (cpus[i := c]) s =
      (let w = with_shares cg cpus s in if cgroup_id v = cg then f w else w)"
    and "a0 (cgroup_id v) \<noteq> None"
  shows "sys_inv maps p0 a0 jobs (cpus[i := c], add_through maps (cgroup_id v) f st)"
  using assms
  by (auto simp: sys_inv_def finished_rqs_update list_all_length nth_list_update map_update
      list_update_same_conv add_through_pend add_through_acc Let_def
      intro!: map_option_cong split: option.splits)

text \<open>What the invariant says of a CPU that has not returned, and of its request and cgroup.\<close>

definition cpu_at :: "(u64 \<rightharpoonup> start_val_t) \<Rightarrow> ('ms, 'mt) block_state \<Rightarrow> cpu \<Rightarrow> start_val_t \<Rightarrow> bool" where
  "cpu_at p0 st k v \<longleftrightarrow> p0 (cpu_rq k) = Some v \<and>
     cpu_start k = (if cpu_pc k = LookupStart then None else Some v) \<and>
     cpu_pc k \<noteq> Finished \<and> pend st (cpu_rq k) = Some v \<and> acc st (cgroup_id v) \<noteq> None"

lemma sys_inv_cpu:
  assumes "sys_inv maps p0 a0 jobs (cpus, st)" and "distinct (map fst jobs)"
    and "i < length cpus" and "\<not> final (cpus ! i)"
  shows "\<exists>v. cpu_at p0 st (cpus ! i) v \<and> a0 (cgroup_id v) \<noteq> None \<and> cpu_ok p0 a0 (cpus ! i)"
proof -
  let ?k = "cpus ! i"
  from assms(1,3) have ok: "cpu_ok p0 a0 ?k" by (simp add: sys_inv_def list_all_length)
  then obtain v where v: "p0 (cpu_rq ?k) = Some v" "a0 (cgroup_id v) \<noteq> None"
    "cpu_start ?k = (if cpu_pc ?k = LookupStart then None else Some v)"
    by (auto simp: cpu_ok_def)
  have nfin: "cpu_pc ?k \<noteq> Finished" using assms(4) by (simp add: final_def)
  have "cpu_rq ?k \<notin> finished_rqs cpus"
    using not_finished_rq [OF _ assms(3) nfin] assms(1,2) by (auto simp: sys_inv_def comp_def)
  with assms(1) v ok nfin show ?thesis by (auto simp: sys_inv_def cpu_at_def)
qed

text \<open>The moves before the additions.\<close>

lemma sys_inv_enter:
  assumes inv: "sys_inv maps p0 a0 jobs (cpus, st)" and i: "i < length cpus"
    and k: "cpu_at p0 st (cpus ! i) v" "a0 (cgroup_id v) \<noteq> None"
    and step: "cpu_step maps now (cpus ! i) st = (c, st')"
    and pc: "cpu_pc (cpus ! i) \<in> {LookupStart, Ktime, LookupStats}"
  shows "sys_inv maps p0 a0 jobs (cpus[i := c], st')"
proof -
  let ?k = "cpus ! i"
  have fin: "cpu_pc ?k \<noteq> Finished" using k(1) by (simp add: cpu_at_def)
  have c: "st' = st \<and> c =
      (if cpu_pc ?k = LookupStart then ?k\<lparr>cpu_start := Some v, cpu_pc := Ktime\<rparr>
       else if cpu_pc ?k = Ktime then ?k\<lparr>cpu_delta := now - ts_ns v, cpu_pc := LookupStats\<rparr>
       else ?k\<lparr>cpu_pc := AddCount\<rparr>)"
    using step pc k(1) by (auto simp: cpu_step_def cpu_at_def)
  have "sys_inv maps p0 a0 jobs (cpus[i := c], st)"
    by (rule sys_inv_local [OF inv i fin])
      (use c pc k in \<open>auto simp: cpu_ok_def cpu_at_def with_shares_same [OF i] share_cases\<close>)
  with c show ?thesis by simp
qed

text \<open>The additions.\<close>

lemma sys_inv_adding:
  assumes inv: "sys_inv maps p0 a0 jobs (cpus, st)" and i: "i < length cpus"
    and k: "cpu_at p0 st (cpus ! i) v" "a0 (cgroup_id v) \<noteq> None"
    and step: "cpu_step maps now (cpus ! i) st = (c, st')"
    and pc: "cpu_pc (cpus ! i) \<in> {AddCount, AddLatency, AddBytes, AddError}"
  shows "sys_inv maps p0 a0 jobs (cpus[i := c], st')"
proof -
  let ?k = "cpus ! i"
  have fin: "cpu_pc ?k \<noteq> Finished" and start: "cpu_start ?k = Some v"
    using k(1) pc by (auto simp: cpu_at_def)
  note add = sys_inv_add [OF inv i fin] and shares = with_shares_add [OF i start]
  from pc consider "cpu_pc ?k = AddCount" | "cpu_pc ?k = AddLatency" | "cpu_pc ?k = AddBytes"
    | "cpu_pc ?k = AddError" "cpu_error ?k \<noteq> 0" | "cpu_pc ?k = AddError" "cpu_error ?k = 0" by auto
  then show ?thesis
  proof cases
    case 1
    then have c: "c = ?k\<lparr>cpu_pc := AddLatency\<rparr>"
      "st' = add_through maps (cgroup_id v) (\<lambda>s. s\<lparr>io_count := io_count s + 1\<rparr>) st"
      using step start by (auto simp: cpu_step_def)
    show ?thesis unfolding c
      by (rule add) (use 1 k start in \<open>simp_all add: cpu_ok_def cpu_at_def shares(1)\<close>)
  next
    case 2
    then have c: "c = ?k\<lparr>cpu_pc := AddBytes\<rparr>" "st' = add_through maps (cgroup_id v)
         (\<lambda>s. s\<lparr>total_latency_ns := total_latency_ns s + cpu_delta ?k\<rparr>) st"
      using step start by (auto simp: cpu_step_def)
    show ?thesis unfolding c
      by (rule add) (use 2 k start in \<open>simp_all add: cpu_ok_def cpu_at_def shares(2)\<close>)
  next
    case 3
    then have c: "c = ?k\<lparr>cpu_pc := AddError\<rparr>" "st' = add_through maps (cgroup_id v)
         (\<lambda>s. s\<lparr>total_bytes := total_bytes s + ucast (bytes v)\<rparr>) st"
      using step start by (auto simp: cpu_step_def)
    show ?thesis unfolding c
      by (rule add) (use 3 k start in \<open>simp_all add: cpu_ok_def cpu_at_def shares(3)\<close>)
  next
    case 4
    then have c: "c = ?k\<lparr>cpu_pc := DeleteStart\<rparr>"
      "st' = add_through maps (cgroup_id v) (\<lambda>s. s\<lparr>error_count := error_count s + 1\<rparr>) st"
      using step start by (auto simp: cpu_step_def)
    show ?thesis unfolding c
      by (rule add) (use 4 k start in \<open>simp_all add: cpu_ok_def cpu_at_def shares(4)\<close>)
  next
    case 5
    then have c: "c = ?k\<lparr>cpu_pc := DeleteStart\<rparr>" "st' = st"
      using step start by (auto simp: cpu_step_def)
    show ?thesis unfolding c
      by (rule sys_inv_local [OF inv i fin])
        (use 5 k start in \<open>simp_all add: cpu_ok_def cpu_at_def shares(4) Let_def\<close>)
  qed
qed

text \<open>The deletion.\<close>

lemma sys_inv_delete:
  assumes inv: "sys_inv maps p0 a0 jobs (cpus, st)" and i: "i < length cpus"
    and k: "cpu_at p0 st (cpus ! i) v" "cpu_ok p0 a0 (cpus ! i)"
    and step: "cpu_step maps now (cpus ! i) st = (c, st')" and pc: "cpu_pc (cpus ! i) = DeleteStart"
  shows "sys_inv maps p0 a0 jobs (cpus[i := c], st')"
proof -
  let ?k = "cpus ! i"
  have c: "c = ?k\<lparr>cpu_pc := Finished\<rparr>"
    "st' = st\<lparr>start_map := bpf_delete (start_ops maps) (start_map st) (cpu_rq ?k)\<rparr>"
    using step pc by (auto simp: cpu_step_def)
  have "with_shares cg (cpus[i := c]) s = with_shares cg cpus s" for cg s
    by (rule with_shares_same [OF i]) (simp add: c share_deleted pc)
  moreover have "p0 (cpu_rq ?k) = Some v" "cpu_pc ?k \<noteq> Finished" using k(1) by (simp_all add: cpu_at_def)
  ultimately show ?thesis
    using inv i k(2) pc
    by (auto simp: c sys_inv_def finished_rqs_update list_all_length nth_list_update map_update
        list_update_same_conv start.lookup_delete cpu_ok_def restrict_map_def
        intro!: map_option_cong)
qed

lemma sys_inv_step:
  assumes inv: "sys_inv maps p0 a0 jobs (cpus, st)" and dist: "distinct (map fst jobs)"
    and i: "i < length cpus" and nf: "\<not> final (cpus ! i)"
    and step: "cpu_step maps now (cpus ! i) st = (c, st')"
  shows "sys_inv maps p0 a0 jobs (cpus[i := c], st')"
proof -
  obtain v where v: "cpu_at p0 st (cpus ! i) v" "a0 (cgroup_id v) \<noteq> None" "cpu_ok p0 a0 (cpus ! i)"
    using sys_inv_cpu [OF inv dist i nf] by blast
  note moves = sys_inv_enter [OF inv i v(1,2) step] sys_inv_adding [OF inv i v(1,2) step]
    sys_inv_delete [OF inv i v(1,3) step]
  show ?thesis
    by (cases "cpu_pc (cpus ! i)") (use moves v(3) nf in \<open>auto simp: cpu_ok_def final_def\<close>)
qed

lemma sys_inv_interleaves:
  assumes "interleaves maps s t" and "distinct (map fst jobs)" and "sys_inv maps p0 a0 jobs s"
  shows "sys_inv maps p0 a0 jobs t"
  using assms(1,3) by (rule par_run_invariant) (rule sys_inv_step [OF _ assms(2)])

end

section \<open>All CPUs done\<close>

definition cpu_sample :: "cpu \<Rightarrow> io_sample" where
  "cpu_sample c =
     (case cpu_start c of
        Some v \<Rightarrow> Sample (cgroup_id v) (cpu_delta c) (bytes v) (cpu_error c)
      | None \<Rightarrow> Sample 0 0 0 0)"

lemma shares_finished:
  assumes "list_all (\<lambda>c. cpu_pc c = Finished \<and> cpu_start c \<noteq> None) cpus"
  shows "with_shares cg cpus s = fold add_sample (samples_of (map cpu_sample cpus) cg) s"
proof -
  have "total_share AddCount cg cpus = of_nat (length (samples_of (map cpu_sample cpus) cg)) \<and>
    total_share AddLatency cg cpus =
      sum_list (map smp_delta (samples_of (map cpu_sample cpus) cg)) \<and>
    total_share AddBytes cg cpus =
      sum_list (map (ucast \<circ> smp_bytes) (samples_of (map cpu_sample cpus) cg)) \<and>
    total_share AddError cg cpus =
      of_nat (length (filter (\<lambda>s. smp_error s \<noteq> 0) (samples_of (map cpu_sample cpus) cg)))"
    using assms
    by (induction cpus)
      (auto simp: total_share_def share_def samples_of_def cpu_sample_def split: option.splits)
  then show ?thesis
    by (intro cgroup_io_stats_t.equality) (simp_all add: with_shares_def fold_add_sample)
qed

lemma sys_inv_entering:
  assumes "list_all (\<lambda>(rq, e). \<exists>v. block_pend maps st rq = Some v \<and>
    block_acc maps st (cgroup_id v) \<noteq> None) jobs"
  shows "sys_inv maps (block_pend maps st) (block_acc maps st) jobs
    (map (\<lambda>(rq, e). entering rq e) jobs, st)"
proof -
  have shares: "with_shares cg (map (\<lambda>(rq, e). entering rq e) jobs) s = s" for cg s
    by (induction jobs)
      (auto simp: with_shares_def total_share_def share_def entering_def split: prod.split)
  have "finished_rqs (map (\<lambda>(rq, e). entering rq e) jobs) = {}"
    by (auto simp: finished_rqs_def entering_def)
  moreover have "map cpu_job (map (\<lambda>(rq, e). entering rq e) jobs) = jobs"
    by (induction jobs) (auto simp: entering_def)
  moreover have "list_all (cpu_ok (block_pend maps st) (block_acc maps st))
      (map (\<lambda>(rq, e). entering rq e) jobs)"
    using assms by (induction jobs) (auto simp: cpu_ok_def entering_def)
  moreover have "map_option (with_shares cg (map (\<lambda>(rq, e). entering rq e) jobs)) x = x" for cg x
    by (cases x) (simp_all add: shares)
  ultimately show ?thesis
    by (simp add: sys_inv_def restrict_map_def)
qed

section \<open>Any completions\<close>

text \<open>
  The same without an assumption on the entries: what a CPU holds, and the entries that no creation can
  touch, those that were there and those of cgroups without a completion.
\<close>

definition undisturbed ::
  "(u64 \<rightharpoonup> start_val_t) \<Rightarrow> (u64 \<rightharpoonup> cgroup_io_stats_t) \<Rightarrow> (u64 \<times> u32) list \<Rightarrow> u64 \<Rightarrow> bool" where
  "undisturbed p0 a0 jobs cg \<longleftrightarrow>
     a0 cg \<noteq> None \<or> (\<forall>(rq, e) \<in> set jobs. \<forall>v. p0 rq = Some v \<longrightarrow> cgroup_id v \<noteq> cg)"

definition cpu_fits :: "(u64 \<rightharpoonup> start_val_t) \<Rightarrow> (u64 \<rightharpoonup> cgroup_io_stats_t) \<Rightarrow> cpu \<Rightarrow> bool" where
  "cpu_fits p0 a0 c \<longleftrightarrow>
     (case cpu_start c of
        None \<Rightarrow> cpu_pc c = LookupStart \<or> cpu_pc c = Returned \<and> p0 (cpu_rq c) = None
      | Some v \<Rightarrow> p0 (cpu_rq c) = Some v \<and> cpu_pc c \<noteq> LookupStart \<and>
          (cpu_pc c \<in> {InitStats, LookupAgain, DropStart, Returned} \<longrightarrow> a0 (cgroup_id v) = None))"

definition released :: "cpu list \<Rightarrow> u64 set" where
  "released cpus = cpu_rq ` {c \<in> set cpus. final c}"

definition any_inv ::
  "('ms, 'mt) block_maps \<Rightarrow> (u64 \<rightharpoonup> start_val_t) \<Rightarrow> (u64 \<rightharpoonup> cgroup_io_stats_t) \<Rightarrow>
   (u64 \<times> u32) list \<Rightarrow> ('ms, 'mt) sys \<Rightarrow> bool" where
  "any_inv maps p0 a0 jobs s \<longleftrightarrow>
     map cpu_job (fst s) = jobs \<and> list_all (cpu_fits p0 a0) (fst s) \<and>
     block_pend maps (snd s) = p0 |` (- released (fst s)) \<and>
     (\<forall>cg. undisturbed p0 a0 jobs cg \<longrightarrow>
        block_acc maps (snd s) cg = map_option (with_shares cg (fst s)) (a0 cg))"

lemma released_update:
  assumes "i < length cpus" and "\<not> final (cpus ! i)" and "cpu_rq c = cpu_rq (cpus ! i)"
  shows "released (cpus[i := c]) = released cpus \<union> (if final c then {cpu_rq c} else {})"
  (is "?L = ?R")
proof (rule set_eqI)
  have iff: "q \<in> released cs \<longleftrightarrow> (\<exists>j < length cs. final (cs ! j) \<and> cpu_rq (cs ! j) = q)" for q cs
    by (auto simp: released_def in_set_conv_nth)
  show "q \<in> ?L \<longleftrightarrow> q \<in> ?R" for q
    using assms by (auto simp: iff nth_list_update split: if_splits)
qed

lemma any_inv_move:
  assumes "any_inv maps p0 a0 jobs (cpus, st)" and "i < length cpus" and "\<not> final (cpus ! i)"
    and "cpu_job c = cpu_job (cpus ! i)" and "cpu_fits p0 a0 c"
    and "block_pend maps st' = (if final c then (block_pend maps st)(cpu_rq c := None) else block_pend maps st)"
    and "\<And>cg. undisturbed p0 a0 jobs cg \<Longrightarrow>
      block_acc maps st' cg = map_option (with_shares cg (cpus[i := c])) (a0 cg)"
  shows "any_inv maps p0 a0 jobs (cpus[i := c], st')"
proof -
  have "map cpu_job (cpus[i := c]) = jobs"
    using assms(1,2,4) by (auto simp: any_inv_def map_update list_update_same_conv)
  moreover have "list_all (cpu_fits p0 a0) (cpus[i := c])"
    using assms(1,2,5) by (simp add: any_inv_def list_all_length nth_list_update)
  moreover have "block_pend maps st' = p0 |` (- released (cpus[i := c]))"
    using assms(1-4,6) by (auto simp: any_inv_def released_update restrict_map_def)
  ultimately show ?thesis using assms(7) by (simp add: any_inv_def)
qed

lemma share_none:
  "cpu_pc c \<in> {LookupStart, Ktime, LookupStats, InitStats, LookupAgain, DropStart, Returned, AddCount} \<Longrightarrow>
   share field cg c = 0"
  by (auto simp: share_def split: option.split)

text \<open>The request and the cgroup of a CPU that has not returned.\<close>

lemma any_inv_cpu:
  assumes "any_inv maps p0 a0 jobs (cpus, st)" and "distinct (map fst jobs)"
    and "i < length cpus" and "\<not> final (cpus ! i)"
  shows "block_pend maps st (cpu_rq (cpus ! i)) = p0 (cpu_rq (cpus ! i))" and "cpu_fits p0 a0 (cpus ! i)"
    and "p0 (cpu_rq (cpus ! i)) = Some v \<Longrightarrow> undisturbed p0 a0 jobs (cgroup_id v) \<longleftrightarrow> a0 (cgroup_id v) \<noteq> None"
proof -
  have d: "distinct (map cpu_rq cpus)" using assms(1,2) by (auto simp: any_inv_def comp_def)
  have "cpu_rq (cpus ! i) \<notin> released cpus"
  proof
    assume "cpu_rq (cpus ! i) \<in> released cpus"
    then obtain j where "j < length cpus" "final (cpus ! j)" "cpu_rq (cpus ! j) = cpu_rq (cpus ! i)"
      by (auto simp: released_def in_set_conv_nth)
    with d assms(3,4) show False by (metis distinct_conv_nth length_map nth_map)
  qed
  with assms(1) show "block_pend maps st (cpu_rq (cpus ! i)) = p0 (cpu_rq (cpus ! i))"
    by (simp add: any_inv_def)
  show "cpu_fits p0 a0 (cpus ! i)" using assms(1,3) by (simp add: any_inv_def list_all_length)
  have "cpu_job (cpus ! i) \<in> set jobs"
    using assms(1,3) by (auto simp: any_inv_def)
  then show "p0 (cpu_rq (cpus ! i)) = Some v \<Longrightarrow> undisturbed p0 a0 jobs (cgroup_id v) \<longleftrightarrow> a0 (cgroup_id v) \<noteq> None"
    by (auto simp: undisturbed_def)
qed

context block_ctx
begin

text \<open>Lookups, the clock, creations and deletions.\<close>

lemma any_inv_quiet:
  assumes inv: "any_inv maps p0 a0 jobs (cpus, st)" and "distinct (map fst jobs)"
    and i: "i < length cpus" and nf: "\<not> final (cpus ! i)"
    and step: "cpu_step maps now (cpus ! i) st = (c, st')"
    and pc: "cpu_pc (cpus ! i) \<notin> {AddCount, AddLatency, AddBytes, AddError}"
  shows "any_inv maps p0 a0 jobs (cpus[i := c], st')"
proof -
  let ?k = "cpus ! i"
  note k = any_inv_cpu [OF inv assms(2) i nf]
  have acc: "undisturbed p0 a0 jobs cg \<Longrightarrow> acc st cg = map_option (with_shares cg cpus) (a0 cg)" for cg
    using inv by (simp add: any_inv_def)
  show ?thesis
  proof (rule any_inv_move [OF inv i nf])
    show "cpu_job c = cpu_job ?k"
      using step pc nf by (cases "cpu_pc ?k") (auto simp: cpu_step_def final_def split: option.splits)
    show "cpu_fits p0 a0 c"
      using step pc nf k acc
      by (cases "cpu_pc ?k")
        (auto simp: cpu_step_def final_def cpu_fits_def split: option.splits)
    show "pend st' = (if final c then (pend st)(cpu_rq c := None) else pend st)"
      using step pc nf k
      by (cases "cpu_pc ?k")
        (auto simp: cpu_step_def final_def cpu_fits_def start.lookup_delete fun_upd_idem split: option.splits)
    fix cg assume u: "undisturbed p0 a0 jobs cg"
    have "acc st' cg = acc st cg"
      using step pc nf k u
      by (cases "cpu_pc ?k")
        (auto simp: cpu_step_def final_def cpu_fits_def split: option.splits intro!: stats.lookup_update_other)
    moreover have "share field cg c = share field cg ?k" for field
      using step pc nf
      by (cases "cpu_pc ?k")
        (auto simp: cpu_step_def final_def share_none share_deleted split: option.splits)
    then have "with_shares cg (cpus[i := c]) s = with_shares cg cpus s" for s by (rule with_shares_same [OF i])
    ultimately show "acc st' cg = map_option (with_shares cg (cpus[i := c])) (a0 cg)"
      using acc [OF u] by (cases "a0 cg") simp_all
  qed
qed

lemma any_inv_add:
  assumes inv: "any_inv maps p0 a0 jobs (cpus, st)" and "distinct (map fst jobs)"
    and i: "i < length cpus" and nf: "\<not> final (cpus ! i)" "\<not> final c"
    and c: "cpu_job c = cpu_job (cpus ! i)" "cpu_start (cpus ! i) = Some v" "cpu_fits p0 a0 c"
    and shares: "\<And>cg s. with_shares cg (cpus[i := c]) s =
      (let w = with_shares cg cpus s in if cgroup_id v = cg then f w else w)"
  shows "any_inv maps p0 a0 jobs (cpus[i := c], add_through maps (cgroup_id v) f st)"
proof (rule any_inv_move [OF inv i nf(1) c(1,3)])
  show "pend (add_through maps (cgroup_id v) f st) = (if final c then (pend st)(cpu_rq c := None) else pend st)"
    using nf(2) by (simp add: add_through_pend)
  fix cg assume u: "undisturbed p0 a0 jobs cg"
  then have "acc st cg = map_option (with_shares cg cpus) (a0 cg)" using inv by (simp add: any_inv_def)
  moreover have "a0 cg \<noteq> None" if "cgroup_id v = cg"
    using any_inv_cpu [OF inv assms(2) i nf(1)] u c(2) that by (auto simp: cpu_fits_def)
  ultimately show "acc (add_through maps (cgroup_id v) f st) cg = map_option (with_shares cg (cpus[i := c])) (a0 cg)"
    by (cases "a0 cg") (auto simp: add_through_acc shares Let_def split: option.splits)
qed

lemma any_inv_adding:
  assumes inv: "any_inv maps p0 a0 jobs (cpus, st)" and d: "distinct (map fst jobs)"
    and i: "i < length cpus" and nf: "\<not> final (cpus ! i)"
    and step: "cpu_step maps now (cpus ! i) st = (c, st')"
    and pc: "cpu_pc (cpus ! i) \<in> {AddCount, AddLatency, AddBytes, AddError}"
  shows "any_inv maps p0 a0 jobs (cpus[i := c], st')"
proof -
  let ?k = "cpus ! i"
  have fits: "cpu_fits p0 a0 ?k" by (rule any_inv_cpu(2) [OF inv d i nf])
  then obtain v where start: "cpu_start ?k = Some v" using pc by (auto simp: cpu_fits_def split: option.splits)
  note shares = with_shares_add [OF i start]
  from pc consider "cpu_pc ?k = AddCount" | "cpu_pc ?k = AddLatency" | "cpu_pc ?k = AddBytes"
    | "cpu_pc ?k = AddError" by auto
  then show ?thesis
  proof cases
    case 4
    show ?thesis
    proof (cases "cpu_error ?k = 0")
      case True
      then have c: "c = ?k\<lparr>cpu_pc := DeleteStart\<rparr>" "st' = st" using step 4 by (auto simp: cpu_step_def)
      show ?thesis unfolding c
        by (rule any_inv_move [OF inv i nf])
          (use 4 True fits start inv in \<open>auto simp: final_def cpu_fits_def any_inv_def shares(4) Let_def
            intro!: map_option_cong\<close>)
    next
      case False
      then have c: "c = ?k\<lparr>cpu_pc := DeleteStart\<rparr>"
        "st' = add_through maps (cgroup_id v) (\<lambda>s. s\<lparr>error_count := error_count s + 1\<rparr>) st"
        using step 4 start by (auto simp: cpu_step_def)
      show ?thesis unfolding c
        by (rule any_inv_add [OF inv d i nf]) (use 4 False fits start in \<open>simp_all add: final_def cpu_fits_def shares(4)\<close>)
    qed
  qed (use step start fits in \<open>auto simp: cpu_step_def final_def cpu_fits_def shares(1-3) intro!: any_inv_add [OF inv d i nf]\<close>)
qed

lemma any_inv_interleaves:
  assumes "interleaves maps s t" and "distinct (map fst jobs)" and "any_inv maps p0 a0 jobs s"
  shows "any_inv maps p0 a0 jobs t"
  using assms(1,3) by (rule par_run_invariant) (metis any_inv_quiet [OF _ assms(2)] any_inv_adding [OF _ assms(2)])

end

lemma any_inv_entering:
  "any_inv maps (block_pend maps st) (block_acc maps st) jobs (map (\<lambda>(rq, e). entering rq e) jobs, st)"
proof -
  have shares: "with_shares cg (map (\<lambda>(rq, e). entering rq e) jobs) s = s" for cg s
    by (induction jobs)
      (auto simp: with_shares_def total_share_def share_def entering_def split: prod.split)
  have "released (map (\<lambda>(rq, e). entering rq e) jobs) = {}"
    by (auto simp: released_def entering_def final_def)
  moreover have "map cpu_job (map (\<lambda>(rq, e). entering rq e) jobs) = jobs"
    by (induction jobs) (auto simp: entering_def)
  moreover have "list_all (cpu_fits p0 a0) (map (\<lambda>(rq, e). entering rq e) jobs)" for p0 a0
    by (induction jobs) (auto simp: cpu_fits_def entering_def)
  moreover have "map_option (with_shares cg (map (\<lambda>(rq, e). entering rq e) jobs)) x = x" for cg x
    by (cases x) (simp_all add: shares)
  ultimately show ?thesis by (simp add: any_inv_def restrict_map_def)
qed

text \<open>Once all have returned.\<close>

lemma shares_returned:
  assumes "\<And>c v. c \<in> set cpus \<Longrightarrow> cpu_start c = Some v \<Longrightarrow> cgroup_id v = cg \<Longrightarrow> cpu_pc c = Finished"
  shows "with_shares cg cpus s =
    fold add_sample (samples_of (map cpu_sample (filter (\<lambda>c. cpu_start c \<noteq> None) cpus)) cg) s"
proof -
  let ?ss = "samples_of (map cpu_sample (filter (\<lambda>c. cpu_start c \<noteq> None) cpus)) cg"
  have "total_share AddCount cg cpus = of_nat (length ?ss) \<and>
    total_share AddLatency cg cpus = sum_list (map smp_delta ?ss) \<and>
    total_share AddBytes cg cpus = sum_list (map (ucast \<circ> smp_bytes) ?ss) \<and>
    total_share AddError cg cpus = of_nat (length (filter (\<lambda>s. smp_error s \<noteq> 0) ?ss))"
    using assms
  proof (induction cpus)
    case (Cons c cpus)
    then have "cpu_start c = Some v \<Longrightarrow> cgroup_id v = cg \<Longrightarrow> cpu_pc c = Finished" for v by simp
    moreover note Cons.IH [OF Cons.prems [OF list.set_intros(2)]]
    ultimately show ?case
      by (cases "cpu_start c") (auto simp: total_share_def share_def samples_of_def cpu_sample_def)
  qed (simp add: total_share_def samples_of_def)
  then show ?thesis
    by (intro cgroup_io_stats_t.equality) (simp_all add: with_shares_def fold_add_sample)
qed

lemma any_inv_done:
  assumes "any_inv maps p0 a0 jobs (cpus, st)" and "list_all final cpus"
  shows "map cpu_job cpus = jobs" and "list_all (\<lambda>c. cpu_start c = p0 (cpu_rq c)) cpus"
    and "block_pend maps st = p0 |` (- set (map fst jobs))"
    and "undisturbed p0 a0 jobs cg \<Longrightarrow> block_acc maps st cg =
      map_option (fold add_sample (samples_of (map cpu_sample (filter (\<lambda>c. cpu_start c \<noteq> None) cpus)) cg)) (a0 cg)"
proof -
  show jobs: "map cpu_job cpus = jobs" using assms(1) by (simp add: any_inv_def)
  have fits: "cpu_fits p0 a0 c" "final c" if "c \<in> set cpus" for c
    using assms that by (auto simp: any_inv_def list_all_iff)
  then have "cpu_start c = p0 (cpu_rq c)" if "c \<in> set cpus" for c
    using that by (fastforce simp: cpu_fits_def final_def split: option.splits)
  then show "list_all (\<lambda>c. cpu_start c = p0 (cpu_rq c)) cpus" by (simp add: list_all_iff)
  have "released cpus = set (map fst jobs)"
    using assms(2) by (auto simp: released_def list_all_iff jobs [symmetric])
  with assms(1) show "block_pend maps st = p0 |` (- set (map fst jobs))" by (simp add: any_inv_def)
  assume u: "undisturbed p0 a0 jobs cg"
  have "cpu_pc c = Finished" if c: "c \<in> set cpus" "cpu_start c = Some v" "cgroup_id v = cg" for c v
  proof -
    from fits(1) [OF c(1)] c(2) have p: "p0 (cpu_rq c) = Some v" "cpu_pc c = Returned \<Longrightarrow> a0 cg = None"
      using c(3) by (auto simp: cpu_fits_def)
    have "cpu_job c \<in> set jobs" using c(1) by (auto simp: jobs [symmetric])
    with u p(1) c(3) have "a0 cg \<noteq> None" by (auto simp: undisturbed_def)
    with p(2) fits(2) [OF c(1)] show ?thesis by (auto simp: final_def)
  qed
  then have "with_shares cg cpus = fold add_sample (samples_of (map cpu_sample (filter (\<lambda>c. cpu_start c \<noteq> None) cpus)) cg)"
    by (intro ext shares_returned)
  with assms(1) u show "block_acc maps st cg =
      map_option (fold add_sample (samples_of (map cpu_sample (filter (\<lambda>c. cpu_start c \<noteq> None) cpus)) cg)) (a0 cg)"
    by (simp add: any_inv_def)
qed

section \<open>Every interleaving ends\<close>

fun rank :: "pc \<Rightarrow> nat" where
  "rank LookupStart = 12" | "rank Ktime = 11" | "rank LookupStats = 10" | "rank InitStats = 9"
| "rank LookupAgain = 8" | "rank AddCount = 6" | "rank AddLatency = 5" | "rank AddBytes = 4"
| "rank AddError = 3" | "rank DeleteStart = 2" | "rank DropStart = 1" | "rank Finished = 0"
| "rank Returned = 0"

lemma cpu_step_rank:
  "\<not> final c \<Longrightarrow> cpu_step maps now c st = (c', st') \<Longrightarrow> rank (cpu_pc c') < rank (cpu_pc c)"
  by (cases "cpu_pc c") (auto simp: cpu_step_def final_def split: option.splits)

interpretation block_cpus: ending_program "cpu_step maps" final "rank \<circ> cpu_pc"
  by unfold_locales (simp add: cpu_step_rank)

section \<open>Properties\<close>

text \<open>
  Splitting the program at its helper calls and atomic additions loses nothing: a CPU that runs
  the pieces with no other CPU in between returns within ten steps, and leaves both maps with the
  entries \<open>block_rq_complete\<close> leaves.
\<close>

lemma cpu_alone_refines:
  assumes "block_ctx maps"
  shows "\<exists>c st'. cpu_run 10 maps now (entering rq error, st) = (c, st') \<and> final c \<and>
    block_pend maps st' = block_pend maps (block_rq_complete maps now rq error nr st) \<and>
    block_acc maps st' = block_acc maps (block_rq_complete maps now rq error nr st)"
  using block_ctx.cpu_alone [OF assms] .

lemma cpu_alone_refines_witness:
  "\<exists>c st'. cpu_run 10 hash_block_maps 150 (entering 5 0, full_state) = (c, st') \<and> final c \<and>
    block_pend hash_block_maps st' =
      block_pend hash_block_maps (block_rq_complete hash_block_maps 150 5 0 512 full_state) \<and>
    block_acc hash_block_maps st' =
      block_acc hash_block_maps (block_rq_complete hash_block_maps 150 5 0 512 full_state)"
  by (rule cpu_alone_refines [OF hash_block.block_ctx_axioms])

text \<open>
  C5: completions of different requests running on any number of CPUs, interleaved in any way, are
  accounted exactly when every cgroup concerned already has an entry: once all have returned, each
  entry is the old one plus the samples of the CPUs (no addition lost, none doubled, none on another
  cgroup), each sample carries the cgroup and bytes recorded at issue and the status of its
  completion, and exactly the completed requests have left the in-flight map.
\<close>

theorem concurrent_completions_exact:
  assumes "block_ctx maps" and "distinct (map fst jobs)"
    and "list_all (\<lambda>(rq, e). \<exists>v. block_pend maps st rq = Some v \<and>
      block_acc maps st (cgroup_id v) \<noteq> None) jobs"
    and "interleaves maps (map (\<lambda>(rq, e). entering rq e) jobs, st) (cpus, st')"
    and "list_all final cpus"
  shows "map cpu_job cpus = jobs \<and>
    list_all (\<lambda>c. cpu_start c = block_pend maps st (cpu_rq c)) cpus \<and>
    block_pend maps st' = block_pend maps st |` (- set (map fst jobs)) \<and>
    block_acc maps st' cg =
      map_option (fold add_sample (samples_of (map cpu_sample cpus) cg)) (block_acc maps st cg)"
proof -
  have inv: "sys_inv maps (block_pend maps st) (block_acc maps st) jobs (cpus, st')"
    by (rule block_ctx.sys_inv_interleaves [OF assms(1,4,2) sys_inv_entering [OF assms(3)]])
  then have ok: "list_all (cpu_ok (block_pend maps st) (block_acc maps st)) cpus"
    and jobs: "map cpu_job cpus = jobs"
    by (simp_all add: sys_inv_def)
  have started: "list_all (\<lambda>c. cpu_start c = block_pend maps st (cpu_rq c)) cpus"
    using ok assms(5) by (fastforce simp: list_all_iff cpu_ok_def final_def)
  have fin: "list_all (\<lambda>c. cpu_pc c = Finished \<and> cpu_start c \<noteq> None) cpus"
    using ok assms(5) by (fastforce simp: list_all_iff cpu_ok_def final_def)
  then have "finished_rqs cpus = set (map fst jobs)"
    by (auto simp: finished_rqs_def list_all_iff jobs [symmetric])
  moreover have "with_shares cg cpus = fold add_sample (samples_of (map cpu_sample cpus) cg)"
    by (intro ext shares_finished fin)
  ultimately show ?thesis
    using inv started by (simp add: sys_inv_def)
qed

text \<open>Two requests of cgroup 7, which has an entry, on two CPUs.\<close>

definition pair_state :: "((u64 \<times> start_val_t) list, (u64 \<times> cgroup_io_stats_t) list) block_state" where
  "pair_state =
     \<lparr>start_map = [(1, \<lparr>ts_ns = 100, bytes = 512, cgroup_id = 7\<rparr>),
                   (2, \<lparr>ts_ns = 110, bytes = 256, cgroup_id = 7\<rparr>)],
      stats_by_cgroup = [(7, zero_io_stats)]\<rparr>"

definition pair_schedule :: "(nat \<times> u64) list" where
  "pair_schedule =
     [(0, 150), (1, 150), (0, 150), (1, 160), (1, 160), (0, 150), (1, 160), (0, 150), (0, 150),
      (1, 160), (1, 160), (0, 150), (0, 150), (1, 160), (1, 160), (0, 150)]"

theorem concurrent_completions_exact_witness:
  "\<exists>cpus st'. interleaves hash_block_maps
       (map (\<lambda>(rq, e). entering rq e) [(1, 0), (2, 5)], pair_state) (cpus, st') \<and>
     block_acc hash_block_maps st' 7 =
       map_option (fold add_sample (samples_of (map cpu_sample cpus) 7))
         (block_acc hash_block_maps pair_state 7)"
proof -
  let ?start = "(map (\<lambda>(rq, e). entering rq e) [(1, 0), (2, 5)], pair_state)"
  have "\<exists>cpus st. sched_run (cpu_step hash_block_maps) final pair_schedule ?start = Some (cpus, st) \<and>
     list_all final cpus"
    by (simp add: pair_schedule_def sched_move_def cpu_step_def entering_def final_def
        pair_state_def bpf_simps add_through_def zero_io_stats_def)
  then obtain cpus st where run: "interleaves hash_block_maps ?start (cpus, st)"
    and fin: "list_all final cpus"
    by (blast intro: sched_run_par_run)
  have "block_acc hash_block_maps st 7 =
      map_option (fold add_sample (samples_of (map cpu_sample cpus) 7))
        (block_acc hash_block_maps pair_state 7)"
    by (rule concurrent_completions_exact [OF hash_block.block_ctx_axioms _ _ run fin,
          THEN conjunct2, THEN conjunct2, THEN conjunct2])
      (simp_all add: pair_state_def bpf_simps)
  with run show ?thesis by blast
qed

text \<open>
  C6: completions in any situation: in flight or not, with an entry for their cgroup or without, with a
  full table. There is no infinite interleaving, from every state reached all CPUs can return, and
  wherever the system stops every CPU has looked up its own request, every completed request has
  left the in-flight map and no other, and every cgroup that had an entry or is not concerned holds exactly
  its old entry and the samples of its requests, whatever happens at the entries still being created.
\<close>

theorem completions_return_accounted:
  assumes "block_ctx maps" and "distinct (map fst jobs)"
    and "interleaves maps (map (\<lambda>(rq, e). entering rq e) jobs, st) s"
  shows "wfP (\<lambda>t s. interleave maps s t) \<and> (\<exists>t. interleaves maps s t \<and> list_all final (fst t)) \<and>
    (\<forall>cpus st'. interleaves maps s (cpus, st') \<and> (\<forall>t. \<not> interleave maps (cpus, st') t) \<longrightarrow>
       map cpu_job cpus = jobs \<and>
       list_all (\<lambda>c. cpu_start c = block_pend maps st (cpu_rq c)) cpus \<and>
       block_pend maps st' = block_pend maps st |` (- set (map fst jobs)) \<and>
       (\<forall>cg. undisturbed (block_pend maps st) (block_acc maps st) jobs cg \<longrightarrow>
          block_acc maps st' cg =
            map_option (fold add_sample (samples_of (map cpu_sample (filter (\<lambda>c. cpu_start c \<noteq> None) cpus)) cg))
              (block_acc maps st cg)))"
proof (intro conjI allI impI)
  show "wfP (\<lambda>t s. interleave maps s t)" by (rule block_cpus.no_infinite_run)
  show "\<exists>t. interleaves maps s t \<and> list_all final (fst t)" by (rule block_cpus.all_return)
next
  fix cpus st' assume t: "interleaves maps s (cpus, st') \<and> (\<forall>t. \<not> interleave maps (cpus, st') t)"
  then have fin: "list_all final cpus" using block_cpus.stuck_over [of maps "(cpus, st')"] by simp
  have inv: "any_inv maps (block_pend maps st) (block_acc maps st) jobs (cpus, st')"
    using t assms(3) by (intro block_ctx.any_inv_interleaves [OF assms(1) _ assms(2) any_inv_entering])
      (blast intro: par_run_trans)
  note returned = any_inv_done [OF inv fin]
  show "map cpu_job cpus = jobs" by (rule returned(1))
  show "list_all (\<lambda>c. cpu_start c = block_pend maps st (cpu_rq c)) cpus" by (rule returned(2))
  show "block_pend maps st' = block_pend maps st |` (- set (map fst jobs))" by (rule returned(3))
  show "block_acc maps st' cg =
      map_option (fold add_sample (samples_of (map cpu_sample (filter (\<lambda>c. cpu_start c \<noteq> None) cpus)) cg))
        (block_acc maps st cg)" if "undisturbed (block_pend maps st) (block_acc maps st) jobs cg" for cg
    using that by (rule returned(4))
qed

text \<open>Two completions of which one finds the table full: its request leaves, the other is accounted.\<close>

theorem completions_return_accounted_witness:
  "\<exists>cpus st'. interleaves hash_block_maps (map (\<lambda>(rq, e). entering rq e) [(5, 0), (9, 0)], full_state) (cpus, st') \<and>
     list_all final cpus \<and> block_pend hash_block_maps st' = Map.empty"
proof -
  let ?start = "(map (\<lambda>(rq, e). entering rq e) [(5, 0), (9, 0)], full_state)"
  note all = completions_return_accounted [OF hash_block.block_ctx_axioms _ par_run.here, of "[(5, 0), (9, 0)]" full_state]
  obtain cpus st' where t: "interleaves hash_block_maps ?start (cpus, st')" "list_all final cpus"
    using all by auto
  then have "\<forall>t. \<not> interleave hash_block_maps (cpus, st') t"
    using block_cpus.stuck_over [of hash_block_maps "(cpus, st')"] by simp
  with all t(1) have "block_pend hash_block_maps st' = block_pend hash_block_maps full_state |` (- set (map fst [(5, 0), (9 :: u64, 0 :: u32)]))"
    by simp
  moreover have "\<dots> = Map.empty" by (auto simp: full_state_def bpf_simps restrict_map_def)
  ultimately show ?thesis using t by metis
qed

text \<open>Two requests of cgroup 7 in flight, no entry for the cgroup yet, and a schedule.\<close>

definition race_state :: "((u64 \<times> start_val_t) list, (u64 \<times> cgroup_io_stats_t) list) block_state" where
  "race_state =
     \<lparr>start_map = [(1, \<lparr>ts_ns = 100, bytes = 512, cgroup_id = 7\<rparr>),
                   (2, \<lparr>ts_ns = 100, bytes = 512, cgroup_id = 7\<rparr>)],
      stats_by_cgroup = []\<rparr>"

definition race_schedule :: "(nat \<times> u64) list" where
  "race_schedule =
     [(0, 150), (0, 150), (0, 150), (1, 150), (1, 150), (1, 150),
      (0, 150), (0, 150), (0, 150), (0, 150), (0, 150), (0, 150), (0, 150),
      (1, 150), (1, 150), (1, 150), (1, 150), (1, 150), (1, 150), (1, 150)]"

text \<open>
  C7: the first two completions of a cgroup can lose one of them. Both CPUs find no entry; the first
  creates it, adds its sample and returns; the second then creates it again (\<open>BPF_ANY\<close> replaces) and
  adds its own. Both have returned normally and one of the two operations is counted, where running
  them one after the other counts two.
\<close>

theorem concurrent_first_completions_lose_sample:
  "\<exists>cpus st. interleaves hash_block_maps ([entering 1 0, entering 2 0], race_state) (cpus, st) \<and>
     list_all (\<lambda>c. cpu_pc c = Finished) cpus \<and>
     map_option io_count (block_acc hash_block_maps st 7) = Some 1 \<and>
     map_option io_count (block_acc hash_block_maps
       (block_rq_complete hash_block_maps 150 2 0 512
         (block_rq_complete hash_block_maps 150 1 0 512 race_state)) 7) = Some 2"
proof -
  have seq: "map_option io_count (block_acc hash_block_maps
       (block_rq_complete hash_block_maps 150 2 0 512
         (block_rq_complete hash_block_maps 150 1 0 512 race_state)) 7) = Some 2"
    by (simp add: block_rq_complete_def race_state_def bpf_simps hash_update_def Let_def
        stats_by_cgroup_entries_def add_io_stats_def zero_io_stats_def)
  have "\<exists>cpus st. sched_run (cpu_step hash_block_maps) final race_schedule
      ([entering 1 0, entering 2 0], race_state) = Some (cpus, st) \<and>
     list_all (\<lambda>c. cpu_pc c = Finished) cpus \<and>
     map_option io_count (block_acc hash_block_maps st 7) = Some 1"
    by (simp add: race_schedule_def sched_move_def cpu_step_def entering_def final_def race_state_def
        bpf_simps hash_update_def stats_by_cgroup_entries_def add_through_def zero_io_stats_def)
  with seq show ?thesis by (blast intro: sched_run_par_run)
qed

end
