(* ===== verification/MidwayRead.thy ===== *)
theory MidwayRead
  imports BlockInterleave CollectorLoop
begin

text \<open>
  The collector reads an entry while completions are half-way through their atomic additions
  (\<open>ebpf/latency/block_latency.c\<close>, lines 80 to 84, against \<open>collector/main.go\<close>, lines 153 to 170). What it
  reads may hold the count of a completion and not yet its latency. Because the count is added first, the
  mean latency of the row is never overstated and the failures are never more than the completions.

  An entry is read at one moment: the copy that the system call makes of it is not cut.
\<close>

section \<open>Additions under way\<close>

text \<open>The CPU has added its completion to the count of the cgroup.\<close>

definition counted :: "u64 \<Rightarrow> cpu \<Rightarrow> bool" where
  "counted cg c \<longleftrightarrow> share AddCount cg c \<noteq> 0"

lemma count_share: "share AddCount cg c = (if counted cg c then 1 else 0)"
  by (simp add: counted_def share_def split: option.split)

text \<open>The other additions of a CPU come later.\<close>

lemma later_shares:
  "unat (share AddLatency cg c) \<le> (if counted cg c then unat (cpu_delta c) else 0)"
  "unat (share AddError cg c) \<le> (if counted cg c then 1 else 0)"
  by (simp_all add: counted_def share_def split: option.split)

lemma unat_add_le: "unat (a + b :: u64) \<le> unat a + unat b"
  by (simp add: unat_word_ariths)

lemma unat_sum_filter_le:
  "(\<And>x. x \<in> set xs \<Longrightarrow> unat (f x :: u64) \<le> (if P x then D else 0)) \<Longrightarrow>
   unat (sum_list (map f xs)) \<le> length (filter P xs) * D"
proof (induction xs)
  case (Cons x xs)
  have "unat (f x + sum_list (map f xs)) \<le> unat (f x) + unat (sum_list (map f xs))" by (rule unat_add_le)
  also have "\<dots> \<le> (if P x then D else 0) + length (filter P xs) * D"
    by (intro add_mono Cons) (use Cons.prems in auto)
  finally show ?case by (simp split: if_splits)
qed simp

lemma count_total: "total_share AddCount cg cpus = of_nat (length (filter (counted cg) cpus))"
  by (induction cpus) (simp_all add: total_share_def count_share)

lemma midway_bounds:
  assumes deltas: "\<forall>c \<in> set cpus. unat (cpu_delta c) \<le> D"
    and errors: "unat (error_count s) \<le> unat (io_count s)"
    and latency: "unat (total_latency_ns s) \<le> unat (io_count s) * D"
    and room: "unat (io_count s) + length cpus < 2 ^ 64"
    and n_def: "n = unat (io_count s) + length (filter (counted cg) cpus)"
  shows "unat (io_count (with_shares cg cpus s)) = n"
    and "unat (error_count (with_shares cg cpus s)) \<le> n"
    and "unat (total_latency_ns (with_shares cg cpus s)) \<le> n * D"
proof -
  let ?k = "length (filter (counted cg) cpus)"
  have "?k \<le> length cpus" by simp
  with room have k: "unat (io_count s) + ?k < 2 ^ 64" by linarith
  show "unat (io_count (with_shares cg cpus s)) = n"
    using k unfolding n_def with_shares_def count_total cgroup_io_stats_t.simps
    by (simp add: unat_word_ariths unat_of_nat)
  have "unat (total_share AddError cg cpus) \<le> ?k * 1"
    unfolding total_share_def by (rule unat_sum_filter_le) (rule later_shares(2))
  with errors unat_add_le [of "error_count s" "total_share AddError cg cpus"]
  show "unat (error_count (with_shares cg cpus s)) \<le> n" by (simp add: with_shares_def n_def)
  have "unat (total_share AddLatency cg cpus) \<le> ?k * D"
    unfolding total_share_def
  proof (rule unat_sum_filter_le)
    fix c assume "c \<in> set cpus"
    with deltas later_shares(1) [of cg c] show "unat (share AddLatency cg c) \<le> (if counted cg c then D else 0)"
      by (auto split: if_splits intro: le_trans)
  qed
  with latency unat_add_le [of "total_latency_ns s" "total_share AddLatency cg cpus"]
  show "unat (total_latency_ns (with_shares cg cpus s)) \<le> n * D" by (simp add: with_shares_def n_def algebra_simps)
qed

lemma mean_le: "unat (l :: u64) \<le> unat n * D \<Longrightarrow> unat (l div n) \<le> D"
proof -
  assume "unat l \<le> unat n * D"
  then have "unat l div unat n \<le> D"
    by (metis div_le_mono div_mult_self1_is_m le_zero_eq nonzero_mult_div_cancel_left div_by_0 not_gr_zero zero_le)
  then show ?thesis by (simp add: unat_div)
qed

section \<open>Property\<close>

text \<open>
  The collector may read the entry of a cgroup at any moment of any interleaving of completions. If
  no latency exceeds \<open>D\<close>, the entry was sound before (mean at most \<open>D\<close>, no more failures than completions) and
  its count has room for the completions, the row made of what is read shows a mean latency of at most \<open>D\<close>
  and no more failures than completions, and its count is that of the entry before plus that of the
  CPUs that have counted themselves.
\<close>

lemma midway_row_sound:
  assumes "block_ctx maps" and "distinct (map fst jobs)"
    and "list_all (\<lambda>(rq, e). \<exists>v. block_pend maps st rq = Some v \<and>
      block_acc maps st (cgroup_id v) \<noteq> None) jobs"
    and "interleaves maps (map (\<lambda>(rq, e). entering rq e) jobs, st) (cpus, st')"
    and "block_acc maps st cg = Some s0" and "block_acc maps st' cg = Some s"
    and "\<forall>c \<in> set cpus. unat (cpu_delta c) \<le> D"
    and "unat (error_count s0) \<le> unat (io_count s0)" and "unat (total_latency_ns s0) \<le> unat (io_count s0) * D"
    and "unat (io_count s0) + length jobs < 2 ^ 64"
    and "row = block_row path cg (io_of_c s)"
  shows "unat (AvgNs row) \<le> D \<and> unat (ErrorCount (Stats row)) \<le> unat (IOCount (Stats row)) \<and>
    unat (IOCount (Stats row)) = unat (io_count s0) + length (filter (counted cg) cpus)"
proof -
  have inv: "sys_inv maps (block_pend maps st) (block_acc maps st) jobs (cpus, st')"
    by (rule block_ctx.sys_inv_interleaves [OF assms(1,4,2) sys_inv_entering [OF assms(3)]])
  then have s: "s = with_shares cg cpus s0" and len: "length cpus = length jobs"
    using assms(5,6) by (auto simp: sys_inv_def)
  note bounds = midway_bounds [OF assms(7-9), unfolded len, OF assms(10) HOL.refl, of cg, folded s]
  have "unat (total_latency_ns s div io_count s) \<le> D"
    by (rule mean_le) (use bounds(1,3) in simp)
  with bounds(1,2) show ?thesis by (simp add: assms(11) block_row_def io_of_c_def)
qed

text \<open>Two completions: one has added its count and its latency, the other nothing.\<close>

definition midway_schedule :: "(nat \<times> u64) list" where
  "midway_schedule = [(0, 150), (1, 150), (0, 150), (1, 160), (1, 160), (0, 150), (0, 150), (0, 150)]"

lemma midway_row_sound_witness:
  "\<exists>cpus st' s. interleaves hash_block_maps
       (map (\<lambda>(rq, e). entering rq e) [(1, 0), (2, 5)], pair_state) (cpus, st') \<and>
     block_acc hash_block_maps st' 7 = Some s \<and> io_count s = 1 \<and>
     unat (AvgNs (block_row ''/kubepods.slice'' 7 (io_of_c s))) \<le> 50"
proof -
  let ?jobs = "[(1, 0), (2, 5)] :: (u64 \<times> u32) list"
  let ?start = "(map (\<lambda>(rq, e). entering rq e) ?jobs, pair_state)"
  have "\<exists>cpus st s. sched_run (cpu_step hash_block_maps) final midway_schedule ?start = Some (cpus, st) \<and>
     (\<forall>c \<in> set cpus. unat (cpu_delta c) \<le> 50) \<and> block_acc hash_block_maps st 7 = Some s \<and> io_count s = 1"
    by (simp add: midway_schedule_def sched_move_def cpu_step_def entering_def final_def
        pair_state_def bpf_simps add_through_def zero_io_stats_def)
  then obtain cpus st s where run: "interleaves hash_block_maps ?start (cpus, st)"
    and d: "\<forall>c \<in> set cpus. unat (cpu_delta c) \<le> 50" and s: "block_acc hash_block_maps st 7 = Some s" "io_count s = 1"
    by (blast intro: sched_run_par_run)
  have "block_acc hash_block_maps pair_state 7 = Some zero_io_stats"
    by (simp add: pair_state_def bpf_simps)
  from midway_row_sound [OF hash_block.block_ctx_axioms _ _ run this s(1) d _ _ _ HOL.refl, of "''/kubepods.slice''"]
  have "unat (AvgNs (block_row ''/kubepods.slice'' 7 (io_of_c s))) \<le> 50"
    by (simp add: pair_state_def bpf_simps zero_io_stats_def)
  with run s show ?thesis by blast
qed

end
