(* ===== verification/PassAmid.thy ===== *)
theory PassAmid
  imports MidwayRead LivePass
begin

text \<open>
  A whole pass of the collector (\<open>readStats\<close> of \<open>collector/main.go\<close>) while completions are under way on
  several CPUs (\<open>block_rq_complete\<close> of \<open>ebpf/latency/block_latency.c\<close>, piece by piece): before every entry
  it reads, the CPUs execute any number of pieces. Every row lies, column by column, between the
  entry as it was and that entry with all completions under way added.
\<close>

section \<open>CPUs and maps as what the collector reads\<close>

type_synonym block_sys = "((u64 \<times> start_val_t) list, (u64 \<times> cgroup_io_stats_t) list) sys"

definition sys_block :: "(block_sys, CgroupIOStats) map_ops" where
  "sys_block =
     \<lparr>Iterate = (\<lambda>s. Iterate live_block (snd s)),
      Delete = (\<lambda>s k. (fst s, Delete live_block (snd s) k)),
      Entries = (\<lambda>s. Entries live_block (snd s))\<rparr>"

interpretation sys_pinned: pinned_map sys_block
  by unfold_locales
    (simp_all add: sys_block_def live_block.iterate_entries live_block.iterate_distinct live_block.delete_entries)

text \<open>The pieces of a schedule, each with the CPU and the clock; a schedule that asks a CPU that has returned does nothing.\<close>

definition cpus_go :: "(nat \<times> u64) list \<Rightarrow> block_sys \<Rightarrow> block_sys" where
  "cpus_go sched s =
     (case sched_run (cpu_step hash_block_maps) final sched s of None \<Rightarrow> s | Some t \<Rightarrow> t)"

section \<open>What a scan sees of something that always holds\<close>

lemma scan_sees:
  "(k, v) \<in> set (fst (live_scan ent reads s)) \<Longrightarrow> P s \<Longrightarrow> \<forall>x \<in> set reads. \<forall>t. P t \<longrightarrow> P (fst x t) \<Longrightarrow>
   \<exists>t. P t \<and> ent t k = Some v"
proof (induction reads arbitrary: s)
  case (Cons x reads)
  obtain f j where x: "x = (f, j)" by (cases x)
  have "P (f s)" using Cons.prems(2,3) x by simp
  moreover have "(k, v) \<in> set (fst (live_scan ent reads (f s))) \<or> ent (f s) k = Some v"
    using Cons.prems(1) by (auto simp: x Let_def case_prod_beta split: option.splits)
  ultimately show ?case using Cons.IH [of "f s"] Cons.prems(3) by auto
qed simp

lemma scan_meets:
  "k \<in> snd ` set reads \<Longrightarrow> P s \<Longrightarrow> \<forall>x \<in> set reads. \<forall>t. P t \<longrightarrow> P (fst x t) \<Longrightarrow>
   \<forall>t. P t \<longrightarrow> ent t k \<noteq> None \<Longrightarrow> k \<in> fst ` set (fst (live_scan ent reads s))"
proof (induction reads arbitrary: s)
  case (Cons x reads)
  obtain f j where x: "x = (f, j)" by (cases x)
  have step: "P (f s)" using Cons.prems(2,3) x by simp
  show ?case
  proof (cases "k = j")
    case True
    obtain v where "ent (f s) k = Some v" using Cons.prems(4) step by blast
    with True show ?thesis by (simp add: x Let_def case_prod_beta)
  next
    case False
    then have "k \<in> snd ` set reads" using Cons.prems(1) by (auto simp: x)
    then have "k \<in> fst ` set (fst (live_scan ent reads (f s)))"
      using Cons.IH [of "f s"] step Cons.prems(3,4) by auto
    then show ?thesis by (auto simp: x Let_def case_prod_beta split: option.split)
  qed
qed simp

lemma scan_observed:
  assumes "P s" and keep: "\<forall>x \<in> set reads. \<forall>t. P t \<longrightarrow> P (fst x t)" and read: "k \<in> snd ` set reads"
    and stay: "\<forall>t. P t \<longrightarrow> ent t k \<noteq> None" and good: "\<And>t v. P t \<Longrightarrow> ent t k = Some v \<Longrightarrow> Q v"
  shows "\<exists>v. observed ent reads s k = Some v \<and> Q v"
proof -
  have "k \<in> dom (observed ent reads s)"
    using scan_meets [where P = P and ent = ent, OF read assms(1) keep stay] unfolding observed_keys .
  then obtain v where v: "observed ent reads s k = Some v" by (auto simp: dom_def)
  then have "(k, v) \<in> set (fst (live_scan ent reads s))" by (auto simp: observed_def dest: map_of_SomeD)
  from scan_sees [where P = P and ent = ent, OF this assms(1) keep] obtain t where "P t" "ent t k = Some v" by blast
  with good v show ?thesis by blast
qed

section \<open>Completions under way\<close>

text \<open>The sum of \<open>f\<close> over the completions under way of cgroup \<open>k\<close>, of which \<open>p0\<close> holds the start data.\<close>

definition part_of ::
  "(u64 \<rightharpoonup> start_val_t) \<Rightarrow> u64 \<Rightarrow> (start_val_t \<Rightarrow> u32 \<Rightarrow> nat) \<Rightarrow> u64 \<times> u32 \<Rightarrow> nat" where
  "part_of p0 k f job =
     (case p0 (fst job) of None \<Rightarrow> 0 | Some v \<Rightarrow> if cgroup_id v = k then f v (snd job) else 0)"

definition under_way ::
  "(u64 \<rightharpoonup> start_val_t) \<Rightarrow> u64 \<Rightarrow> (start_val_t \<Rightarrow> u32 \<Rightarrow> nat) \<Rightarrow> (u64 \<times> u32) list \<Rightarrow> nat" where
  "under_way p0 k f jobs = sum_list (map (part_of p0 k f) jobs)"

definition entry_room :: "(u64 \<rightharpoonup> start_val_t) \<Rightarrow> u64 \<Rightarrow> nat \<Rightarrow> (u64 \<times> u32) list \<Rightarrow> cgroup_io_stats_t \<Rightarrow> bool" where
  "entry_room p0 k D jobs s \<longleftrightarrow>
     unat (io_count s) + length jobs < 2 ^ 64 \<and>
     unat (total_latency_ns s) + under_way p0 k (\<lambda>v e. D) jobs < 2 ^ 64 \<and>
     unat (total_bytes s) + under_way p0 k (\<lambda>v e. unat (bytes v)) jobs < 2 ^ 64 \<and>
     unat (error_count s) + length jobs < 2 ^ 64"

lemma under_way_le: "(\<And>v e. f v e \<le> 1) \<Longrightarrow> under_way p0 k f jobs \<le> length jobs"
  unfolding under_way_def
proof (induction jobs)
  case (Cons x jobs)
  have "part_of p0 k f x \<le> 1" using Cons.prems by (simp add: part_of_def split: option.split)
  with Cons.IH [OF Cons.prems] show ?case by simp
qed simp

lemma unat_add_sum:
  "(\<And>x. x \<in> set xs \<Longrightarrow> unat (f x :: u64) \<le> b x) \<Longrightarrow> unat a + sum_list (map b xs) < 2 ^ 64 \<Longrightarrow>
   unat a \<le> unat (a + sum_list (map f xs)) \<and> unat (a + sum_list (map f xs)) \<le> unat a + sum_list (map b xs)"
proof (induction xs arbitrary: a)
  case (Cons x xs)
  have fx: "unat (f x) \<le> b x" using Cons.prems(1) by simp
  with Cons.prems(2) have one: "unat (a + f x) = unat a + unat (f x)"
    by (intro unat_add_lem [THEN iffD1]) (simp add: word_size)
  have "unat (a + f x) + sum_list (map b xs) < 2 ^ 64" using Cons.prems(2) fx one by simp
  from Cons.IH [OF _ this] Cons.prems(1) have
    "unat (a + f x) \<le> unat (a + f x + sum_list (map f xs)) \<and>
     unat (a + f x + sum_list (map f xs)) \<le> unat (a + f x) + sum_list (map b xs)" by simp
  with fx one show ?case unfolding list.map sum_list.Cons add.assoc [symmetric] by linarith
qed simp

text \<open>What a CPU has added so far is part of its completion.\<close>

lemma share_under_way:
  assumes "cpu_ok p0 a0 c" and "unat (cpu_delta c) \<le> D"
  shows "unat (share AddCount k c) \<le> part_of p0 k (\<lambda>v e. 1) (cpu_job c)"
    and "unat (share AddLatency k c) \<le> part_of p0 k (\<lambda>v e. D) (cpu_job c)"
    and "unat (share AddBytes k c) \<le> part_of p0 k (\<lambda>v e. unat (bytes v)) (cpu_job c)"
    and "unat (share AddError k c) \<le> part_of p0 k (\<lambda>v e. if e \<noteq> 0 then 1 else 0) (cpu_job c)"
  using assms by (auto simp: part_of_def cpu_ok_def share_def unsigned_ucast_eq split: if_splits
      intro: order_trans [OF take_bit_nat_less_eq_self])

definition amid_inv :: "nat \<Rightarrow> (u64 \<rightharpoonup> start_val_t) \<Rightarrow> (u64 \<rightharpoonup> cgroup_io_stats_t) \<Rightarrow> (u64 \<times> u32) list \<Rightarrow> block_sys \<Rightarrow> bool" where
  "amid_inv D p0 a0 jobs s \<longleftrightarrow>
     sys_inv hash_block_maps p0 a0 jobs s \<and> (\<forall>c \<in> set (fst s). unat (cpu_delta c) \<le> D)"

text \<open>The clocks of a schedule: no completion under way takes longer than \<open>D\<close>.\<close>

definition clocks_within :: "nat \<Rightarrow> (u64 \<rightharpoonup> start_val_t) \<Rightarrow> (u64 \<times> u32) list \<Rightarrow> (nat \<times> u64) list \<Rightarrow> bool" where
  "clocks_within D p0 jobs sched \<longleftrightarrow>
     list_all (\<lambda>(i, now). list_all (\<lambda>(rq, e). case p0 rq of None \<Rightarrow> True
       | Some v \<Rightarrow> unat (now - ts_ns v) \<le> D) jobs) sched"

lemma cpu_step_delta:
  "cpu_step maps now c st = (c', st') \<Longrightarrow> cpu_pc c = Ktime \<longrightarrow> cpu_start c = Some v \<Longrightarrow>
   cpu_delta c' = cpu_delta c \<or> cpu_pc c = Ktime \<and> cpu_delta c' = now - ts_ns v"
  by (cases "cpu_pc c") (auto simp: cpu_step_def split: option.splits)

lemma amid_inv_step:
  assumes inv: "amid_inv D p0 a0 jobs (cpus, st)" and dist: "distinct (map fst jobs)"
    and clock: "list_all (\<lambda>(rq, e). case p0 rq of None \<Rightarrow> True | Some v \<Rightarrow> unat (now - ts_ns v) \<le> D) jobs"
    and i: "i < length cpus" and nf: "\<not> final (cpus ! i)"
    and step: "cpu_step hash_block_maps now (cpus ! i) st = (c, st')"
  shows "amid_inv D p0 a0 jobs (cpus[i := c], st')"
proof -
  have sys: "sys_inv hash_block_maps p0 a0 jobs (cpus, st)" using inv by (simp add: amid_inv_def)
  have next_inv: "sys_inv hash_block_maps p0 a0 jobs (cpus[i := c], st')"
    by (rule hash_block.sys_inv_step [OF sys dist i nf step])
  obtain v where v: "p0 (cpu_rq (cpus ! i)) = Some v" "cpu_pc (cpus ! i) = Ktime \<longrightarrow> cpu_start (cpus ! i) = Some v"
    using hash_block.sys_inv_cpu [OF sys dist i nf] by (auto simp: hash_block.cpu_at_def split: if_splits)
  have "cpu_job (cpus ! i) \<in> set jobs" using sys i by (auto simp: sys_inv_def)
  with clock v(1) have "unat (now - ts_ns v) \<le> D" by (auto simp: list_all_iff)
  moreover have "unat (cpu_delta (cpus ! i)) \<le> D" using inv i by (simp add: amid_inv_def)
  ultimately have "unat (cpu_delta c) \<le> D" using cpu_step_delta [OF step v(2)] by auto
  with inv next_inv i show ?thesis
    unfolding amid_inv_def fst_conv by (auto dest: set_update_subset_insert [THEN subsetD])
qed

lemma amid_inv_go:
  assumes "amid_inv D p0 a0 jobs s" and "distinct (map fst jobs)" and "clocks_within D p0 jobs sched"
  shows "amid_inv D p0 a0 jobs (cpus_go sched s)"
proof (cases "sched_run (cpu_step hash_block_maps) final sched s")
  case (Some t)
  have "amid_inv D p0 a0 jobs t"
  proof (rule sched_run_invariant [where P = "amid_inv D p0 a0 jobs", OF Some assms(1)])
    fix cs st i now c st'
    assume "(i, now) \<in> set sched" and inv: "amid_inv D p0 a0 jobs (cs, st)"
      and m: "i < length cs" "\<not> final (cs ! i)" "cpu_step hash_block_maps now (cs ! i) st = (c, st')"
    then have "list_all (\<lambda>(rq, e). case p0 rq of None \<Rightarrow> True | Some v \<Rightarrow> unat (now - ts_ns v) \<le> D) jobs"
      using assms(3) by (auto simp: clocks_within_def list_all_iff)
    with inv assms(2) show "amid_inv D p0 a0 jobs (cs[i := c], st')" by (rule amid_inv_step) (rule m)+
  qed
  with Some show ?thesis by (simp add: cpus_go_def)
qed (use assms(1) in \<open>simp add: cpus_go_def\<close>)

section \<open>An entry read under way\<close>

text \<open>Column by column between the entry \<open>s\<close> and the entry with all completions under way.\<close>

definition between_entries ::
  "(u64 \<rightharpoonup> start_val_t) \<Rightarrow> u64 \<Rightarrow> nat \<Rightarrow> (u64 \<times> u32) list \<Rightarrow> cgroup_io_stats_t \<Rightarrow> CgroupIOStats \<Rightarrow> bool" where
  "between_entries p0 k D jobs s v \<longleftrightarrow>
     unat (io_count s) \<le> unat (IOCount v) \<and>
     unat (IOCount v) \<le> unat (io_count s) + under_way p0 k (\<lambda>v e. 1) jobs \<and>
     unat (total_latency_ns s) \<le> unat (TotalLatencyNs v) \<and>
     unat (TotalLatencyNs v) \<le> unat (total_latency_ns s) + under_way p0 k (\<lambda>v e. D) jobs \<and>
     unat (total_bytes s) \<le> unat (TotalBytes v) \<and>
     unat (TotalBytes v) \<le> unat (total_bytes s) + under_way p0 k (\<lambda>v e. unat (bytes v)) jobs \<and>
     unat (error_count s) \<le> unat (ErrorCount v) \<and>
     unat (ErrorCount v) \<le> unat (error_count s) + under_way p0 k (\<lambda>v e. if e \<noteq> 0 then 1 else 0) jobs"

lemma shares_between:
  assumes inv: "amid_inv D p0 a0 jobs (cpus, st)" and room: "entry_room p0 k D jobs s"
  shows "between_entries p0 k D jobs s (io_of_c (with_shares k cpus s))"
proof -
  have jobs: "jobs = map cpu_job cpus" using inv by (simp add: amid_inv_def sys_inv_def)
  have sum: "under_way p0 k f jobs = sum_list (map (\<lambda>c. part_of p0 k f (cpu_job c)) cpus)" for f
    by (simp add: under_way_def jobs comp_def)
  have ok: "c \<in> set cpus \<Longrightarrow> cpu_ok p0 a0 c \<and> unat (cpu_delta c) \<le> D" for c
    using inv by (simp add: amid_inv_def sys_inv_def list_all_iff)
  have one: "under_way p0 k (\<lambda>v e. 1) jobs \<le> length jobs"
    "under_way p0 k (\<lambda>v e. if e \<noteq> 0 then 1 else 0) jobs \<le> length jobs"
    by (rule under_way_le; simp)+
  note share = share_under_way [OF conjunct1 [OF ok] conjunct2 [OF ok]]
  note add = unat_add_sum [where xs = cpus and b = "\<lambda>c. part_of p0 k f (cpu_job c)" for f, folded sum]
  have "unat (io_count s) + under_way p0 k (\<lambda>v e. 1) jobs < 2 ^ 64"
    "unat (error_count s) + under_way p0 k (\<lambda>v e. if e \<noteq> 0 then 1 else 0) jobs < 2 ^ 64"
    using room one by (simp_all add: entry_room_def)
  with room show ?thesis
    unfolding between_entries_def io_of_c_def with_shares_def total_share_def entry_room_def
      CgroupIOStats.simps cgroup_io_stats_t.simps
    using add [OF share(1)] add [OF share(2)] add [OF share(3)] add [OF share(4)] by blast
qed

text \<open>A sound entry: no more failures than completions, and a mean of at most \<open>D\<close>.\<close>

definition sound_entry :: "nat \<Rightarrow> cgroup_io_stats_t \<Rightarrow> bool" where
  "sound_entry D s \<longleftrightarrow> unat (error_count s) \<le> unat (io_count s) \<and> unat (total_latency_ns s) \<le> unat (io_count s) * D"

lemma amid_entry:
  assumes inv: "amid_inv D p0 a0 jobs t" and "a0 k = Some s" and "entry_room p0 k D jobs s" and "sound_entry D s"
    and read: "Entries sys_block t k = Some v"
  shows "between_entries p0 k D jobs s v \<and> unat (ErrorCount v) \<le> unat (IOCount v) \<and>
    unat (TotalLatencyNs v div IOCount v) \<le> D"
proof -
  obtain cpus st where t: "t = (cpus, st)" by (cases t)
  have sys: "sys_inv hash_block_maps p0 a0 jobs (cpus, st)" and deltas: "\<forall>c \<in> set cpus. unat (cpu_delta c) \<le> D"
    using inv by (simp_all add: amid_inv_def t)
  have "block_acc hash_block_maps st k = Some (with_shares k cpus s)" using sys assms(2) by (simp add: sys_inv_def)
  then have v: "v = io_of_c (with_shares k cpus s)"
    using read by (simp add: t sys_block_def live_block_def pinned_block_def bpf_simps)
  have "length cpus = length jobs" using sys by (auto simp: sys_inv_def)
  with assms(3) have "unat (io_count s) + length cpus < 2 ^ 64" by (simp add: entry_room_def)
  note bounds = midway_bounds [OF deltas _ _ this HOL.refl, of k] 
  show ?thesis
    using shares_between [OF inv [unfolded t] assms(3)] bounds assms(4) mean_le
    unfolding v by (simp add: sound_entry_def io_of_c_def)
qed

lemma amid_start:
  assumes "list_all (\<lambda>(rq, e). \<exists>v. block_pend hash_block_maps st rq = Some v \<and>
      block_acc hash_block_maps st (cgroup_id v) \<noteq> None) jobs"
  shows "amid_inv D (block_pend hash_block_maps st) (block_acc hash_block_maps st) jobs
    (map (\<lambda>(rq, e). entering rq e) jobs, st)"
  using sys_inv_entering [OF assms] by (auto simp: amid_inv_def entering_def)

lemma amid_entries_stay:
  assumes "amid_inv D p0 a0 jobs t" and "a0 k \<noteq> None"
  shows "Entries sys_block t k \<noteq> None"
proof -
  have "block_acc hash_block_maps (snd t) k = map_option (with_shares k (fst t)) (a0 k)"
    using assms(1) by (simp add: amid_inv_def sys_inv_def)
  with assms(2) show ?thesis by (auto simp: sys_block_def live_block_def pinned_block_def bpf_simps)
qed

text \<open>What a scan that meets the key of an entry observes of it.\<close>

lemma amid_observed:
  assumes start: "amid_inv D p0 a0 jobs s" and keep: "\<forall>x \<in> set reads. \<forall>t. amid_inv D p0 a0 jobs t \<longrightarrow> amid_inv D p0 a0 jobs (fst x t)"
    and entry: "a0 k = Some e" "entry_room p0 k D jobs e" "sound_entry D e" and read: "k \<in> snd ` set reads"
  shows "\<exists>v. observed (Entries sys_block) reads s k = Some v \<and> between_entries p0 k D jobs e v \<and>
    unat (ErrorCount v) \<le> unat (IOCount v) \<and> unat (TotalLatencyNs v div IOCount v) \<le> D"
proof (rule scan_observed [where P = "amid_inv D p0 a0 jobs", OF start keep read])
  show "\<forall>t. amid_inv D p0 a0 jobs t \<longrightarrow> Entries sys_block t k \<noteq> None"
  proof (intro allI impI)
    fix t assume "amid_inv D p0 a0 jobs t"
    then show "Entries sys_block t k \<noteq> None" by (rule amid_entries_stay) (simp only: entry(1) option.simps not_False_eq_True)
  qed
qed (rule amid_entry [where ?a0.0 = a0, OF _ entry])

section \<open>The rows of a pass\<close>

text \<open>
  A pass of the collector over the block map while completions of different requests are under way on any
  number of CPUs, cut at their helper calls and additions, with any pieces executed before each
  entry is read. If the entries exist, have room, are sound and no completion takes longer than \<open>D\<close>, and
  the iteration reads the keys of the map, the pass has one row for every cgroup with an entry that the resolver knows; its
  count, latency, bytes and failures each lie between the entry when the pass began and that entry
  with everything under way added; its mean is at most \<open>D\<close> and its failures are at most its count,
  although the four columns may come from different moments of a completion.
\<close>

lemma pass_amid_completions:
  assumes "distinct (map fst jobs)"
    and "list_all (\<lambda>(rq, e). \<exists>v. block_pend hash_block_maps st rq = Some v \<and>
      block_acc hash_block_maps st (cgroup_id v) \<noteq> None) jobs"
    and "\<forall>(sched, k) \<in> set scan. clocks_within D (block_pend hash_block_maps st) jobs sched"
    and "\<forall>k s. block_acc hash_block_maps st k = Some s \<longrightarrow>
      k \<in> snd ` set scan \<and> sound_entry D s \<and> entry_room (block_pend hash_block_maps st) k D jobs s"
    and "calm mw" and "mw_block_reads mw = map (\<lambda>(sched, k). (cpus_go sched, k)) scan"
  shows "\<exists>rows. result (readStats_live sys_block rops mw (map (\<lambda>(rq, e). entering rq e) jobs, st) rm r) = Inr rows \<and>
    sorted_wrt (<) (map CgroupID rows) \<and>
    (\<forall>row. row \<in> set rows \<longleftrightarrow> expected_row r
       (observed (Entries sys_block) (mw_block_reads mw) (map (\<lambda>(rq, e). entering rq e) jobs, st))
       (observed_runq rops mw rm) (CgroupID row) = Some row) \<and>
    (\<forall>k s. block_acc hash_block_maps st k = Some s \<and> \<not> unknown_id r k \<longrightarrow>
      (\<exists>row \<in> set rows. CgroupID row = k \<and> between_entries (block_pend hash_block_maps st) k D jobs s (Stats row) \<and>
         unat (ErrorCount (Stats row)) \<le> unat (IOCount (Stats row)) \<and> unat (AvgNs row) \<le> D))"
proof -
  let ?s = "(map (\<lambda>(rq, e). entering rq e) jobs, st)" and ?reads = "mw_block_reads mw"
  let ?P = "amid_inv D (block_pend hash_block_maps st) (block_acc hash_block_maps st) jobs"
  let ?B = "observed (Entries sys_block) ?reads ?s" and ?Q = "observed_runq rops mw rm"
  have keep: "\<forall>x \<in> set ?reads. \<forall>t. ?P t \<longrightarrow> ?P (fst x t)"
    using amid_inv_go [OF _ assms(1)] assms(3) unfolding assms(6) by fastforce
  obtain p where "pass_ends sys_block rops mw ?s rm r p ?B ?Q (readStats_live sys_block rops mw ?s rm r)"
    using live_pass_ends [OF assms(5)] by blast
  from pass_ends_rows [OF this] obtain rows where rows: "result (readStats_live sys_block rops mw ?s rm r) = Inr rows"
    "sorted_wrt (<) (map CgroupID rows)" "\<forall>row. row \<in> set rows \<longleftrightarrow> expected_row r ?B ?Q (CgroupID row) = Some row"
    by blast
  have "\<exists>row \<in> set rows. CgroupID row = k \<and> between_entries (block_pend hash_block_maps st) k D jobs s (Stats row) \<and>
      unat (ErrorCount (Stats row)) \<le> unat (IOCount (Stats row)) \<and> unat (AvgNs row) \<le> D"
    if s: "block_acc hash_block_maps st k = Some s" and known: "\<not> unknown_id r k" for k s
  proof -
    have "k \<in> snd ` set ?reads" using assms(4) s unfolding assms(6) by force
    from amid_observed [OF amid_start [OF assms(2)] keep s _ _ this] assms(4) s obtain v where v: "?B k = Some v"
      and good: "between_entries (block_pend hash_block_maps st) k D jobs s v \<and>
        unat (ErrorCount v) \<le> unat (IOCount v) \<and> unat (TotalLatencyNs v div IOCount v) \<le> D" by blast
    obtain row where row: "expected_row r ?B ?Q k = Some row" "CgroupID row = k" "Stats row = v"
      "AvgNs row = TotalLatencyNs v div IOCount v"
      using v known by (simp add: expected_row_def)
    have "row \<in> set rows" using rows(3) row(1,2) by simp
    with good row(2-4) show ?thesis by auto
  qed
  with rows show ?thesis by blast
qed

text \<open>
  Two completions of cgroup 7: when its entry is read, one has added its count and its latency, the
  other nothing.
\<close>

definition amid_meanwhile :: "(block_sys, 'r) meanwhile" where
  "amid_meanwhile =
     \<lparr>mw_block_reads = map (\<lambda>(sched, k). (cpus_go sched, k)) [(midway_schedule, 7)], mw_block_err = None,
      mw_block_deletes = (\<lambda>k m. m), mw_runq_reads = [], mw_runq_err = None, mw_runq_deletes = (\<lambda>k m. m)\<rparr>"

lemma pass_amid_completions_witness:
  "\<exists>rows. result (readStats_live sys_block live_runq amid_meanwhile
       (map (\<lambda>(rq, e). entering rq e) [(1, 0), (2, 5)], pair_state) None pod_resolver) = Inr rows \<and>
     (\<exists>row \<in> set rows. CgroupID row = 7 \<and> unat (IOCount (Stats row)) \<le> 2 \<and>
        unat (TotalBytes (Stats row)) \<le> 768 \<and> unat (AvgNs row) \<le> 60)"
proof -
  let ?jobs = "[(1, 0), (2, 5)] :: (u64 \<times> u32) list"
  let ?p0 = "block_pend hash_block_maps pair_state"
  have clocks: "\<forall>(sched, k) \<in> set [(midway_schedule, 7 :: u64)]. clocks_within 60 ?p0 ?jobs sched"
    by (simp add: clocks_within_def midway_schedule_def pair_state_def bpf_simps)
  have entries: "\<forall>k s. block_acc hash_block_maps pair_state k = Some s \<longrightarrow>
      k \<in> snd ` set [(midway_schedule, 7 :: u64)] \<and> sound_entry 60 s \<and> entry_room ?p0 k 60 ?jobs s"
    by (simp add: pair_state_def bpf_simps zero_io_stats_def sound_entry_def entry_room_def under_way_def part_of_def)
  have known: "\<not> unknown_id pod_resolver 7"
    by (simp add: pod_resolver_def unknown_id_def Resolve_def unknown_path_def)
  have seven: "block_acc hash_block_maps pair_state 7 = Some zero_io_stats" by (simp add: pair_state_def bpf_simps)
  have dist: "distinct (map fst ?jobs)" by simp
  have pending: "list_all (\<lambda>(rq, e). \<exists>v. ?p0 rq = Some v \<and>
      block_acc hash_block_maps pair_state (cgroup_id v) \<noteq> None) ?jobs"
    by (simp add: pair_state_def bpf_simps)
  have calm: "calm (amid_meanwhile :: (block_sys, 'r) meanwhile)" by (simp add: calm_def amid_meanwhile_def)
  have reads: "mw_block_reads (amid_meanwhile :: (block_sys, 'r) meanwhile) =
      map (\<lambda>(sched, k). (cpus_go sched, k)) [(midway_schedule, 7)]" by (simp add: amid_meanwhile_def)
  obtain rows where rows: "result (readStats_live sys_block live_runq amid_meanwhile
       (map (\<lambda>(rq, e). entering rq e) ?jobs, pair_state) None pod_resolver) = Inr rows"
    and all: "\<forall>k s. block_acc hash_block_maps pair_state k = Some s \<and> \<not> unknown_id pod_resolver k \<longrightarrow>
      (\<exists>row \<in> set rows. CgroupID row = k \<and> between_entries ?p0 k 60 ?jobs s (Stats row) \<and>
         unat (ErrorCount (Stats row)) \<le> unat (IOCount (Stats row)) \<and> unat (AvgNs row) \<le> 60)"
    using pass_amid_completions [OF dist pending clocks entries calm reads, of live_runq None pod_resolver] by blast
  from all [rule_format, OF conjI [OF seven known]] obtain row where row: "row \<in> set rows" "CgroupID row = 7"
    "between_entries ?p0 7 60 ?jobs zero_io_stats (Stats row)" "unat (AvgNs row) \<le> 60" by blast
  from row rows show ?thesis
    by (auto simp: between_entries_def under_way_def part_of_def pair_state_def bpf_simps zero_io_stats_def)
qed

end
