(* ===== verification/RunqCpu.thy ===== *)
theory RunqCpu
  imports RunqSpec Interleave
begin

text \<open>
  The scheduler programs on one CPU, piece by piece: \<open>sched_switch\<close> and the wakeup programs split at
  their clock readings, helper calls and atomic additions. A CPU alone computes what the program
  computes.

  The members read of a task (pid, start time, state, cgroup) are those of the kernel memory at the
  event.
\<close>

section \<open>One CPU inside a program\<close>

datatype runq_pc =
    ReadState \<comment> \<open>\<open>prev_state = BPF_CORE_READ(prev, __state)\<close> and its test\<close>
  | ReadClock \<comment> \<open>\<open>now = bpf_ktime_get_ns()\<close>, or \<open>ts\<close> in \<open>handle_wakeup\<close>\<close>
  | StoreStart \<comment> \<open>\<open>bpf_map_update_elem(&start_map, &pkey, &now, BPF_ANY)\<close>\<close>
  | FindStart \<comment> \<open>\<open>tsp = bpf_map_lookup_elem(&start_map, &key)\<close>\<close>
  | Measure \<comment> \<open>\<open>ts = bpf_ktime_get_ns(); delta = ts - *tsp\<close>\<close>
  | RemoveStart \<comment> \<open>\<open>bpf_map_delete_elem(&start_map, &key)\<close>\<close>
  | FindStats \<comment> \<open>\<open>stats = bpf_map_lookup_elem(&runq_stats_by_cgroup, &cgroup_id)\<close>\<close>
  | CreateStats \<comment> \<open>\<open>bpf_map_update_elem(&runq_stats_by_cgroup, &cgroup_id, &zero, BPF_ANY)\<close>\<close>
  | FindAgain \<comment> \<open>the second lookup\<close>
  | CountWait \<comment> \<open>\<open>__sync_fetch_and_add(&stats->count, 1)\<close>\<close>
  | AddWait \<comment> \<open>\<open>__sync_fetch_and_add(&stats->total_latency_ns, delta)\<close>\<close>
  | Over \<comment> \<open>returned\<close>
  | NoStats \<comment> \<open>returned without statistics\<close>

text \<open>The program a CPU is in: a wakeup of a task, or a switch between two.\<close>

datatype runq_job =
    Waking (job_env: core_env) (job_stamped: u64)
  | Switching (job_env: core_env) (job_preempt: bool) (job_stamped: u64) (job_next: u64)

fun is_switch :: "runq_job \<Rightarrow> bool" where
  "is_switch (Waking env p) = False"
| "is_switch (Switching env preempt prev next) = True"

record runq_cpu =
  run_pc :: runq_pc
  run_job :: runq_job
  run_now :: u64 \<comment> \<open>the clock when the task was stamped\<close>
  run_tsp :: "u64 option" \<comment> \<open>what \<open>tsp\<close> points to, \<open>None\<close> for NULL\<close>
  run_ts :: u64
  run_delta :: u64

definition run_over :: "runq_cpu \<Rightarrow> bool" where
  "run_over c \<longleftrightarrow> run_pc c = Over \<or> run_pc c = NoStats"

definition run_entering :: "runq_job \<Rightarrow> runq_cpu" where
  "run_entering j =
     \<lparr>run_pc = (if is_switch j then ReadState else ReadClock), run_job = j, run_now = 0,
      run_tsp = None, run_ts = 0, run_delta = 0\<rparr>"

text \<open>The key stored by \<open>fill_key\<close> for the stamped task and for \<open>next\<close>, and the cgroup of \<open>next\<close>.\<close>

abbreviation stamp_key :: "runq_job \<Rightarrow> runq_key_t" where
  "stamp_key j \<equiv> fill_key (job_env j) (job_stamped j)"

abbreviation next_key :: "runq_job \<Rightarrow> runq_key_t" where
  "next_key j \<equiv> fill_key (job_env j) (job_next j)"

abbreviation next_cgroup :: "runq_job \<Rightarrow> u64" where
  "next_cgroup j \<equiv> get_task_cgroup_id (job_env j) (job_next j)"

definition runq_add ::
  "('ms, 'mt) runq_maps \<Rightarrow> u64 \<Rightarrow> (cgroup_runq_stats_t \<Rightarrow> cgroup_runq_stats_t) \<Rightarrow>
   ('ms, 'mt) runq_state \<Rightarrow> ('ms, 'mt) runq_state" where
  "runq_add maps cg f st =
     (case bpf_lookup (rq_stats_ops maps) (runq_stats_by_cgroup st) cg of
        None \<Rightarrow> st
      | Some s \<Rightarrow>
          st\<lparr>runq_stats_by_cgroup := bpf_write (rq_stats_ops maps) (runq_stats_by_cgroup st) cg (f s)\<rparr>)"

text \<open>
  One piece; \<open>now\<close> is what the clock says, should the piece read it. \<open>*tsp\<close> is read through the
  pointer: the value of the entry now, or the value it had if the entry has been deleted since.
\<close>

fun runq_exec ::
  "('ms, 'mt) runq_maps \<Rightarrow> u64 \<Rightarrow> runq_pc \<Rightarrow> runq_job \<Rightarrow> runq_cpu \<Rightarrow> ('ms, 'mt) runq_state \<Rightarrow>
   runq_cpu \<times> ('ms, 'mt) runq_state" where
  "runq_exec maps now ReadState j c st =
     (c\<lparr>run_pc := (if core_read (job_env j) ''task_struct'' ''__state'' 4 (job_stamped j) = 0
                  then ReadClock else FindStart)\<rparr>, st)"
| "runq_exec maps now ReadClock j c st = (c\<lparr>run_now := now, run_pc := StoreStart\<rparr>, st)"
| "runq_exec maps now StoreStart j c st =
     (c\<lparr>run_pc := (if is_switch j then FindStart else Over)\<rparr>,
      st\<lparr>rq_start_map := bpf_update (rq_start_ops maps) (rq_start_map st) (stamp_key j) (run_now c)\<rparr>)"
| "runq_exec maps now FindStart j c st =
     (case bpf_lookup (rq_start_ops maps) (rq_start_map st) (next_key j) of
        None \<Rightarrow> (c\<lparr>run_pc := Over\<rparr>, st)
      | Some t \<Rightarrow> (c\<lparr>run_tsp := Some t, run_pc := Measure\<rparr>, st))"
| "runq_exec maps now Measure j c st =
     (let t = (case bpf_lookup (rq_start_ops maps) (rq_start_map st) (next_key j) of
                 None \<Rightarrow> the (run_tsp c)
               | Some t \<Rightarrow> t)
      in (c\<lparr>run_ts := now, run_delta := now - t, run_pc := RemoveStart\<rparr>, st))"
| "runq_exec maps now RemoveStart j c st =
     (c\<lparr>run_pc := FindStats\<rparr>,
      st\<lparr>rq_start_map := bpf_delete (rq_start_ops maps) (rq_start_map st) (next_key j)\<rparr>)"
| "runq_exec maps now FindStats j c st =
     (c\<lparr>run_pc := (case bpf_lookup (rq_stats_ops maps) (runq_stats_by_cgroup st) (next_cgroup j) of
                     None \<Rightarrow> CreateStats | Some _ \<Rightarrow> CountWait)\<rparr>, st)"
| "runq_exec maps now CreateStats j c st =
     (c\<lparr>run_pc := FindAgain\<rparr>,
      st\<lparr>runq_stats_by_cgroup :=
           bpf_update (rq_stats_ops maps) (runq_stats_by_cgroup st) (next_cgroup j) zero_runq_stats\<rparr>)"
| "runq_exec maps now FindAgain j c st =
     (c\<lparr>run_pc := (case bpf_lookup (rq_stats_ops maps) (runq_stats_by_cgroup st) (next_cgroup j) of
                     None \<Rightarrow> NoStats | Some _ \<Rightarrow> CountWait)\<rparr>, st)"
| "runq_exec maps now CountWait j c st =
     (c\<lparr>run_pc := AddWait\<rparr>, runq_add maps (next_cgroup j) (\<lambda>s. s\<lparr>rq_count := rq_count s + 1\<rparr>) st)"
| "runq_exec maps now AddWait j c st =
     (c\<lparr>run_pc := Over\<rparr>,
      runq_add maps (next_cgroup j)
        (\<lambda>s. s\<lparr>rq_total_latency_ns := rq_total_latency_ns s + run_delta c\<rparr>) st)"
| "runq_exec maps now Over j c st = (c, st)"
| "runq_exec maps now NoStats j c st = (c, st)"

definition runq_piece ::
  "('ms, 'mt) runq_maps \<Rightarrow> u64 \<Rightarrow> runq_cpu \<Rightarrow> ('ms, 'mt) runq_state \<Rightarrow>
   runq_cpu \<times> ('ms, 'mt) runq_state" where
  "runq_piece maps now c st = runq_exec maps now (run_pc c) (run_job c) c st"

abbreviation sched_runs ::
  "('ms, 'mt) runq_maps \<Rightarrow> (runq_cpu, ('ms, 'mt) runq_state) system \<Rightarrow>
   (runq_cpu, ('ms, 'mt) runq_state) system \<Rightarrow> bool" where
  "sched_runs maps \<equiv> par_run (runq_piece maps) run_over"

text \<open>The event a CPU has handled, with the clocks it has read.\<close>

fun event_of :: "runq_job \<Rightarrow> u64 \<Rightarrow> u64 \<Rightarrow> runq_event" where
  "event_of (Waking env p) now ts = Wakeup env now p"
| "event_of (Switching env preempt prev next) now ts = Switch env now ts preempt prev next"

definition run_event :: "runq_cpu \<Rightarrow> runq_event" where
  "run_event c = event_of (run_job c) (run_now c) (run_ts c)"

section \<open>Every program returns\<close>

fun pieces_left :: "runq_pc \<Rightarrow> nat" where
  "pieces_left ReadState = 11" | "pieces_left ReadClock = 10" | "pieces_left StoreStart = 9"
| "pieces_left FindStart = 8" | "pieces_left Measure = 7" | "pieces_left RemoveStart = 6"
| "pieces_left FindStats = 5" | "pieces_left CreateStats = 4" | "pieces_left FindAgain = 3"
| "pieces_left CountWait = 2" | "pieces_left AddWait = 1" | "pieces_left Over = 0"
| "pieces_left NoStats = 0"

lemma runq_piece_left:
  "\<not> run_over c \<Longrightarrow> runq_piece maps now c st = (c', st') \<Longrightarrow>
   pieces_left (run_pc c') < pieces_left (run_pc c)"
  by (cases "run_pc c") (auto simp: runq_piece_def run_over_def Let_def split: option.splits)

interpretation runq_cpus: ending_program "runq_piece maps" run_over "pieces_left \<circ> run_pc"
  by unfold_locales (simp add: runq_piece_left)

section \<open>A CPU alone is the program\<close>

definition stamps :: "runq_job \<Rightarrow> bool" where
  "stamps j \<longleftrightarrow>
     \<not> is_switch j \<or> core_read (job_env j) ''task_struct'' ''__state'' 4 (job_stamped j) = 0"

text \<open>The shared state a CPU alone has made of \<open>st\<close>, before it adds to the statistics.\<close>

definition alone_stamped ::
  "('ms, 'mt) runq_maps \<Rightarrow> runq_job \<Rightarrow> u64 \<Rightarrow> ('ms, 'mt) runq_state \<Rightarrow> ('ms, 'mt) runq_state" where
  "alone_stamped maps j now st =
     (if stamps j
      then st\<lparr>rq_start_map := bpf_update (rq_start_ops maps) (rq_start_map st) (stamp_key j) now\<rparr>
      else st)"

definition alone_removed ::
  "('ms, 'mt) runq_maps \<Rightarrow> runq_job \<Rightarrow> u64 \<Rightarrow> ('ms, 'mt) runq_state \<Rightarrow> ('ms, 'mt) runq_state" where
  "alone_removed maps j now st =
     (alone_stamped maps j now st)\<lparr>rq_start_map :=
        bpf_delete (rq_start_ops maps) (rq_start_map (alone_stamped maps j now st)) (next_key j)\<rparr>"

definition alone_created ::
  "('ms, 'mt) runq_maps \<Rightarrow> runq_job \<Rightarrow> u64 \<Rightarrow> ('ms, 'mt) runq_state \<Rightarrow> ('ms, 'mt) runq_state" where
  "alone_created maps j now st =
     (case runq_acc maps st (next_cgroup j) of
        Some _ \<Rightarrow> alone_removed maps j now st
      | None \<Rightarrow> (alone_removed maps j now st)\<lparr>runq_stats_by_cgroup :=
                   bpf_update (rq_stats_ops maps) (runq_stats_by_cgroup st) (next_cgroup j) zero_runq_stats\<rparr>)"

text \<open>What holds at each piece of a CPU alone that entered in the state \<open>st0\<close>.\<close>

abbreviation same_maps ::
  "('ms, 'mt) runq_maps \<Rightarrow> ('ms, 'mt) runq_state \<Rightarrow> ('ms, 'mt) runq_state \<Rightarrow> bool" where
  "same_maps maps st st' \<equiv> runq_pend maps st = runq_pend maps st' \<and> runq_acc maps st = runq_acc maps st'"

fun alone_at ::
  "('ms, 'mt) runq_maps \<Rightarrow> ('ms, 'mt) runq_state \<Rightarrow> runq_job \<Rightarrow> u64 \<Rightarrow> u64 option \<Rightarrow> u64 \<Rightarrow> u64 \<Rightarrow> runq_pc \<Rightarrow>
   ('ms, 'mt) runq_state \<Rightarrow> bool" where
  "alone_at maps st0 j now tsp ts d ReadState st = (st = st0)"
| "alone_at maps st0 j now tsp ts d ReadClock st = (st = st0 \<and> stamps j)"
| "alone_at maps st0 j now tsp ts d StoreStart st = (st = st0 \<and> stamps j)"
| "alone_at maps st0 j now tsp ts d FindStart st = (st = alone_stamped maps j now st0)"
| "alone_at maps st0 j now tsp ts d Measure st =
     (st = alone_stamped maps j now st0 \<and> tsp \<noteq> None)"
| "alone_at maps st0 j now tsp ts d RemoveStart st =
     (st = alone_stamped maps j now st0 \<and> tsp \<noteq> None)"
| "alone_at maps st0 j now tsp ts d FindStats st = (st = alone_removed maps j now st0 \<and> tsp \<noteq> None)"
| "alone_at maps st0 j now tsp ts d CreateStats st =
     (st = alone_removed maps j now st0 \<and> tsp \<noteq> None \<and> runq_acc maps st (next_cgroup j) = None)"
| "alone_at maps st0 j now tsp ts d FindAgain st = (st = alone_created maps j now st0 \<and> tsp \<noteq> None)"
| "alone_at maps st0 j now tsp ts d CountWait st =
     (st = alone_created maps j now st0 \<and> tsp \<noteq> None \<and> runq_acc maps st (next_cgroup j) \<noteq> None)"
| "alone_at maps st0 j now tsp ts d AddWait st =
     (st = runq_add maps (next_cgroup j) (\<lambda>s. s\<lparr>rq_count := rq_count s + 1\<rparr>)
             (alone_created maps j now st0) \<and> tsp \<noteq> None \<and>
      runq_acc maps (alone_created maps j now st0) (next_cgroup j) \<noteq> None)"
| "alone_at maps st0 j now tsp ts d Over st = same_maps maps st (runq_step maps (event_of j now ts) st0)"
| "alone_at maps st0 j now tsp ts d NoStats st = same_maps maps st (runq_step maps (event_of j now ts) st0)"

definition alone_inv ::
  "('ms, 'mt) runq_maps \<Rightarrow> ('ms, 'mt) runq_state \<Rightarrow> runq_job \<Rightarrow> runq_cpu \<times> ('ms, 'mt) runq_state \<Rightarrow> bool" where
  "alone_inv maps st0 j = (\<lambda>(c, st).
     run_job c = j \<and> (run_pc c \<in> {ReadClock, StoreStart, Over} \<or> is_switch j) \<and>
     (run_tsp c \<noteq> None \<longrightarrow>
        runq_pend maps (alone_stamped maps j (run_now c) st0) (next_key j) = run_tsp c) \<and>
     (run_pc c \<notin> {ReadState, ReadClock, StoreStart, FindStart, Measure, Over} \<longrightarrow>
        run_delta c = run_ts c - the (run_tsp c)) \<and>
     (run_pc c \<in> {ReadState, ReadClock, StoreStart, FindStart} \<longrightarrow> run_tsp c = None) \<and>
     alone_at maps st0 j (run_now c) (run_tsp c) (run_ts c) (run_delta c) (run_pc c) st)"

context runq_ctx
begin

lemma runq_add_pend: "pend (runq_add maps cg f st) = pend st"
  by (simp add: runq_add_def split: option.split)

lemma runq_add_start: "rq_start_map (runq_add maps cg f st) = rq_start_map st"
  by (simp add: runq_add_def split: option.split)

lemma runq_add_acc:
  "acc (runq_add maps cg f st) =
     (case acc st cg of None \<Rightarrow> acc st | Some s \<Rightarrow> (acc st)(cg \<mapsto> f s))"
  by (simp add: runq_add_def stats.lookup_write split: option.split)

lemma alone_acc:
  "acc (alone_stamped maps j now st) = acc st"
  "acc (alone_removed maps j now st) = acc st"
  by (simp_all add: alone_removed_def alone_stamped_def)

text \<open>\<open>sched_switch\<close> in the same pieces.\<close>

lemma switch_miss:
  assumes "is_switch j" and "pend (alone_stamped maps j now st) (next_key j) = None"
  shows "runq_step maps (event_of j now ts) st = alone_stamped maps j now st"
  using assms by (cases j) (auto simp: sched_switch_def alone_stamped_def stamps_def Let_def)

lemma switch_hit:
  assumes "is_switch j" and "pend (alone_stamped maps j now st) (next_key j) = Some t"
  shows "runq_step maps (event_of j now ts) st =
    (let st3 = alone_created maps j now st
     in case acc st3 (next_cgroup j) of
          None \<Rightarrow> st3
        | Some s \<Rightarrow> st3\<lparr>runq_stats_by_cgroup :=
            bpf_write (rq_stats_ops maps) (runq_stats_by_cgroup st3) (next_cgroup j)
              (add_runq_stats (ts - t) s)\<rparr>)"
  using assms
  by (cases j) (auto simp: sched_switch_def alone_created_def alone_removed_def alone_stamped_def
      stamps_def Let_def split: option.splits)

lemma switch_none:
  assumes "is_switch j" and "pend (alone_stamped maps j now st) (next_key j) = Some t"
    and "acc (alone_created maps j now st) (next_cgroup j) = None"
  shows "runq_step maps (event_of j now ts) st = alone_created maps j now st"
  by (simp add: switch_hit [OF assms(1,2)] assms(3))

lemma switch_added:
  assumes "is_switch j" and "pend (alone_stamped maps j now st) (next_key j) = Some t"
    and "acc (alone_created maps j now st) (next_cgroup j) \<noteq> None"
  shows "same_maps maps
    (runq_add maps (next_cgroup j) (\<lambda>s. s\<lparr>rq_total_latency_ns := rq_total_latency_ns s + (ts - t)\<rparr>)
      (runq_add maps (next_cgroup j) (\<lambda>s. s\<lparr>rq_count := rq_count s + 1\<rparr>) (alone_created maps j now st)))
    (runq_step maps (event_of j now ts) st)"
  using assms(3)
  by (auto simp: switch_hit [OF assms(1,2)] runq_add_pend runq_add_acc stats.lookup_write
      add_runq_stats_def Let_def)

lemma wake_step:
  "\<not> is_switch j \<Longrightarrow> runq_step maps (event_of j now ts) st =
    st\<lparr>rq_start_map := bpf_update (rq_start_ops maps) (rq_start_map st) (stamp_key j) now\<rparr>"
  by (cases j) (simp_all add: sched_wakeup_def handle_wakeup_def)

lemma alone_inv_piece:
  assumes inv: "alone_inv maps st0 j (c, st)" and "\<not> run_over c"
    and piece: "runq_piece maps now c st = (c', st')"
  shows "alone_inv maps st0 j (c', st')"
proof (cases "run_pc c")
  case FindStart
  show ?thesis
  proof (cases "pend st (next_key j)")
    case None
    then show ?thesis
      using FindStart inv piece switch_miss [of j "run_now c" st0 "run_ts c"]
      by (auto simp: alone_inv_def runq_piece_def)
  next
    case (Some t)
    then show ?thesis
      using FindStart inv piece by (auto simp: alone_inv_def runq_piece_def)
  qed
next
  case FindAgain
  then show ?thesis using inv piece switch_none [of j "run_now c" st0 _ "run_ts c"]
    by (auto simp: alone_inv_def runq_piece_def split: option.splits)
next
  case AddWait
  then show ?thesis using inv piece switch_added [of j "run_now c" st0 _ "run_ts c"]
    by (auto simp: alone_inv_def runq_piece_def)
qed (use inv piece in \<open>auto simp: alone_inv_def runq_piece_def alone_acc wake_step alone_stamped_def
  alone_removed_def alone_created_def stamps_def split: option.splits if_splits\<close>)

lemma alone_computes:
  assumes "sched_runs maps ([run_entering j], st) (cs, st')" and "list_all run_over cs"
  shows "\<exists>c. cs = [c] \<and> run_job c = j \<and> same_maps maps st' (runq_step maps (run_event c) st)"
proof -
  let ?P = "\<lambda>(cs, st'). \<exists>c. cs = [c] \<and> alone_inv maps st j (c, st')"
  have "?P (cs, st')"
  proof (rule par_run_invariant [OF assms(1)])
    show "?P ([run_entering j], st)"
      by (simp add: alone_inv_def run_entering_def stamps_def)
  qed (auto dest: alone_inv_piece)
  then show ?thesis
    using assms(2) by (auto simp: alone_inv_def run_over_def run_event_def)
qed

end

end
