(* ===== verification/RunqInterleave.thy ===== *)
theory RunqInterleave
  imports RunqCpu
begin

text \<open>
  The scheduler programs running at the same time on several CPUs. Programs about different tasks,
  interleaved in any way, refine the specification of \<open>RunqSpec\<close> when the cgroups concerned have an
  entry; without the entry two first waits can be counted as one.
\<close>

section \<open>Programs about different tasks\<close>

fun job_keys :: "runq_job \<Rightarrow> runq_key_t list" where
  "job_keys (Waking env p) = [fill_key env p]"
| "job_keys (Switching env preempt prev next) = [fill_key env prev, fill_key env next]"

definition different_tasks :: "runq_job list \<Rightarrow> bool" where
  "different_tasks jobs \<longleftrightarrow> distinct (concat (map job_keys jobs))"

text \<open>What a CPU has done to the in-flight map so far, and what it has added to the statistics.\<close>

definition run_stored :: "runq_cpu \<Rightarrow> bool" where
  "run_stored c \<longleftrightarrow> stamps (run_job c) \<and> run_pc c \<notin> {ReadState, ReadClock, StoreStart}"

definition run_removed :: "runq_cpu \<Rightarrow> bool" where
  "run_removed c \<longleftrightarrow> run_tsp c \<noteq> None \<and> run_pc c \<notin> {Measure, RemoveStart}"

definition run_view :: "(runq_key_t \<rightharpoonup> u64) \<Rightarrow> runq_cpu \<Rightarrow> (runq_key_t \<rightharpoonup> u64)" where
  "run_view p c =
     (let p1 = (if run_stored c then p(stamp_key (run_job c) \<mapsto> run_now c) else p)
      in if run_removed c then p1(next_key (run_job c) := None) else p1)"

definition run_counted :: "u64 \<Rightarrow> runq_cpu \<Rightarrow> u64" where
  "run_counted cg c =
     (if run_tsp c \<noteq> None \<and> next_cgroup (run_job c) = cg \<and> run_pc c \<in> {AddWait, Over} then 1 else 0)"

definition run_waited :: "u64 \<Rightarrow> runq_cpu \<Rightarrow> u64" where
  "run_waited cg c =
     (if run_tsp c \<noteq> None \<and> next_cgroup (run_job c) = cg \<and> run_pc c = Over then run_delta c else 0)"

definition with_waits :: "u64 \<Rightarrow> runq_cpu list \<Rightarrow> cgroup_runq_stats_t \<Rightarrow> cgroup_runq_stats_t" where
  "with_waits cg cs s =
     \<lparr>rq_count = rq_count s + sum_list (map (run_counted cg) cs),
      rq_total_latency_ns = rq_total_latency_ns s + sum_list (map (run_waited cg) cs)\<rparr>"

text \<open>A CPU's local variables fit the tasks that were waiting when the CPUs entered.\<close>

definition run_ok :: "(runq_key_t \<rightharpoonup> u64) \<Rightarrow> (u64 \<rightharpoonup> cgroup_runq_stats_t) \<Rightarrow> runq_cpu \<Rightarrow> bool" where
  "run_ok p a c \<longleftrightarrow>
     run_pc c \<notin> {CreateStats, FindAgain, NoStats} \<and>
     (is_switch (run_job c) \<or> run_pc c \<in> {ReadClock, StoreStart, Over} \<and> run_tsp c = None) \<and>
     (run_pc c \<in> {ReadClock, StoreStart} \<longrightarrow> stamps (run_job c)) \<and>
     (is_switch (run_job c) \<longrightarrow>
        run_tsp c = (if run_pc c \<in> {ReadState, ReadClock, StoreStart, FindStart} then None
                     else p (next_key (run_job c))) \<and>
        (run_pc c \<notin> {ReadState, ReadClock, StoreStart, FindStart, Over} \<longrightarrow> run_tsp c \<noteq> None) \<and>
        (p (next_key (run_job c)) \<noteq> None \<longrightarrow> a (next_cgroup (run_job c)) \<noteq> None)) \<and>
     (run_tsp c \<noteq> None \<and> run_pc c \<noteq> Measure \<longrightarrow> run_delta c = run_ts c - the (run_tsp c))"

definition runs_inv ::
  "('ms, 'mt) runq_maps \<Rightarrow> (runq_key_t \<rightharpoonup> u64) \<Rightarrow> (u64 \<rightharpoonup> cgroup_runq_stats_t) \<Rightarrow> runq_job list \<Rightarrow>
   (runq_cpu, ('ms, 'mt) runq_state) system \<Rightarrow> bool" where
  "runs_inv maps p a jobs = (\<lambda>(cs, st).
     map run_job cs = jobs \<and>
     list_all (run_ok p a) cs \<and>
     (\<forall>i < length cs. \<forall>k \<in> set (job_keys (jobs ! i)). runq_pend maps st k = run_view p (cs ! i) k) \<and>
     (\<forall>k. k \<notin> set (concat (map job_keys jobs)) \<longrightarrow> runq_pend maps st k = p k) \<and>
     (\<forall>cg. runq_acc maps st cg = map_option (with_waits cg cs) (a cg)))"

lemma stamp_key_in: "stamp_key j \<in> set (job_keys j)"
  by (cases j) simp_all

lemma next_key_in: "is_switch j \<Longrightarrow> next_key j \<in> set (job_keys j)"
  by (cases j) simp_all

lemma job_keys_cases: "k \<in> set (job_keys j) \<Longrightarrow> k = stamp_key j \<or> is_switch j \<and> k = next_key j"
  by (cases j) auto

lemma distinct_concat_nth:
  "distinct (concat xss) \<Longrightarrow> i < length xss \<Longrightarrow> j < length xss \<Longrightarrow> i \<noteq> j \<Longrightarrow> k \<in> set (xss ! i) \<Longrightarrow>
   k \<notin> set (xss ! j)"
proof (induction xss arbitrary: i j)
  case (Cons xs xss)
  have later: "xss ! n \<in> set xss" if "Suc n < length (xs # xss)" for n using that by simp
  show ?case
  proof (cases i; cases j)
    fix i' j' assume "i = Suc i'" "j = Suc j'"
    then show ?thesis using Cons by simp
  qed (use Cons.prems later in \<open>fastforce simp: disjoint_iff\<close>)+
qed simp

lemma different_tasks_nth:
  "different_tasks jobs \<Longrightarrow> i < length jobs \<Longrightarrow> j < length jobs \<Longrightarrow> i \<noteq> j \<Longrightarrow>
   k \<in> set (job_keys (jobs ! i)) \<Longrightarrow> k \<notin> set (job_keys (jobs ! j))"
  using distinct_concat_nth [of "map job_keys jobs" i j k] by (simp add: different_tasks_def)

lemma different_tasks_switch:
  assumes "different_tasks jobs" and "j \<in> set jobs" and "is_switch j"
  shows "stamp_key j \<noteq> next_key j"
proof -
  have "distinct (job_keys j)"
    using assms(1,2) by (auto simp: different_tasks_def distinct_concat_iff)
  with assms(3) show ?thesis by (cases j) auto
qed

lemma with_waits_update:
  "i < length cs \<Longrightarrow> with_waits cg (cs[i := c]) s =
     (let w = with_waits cg cs s
      in \<lparr>rq_count = rq_count w + (run_counted cg c - run_counted cg (cs ! i)),
          rq_total_latency_ns =
            rq_total_latency_ns w + (run_waited cg c - run_waited cg (cs ! i))\<rparr>)"
  by (simp add: with_waits_def sum_list_update_group Let_def)

text \<open>A move keeps the invariant when it changes the in-flight map only at the tasks of its CPU.\<close>

lemma runs_inv_update:
  assumes inv: "runs_inv maps p a jobs (cs, st)" and diff: "different_tasks jobs"
    and i: "i < length cs" and job: "run_job c = jobs ! i" and ok: "run_ok p a c"
    and own: "\<And>k. k \<in> set (job_keys (jobs ! i)) \<Longrightarrow> runq_pend maps st' k = run_view p c k"
    and other: "\<And>k. k \<notin> set (job_keys (jobs ! i)) \<Longrightarrow> runq_pend maps st' k = runq_pend maps st k"
    and stats: "\<And>cg. runq_acc maps st' cg = map_option (with_waits cg (cs[i := c])) (a cg)"
  shows "runs_inv maps p a jobs (cs[i := c], st')"
proof -
  have len: "length cs = length jobs" and jobs: "map run_job cs = jobs"
    using inv by (auto simp: runs_inv_def)
  have "map run_job (cs[i := c]) = jobs"
    using jobs job i by (metis list_update_id map_update)
  moreover have "list_all (run_ok p a) (cs[i := c])"
    using inv ok i by (auto simp: runs_inv_def list_all_length nth_list_update)
  moreover have "runq_pend maps st' k = run_view p (cs[i := c] ! j) k"
    if "j < length cs" "k \<in> set (job_keys (jobs ! j))" for j k
  proof (cases "j = i")
    case True
    then show ?thesis using own that i by simp
  next
    case False
    with that have "k \<notin> set (job_keys (jobs ! i))"
      using different_tasks_nth [OF diff, of j i k] i len by auto
    then show ?thesis using other inv that False by (simp add: runs_inv_def)
  qed
  moreover have "runq_pend maps st' k = p k" if "k \<notin> set (concat (map job_keys jobs))" for k
  proof -
    have "k \<notin> set (job_keys (jobs ! i))" using that i len by (auto dest: nth_mem)
    then show ?thesis using other inv that by (simp add: runs_inv_def)
  qed
  ultimately show ?thesis using stats by (simp add: runs_inv_def)
qed

text \<open>A CPU that has found the start of its wait.\<close>

lemma run_ok_found:
  assumes "run_ok p a c" and "run_pc c \<in> {Measure, RemoveStart, FindStats, CountWait, AddWait}"
  obtains t s where "is_switch (run_job c)" "run_tsp c = Some t" "p (next_key (run_job c)) = Some t"
    "a (next_cgroup (run_job c)) = Some s" "run_pc c \<noteq> Measure \<longrightarrow> run_delta c = run_ts c - t"
proof -
  let ?j = "run_job c"
  have pc: "run_pc c \<notin> {ReadState, ReadClock, StoreStart, FindStart, Over}" using assms(2) by fastforce
  note ok = assms(1) [unfolded run_ok_def]
  have sw: "is_switch ?j" using conjunct1 [OF conjunct2 [OF ok]] pc by blast
  have switch: "run_tsp c = (if run_pc c \<in> {ReadState, ReadClock, StoreStart, FindStart} then None else p (next_key ?j))"
    "run_tsp c \<noteq> None" "p (next_key ?j) \<noteq> None \<longrightarrow> a (next_cgroup ?j) \<noteq> None"
    "run_tsp c \<noteq> None \<and> run_pc c \<noteq> Measure \<longrightarrow> run_delta c = run_ts c - the (run_tsp c)"
    using ok sw pc by blast+
  then obtain t where t: "run_tsp c = Some t" by blast
  have p: "p (next_key ?j) = Some t" using switch(1) t pc by (simp split: if_splits)
  then obtain s where s: "a (next_cgroup ?j) = Some s" using switch(3) by blast
  have "run_pc c \<noteq> Measure \<longrightarrow> run_delta c = run_ts c - t" using switch(4) t by simp
  with that [OF sw t p s] show ?thesis .
qed

lemma run_ok_later:
  assumes "run_ok p a c" and "run_pc c \<in> {RemoveStart, FindStats, CountWait, AddWait}"
    and "q \<in> {FindStats, CountWait, AddWait, Over}"
  shows "run_ok p a (c\<lparr>run_pc := q\<rparr>)"
proof -
  obtain t s where "is_switch (run_job c)" "run_tsp c = Some t" "p (next_key (run_job c)) = Some t"
    "a (next_cgroup (run_job c)) = Some s" "run_delta c = run_ts c - t"
    by (rule run_ok_found [OF assms(1)]) (use assms(2) in auto)
  with assms(3) show ?thesis by (elim insertE emptyE) (simp_all add: run_ok_def)
qed

lemmas run_shares = run_view_def run_stored_def run_removed_def run_counted_def run_waited_def

context runq_ctx
begin

lemma runs_inv_at:
  assumes inv: "runs_inv maps p a jobs (cs, st)" and diff: "different_tasks jobs"
    and i: "i < length cs"
  shows "run_ok p a (cs ! i)" and "run_job (cs ! i) = jobs ! i"
    and "k \<in> set (job_keys (jobs ! i)) \<Longrightarrow> pend st k = run_view p (cs ! i) k"
    and "is_switch (jobs ! i) \<Longrightarrow> stamp_key (jobs ! i) \<noteq> next_key (jobs ! i)"
    and "acc st cg = map_option (with_waits cg cs) (a cg)"
proof -
  have jobs: "map run_job cs = jobs" using inv by (simp add: runs_inv_def)
  then show "run_job (cs ! i) = jobs ! i" using i by auto
  show "is_switch (jobs ! i) \<Longrightarrow> stamp_key (jobs ! i) \<noteq> next_key (jobs ! i)"
    using different_tasks_switch [OF diff] jobs i by auto
qed (use inv i in \<open>simp_all add: runs_inv_def list_all_length\<close>)

text \<open>A move of a CPU on its local variables.\<close>

lemma runs_inv_local:
  assumes inv: "runs_inv maps p a jobs (cs, st)" and diff: "different_tasks jobs"
    and i: "i < length cs" and job: "run_job c = run_job (cs ! i)" and ok: "run_ok p a c"
    and view: "run_view p c = run_view p (cs ! i)"
    and shares: "\<And>cg. run_counted cg c = run_counted cg (cs ! i)" "\<And>cg. run_waited cg c = run_waited cg (cs ! i)"
  shows "runs_inv maps p a jobs (cs[i := c], st)"
proof (rule runs_inv_update [OF inv diff i])
  show "acc st cg = map_option (with_waits cg (cs[i := c])) (a cg)" for cg
  proof -
    have "with_waits cg (cs[i := c]) = with_waits cg cs"
      by (intro ext cgroup_runq_stats_t.equality) (simp_all add: with_waits_update [OF i] shares Let_def)
    then show ?thesis using inv by (simp add: runs_inv_def)
  qed
qed (use runs_inv_at [OF inv diff i] job ok view in simp_all)

text \<open>The moves that only change the local variables keep what the CPU has done so far.\<close>

definition same_effects :: "(runq_key_t \<rightharpoonup> u64) \<Rightarrow> (u64 \<rightharpoonup> cgroup_runq_stats_t) \<Rightarrow> runq_cpu \<Rightarrow> runq_cpu \<Rightarrow> bool" where
  "same_effects p a k c \<longleftrightarrow> run_job c = run_job k \<and> run_ok p a c \<and> run_view p c = run_view p k \<and>
     (\<forall>cg. run_counted cg c = run_counted cg k \<and> run_waited cg c = run_waited cg k)"

lemma enter_stamp:
  assumes ok: "run_ok p a k" and pc: "run_pc k \<in> {ReadState, ReadClock}"
    and step: "runq_piece maps now k st = (c, st')"
  shows "st' = st \<and> same_effects p a k c"
proof (cases "run_pc k = ReadState")
  case True
  then have "c = k\<lparr>run_pc := (if stamps (run_job k) then ReadClock else FindStart)\<rparr> \<and> st' = st"
    and "run_tsp k = None" and "is_switch (run_job k)"
    using step ok by (auto simp: runq_piece_def run_ok_def stamps_def)
  with ok True show ?thesis by (simp add: same_effects_def run_ok_def run_shares)
next
  case False
  with pc have pc: "run_pc k = ReadClock" by simp
  then have "c = k\<lparr>run_now := now, run_pc := StoreStart\<rparr> \<and> st' = st" and "run_tsp k = None"
    using step ok by (auto simp: runq_piece_def run_ok_def)
  with ok pc show ?thesis by (auto simp: same_effects_def run_ok_def run_shares)
qed

lemma enter_find:
  assumes ok: "run_ok p a k" and pc: "run_pc k = FindStart"
    and found: "pend st (next_key (run_job k)) = p (next_key (run_job k))"
    and step: "runq_piece maps now k st = (c, st')"
  shows "st' = st \<and> same_effects p a k c"
proof -
  from pc ok have sw: "is_switch (run_job k)" "run_tsp k = None" by (auto simp: run_ok_def)
  show ?thesis
  proof (cases "p (next_key (run_job k))")
    case None
    then have "c = k\<lparr>run_pc := Over\<rparr> \<and> st' = st" using step pc found by (simp add: runq_piece_def)
    then show ?thesis using pc ok sw None by (simp add: same_effects_def run_ok_def run_shares)
  next
    case (Some t)
    then have "c = k\<lparr>run_tsp := Some t, run_pc := Measure\<rparr> \<and> st' = st"
      using step pc found by (simp add: runq_piece_def)
    then show ?thesis using pc ok sw Some by (simp add: same_effects_def run_ok_def run_shares)
  qed
qed

lemma enter_measured:
  assumes ok: "run_ok p a k" and pc: "run_pc k \<in> {Measure, FindStats}"
    and found: "run_pc k = Measure \<Longrightarrow> pend st (next_key (run_job k)) = p (next_key (run_job k))"
    and entry: "a (next_cgroup (run_job k)) \<noteq> None \<Longrightarrow> acc st (next_cgroup (run_job k)) \<noteq> None"
    and step: "runq_piece maps now k st = (c, st')"
  shows "st' = st \<and> same_effects p a k c"
proof -
  obtain t s where sw: "is_switch (run_job k)" and t: "run_tsp k = Some t" "p (next_key (run_job k)) = Some t"
    and s: "a (next_cgroup (run_job k)) = Some s"
    by (rule run_ok_found [OF ok]) (use pc in auto)
  show ?thesis
  proof (cases "run_pc k = Measure")
    case True
    then have "c = k\<lparr>run_ts := now, run_delta := now - t, run_pc := RemoveStart\<rparr> \<and> st' = st"
      using step found t by (simp add: runq_piece_def)
    then show ?thesis using True ok t sw s by (simp add: same_effects_def run_ok_def run_shares)
  next
    case False
    with pc have pc: "run_pc k = FindStats" by simp
    then have c: "c = k\<lparr>run_pc := CountWait\<rparr> \<and> st' = st"
      using step entry s by (auto simp: runq_piece_def)
    moreover have "run_ok p a (k\<lparr>run_pc := CountWait\<rparr>)"
      by (rule run_ok_later [OF ok]) (simp_all add: pc)
    ultimately show ?thesis using pc by (simp add: same_effects_def run_shares)
  qed
qed

lemma runs_inv_enter:
  assumes inv: "runs_inv maps p a jobs (cs, st)" and diff: "different_tasks jobs"
    and i: "i < length cs" and step: "runq_piece maps now (cs ! i) st = (c, st')"
    and pc: "run_pc (cs ! i) \<in> {ReadState, ReadClock, FindStart, Measure, FindStats}"
  shows "runs_inv maps p a jobs (cs[i := c], st')"
proof -
  note at = runs_inv_at [OF inv diff i]
  let ?k = "cs ! i"
  have found: "pend st (next_key (run_job ?k)) = p (next_key (run_job ?k))"
    if "run_pc ?k \<in> {FindStart, Measure}"
  proof -
    note ok = at(1) [unfolded run_ok_def]
    have job: "is_switch (run_job ?k)" using conjunct1 [OF conjunct2 [OF ok]] that by auto
    then have "run_tsp ?k = (if run_pc ?k \<in> {ReadState, ReadClock, StoreStart, FindStart} then None
        else p (next_key (run_job ?k)))" using ok by blast
    with that job at(2) have sw: "is_switch (jobs ! i)" "run_tsp ?k = None \<or> run_pc ?k = Measure" by auto
    have "pend st (next_key (jobs ! i)) = run_view p ?k (next_key (jobs ! i))"
      by (rule at(3) [OF next_key_in [OF sw(1)]])
    then show ?thesis using at(2) at(4) [OF sw(1)] sw(2) by (auto simp: run_view_def run_removed_def)
  qed
  have entry: "acc st cg \<noteq> None" if "a cg \<noteq> None" for cg using at(5) [of cg] that by auto
  from pc consider "run_pc ?k \<in> {ReadState, ReadClock}" | "run_pc ?k = FindStart"
    | "run_pc ?k \<in> {Measure, FindStats}" by blast
  then have "st' = st \<and> same_effects p a ?k c"
  proof cases
    case 1
    then show ?thesis by (rule enter_stamp [OF at(1) _ step])
  next
    case 2
    show ?thesis by (rule enter_find [OF at(1) _ found step]) (use 2 in simp_all)
  next
    case 3
    show ?thesis by (rule enter_measured [OF at(1) 3 found _ step]) (use entry in simp_all)
  qed
  then show ?thesis using runs_inv_local [OF inv diff i, of c] by (simp add: same_effects_def)
qed

lemma runs_inv_stats:
  assumes inv: "runs_inv maps p a jobs (cs, st)" and diff: "different_tasks jobs"
    and i: "i < length cs" and step: "runq_piece maps now (cs ! i) st = (c, st')"
    and pc: "run_pc (cs ! i) \<in> {CountWait, AddWait}"
  shows "runs_inv maps p a jobs (cs[i := c], st')"
proof -
  note at = runs_inv_at [OF inv diff i]
  let ?k = "cs ! i" and ?cg = "next_cgroup (jobs ! i)"
  define f :: "cgroup_runq_stats_t \<Rightarrow> cgroup_runq_stats_t" where "f = (if run_pc ?k = CountWait then (\<lambda>s. s\<lparr>rq_count := rq_count s + 1\<rparr>)
    else (\<lambda>s. s\<lparr>rq_total_latency_ns := rq_total_latency_ns s + run_delta ?k\<rparr>))"
  have c: "c = ?k\<lparr>run_pc := if run_pc ?k = CountWait then AddWait else Over\<rparr>"
    and st': "st' = runq_add maps ?cg f st"
    using step pc at(2) by (auto simp: runq_piece_def f_def)
  from run_ok_found [OF at(1)] pc obtain t where sw: "run_tsp ?k = Some t"
    by (metis insertCI insertE singletonD)
  have share: "with_waits cg (cs[i := c]) s =
      (if cg = ?cg then f (with_waits cg cs s) else with_waits cg cs s)" for cg s
    using pc
    by (elim insertE emptyE) (simp_all add: with_waits_update [OF i] c f_def sw at(2)
        run_counted_def run_waited_def Let_def)
  show ?thesis
  proof (rule runs_inv_update [OF inv diff i])
    show "run_job c = jobs ! i" by (simp add: c at(2))
    show "run_ok p a c" unfolding c by (rule run_ok_later [OF at(1)]) (use pc in auto)
    have "run_view p c = run_view p ?k"
      using pc by (auto simp: c run_shares)
    then show "pend st' k = run_view p c k" if "k \<in> set (job_keys (jobs ! i))" for k
      using at(3) [OF that] by (simp add: st' runq_add_pend)
    show "pend st' k = pend st k" for k by (simp add: st' runq_add_pend)
    show "acc st' cg = map_option (with_waits cg (cs[i := c])) (a cg)" for cg
      using at(5) [of cg] by (cases "a cg") (auto simp: st' runq_add_acc share split: option.split)
  qed
qed

text \<open>The in-flight map has room for every task the jobs may stamp.\<close>

lemma run_view_dom: "run_view p c k \<noteq> None \<Longrightarrow> p k \<noteq> None \<or> k = stamp_key (run_job c)"
  by (simp add: run_view_def Let_def split: if_splits)

lemma runs_inv_dom:
  assumes inv: "runs_inv maps p a jobs (cs, st)"
  shows "dom (pend st) \<subseteq> dom p \<union> stamp_key ` set jobs"
proof
  fix k assume k: "k \<in> dom (pend st)"
  have jobs: "map run_job cs = jobs" using inv by (simp add: runs_inv_def)
  then have len: "length cs = length jobs" by auto
  show "k \<in> dom p \<union> stamp_key ` set jobs"
  proof (cases "\<exists>i < length jobs. k \<in> set (job_keys (jobs ! i))")
    case True
    then obtain i where i: "i < length jobs" "k \<in> set (job_keys (jobs ! i))" by blast
    then have "runq_pend maps st k = run_view p (cs ! i) k" using inv len by (simp add: runs_inv_def)
    moreover have "runq_pend maps st k \<noteq> None" using k by blast
    ultimately have "run_view p (cs ! i) k \<noteq> None" by metis
    then have "p k \<noteq> None \<or> k = stamp_key (run_job (cs ! i))" by (rule run_view_dom)
    moreover have "run_job (cs ! i) \<in> set jobs" using jobs i(1) len by (metis nth_map nth_mem)
    ultimately show ?thesis by blast
  next
    case False
    then have "k \<notin> set (concat (map job_keys jobs))" by (auto simp: in_set_conv_nth [of _ jobs])
    then have "pend st k = p k" using inv by (simp add: runs_inv_def)
    with k show ?thesis by auto
  qed
qed

definition room_for :: "(runq_key_t \<rightharpoonup> u64) \<Rightarrow> runq_job list \<Rightarrow> bool" where
  "room_for p jobs \<longleftrightarrow> finite (dom p) \<and> card (dom p \<union> stamp_key ` set jobs) \<le> runq_start_map_entries"

lemma runs_inv_room:
  assumes inv: "runs_inv maps p a jobs (cs, st)" and room: "room_for p jobs" and i: "i < length jobs"
  shows "room (pend st) (stamp_key (jobs ! i))"
proof (cases "pend st (stamp_key (jobs ! i))")
  case None
  let ?K = "dom p \<union> stamp_key ` set jobs"
  have "dom (pend st) \<subseteq> ?K - {stamp_key (jobs ! i)}" using runs_inv_dom [OF inv] None by auto
  moreover have "finite ?K" using room by (simp add: room_for_def)
  moreover have "stamp_key (jobs ! i) \<in> ?K" using i by simp
  ultimately have "card (dom (pend st)) < card ?K"
    by (meson card_Diff1_less card_mono finite_Diff le_less_trans)
  then show ?thesis using room by (simp add: room_def room_for_def)
qed (simp add: room_def)

lemma runs_inv_maps:
  assumes inv: "runs_inv maps p a jobs (cs, st)" and diff: "different_tasks jobs" and room: "room_for p jobs"
    and i: "i < length cs" and step: "runq_piece maps now (cs ! i) st = (c, st')"
    and pc: "run_pc (cs ! i) \<in> {StoreStart, RemoveStart}"
  shows "runs_inv maps p a jobs (cs[i := c], st')"
proof -
  note at = runs_inv_at [OF inv diff i]
  let ?k = "cs ! i" and ?j = "jobs ! i"
  let ?key = "if run_pc ?k = StoreStart then stamp_key ?j else next_key ?j"
  have len: "i < length jobs" using inv i by (auto simp: runs_inv_def)
  have effect: "run_job c = ?j \<and> run_ok p a c \<and> acc st' = acc st \<and>
      pend st' = (pend st)(?key := if run_pc ?k = StoreStart then Some (run_now ?k) else None) \<and>
      run_view p c = (run_view p ?k)(?key := if run_pc ?k = StoreStart then Some (run_now ?k) else None) \<and>
      ?key \<in> set (job_keys ?j) \<and> run_counted cg c = run_counted cg ?k \<and>
      run_waited cg c = run_waited cg ?k" for cg
  proof (cases "run_pc ?k = StoreStart")
    case True
    then have c: "c = ?k\<lparr>run_pc := (if is_switch ?j then FindStart else Over)\<rparr>"
      and st': "st' = st\<lparr>rq_start_map :=
        bpf_update (rq_start_ops maps) (rq_start_map st) (stamp_key ?j) (run_now ?k)\<rparr>"
      using step at(2) by (auto simp: runq_piece_def)
    have "run_tsp ?k = None" "stamps ?j" using True at(1,2) by (auto simp: run_ok_def)
    then show ?thesis
      using runs_inv_room [OF inv room len] True at(1,2) stamp_key_in [of ?j]
      by (auto simp: c st' room_def start.lookup_update run_ok_def run_shares)
  next
    case False
    with pc have rm: "run_pc ?k = RemoveStart" by simp
    then have c: "c = ?k\<lparr>run_pc := FindStats\<rparr>"
      and st': "st' = st\<lparr>rq_start_map := bpf_delete (rq_start_ops maps) (rq_start_map st) (next_key ?j)\<rparr>"
      using step at(2) by (auto simp: runq_piece_def)
    obtain t where "is_switch ?j" "run_tsp ?k = Some t"
      by (rule run_ok_found [OF at(1)]) (use rm at(2) in auto)
    moreover have "run_ok p a c" unfolding c by (rule run_ok_later [OF at(1)]) (simp_all add: rm)
    ultimately show ?thesis
      using rm at(2) next_key_in [of ?j] by (auto simp: c st' start.lookup_delete run_shares)
  qed
  show ?thesis
  proof (rule runs_inv_update [OF inv diff i])
    show "acc st' cg = map_option (with_waits cg (cs[i := c])) (a cg)" for cg
    proof -
      have "with_waits cg (cs[i := c]) = with_waits cg cs"
        using effect [of cg]
        by (intro ext cgroup_runq_stats_t.equality) (simp_all add: with_waits_update [OF i] Let_def)
      then show ?thesis using effect at(5) by simp
    qed
  qed (use effect at(3) in auto)
qed

lemma runs_inv_piece:
  assumes inv: "runs_inv maps p a jobs (cs, st)" and diff: "different_tasks jobs" and room: "room_for p jobs"
    and i: "i < length cs" and "\<not> run_over (cs ! i)"
    and step: "runq_piece maps now (cs ! i) st = (c, st')"
  shows "runs_inv maps p a jobs (cs[i := c], st')"
proof -
  have "run_pc (cs ! i) \<notin> {CreateStats, FindAgain, NoStats}"
    using runs_inv_at(1) [OF inv diff i] by (simp add: run_ok_def)
  with assms(5) consider "run_pc (cs ! i) \<in> {ReadState, ReadClock, FindStart, Measure, FindStats}"
    | "run_pc (cs ! i) \<in> {StoreStart, RemoveStart}" | "run_pc (cs ! i) \<in> {CountWait, AddWait}"
    by (cases "run_pc (cs ! i)") (auto simp: run_over_def)
  then show ?thesis
    by cases (use runs_inv_enter [OF inv diff i step] runs_inv_maps [OF inv diff room i step]
        runs_inv_stats [OF inv diff i step] in blast)+
qed

lemma runs_inv_runs:
  assumes "sched_runs maps s t" and "runs_inv maps p a jobs s"
    and "different_tasks jobs" and "room_for p jobs"
  shows "runs_inv maps p a jobs t"
  using assms(1,2) by (rule par_run_invariant) (rule runs_inv_piece [OF _ assms(3,4)])

end

section \<open>The specification of the programs that have run\<close>

definition run_samples :: "runq_cpu \<Rightarrow> wait_sample list" where
  "run_samples c =
     (case run_tsp c of None \<Rightarrow> [] | Some _ \<Rightarrow> [Waited (next_cgroup (run_job c)) (run_delta c)])"

lemma run_ok_over:
  assumes "run_ok p a c" and "run_pc c = Over"
  shows "is_switch (run_job c) \<Longrightarrow> run_tsp c = p (next_key (run_job c))"
    and "\<not> is_switch (run_job c) \<Longrightarrow> run_tsp c = None"
    and "run_tsp c = Some t \<Longrightarrow> run_delta c = run_ts c - t"
  using assms by (simp_all add: run_ok_def)

lemma spec_step_view:
  assumes ok: "run_ok p a c" and pc: "run_pc c = Over"
    and keys: "distinct (job_keys (run_job c))" and w: "\<forall>k \<in> set (job_keys (run_job c)). w k = p k"
  shows "runq_spec_step (run_event c) (w, ss) =
    ((\<lambda>k. if k \<in> set (job_keys (run_job c)) then run_view p c k else w k), ss @ run_samples c)"
proof (cases "run_job c")
  case (Waking env q)
  then show ?thesis
    using run_ok_over(2) [OF ok pc] pc w
    by (auto simp: run_event_def run_samples_def run_shares stamps_def)
next
  case (Switching env preempt prev nxt)
  have tsp: "run_tsp c = p (fill_key env nxt)" using run_ok_over(1) [OF ok pc] Switching by simp
  have ne: "fill_key env prev \<noteq> fill_key env nxt" using keys Switching by simp
  have req: "requeue env (run_now c) prev w (fill_key env nxt) = p (fill_key env nxt)"
    using ne w Switching by (simp add: requeue_def)
  have view: "requeue env (run_now c) prev w k =
      (if k \<in> {fill_key env prev, fill_key env nxt}
       then (if run_stored c then p(fill_key env prev \<mapsto> run_now c) else p) k else w k)" for k
    using w Switching pc by (auto simp: requeue_def run_stored_def stamps_def)
  show ?thesis
  proof (cases "p (fill_key env nxt)")
    case None
    then show ?thesis
      using req view Switching tsp pc
      by (auto simp: run_event_def run_samples_def run_view_def run_removed_def intro!: ext)
  next
    case (Some t)
    then show ?thesis
      using req view Switching tsp pc run_ok_over(3) [OF ok pc, of t] ne
      by (auto simp: run_event_def run_samples_def run_view_def run_removed_def intro!: ext)
  qed
qed

lemma spec_steps_view:
  assumes "list_all (\<lambda>c. run_ok p a c \<and> run_pc c = Over) cs"
    and "distinct (concat (map (job_keys \<circ> run_job) cs))"
    and "\<forall>k \<in> set (concat (map (job_keys \<circ> run_job) cs)). w k = p k"
  shows "\<exists>w'. fold runq_spec_step (map run_event cs) (w, ss) = (w', ss @ concat (map run_samples cs)) \<and>
    (\<forall>c \<in> set cs. \<forall>k \<in> set (job_keys (run_job c)). w' k = run_view p c k) \<and>
    (\<forall>k. k \<notin> set (concat (map (job_keys \<circ> run_job) cs)) \<longrightarrow> w' k = w k)"
  using assms
proof (induction cs arbitrary: w ss)
  case (Cons c cs)
  let ?w = "\<lambda>k. if k \<in> set (job_keys (run_job c)) then run_view p c k else w k"
  have step: "runq_spec_step (run_event c) (w, ss) = (?w, ss @ run_samples c)"
    by (rule spec_step_view) (use Cons.prems in auto)
  have "\<forall>k \<in> set (concat (map (job_keys \<circ> run_job) cs)). ?w k = p k"
    using Cons.prems(2,3) by (auto simp: disjoint_iff)
  then obtain w' where
    "fold runq_spec_step (map run_event cs) (?w, ss @ run_samples c) =
      (w', (ss @ run_samples c) @ concat (map run_samples cs))"
    and "\<forall>c \<in> set cs. \<forall>k \<in> set (job_keys (run_job c)). w' k = run_view p c k"
    and keep: "\<And>k. k \<notin> set (concat (map (job_keys \<circ> run_job) cs)) \<Longrightarrow> w' k = ?w k"
    using Cons.IH [of ?w "ss @ run_samples c"] Cons.prems(1,2) by auto
  moreover have "w' k = run_view p c k" if "k \<in> set (job_keys (run_job c))" for k
    using keep [of k] that Cons.prems(2) by (auto simp: disjoint_iff)
  ultimately show ?case using step keep by (intro exI [of _ w']) auto
qed simp

lemma waits_of_samples:
  assumes "list_all (\<lambda>c. run_pc c = Over) cs"
  shows "of_nat (length (waits_of (concat (map run_samples cs)) cg)) = sum_list (map (run_counted cg) cs)"
    and "sum_list (map wait_delta (waits_of (concat (map run_samples cs)) cg)) =
      sum_list (map (run_waited cg) cs)"
  using assms
  by (induction cs)
    (auto simp: waits_of_def run_samples_def run_counted_def run_waited_def split: option.split)

lemma stats_of_samples:
  assumes over: "list_all (\<lambda>c. run_ok p a c \<and> run_pc c = Over) cs" and a: "a = runq_stats_of ss"
  shows "runq_stats_of (ss @ concat (map run_samples cs)) cg = map_option (with_waits cg cs) (a cg)"
proof (cases "a cg")
  case (Some s)
  have "list_all (\<lambda>c. run_pc c = Over) cs" using over by (auto simp: list_all_iff)
  from waits_of_samples [OF this] Some a show ?thesis
    by (auto simp: runq_stats_of_def with_waits_def waits_of_def split: if_splits)
next
  case None
  have "wait_cgroup x \<noteq> cg" if "x \<in> set (run_samples c)" "c \<in> set cs" for x c
  proof -
    from over that have ok: "run_ok p a c" "run_pc c = Over" by (auto simp: list_all_iff)
    from that obtain t where t: "run_tsp c = Some t" "wait_cgroup x = next_cgroup (run_job c)"
      by (cases "run_tsp c") (auto simp: run_samples_def)
    then have "is_switch (run_job c)" using run_ok_over(2) [OF ok] by auto
    moreover from this have "p (next_key (run_job c)) = Some t" using run_ok_over(1) [OF ok] t by simp
    ultimately have "a (next_cgroup (run_job c)) \<noteq> None" using ok(1) by (simp add: run_ok_def)
    with None t show ?thesis by auto
  qed
  then have "waits_of (concat (map run_samples cs)) cg = []"
    by (auto simp: waits_of_def filter_empty_conv)
  with None a show ?thesis by (simp add: runq_stats_of_def waits_of_def split: if_splits)
qed

lemma runs_inv_entering:
  assumes "different_tasks jobs"
    and "\<forall>j \<in> set jobs. is_switch j \<longrightarrow> runq_pend maps st (next_key j) \<noteq> None \<longrightarrow>
      runq_acc maps st (next_cgroup j) \<noteq> None"
  shows "runs_inv maps (runq_pend maps st) (runq_acc maps st) jobs (map run_entering jobs, st)"
proof -
  have shares: "with_waits cg (map run_entering jobs) s = s" for cg s
    by (induction jobs) (auto simp: with_waits_def run_counted_def run_waited_def run_entering_def)
  have "map_option (with_waits cg (map run_entering jobs)) x = x" for cg x
    by (cases x) (simp_all add: shares)
  moreover have "run_view p (run_entering j) = p" for p j
    by (rule ext) (simp add: run_shares run_entering_def)
  moreover have "run_ok (runq_pend maps st) (runq_acc maps st) (run_entering j)" if "j \<in> set jobs" for j
    using assms(2) that by (simp add: run_ok_def run_entering_def stamps_def)
  moreover have "map run_job (map run_entering jobs) = jobs"
    by (induction jobs) (simp_all add: run_entering_def)
  ultimately show ?thesis by (auto simp: runs_inv_def list_all_iff)
qed

context runq_ctx
begin

lemma runs_refine:
  assumes ref: "runq_refines maps st (w, ss)" and diff: "different_tasks jobs"
    and room: "card (dom w \<union> stamp_key ` set jobs) \<le> runq_start_map_entries"
    and entries: "\<forall>j \<in> set jobs. is_switch j \<longrightarrow> w (next_key j) \<noteq> None \<longrightarrow> waits_of ss (next_cgroup j) \<noteq> []"
    and runs: "sched_runs maps (map run_entering jobs, st) (cs, st')" and over: "list_all run_over cs"
  shows "map run_job cs = jobs \<and>
    runq_refines maps st' (fold runq_spec_step (map run_event cs) (w, ss))"
proof -
  have w: "pend st = w" and a: "acc st = runq_stats_of ss" using ref by (simp_all add: runq_refines_def)
  have "room_for w jobs" using room start.finite_dom [of "rq_start_map st"] w by (simp add: room_for_def)
  moreover have "runs_inv maps w (acc st) jobs (map run_entering jobs, st)"
    unfolding w [symmetric]
    by (rule runs_inv_entering [OF diff]) (use entries w a in \<open>simp add: waits_of_empty_iff\<close>)
  ultimately have inv: "runs_inv maps w (acc st) jobs (cs, st')"
    using runs_inv_runs [OF runs _ diff] by simp
  then have jobs: "map run_job cs = jobs" and keys: "map (job_keys \<circ> run_job) cs = map job_keys jobs"
    by (auto simp: runs_inv_def)
  have ok: "list_all (\<lambda>c. run_ok w (acc st) c \<and> run_pc c = Over) cs"
    using inv over by (auto simp: runs_inv_def list_all_iff run_ok_def run_over_def)
  obtain w' where w': "fold runq_spec_step (map run_event cs) (w, ss) = (w', ss @ concat (map run_samples cs))"
    "\<forall>c \<in> set cs. \<forall>k \<in> set (job_keys (run_job c)). w' k = run_view w c k"
    "\<forall>k. k \<notin> set (concat (map job_keys jobs)) \<longrightarrow> w' k = w k"
    using spec_steps_view [OF ok, of w ss] diff unfolding keys different_tasks_def by auto
  have "pend st' k = w' k" for k
  proof (cases "\<exists>i < length cs. k \<in> set (job_keys (jobs ! i))")
    case True
    then obtain i where i: "i < length cs" "k \<in> set (job_keys (jobs ! i))" by blast
    then have "pend st' k = run_view w (cs ! i) k" using inv by (simp add: runs_inv_def)
    moreover have "cs ! i \<in> set cs" "run_job (cs ! i) = jobs ! i" using i(1) jobs by auto
    ultimately show ?thesis using w'(2) i(2) by simp
  next
    case False
    then have "k \<notin> set (concat (map job_keys jobs))"
      using jobs by (auto simp: in_set_conv_nth [of _ cs])
    then show ?thesis using inv w'(3) by (simp add: runs_inv_def)
  qed
  moreover have "acc st' cg = runq_stats_of (ss @ concat (map run_samples cs)) cg" for cg
    using inv stats_of_samples [OF ok a, of cg] by (simp add: runs_inv_def)
  ultimately show ?thesis using jobs w'(1) by (auto simp: runq_refines_def)
qed

end

section \<open>Properties\<close>

text \<open>
  Splitting the scheduler programs at their clock readings, helper calls and atomic additions
  loses nothing: a CPU that runs alone leaves both maps as the program leaves them for the clocks it
  has read, whatever is in the maps, full maps included.
\<close>

lemma sched_alone_refines:
  assumes "runq_ctx maps" and "sched_runs maps ([run_entering j], st) (cs, st')" and "list_all run_over cs"
  shows "\<exists>c. cs = [c] \<and> run_job c = j \<and>
    runq_pend maps st' = runq_pend maps (runq_step maps (run_event c) st) \<and>
    runq_acc maps st' = runq_acc maps (runq_step maps (run_event c) st)"
  by (rule runq_ctx.alone_computes [OF assms])

text \<open>The tasks 5 and 10 wait, and cgroup 7 has an entry with one wait of 10, or none.\<close>

definition two_waiting ::
  "(u64 \<times> cgroup_runq_stats_t) list \<Rightarrow>
   ((runq_key_t \<times> u64) list, (u64 \<times> cgroup_runq_stats_t) list) runq_state" where
  "two_waiting stats =
     \<lparr>rq_start_map = [(\<lparr>key_pid = 5, key_start_time = 7\<rparr>, 100), (\<lparr>key_pid = 10, key_start_time = 7\<rparr>, 110)],
      runq_stats_by_cgroup = stats\<rparr>"

definition two_switches :: "runq_job list" where
  "two_switches = [Switching demo_kernel False 9 5, Switching demo_kernel True 8 10]"

lemmas two_simps = two_waiting_def two_switches_def sched_move_def runq_piece_def run_entering_def
  run_over_def runq_add_def bpf_simps hash_update_def runq_start_map_entries_def
  runq_stats_by_cgroup_entries_def zero_runq_stats_def demo_kernel_def fill_key_def core_read_def
  get_task_cgroup_id_def

definition alone_schedule :: "(nat \<times> u64) list" where
  "alone_schedule = [(0, 120), (0, 120), (0, 121), (0, 122), (0, 130), (0, 131), (0, 132), (0, 133),
     (0, 134), (0, 135), (0, 136)]"

lemma sched_alone_refines_witness:
  "\<exists>c st'. run_job c = Switching demo_kernel False 9 5 \<and>
     sched_runs hash_runq_maps ([run_entering (Switching demo_kernel False 9 5)], two_waiting []) ([c], st') \<and>
     runq_acc hash_runq_maps st' =
       runq_acc hash_runq_maps (runq_step hash_runq_maps (run_event c) (two_waiting []))"
proof -
  let ?start = "([run_entering (Switching demo_kernel False 9 5)], two_waiting [])"
  have "\<exists>cs st'. sched_run (runq_piece hash_runq_maps) run_over alone_schedule ?start = Some (cs, st') \<and>
      list_all run_over cs"
    by (simp add: alone_schedule_def two_simps)
  then obtain cs st' where "sched_runs hash_runq_maps ?start (cs, st')" "list_all run_over cs"
    by (blast intro: sched_run_par_run)
  with sched_alone_refines [OF hash_runq.runq_ctx_axioms this] show ?thesis by blast
qed

text \<open>
  C10: scheduler programs about different tasks, running on any number of CPUs and interleaved in any
  way, implement the specification of the waiting tasks and the waits measured, when the in-flight map
  has room for the tasks switched out or woken up and the cgroups of the waiting tasks switched in
  have an entry: once all have returned, the maps hold what the specification says of the events
  these CPUs handled, in the order of the CPUs, with the clocks they read.
\<close>

theorem concurrent_sched_refines_spec:
  assumes "runq_ctx maps" and "runq_refines maps st (w, ss)" and "different_tasks jobs"
    and "card (dom w \<union> stamp_key ` set jobs) \<le> runq_start_map_entries"
    and "\<forall>j \<in> set jobs. is_switch j \<longrightarrow> w (next_key j) \<noteq> None \<longrightarrow> waits_of ss (next_cgroup j) \<noteq> []"
    and "sched_runs maps (map run_entering jobs, st) (cs, st')" and "list_all run_over cs"
  shows "map run_job cs = jobs \<and>
    runq_refines maps st' (fold runq_spec_step (map run_event cs) (w, ss))"
  by (rule runq_ctx.runs_refine [OF assms])

definition mixed_schedule :: "(nat \<times> u64) list" where
  "mixed_schedule =
     [(0, 120), (1, 120), (1, 121), (0, 122), (0, 122), (1, 123), (1, 124), (0, 125), (1, 160), (0, 150),
      (0, 151), (1, 161), (0, 152), (1, 162), (1, 163), (0, 164), (0, 165), (1, 166)]"

theorem concurrent_sched_refines_spec_witness:
  "\<exists>cs st'. sched_runs hash_runq_maps
       (map run_entering two_switches, two_waiting [(7, \<lparr>rq_count = 1, rq_total_latency_ns = 10\<rparr>)]) (cs, st') \<and>
     runq_refines hash_runq_maps st' (fold runq_spec_step (map run_event cs)
       (map_of (rq_start_map (two_waiting [])), [Waited 7 10]))"
proof -
  let ?st = "two_waiting [(7, \<lparr>rq_count = 1, rq_total_latency_ns = 10\<rparr>)]"
  let ?w = "map_of (rq_start_map (two_waiting []))"
  have ref: "runq_refines hash_runq_maps ?st (?w, [Waited 7 10])"
    by (auto simp: runq_refines_def runq_stats_of_def waits_of_def two_waiting_def bpf_simps)
  have diff: "different_tasks two_switches"
    by (simp add: different_tasks_def two_simps)
  have room: "card (dom ?w \<union> stamp_key ` set two_switches) \<le> runq_start_map_entries"
    by (rule le_trans [OF card_Un_le])
      (simp add: two_simps dom_map_of_conv_image_fst card_insert_if)
  have entries: "\<forall>j \<in> set two_switches. is_switch j \<longrightarrow> ?w (next_key j) \<noteq> None \<longrightarrow>
      waits_of [Waited 7 10] (next_cgroup j) \<noteq> []"
    by (simp add: two_simps waits_of_def)
  have "\<exists>cs st'. sched_run (runq_piece hash_runq_maps) run_over mixed_schedule
      (map run_entering two_switches, ?st) = Some (cs, st') \<and> list_all run_over cs"
    by (simp add: mixed_schedule_def two_simps)
  then obtain cs st' where runs: "sched_runs hash_runq_maps (map run_entering two_switches, ?st) (cs, st')"
    and over: "list_all run_over cs"
    by (blast intro: sched_run_par_run)
  with concurrent_sched_refines_spec [OF hash_runq.runq_ctx_axioms ref diff room entries this]
  show ?thesis by blast
qed

definition late_schedule :: "(nat \<times> u64) list" where
  "late_schedule =
     map (\<lambda>n. (0, 120)) [0..<7] @ map (\<lambda>n. (1, 130)) [0..<7] @ map (\<lambda>n. (0, 140)) [0..<4] @
     map (\<lambda>n. (1, 150)) [0..<4]"

text \<open>
  C11: the first two waits of a cgroup can be counted as one. Two CPUs switch in two tasks of a cgroup
  without an entry; both find none, the first creates it and adds its wait, the second creates it
  again (\<open>BPF_ANY\<close> replaces) and adds its own. Both have returned normally; one wait is counted, where
  one switch after the other counts two.
\<close>

theorem concurrent_first_waits_lose_sample:
  "\<exists>cs st. sched_runs hash_runq_maps (map run_entering two_switches, two_waiting []) (cs, st) \<and>
     list_all (\<lambda>c. run_pc c = Over \<and> run_tsp c \<noteq> None) cs \<and>
     map_option rq_count (runq_acc hash_runq_maps st 7) = Some 1 \<and>
     map_option rq_count (runq_acc hash_runq_maps
       (runq_run hash_runq_maps (map run_event cs) (two_waiting [])) 7) = Some 2"
proof -
  have "\<exists>cs st. sched_run (runq_piece hash_runq_maps) run_over late_schedule
      (map run_entering two_switches, two_waiting []) = Some (cs, st) \<and>
     list_all (\<lambda>c. run_pc c = Over \<and> run_tsp c \<noteq> None) cs \<and>
     map_option rq_count (runq_acc hash_runq_maps st 7) = Some 1 \<and>
     map_option rq_count (runq_acc hash_runq_maps
       (runq_run hash_runq_maps (map run_event cs) (two_waiting [])) 7) = Some 2"
    by (simp add: late_schedule_def upt_rec two_simps runq_run_def run_event_def sched_switch_def Let_def
        add_runq_stats_def)
  then show ?thesis by (blast intro: sched_run_par_run)
qed

end
