(* ===== verification/SchedAmid.thy ===== *)
theory SchedAmid
  imports PassAmid RunqInterleave
begin

text \<open>
  The pass of the collector while all five programs are under way: completions and scheduler programs
  (\<open>ebpf/latency/runq_latency.c\<close>), each on any number of CPUs and piece by piece, with any pieces executed before
  every entry that \<open>readStats\<close> reads of either map.
\<close>

section \<open>Scheduler programs under way\<close>

type_synonym runq_sys = "(runq_cpu, ((runq_key_t \<times> u64) list, (u64 \<times> cgroup_runq_stats_t) list) runq_state) system"

definition sys_runq :: "(runq_sys, CgroupRunqStats) map_ops" where
  "sys_runq =
     \<lparr>Iterate = (\<lambda>s. Iterate live_runq (snd s)),
      Delete = (\<lambda>s k. (fst s, Delete live_runq (snd s) k)),
      Entries = (\<lambda>s. Entries live_runq (snd s))\<rparr>"

interpretation sys_runq_pinned: pinned_map sys_runq
  by unfold_locales
    (simp_all add: sys_runq_def live_runq.iterate_entries live_runq.iterate_distinct live_runq.delete_entries)

definition runs_go :: "(nat \<times> u64) list \<Rightarrow> runq_sys \<Rightarrow> runq_sys" where
  "runs_go sched s =
     (case sched_run (runq_piece hash_runq_maps) run_over sched s of None \<Rightarrow> s | Some t \<Rightarrow> t)"

text \<open>The switches that end a wait of cgroup \<open>k\<close>; \<open>p\<close> holds the tasks waiting when the programs began.\<close>

definition ends_wait :: "(runq_key_t \<rightharpoonup> u64) \<Rightarrow> u64 \<Rightarrow> runq_job \<Rightarrow> bool" where
  "ends_wait p k j \<longleftrightarrow> is_switch j \<and> p (next_key j) \<noteq> None \<and> next_cgroup j = k"

definition waits_within :: "nat \<Rightarrow> (runq_key_t \<rightharpoonup> u64) \<Rightarrow> runq_job list \<Rightarrow> (nat \<times> u64) list \<Rightarrow> bool" where
  "waits_within E p jobs sched \<longleftrightarrow>
     list_all (\<lambda>(i, now). list_all (\<lambda>j. case p (next_key j) of None \<Rightarrow> True
       | Some t \<Rightarrow> unat (now - t) \<le> E) jobs) sched"

definition measured_within :: "nat \<Rightarrow> (runq_key_t \<rightharpoonup> u64) \<Rightarrow> runq_cpu \<Rightarrow> bool" where
  "measured_within E p c \<longleftrightarrow> (run_tsp c \<noteq> None \<and> run_pc c \<noteq> Measure \<longrightarrow>
     (\<forall>t. p (next_key (run_job c)) = Some t \<longrightarrow> unat (run_ts c - t) \<le> E))"

definition waits_inv ::
  "nat \<Rightarrow> (runq_key_t \<rightharpoonup> u64) \<Rightarrow> (u64 \<rightharpoonup> cgroup_runq_stats_t) \<Rightarrow> runq_job list \<Rightarrow> runq_sys \<Rightarrow> bool" where
  "waits_inv E p a jobs s \<longleftrightarrow> runs_inv hash_runq_maps p a jobs s \<and> list_all (measured_within E p) (fst s)"

lemma piece_measures:
  "runq_piece maps now c st = (c', st') \<Longrightarrow> measured_within E p c \<Longrightarrow>
   (\<And>t. p (next_key (run_job c)) = Some t \<Longrightarrow> unat (now - t) \<le> E) \<Longrightarrow> measured_within E p c'"
  by (cases "run_pc c") (auto simp: runq_piece_def measured_within_def Let_def split: option.splits)

lemma waits_inv_piece:
  assumes inv: "waits_inv E p a jobs (cs, st)" and diff: "different_tasks jobs" and room: "hash_runq.room_for p jobs"
    and clock: "list_all (\<lambda>j. case p (next_key j) of None \<Rightarrow> True | Some t \<Rightarrow> unat (now - t) \<le> E) jobs"
    and i: "i < length cs" and no: "\<not> run_over (cs ! i)"
    and step: "runq_piece hash_runq_maps now (cs ! i) st = (c, st')"
  shows "waits_inv E p a jobs (cs[i := c], st')"
proof -
  have runs: "runs_inv hash_runq_maps p a jobs (cs, st)" and m: "list_all (measured_within E p) cs"
    using inv by (simp_all add: waits_inv_def)
  have new: "runs_inv hash_runq_maps p a jobs (cs[i := c], st')"
    by (rule hash_runq.runs_inv_piece [OF runs diff room i no step])
  have "run_job (cs ! i) \<in> set jobs" using runs i by (auto simp: runs_inv_def)
  then have "unat (now - t) \<le> E" if "p (next_key (run_job (cs ! i))) = Some t" for t
    using clock that by (auto simp: list_all_iff split: option.splits)
  moreover have "measured_within E p (cs ! i)" using m i by (simp add: list_all_length)
  ultimately have "measured_within E p c" using piece_measures [OF step] by blast
  with new m i show ?thesis by (auto simp: waits_inv_def list_all_length nth_list_update)
qed

lemma waits_inv_go:
  assumes "waits_inv E p a jobs s" and "different_tasks jobs" and "hash_runq.room_for p jobs" and "waits_within E p jobs sched"
  shows "waits_inv E p a jobs (runs_go sched s)"
proof (cases "sched_run (runq_piece hash_runq_maps) run_over sched s")
  case (Some t)
  have "waits_inv E p a jobs t"
  proof (rule sched_run_invariant [where P = "waits_inv E p a jobs", OF Some assms(1)])
    fix cs st i now c st'
    assume "(i, now) \<in> set sched" and inv: "waits_inv E p a jobs (cs, st)"
      and m: "i < length cs" "\<not> run_over (cs ! i)" "runq_piece hash_runq_maps now (cs ! i) st = (c, st')"
    then have "list_all (\<lambda>j. case p (next_key j) of None \<Rightarrow> True | Some t \<Rightarrow> unat (now - t) \<le> E) jobs"
      using assms(4) by (auto simp: waits_within_def list_all_iff)
    with inv assms(2,3) show "waits_inv E p a jobs (cs[i := c], st')" by (rule waits_inv_piece) (rule m)+
  qed
  with Some show ?thesis by (simp add: runs_go_def)
qed (use assms(1) in \<open>simp add: runs_go_def\<close>)

lemma waits_inv_start:
  assumes "different_tasks jobs"
    and "\<forall>j \<in> set jobs. is_switch j \<longrightarrow> runq_pend hash_runq_maps st (next_key j) \<noteq> None \<longrightarrow>
      runq_acc hash_runq_maps st (next_cgroup j) \<noteq> None"
  shows "waits_inv E (runq_pend hash_runq_maps st) (runq_acc hash_runq_maps st) jobs (map run_entering jobs, st)"
  using runs_inv_entering [OF assms]
  by (simp add: waits_inv_def list_all_iff measured_within_def run_entering_def)

section \<open>An entry of the run-queue map read under way\<close>

definition between_waits ::
  "(runq_key_t \<rightharpoonup> u64) \<Rightarrow> u64 \<Rightarrow> nat \<Rightarrow> runq_job list \<Rightarrow> cgroup_runq_stats_t \<Rightarrow> CgroupRunqStats \<Rightarrow> bool" where
  "between_waits p k E jobs s v \<longleftrightarrow>
     unat (rq_count s) \<le> unat (RunqCount v) \<and>
     unat (RunqCount v) \<le> unat (rq_count s) + length (filter (ends_wait p k) jobs) \<and>
     unat (rq_total_latency_ns s) \<le> unat (RunqTotalLatencyNs v) \<and>
     unat (RunqTotalLatencyNs v) \<le> unat (rq_total_latency_ns s) + length (filter (ends_wait p k) jobs) * E"

text \<open>What a CPU has added, and that the count comes first.\<close>

definition wait_counted :: "u64 \<Rightarrow> runq_cpu \<Rightarrow> bool" where
  "wait_counted k c \<longleftrightarrow> run_tsp c \<noteq> None \<and> next_cgroup (run_job c) = k \<and> run_pc c \<in> {AddWait, Over}"

lemma count_counted: "sum_list (map (run_counted k) cs) = of_nat (length (filter (wait_counted k) cs))"
  by (induction cs) (simp_all add: run_counted_def wait_counted_def)

lemma counted_wait:
  assumes "run_ok p a c" and "wait_counted k c"
  obtains t where "is_switch (run_job c)" "p (next_key (run_job c)) = Some t" "next_cgroup (run_job c) = k"
    "run_tsp c = Some t" "run_delta c = run_ts c - t" "run_pc c \<noteq> Measure"
proof -
  from assms(2) obtain t where t: "run_tsp c = Some t" "next_cgroup (run_job c) = k" "run_pc c = AddWait \<or> run_pc c = Over"
    unfolding wait_counted_def by blast
  note ok = assms(1) [unfolded run_ok_def, THEN conjunct2]
  have sw: "is_switch (run_job c)" using ok [THEN conjunct1] t(1) by auto
  have "run_tsp c = (if run_pc c \<in> {ReadState, ReadClock, StoreStart, FindStart} then None
      else p (next_key (run_job c)))"
    using ok [THEN conjunct2, THEN conjunct2, THEN conjunct1] sw by (rule mp [THEN conjunct1])
  moreover have "run_pc c \<notin> {ReadState, ReadClock, StoreStart, FindStart}" and pc: "run_pc c \<noteq> Measure"
    using t(3) by auto
  ultimately have "p (next_key (run_job c)) = Some t" using t(1) by simp
  moreover have "run_delta c = run_ts c - t"
    using ok [THEN conjunct2, THEN conjunct2, THEN conjunct2] t(1) pc by simp
  ultimately show ?thesis using that [OF sw _ t(2,1)] pc by blast
qed

lemma wait_shares:
  assumes "run_ok p a c" and "measured_within E p c"
  shows "wait_counted k c \<Longrightarrow> ends_wait p k (run_job c)"
    and "unat (run_waited k c) \<le> (if wait_counted k c then E else 0)"
proof -
  show "wait_counted k c \<Longrightarrow> ends_wait p k (run_job c)"
    by (erule counted_wait [OF assms(1)]) (simp add: ends_wait_def)
  show "unat (run_waited k c) \<le> (if wait_counted k c then E else 0)"
  proof (cases "wait_counted k c")
    case True
    then obtain t where "p (next_key (run_job c)) = Some t" "run_tsp c = Some t" "run_delta c = run_ts c - t"
      "run_pc c \<noteq> Measure" by (rule counted_wait [OF assms(1)])
    then have "unat (run_delta c) \<le> E" using assms(2) by (simp add: measured_within_def)
    with True show ?thesis by (simp add: run_waited_def)
  next
    case False
    then have "run_waited k c = 0" by (auto simp: run_waited_def wait_counted_def)
    with False show ?thesis by simp
  qed
qed

definition sound_waits :: "nat \<Rightarrow> runq_job list \<Rightarrow> cgroup_runq_stats_t \<Rightarrow> bool" where
  "sound_waits E jobs s \<longleftrightarrow>
     unat (rq_total_latency_ns s) \<le> unat (rq_count s) * E \<and>
     unat (rq_count s) + length jobs < 2 ^ 64 \<and> unat (rq_total_latency_ns s) + length jobs * E < 2 ^ 64"

lemma unat_add_small: "unat (a :: u64) + unat b < 2 ^ 64 \<Longrightarrow> unat (a + b) = unat a + unat b"
  by (simp add: unat_word_ariths)

lemma waits_between:
  assumes inv: "waits_inv E p a jobs (cs, st)" and s: "sound_waits E jobs s"
    and v_def: "v = runq_of_c (with_waits k cs s)"
  shows "between_waits p k E jobs s v \<and> unat (RunqTotalLatencyNs v) \<le> unat (RunqCount v) * E"
proof -
  have jobs: "jobs = map run_job cs" using inv by (simp add: waits_inv_def runs_inv_def)
  have ok: "c \<in> set cs \<Longrightarrow> run_ok p a c \<and> measured_within E p c" for c
    using inv by (simp add: waits_inv_def runs_inv_def list_all_iff)
  note shares = wait_shares [OF conjunct1 [OF ok] conjunct2 [OF ok]]
  let ?m = "length (filter (wait_counted k) cs)" and ?n = "length (filter (ends_wait p k) jobs)"
  have "length (filter (wait_counted k) cs) \<le> length (filter (\<lambda>c. ends_wait p k (run_job c)) cs)"
    using shares(1) by (induction cs) auto
  then have m: "?m \<le> ?n" by (simp add: jobs filter_map comp_def)
  moreover have n: "?n \<le> length jobs" by simp
  ultimately have mE: "?m * E \<le> ?n * E" "?m * E \<le> length jobs * E" by (meson le_trans mult_le_mono1)+
  have waited: "unat (sum_list (map (run_waited k) cs)) \<le> ?m * E"
    by (rule unat_sum_filter_le) (rule shares(2))
  have count: "unat (RunqCount v) = unat (rq_count s) + ?m"
  proof -
    have le: "?m \<le> length jobs" using m n by (rule le_trans)
    then have small: "unat (of_nat ?m :: u64) = ?m" using s by (simp add: sound_waits_def unat_of_nat)
    with le s have "unat (rq_count s) + unat (of_nat ?m :: u64) < 2 ^ 64" by (simp add: sound_waits_def)
    from unat_add_small [OF this] small show ?thesis by (simp add: v_def runq_of_c_def with_waits_def count_counted)
  qed
  have "unat (rq_total_latency_ns s) + unat (sum_list (map (run_waited k) cs)) < 2 ^ 64"
    using s order_trans [OF waited mE(2)] unfolding sound_waits_def by linarith
  then have total: "unat (RunqTotalLatencyNs v) = unat (rq_total_latency_ns s) + unat (sum_list (map (run_waited k) cs))"
    by (simp add: v_def runq_of_c_def with_waits_def unat_add_small)
  show ?thesis
    using count total waited m order_trans [OF waited mE(1)] s
    by (simp add: between_waits_def sound_waits_def algebra_simps)
qed

lemma waits_entry:
  assumes inv: "waits_inv E p a jobs t" and "a k = Some s" and "sound_waits E jobs s"
    and read: "Entries sys_runq t k = Some v"
  shows "between_waits p k E jobs s v \<and> unat (RunqTotalLatencyNs v) \<le> unat (RunqCount v) * E"
proof -
  obtain cs st where t: "t = (cs, st)" by (cases t)
  have "runq_acc hash_runq_maps st k = Some (with_waits k cs s)"
    using inv assms(2) by (simp add: t waits_inv_def runs_inv_def)
  then have "v = runq_of_c (with_waits k cs s)"
    using read by (simp add: t sys_runq_def live_runq_def pinned_runq_def bpf_simps)
  with waits_between [OF inv [unfolded t] assms(3)] show ?thesis by blast
qed

lemma waits_observed:
  assumes start: "waits_inv E p a jobs s" and keep: "\<forall>x \<in> set reads. \<forall>t. waits_inv E p a jobs t \<longrightarrow> waits_inv E p a jobs (fst x t)"
    and entry: "a k = Some e" "sound_waits E jobs e" and read: "k \<in> snd ` set reads"
  shows "\<exists>v. observed (Entries sys_runq) reads s k = Some v \<and> between_waits p k E jobs e v \<and>
    unat (RunqTotalLatencyNs v) \<le> unat (RunqCount v) * E"
proof (rule scan_observed [where P = "waits_inv E p a jobs", OF start keep read])
  show "\<forall>t. waits_inv E p a jobs t \<longrightarrow> Entries sys_runq t k \<noteq> None"
  proof (intro allI impI)
    fix t :: runq_sys assume "waits_inv E p a jobs t"
    then have "runq_acc hash_runq_maps (snd t) k = Some (with_waits k (fst t) e)"
      using entry(1) by (cases t) (simp add: waits_inv_def runs_inv_def)
    then show "Entries sys_runq t k \<noteq> None" by (simp add: sys_runq_def live_runq_def pinned_runq_def bpf_simps)
  qed
qed (rule waits_entry [where a = a, OF _ entry])

section \<open>All programs under way\<close>

text \<open>
  Completions under way over the state \<open>st\<close> and what is executed of them before each entry read: different
  requests in flight whose cgroups have entries, latencies of at most \<open>D\<close>, and every entry sound, with room,
  and read.
\<close>

definition blocks_under_way ::
  "nat \<Rightarrow> ((u64 \<times> start_val_t) list, (u64 \<times> cgroup_io_stats_t) list) block_state \<Rightarrow> (u64 \<times> u32) list \<Rightarrow>
   ((nat \<times> u64) list \<times> u64) list \<Rightarrow> bool" where
  "blocks_under_way D st jobs scan \<longleftrightarrow>
     distinct (map fst jobs) \<and>
     list_all (\<lambda>(rq, e). \<exists>v. block_pend hash_block_maps st rq = Some v \<and>
       block_acc hash_block_maps st (cgroup_id v) \<noteq> None) jobs \<and>
     (\<forall>(sched, k) \<in> set scan. clocks_within D (block_pend hash_block_maps st) jobs sched) \<and>
     (\<forall>k s. block_acc hash_block_maps st k = Some s \<longrightarrow>
       k \<in> snd ` set scan \<and> sound_entry D s \<and> entry_room (block_pend hash_block_maps st) k D jobs s)"

text \<open>The same for scheduler programs about different tasks, with waits of at most \<open>E\<close>.\<close>

definition waits_under_way ::
  "nat \<Rightarrow> ((runq_key_t \<times> u64) list, (u64 \<times> cgroup_runq_stats_t) list) runq_state \<Rightarrow> runq_job list \<Rightarrow>
   ((nat \<times> u64) list \<times> u64) list \<Rightarrow> bool" where
  "waits_under_way E st jobs scan \<longleftrightarrow>
     different_tasks jobs \<and>
     card (dom (runq_pend hash_runq_maps st) \<union> stamp_key ` set jobs) \<le> runq_start_map_entries \<and>
     (\<forall>j \<in> set jobs. is_switch j \<longrightarrow> runq_pend hash_runq_maps st (next_key j) \<noteq> None \<longrightarrow>
       runq_acc hash_runq_maps st (next_cgroup j) \<noteq> None) \<and>
     (\<forall>(sched, k) \<in> set scan. waits_within E (runq_pend hash_runq_maps st) jobs sched) \<and>
     (\<forall>k s. runq_acc hash_runq_maps st k = Some s \<longrightarrow> k \<in> snd ` set scan \<and> sound_waits E jobs s)"

lemma waits_seen:
  assumes way: "waits_under_way E st jobs scan" and s: "runq_acc hash_runq_maps st k = Some s"
  shows "\<exists>v. observed (Entries sys_runq) (map (\<lambda>(sched, k). (runs_go sched, k)) scan) (map run_entering jobs, st) k = Some v \<and>
    between_waits (runq_pend hash_runq_maps st) k E jobs s v \<and>
    unat (RunqTotalLatencyNs v) \<le> unat (RunqCount v) * E"
proof -
  let ?p = "runq_pend hash_runq_maps st" and ?reads = "map (\<lambda>(sched, k). (runs_go sched, k)) scan"
  let ?P = "waits_inv E ?p (runq_acc hash_runq_maps st) jobs"
  have diff: "different_tasks jobs" and room: "hash_runq.room_for ?p jobs"
    using way by (simp_all add: waits_under_way_def hash_runq.room_for_def bpf_simps finite_dom_map_of)
  have start: "?P (map run_entering jobs, st)" by (rule waits_inv_start) (use way in \<open>simp_all add: waits_under_way_def\<close>)
  have "\<forall>x \<in> set ?reads. \<forall>t. ?P t \<longrightarrow> ?P (fst x t)"
    using waits_inv_go [OF _ diff room] way by (fastforce simp: waits_under_way_def)
  moreover have "k \<in> snd ` set ?reads" and "sound_waits E jobs s" using way s by (force simp: waits_under_way_def)+
  ultimately show ?thesis using waits_observed [OF start _ s] by blast
qed

lemma known_waits:
  "\<not> unknown_id r k \<Longrightarrow> Q k = Some w \<Longrightarrow>
   \<exists>row. expected_row r B Q k = Some row \<and> CgroupID row = k \<and> RunqStats row = w"
  by (simp add: expected_row_def)

section \<open>Property\<close>

text \<open>
  C28: a pass of the collector over both maps while all five programs are under way on any number of CPUs, cut at their
  helper calls and additions, with any pieces executed before each entry is read. The pass has, in
  the order of the ids, a row for every cgroup with an entry that the resolver knows. Count, latency, bytes
  and failures of its I/O, and count and time of its waits, each lie between the entry when the
  pass began and that entry with everything under way added; its mean latency is at most the largest
  latency, its failures are at most its count and its waiting time is at most its count times
  the longest wait, although the columns may come from different moments of a program.
\<close>

theorem pass_amid_programs:
  assumes "blocks_under_way D bst jobs scan" and "waits_under_way E rst rjobs rscan" and "calm mw"
    and "mw_block_reads mw = map (\<lambda>(sched, k). (cpus_go sched, k)) scan"
    and "mw_runq_reads mw = map (\<lambda>(sched, k). (runs_go sched, k)) rscan"
  shows "\<exists>rows. result (readStats_live sys_block sys_runq mw (map (\<lambda>(rq, e). entering rq e) jobs, bst)
        (Some (map run_entering rjobs, rst)) r) = Inr rows \<and>
    sorted_wrt (<) (map CgroupID rows) \<and>
    (\<forall>k s. block_acc hash_block_maps bst k = Some s \<and> \<not> unknown_id r k \<longrightarrow>
      (\<exists>row \<in> set rows. CgroupID row = k \<and> between_entries (block_pend hash_block_maps bst) k D jobs s (Stats row) \<and>
         unat (ErrorCount (Stats row)) \<le> unat (IOCount (Stats row)) \<and> unat (AvgNs row) \<le> D)) \<and>
    (\<forall>k s. runq_acc hash_runq_maps rst k = Some s \<and> \<not> unknown_id r k \<longrightarrow>
      (\<exists>row \<in> set rows. CgroupID row = k \<and> between_waits (runq_pend hash_runq_maps rst) k E rjobs s (RunqStats row) \<and>
         unat (RunqTotalLatencyNs (RunqStats row)) \<le> unat (RunqCount (RunqStats row)) * E))"
proof -
  note way = assms(1) [unfolded blocks_under_way_def]
  let ?B = "observed (Entries sys_block) (mw_block_reads mw) (map (\<lambda>(rq, e). entering rq e) jobs, bst)"
  let ?Q = "observed_runq sys_runq mw (Some (map run_entering rjobs, rst))"
  obtain rows where rows: "result (readStats_live sys_block sys_runq mw (map (\<lambda>(rq, e). entering rq e) jobs, bst)
        (Some (map run_entering rjobs, rst)) r) = Inr rows" "sorted_wrt (<) (map CgroupID rows)"
      "\<forall>row. row \<in> set rows \<longleftrightarrow> expected_row r ?B ?Q (CgroupID row) = Some row"
    and blocks: "\<forall>k s. block_acc hash_block_maps bst k = Some s \<and> \<not> unknown_id r k \<longrightarrow>
      (\<exists>row \<in> set rows. CgroupID row = k \<and> between_entries (block_pend hash_block_maps bst) k D jobs s (Stats row) \<and>
         unat (ErrorCount (Stats row)) \<le> unat (IOCount (Stats row)) \<and> unat (AvgNs row) \<le> D)"
    using pass_amid_completions [where rops = sys_runq and rm = "Some (map run_entering rjobs, rst)" and r = r,
        OF _ _ _ _ assms(3,4)] way by blast
  have "\<exists>row \<in> set rows. CgroupID row = k \<and> between_waits (runq_pend hash_runq_maps rst) k E rjobs s (RunqStats row) \<and>
      unat (RunqTotalLatencyNs (RunqStats row)) \<le> unat (RunqCount (RunqStats row)) * E"
    if s: "runq_acc hash_runq_maps rst k = Some s" and known: "\<not> unknown_id r k" for k s
  proof -
    obtain v where v: "?Q k = Some v"
      "between_waits (runq_pend hash_runq_maps rst) k E rjobs s v" "unat (RunqTotalLatencyNs v) \<le> unat (RunqCount v) * E"
      using waits_seen [OF assms(2) s] by (auto simp: observed_runq_def assms(5))
    from known_waits [where B = ?B and Q = ?Q, OF known v(1)] obtain row where "expected_row r ?B ?Q k = Some row" "CgroupID row = k"
      "RunqStats row = v" by blast
    with rows(3) v(2,3) show ?thesis by auto
  qed
  with rows(1,2) blocks show ?thesis by blast
qed

text \<open>Two completions and two switches of cgroup 7, half-way when the entries of the cgroup are read.\<close>

definition busy_meanwhile :: "(block_sys, runq_sys) meanwhile" where
  "busy_meanwhile =
     \<lparr>mw_block_reads = map (\<lambda>(sched, k). (cpus_go sched, k)) [(midway_schedule, 7)], mw_block_err = None,
      mw_block_deletes = (\<lambda>k m. m),
      mw_runq_reads = map (\<lambda>(sched, k). (runs_go sched, k)) [(take 12 mixed_schedule, 7)], mw_runq_err = None,
      mw_runq_deletes = (\<lambda>k m. m)\<rparr>"

abbreviation "busy_waiting \<equiv> two_waiting [(7, \<lparr>rq_count = 1, rq_total_latency_ns = 10\<rparr>)]"

lemma pair_under_way: "blocks_under_way 60 pair_state [(1, 0), (2, 5)] [(midway_schedule, 7)]"
  by (simp add: blocks_under_way_def clocks_within_def midway_schedule_def pair_state_def bpf_simps
      zero_io_stats_def sound_entry_def entry_room_def under_way_def part_of_def)

lemma switches_under_way: "waits_under_way 70 busy_waiting two_switches [(take 12 mixed_schedule, 7)]"
proof -
  have "card (dom (runq_pend hash_runq_maps busy_waiting) \<union> stamp_key ` set two_switches) \<le> runq_start_map_entries"
    by (rule le_trans [OF card_Un_le]) (simp add: two_simps dom_map_of_conv_image_fst card_insert_if)
  moreover have "different_tasks two_switches" by (simp add: different_tasks_def two_simps)
  ultimately show ?thesis
    by (simp add: waits_under_way_def waits_within_def mixed_schedule_def sound_waits_def two_simps)
qed

theorem pass_amid_programs_witness:
  "\<exists>rows. result (readStats_live sys_block sys_runq busy_meanwhile
       (map (\<lambda>(rq, e). entering rq e) [(1, 0), (2, 5)], pair_state)
       (Some (map run_entering two_switches, busy_waiting)) pod_resolver) = Inr rows \<and>
     (\<exists>row \<in> set rows. CgroupID row = 7 \<and> unat (IOCount (Stats row)) \<le> 2 \<and> unat (AvgNs row) \<le> 60) \<and>
     (\<exists>row \<in> set rows. CgroupID row = 7 \<and> 1 \<le> unat (RunqCount (RunqStats row)) \<and> unat (RunqCount (RunqStats row)) \<le> 3)"
proof -
  have known: "\<not> unknown_id pod_resolver 7"
    by (simp add: pod_resolver_def unknown_id_def Resolve_def unknown_path_def)
  have seven: "block_acc hash_block_maps pair_state 7 = Some zero_io_stats"
    "runq_acc hash_runq_maps busy_waiting 7 = Some \<lparr>rq_count = 1, rq_total_latency_ns = 10\<rparr>"
    by (simp_all add: pair_state_def two_waiting_def bpf_simps)
  have mw: "calm busy_meanwhile"
    "mw_block_reads busy_meanwhile = map (\<lambda>(sched, k). (cpus_go sched, k)) [(midway_schedule, 7)]"
    "mw_runq_reads busy_meanwhile = map (\<lambda>(sched, k). (runs_go sched, k)) [(take 12 mixed_schedule, 7)]"
    by (simp_all add: calm_def busy_meanwhile_def)
  obtain rows where rows: "result (readStats_live sys_block sys_runq busy_meanwhile
       (map (\<lambda>(rq, e). entering rq e) [(1, 0), (2, 5)], pair_state)
       (Some (map run_entering two_switches, busy_waiting)) pod_resolver) = Inr rows"
    and b: "\<exists>row \<in> set rows. CgroupID row = 7 \<and>
      between_entries (block_pend hash_block_maps pair_state) 7 60 [(1, 0), (2, 5)] zero_io_stats (Stats row) \<and>
      unat (ErrorCount (Stats row)) \<le> unat (IOCount (Stats row)) \<and> unat (AvgNs row) \<le> 60"
    and q: "\<exists>row \<in> set rows. CgroupID row = 7 \<and>
      between_waits (runq_pend hash_runq_maps busy_waiting) 7 70 two_switches
        \<lparr>rq_count = 1, rq_total_latency_ns = 10\<rparr> (RunqStats row) \<and>
      unat (RunqTotalLatencyNs (RunqStats row)) \<le> unat (RunqCount (RunqStats row)) * 70"
    using pass_amid_programs [OF pair_under_way switches_under_way mw, of pod_resolver] known seven by blast
  have "length (filter (ends_wait (runq_pend hash_runq_maps busy_waiting) 7) two_switches) \<le> 2"
    by (rule le_trans [OF length_filter_le]) (simp add: two_switches_def)
  with q have "\<exists>row \<in> set rows. CgroupID row = 7 \<and> 1 \<le> unat (RunqCount (RunqStats row)) \<and>
      unat (RunqCount (RunqStats row)) \<le> 3"
    by (fastforce simp: between_waits_def)
  moreover have "\<exists>row \<in> set rows. CgroupID row = 7 \<and> unat (IOCount (Stats row)) \<le> 2 \<and> unat (AvgNs row) \<le> 60"
    using b by (auto simp: between_entries_def under_way_def part_of_def pair_state_def bpf_simps zero_io_stats_def)
  ultimately show ?thesis using rows by blast
qed

end
