(* ===== verification/Console.thy ===== *)
theory Console
  imports CollectorLoop
begin

text \<open>
  The rest of \<open>collector/main.go\<close>: what \<open>main\<close> opens before it starts the loop, and the table \<open>printStats\<close> writes
  after a pass when debugging is on, number for number: a \<open>float64\<close> is divided, rounded and printed as \<open>fmt\<close> prints it.
\<close>

section \<open>Set-up\<close>

definition blockMapPath :: string where
  "blockMapPath = ''/sys/fs/bpf/block_latency/stats_by_cgroup''"

definition runqMapPath :: string where
  "runqMapPath = ''/sys/fs/bpf/runq_latency/runq_stats_by_cgroup''"

text \<open>
  \<open>env\<close>: the variable \<open>COLLECTOR_DEBUG_TUI\<close>, empty when it is not set; \<open>load\<close>: \<open>LoadPinnedMap\<close>. Without the block
  map the process ends with a message; without the run-queue map it goes on.
\<close>

definition main_setup ::
  "string \<Rightarrow> (string \<Rightarrow> string + 'b) \<Rightarrow> (string \<Rightarrow> string + 'r) \<Rightarrow> string + (bool \<times> 'b \<times> 'r option)" where
  "main_setup env load_block load_runq =
     (let debugTUI = (env = ''1'' \<or> env = ''true'')
      in case load_block blockMapPath of
           Inl err \<Rightarrow> Inl (''error abriendo el mapa '' @ blockMapPath @ '': '' @ err)
         | Inr blockMap \<Rightarrow>
             Inr (debugTUI, blockMap, case load_runq runqMapPath of Inl err \<Rightarrow> None | Inr runqMap \<Rightarrow> Some runqMap))"

section \<open>Numbers\<close>

text \<open>The nearest integer to \<open>a / b\<close>, ties to even.\<close>

definition round_even :: "nat \<Rightarrow> nat \<Rightarrow> nat" where
  "round_even a b =
     (let q = a div b; r = a mod b
      in if 2 * r > b \<or> (2 * r = b \<and> odd q) then q + 1 else q)"

text \<open>
  The quotient of two integers as a \<open>float64\<close>: \<open>m / 2 ^ e\<close> with 53 bits in \<open>m\<close>, for a quotient below \<open>2 ^ 53\<close>.
\<close>

function scale_of :: "nat \<Rightarrow> nat \<Rightarrow> nat \<Rightarrow> nat" where
  "scale_of n d e = (if n = 0 \<or> d * 2 ^ 52 \<le> n * 2 ^ e then e else scale_of n d (Suc e))"
  by pat_completeness auto
termination
  by (relation "measure (\<lambda>(n, d, e). d * 2 ^ 52 - n * 2 ^ e)") (auto intro!: diff_less_mono2)

declare scale_of.simps [simp del]

definition float_div :: "nat \<Rightarrow> nat \<Rightarrow> nat \<times> nat" where
  "float_div n d = (let e = scale_of n d 0 in (round_even (n * 2 ^ e) d, e))"

text \<open>\<open>%.kf\<close> of \<open>m / 2 ^ e\<close>.\<close>

definition zero_pad :: "nat \<Rightarrow> string \<Rightarrow> string" where
  "zero_pad k s = replicate (k - length s) CHR ''0'' @ s"

definition fixed :: "nat \<Rightarrow> nat \<times> nat \<Rightarrow> string" where
  "fixed k x = (case x of (m, e) \<Rightarrow>
     let n = round_even (m * 10 ^ k) (2 ^ e)
     in decimal (n div 10 ^ k) @ ''.'' @ zero_pad k (decimal (n mod 10 ^ k)))"

definition bytesToMiB :: "u64 \<Rightarrow> nat \<times> nat" where
  "bytesToMiB b = (float64 (unat b), 20)" \<comment> \<open>a division by \<open>2 ^ 20\<close> is exact\<close>

definition nsToMs :: "u64 \<Rightarrow> nat \<times> nat" where
  "nsToMs ns = float_div (float64 (unat ns)) 1000000"

section \<open>The table\<close>

definition padr :: "nat \<Rightarrow> string \<Rightarrow> string" where
  "padr k s = s @ replicate (k - length s) CHR '' ''"

definition padl :: "nat \<Rightarrow> string \<Rightarrow> string" where
  "padl k s = replicate (k - length s) CHR '' '' @ s"

definition newline :: string where
  "newline = [CHR 0x0A]"

fun columns :: "string list \<Rightarrow> string" where
  "columns [] = []"
| "columns [s] = s"
| "columns (s # ss) = s @ '' '' @ columns ss"

definition table_head :: string where
  "table_head = columns
     [padr 15 ''CGROUP_ID'', padr 12 ''IO_COUNT'', padr 12 ''TOTAL_MiB'', padr 18 ''TOTAL_LAT_MS'', padr 12 ''ERRORS'',
      padr 15 ''AVG_LAT_MS'', padr 12 ''RUNQ_EVTS'', padr 15 ''RUNQ_LAT_MS'', padr 15 ''KIND'', padl 15 ''RUNTIME'',
      padr 15 ''POD_UID'', ''CGROUP_PATH''] @ newline"

definition table_row :: "Row \<Rightarrow> string" where
  "table_row row = columns
     [padr 15 (decimal (unat (CgroupID row))), padr 12 (decimal (unat (IOCount (Stats row)))),
      padr 12 (fixed 2 (bytesToMiB (TotalBytes (Stats row)))), padr 18 (fixed 3 (nsToMs (TotalLatencyNs (Stats row)))),
      padr 12 (decimal (unat (ErrorCount (Stats row)))), padr 15 (fixed 3 (nsToMs (AvgNs row))),
      padr 12 (decimal (unat (RunqCount (RunqStats row)))), padr 15 (fixed 3 (nsToMs (RunqTotalLatencyNs (RunqStats row)))),
      padr 15 (formatKind (Kind row)), padr 15 (Runtime (KubeInfo row)), padr 15 (PodUID (KubeInfo row)),
      CgroupPath row] @ newline"

text \<open>\<open>now\<close>: the time as \<open>Format\<close> writes it.\<close>

definition printStats :: "string \<Rightarrow> Row list \<Rightarrow> string" where
  "printStats now rows =
     CHR 0x1B # ''[2J'' @ CHR 0x1B # ''[H'' @ ''=== BLOCK I/O STATS BY CGROUP ==='' @ newline @
     ''Actualizado: '' @ now @ newline @ newline @
     (if rows = [] then ''No hay entradas en stats_by_cgroup.'' @ newline
      else table_head @ concat (map table_row rows))"

text \<open>What a tick of \<open>startCollectorLoop\<close> writes.\<close>

definition tick_output ::
  "bool \<Rightarrow> string \<Rightarrow> ('b, CgroupIOStats) map_ops \<Rightarrow> ('r, CgroupRunqStats) map_ops \<Rightarrow> cgroup_fs \<Rightarrow>
   ('b, 'r, 'v, 'g) collector \<Rightarrow> string" where
  "tick_output debugTUI now bops rops fs st =
     (case (case cl_resolver st of
              Some r \<Rightarrow> Inr r
            | None \<Rightarrow> BuildCgroupResolver (fs_big_endian fs) (fs_handles fs) (fs_walk fs)) of
        Inl err \<Rightarrow> []
      | Inr r \<Rightarrow>
          (case result (readStats bops rops (cl_block st) (cl_runq st) r) of
             Inl err \<Rightarrow> []
           | Inr rows \<Rightarrow> if debugTUI then printStats now rows else []))"

section \<open>The numbers are the nearest ones\<close>

lemma round_even_near:
  assumes "0 < b"
  shows "2 * \<bar>int (round_even a b) * int b - int a\<bar> \<le> int b"
proof -
  have a: "int a = int (a div b) * int b + int (a mod b)" by (metis div_mult_mod_eq of_nat_add of_nat_mult)
  have r: "int (a mod b) < int b" using assms by simp
  show ?thesis
  proof (cases "2 * (a mod b) > b \<or> 2 * (a mod b) = b \<and> odd (a div b)")
    case True
    then have "round_even a b = a div b + 1" by (simp add: round_even_def Let_def)
    then have "int (round_even a b) * int b - int a = int b - int (a mod b)" by (simp add: a algebra_simps)
    with True r show ?thesis by auto
  next
    case False
    then have "round_even a b = a div b" by (auto simp: round_even_def Let_def)
    then have "int (round_even a b) * int b - int a = - int (a mod b)" by (simp add: a)
    with False show ?thesis by auto
  qed
qed

lemma scale_of_reached: "n \<noteq> 0 \<Longrightarrow> d * 2 ^ 52 \<le> n * 2 ^ scale_of n d e"
  by (induction n d e rule: scale_of.induct) (subst scale_of.simps, simp)

lemma scaled_bits:
  assumes "0 < n" and "n < 2 ^ 53"
  shows "d < 2 * 2 ^ scale_of n d 0"
proof -
  have "d * 2 ^ 52 \<le> n * 2 ^ scale_of n d 0" using scale_of_reached assms(1) by simp
  also have "\<dots> < 2 ^ 53 * 2 ^ scale_of n d 0" using assms(2) by simp
  finally show ?thesis by simp
qed

text \<open>The two roundings of a quotient, that of the division and that of the printing, together.\<close>

lemma two_roundings:
  fixes q g n m s c d :: int
  assumes g: "0 \<le> g" and m: "2 * \<bar>m * d - n * s\<bar> \<le> d" and q: "2 * \<bar>q * s - m * c\<bar> \<le> s" and s: "0 < s"
    and d: "d = c * g" "d < 2 * s"
  shows "2 * \<bar>q * g - n\<bar> \<le> g + 1"
proof -
  have "\<bar>q * g - n\<bar> * s = \<bar>(q * g - n) * s\<bar>" using s by (simp add: abs_mult)
  also have "(q * g - n) * s = (q * s - m * c) * g + (m * d - n * s)" by (simp add: d(1) algebra_simps)
  also have "\<bar>(q * s - m * c) * g + (m * d - n * s)\<bar> \<le> \<bar>(q * s - m * c) * g\<bar> + \<bar>m * d - n * s\<bar>" by (rule abs_triangle_ineq)
  also have "\<bar>(q * s - m * c) * g\<bar> = \<bar>q * s - m * c\<bar> * g" using g by (simp add: abs_mult)
  finally have "2 * (\<bar>q * g - n\<bar> * s) \<le> (2 * \<bar>q * s - m * c\<bar>) * g + 2 * \<bar>m * d - n * s\<bar>" by simp
  also have "\<dots> \<le> s * g + d" using mult_right_mono [OF q g] m by (rule add_mono)
  also have "\<dots> < s * (g + 2)" using d(2) by (simp add: algebra_simps)
  finally have "s * (2 * \<bar>q * g - n\<bar>) < s * (g + 2)" by (simp add: algebra_simps)
  then have "2 * \<bar>q * g - n\<bar> < g + 2" using s by simp
  then show ?thesis by simp
qed

text \<open>
  The digits shown, read as an integer: hundredths of a mebibyte, thousandths of a millisecond. Below \<open>2 ^ 53\<close> they are the
  nearest to the number of bytes and to the number of nanoseconds.
\<close>

definition shown :: "nat \<Rightarrow> nat \<times> nat \<Rightarrow> nat" where
  "shown k x = round_even (fst x * 10 ^ k) (2 ^ snd x)"

lemma fixed_shown: "fixed k x = decimal (shown k x div 10 ^ k) @ ''.'' @ zero_pad k (decimal (shown k x mod 10 ^ k))"
  by (simp add: fixed_def shown_def Let_def case_prod_beta)

lemma shown_ns:
  assumes "unat ns < 2 ^ 53"
  shows "\<bar>int (shown 3 (nsToMs ns)) * 1000 - int (unat ns)\<bar> \<le> 500"
proof (cases "unat ns = 0")
  case True
  then show ?thesis by (simp add: shown_def nsToMs_def float64_exact float_div_def round_even_def scale_of.simps)
next
  case False
  let ?n = "unat ns" and ?e = "scale_of (unat ns) 1000000 0"
  let ?m = "round_even (?n * 2 ^ ?e) 1000000"
  have x: "nsToMs ns = (?m, ?e)" using assms by (simp add: nsToMs_def float64_exact float_div_def Let_def)
  have "2 * \<bar>int ?m * 1000000 - int ?n * 2 ^ ?e\<bar> \<le> 1000000" using round_even_near [of 1000000 "?n * 2 ^ ?e"] by simp
  moreover have "2 * \<bar>int (shown 3 (nsToMs ns)) * 2 ^ ?e - int ?m * 1000\<bar> \<le> 2 ^ ?e"
    using round_even_near [of "2 ^ ?e" "?m * 1000"] by (simp add: shown_def x)
  moreover have "(1000000 :: int) < 2 * 2 ^ ?e"
  proof -
    have "int 1000000 < int (2 * 2 ^ ?e)" unfolding of_nat_less_iff using scaled_bits [OF _ assms] False by simp
    then show ?thesis by simp
  qed
  ultimately have "2 * \<bar>int (shown 3 (nsToMs ns)) * 1000 - int ?n\<bar> \<le> 1000 + 1"
    by (intro two_roundings [where d = 1000000 and c = 1000 and s = "2 ^ ?e" and m = "int ?m"]) simp_all
  then show ?thesis by simp
qed

lemma shown_bytes:
  assumes "unat b \<le> 2 ^ 53"
  shows "2 * \<bar>int (shown 2 (bytesToMiB b)) * 2 ^ 20 - int (unat b) * 100\<bar> \<le> 2 ^ 20"
  using round_even_near [of "2 ^ 20" "unat b * 100"] assms
  by (simp add: shown_def bytesToMiB_def float64_exact)

section \<open>The lines of the table\<close>

lemma padr_first: "s \<noteq> [] \<Longrightarrow> CHR '' '' \<notin> set s \<Longrightarrow> takeWhile (\<lambda>c. c \<noteq> CHR '' '') (padr k s @ CHR '' '' # t) = s"
proof -
  assume "CHR '' '' \<notin> set s"
  then have "\<forall>c \<in> set s. c \<noteq> CHR '' ''" by auto
  then show ?thesis by (cases "k - length s") (simp_all add: padr_def takeWhile_append2 takeWhile_tail)
qed

text \<open>A line begins with the id of its row, so that lines of different cgroups differ.\<close>

lemma table_row_id: "takeWhile (\<lambda>c. c \<noteq> CHR '' '') (table_row row) = decimal (unat (CgroupID row))"
proof -
  have "decimal n \<noteq> []" for n by (subst decimal.simps) simp
  moreover have "CHR '' '' \<notin> set (decimal n)" for n using decimal_digits [of "CHR '' ''" n] by auto
  moreover have "\<exists>t. table_row row = padr 15 (decimal (unat (CgroupID row))) @ CHR '' '' # t" by (simp add: table_row_def)
  ultimately show ?thesis using padr_first by metis
qed

lemma table_rows_distinct: "distinct (map CgroupID rows) \<Longrightarrow> distinct (map table_row rows)"
proof (rule distinct_map [THEN iffD2], intro conjI)
  assume d: "distinct (map CgroupID rows)"
  then show "distinct rows" by (simp add: distinct_map)
  show "inj_on table_row (set rows)"
  proof (rule inj_onI)
    fix x y assume "x \<in> set rows" "y \<in> set rows" "table_row x = table_row y"
    moreover from this(3) have "decimal (unat (CgroupID x)) = decimal (unat (CgroupID y))" by (metis table_row_id)
    then have "CgroupID x = CgroupID y" by (simp add: decimal_inj unsigned_word_eqI)
    ultimately show "x = y" using d by (simp add: distinct_map inj_on_def)
  qed
qed

text \<open>The output of a tick does not depend on the series, and without debugging there is none.\<close>

lemma tick_output_rows:
  "tick_output True now bops rops fs st =
     (case result (readStats bops rops (cl_block st) (cl_runq st) (tick_resolver fs st)) of
        Inl err \<Rightarrow> [] | Inr rows \<Rightarrow> printStats now rows)"
  "tick_output False now bops rops fs st = []"
  by (cases "cl_resolver st"; simp add: tick_output_def tick_resolver_def Build_eq split: sum.split)+

end
