(* ===== verification/Kube.thy ===== *)
theory Kube
  imports Prelude
begin

text \<open>
  What the operator sees of Kubernetes: the fields of the API objects its code reads or writes, and the
  client of \<open>controller-runtime\<close>. The client and the API server are not code of the repository, so they are
  a record of operations on an abstract cluster state; locales state what the operator relies on.
  A \<open>resource.Quantity\<close> is known to the code only by its value in thousandths and is that value.
  Times are nanoseconds.
\<close>

type_synonym millis = int \<comment> \<open>\<open>MilliValue\<close>, an \<open>int64\<close>\<close>

section \<open>Objects\<close>

record Taint =
  TKey :: string
  TValue :: string
  TEffect :: string
  TimeAdded :: "int option"

record Node =
  NodeId :: string
  Taints :: "Taint list"

record VolumeMount =
  MountName :: string
  ReadOnly :: bool

record Container =
  CName :: string
  Limits :: "(string \<rightharpoonup> millis) option" \<comment> \<open>nil or a map\<close>
  Requests :: "string \<rightharpoonup> millis"
  VolumeMounts :: "VolumeMount list"

record OwnerReference =
  OwnerKind :: string
  OwnerName :: string

record Pod =
  PodName :: string
  PodNamespace :: string
  UID :: string
  NodeName :: string
  PodOwners :: "OwnerReference list"
  Containers :: "Container list"

record ReplicaSet =
  RsName :: string
  RsNamespace :: string
  RsOwners :: "OwnerReference list"

record Volume =
  VolName :: string
  ClaimName :: "string option" \<comment> \<open>\<open>PersistentVolumeClaim\<close>, nil or with a claim name\<close>

record Deployment =
  DepName :: string
  DepNamespace :: string
  Volumes :: "Volume list"
  DepContainers :: "Container list"

record PVC =
  PvcName :: string
  PvcNamespace :: string
  Annotations :: "string \<rightharpoonup> string"
  AccessModes :: "string list"
  Resources :: "string \<rightharpoonup> millis"
  StorageClassName :: "string option"

section \<open>The client\<close>

datatype kerror = NotFound string | ApiError string

fun kmsg :: "kerror \<Rightarrow> string" where
  "kmsg (NotFound s) = s"
| "kmsg (ApiError s) = s"

text \<open>Reads take the namespace (where the kind has one) and the name; writes return an error or none.\<close>

record 'c kclient =
  GetPod :: "'c \<Rightarrow> string \<Rightarrow> string \<Rightarrow> kerror + Pod"
  GetNode :: "'c \<Rightarrow> string \<Rightarrow> kerror + Node"
  GetStorageClass :: "'c \<Rightarrow> string \<Rightarrow> kerror + string"
  GetReplicaSet :: "'c \<Rightarrow> string \<Rightarrow> string \<Rightarrow> kerror + ReplicaSet"
  GetDeployment :: "'c \<Rightarrow> string \<Rightarrow> string \<Rightarrow> kerror + Deployment"
  GetPVC :: "'c \<Rightarrow> string \<Rightarrow> string \<Rightarrow> kerror + PVC"
  PatchNode :: "Node \<Rightarrow> Node \<Rightarrow> 'c \<Rightarrow> kerror option \<times> 'c" \<comment> \<open>\<open>MergeFrom\<close> the first, to the second\<close>
  PatchDeployment :: "Deployment \<Rightarrow> Deployment \<Rightarrow> 'c \<Rightarrow> kerror option \<times> 'c"
  ResizePod :: "Pod \<Rightarrow> Pod \<Rightarrow> 'c \<Rightarrow> kerror option \<times> 'c" \<comment> \<open>the \<open>resize\<close> subresource\<close>
  EvictPod :: "Pod \<Rightarrow> 'c \<Rightarrow> kerror option \<times> 'c" \<comment> \<open>the \<open>eviction\<close> subresource\<close>
  CreatePVC :: "PVC \<Rightarrow> 'c \<Rightarrow> kerror option \<times> 'c"
  Now :: "'c \<Rightarrow> int" \<comment> \<open>\<open>time.Now\<close> in the state the call is made\<close>

text \<open>\<open>Time.Sub\<close> saturates at the bounds of \<open>time.Duration\<close>.\<close>

definition time_sub :: "int \<Rightarrow> int \<Rightarrow> int" where
  "time_sub a b = max (- (2 ^ 63)) (min (2 ^ 63 - 1) (a - b))"

text \<open>\<open>%q\<close>, on a string with nothing to escape.\<close>

definition quoted :: "string \<Rightarrow> string" where
  "quoted s = [CHR 0x22] @ s @ [CHR 0x22]"

section \<open>What the operator relies on\<close>

text \<open>The API server stores times in whole seconds.\<close>

definition stored_taint :: "Taint \<Rightarrow> Taint" where
  "stored_taint t = t\<lparr>TimeAdded := map_option (\<lambda>n. n div 1000000000 * 1000000000) (TimeAdded t)\<rparr>"

definition stored_node :: "Node \<Rightarrow> Node" where
  "stored_node node = node\<lparr>Taints := map stored_taint (Taints node)\<rparr>"

lemma stored_taint_simps [simp]:
  "TKey (stored_taint t) = TKey t" "TValue (stored_taint t) = TValue t" "TEffect (stored_taint t) = TEffect t"
  "stored_taint (stored_taint t) = stored_taint t"
  by (simp_all add: stored_taint_def option.map_comp comp_def)

lemma stored_node_simps [simp]:
  "NodeId (stored_node node) = NodeId node" "Taints (stored_node node) = map stored_taint (Taints node)"
  "stored_node (stored_node node) = stored_node node"
  by (simp_all add: stored_node_def)

text \<open>Nodes: a successful patch takes effect, an eviction leaves the nodes alone.\<close>

locale kube_nodes =
  fixes kc :: "'c kclient"
  assumes get_node_id: "GetNode kc c n = Inr node \<Longrightarrow> NodeId node = n"
    and get_node_stored: "GetNode kc c n = Inr node \<Longrightarrow> stored_node node = node"
    and patch_node: "PatchNode kc old new c = (None, c') \<Longrightarrow> GetNode kc c (NodeId new) = Inr old \<Longrightarrow>
      GetNode kc c' (NodeId new) = Inr (stored_node new)"
    and evict_nodes: "GetNode kc (snd (EvictPod kc pod c)) n = GetNode kc c n"

text \<open>Pods: a resize that is accepted takes effect.\<close>

locale kube_pods =
  fixes kc :: "'c kclient"
  assumes get_pod_id: "GetPod kc c ns n = Inr p \<Longrightarrow> PodName p = n \<and> PodNamespace p = ns"
    and resize_pod: "ResizePod kc old new c = (None, c') \<Longrightarrow>
      GetPod kc c (PodNamespace new) (PodName new) = Inr old \<Longrightarrow>
      GetPod kc c' (PodNamespace new) (PodName new) = Inr new"

text \<open>
  Storage: creating a claim changes no deployment and no claim that exists, and the new claim can be
  read back; a patch of a deployment takes effect when it succeeds, else it changes none, and it leaves
  the claims alone.
\<close>

locale kube_storage =
  fixes kc :: "'c kclient"
  assumes get_deployment_id: "GetDeployment kc c ns n = Inr d \<Longrightarrow> DepName d = n \<and> DepNamespace d = ns"
    and create_deployments: "GetDeployment kc (snd (CreatePVC kc pvc c)) ns n = GetDeployment kc c ns n"
    and create_claim: "CreatePVC kc pvc c = (None, c') \<Longrightarrow> GetPVC kc c' (PvcNamespace pvc) (PvcName pvc) = Inr pvc"
    and create_keeps: "CreatePVC kc pvc c = (None, c') \<Longrightarrow> GetPVC kc c ns n = Inr p \<Longrightarrow> GetPVC kc c' ns n = Inr p"
    and create_error_keeps: "CreatePVC kc pvc c = (Some e, c') \<Longrightarrow> GetPVC kc c ns n = Inr p \<Longrightarrow>
      GetPVC kc c' ns n = Inr p"
    and patch_deployment: "PatchDeployment kc old new c = (None, c') \<Longrightarrow>
      GetDeployment kc c (DepNamespace new) (DepName new) = Inr old \<Longrightarrow>
      GetDeployment kc c' (DepNamespace new) (DepName new) = Inr new"
    and patch_error: "PatchDeployment kc old new c = (Some e, c') \<Longrightarrow>
      GetDeployment kc c' ns n = GetDeployment kc c ns n"
    and patch_claims: "GetPVC kc (snd (PatchDeployment kc old new c)) ns n = GetPVC kc c ns n"

section \<open>A cluster\<close>

text \<open>A cluster as lists of objects, on which the laws hold.\<close>

record cluster =
  c_pods :: "Pod list"
  c_nodes :: "Node list"
  c_classes :: "string list"
  c_replicasets :: "ReplicaSet list"
  c_deployments :: "Deployment list"
  c_claims :: "PVC list"
  c_evicted :: "string list"
  c_time :: int

definition found :: "'a option \<Rightarrow> kerror + 'a" where
  "found x = (case x of None \<Rightarrow> Inl (NotFound ''not found'') | Some a \<Rightarrow> Inr a)"

definition cluster_client :: "'z cluster_scheme kclient" where
  "cluster_client =
     \<lparr>GetPod = (\<lambda>c ns n. found (find (\<lambda>p. PodNamespace p = ns \<and> PodName p = n) (c_pods c))),
      GetNode = (\<lambda>c n. found (map_option stored_node (find (\<lambda>x. NodeId x = n) (c_nodes c)))),
      GetStorageClass = (\<lambda>c n. found (find ((=) n) (c_classes c))),
      GetReplicaSet = (\<lambda>c ns n. found (find (\<lambda>x. RsNamespace x = ns \<and> RsName x = n) (c_replicasets c))),
      GetDeployment = (\<lambda>c ns n. found (find (\<lambda>x. DepNamespace x = ns \<and> DepName x = n) (c_deployments c))),
      GetPVC = (\<lambda>c ns n. found (find (\<lambda>x. PvcNamespace x = ns \<and> PvcName x = n) (c_claims c))),
      PatchNode = (\<lambda>old new c. (None, c\<lparr>c_nodes := new # c_nodes c\<rparr>)),
      PatchDeployment = (\<lambda>old new c. (None, c\<lparr>c_deployments := new # c_deployments c\<rparr>)),
      ResizePod = (\<lambda>old new c. (None, c\<lparr>c_pods := new # c_pods c\<rparr>)),
      EvictPod = (\<lambda>pod c. (None, c\<lparr>c_evicted := PodName pod # c_evicted c\<rparr>)),
      CreatePVC = (\<lambda>pvc c.
        if \<exists>x \<in> set (c_claims c). PvcNamespace x = PvcNamespace pvc \<and> PvcName x = PvcName pvc
        then (Some (ApiError ''already exists''), c) else (None, c\<lparr>c_claims := pvc # c_claims c\<rparr>)),
      Now = c_time\<rparr>"

lemma found_Inr [simp]: "found x = Inr a \<longleftrightarrow> x = Some a"
  by (cases x) (simp_all add: found_def)

lemma found_simps [simp]: "found (Some a) = Inr a" "found None = Inl (NotFound ''not found'')"
  by (simp_all add: found_def)

interpretation cluster_nodes: kube_nodes cluster_client
  by unfold_locales (auto simp: cluster_client_def dest: find_Some_iff [THEN iffD1])

lemma find_in: "find P xs = Some x \<Longrightarrow> x \<in> set xs \<and> P x"
  by (induction xs) (auto split: if_splits)

interpretation cluster_pods: kube_pods cluster_client
  by unfold_locales (auto simp: cluster_client_def dest: find_in)

lemma cluster_create_keeps:
  assumes "CreatePVC cluster_client pvc c = (None, c')" and "GetPVC cluster_client c ns n = Inr p"
  shows "GetPVC cluster_client c' ns n = Inr p"
proof -
  have f: "find (\<lambda>x. PvcNamespace x = ns \<and> PvcName x = n) (c_claims c) = Some p"
    using assms(2) by (simp add: cluster_client_def)
  have c': "c' = c\<lparr>c_claims := pvc # c_claims c\<rparr>"
    and no: "\<forall>x \<in> set (c_claims c). \<not> (PvcNamespace x = PvcNamespace pvc \<and> PvcName x = PvcName pvc)"
    using assms(1) by (auto simp: cluster_client_def split: if_splits)
  from find_in [OF f] no have "\<not> (PvcNamespace pvc = ns \<and> PvcName pvc = n)" by auto
  with f show ?thesis by (auto simp: c' cluster_client_def)
qed

interpretation cluster_storage: kube_storage cluster_client
proof unfold_locales
  show "CreatePVC cluster_client pvc c = (None, c') \<Longrightarrow> GetPVC cluster_client c ns n = Inr p \<Longrightarrow>
      GetPVC cluster_client c' ns n = Inr p" for pvc c c' ns n p
    by (rule cluster_create_keeps)
qed (auto simp: cluster_client_def split: if_splits dest: find_in)

end
