(* ===== verification/MigrateStorage.thy ===== *)
theory MigrateStorage
  imports Kube
begin

text \<open>
  \<open>operator/pkg/action/migrate_storage.go\<close>: provision the claims of a saturated pod's deployment anew in
  another storage class, as far as they are used read-only, and point the deployment to them.
\<close>

section \<open>Is a claim used read-only?\<close>

text \<open>The loop over the mounts of the main containers; the early return is \<open>False\<close>.\<close>

fun mounts_read_only :: "string \<Rightarrow> bool \<Rightarrow> VolumeMount list \<Rightarrow> bool" where
  "mounts_read_only vol mounted [] = mounted"
| "mounts_read_only vol mounted (vm # vms) =
     (if MountName vm = vol then
        (if \<not> ReadOnly vm then False else mounts_read_only vol True vms)
      else mounts_read_only vol mounted vms)"

definition pvcUsedReadOnly :: "PVC \<Rightarrow> Deployment \<Rightarrow> string \<Rightarrow> bool" where
  "pvcUsedReadOnly pvc deployment vol =
     (let writable = (\<exists>m \<in> set (AccessModes pvc).
            m \<in> {''ReadWriteOnce'', ''ReadWriteMany'', ''ReadWriteOncePod''});
          readOnlyMany = (''ReadOnlyMany'' \<in> set (AccessModes pvc))
      in if readOnlyMany \<and> \<not> writable then True
         else mounts_read_only vol False (concat (map VolumeMounts (DepContainers deployment))))"

section \<open>The deployment of a pod\<close>

definition findDeploymentOwner :: "'c kclient \<Rightarrow> 'c \<Rightarrow> Pod \<Rightarrow> string + string" where
  "findDeploymentOwner kc c pod =
     (let rsName = (case find (\<lambda>ow. OwnerKind ow = ''ReplicaSet'') (PodOwners pod) of
                      None \<Rightarrow> '''' | Some ow \<Rightarrow> OwnerName ow)
      in if rsName = '''' then
           Inl (''pod '' @ PodName pod @ '' is not owned by a ReplicaSet (StatefulSet/DaemonSet/standalone not supported)'')
         else
           (case GetReplicaSet kc c (PodNamespace pod) rsName of
              Inl e \<Rightarrow> Inl (''failed to get replicaset: '' @ kmsg e)
            | Inr rs \<Rightarrow>
                (case find (\<lambda>ow. OwnerKind ow = ''Deployment'') (RsOwners rs) of
                   Some ow \<Rightarrow> Inr (OwnerName ow)
                 | None \<Rightarrow> Inl (''replicaset '' @ rsName @ '' is not owned by a Deployment''))))"

section \<open>The loop over the claims\<close>

record pvcRef =
  volIndex :: nat
  volName :: string
  oldName :: string

fun collect_refs :: "nat \<Rightarrow> Volume list \<Rightarrow> pvcRef list" where
  "collect_refs i [] = []"
| "collect_refs i (v # vs) =
     (case ClaimName v of
        None \<Rightarrow> collect_refs (Suc i) vs
      | Some n \<Rightarrow> \<lparr>volIndex = i, volName = VolName v, oldName = n\<rparr> # collect_refs (Suc i) vs)"

definition fmt_d :: "int \<Rightarrow> string" where
  "fmt_d n = (if n < 0 then ''-'' @ decimal (nat (- n)) else decimal (nat n))"

definition newPVCName :: "string \<Rightarrow> int \<Rightarrow> nat \<Rightarrow> string" where
  "newPVCName old stamp idx = old @ ''-migrated-'' @ fmt_d stamp @ ''-'' @ fmt_d (int idx)"

definition newPVC :: "string \<Rightarrow> string \<Rightarrow> string \<Rightarrow> string \<Rightarrow> PVC \<Rightarrow> PVC" where
  "newPVC target namespace name old oldPVC =
     \<lparr>PvcName = name, PvcNamespace = namespace,
      Annotations = [''autoremediation.tfg.local/migrated-from'' \<mapsto> old],
      AccessModes = AccessModes oldPVC, Resources = Resources oldPVC, StorageClassName = Some target\<rparr>"

definition set_claim :: "Deployment \<Rightarrow> nat \<Rightarrow> string \<Rightarrow> Deployment" where
  "set_claim dep i name = dep\<lparr>Volumes := (Volumes dep)[i := (Volumes dep ! i)\<lparr>ClaimName := Some name\<rparr>]\<rparr>"

fun migrate_refs ::
  "'c kclient \<Rightarrow> string \<Rightarrow> string \<Rightarrow> int \<Rightarrow> nat \<Rightarrow> pvcRef list \<Rightarrow> Deployment \<Rightarrow> 'c \<Rightarrow>
   string option \<times> Deployment \<times> 'c" where
  "migrate_refs kc target namespace stamp idx [] dep c = (None, dep, c)"
| "migrate_refs kc target namespace stamp idx (ref # refs) dep c =
     (case GetPVC kc c namespace (oldName ref) of
        Inl e \<Rightarrow> (Some (''failed to get old PVC '' @ oldName ref @ '': '' @ kmsg e), dep, c)
      | Inr oldPVC \<Rightarrow>
          if StorageClassName oldPVC = Some target then
            migrate_refs kc target namespace stamp (Suc idx) refs dep c
          else if \<not> pvcUsedReadOnly oldPVC dep (volName ref) then
            (Some (''PVC '' @ oldName ref @ '' se usa en modo lectura/escritura; se aborta la migraci'' @
               [CHR 0xC3, CHR 0xB3] @ ''n para no perder datos (solo se migran vol'' @ [CHR 0xC3, CHR 0xBA] @
               ''menes de solo lectura)''), dep, c)
          else
            (case CreatePVC kc (newPVC target namespace (newPVCName (oldName ref) stamp idx) (oldName ref) oldPVC) c of
               (Some e, c') \<Rightarrow> (Some (''failed to create new PVC: '' @ kmsg e), dep, c')
             | (None, c') \<Rightarrow>
                 migrate_refs kc target namespace stamp (Suc idx) refs
                   (set_claim dep (volIndex ref) (newPVCName (oldName ref) stamp idx)) c'))"

section \<open>The action\<close>

definition migrate_execute ::
  "'c kclient \<Rightarrow> string \<Rightarrow> string \<Rightarrow> string \<Rightarrow> 'c \<Rightarrow> string option \<times> 'c" where
  "migrate_execute kc target podName namespace c =
     (if target = '''' then (Some ''target storage class is empty'', c)
      else
        (case GetStorageClass kc c target of
           Inl (NotFound _) \<Rightarrow> (Some (''target storage class '' @ quoted target @ '' does not exist''), c)
         | Inl (ApiError e) \<Rightarrow> (Some (''failed to verify target storage class: '' @ e), c)
         | Inr _ \<Rightarrow>
             (case GetPod kc c namespace podName of
                Inl e \<Rightarrow> (Some (''failed to get pod: '' @ kmsg e), c)
              | Inr pod \<Rightarrow>
                  (case findDeploymentOwner kc c pod of
                     Inl e \<Rightarrow> (Some e, c)
                   | Inr deploymentName \<Rightarrow>
                       (case GetDeployment kc c namespace deploymentName of
                          Inl e \<Rightarrow> (Some (''failed to get deployment: '' @ kmsg e), c)
                        | Inr deployment \<Rightarrow>
                            if collect_refs 0 (Volumes deployment) = [] then
                              (Some (''no PVC found in deployment '' @ deploymentName), c)
                            else
                              (case migrate_refs kc target namespace (Now kc c) 0
                                      (collect_refs 0 (Volumes deployment)) deployment c of
                                 (Some e, _, c') \<Rightarrow> (Some e, c')
                               | (None, deployment', c') \<Rightarrow>
                                   (case PatchDeployment kc deployment deployment' c' of
                                      (Some e, c'') \<Rightarrow> (Some (''failed to update deployment: '' @ kmsg e), c'')
                                    | (None, c'') \<Rightarrow> (None, c''))))))))"

section \<open>Lemmas\<close>

lemma mounts_read_only_iff:
  "mounts_read_only vol mounted vms \<longleftrightarrow>
     (\<forall>vm \<in> set vms. MountName vm = vol \<longrightarrow> ReadOnly vm) \<and>
     (mounted \<or> (\<exists>vm \<in> set vms. MountName vm = vol))"
  by (induction vol mounted vms rule: mounts_read_only.induct) auto

definition only_rox :: "PVC \<Rightarrow> bool" where
  "only_rox pvc \<longleftrightarrow> ''ReadOnlyMany'' \<in> set (AccessModes pvc) \<and>
     set (AccessModes pvc) \<inter> {''ReadWriteOnce'', ''ReadWriteMany'', ''ReadWriteOncePod''} = {}"

definition mounts_of :: "Deployment \<Rightarrow> string \<Rightarrow> VolumeMount set" where
  "mounts_of dep vol = {vm. \<exists>ct \<in> set (DepContainers dep). vm \<in> set (VolumeMounts ct) \<and> MountName vm = vol}"

lemma pvcUsedReadOnly_iff:
  "pvcUsedReadOnly pvc dep vol \<longleftrightarrow>
     only_rox pvc \<or> mounts_of dep vol \<noteq> {} \<and> (\<forall>vm \<in> mounts_of dep vol. ReadOnly vm)"
  unfolding pvcUsedReadOnly_def only_rox_def mounts_of_def Let_def mounts_read_only_iff by auto

lemma pvcUsedReadOnly_cong: "DepContainers d = DepContainers e \<Longrightarrow> pvcUsedReadOnly p d v = pvcUsedReadOnly p e v"
  by (simp add: pvcUsedReadOnly_def)

lemma collect_refs_iff:
  "ref \<in> set (collect_refs i vs) \<longleftrightarrow>
     (\<exists>j < length vs. volIndex ref = i + j \<and> ClaimName (vs ! j) = Some (oldName ref) \<and>
        volName ref = VolName (vs ! j))"
proof (induction vs arbitrary: i)
  case (Cons v vs)
  have "(\<exists>j < length (v # vs). volIndex ref = i + j \<and> ClaimName ((v # vs) ! j) = Some (oldName ref) \<and>
        volName ref = VolName ((v # vs) ! j)) \<longleftrightarrow>
      (volIndex ref = i \<and> ClaimName v = Some (oldName ref) \<and> volName ref = VolName v) \<or>
      (\<exists>j < length vs. volIndex ref = Suc i + j \<and> ClaimName (vs ! j) = Some (oldName ref) \<and>
        volName ref = VolName (vs ! j))"
    by (simp add: Ex_less_Suc2)
  with Cons show ?case
    by (cases ref) (auto split: option.splits)
qed simp

lemma collect_refs_distinct: "distinct (map volIndex (collect_refs i vs))"
proof (induction vs arbitrary: i)
  case (Cons v vs)
  have "i \<noteq> volIndex ref" if "ref \<in> set (collect_refs (Suc i) vs)" for ref
    using that by (auto simp: collect_refs_iff)
  with Cons show ?case by (auto split: option.splits)
qed simp

section \<open>What the loop does\<close>

text \<open>The refs point into the deployment, each to another volume.\<close>

definition refs_ok :: "pvcRef list \<Rightarrow> Deployment \<Rightarrow> bool" where
  "refs_ok refs dep \<longleftrightarrow> distinct (map volIndex refs) \<and>
     (\<forall>ref \<in> set refs. volIndex ref < length (Volumes dep) \<and>
        ClaimName (Volumes dep ! volIndex ref) = Some (oldName ref))"

text \<open>A volume whose claim is settled: on the target class, the old claim intact.\<close>

definition settled ::
  "'c kclient \<Rightarrow> string \<Rightarrow> string \<Rightarrow> Deployment \<Rightarrow> 'c \<Rightarrow> pvcRef \<Rightarrow> Volume \<Rightarrow> bool" where
  "settled kc target namespace dep c ref v \<longleftrightarrow>
     (\<exists>pvc. GetPVC kc c namespace (oldName ref) = Inr pvc \<and>
        (StorageClassName pvc = Some target \<and> ClaimName v = Some (oldName ref) \<or>
         StorageClassName pvc \<noteq> Some target \<and> pvcUsedReadOnly pvc dep (volName ref) \<and>
         (\<exists>name pvc'. ClaimName v = Some name \<and> GetPVC kc c namespace name = Inr pvc' \<and>
            StorageClassName pvc' = Some target \<and> AccessModes pvc' = AccessModes pvc \<and>
            Resources pvc' = Resources pvc)))"

lemma set_claim_simps:
  "DepContainers (set_claim dep i name) = DepContainers dep" "DepName (set_claim dep i name) = DepName dep"
  "DepNamespace (set_claim dep i name) = DepNamespace dep"
  "length (Volumes (set_claim dep i name)) = length (Volumes dep)"
  "i < length (Volumes dep) \<Longrightarrow> Volumes (set_claim dep i name) ! j =
     (if j = i then (Volumes dep ! i)\<lparr>ClaimName := Some name\<rparr> else Volumes dep ! j)"
  by (simp_all add: set_claim_def nth_list_update)

lemma refs_ok_set_claim:
  assumes "refs_ok (ref # refs) dep"
  shows "refs_ok refs (set_claim dep (volIndex ref) name)"
proof -
  have "volIndex r \<noteq> volIndex ref" if "r \<in> set refs" for r
    using assms that unfolding refs_ok_def by (metis distinct.simps(2) image_eqI list.simps(9) set_map)
  with assms show ?thesis by (simp add: refs_ok_def set_claim_simps)
qed

lemma settled_cong: "DepContainers d = DepContainers e \<Longrightarrow> settled kc target ns d c ref v = settled kc target ns e c ref v"
  unfolding settled_def by (simp add: pvcUsedReadOnly_cong [of d e])

text \<open>What the loop may do to the deployment: rename claims.\<close>

definition same_but_claims :: "Deployment \<Rightarrow> Deployment \<Rightarrow> bool" where
  "same_but_claims d e \<longleftrightarrow> DepName e = DepName d \<and> DepNamespace e = DepNamespace d \<and>
     DepContainers e = DepContainers d \<and> map VolName (Volumes e) = map VolName (Volumes d)"

lemma same_but_claims_set: "i < length (Volumes dep) \<Longrightarrow> same_but_claims dep (set_claim dep i name)"
  by (simp add: same_but_claims_def set_claim_def map_update list_update_same_conv)

lemma same_but_claims_trans: "same_but_claims a b \<Longrightarrow> same_but_claims b c \<Longrightarrow> same_but_claims a c"
  by (simp add: same_but_claims_def)

context kube_storage
begin

lemma loop_keeps:
  "migrate_refs kc target namespace stamp idx refs dep c = (r, dep', c') \<Longrightarrow>
   GetDeployment kc c' ns n = GetDeployment kc c ns n \<and>
   (GetPVC kc c ns m = Inr p \<longrightarrow> GetPVC kc c' ns m = Inr p)"
proof (induction refs arbitrary: idx dep c)
  case (Cons ref refs)
  show ?case
  proof (cases "GetPVC kc c namespace (oldName ref)")
    case (Inr pvc)
    let ?new = "newPVC target namespace (newPVCName (oldName ref) stamp idx) (oldName ref) pvc"
    obtain e c1 where cr: "CreatePVC kc ?new c = (e, c1)" by fastforce
    have d: "GetDeployment kc c1 ns n = GetDeployment kc c ns n"
      using create_deployments [of ?new c ns n] cr by simp
    show ?thesis
    proof (cases "StorageClassName pvc = Some target \<or> \<not> pvcUsedReadOnly pvc dep (volName ref)")
      case True
      with Cons Inr show ?thesis by (auto split: if_splits)
    next
      case False
      show ?thesis
      proof (cases e)
        case None
        with cr have ok: "CreatePVC kc ?new c = (None, c1)" by simp
        with Cons.prems Inr False have "migrate_refs kc target namespace stamp (Suc idx) refs
            (set_claim dep (volIndex ref) (newPVCName (oldName ref) stamp idx)) c1 = (r, dep', c')" by simp
        from Cons.IH [OF this] d create_keeps [OF ok] show ?thesis by auto
      next
        case (Some err)
        with Cons.prems Inr False cr have "c' = c1" by simp
        with d create_error_keeps [of ?new c err c1] cr Some show ?thesis by simp
      qed
    qed
  qed (use Cons.prems in simp)
qed simp

lemma created_settles:
  assumes "GetPVC kc c namespace (oldName ref) = Inr pvc" and "StorageClassName pvc \<noteq> Some target"
    and "pvcUsedReadOnly pvc dep (volName ref)"
    and cr: "CreatePVC kc (newPVC target namespace name (oldName ref) pvc) c = (None, c1)"
    and run: "migrate_refs kc target namespace stamp idx refs dep1 c1 = (r, dep', c')"
    and "v = v0\<lparr>ClaimName := Some name\<rparr>"
  shows "settled kc target namespace dep c' ref v"
proof -
  have "GetPVC kc c' namespace (oldName ref) = Inr pvc"
    "GetPVC kc c' namespace name = Inr (newPVC target namespace name (oldName ref) pvc)"
    using loop_keeps [OF run] create_keeps [OF cr assms(1)] create_claim [OF cr] by (simp_all add: newPVC_def)
  with assms(2,3,6) show ?thesis by (auto simp: settled_def newPVC_def)
qed

lemma loop_settles:
  "migrate_refs kc target namespace stamp idx refs dep c = (None, dep', c') \<Longrightarrow> refs_ok refs dep \<Longrightarrow>
   same_but_claims dep dep' \<and>
   (\<forall>i < length (Volumes dep). i \<notin> volIndex ` set refs \<longrightarrow> Volumes dep' ! i = Volumes dep ! i) \<and>
   (\<forall>ref \<in> set refs. settled kc target namespace dep c' ref (Volumes dep' ! volIndex ref))"
proof (induction refs arbitrary: idx dep c)
  case Nil
  then show ?case by (simp add: same_but_claims_def)
next
  case (Cons ref refs)
  have idx: "volIndex ref < length (Volumes dep)" "volIndex ref \<notin> volIndex ` set refs"
    "ClaimName (Volumes dep ! volIndex ref) = Some (oldName ref)"
    using Cons.prems(2) by (auto simp: refs_ok_def)
  from Cons.prems(1) obtain pvc where pvc: "GetPVC kc c namespace (oldName ref) = Inr pvc"
    by (auto split: sum.splits)
  show ?case
  proof (cases "StorageClassName pvc = Some target")
    case True
    with Cons.prems(1) pvc have run: "migrate_refs kc target namespace stamp (Suc idx) refs dep c = (None, dep', c')"
      by simp
    have "refs_ok refs dep" using Cons.prems(2) by (simp add: refs_ok_def)
    from Cons.IH [OF run this] have ih: "same_but_claims dep dep'"
      "\<forall>i < length (Volumes dep). i \<notin> volIndex ` set refs \<longrightarrow> Volumes dep' ! i = Volumes dep ! i"
      "\<forall>ref \<in> set refs. settled kc target namespace dep c' ref (Volumes dep' ! volIndex ref)" by blast+
    have "settled kc target namespace dep c' ref (Volumes dep' ! volIndex ref)"
      using True pvc idx ih(2) loop_keeps [OF run, of namespace _ "oldName ref" pvc] by (simp add: settled_def)
    with ih show ?thesis by auto
  next
    case False
    let ?name = "newPVCName (oldName ref) stamp idx"
    let ?new = "newPVC target namespace ?name (oldName ref) pvc"
    let ?dep = "set_claim dep (volIndex ref) ?name"
    from False Cons.prems(1) pvc have ro: "pvcUsedReadOnly pvc dep (volName ref)" by (auto split: if_splits)
    with False Cons.prems(1) pvc obtain c1 where cr: "CreatePVC kc ?new c = (None, c1)"
      and run: "migrate_refs kc target namespace stamp (Suc idx) refs ?dep c1 = (None, dep', c')"
      by (auto split: prod.splits option.splits)
    from Cons.IH [OF run refs_ok_set_claim [OF Cons.prems(2)]] have ih: "same_but_claims ?dep dep'"
      "\<forall>i < length (Volumes dep). i \<notin> volIndex ` set refs \<longrightarrow> Volumes dep' ! i = Volumes ?dep ! i"
      "\<forall>ref \<in> set refs. settled kc target namespace dep c' ref (Volumes dep' ! volIndex ref)"
      unfolding settled_cong [of ?dep dep, OF set_claim_simps(1)] set_claim_simps(4) by blast+
    have "Volumes dep' ! volIndex ref = (Volumes dep ! volIndex ref)\<lparr>ClaimName := Some ?name\<rparr>"
      using ih(2) idx by (simp add: set_claim_simps)
    then have "settled kc target namespace dep c' ref (Volumes dep' ! volIndex ref)"
      by (rule created_settles [OF pvc False ro cr run])
    moreover have "same_but_claims dep dep'"
      by (rule same_but_claims_trans [OF same_but_claims_set [OF idx(1)] ih(1)])
    ultimately show ?thesis using ih(2,3) idx by (auto simp: set_claim_simps)
  qed
qed

lemma collected_ok: "refs_ok (collect_refs 0 (Volumes dep)) dep"
  unfolding refs_ok_def using collect_refs_distinct by (auto simp: collect_refs_iff)

lemma failure_keeps:
  assumes "migrate_execute kc target podName namespace c = (Some e, c')"
  shows "GetDeployment kc c' ns n = GetDeployment kc c ns n \<and>
    (GetPVC kc c ns m = Inr p \<longrightarrow> GetPVC kc c' ns m = Inr p)"
proof (cases "c' = c")
  case False
  with assms obtain dep r dep' c1 where
    loop: "migrate_refs kc target namespace (Now kc c) 0 (collect_refs 0 (Volumes dep)) dep c = (r, dep', c1)"
    and rest: "c1 = c' \<or> (\<exists>x. PatchDeployment kc dep dep' c1 = (Some x, c'))"
    unfolding migrate_execute_def
    by (auto split: if_splits sum.splits kerror.splits prod.splits option.splits)
  note loop_keeps [OF loop, of ns n m p]
  moreover have "GetDeployment kc c' ns n = GetDeployment kc c1 ns n"
    "GetPVC kc c1 ns m = Inr p \<longrightarrow> GetPVC kc c' ns m = Inr p"
    using rest patch_error [of dep dep' c1 _ c' ns n] patch_claims [of dep dep' c1 ns m] by auto
  ultimately show ?thesis by simp
qed simp

lemma success_keeps:
  assumes "migrate_execute kc target podName namespace c = (None, c')" and "GetPVC kc c ns m = Inr p"
  shows "GetPVC kc c' ns m = Inr p"
proof -
  from assms(1) obtain dep dep' c1 where
    loop: "migrate_refs kc target namespace (Now kc c) 0 (collect_refs 0 (Volumes dep)) dep c = (None, dep', c1)"
    and patch: "PatchDeployment kc dep dep' c1 = (None, c')"
    unfolding migrate_execute_def
    by (auto split: if_splits sum.splits kerror.splits prod.splits option.splits)
  with loop_keeps [OF loop, of ns _ m p] patch_claims [of dep dep' c1 ns m] assms(2) show ?thesis by simp
qed

lemma success_settles:
  assumes "migrate_execute kc target podName namespace c = (None, c')"
    and "GetPod kc c namespace podName = Inr pod" and "findDeploymentOwner kc c pod = Inr d"
    and "GetDeployment kc c namespace d = Inr dep"
  shows "\<exists>dep'. GetDeployment kc c' namespace d = Inr dep' \<and> same_but_claims dep dep' \<and>
    (\<forall>i < length (Volumes dep). case ClaimName (Volumes dep ! i) of
        None \<Rightarrow> Volumes dep' ! i = Volumes dep ! i
      | Some n \<Rightarrow> settled kc target namespace dep c'
          \<lparr>volIndex = i, volName = VolName (Volumes dep ! i), oldName = n\<rparr> (Volumes dep' ! i))"
proof -
  let ?refs = "collect_refs 0 (Volumes dep)"
  from assms obtain dep' c1 where
    loop: "migrate_refs kc target namespace (Now kc c) 0 ?refs dep c = (None, dep', c1)"
    and patch: "PatchDeployment kc dep dep' c1 = (None, c')"
    unfolding migrate_execute_def
    by (auto split: if_splits sum.splits kerror.splits prod.splits option.splits)
  note set = loop_settles [OF loop collected_ok]
  have id: "DepName dep' = d" "DepNamespace dep' = namespace"
    using get_deployment_id [OF assms(4)] set by (simp_all add: same_but_claims_def)
  have "GetDeployment kc c1 namespace d = Inr dep" using loop_keeps [OF loop] assms(4) by simp
  with patch_deployment [OF patch] have "GetDeployment kc c' namespace d = Inr dep'" by (simp add: id)
  moreover have "case ClaimName (Volumes dep ! i) of
        None \<Rightarrow> Volumes dep' ! i = Volumes dep ! i
      | Some n \<Rightarrow> settled kc target namespace dep c'
          \<lparr>volIndex = i, volName = VolName (Volumes dep ! i), oldName = n\<rparr> (Volumes dep' ! i)"
    if i: "i < length (Volumes dep)" for i
  proof (cases "ClaimName (Volumes dep ! i)")
    case None
    then have "i \<notin> volIndex ` set ?refs" by (auto simp: collect_refs_iff)
    with None i set show ?thesis by simp
  next
    case (Some n)
    let ?ref = "\<lparr>volIndex = i, volName = VolName (Volumes dep ! i), oldName = n\<rparr>"
    have "?ref \<in> set ?refs" using Some i by (auto simp: collect_refs_iff)
    with set have "settled kc target namespace dep c1 ?ref (Volumes dep' ! i)" by force
    then have "settled kc target namespace dep c' ?ref (Volumes dep' ! i)"
      using patch_claims [of dep dep' c1] patch by (simp add: settled_def)
    with Some show ?thesis by simp
  qed
  ultimately show ?thesis using set by blast
qed

end

section \<open>Properties\<close>

text \<open>A deployment with two claims: the first mounted read-only, the second mounted as \<open>rw\<close> says.\<close>

definition storage_dep :: "bool \<Rightarrow> Deployment" where
  "storage_dep ro = \<lparr>DepName = ''db'', DepNamespace = ''prod'',
     Volumes = [\<lparr>VolName = ''data'', ClaimName = Some ''data-pvc''\<rparr>, \<lparr>VolName = ''tmp'', ClaimName = None\<rparr>],
     DepContainers = [\<lparr>CName = ''db'', Limits = None, Requests = Map.empty,
       VolumeMounts = [\<lparr>MountName = ''data'', ReadOnly = ro\<rparr>, \<lparr>MountName = ''tmp'', ReadOnly = False\<rparr>]\<rparr>]\<rparr>"

definition storage_pod :: Pod where
  "storage_pod = \<lparr>PodName = ''db-0'', PodNamespace = ''prod'', UID = ''u-1'', NodeName = ''node-1'',
     PodOwners = [\<lparr>OwnerKind = ''ReplicaSet'', OwnerName = ''db-rs''\<rparr>], Containers = []\<rparr>"

definition storage_pvc :: PVC where
  "storage_pvc = \<lparr>PvcName = ''data-pvc'', PvcNamespace = ''prod'', Annotations = Map.empty,
     AccessModes = [''ReadWriteOnce''], Resources = [''storage'' \<mapsto> 1000], StorageClassName = Some ''hdd''\<rparr>"

definition storage_cluster :: "bool \<Rightarrow> cluster" where
  "storage_cluster ro = \<lparr>c_pods = [storage_pod], c_nodes = [], c_classes = [''nvme''],
     c_replicasets = [\<lparr>RsName = ''db-rs'', RsNamespace = ''prod'',
       RsOwners = [\<lparr>OwnerKind = ''Deployment'', OwnerName = ''db''\<rparr>]\<rparr>],
     c_deployments = [storage_dep ro], c_claims = [storage_pvc], c_evicted = [], c_time = 17\<rparr>"

lemma storage_get:
  "GetPod cluster_client (storage_cluster ro) ''prod'' ''db-0'' = Inr storage_pod"
  "findDeploymentOwner cluster_client (storage_cluster ro) storage_pod = Inr ''db''"
  "GetDeployment cluster_client (storage_cluster ro) ''prod'' ''db'' = Inr (storage_dep ro)"
  "GetPVC cluster_client (storage_cluster ro) ''prod'' ''data-pvc'' = Inr storage_pvc"
  by (simp_all add: cluster_client_def storage_cluster_def storage_pod_def findDeploymentOwner_def
      storage_dep_def storage_pvc_def)

text \<open>
  C34: no data is left behind. If a volume of the pod's deployment has a claim that is not on the
  target class, allows writing, and is mounted writable by a main container, the action fails and
  every deployment stays as it was.
\<close>

theorem migrate_never_moves_writable:
  assumes "kube_storage kc"
    and "GetPod kc c namespace podName = Inr pod" and "findDeploymentOwner kc c pod = Inr d"
    and "GetDeployment kc c namespace d = Inr dep"
    and "i < length (Volumes dep)" and "ClaimName (Volumes dep ! i) = Some n"
    and "GetPVC kc c namespace n = Inr pvc" and "StorageClassName pvc \<noteq> Some target"
    and "\<not> only_rox pvc" and "vm \<in> mounts_of dep (VolName (Volumes dep ! i))" and "\<not> ReadOnly vm"
  shows "\<exists>e c'. migrate_execute kc target podName namespace c = (Some e, c') \<and>
    (\<forall>ns m. GetDeployment kc c' ns m = GetDeployment kc c ns m)"
proof -
  obtain r c' where run: "migrate_execute kc target podName namespace c = (r, c')" by fastforce
  show ?thesis
  proof (cases r)
    case None
    with run have ok: "migrate_execute kc target podName namespace c = (None, c')" by simp
    from kube_storage.success_settles [OF assms(1) ok assms(2-4)] assms(5,6)
    have "\<exists>v. settled kc target namespace dep c' \<lparr>volIndex = i, volName = VolName (Volumes dep ! i), oldName = n\<rparr> v"
      by force
    moreover have "GetPVC kc c' namespace n = Inr pvc"
      by (rule kube_storage.success_keeps [OF assms(1) ok assms(7)])
    ultimately have "pvcUsedReadOnly pvc dep (VolName (Volumes dep ! i))"
      using assms(8) by (auto simp: settled_def)
    with assms(9-11) show ?thesis by (simp add: pvcUsedReadOnly_iff)
  next
    case (Some e)
    with run have "migrate_execute kc target podName namespace c = (Some e, c')" by simp
    with kube_storage.failure_keeps [OF assms(1) this] show ?thesis by blast
  qed
qed

theorem migrate_never_moves_writable_witness:
  "\<exists>e c'. migrate_execute cluster_client ''nvme'' ''db-0'' ''prod'' (storage_cluster False) = (Some e, c') \<and>
    (\<forall>ns m. GetDeployment cluster_client c' ns m = GetDeployment cluster_client (storage_cluster False) ns m)"
  by (rule migrate_never_moves_writable [OF cluster_storage.kube_storage_axioms storage_get(1-3),
        where i = 0 and n = "''data-pvc''" and pvc = storage_pvc and
          vm = "\<lparr>MountName = ''data'', ReadOnly = False\<rparr>"])
    (simp_all add: storage_get, simp_all add: storage_dep_def storage_pvc_def only_rox_def mounts_of_def)

text \<open>
  C35: when the action succeeds, the deployment has only had claims renamed, and every volume that had
  a claim is settled: either its old claim is on the target class already and is kept, or the old claim
  was used read-only, is still there, and the volume now names a claim on the target class with the
  access modes and resources of the old one.
\<close>

theorem migrate_settles_every_claim:
  assumes "kube_storage kc"
    and "migrate_execute kc target podName namespace c = (None, c')"
    and "GetPod kc c namespace podName = Inr pod" and "findDeploymentOwner kc c pod = Inr d"
    and "GetDeployment kc c namespace d = Inr dep"
  shows "\<exists>dep'. GetDeployment kc c' namespace d = Inr dep' \<and> same_but_claims dep dep' \<and>
    (\<forall>i < length (Volumes dep). case ClaimName (Volumes dep ! i) of
        None \<Rightarrow> Volumes dep' ! i = Volumes dep ! i
      | Some n \<Rightarrow> settled kc target namespace dep c'
          \<lparr>volIndex = i, volName = VolName (Volumes dep ! i), oldName = n\<rparr> (Volumes dep' ! i))"
  using assms by (rule kube_storage.success_settles)

lemma storage_run:
  "migrate_execute cluster_client ''nvme'' ''db-0'' ''prod'' (storage_cluster True) =
     (None, snd (migrate_execute cluster_client ''nvme'' ''db-0'' ''prod'' (storage_cluster True)))"
proof -
  let ?new = "newPVC ''nvme'' ''prod'' (newPVCName ''data-pvc'' (Now cluster_client (storage_cluster True)) 0)
    ''data-pvc'' storage_pvc"
  have sc: "GetStorageClass cluster_client (storage_cluster True) ''nvme'' = Inr ''nvme''"
    by (simp add: cluster_client_def storage_cluster_def)
  have cr: "\<exists>c1. CreatePVC cluster_client ?new (storage_cluster True) = (None, c1)"
    by (simp add: cluster_client_def storage_cluster_def storage_pvc_def newPVC_def newPVCName_def)
  have pa: "\<exists>c1. PatchDeployment cluster_client old new c = (None, c1)" for old new c
    by (simp add: cluster_client_def)
  have ro: "pvcUsedReadOnly storage_pvc (storage_dep True) ''data''"
    by (simp add: pvcUsedReadOnly_def storage_dep_def)
  have refs: "collect_refs 0 (Volumes (storage_dep True)) =
      [\<lparr>volIndex = 0, volName = ''data'', oldName = ''data-pvc''\<rparr>]" by (simp add: storage_dep_def)
  have "StorageClassName storage_pvc \<noteq> Some ''nvme''" by (simp add: storage_pvc_def)
  with cr obtain dep1 c1 where loop: "migrate_refs cluster_client ''nvme'' ''prod''
      (Now cluster_client (storage_cluster True)) 0 (collect_refs 0 (Volumes (storage_dep True)))
      (storage_dep True) (storage_cluster True) = (None, dep1, c1)"
    unfolding refs by (auto simp: storage_get ro)
  from pa [of "storage_dep True" dep1 c1] have
    "fst (migrate_execute cluster_client ''nvme'' ''db-0'' ''prod'' (storage_cluster True)) = None"
    by (auto simp: migrate_execute_def sc storage_get loop) (simp_all add: refs)
  then show ?thesis by (metis prod.collapse)
qed

theorem migrate_settles_every_claim_witness:
  "\<exists>dep'. GetDeployment cluster_client
      (snd (migrate_execute cluster_client ''nvme'' ''db-0'' ''prod'' (storage_cluster True))) ''prod'' ''db'' = Inr dep' \<and>
    same_but_claims (storage_dep True) dep' \<and> Volumes dep' ! 1 = \<lparr>VolName = ''tmp'', ClaimName = None\<rparr>"
proof -
  from migrate_settles_every_claim [OF cluster_storage.kube_storage_axioms storage_run storage_get(1-3)]
  show ?thesis by (auto simp: storage_dep_def)
qed

text \<open>
  When the action fails after its first claim was created, the new claim stays behind, though no
  deployment names it.
\<close>

lemma migrate_failure_leaves_claim:
  assumes "kube_storage kc" and "GetPod kc c namespace podName = Inr pod"
    and "findDeploymentOwner kc c pod = Inr d" and "GetDeployment kc c namespace d = Inr dep"
    and "collect_refs 0 (Volumes dep) = ref # refs" and "GetPVC kc c namespace (oldName ref) = Inr pvc"
    and "StorageClassName pvc \<noteq> Some target" and "pvcUsedReadOnly pvc dep (volName ref)"
    and name: "name = newPVCName (oldName ref) (Now kc c) 0"
    and new: "new = newPVC target namespace name (oldName ref) pvc"
    and "CreatePVC kc new c = (None, c1)" and "GetStorageClass kc c target = Inr sc" and "target \<noteq> ''''"
    and "migrate_execute kc target podName namespace c = (Some e, c')"
  shows "GetPVC kc c' namespace name = Inr new \<and> GetDeployment kc c' ns n = GetDeployment kc c ns n"
proof -
  obtain r dep' c2 where rest: "migrate_refs kc target namespace (Now kc c) 1 refs
      (set_claim dep (volIndex ref) name) c1 = (r, dep', c2)" by (metis prod.collapse)
  have loop: "migrate_refs kc target namespace (Now kc c) 0 (ref # refs) dep c = (r, dep', c2)"
    using assms(6-8,11) rest by (simp add: name new)
  have "GetPVC kc c1 namespace name = Inr new"
    using kube_storage.create_claim [OF assms(1,11)] by (simp add: new newPVC_def)
  with kube_storage.loop_keeps [OF assms(1) rest] have kept: "GetPVC kc c2 namespace name = Inr new" by blast
  have "c' = c2 \<or> (\<exists>x. PatchDeployment kc dep dep' c2 = (x, c'))"
    using assms(2-5,12-14) loop by (auto simp: migrate_execute_def split: option.splits prod.splits)
  with kept have "GetPVC kc c' namespace name = Inr new"
    using kube_storage.patch_claims [OF assms(1), of dep dep' c2 namespace name] by auto
  with kube_storage.failure_keeps [OF assms(1,14)] show ?thesis by blast
qed

text \<open>A deployment with a read-only and a writable claim.\<close>

definition mixed_dep :: Deployment where
  "mixed_dep = \<lparr>DepName = ''db'', DepNamespace = ''prod'',
     Volumes = [\<lparr>VolName = ''data'', ClaimName = Some ''data-pvc''\<rparr>, \<lparr>VolName = ''log'', ClaimName = Some ''log-pvc''\<rparr>],
     DepContainers = [\<lparr>CName = ''db'', Limits = None, Requests = Map.empty,
       VolumeMounts = [\<lparr>MountName = ''data'', ReadOnly = True\<rparr>, \<lparr>MountName = ''log'', ReadOnly = False\<rparr>]\<rparr>]\<rparr>"

definition mixed_cluster :: cluster where
  "mixed_cluster = (storage_cluster True)\<lparr>c_deployments := [mixed_dep],
     c_claims := [storage_pvc, storage_pvc\<lparr>PvcName := ''log-pvc''\<rparr>]\<rparr>"

lemma mixed_get:
  "GetPod cluster_client mixed_cluster ''prod'' ''db-0'' = Inr storage_pod"
  "findDeploymentOwner cluster_client mixed_cluster storage_pod = Inr ''db''"
  "GetDeployment cluster_client mixed_cluster ''prod'' ''db'' = Inr mixed_dep"
  "GetPVC cluster_client mixed_cluster ''prod'' ''data-pvc'' = Inr storage_pvc"
  "GetPVC cluster_client mixed_cluster ''prod'' ''log-pvc'' = Inr (storage_pvc\<lparr>PvcName := ''log-pvc''\<rparr>)"
  "GetStorageClass cluster_client mixed_cluster ''nvme'' = Inr ''nvme''"
  by (simp_all add: cluster_client_def mixed_cluster_def storage_cluster_def storage_pod_def findDeploymentOwner_def
      mixed_dep_def storage_pvc_def)

lemma mixed_refs: "collect_refs 0 (Volumes mixed_dep) =
  [\<lparr>volIndex = 0, volName = ''data'', oldName = ''data-pvc''\<rparr>, \<lparr>volIndex = 1, volName = ''log'', oldName = ''log-pvc''\<rparr>]"
  by (simp add: mixed_dep_def)

lemma mixed_create:
  "\<exists>c1. CreatePVC cluster_client (newPVC ''nvme'' ''prod'' (newPVCName ''data-pvc'' (Now cluster_client mixed_cluster) 0)
     ''data-pvc'' storage_pvc) mixed_cluster = (None, c1)"
  by (simp add: cluster_client_def mixed_cluster_def storage_pvc_def newPVC_def newPVCName_def)

end
