(* ===== verification/MigrateRetry.thy ===== *)
theory MigrateRetry
  imports MigrateStorage
begin

text \<open>
  \<open>operator/pkg/action/migrate_storage.go\<close> as the reconciler uses it: an action that failed is executed
  again in the next round, at a later time. A deployment with a claim that may be migrated first and a
  claim in use for writing later fails in every round, and every round leaves a new claim behind.
\<close>

section \<open>Names of new claims\<close>

lemma take_last_part: "CHR 0x2D \<notin> set d \<Longrightarrow> takeWhile (\<lambda>c. c \<noteq> CHR 0x2D) (rev (x @ ''-'' @ d)) = rev d"
proof -
  assume "CHR 0x2D \<notin> set d"
  then have "c \<in> set (rev d) \<Longrightarrow> c \<noteq> CHR 0x2D" for c by auto
  then have "takeWhile (\<lambda>c. c \<noteq> CHR 0x2D) (rev d @ CHR 0x2D # rev x) =
      rev d @ takeWhile (\<lambda>c. c \<noteq> CHR 0x2D) (CHR 0x2D # rev x)" by (intro takeWhile_append2)
  then show ?thesis by simp
qed

lemma last_part:
  assumes "a @ ''-'' @ d = b @ ''-'' @ e" and "CHR 0x2D \<notin> set d" and "CHR 0x2D \<notin> set e"
  shows "d = e"
proof -
  have "rev d = rev e"
    using take_last_part [OF assms(2), of a] take_last_part [OF assms(3), of b] unfolding assms(1) by (rule HOL.trans [OF sym])
  then show ?thesis by simp
qed

lemma decimal_no_dash: "CHR 0x2D \<notin> set (decimal n)"
  using decimal_digits [of "CHR 0x2D" n] by auto

text \<open>The name tells the position of the claim and the time.\<close>

lemma newPVCName_inj: "newPVCName old s i = newPVCName old' t j \<Longrightarrow> i = j \<and> s = t"
proof -
  assume eq: "newPVCName old s i = newPVCName old' t j"
  then have full: "(old @ ''-migrated-'' @ fmt_d s) @ ''-'' @ decimal i = (old' @ ''-migrated-'' @ fmt_d t) @ ''-'' @ decimal j"
    by (simp add: newPVCName_def fmt_d_def)
  from last_part [OF this decimal_no_dash decimal_no_dash] have ij: "i = j" by (simp add: decimal_inj)
  let ?x = "\<lambda>o' r. o' @ ''-migrated'' @ (if r < 0 then ''-'' else [])"
  have "?x old s @ ''-'' @ decimal (nat \<bar>s\<bar>) = ?x old' t @ ''-'' @ decimal (nat \<bar>t\<bar>)"
    using full unfolding ij by (auto simp: fmt_d_def)
  moreover from last_part [OF this decimal_no_dash decimal_no_dash] have abs: "nat \<bar>s\<bar> = nat \<bar>t\<bar>"
    by (simp add: decimal_inj)
  ultimately have "?x old s = ?x old' t" by simp
  from arg_cong [OF this, of last] have "s < 0 \<longleftrightarrow> t < 0" by (simp split: if_splits)
  with abs ij show ?thesis by arith
qed

section \<open>What one attempt leaves\<close>

text \<open>A deployment whose first claim would be migrated, and one of whose claims is in use for writing.\<close>

definition half_done :: "'c kclient \<Rightarrow> string \<Rightarrow> string \<Rightarrow> string \<Rightarrow> 'c \<Rightarrow> pvcRef \<Rightarrow> PVC \<Rightarrow> bool" where
  "half_done kc target podName namespace c ref pvc \<longleftrightarrow>
     (\<exists>pod d dep refs i n pvc' vm sc.
        target \<noteq> '''' \<and> GetStorageClass kc c target = Inr sc \<and> GetPod kc c namespace podName = Inr pod \<and>
        findDeploymentOwner kc c pod = Inr d \<and> GetDeployment kc c namespace d = Inr dep \<and>
        collect_refs 0 (Volumes dep) = ref # refs \<and>
        GetPVC kc c namespace (oldName ref) = Inr pvc \<and> StorageClassName pvc \<noteq> Some target \<and>
        pvcUsedReadOnly pvc dep (volName ref) \<and>
        i < length (Volumes dep) \<and> ClaimName (Volumes dep ! i) = Some n \<and>
        GetPVC kc c namespace n = Inr pvc' \<and> StorageClassName pvc' \<noteq> Some target \<and> \<not> only_rox pvc' \<and>
        vm \<in> mounts_of dep (VolName (Volumes dep ! i)) \<and> \<not> ReadOnly vm)"

text \<open>The action, again and again, each time at the next of the given times.\<close>

fun attempts ::
  "'c kclient \<Rightarrow> (int \<Rightarrow> 'c \<Rightarrow> 'c) \<Rightarrow> string \<Rightarrow> string \<Rightarrow> string \<Rightarrow> int list \<Rightarrow> 'c \<Rightarrow> string option list \<times> 'c" where
  "attempts kc at target podName namespace [] c = ([], c)"
| "attempts kc at target podName namespace (t # ts) c =
     (let (e, c1) = migrate_execute kc target podName namespace (at t c);
          (es, c2) = attempts kc at target podName namespace ts c1
      in (e # es, c2))"

text \<open>
  What the API server promises of repeated attempts: time passes without a change of any object, a
  claim is created when its name is free and nothing else changes with it. The last is a server without quotas
  and admission control, which may refuse a claim; a refused one fails the action as well, without a new claim.
\<close>

locale kube_retry = kube_storage kc for kc :: "'c kclient" +
  fixes at :: "int \<Rightarrow> 'c \<Rightarrow> 'c"
  assumes at_now: "Now kc (at t c) = t"
    and at_pod: "GetPod kc (at t c) = GetPod kc c"
    and at_replicaset: "GetReplicaSet kc (at t c) = GetReplicaSet kc c"
    and at_class: "GetStorageClass kc (at t c) = GetStorageClass kc c"
    and at_deployment: "GetDeployment kc (at t c) = GetDeployment kc c"
    and at_claim: "GetPVC kc (at t c) = GetPVC kc c"
    and create_pod: "GetPod kc (snd (CreatePVC kc pvc c)) = GetPod kc c"
    and create_replicaset: "GetReplicaSet kc (snd (CreatePVC kc pvc c)) = GetReplicaSet kc c"
    and create_class: "GetStorageClass kc (snd (CreatePVC kc pvc c)) = GetStorageClass kc c"
    and create_free: "(\<And>p. GetPVC kc c (PvcNamespace pvc) (PvcName pvc) \<noteq> Inr p) \<Longrightarrow> fst (CreatePVC kc pvc c) = None"
    and create_other: "ns \<noteq> PvcNamespace pvc \<or> n \<noteq> PvcName pvc \<Longrightarrow>
      GetPVC kc (snd (CreatePVC kc pvc c)) ns n = GetPVC kc c ns n"
begin

lemmas at_reads = at_now at_pod at_replicaset at_class at_deployment at_claim
lemmas create_reads = create_pod create_replicaset create_class create_deployments

definition reads_same :: "'c \<Rightarrow> 'c \<Rightarrow> bool" where
  "reads_same c c' \<longleftrightarrow> GetPod kc c' = GetPod kc c \<and> GetReplicaSet kc c' = GetReplicaSet kc c \<and>
     GetStorageClass kc c' = GetStorageClass kc c \<and> GetDeployment kc c' = GetDeployment kc c"

lemma reads_same_trans: "reads_same a b \<Longrightarrow> reads_same b c \<Longrightarrow> reads_same a c"
  by (simp add: reads_same_def)

lemma reads_same_create: "reads_same c (snd (CreatePVC kc pvc c))"
  by (simp add: reads_same_def create_reads fun_eq_iff)

lemma reads_same_at: "reads_same c (at t c)"
  by (simp add: reads_same_def at_reads)

text \<open>The loop touches nothing but claims, and of these only those named for its time.\<close>

lemma loop_frame:
  "migrate_refs kc target namespace stamp idx refs dep c = (r, dep', c') \<Longrightarrow>
   reads_same c c' \<and>
   ((\<forall>old i. idx \<le> i \<longrightarrow> n \<noteq> newPVCName old stamp i) \<longrightarrow> GetPVC kc c' ns n = GetPVC kc c ns n)"
proof (induction refs arbitrary: idx dep c)
  case Nil
  then show ?case by (simp add: reads_same_def)
next
  case (Cons ref refs)
  show ?case
  proof (cases "GetPVC kc c namespace (oldName ref)")
    case (Inl e)
    with Cons.prems show ?thesis by (simp add: reads_same_def)
  next
    case (Inr pvc)
    let ?new = "newPVC target namespace (newPVCName (oldName ref) stamp idx) (oldName ref) pvc"
    obtain e c1 where cr: "CreatePVC kc ?new c = (e, c1)" by fastforce
    have same: "reads_same c c1" using reads_same_create [of c ?new] cr by simp
    have other: "n \<noteq> newPVCName (oldName ref) stamp idx \<Longrightarrow> GetPVC kc c1 ns n = GetPVC kc c ns n"
      using create_other [of ns ?new n c] cr by (simp add: newPVC_def)
    consider "StorageClassName pvc = Some target"
      | "StorageClassName pvc \<noteq> Some target" "\<not> pvcUsedReadOnly pvc dep (volName ref)"
      | "StorageClassName pvc \<noteq> Some target" "pvcUsedReadOnly pvc dep (volName ref)" by blast
    then show ?thesis
    proof cases
      case 1
      with Cons.prems Inr Cons.IH [of "Suc idx" dep c] show ?thesis by auto
    next
      case 2
      with Cons.prems Inr show ?thesis by (auto simp: reads_same_def)
    next
      case 3
      show ?thesis
      proof (cases e)
        case None
        with Cons.prems Inr 3 cr have "migrate_refs kc target namespace stamp (Suc idx) refs
            (set_claim dep (volIndex ref) (newPVCName (oldName ref) stamp idx)) c1 = (r, dep', c')" by simp
        from Cons.IH [OF this] same other show ?thesis by (auto dest: reads_same_trans Suc_leD)
      next
        case (Some err)
        with Cons.prems Inr 3 cr same other show ?thesis by auto
      qed
    qed
  qed
qed

lemma findDeploymentOwner_same:
  "reads_same c c' \<Longrightarrow> findDeploymentOwner kc c' pod = findDeploymentOwner kc c pod"
  unfolding findDeploymentOwner_def reads_same_def by metis

lemma half_done_keeps:
  assumes half: "half_done kc target podName namespace c ref pvc" and same: "reads_same c c'"
    and keeps: "\<And>n p. GetPVC kc c namespace n = Inr p \<Longrightarrow> GetPVC kc c' namespace n = Inr p"
  shows "half_done kc target podName namespace c' ref pvc"
proof -
  from same have r: "GetPod kc c' = GetPod kc c" "GetStorageClass kc c' = GetStorageClass kc c"
    "GetDeployment kc c' = GetDeployment kc c" by (simp_all add: reads_same_def)
  show ?thesis
    using half unfolding half_done_def r findDeploymentOwner_same [OF same]
    by (elim exE conjE, intro exI conjI) (assumption | rule keeps)+
qed

lemma loop_blocked:
  assumes "migrate_refs kc target namespace stamp 0 (collect_refs 0 (Volumes dep)) dep c = (r, dep', c')"
    and "i < length (Volumes dep)" and "ClaimName (Volumes dep ! i) = Some n"
    and "GetPVC kc c namespace n = Inr pvc" and "StorageClassName pvc \<noteq> Some target" and "\<not> only_rox pvc"
    and "vm \<in> mounts_of dep (VolName (Volumes dep ! i))" and "\<not> ReadOnly vm"
  shows "r \<noteq> None"
proof
  assume "r = None"
  with assms(1) have loop:
    "migrate_refs kc target namespace stamp 0 (collect_refs 0 (Volumes dep)) dep c = (None, dep', c')" by simp
  let ?ref = "\<lparr>volIndex = i, volName = VolName (Volumes dep ! i), oldName = n\<rparr>"
  have "?ref \<in> set (collect_refs 0 (Volumes dep))" using assms(2,3) by (auto simp: collect_refs_iff)
  with loop_settles [OF loop collected_ok] have "settled kc target namespace dep c' ?ref (Volumes dep' ! i)" by force
  moreover have "GetPVC kc c' namespace n = Inr pvc" using loop_keeps [OF loop] assms(4) by blast
  ultimately have "pvcUsedReadOnly pvc dep (VolName (Volumes dep ! i))" using assms(5) by (auto simp: settled_def)
  with assms(6-8) show False by (auto simp: pvcUsedReadOnly_iff)
qed

lemma attempt:
  assumes half: "half_done kc target podName namespace c ref pvc"
    and free: "\<And>p. GetPVC kc c namespace (newPVCName (oldName ref) (Now kc c) 0) \<noteq> Inr p"
    and run: "migrate_execute kc target podName namespace c = (r, c')"
  defines "name \<equiv> newPVCName (oldName ref) (Now kc c) 0"
  shows "r \<noteq> None" and "reads_same c c'"
    and "GetPVC kc c namespace n = Inr p \<Longrightarrow> GetPVC kc c' namespace n = Inr p"
    and "GetPVC kc c' namespace name = Inr (newPVC target namespace name (oldName ref) pvc)"
    and "(\<forall>old i. n \<noteq> newPVCName old (Now kc c) i) \<Longrightarrow> GetPVC kc c' namespace n = GetPVC kc c namespace n"
proof -
  from half obtain pod d dep refs i n' pvc' vm sc where
    h: "target \<noteq> ''''" "GetStorageClass kc c target = Inr sc" "GetPod kc c namespace podName = Inr pod"
      "findDeploymentOwner kc c pod = Inr d" "GetDeployment kc c namespace d = Inr dep"
      "collect_refs 0 (Volumes dep) = ref # refs"
      "GetPVC kc c namespace (oldName ref) = Inr pvc" "StorageClassName pvc \<noteq> Some target"
      "pvcUsedReadOnly pvc dep (volName ref)"
    and b: "i < length (Volumes dep)" "ClaimName (Volumes dep ! i) = Some n'"
      "GetPVC kc c namespace n' = Inr pvc'" "StorageClassName pvc' \<noteq> Some target" "\<not> only_rox pvc'"
      "vm \<in> mounts_of dep (VolName (Volumes dep ! i))" "\<not> ReadOnly vm"
    unfolding half_done_def by blast
  obtain r1 dep' c1 where loop: "migrate_refs kc target namespace (Now kc c) 0 (collect_refs 0 (Volumes dep)) dep c =
      (r1, dep', c1)" by (metis prod.collapse)
  from loop_blocked [OF loop b] obtain e where e: "r1 = Some e" by blast
  with run loop h have fail: "r = Some e" "c' = c1" by (auto simp: migrate_execute_def)
  then show "r \<noteq> None" by simp
  from loop_frame [OF loop, of n namespace] show "reads_same c c'"
    and "(\<forall>old i. n \<noteq> newPVCName old (Now kc c) i) \<Longrightarrow> GetPVC kc c' namespace n = GetPVC kc c namespace n"
    by (auto simp: fail)
  show "GetPVC kc c namespace n = Inr p \<Longrightarrow> GetPVC kc c' namespace n = Inr p"
    using loop_keeps [OF loop] fail(2) by blast
  let ?new = "newPVC target namespace name (oldName ref) pvc"
  have "fst (CreatePVC kc ?new c) = None" using create_free [of c ?new] free by (simp add: newPVC_def name_def)
  then obtain c0 where "CreatePVC kc ?new c = (None, c0)" by (metis prod.collapse)
  moreover from run fail have "migrate_execute kc target podName namespace c = (Some e, c')" by simp
  ultimately show "GetPVC kc c' namespace name = Inr ?new"
    using migrate_failure_leaves_claim [OF kube_storage_axioms h(3-9) name_def [THEN meta_eq_to_obj_eq] HOL.refl _ h(2,1)]
    by blast
qed

text \<open>Every attempt leaves a claim of its own.\<close>

lemma attempts_fail:
  assumes "half_done kc target podName namespace c ref pvc" and "distinct ts"
    and "\<And>t p. t \<in> set ts \<Longrightarrow> GetPVC kc c namespace (newPVCName (oldName ref) t 0) \<noteq> Inr p"
    and "attempts kc at target podName namespace ts c = (es, c')"
  shows "None \<notin> set es \<and> GetDeployment kc c' = GetDeployment kc c \<and>
    (\<forall>n p. GetPVC kc c namespace n = Inr p \<longrightarrow> GetPVC kc c' namespace n = Inr p) \<and>
    (\<forall>t \<in> set ts. GetPVC kc c' namespace (newPVCName (oldName ref) t 0) =
       Inr (newPVC target namespace (newPVCName (oldName ref) t 0) (oldName ref) pvc))"
  using assms
proof (induction ts arbitrary: c es)
  case Nil
  then show ?case by simp
next
  case (Cons t ts)
  obtain e c1 where run: "migrate_execute kc target podName namespace (at t c) = (e, c1)" by fastforce
  obtain es' where rest: "attempts kc at target podName namespace ts c1 = (es', c')" and es: "es = e # es'"
    using Cons.prems(4) run by (auto split: prod.splits)
  have half: "half_done kc target podName namespace (at t c) ref pvc"
    by (rule half_done_keeps [OF Cons.prems(1) reads_same_at]) (simp add: at_reads)
  have free: "GetPVC kc (at t c) namespace (newPVCName (oldName ref) (Now kc (at t c)) 0) \<noteq> Inr p" for p
    using Cons.prems(3) [of t] by (simp add: at_reads)
  note one = attempt [OF half free run]
  have keeps: "GetPVC kc c namespace n = Inr p \<Longrightarrow> GetPVC kc c1 namespace n = Inr p" for n p
    using one(3) by (simp add: at_reads)
  have others: "GetPVC kc c1 namespace (newPVCName (oldName ref) s 0) = GetPVC kc c namespace (newPVCName (oldName ref) s 0)"
    if "s \<noteq> t" for s using one(5) newPVCName_inj that by (metis at_now at_claim)
  have "GetPVC kc c1 namespace (newPVCName (oldName ref) s 0) \<noteq> Inr p" if "s \<in> set ts" for s p
    using others [of s] Cons.prems(2,3) that by (metis distinct.simps(2) list.set_intros(2))
  note ih = Cons.IH [OF half_done_keeps [OF half one(2,3)] _ this rest]
  then show ?case using Cons.prems(2) one(1,2,4) keeps by (auto simp: es at_reads reads_same_def)
qed

end

lemma cluster_create_free:
  assumes "\<And>p. GetPVC cluster_client c (PvcNamespace pvc) (PvcName pvc) \<noteq> Inr p"
  shows "fst (CreatePVC cluster_client pvc c) = None"
proof -
  let ?P = "\<lambda>x. PvcNamespace x = PvcNamespace pvc \<and> PvcName x = PvcName pvc"
  have "find ?P (c_claims c) = None" using assms by (cases "find ?P (c_claims c)") (auto simp: cluster_client_def)
  then have "\<not> (\<exists>x \<in> set (c_claims c). ?P x)" by (simp add: find_None_iff)
  then show ?thesis by (simp add: cluster_client_def)
qed

interpretation cluster_retry: kube_retry cluster_client "\<lambda>t c. c\<lparr>c_time := t\<rparr>"
proof unfold_locales
  show "(\<And>p. GetPVC cluster_client c (PvcNamespace pvc) (PvcName pvc) \<noteq> Inr p) \<Longrightarrow>
      fst (CreatePVC cluster_client pvc c) = None" for c pvc by (rule cluster_create_free)
qed (auto simp: cluster_client_def fun_eq_iff)

section \<open>Repeated executions\<close>

lemma card_new_names: "distinct ts \<Longrightarrow> card ((\<lambda>t. newPVCName old t 0) ` set ts) = length ts"
proof -
  assume "distinct ts"
  moreover have "inj_on (\<lambda>t. newPVCName old t 0) (set ts)" by (auto intro: inj_onI dest: newPVCName_inj)
  ultimately show ?thesis by (simp add: card_image distinct_card)
qed

text \<open>
  A failed migration is not idempotent. Take a deployment whose first claim may be migrated while
  another of its claims is in use for writing. However often the action is executed, at different times
  and with no other change between them, every execution fails and leaves the deployments as they were,
  and every one leaves behind a new claim of its own on the target class: after \<open>k\<close> executions there
  are \<open>k\<close> of them.
\<close>

lemma migrate_retries_pile_up_claims:
  assumes "kube_retry kc at" and "half_done kc target podName namespace c ref pvc" and "distinct ts"
    and "\<forall>t \<in> set ts. \<forall>p. GetPVC kc c namespace (newPVCName (oldName ref) t 0) \<noteq> Inr p"
  shows "let (es, c') = attempts kc at target podName namespace ts c in
    None \<notin> set es \<and> GetDeployment kc c' = GetDeployment kc c \<and>
    (\<forall>t \<in> set ts. GetPVC kc c' namespace (newPVCName (oldName ref) t 0) =
       Inr (newPVC target namespace (newPVCName (oldName ref) t 0) (oldName ref) pvc)) \<and>
    card ((\<lambda>t. newPVCName (oldName ref) t 0) ` set ts) = length ts"
proof -
  obtain es c' where run: "attempts kc at target podName namespace ts c = (es, c')" by fastforce
  have "card ((\<lambda>t. newPVCName (oldName ref) t 0) ` set ts) = length ts" by (rule card_new_names [OF assms(3)])
  with kube_retry.attempts_fail [OF assms(1-3) _ run] assms(4) show ?thesis by (simp add: run)
qed

lemma mixed_half_done:
  "half_done cluster_client ''nvme'' ''db-0'' ''prod'' mixed_cluster
     \<lparr>volIndex = 0, volName = ''data'', oldName = ''data-pvc''\<rparr> storage_pvc"
proof -
  have "pvcUsedReadOnly storage_pvc mixed_dep ''data''" by (simp add: pvcUsedReadOnly_def mixed_dep_def)
  moreover have "ClaimName (Volumes mixed_dep ! 1) = Some ''log-pvc'' \<and> 1 < length (Volumes mixed_dep)"
    by (simp add: mixed_dep_def)
  moreover have "\<lparr>MountName = ''log'', ReadOnly = False\<rparr> \<in> mounts_of mixed_dep (VolName (Volumes mixed_dep ! 1))"
    by (simp add: mixed_dep_def mounts_of_def)
  moreover have "StorageClassName storage_pvc \<noteq> Some ''nvme''" "\<not> only_rox (storage_pvc\<lparr>PvcName := ''log-pvc''\<rparr>)"
    by (simp_all add: storage_pvc_def only_rox_def)
  ultimately show ?thesis
    unfolding half_done_def
    by (intro exI [of _ storage_pod] exI [of _ "''db''"] exI [of _ mixed_dep] exI [of _ 1] exI [of _ "''log-pvc''"]
        exI [of _ "storage_pvc\<lparr>PvcName := ''log-pvc''\<rparr>"] exI [of _ "''nvme''"] exI conjI;
        (assumption | simp add: mixed_get mixed_refs)?) auto
qed

lemma migrate_retries_pile_up_claims_instance:
  "let (es, c') = attempts cluster_client (\<lambda>t c. c\<lparr>c_time := t\<rparr>) ''nvme'' ''db-0'' ''prod'' [17, 18] mixed_cluster in
    None \<notin> set es \<and> (\<forall>t \<in> {17, 18}. \<exists>pvc. GetPVC cluster_client c' ''prod'' (newPVCName ''data-pvc'' t 0) = Inr pvc)"
proof -
  have "GetPVC cluster_client mixed_cluster ''prod'' (newPVCName ''data-pvc'' t 0) \<noteq> Inr p" for t p
    by (auto simp: cluster_client_def mixed_cluster_def storage_pvc_def newPVCName_def)
  with migrate_retries_pile_up_claims [OF cluster_retry.kube_retry_axioms mixed_half_done, of "[17, 18]"]
  show ?thesis by auto
qed

end
