(* ===== verification/EvictTaint.thy ===== *)
theory EvictTaint
  imports Kube
begin

text \<open>
  \<open>operator/pkg/action/evict_and_taint.go\<close>: taint the node of a saturated pod, unless it carries the taint
  already, and evict the pod.
\<close>

section \<open>The taints of the node\<close>

definition DefaultTaintKey :: string where
  "DefaultTaintKey = ''autoremediation.tfg.local/saturation''"

definition expired :: "int option \<Rightarrow> int \<Rightarrow> Taint \<Rightarrow> bool" where
  "expired dur now t =
     (case dur of None \<Rightarrow> False
      | Some d \<Rightarrow> (case TimeAdded t of None \<Rightarrow> False | Some added \<Rightarrow> time_sub now added \<ge> d))"

text \<open>The loop over the taints: those kept, and whether ours is among them.\<close>

fun prune :: "string \<Rightarrow> int option \<Rightarrow> int \<Rightarrow> Taint list \<Rightarrow> Taint list \<times> bool" where
  "prune key dur now [] = ([], False)"
| "prune key dur now (t # ts) =
     (case prune key dur now ts of (pruned, present) \<Rightarrow>
        if TKey t = key then
          if expired dur now t then (pruned, present) else (t # pruned, True)
        else (t # pruned, present))"

definition new_taint :: "string \<Rightarrow> int \<Rightarrow> Taint" where
  "new_taint key now = \<lparr>TKey = key, TValue = ''true'', TEffect = ''NoSchedule'', TimeAdded = Some now\<rparr>"

definition taints_after :: "string \<Rightarrow> int option \<Rightarrow> int \<Rightarrow> Taint list \<Rightarrow> Taint list" where
  "taints_after key dur now ts =
     (case prune key dur now ts of (pruned, present) \<Rightarrow>
        if present then pruned else pruned @ [new_taint key now])"

fun equalTaints :: "Taint list \<Rightarrow> Taint list \<Rightarrow> bool" where
  "equalTaints [] [] = True"
| "equalTaints (a # as) (b # bs) =
     (TKey a = TKey b \<and> TValue a = TValue b \<and> TEffect a = TEffect b \<and> equalTaints as bs)"
| "equalTaints _ _ = False"

section \<open>The action\<close>

record EvictAndTaintAction =
  ea_TaintKey :: string
  ea_TaintDuration :: "int option"

definition NewEvictAndTaintAction :: "int option \<Rightarrow> EvictAndTaintAction" where
  "NewEvictAndTaintAction duration = \<lparr>ea_TaintKey = DefaultTaintKey, ea_TaintDuration = duration\<rparr>"

definition NewEvictAndTaintActionWithKey :: "string \<Rightarrow> int option \<Rightarrow> EvictAndTaintAction" where
  "NewEvictAndTaintActionWithKey key duration =
     \<lparr>ea_TaintKey = (if key = '''' then DefaultTaintKey else key), ea_TaintDuration = duration\<rparr>"

definition evict_execute ::
  "'c kclient \<Rightarrow> EvictAndTaintAction \<Rightarrow> string \<Rightarrow> string \<Rightarrow> 'c \<Rightarrow> string option \<times> 'c" where
  "evict_execute kc a podName namespace c =
     (case GetPod kc c namespace podName of
        Inl e \<Rightarrow> (Some (''failed to get pod: '' @ kmsg e), c)
      | Inr pod \<Rightarrow>
          if NodeName pod = '''' then (Some ''pod is not scheduled to a node, skipping'', c)
          else
            (case GetNode kc c (NodeName pod) of
               Inl e \<Rightarrow> (Some (''failed to get node: '' @ kmsg e), c)
             | Inr node \<Rightarrow>
                 let taints = taints_after (ea_TaintKey a) (ea_TaintDuration a) (Now kc c) (Taints node);
                     (err, c1) =
                       (if equalTaints (Taints node) taints then (None, c)
                        else PatchNode kc node (node\<lparr>Taints := taints\<rparr>) c)
                 in case err of
                      Some e \<Rightarrow> (Some (''failed to update node taints: '' @ kmsg e), c1)
                    | None \<Rightarrow>
                        (case EvictPod kc pod c1 of
                           (Some e, c2) \<Rightarrow> (Some (''failed to evict pod: '' @ kmsg e), c2)
                         | (None, c2) \<Rightarrow> (None, c2))))"

section \<open>Lemmas\<close>

lemma prune_filter:
  "prune key dur now ts =
     (filter (\<lambda>t. TKey t \<noteq> key \<or> \<not> expired dur now t) ts,
      \<exists>t \<in> set ts. TKey t = key \<and> \<not> expired dur now t)"
  by (induction ts) auto

lemma taints_after_others:
  "filter (\<lambda>t. TKey t \<noteq> key) (taints_after key dur now ts) = filter (\<lambda>t. TKey t \<noteq> key) ts"
  by (auto simp: taints_after_def prune_filter new_taint_def intro: filter_cong)

lemma taints_after_ours:
  "if \<exists>t \<in> set ts. TKey t = key \<and> \<not> expired dur now t
   then filter (\<lambda>t. TKey t = key) (taints_after key dur now ts) =
        filter (\<lambda>t. TKey t = key \<and> \<not> expired dur now t) ts
   else filter (\<lambda>t. TKey t = key) (taints_after key dur now ts) = [new_taint key now]"
  by (auto simp: taints_after_def prune_filter new_taint_def filter_empty_conv intro: filter_cong)

lemma equalTaints_keys: "equalTaints a b \<Longrightarrow> map TKey a = map TKey b"
  by (induction a b rule: equalTaints.induct) simp_all

lemma equalTaints_refl: "equalTaints a a"
  by (induction a) simp_all

lemma equalTaints_append: "equalTaints (a @ [x]) (a @ [y]) \<longleftrightarrow>
  TKey x = TKey y \<and> TValue x = TValue y \<and> TEffect x = TEffect y"
  by (induction a) simp_all

lemma taints_after_has: "\<exists>t \<in> set (taints_after key dur now ts). TKey t = key"
  by (auto simp: taints_after_def prune_filter new_taint_def)

lemma has_key_map: "(\<exists>t \<in> set ts. TKey t = key) \<longleftrightarrow> key \<in> set (map TKey ts)"
  by auto

text \<open>The node a successful run leaves: the old one when the taints compare equal, else the new taints.\<close>

lemma evict_success:
  assumes "kube_nodes kc"
    and "GetPod kc c namespace podName = Inr pod" and "GetNode kc c (NodeName pod) = Inr node"
    and "evict_execute kc a podName namespace c = (None, c')"
  defines "ts \<equiv> taints_after (ea_TaintKey a) (ea_TaintDuration a) (Now kc c) (Taints node)"
  shows "GetNode kc c' (NodeName pod) =
      Inr (if equalTaints (Taints node) ts then node else stored_node (node\<lparr>Taints := ts\<rparr>))"
    and "\<exists>c1. EvictPod kc pod c1 = (None, c')"
proof -
  obtain err c1 where p: "(if equalTaints (Taints node) ts then (None, c)
      else PatchNode kc node (node\<lparr>Taints := ts\<rparr>) c) = (err, c1)" by fastforce
  from assms(4) p have err: "err = None" and ev: "EvictPod kc pod c1 = (None, c')"
    by (auto simp: evict_execute_def assms(2,3) ts_def Let_def split: if_splits option.splits prod.splits)
  have id: "NodeId node = NodeName pod" by (rule kube_nodes.get_node_id [OF assms(1,3)])
  have "GetNode kc c1 (NodeName pod) =
      Inr (if equalTaints (Taints node) ts then node else stored_node (node\<lparr>Taints := ts\<rparr>))"
  proof (cases "equalTaints (Taints node) ts")
    case True
    with p assms(3) show ?thesis by simp
  next
    case False
    with p err have "PatchNode kc node (node\<lparr>Taints := ts\<rparr>) c = (None, c1)" by simp
    from kube_nodes.patch_node [OF assms(1) this] assms(3) False show ?thesis by (simp add: id)
  qed
  with kube_nodes.evict_nodes [OF assms(1), of pod c1 "NodeName pod"] ev
  show "GetNode kc c' (NodeName pod) =
      Inr (if equalTaints (Taints node) ts then node else stored_node (node\<lparr>Taints := ts\<rparr>))"
    by simp
  from ev show "\<exists>c1. EvictPod kc pod c1 = (None, c')" by blast
qed

section \<open>Properties\<close>

definition demo_taint :: "string \<Rightarrow> int \<Rightarrow> Taint" where
  "demo_taint key secs =
     \<lparr>TKey = key, TValue = ''true'', TEffect = ''NoSchedule'', TimeAdded = Some (secs * 1000000000)\<rparr>"

lemma stored_demo_taint [simp]: "stored_taint (demo_taint key secs) = demo_taint key secs"
  by (simp add: stored_taint_def demo_taint_def)

definition demo_pod :: Pod where
  "demo_pod = \<lparr>PodName = ''db-0'', PodNamespace = ''prod'', UID = ''u-1'', NodeName = ''node-1'',
     PodOwners = [\<lparr>OwnerKind = ''ReplicaSet'', OwnerName = ''db-rs''\<rparr>], Containers = []\<rparr>"

definition demo_cluster :: "Taint list \<Rightarrow> cluster" where
  "demo_cluster ts = \<lparr>c_pods = [demo_pod], c_nodes = [\<lparr>NodeId = ''node-1'', Taints = ts\<rparr>], c_classes = [],
     c_replicasets = [], c_deployments = [], c_claims = [], c_evicted = [], c_time = 1000000000000\<rparr>"

lemma demo_get:
  "GetPod cluster_client (demo_cluster ts) ''prod'' ''db-0'' = Inr demo_pod"
  "map stored_taint ts = ts \<Longrightarrow>
   GetNode cluster_client (demo_cluster ts) (NodeName demo_pod) = Inr \<lparr>NodeId = ''node-1'', Taints = ts\<rparr>"
  by (simp_all add: cluster_client_def demo_cluster_def demo_pod_def stored_node_def)

text \<open>
  C30: when the action succeeds, the pod's eviction has been accepted and the node carries a taint with
  the action's key; the taints with other keys are those it had, in the same order.
\<close>

theorem evict_leaves_node_tainted:
  assumes "kube_nodes kc"
    and "GetPod kc c namespace podName = Inr pod" and "GetNode kc c (NodeName pod) = Inr node"
    and "evict_execute kc a podName namespace c = (None, c')"
  shows "(\<exists>c1. EvictPod kc pod c1 = (None, c')) \<and>
    (\<exists>node'. GetNode kc c' (NodeName pod) = Inr node' \<and>
       (\<exists>t \<in> set (Taints node'). TKey t = ea_TaintKey a) \<and>
       filter (\<lambda>t. TKey t \<noteq> ea_TaintKey a) (Taints node') = filter (\<lambda>t. TKey t \<noteq> ea_TaintKey a) (Taints node))"
proof -
  let ?ts = "taints_after (ea_TaintKey a) (ea_TaintDuration a) (Now kc c) (Taints node)"
  let ?node = "if equalTaints (Taints node) ?ts then node else stored_node (node\<lparr>Taints := ?ts\<rparr>)"
  have stored: "map stored_taint (Taints node) = Taints node"
    using kube_nodes.get_node_stored [OF assms(1,3)] by (metis stored_node_simps(2))
  have "filter (\<lambda>t. TKey t \<noteq> ea_TaintKey a) (map stored_taint ?ts) =
      map stored_taint (filter (\<lambda>t. TKey t \<noteq> ea_TaintKey a) (Taints node))"
    by (simp add: filter_map comp_def taints_after_others)
  also have "\<dots> = filter (\<lambda>t. TKey t \<noteq> ea_TaintKey a) (map stored_taint (Taints node))"
    by (simp add: filter_map comp_def)
  finally have others: "filter (\<lambda>t. TKey t \<noteq> ea_TaintKey a) (map stored_taint ?ts) =
      filter (\<lambda>t. TKey t \<noteq> ea_TaintKey a) (Taints node)" unfolding stored .
  have "\<exists>t \<in> set (Taints ?node). TKey t = ea_TaintKey a"
  proof (cases "equalTaints (Taints node) ?ts")
    case True
    then show ?thesis
      using taints_after_has [of "ea_TaintKey a" "ea_TaintDuration a" "Now kc c" "Taints node"]
      unfolding has_key_map equalTaints_keys [OF True, symmetric] by simp
  qed (simp add: taints_after_has)
  moreover have "filter (\<lambda>t. TKey t \<noteq> ea_TaintKey a) (Taints ?node) =
      filter (\<lambda>t. TKey t \<noteq> ea_TaintKey a) (Taints node)"
    by (simp add: others)
  ultimately show ?thesis using evict_success [OF assms] by blast
qed

theorem evict_leaves_node_tainted_witness:
  "\<exists>node'. GetNode cluster_client
      (snd (evict_execute cluster_client (NewEvictAndTaintAction None) ''db-0'' ''prod''
         (demo_cluster [demo_taint ''gpu'' 1]))) ''node-1'' = Inr node' \<and>
    (\<exists>t \<in> set (Taints node'). TKey t = DefaultTaintKey) \<and>
    filter (\<lambda>t. TKey t \<noteq> DefaultTaintKey) (Taints node') = [demo_taint ''gpu'' 1]"
proof -
  let ?c = "demo_cluster [demo_taint ''gpu'' 1]"
  let ?run = "evict_execute cluster_client (NewEvictAndTaintAction None) ''db-0'' ''prod'' ?c"
  have "fst ?run = None"
    by (simp add: evict_execute_def demo_get NewEvictAndTaintAction_def stored_node_def taints_after_def demo_pod_def
        demo_taint_def DefaultTaintKey_def new_taint_def cluster_client_def demo_cluster_def)
  then have "?run = (None, snd ?run)" by (cases ?run) simp
  from evict_leaves_node_tainted [OF cluster_nodes.kube_nodes_axioms demo_get(1) demo_get(2) this]
  show ?thesis
    by (simp add: NewEvictAndTaintAction_def demo_taint_def DefaultTaintKey_def demo_pod_def stored_taint_def)
qed

text \<open>
  C31: an expired taint of ours that stands last on the node, with the value and effect we give it, is
  dropped and appended again with a new time; since the comparison ignores times, no patch is sent.
  The node keeps the old, expired taint whatever the action returns: the time is never renewed.
\<close>

theorem expired_taint_not_renewed:
  assumes "kube_nodes kc"
    and "GetPod kc c namespace podName = Inr pod" and "GetNode kc c (NodeName pod) = Inr node"
    and "Taints node = ts @ [old]" and "\<forall>t \<in> set ts. TKey t \<noteq> ea_TaintKey a"
    and "old = \<lparr>TKey = ea_TaintKey a, TValue = ''true'', TEffect = ''NoSchedule'', TimeAdded = Some added\<rparr>"
    and "ea_TaintDuration a = Some d" and "d \<le> time_sub (Now kc c) added"
  shows "GetNode kc (snd (evict_execute kc a podName namespace c)) (NodeName pod) = Inr node"
proof -
  have old: "expired (ea_TaintDuration a) (Now kc c) old" using assms(6-8) by (simp add: expired_def)
  have "prune (ea_TaintKey a) (ea_TaintDuration a) (Now kc c) (Taints node) = (ts, False)"
    using assms(4-6) old by (auto simp: prune_filter)
  then have "equalTaints (Taints node)
      (taints_after (ea_TaintKey a) (ea_TaintDuration a) (Now kc c) (Taints node))"
    using assms(4,6) by (simp add: taints_after_def equalTaints_append new_taint_def)
  then show ?thesis
    using kube_nodes.evict_nodes [OF assms(1), of pod c "NodeName pod"] assms(3)
    by (cases "NodeName pod = ''''"; cases "EvictPod kc pod c"; cases "fst (EvictPod kc pod c)")
      (simp_all add: evict_execute_def assms(2,3))
qed

theorem expired_taint_not_renewed_witness:
  "GetNode cluster_client
     (snd (evict_execute cluster_client (NewEvictAndTaintAction (Some 300000000000)) ''db-0'' ''prod''
        (demo_cluster [demo_taint ''gpu'' 1, demo_taint DefaultTaintKey 600]))) ''node-1'' =
   Inr \<lparr>NodeId = ''node-1'', Taints = [demo_taint ''gpu'' 1, demo_taint DefaultTaintKey 600]\<rparr>"
proof -
  let ?c = "demo_cluster [demo_taint ''gpu'' 1, demo_taint DefaultTaintKey 600]"
  have "300000000000 \<le> time_sub (Now cluster_client ?c) 600000000000"
    by (simp add: time_sub_def cluster_client_def demo_cluster_def)
  from expired_taint_not_renewed [OF cluster_nodes.kube_nodes_axioms demo_get(1) demo_get(2), where
      ts = "[demo_taint ''gpu'' 1]" and old = "demo_taint DefaultTaintKey 600" and
      a = "NewEvictAndTaintAction (Some 300000000000)", OF _ _ _ _ _ this]
  show ?thesis
    by (simp add: NewEvictAndTaintAction_def demo_taint_def DefaultTaintKey_def demo_pod_def stored_taint_def)
qed

end
