(* ===== verification/ScaleUp.thy ===== *)
theory ScaleUp
  imports Kube "HOL-Library.Signed_Division"
begin

text \<open>
  \<open>operator/pkg/action/scale_up.go\<close>: raise the CPU limit of the containers of a saturated pod by a
  percentage, up to a maximum, and fall back to another action when none can be raised. \<open>int64\<close>
  arithmetic wraps; division truncates.
\<close>

definition wrap64 :: "int \<Rightarrow> int" where
  "wrap64 n = signed_take_bit 63 n"

lemma wrap64_id: "- (2 ^ 63) \<le> n \<Longrightarrow> n < 2 ^ 63 \<Longrightarrow> wrap64 n = n"
  by (simp add: wrap64_def signed_take_bit_int_eq_self)

section \<open>One container\<close>

text \<open>The baseline: the limit, else the request.\<close>

definition baseline :: "Container \<Rightarrow> millis option" where
  "baseline ct =
     (case (case Limits ct of Some l \<Rightarrow> l ''cpu'' | None \<Rightarrow> None) of
        Some q \<Rightarrow> Some q
      | None \<Rightarrow> Requests ct ''cpu'')"

definition step_millis :: "millis \<Rightarrow> int \<Rightarrow> int" where
  "step_millis cur percent =
     (let s = wrap64 (cur * percent) sdiv 100 in if s < 10 then 10 else s)"

definition new_millis :: "millis \<Rightarrow> millis \<Rightarrow> int \<Rightarrow> millis" where
  "new_millis maxm cur percent =
     (let n = wrap64 (cur + step_millis cur percent) in if n \<ge> maxm then maxm else n)"

text \<open>The variables of the loop: the containers done, \<open>changed\<close>, \<open>anyHeadroom\<close>.\<close>

record scaling =
  done_containers :: "Container list"
  changed :: bool
  anyHeadroom :: bool

definition scale_container :: "millis \<Rightarrow> int \<Rightarrow> Container \<Rightarrow> scaling \<Rightarrow> scaling" where
  "scale_container maxm percent ct s =
     (case baseline ct of
        None \<Rightarrow> s\<lparr>done_containers := done_containers s @ [ct]\<rparr>
      | Some cur \<Rightarrow>
          if cur \<ge> maxm then s\<lparr>done_containers := done_containers s @ [ct]\<rparr>
          else
            s\<lparr>anyHeadroom := True,
              done_containers := done_containers s @
                [ct\<lparr>Limits := Some ((case Limits ct of None \<Rightarrow> Map.empty | Some l \<Rightarrow> l)
                       (''cpu'' \<mapsto> new_millis maxm cur percent))\<rparr>],
              changed := True\<rparr>)"

definition scale_containers :: "millis \<Rightarrow> int \<Rightarrow> Container list \<Rightarrow> scaling" where
  "scale_containers maxm percent cts =
     fold (scale_container maxm percent) cts
       \<lparr>done_containers = [], changed = False, anyHeadroom = False\<rparr>"

section \<open>The action\<close>

text \<open>\<open>fallback\<close>: what the fallback action does with the pod, if there is one.\<close>

definition scale_execute ::
  "'c kclient \<Rightarrow> (string \<Rightarrow> string + millis) \<Rightarrow> int \<Rightarrow> string \<Rightarrow>
   (string \<Rightarrow> string \<Rightarrow> 'c \<Rightarrow> string option \<times> 'c) option \<Rightarrow> string \<Rightarrow> string \<Rightarrow> 'c \<Rightarrow>
   string option \<times> 'c" where
  \<comment> \<open>\<open>parse\<close>: \<open>resource.ParseQuantity\<close>, then \<open>MilliValue\<close>\<close>
  "scale_execute kc parse percent maxLimit fallback podName namespace c =
     (case GetPod kc c namespace podName of
        Inl e \<Rightarrow> (Some (''failed to get pod '' @ podName @ '': '' @ kmsg e), c)
      | Inr pod \<Rightarrow>
          (case parse maxLimit of
             Inl e \<Rightarrow> (Some (''failed to parse max CPU limit: '' @ e), c)
           | Inr maxm \<Rightarrow>
               let s = scale_containers maxm percent (Containers pod)
               in if changed s then
                    (case ResizePod kc pod (pod\<lparr>Containers := done_containers s\<rparr>) c of
                       (Some e, c') \<Rightarrow>
                         (Some (''failed to apply resize patch (requires K8s >= 1.27 with InPlacePodVerticalScaling): '' @ kmsg e), c')
                     | (None, c') \<Rightarrow> (None, c'))
                  else if \<not> anyHeadroom s then
                    (case fallback of
                       Some act \<Rightarrow> act podName namespace c
                     | None \<Rightarrow> (Some ''max CPU limit reached and no fallback action configured'', c))
                  else (None, c)))"

section \<open>Lemmas\<close>

definition has_headroom :: "millis \<Rightarrow> Container \<Rightarrow> bool" where
  "has_headroom maxm ct \<longleftrightarrow> (case baseline ct of None \<Rightarrow> False | Some cur \<Rightarrow> cur < maxm)"

text \<open>What becomes of one container.\<close>

definition scaled :: "millis \<Rightarrow> int \<Rightarrow> Container \<Rightarrow> Container" where
  "scaled maxm percent ct = hd (done_containers (scale_containers maxm percent [ct]))"

lemma scaled_cases:
  "scaled maxm percent ct =
     (case baseline ct of None \<Rightarrow> ct
      | Some cur \<Rightarrow> if cur \<ge> maxm then ct
          else ct\<lparr>Limits := Some ((case Limits ct of None \<Rightarrow> Map.empty | Some l \<Rightarrow> l)
                 (''cpu'' \<mapsto> new_millis maxm cur percent))\<rparr>)"
  by (simp add: scaled_def scale_containers_def scale_container_def split: option.splits)

lemma scale_containers_eq:
  "scale_containers maxm percent cts =
     \<lparr>done_containers = map (scaled maxm percent) cts, changed = (\<exists>ct \<in> set cts. has_headroom maxm ct),
      anyHeadroom = (\<exists>ct \<in> set cts. has_headroom maxm ct)\<rparr>"
proof (induction cts rule: rev_induct)
  case Nil
  then show ?case by (simp add: scale_containers_def)
next
  case (snoc ct cts)
  have "scale_containers maxm percent (cts @ [ct]) =
      scale_container maxm percent ct (scale_containers maxm percent cts)"
    by (simp add: scale_containers_def)
  with snoc show ?case
    by (auto simp: scale_container_def scaled_cases has_headroom_def split: option.splits)
qed

lemma step_range:
  assumes "0 \<le> cur" and "0 \<le> percent" and "cur * percent < 2 ^ 63"
  shows "step_millis cur percent = max 10 (cur * percent div 100)"
proof -
  have "0 \<le> cur * percent" using assms by simp
  then have w: "wrap64 (cur * percent) = cur * percent" using assms(3) by (intro wrap64_id) simp_all
  have "cur * percent sdiv 100 = cur * percent div 100"
    using \<open>0 \<le> cur * percent\<close> by (simp add: signed_divide_int_def sgn_if)
  with w show ?thesis by (simp add: step_millis_def Let_def max_def)
qed

lemma new_range:
  assumes "0 \<le> cur" and "cur < maxm" and "0 \<le> percent" and "cur * percent < 2 ^ 63"
    and "maxm < 2 ^ 62"
  shows "new_millis maxm cur percent = min maxm (cur + max 10 (cur * percent div 100))"
proof -
  have "cur * percent div 100 < 2 ^ 57 * 2" using assms(4) by simp
  moreover have "0 \<le> cur * percent div 100" using assms by (simp add: pos_imp_zdiv_nonneg_iff)
  ultimately have "wrap64 (cur + max 10 (cur * percent div 100)) = cur + max 10 (cur * percent div 100)"
    using assms by (intro wrap64_id) auto
  then show ?thesis
    unfolding new_millis_def Let_def step_range [OF assms(1,3,4)] by (simp add: min_def)
qed

text \<open>
  The two flags of the loop are always equal, so the last branch of the action is never taken: a pod
  with a container below the maximum is resized, any other goes to the fallback.
\<close>

lemma scale_execute_eq:
  assumes "GetPod kc c namespace podName = Inr pod" and "parse maxLimit = Inr maxm"
  shows "scale_execute kc parse percent maxLimit fallback podName namespace c =
    (if \<exists>ct \<in> set (Containers pod). has_headroom maxm ct then
       (case ResizePod kc pod (pod\<lparr>Containers := map (scaled maxm percent) (Containers pod)\<rparr>) c of
          (e, c') \<Rightarrow> (map_option (\<lambda>e. ''failed to apply resize patch (requires K8s >= 1.27 with InPlacePodVerticalScaling): '' @ kmsg e) e, c'))
     else
       (case fallback of
          Some act \<Rightarrow> act podName namespace c
        | None \<Rightarrow> (Some ''max CPU limit reached and no fallback action configured'', c)))"
  using assms by (auto simp: scale_execute_def scale_containers_eq Let_def split: prod.splits option.splits)

text \<open>A container whose numbers stay within \<open>int64\<close>.\<close>

definition in_range :: "millis \<Rightarrow> int \<Rightarrow> Container \<Rightarrow> bool" where
  "in_range maxm percent ct \<longleftrightarrow> 0 \<le> percent \<and> maxm < 2 ^ 62 \<and> maxm * percent < 2 ^ 63 \<and>
     (case baseline ct of None \<Rightarrow> True | Some cur \<Rightarrow> 0 \<le> cur)"

lemma in_range_product:
  assumes "in_range maxm percent ct" and "baseline ct = Some cur" and "cur < maxm"
  shows "0 \<le> cur" and "0 \<le> percent" and "cur * percent < 2 ^ 63" and "maxm < 2 ^ 62"
proof -
  show "0 \<le> cur" "0 \<le> percent" "maxm < 2 ^ 62" using assms by (simp_all add: in_range_def)
  have "cur * percent \<le> maxm * percent"
    using assms by (intro mult_right_mono) (simp_all add: in_range_def)
  then show "cur * percent < 2 ^ 63" using assms(1) by (simp add: in_range_def)
qed

lemma baseline_scaled:
  assumes "in_range maxm percent ct" and "baseline ct = Some cur" and "cur < maxm"
  shows "baseline (scaled maxm percent ct) = Some (min maxm (cur + max 10 (cur * percent div 100)))"
  using new_range [OF in_range_product(1) [OF assms] assms(3) in_range_product(2-4) [OF assms]] assms(2,3)
  by (simp add: scaled_cases baseline_def split: option.splits)

lemma baseline_scaled_top:
  "baseline ct = Some cur \<Longrightarrow> maxm \<le> cur \<Longrightarrow> scaled maxm percent ct = ct"
  by (simp add: scaled_cases)

section \<open>Properties\<close>

definition demo_container :: "millis \<Rightarrow> Container" where
  "demo_container cur = \<lparr>CName = ''db'', Limits = Some [''cpu'' \<mapsto> cur, ''memory'' \<mapsto> 512000],
     Requests = Map.empty, VolumeMounts = []\<rparr>"

text \<open>
  C33: as long as the numbers fit \<open>int64\<close>, every container keeps its place and all its fields but the
  CPU limit. A container below the maximum gets its baseline plus the percentage, at least ten
  millicores more, cut at the maximum: strictly above the baseline, never above the maximum. A
  container at or above the maximum, or with neither limit nor request, is left as it is.
\<close>

theorem scale_limits_bounded:
  assumes "\<forall>ct \<in> set cts. in_range maxm percent ct" and "i < length cts"
    and "ct = cts ! i" and "ct' = done_containers (scale_containers maxm percent cts) ! i"
  shows "length (done_containers (scale_containers maxm percent cts)) = length cts \<and>
    CName ct' = CName ct \<and> Requests ct' = Requests ct \<and> VolumeMounts ct' = VolumeMounts ct \<and>
    (\<forall>r. r \<noteq> ''cpu'' \<longrightarrow> (case Limits ct' of None \<Rightarrow> None | Some l \<Rightarrow> l r) =
       (case Limits ct of None \<Rightarrow> None | Some l \<Rightarrow> l r)) \<and>
    (if has_headroom maxm ct
     then \<exists>cur new. baseline ct = Some cur \<and> baseline ct' = Some new \<and>
       new = min maxm (cur + max 10 (cur * percent div 100)) \<and> cur < new \<and> new \<le> maxm
     else ct' = ct)"
proof -
  have ct': "ct' = scaled maxm percent ct" using assms(2-4) by (simp add: scale_containers_eq)
  have len: "length (done_containers (scale_containers maxm percent cts)) = length cts"
    by (simp add: scale_containers_eq)
  show ?thesis
  proof (cases "has_headroom maxm ct")
    case True
    then obtain cur where cur: "baseline ct = Some cur" "cur < maxm"
      by (auto simp: has_headroom_def split: option.splits)
    moreover have "in_range maxm percent ct" using assms(1-3) by simp
    ultimately have "baseline ct' = Some (min maxm (cur + max 10 (cur * percent div 100)))"
      unfolding ct' by (intro baseline_scaled)
    with True cur len show ?thesis by (auto simp: ct' scaled_cases split: option.splits)
  next
    case False
    then have "ct' = ct" by (auto simp: ct' scaled_cases has_headroom_def split: option.splits)
    with False len show ?thesis by simp
  qed
qed

lemma demo_in_range: "\<forall>ct \<in> set [demo_container 990]. in_range 1000 20 ct"
  by (simp add: in_range_def baseline_def demo_container_def)

theorem scale_limits_bounded_witness:
  "\<exists>cur new. baseline (demo_container 990) = Some cur \<and>
    baseline (done_containers (scale_containers 1000 20 [demo_container 990]) ! 0) = Some new \<and>
    cur < new \<and> new \<le> 1000"
proof -
  have "has_headroom 1000 (demo_container 990)"
    by (simp add: has_headroom_def baseline_def demo_container_def)
  then show ?thesis
    using scale_limits_bounded [OF demo_in_range _ HOL.refl HOL.refl, of 0] by auto
qed

text \<open>Repeated rounds add at least ten millicores each, so they reach the maximum.\<close>

lemma rounds_reach:
  assumes "in_range maxm percent ct" and "baseline ct = Some cur"
  shows "\<exists>q. baseline ((scaled maxm percent ^^ n) ct) = Some q \<and> min maxm (cur + 10 * int n) \<le> q \<and>
    in_range maxm percent ((scaled maxm percent ^^ n) ct)"
proof (induction n)
  case 0
  then show ?case using assms by auto
next
  case (Suc n)
  then obtain q where q: "baseline ((scaled maxm percent ^^ n) ct) = Some q" "min maxm (cur + 10 * int n) \<le> q"
    "in_range maxm percent ((scaled maxm percent ^^ n) ct)" by blast
  show ?case
  proof (cases "q < maxm")
    case True
    from baseline_scaled [OF q(3,1) True] in_range_product(1) [OF q(3,1) True] q True show ?thesis
      by (auto simp: in_range_def)
  next
    case False
    with q baseline_scaled_top [OF q(1), of maxm percent] show ?thesis by auto
  qed
qed

text \<open>
  Whatever the starting limits, once a pod whose containers all have a limit or a
  request has gone through as many rounds as tens of millicores fit in the maximum, plus one, no
  container has headroom left, and from then on the action does exactly what its fallback does.
\<close>

lemma scale_up_reaches_fallback:
  assumes "\<forall>ct \<in> set cts. in_range maxm percent ct \<and> baseline ct \<noteq> None"
    and "maxm \<le> 10 * int n"
    and "GetPod kc c namespace podName = Inr pod"
    and "Containers pod = map (scaled maxm percent ^^ n) cts"
    and "parse maxLimit = Inr maxm"
  shows "scale_execute kc parse percent maxLimit (Some fallback) podName namespace c =
    fallback podName namespace c"
proof -
  have "\<not> has_headroom maxm ((scaled maxm percent ^^ n) ct)" if ct: "ct \<in> set cts" for ct
  proof -
    from assms(1) ct obtain cur where cur: "in_range maxm percent ct" "baseline ct = Some cur" by auto
    from rounds_reach [OF this, of n] obtain q where
      "baseline ((scaled maxm percent ^^ n) ct) = Some q" "min maxm (cur + 10 * int n) \<le> q" by blast
    moreover have "0 \<le> cur" using cur by (simp add: in_range_def)
    ultimately show ?thesis using assms(2) by (auto simp: has_headroom_def)
  qed
  then have "\<not> (\<exists>ct \<in> set (Containers pod). has_headroom maxm ct)" using assms(4) by simp
  then show ?thesis
    unfolding scale_execute_eq [where parse = parse and maxLimit = maxLimit, OF assms(3,5)] by simp
qed

definition scaled_pod :: Pod where
  "scaled_pod = \<lparr>PodName = ''db-0'', PodNamespace = ''prod'', UID = ''u-1'', NodeName = ''node-1'',
     PodOwners = [], Containers = map (scaled 1000 20 ^^ 100) [demo_container 500]\<rparr>"

lemma scale_up_reaches_fallback_witness:
  "scale_execute cluster_client (\<lambda>_. Inr 1000) 20 ''1'' (Some (\<lambda>p ns c. (Some ''fallback'', c))) ''db-0'' ''prod''
     \<lparr>c_pods = [scaled_pod], c_nodes = [], c_classes = [], c_replicasets = [], c_deployments = [],
      c_claims = [], c_evicted = [], c_time = 0\<rparr> =
   (Some ''fallback'',
     \<lparr>c_pods = [scaled_pod], c_nodes = [], c_classes = [], c_replicasets = [], c_deployments = [],
      c_claims = [], c_evicted = [], c_time = 0\<rparr>)"
proof (rule scale_up_reaches_fallback [where pod = scaled_pod and n = 100 and cts = "[demo_container 500]" and
      maxm = 1000])
  show "\<forall>ct \<in> set [demo_container 500]. in_range 1000 20 ct \<and> baseline ct \<noteq> None"
    by (simp add: in_range_def baseline_def demo_container_def)
qed (simp_all add: cluster_client_def scaled_pod_def)

text \<open>What a sequence of rounds on the same pod does: the state before round \<open>k\<close>.\<close>

definition scale_rounds ::
  "'c kclient \<Rightarrow> (string \<Rightarrow> string + millis) \<Rightarrow> int \<Rightarrow> string \<Rightarrow>
   (string \<Rightarrow> string \<Rightarrow> 'c \<Rightarrow> string option \<times> 'c) \<Rightarrow> string \<Rightarrow> string \<Rightarrow> nat \<Rightarrow> 'c \<Rightarrow> 'c" where
  "scale_rounds kc parse percent maxLimit fallback podName namespace k =
     (\<lambda>c. snd (scale_execute kc parse percent maxLimit (Some fallback) podName namespace c)) ^^ k"

lemma scaled_once: "map (scaled maxm percent) (map (scaled maxm percent ^^ k) cts) = map (scaled maxm percent ^^ Suc k) cts"
  by simp

lemma rounds_exhaust:
  assumes "in_range maxm percent ct" and "maxm \<le> 10 * int n"
  shows "\<not> has_headroom maxm ((scaled maxm percent ^^ n) ct)"
proof (cases "baseline ct")
  case None
  then have "scaled maxm percent ct = ct" by (simp add: scaled_cases)
  then have "(scaled maxm percent ^^ n) ct = ct" by (induction n) simp_all
  with None show ?thesis by (simp add: has_headroom_def)
next
  case (Some cur)
  from rounds_reach [OF assms(1) this, of n] obtain q where
    "baseline ((scaled maxm percent ^^ n) ct) = Some q" "min maxm (cur + 10 * int n) \<le> q" by blast
  moreover have "0 \<le> cur" using assms(1) Some by (simp add: in_range_def)
  ultimately show ?thesis using assms(2) by (auto simp: has_headroom_def)
qed

text \<open>As long as no round fails or falls back, the pod is the one scaled so many times.\<close>

lemma rounds_pod:
  assumes "kube_pods kc" and "GetPod kc c namespace podName = Inr pod" and "parse maxLimit = Inr maxm"
    and st: "\<And>k. st k = scale_rounds kc parse percent maxLimit fallback podName namespace k c"
    and calm: "\<And>k. k < n \<Longrightarrow>
      fst (scale_execute kc parse percent maxLimit (Some fallback) podName namespace (st k)) = None \<and>
      scale_execute kc parse percent maxLimit (Some fallback) podName namespace (st k) \<noteq> fallback podName namespace (st k)"
  shows "k \<le> n \<Longrightarrow> GetPod kc (st k) namespace podName =
    Inr (pod\<lparr>Containers := map (scaled maxm percent ^^ k) (Containers pod)\<rparr>)"
proof (induction k)
  case 0
  then show ?case using assms(2) by (simp add: st scale_rounds_def)
next
  case (Suc k)
  let ?pod = "pod\<lparr>Containers := map (scaled maxm percent ^^ k) (Containers pod)\<rparr>"
  let ?new = "?pod\<lparr>Containers := map (scaled maxm percent) (Containers ?pod)\<rparr>"
  from Suc have pod: "GetPod kc (st k) namespace podName = Inr ?pod" by simp
  note eq = scale_execute_eq [where parse = parse and maxLimit = maxLimit, OF pod assms(3), of percent "Some fallback"]
  have head: "\<exists>ct \<in> set (Containers ?pod). has_headroom maxm ct"
    using calm [of k] Suc.prems eq by (auto split: if_splits)
  obtain e c' where r: "ResizePod kc ?pod ?new (st k) = (e, c')" by fastforce
  have e: "e = None" using calm [of k] Suc.prems eq head r by simp
  have "st (Suc k) = c'" using eq head r by (simp add: st scale_rounds_def)
  moreover have "GetPod kc (st k) (PodNamespace ?new) (PodName ?new) = Inr ?pod"
    using pod kube_pods.get_pod_id [OF assms(1) assms(2)] by simp
  ultimately have "GetPod kc (st (Suc k)) namespace podName = Inr ?new"
    using kube_pods.resize_pod [OF assms(1) r [unfolded e]] kube_pods.get_pod_id [OF assms(1) assms(2)] by simp
  then show ?case by simp
qed

text \<open>
  Scaling up ends. Repeat the action on one pod: within as many rounds as tens of millicores fit in
  the maximum, plus one, either a round reports an error or the action does exactly what its fallback
  does. No pod is resized for ever.
\<close>

lemma scaling_ends_in_fallback:
  assumes "kube_pods kc" and "GetPod kc c namespace podName = Inr pod" and "parse maxLimit = Inr maxm"
    and "\<forall>ct \<in> set (Containers pod). in_range maxm percent ct" and "maxm \<le> 10 * int n"
  shows "\<exists>k \<le> n.
    let c' = scale_rounds kc parse percent maxLimit fallback podName namespace k c;
        outcome = scale_execute kc parse percent maxLimit (Some fallback) podName namespace c'
    in outcome = fallback podName namespace c' \<or> (\<exists>e. fst outcome = Some e)"
proof (rule ccontr)
  let ?st = "\<lambda>k. scale_rounds kc parse percent maxLimit fallback podName namespace k c"
  assume "\<not> ?thesis"
  then have calm: "fst (scale_execute kc parse percent maxLimit (Some fallback) podName namespace (?st k)) = None \<and>
      scale_execute kc parse percent maxLimit (Some fallback) podName namespace (?st k) \<noteq>
        fallback podName namespace (?st k)" if "k \<le> n" for k
    using that by (auto simp: Let_def)
  have pod: "GetPod kc (?st n) namespace podName =
      Inr (pod\<lparr>Containers := map (scaled maxm percent ^^ n) (Containers pod)\<rparr>)"
    by (rule rounds_pod [where n = n and parse = parse and maxLimit = maxLimit and fallback = fallback and
          st = ?st, OF assms(1-3) HOL.refl]) (use calm in simp_all)
  have "\<not> (\<exists>ct \<in> set (map (scaled maxm percent ^^ n) (Containers pod)). has_headroom maxm ct)"
    using rounds_exhaust [OF _ assms(5)] assms(4) by simp
  with scale_execute_eq [where parse = parse and maxLimit = maxLimit, OF pod assms(3), of percent "Some fallback"]
  have "scale_execute kc parse percent maxLimit (Some fallback) podName namespace (?st n) =
      fallback podName namespace (?st n)" by simp
  with calm [of n] show False by simp
qed

definition small_pod :: Pod where
  "small_pod = \<lparr>PodName = ''db-0'', PodNamespace = ''prod'', UID = ''u-1'', NodeName = ''node-1'',
     PodOwners = [], Containers = [demo_container 500]\<rparr>"

definition small_cluster :: cluster where
  "small_cluster = \<lparr>c_pods = [small_pod], c_nodes = [], c_classes = [], c_replicasets = [], c_deployments = [],
     c_claims = [], c_evicted = [], c_time = 0\<rparr>"

lemma scaling_ends_in_fallback_witness:
  "\<exists>k \<le> 100.
    let c' = scale_rounds cluster_client (\<lambda>_. Inr 1000) 20 ''1'' (\<lambda>p ns c. (None, c\<lparr>c_evicted := [p]\<rparr>))
          ''db-0'' ''prod'' k small_cluster;
        outcome = scale_execute cluster_client (\<lambda>_. Inr 1000) 20 ''1''
          (Some (\<lambda>p ns c. (None, c\<lparr>c_evicted := [p]\<rparr>))) ''db-0'' ''prod'' c'
    in outcome = (None, c'\<lparr>c_evicted := [''db-0'']\<rparr>) \<or> (\<exists>e. fst outcome = Some e)"
  by (rule scaling_ends_in_fallback [OF cluster_pods.kube_pods_axioms, where pod = small_pod and maxm = 1000])
    (simp_all add: cluster_client_def small_cluster_def small_pod_def demo_container_def in_range_def baseline_def)

end
