(* ===== verification/GoDuration.thy ===== *)
theory GoDuration
  imports Prelude
begin

text \<open>
  \<open>time.ParseDuration\<close> of the Go standard library, which the operator uses for its thresholds and
  requeue intervals. Byte by byte as the library does it, with its overflow checks; the one computation
  in floating point, the nanoseconds of the fraction \<open>f / scale\<close> of a unit, is the parameter \<open>frac\<close>.
\<close>

definition is_digit :: "char \<Rightarrow> bool" where
  "is_digit c \<longleftrightarrow> c \<in> set ''0123456789''"

definition digit_val :: "char \<Rightarrow> nat" where
  "digit_val c = of_char c - 48"

fun leading_int :: "string \<Rightarrow> nat \<Rightarrow> (nat \<times> string) option" where
  "leading_int [] x = Some (x, [])"
| "leading_int (c # cs) x =
     (if is_digit c then
        (if x > 2 ^ 63 div 10 then None
         else if x * 10 + digit_val c > 2 ^ 63 then None
         else leading_int cs (x * 10 + digit_val c))
      else Some (x, c # cs))"

text \<open>Digits after the point; those that no longer fit are skipped.\<close>

fun leading_fraction :: "string \<Rightarrow> nat \<Rightarrow> nat \<Rightarrow> bool \<Rightarrow> nat \<times> nat \<times> string" where
  "leading_fraction [] x scale overflow = (x, scale, [])"
| "leading_fraction (c # cs) x scale overflow =
     (if is_digit c then
        (if overflow then leading_fraction cs x scale True
         else if x > (2 ^ 63 - 1) div 10 then leading_fraction cs x scale True
         else if x * 10 + digit_val c > 2 ^ 63 then leading_fraction cs x scale True
         else leading_fraction cs (x * 10 + digit_val c) (scale * 10) False)
      else (x, scale, c # cs))"

definition unit_ns :: "string \<Rightarrow> nat option" where
  "unit_ns u =
     (if u = ''ns'' then Some 1
      else if u = ''us'' \<or> u = [CHR 0xC2, CHR 0xB5, CHR 0x73] \<or> u = [CHR 0xCE, CHR 0xBC, CHR 0x73]
        then Some 1000
      else if u = ''ms'' then Some 1000000
      else if u = ''s'' then Some 1000000000
      else if u = ''m'' then Some 60000000000
      else if u = ''h'' then Some 3600000000000
      else None)"

definition unit_char :: "char \<Rightarrow> bool" where
  "unit_char c \<longleftrightarrow> c \<noteq> CHR ''.'' \<and> \<not> is_digit c"

text \<open>One number with its unit: its nanoseconds and the rest of the string.\<close>

definition parse_term :: "(nat \<Rightarrow> nat \<Rightarrow> nat \<Rightarrow> nat) \<Rightarrow> string \<Rightarrow> (nat \<times> string) option" where
  "parse_term frac s =
     (if s = [] \<or> \<not> (hd s = CHR ''.'' \<or> is_digit (hd s)) then None
      else case leading_int s 0 of
        None \<Rightarrow> None
      | Some (v, s1) \<Rightarrow>
          (case (if s1 \<noteq> [] \<and> hd s1 = CHR ''.'' then leading_fraction (tl s1) 0 1 False else (0, 1, s1)) of
             (f, scale, s2) \<Rightarrow>
               if length s1 = length s \<and> \<not> (s1 \<noteq> [] \<and> hd s1 = CHR ''.'' \<and> length s2 \<noteq> length (tl s1)) then None
               else if takeWhile unit_char s2 = [] then None
               else case unit_ns (takeWhile unit_char s2) of
                      None \<Rightarrow> None
                    | Some unit \<Rightarrow>
                        if v > 2 ^ 63 div unit then None
                        else if f > 0 \<and> v * unit + frac f scale unit > 2 ^ 63 then None
                        else Some (v * unit + (if f > 0 then frac f scale unit else 0), dropWhile unit_char s2)))"

lemma leading_int_rest: "leading_int s x = Some (v, r) \<Longrightarrow> length r \<le> length s"
  by (induction s x rule: leading_int.induct) (auto split: if_splits)

lemma leading_fraction_rest: "length (snd (snd (leading_fraction s x sc ov))) \<le> length s"
  by (induction s arbitrary: x sc ov) (simp_all add: le_SucI)

lemma unit_rest: "takeWhile unit_char s \<noteq> [] \<Longrightarrow> length (dropWhile unit_char s) < length s"
  by (cases s) (auto simp: less_Suc_eq_le length_dropWhile_le split: if_splits)

lemma parse_term_rest: "parse_term frac s = Some (v, r) \<Longrightarrow> length r < length s"
proof -
  assume a: "parse_term frac s = Some (v, r)"
  then obtain w s1 where i: "leading_int s 0 = Some (w, s1)"
    by (auto simp: parse_term_def split: if_splits option.splits)
  let ?f = "if s1 \<noteq> [] \<and> hd s1 = CHR ''.'' then leading_fraction (tl s1) 0 1 False else (0, 1, s1)"
  obtain f sc s2 where f: "?f = (f, sc, s2)" by (cases ?f) auto
  have "length s2 \<le> length s1"
    using leading_fraction_rest [of "tl s1" 0 1 False] f by (auto split: if_splits)
  with leading_int_rest [OF i] have le: "length s2 \<le> length s" by simp
  from a i f have "takeWhile unit_char s2 \<noteq> []" "r = dropWhile unit_char s2"
    unfolding parse_term_def by (auto simp del: takeWhile_eq_Nil_iff split: if_splits option.splits)
  with unit_rest [of s2] le show ?thesis by simp
qed

function parse_terms :: "(nat \<Rightarrow> nat \<Rightarrow> nat \<Rightarrow> nat) \<Rightarrow> string \<Rightarrow> nat \<Rightarrow> nat option" where
  "parse_terms frac s d =
     (if s = [] then Some d
      else case parse_term frac s of
        None \<Rightarrow> None
      | Some (v, rest) \<Rightarrow>
          if (d + v) mod 2 ^ 64 > 2 ^ 63 then None
          else parse_terms frac rest ((d + v) mod 2 ^ 64))"
  by pat_completeness auto

termination parse_terms
  by (relation "measure (\<lambda>(frac, s, d). length s)") (auto dest: parse_term_rest)

declare parse_terms.simps [simp del]

definition strip_sign :: "string \<Rightarrow> bool \<times> string" where
  "strip_sign s =
     (if s \<noteq> [] \<and> (hd s = CHR ''-'' \<or> hd s = CHR ''+'') then (hd s = CHR ''-'', tl s) else (False, s))"

definition ParseDuration :: "(nat \<Rightarrow> nat \<Rightarrow> nat \<Rightarrow> nat) \<Rightarrow> string \<Rightarrow> int option" where
  "ParseDuration frac s =
     (case strip_sign s of (neg, s') \<Rightarrow>
        if s' = ''0'' then Some 0
        else if s' = '''' then None
        else case parse_terms frac s' 0 of
               None \<Rightarrow> None
             | Some d \<Rightarrow> if neg then Some (- int d) else if d > 2 ^ 63 - 1 then None else Some (int d))"

section \<open>Lemmas\<close>

lemma parse_terms_bound: "parse_terms frac s d = Some n \<Longrightarrow> d \<le> 2 ^ 63 \<Longrightarrow> n \<le> 2 ^ 63"
proof (induction frac s d rule: parse_terms.induct)
  case (1 frac s d)
  from "1.prems"(1) have run: "(if s = [] then Some d
      else case parse_term frac s of
        None \<Rightarrow> None
      | Some (v, rest) \<Rightarrow>
          if (d + v) mod 2 ^ 64 > 2 ^ 63 then None
          else parse_terms frac rest ((d + v) mod 2 ^ 64)) = Some n"
    by (simp only: parse_terms.simps [of frac s d])
  show ?case
  proof (cases "s = []")
    case True
    with run "1.prems"(2) show ?thesis by simp
  next
    case False
    with run obtain v rest where t: "parse_term frac s = Some (v, rest)"
      "\<not> (d + v) mod 2 ^ 64 > 2 ^ 63" "parse_terms frac rest ((d + v) mod 2 ^ 64) = Some n"
      by (auto split: option.splits if_splits)
    from t(2) have "(d + v) mod 2 ^ 64 \<le> 2 ^ 63" by (simp only: not_less)
    from "1.IH" [OF False t(1) HOL.refl t(2,3) this] show ?thesis .
  qed
qed

text \<open>A duration is an \<open>int64\<close>.\<close>

lemma ParseDuration_range: "ParseDuration frac s = Some d \<Longrightarrow> - (2 ^ 63) \<le> d \<and> d < 2 ^ 63"
proof -
  assume a: "ParseDuration frac s = Some d"
  obtain neg s' where s: "strip_sign s = (neg, s')" by (cases "strip_sign s")
  show ?thesis
  proof (cases "s' = ''0''")
    case False
    with a s obtain n where n: "parse_terms frac s' 0 = Some n"
      "d = - int n \<or> d = int n \<and> n \<le> 2 ^ 63 - 1"
      by (auto simp: ParseDuration_def split: if_splits option.splits)
    with parse_terms_bound [OF n(1)] have "n \<le> 2 ^ 63" by simp
    then have "int n \<le> 2 ^ 63" by simp
    with n(2) show ?thesis by auto
  qed (use a s in \<open>simp add: ParseDuration_def\<close>)
qed

section \<open>Whole numbers of a unit\<close>

lemma undecimal_ge: "x \<le> undecimal cs x"
proof (induction cs arbitrary: x)
  case (Cons c cs)
  from Cons [of "10 * x + (of_char c - 48)"] show ?case by simp
qed simp

lemma leading_int_digits:
  assumes "\<forall>c \<in> set ds. is_digit c" and "u = [] \<or> \<not> is_digit (hd u)" and "undecimal ds x \<le> 2 ^ 63"
  shows "leading_int (ds @ u) x = Some (undecimal ds x, u)"
  using assms(1,3)
proof (induction ds arbitrary: x)
  case Nil
  then show ?case using assms(2) by (cases u) simp_all
next
  case (Cons c ds)
  have "10 * x + digit_val c \<le> 2 ^ 63"
    using Cons.prems(2) undecimal_ge [of "10 * x + digit_val c" ds] by (simp add: digit_val_def)
  moreover have "x \<le> 2 ^ 63 div 10" using calculation by simp
  ultimately show ?case
    using Cons by (simp add: digit_val_def mult.commute)
qed

lemma decimal_first: "decimal n \<noteq> [] \<and> is_digit (hd (decimal n))"
proof -
  have ne: "decimal n \<noteq> []" by (subst decimal.simps) simp
  then have "hd (decimal n) \<in> set (decimal n)" by simp
  from decimal_digits [OF this] ne show ?thesis unfolding is_digit_def by blast
qed

lemma digit_not_sign: "is_digit c \<Longrightarrow> c \<noteq> CHR ''-'' \<and> c \<noteq> CHR ''+'' \<and> c \<noteq> CHR ''.''"
  by (auto simp: is_digit_def)

text \<open>A decimal number followed by a unit is that many units, as long as it fits.\<close>

lemma ParseDuration_decimal:
  assumes "unit_ns u = Some k" and "u \<noteq> []" and "\<forall>c \<in> set u. unit_char c" and "n * k < 2 ^ 63" and "0 < k"
  shows "ParseDuration frac (decimal n @ u) = Some (int (n * k))"
proof -
  let ?s = "decimal n @ u"
  have ne: "?s \<noteq> []" "is_digit (hd ?s)" using decimal_first [of n] by simp_all
  have n: "n \<le> 2 ^ 63 div k" using assms(4,5) by (metis div_le_mono less_or_eq_imp_le nonzero_mult_div_cancel_right not_gr_zero)
  have "n \<le> n * k" using assms(5) by simp
  then have small: "n \<le> 2 ^ 63" using assms(4) by linarith
  have u: "\<not> is_digit (hd u)" "hd u \<noteq> CHR ''.''" using assms(2,3) hd_in_set [of u] by (auto simp: unit_char_def)
  have "\<forall>c \<in> set (decimal n). is_digit c" using decimal_digits by (simp add: is_digit_def)
  then have li: "leading_int ?s 0 = Some (n, u)"
    using leading_int_digits [of "decimal n" u 0] u(1) small by (simp add: undecimal_decimal)
  have tw: "takeWhile unit_char u = u" "dropWhile unit_char u = []" using assms(3) by simp_all
  have term1: "parse_term frac ?s = Some (n * k, [])"
    unfolding parse_term_def using ne u assms(1,2) n decimal_first [of n] by (simp add: li tw)
  have "parse_terms frac ?s 0 = Some (n * k)"
    using assms(2,4) by (simp add: parse_terms.simps [of frac ?s] parse_terms.simps [of frac "[]"] term1)
  moreover have "strip_sign ?s = (False, ?s)" using digit_not_sign [OF ne(2)] by (simp add: strip_sign_def)
  moreover have "?s \<noteq> ''0''"
  proof
    assume "?s = ''0''"
    moreover have "last ?s = last u" using assms(2) by simp
    ultimately have "last u = CHR ''0''" by simp
    with assms(2,3) last_in_set [of u] show False by (auto simp: unit_char_def is_digit_def)
  qed
  ultimately show ?thesis using ne(1) assms(4) by (simp add: ParseDuration_def)
qed

end
