(* ===== verification/Evaluator.thy ===== *)
theory Evaluator
  imports Kube GoDuration PromMetrics
begin

text \<open>
  \<open>operator/pkg/evaluator\<close>: which pods of a namespace are saturated, by a PromQL query over the series
  the collector exports. Prometheus, its client and the parser of its durations, and the listing of pods
  are parameters.
\<close>

section \<open>Parameters\<close>

text \<open>A query result: a vector, of which only the labels of the samples matter, or another type.\<close>

datatype prom_result = Vector "(string \<rightharpoonup> string) list" | OtherResult string

record ('c, 'sel, 'l) eval_env =
  ModelDurationError :: "string \<Rightarrow> string option" \<comment> \<open>\<open>model.ParseDuration\<close>\<close>
  ClientError :: "string \<Rightarrow> string option" \<comment> \<open>\<open>api.NewClient\<close> for an address\<close>
  Query :: "'c \<Rightarrow> string \<Rightarrow> string \<Rightarrow> string + prom_result" \<comment> \<open>address, query\<close>
  AsSelector :: "'sel \<Rightarrow> string + 'l" \<comment> \<open>\<open>metav1.LabelSelectorAsSelector\<close>\<close>
  ListPods :: "'c \<Rightarrow> string \<Rightarrow> 'l \<Rightarrow> kerror + Pod list" \<comment> \<open>namespace, selector\<close>
  Fraction :: "nat \<Rightarrow> nat \<Rightarrow> nat \<Rightarrow> nat" \<comment> \<open>of \<open>time.ParseDuration\<close>\<close>
  DurationErrorText :: "string \<Rightarrow> string" \<comment> \<open>the text of its errors\<close>

section \<open>The query\<close>

definition quote_mark :: string where
  "quote_mark = [CHR 0x22]"

text \<open>Line breaks and indentation as in the raw string literals of the source.\<close>

definition new_line :: string where
  "new_line = [CHR 0x0A, CHR 0x09, CHR 0x09, CHR 0x09, CHR '' '', CHR '' '']"

definition cpu_query :: "string \<Rightarrow> int \<Rightarrow> string" where
  "cpu_query window threshold =
     ''(rate(ebpf_cpu_runq_latency_ns_total{kind='' @ quote_mark @ ''kubernetes'' @ quote_mark @ ''}['' @ window @
     ''])'' @ new_line @
     ''/ ignoring() (rate(ebpf_cpu_runq_events_total{kind='' @ quote_mark @ ''kubernetes'' @ quote_mark @ ''}['' @
     window @ '']) > 0))'' @ new_line @ ''> '' @ decimal (nat threshold)"

definition io_query :: "string \<Rightarrow> int \<Rightarrow> string" where
  "io_query window threshold =
     ''(rate(ebpf_block_io_latency_ns_total{kind='' @ quote_mark @ ''kubernetes'' @ quote_mark @ ''}['' @ window @
     ''])'' @ new_line @
     ''/ ignoring() (rate(ebpf_block_io_count_total{kind='' @ quote_mark @ ''kubernetes'' @ quote_mark @ ''}['' @
     window @ '']) > 0))'' @ new_line @ ''> '' @ decimal (nat threshold)"

section \<open>Evaluation\<close>

record PrometheusEvaluator =
  Endpoint :: string
  MetricType :: string

definition NewPrometheusEvaluator :: "string \<Rightarrow> string \<Rightarrow> PrometheusEvaluator" where
  "NewPrometheusEvaluator endpoint metricType =
     \<lparr>Endpoint = endpoint, MetricType = (if metricType = '''' then ''IO'' else metricType)\<rparr>"

definition eval_query :: "string \<Rightarrow> string \<Rightarrow> int \<Rightarrow> string + string" where
  "eval_query metric window threshold =
     (if metric = ''CPU'' then Inr (cpu_query window threshold)
      else if metric = ''IO'' \<or> metric = '''' then Inr (io_query window threshold)
      else Inl (''unsupported metricType '' @ quoted metric))"

text \<open>The loop over the samples: the set of UIDs.\<close>

definition saturated_uids :: "(string \<rightharpoonup> string) list \<Rightarrow> string set" where
  "saturated_uids v =
     fold (\<lambda>sample uids. case sample ''pod_uid'' of
             None \<Rightarrow> uids | Some u \<Rightarrow> if u \<noteq> '''' then insert u uids else uids) v {}"

definition Evaluate ::
  "('c, 'sel, 'l) eval_env \<Rightarrow> PrometheusEvaluator \<Rightarrow> string \<Rightarrow> 'sel \<Rightarrow> string \<Rightarrow> string \<Rightarrow> 'c \<Rightarrow>
   string + string list" where
  "Evaluate env e namespace selector window threshold c =
     (if Endpoint e = '''' then Inl ''prometheus endpoint is empty''
      else case ModelDurationError env window of
        Some err \<Rightarrow>
          Inl (''invalid evaluationWindow '' @ quoted window @ '' (use forms like 30s, 5m): '' @ err)
      | None \<Rightarrow>
          (case ParseDuration (Fraction env) threshold of
             None \<Rightarrow> Inl (''invalid latencyThreshold '' @ quoted threshold @ '' (use forms like 50ms, 1s): '' @
               DurationErrorText env threshold)
           | Some t \<Rightarrow>
               if t \<le> 0 then Inl (''latencyThreshold must be positive, got '' @ threshold)
               else case ClientError env (Endpoint e) of
                 Some err \<Rightarrow> Inl (''error creating prometheus client: '' @ err)
               | None \<Rightarrow>
                   (case eval_query (MetricType e) window t of
                      Inl err \<Rightarrow> Inl err
                    | Inr query \<Rightarrow>
                        (case Query env c (Endpoint e) query of
                           Inl err \<Rightarrow> Inl (''error querying prometheus: '' @ err)
                         | Inr (OtherResult ty) \<Rightarrow> Inl (''unexpected prometheus result type: '' @ ty)
                         | Inr (Vector v) \<Rightarrow>
                             if saturated_uids v = {} then Inr []
                             else case AsSelector env selector of
                               Inl err \<Rightarrow> Inl (''invalid pod selector: '' @ err)
                             | Inr l \<Rightarrow>
                                 (case ListPods env c namespace l of
                                    Inl err \<Rightarrow> Inl (''failed to list pods: '' @ kmsg err)
                                  | Inr pods \<Rightarrow>
                                      Inr (map PodName (filter (\<lambda>p. UID p \<in> saturated_uids v) pods)))))))"

section \<open>Lemmas\<close>

definition reported :: "(string \<rightharpoonup> string) list \<Rightarrow> string \<Rightarrow> bool" where
  "reported v u \<longleftrightarrow> u \<noteq> '''' \<and> (\<exists>sample \<in> set v. sample ''pod_uid'' = Some u)"

lemma saturated_uids_iff: "u \<in> saturated_uids v \<longleftrightarrow> reported v u"
proof -
  have "u \<in> fold (\<lambda>sample uids. case sample ''pod_uid'' of
             None \<Rightarrow> uids | Some u \<Rightarrow> if u \<noteq> '''' then insert u uids else uids) v U \<longleftrightarrow>
      u \<in> U \<or> reported v u" for U
    by (induction v arbitrary: U) (auto simp: reported_def split: option.splits if_splits)
  then show ?thesis by (simp add: saturated_uids_def)
qed

section \<open>Properties\<close>

definition demo_env_eval :: "(unit, unit, unit) eval_env" where
  "demo_env_eval = \<lparr>ModelDurationError = (\<lambda>_. None), ClientError = (\<lambda>_. None),
     Query = (\<lambda>_ _ _. Inr (Vector [[''pod_uid'' \<mapsto> ''u-1''], [''pod_uid'' \<mapsto> ''u-9''], Map.empty])),
     AsSelector = (\<lambda>_. Inr ()),
     ListPods = (\<lambda>_ _ _. Inr
       [\<lparr>PodName = ''db-0'', PodNamespace = ''prod'', UID = ''u-1'', NodeName = ''n'', PodOwners = [], Containers = []\<rparr>,
        \<lparr>PodName = ''db-1'', PodNamespace = ''prod'', UID = ''u-2'', NodeName = ''n'', PodOwners = [], Containers = []\<rparr>]),
     Fraction = (\<lambda>_ _ _. 0), DurationErrorText = (\<lambda>_. '''')\<rparr>"

text \<open>
  C36: with valid settings and answers from Prometheus and the API server, the evaluator returns, in the
  order of the listing, exactly the names of the listed pods whose UID some sample of the result
  reports; samples without a UID count for nothing.
\<close>

theorem evaluate_selects_saturated:
  assumes "Endpoint e \<noteq> ''''" and "ModelDurationError env window = None"
    and "ParseDuration (Fraction env) threshold = Some t" and "0 < t"
    and "ClientError env (Endpoint e) = None" and "eval_query (MetricType e) window t = Inr query"
    and "Query env c (Endpoint e) query = Inr (Vector v)"
    and "AsSelector env selector = Inr l" and "ListPods env c namespace l = Inr pods"
  shows "Evaluate env e namespace selector window threshold c =
    Inr (map PodName (filter (\<lambda>p. reported v (UID p)) pods))"
proof (cases "saturated_uids v = {}")
  case True
  then have "filter (\<lambda>p. reported v (UID p)) pods = []"
    by (simp add: filter_empty_conv saturated_uids_iff [symmetric])
  with True assms show ?thesis by (simp add: Evaluate_def)
next
  case False
  with assms show ?thesis by (simp add: Evaluate_def saturated_uids_iff)
qed

lemma demo_threshold: "ParseDuration frac ''50ms'' = Some 50000000"
proof -
  have d: "decimal 50 = ''50''" by (simp add: decimal.simps [of 50] decimal.simps [of 5] digit_def)
  have "ParseDuration frac (decimal 50 @ ''ms'') = Some (int (50 * 1000000))"
    by (rule ParseDuration_decimal) (simp_all add: unit_ns_def unit_char_def is_digit_def)
  then show ?thesis by (simp add: d)
qed

theorem evaluate_selects_saturated_witness:
  "Evaluate demo_env_eval (NewPrometheusEvaluator ''http://prom'' '''') ''prod'' () ''5m'' ''50ms'' () =
     Inr [''db-0'']"
proof -
  have "Evaluate demo_env_eval (NewPrometheusEvaluator ''http://prom'' '''') ''prod'' () ''5m'' ''50ms'' () =
    Inr (map PodName (filter (\<lambda>p. reported [[''pod_uid'' \<mapsto> ''u-1''], [''pod_uid'' \<mapsto> ''u-9''], Map.empty] (UID p))
       (case ListPods demo_env_eval () ''prod'' () of Inr pods \<Rightarrow> pods | Inl _ \<Rightarrow> [])))"
    by (rule evaluate_selects_saturated [where t = 50000000 and query = "io_query ''5m'' 50000000" and l = "()"])
      (simp_all add: demo_env_eval_def NewPrometheusEvaluator_def demo_threshold eval_query_def)
  then show ?thesis by (simp add: demo_env_eval_def reported_def)
qed

text \<open>A range selector over one of the collector's counters.\<close>

definition series :: "nat \<Rightarrow> string \<Rightarrow> string" where
  "series i window = counter_names ! i @ ''{'' @ labelNames ! 0 @ ''='' @ quote_mark @
     kind_string CgroupKindKubernetes @ quote_mark @ ''}['' @ window @ '']''"

lemma io_query_series:
  "io_query window t = ''(rate('' @ series 2 window @ '')'' @ new_line @ ''/ ignoring() (rate('' @ series 0 window @
     '') > 0))'' @ new_line @ ''> '' @ decimal (nat t)"
  by (simp add: io_query_def series_def counter_names_def labelNames_def)

lemma cpu_query_series:
  "cpu_query window t = ''(rate('' @ series 5 window @ '')'' @ new_line @ ''/ ignoring() (rate('' @ series 4 window @
     '') > 0))'' @ new_line @ ''> '' @ decimal (nat t)"
  by (simp add: cpu_query_def series_def counter_names_def labelNames_def)

text \<open>
  The query of the operator is written in the vocabulary of the collector: for either metric type it
  compares with the threshold the rate of the collector's latency counter over the rate of its event
  counter, both over the requested window and both restricted to the kind the classifier gives to
  Kubernetes cgroups.
\<close>

theorem query_reads_collector_series:
  "eval_query ''IO'' window t = eval_query [] window t \<and>
   eval_query ''IO'' window t = Inr (''(rate('' @ series 2 window @ '')'' @ new_line @ ''/ ignoring() (rate('' @
     series 0 window @ '') > 0))'' @ new_line @ ''> '' @ decimal (nat t)) \<and>
   eval_query ''CPU'' window t = Inr (''(rate('' @ series 5 window @ '')'' @ new_line @ ''/ ignoring() (rate('' @
     series 4 window @ '') > 0))'' @ new_line @ ''> '' @ decimal (nat t))"
  unfolding eval_query_def by (simp add: io_query_series cpu_query_series)

end
