(* ===== verification/Reconciler.thy ===== *)
theory Reconciler
  imports EvictTaint ScaleUp MigrateStorage Evaluator
begin

text \<open>
  \<open>operator/internal/controller/ioremediationpolicy_controller.go\<close> with the policy type of
  \<open>operator/api/v1alpha1\<close> and the action interface of \<open>operator/pkg/action\<close>: evaluate a policy, remediate
  the saturated pods, record the outcome in the status and decide when to look again.
\<close>

section \<open>The policy\<close>

record EvictAndTaintOptions =
  TaintDuration :: "int option"

record MigrateStorageOptions =
  TargetStorageClass :: string

record ScaleUpOptions =
  CPUStepPercent :: int
  MaxCPULimit :: string

record 'sel IORemediationPolicySpec =
  TargetPodSelector :: 'sel
  PrometheusEndpoint :: string
  SpecMetricType :: string
  LatencyThreshold :: string
  EvaluationWindow :: string
  Action :: string
  EvictAndTaintConfig :: "EvictAndTaintOptions option"
  MigrateStorageConfig :: "MigrateStorageOptions option"
  ScaleUpConfig :: "ScaleUpOptions option"

record Condition =
  CondType :: string
  CondStatus :: string
  Reason :: string
  Message :: string
  LastTransitionTime :: int
  ObservedGeneration :: int

record 'sel IORemediationPolicy =
  PolicyName :: string
  Generation :: int
  Spec :: "'sel IORemediationPolicySpec"
  Conditions :: "Condition list" \<comment> \<open>\<open>Status.Conditions\<close>\<close>

section \<open>Actions\<close>

datatype RemediationAction =
    EvictAndTaint EvictAndTaintAction
  | MigrateStorage string \<comment> \<open>target class\<close>
  | ScaleUp int string "RemediationAction option" \<comment> \<open>step, maximum, fallback\<close>

text \<open>The method \<open>Execute\<close> of the interface; the middle argument parses CPU quantities.\<close>

fun Execute ::
  "'c kclient \<Rightarrow> (string \<Rightarrow> string + millis) \<Rightarrow> RemediationAction \<Rightarrow> string \<Rightarrow> string \<Rightarrow> 'c \<Rightarrow>
   string option \<times> 'c" where
  "Execute kc parse (EvictAndTaint a) = evict_execute kc a"
| "Execute kc parse (MigrateStorage target) = migrate_execute kc target"
| "Execute kc parse (ScaleUp percent maxLimit fallback) =
     scale_execute kc parse percent maxLimit (map_option (Execute kc parse) fallback)"

definition taintDuration :: "'sel IORemediationPolicy \<Rightarrow> int option" where
  "taintDuration policy =
     (case EvictAndTaintConfig (Spec policy) of None \<Rightarrow> None | Some cfg \<Rightarrow> TaintDuration cfg)"

definition buildAction :: "'sel IORemediationPolicy \<Rightarrow> string + RemediationAction" where
  "buildAction policy =
     (if Action (Spec policy) = ''EvictAndTaint'' then
        Inr (EvictAndTaint (NewEvictAndTaintAction (taintDuration policy)))
      else if Action (Spec policy) = ''MigrateStorageClass'' then
        Inr (MigrateStorage
          (case MigrateStorageConfig (Spec policy) of None \<Rightarrow> '''' | Some cfg \<Rightarrow> TargetStorageClass cfg))
      else if Action (Spec policy) = ''ScaleUp'' then
        Inr (ScaleUp
          (case ScaleUpConfig (Spec policy) of
             None \<Rightarrow> 20 | Some cfg \<Rightarrow> if CPUStepPercent cfg > 0 then CPUStepPercent cfg else 20)
          (case ScaleUpConfig (Spec policy) of
             None \<Rightarrow> ''2000m'' | Some cfg \<Rightarrow> if MaxCPULimit cfg \<noteq> '''' then MaxCPULimit cfg else ''2000m'')
          (Some (EvictAndTaint (NewEvictAndTaintAction (taintDuration policy)))))
      else Inl (''unknown action '' @ quoted (Action (Spec policy))))"

section \<open>Requeueing\<close>

definition defaultRequeue :: int where
  "defaultRequeue = 60000000000"

definition minRequeue :: int where
  "minRequeue = 15000000000"

definition requeueFromSpec :: "(nat \<Rightarrow> nat \<Rightarrow> nat \<Rightarrow> nat) \<Rightarrow> string \<Rightarrow> int" where
  "requeueFromSpec frac window =
     (case ParseDuration frac window of
        None \<Rightarrow> defaultRequeue
      | Some d \<Rightarrow> if d < minRequeue then defaultRequeue else d)"

section \<open>Reconciling\<close>

text \<open>
  The operations on policies: reading one, writing its status, and \<open>meta.SetStatusCondition\<close> of the
  Kubernetes library.
\<close>

record ('c, 'sel) policy_ops =
  GetPolicy :: "'c \<Rightarrow> string \<Rightarrow> string \<Rightarrow> kerror + 'sel IORemediationPolicy"
  UpdateStatus :: "string \<Rightarrow> 'sel IORemediationPolicy \<Rightarrow> 'c \<Rightarrow> kerror option \<times> 'c"
  SetStatusCondition :: "Condition list \<Rightarrow> Condition \<Rightarrow> Condition list"

record ('c, 'sel, 'l) operator =
  op_client :: "'c kclient"
  op_policies :: "('c, 'sel) policy_ops"
  op_eval :: "('c, 'sel, 'l) eval_env"
  op_quantity :: "string \<Rightarrow> string + millis"

definition setCondition ::
  "('c, 'sel, 'l) operator \<Rightarrow> string \<Rightarrow> 'sel IORemediationPolicy \<Rightarrow> string \<Rightarrow> string \<Rightarrow> string \<Rightarrow> string \<Rightarrow>
   'c \<Rightarrow> 'c" where
  \<comment> \<open>an error of the update is only logged\<close>
  "setCondition op namespace policy condType status reason message c =
     snd (UpdateStatus (op_policies op) namespace
       (policy\<lparr>Conditions := SetStatusCondition (op_policies op) (Conditions policy)
          \<lparr>CondType = condType, CondStatus = status, Reason = reason, Message = message,
           LastTransitionTime = Now (op_client op) c, ObservedGeneration = Generation policy\<rparr>\<rparr>) c)"

text \<open>The loop over the saturated pods: the number of failures and the state after it.\<close>

fun run_actions ::
  "('c, 'sel, 'l) operator \<Rightarrow> RemediationAction \<Rightarrow> string \<Rightarrow> string list \<Rightarrow> nat \<Rightarrow> 'c \<Rightarrow> nat \<times> 'c" where
  "run_actions op act namespace [] failures c = (failures, c)"
| "run_actions op act namespace (pod # pods) failures c =
     (case Execute (op_client op) (op_quantity op) act pod namespace c of
        (Some e, c') \<Rightarrow> run_actions op act namespace pods (failures + 1) c'
      | (None, c') \<Rightarrow> run_actions op act namespace pods failures c')"

record reconcile_result =
  RequeueAfter :: int
  rec_error :: "string option"

definition Reconcile ::
  "('c, 'sel, 'l) operator \<Rightarrow> string \<Rightarrow> string \<Rightarrow> 'c \<Rightarrow> reconcile_result \<times> 'c" where
  "Reconcile op namespace name c =
     (case GetPolicy (op_policies op) c namespace name of
        Inl (NotFound _) \<Rightarrow> (\<lparr>RequeueAfter = 0, rec_error = None\<rparr>, c)
      | Inl (ApiError e) \<Rightarrow> (\<lparr>RequeueAfter = 0, rec_error = Some e\<rparr>, c)
      | Inr policy \<Rightarrow>
          let requeueAfter = requeueFromSpec (Fraction (op_eval op)) (EvaluationWindow (Spec policy))
          in case Evaluate (op_eval op)
                    (NewPrometheusEvaluator (PrometheusEndpoint (Spec policy)) (SpecMetricType (Spec policy)))
                    namespace (TargetPodSelector (Spec policy)) (EvaluationWindow (Spec policy))
                    (LatencyThreshold (Spec policy)) c of
               Inl e \<Rightarrow>
                 (\<lparr>RequeueAfter = requeueAfter, rec_error = Some e\<rparr>,
                  setCondition op namespace policy ''Degraded'' ''True'' ''EvaluationFailed'' e c)
             | Inr saturatedPods \<Rightarrow>
                 (case buildAction policy of
                    Inl e \<Rightarrow>
                      (\<lparr>RequeueAfter = 0, rec_error = None\<rparr>,
                       setCondition op namespace policy ''Degraded'' ''True'' ''InvalidAction'' e c)
                  | Inr act \<Rightarrow>
                      (case run_actions op act namespace saturatedPods 0 c of
                         (failures, c') \<Rightarrow>
                           (\<lparr>RequeueAfter = requeueAfter, rec_error = None\<rparr>,
                            if saturatedPods = [] then
                              setCondition op namespace policy ''Available'' ''True'' ''NoSaturation''
                                ''no pods exceeded latency threshold'' c'
                            else if failures = 0 then
                              setCondition op namespace policy ''Progressing'' ''True'' ''Remediating''
                                (''remediated '' @ decimal (length saturatedPods) @ '' pod(s)'') c'
                            else
                              setCondition op namespace policy ''Degraded'' ''True'' ''PartialFailure''
                                (decimal failures @ ''/'' @ decimal (length saturatedPods) @
                                 '' remediation actions failed'') c'))))"

section \<open>Lemmas\<close>

text \<open>Every pod gets its action, in order, whatever happens to the others.\<close>

fun execute_all ::
  "('c, 'sel, 'l) operator \<Rightarrow> RemediationAction \<Rightarrow> string \<Rightarrow> string list \<Rightarrow> 'c \<Rightarrow> string option list \<times> 'c" where
  "execute_all op act namespace [] c = ([], c)"
| "execute_all op act namespace (pod # pods) c =
     (case Execute (op_client op) (op_quantity op) act pod namespace c of
        (e, c') \<Rightarrow> (case execute_all op act namespace pods c' of (es, c'') \<Rightarrow> (e # es, c'')))"

lemma run_actions_eq:
  "run_actions op act namespace pods failures c =
     (failures + length (filter (\<lambda>e. e \<noteq> None) (fst (execute_all op act namespace pods c))),
      snd (execute_all op act namespace pods c))"
proof (induction pods arbitrary: failures c)
  case (Cons pod pods)
  obtain e c' where "Execute (op_client op) (op_quantity op) act pod namespace c = (e, c')" by fastforce
  with Cons show ?case by (cases e) (simp_all add: case_prod_beta)
qed simp

lemma execute_all_length: "length (fst (execute_all op act namespace pods c)) = length pods"
  by (induction pods arbitrary: c) (simp_all add: case_prod_beta)

lemma requeue_bounds: "requeueFromSpec frac window = defaultRequeue \<or> minRequeue \<le> requeueFromSpec frac window"
  by (auto simp: requeueFromSpec_def split: option.splits)

lemma requeue_units:
  assumes "unit_ns u = Some k" and "u \<noteq> []" and "\<forall>c \<in> set u. unit_char c" and "n * k < 2 ^ 63" and "0 < k"
  shows "requeueFromSpec frac (decimal n @ u) = (if int (n * k) < minRequeue then defaultRequeue else int (n * k))"
  unfolding requeueFromSpec_def ParseDuration_decimal [OF assms] by simp

section \<open>What the operator relies on\<close>

definition cond_status :: "Condition list \<Rightarrow> string \<Rightarrow> string option" where
  "cond_status cs t = map_option CondStatus (find (\<lambda>c. CondType c = t) cs)"

text \<open>
  Policies: writes to other objects leave them alone, a successful status update stores the conditions of
  the one policy and a failed one nothing, and \<open>SetStatusCondition\<close> sets the condition of its type.
\<close>

locale policy_store =
  fixes op :: "('c, 'sel, 'l) operator"
  assumes get_name: "GetPolicy (op_policies op) c ns n = Inr p \<Longrightarrow> PolicyName p = n"
    and node_policies: "GetPolicy (op_policies op) (snd (PatchNode (op_client op) a b c)) = GetPolicy (op_policies op) c"
    and deployment_policies:
      "GetPolicy (op_policies op) (snd (PatchDeployment (op_client op) d e c)) = GetPolicy (op_policies op) c"
    and resize_policies: "GetPolicy (op_policies op) (snd (ResizePod (op_client op) pod1 pod2 c)) = GetPolicy (op_policies op) c"
    and evict_policies: "GetPolicy (op_policies op) (snd (EvictPod (op_client op) pod1 c)) = GetPolicy (op_policies op) c"
    and create_policies: "GetPolicy (op_policies op) (snd (CreatePVC (op_client op) pvc c)) = GetPolicy (op_policies op) c"
    and update_status: "UpdateStatus (op_policies op) ns x c = (None, c') \<Longrightarrow>
      GetPolicy (op_policies op) c ns (PolicyName x) = Inr old \<Longrightarrow>
      GetPolicy (op_policies op) c' ns (PolicyName x) = Inr (old\<lparr>Conditions := Conditions x\<rparr>)"
    and update_others: "(ns', n) \<noteq> (ns, PolicyName x) \<Longrightarrow>
      GetPolicy (op_policies op) (snd (UpdateStatus (op_policies op) ns x c)) ns' n = GetPolicy (op_policies op) c ns' n"
    and update_error: "UpdateStatus (op_policies op) ns x c = (Some err, c') \<Longrightarrow>
      GetPolicy (op_policies op) c' = GetPolicy (op_policies op) c"
    and set_condition: "cond_status (SetStatusCondition (op_policies op) cs new) t =
      (if t = CondType new then Some (CondStatus new) else cond_status cs t)"
begin

lemmas keep_policies = node_policies deployment_policies resize_policies evict_policies create_policies

abbreviation policy :: "'c \<Rightarrow> string \<Rightarrow> string \<Rightarrow> kerror + 'sel IORemediationPolicy" where
  "policy \<equiv> GetPolicy (op_policies op)"

lemma keep_pairs:
  "PatchNode (op_client op) a b c = (e, c') \<Longrightarrow> policy c' = policy c"
  "PatchDeployment (op_client op) d1 d2 c = (e, c') \<Longrightarrow> policy c' = policy c"
  "ResizePod (op_client op) pod1 pod2 c = (e, c') \<Longrightarrow> policy c' = policy c"
  "EvictPod (op_client op) pod1 c = (e, c') \<Longrightarrow> policy c' = policy c"
  "CreatePVC (op_client op) pvc c = (e, c') \<Longrightarrow> policy c' = policy c"
  by (metis keep_policies snd_conv)+

lemma evict_keeps: "evict_execute (op_client op) a pod ns c = (e, c') \<Longrightarrow> policy c' = policy c"
  unfolding evict_execute_def Let_def
  by (auto split: sum.splits option.splits prod.splits if_splits dest!: keep_pairs)

lemma refs_keep:
  "migrate_refs (op_client op) target ns stamp idx refs dep c = (e, dep', c') \<Longrightarrow> policy c' = policy c"
proof (induction refs arbitrary: idx dep c)
  case (Cons ref refs)
  from Cons.prems show ?case
    by (auto split: sum.splits prod.splits option.splits if_splits dest!: keep_pairs Cons.IH)
qed simp

lemma migrate_keeps: "migrate_execute (op_client op) target pod ns c = (e, c') \<Longrightarrow> policy c' = policy c"
  unfolding migrate_execute_def
  by (auto split: sum.splits kerror.splits option.splits prod.splits if_splits dest!: keep_pairs refs_keep)

lemma scale_keeps:
  "scale_execute (op_client op) parse percent maxl fb pod ns c = (e, c') \<Longrightarrow>
   (\<And>act e c'. fb = Some act \<Longrightarrow> act pod ns c = (e, c') \<Longrightarrow> policy c' = policy c) \<Longrightarrow> policy c' = policy c"
  unfolding scale_execute_def Let_def
  by (auto split: sum.splits option.splits prod.splits if_splits dest!: keep_pairs)

lemma execute_keeps: "Execute (op_client op) parse act pod ns c = (e, c') \<Longrightarrow> policy c' = policy c"
proof (induction act arbitrary: e c')
  case (ScaleUp percent maxl fb)
  show ?case
    by (rule scale_keeps [OF ScaleUp.prems [unfolded Execute.simps]])
      (use ScaleUp.IH in \<open>auto simp: option.set_sel\<close>)
qed (auto dest: evict_keeps migrate_keeps)

lemma execute_all_keeps: "execute_all op act ns pods c = (es, c') \<Longrightarrow> policy c' = policy c"
  by (induction pods arbitrary: c es) (auto split: prod.splits dest!: execute_keeps)

lemma set_condition_keeps:
  assumes "policy c ns n = Inr p" and "cond_status (Conditions p) t = Some ''True''"
    and "policy c ns' n' = Inr q"
  shows "\<exists>p'. policy (setCondition op ns' q ct ''True'' reason msg c) ns n = Inr p' \<and>
    cond_status (Conditions p') t = Some ''True''"
proof -
  let ?new = "\<lparr>CondType = ct, CondStatus = ''True'', Reason = reason, Message = msg,
    LastTransitionTime = Now (op_client op) c, ObservedGeneration = Generation q\<rparr>"
  let ?q = "q\<lparr>Conditions := SetStatusCondition (op_policies op) (Conditions q) ?new\<rparr>"
  obtain e c' where u: "UpdateStatus (op_policies op) ns' ?q c = (e, c')" by fastforce
  have c': "setCondition op ns' q ct ''True'' reason msg c = c'" by (simp add: setCondition_def u)
  show ?thesis
  proof (cases e)
    case (Some err)
    with u update_error [of ns' ?q c err c'] assms show ?thesis by (simp add: c')
  next
    case None
    show ?thesis
    proof (cases "(ns, n) = (ns', n')")
      case True
      then have "q = p" using assms(1,3) by simp
      with True assms(1,3) get_name [of c ns' n' q] update_status [OF u [unfolded None], of q]
      have "policy c' ns n = Inr (p\<lparr>Conditions := SetStatusCondition (op_policies op) (Conditions p) ?new\<rparr>)"
        by simp
      then show ?thesis unfolding c' using assms(2) by (simp add: set_condition)
    next
      case False
      with get_name [OF assms(3)] update_others [of ns n ns' ?q c] u assms(1,2) show ?thesis
        by (simp add: c')
    qed
  qed
qed

lemma reconcile_keeps:
  assumes "policy c ns n = Inr p" and "cond_status (Conditions p) t = Some ''True''"
  shows "\<exists>p'. policy (snd (Reconcile op ns' n' c)) ns n = Inr p' \<and> cond_status (Conditions p') t = Some ''True''"
proof (cases "policy c ns' n'")
  case (Inl e)
  with assms show ?thesis by (cases e) (simp_all add: Reconcile_def)
next
  case (Inr q)
  have set: "\<exists>p'. policy (setCondition op ns' q ct ''True'' reason msg c') ns n = Inr p' \<and>
      cond_status (Conditions p') t = Some ''True''" if "policy c' = policy c" for ct reason msg c'
    by (rule set_condition_keeps [of _ _ _ p _ _ n']) (use assms Inr that in simp_all)
  have all: "policy (snd (execute_all op act ns' pods c)) = policy c" for act pods
    using execute_all_keeps [of act ns' pods c] by (metis prod.collapse)
  show ?thesis
    using set [of c] set [OF all] Inr
    by (auto simp: Reconcile_def Let_def run_actions_eq split: sum.splits)
qed

end

section \<open>A cluster with policies\<close>

record world = cluster +
  w_policies :: "string \<Rightarrow> string \<Rightarrow> unit IORemediationPolicy option"

fun set_cond :: "Condition list \<Rightarrow> Condition \<Rightarrow> Condition list" where
  "set_cond [] new = [new]"
| "set_cond (c # cs) new = (if CondType c = CondType new then new # cs else c # set_cond cs new)"

text \<open>Prometheus reports the UIDs given; the namespace holds the cluster's pods.\<close>

definition world_operator :: "string list \<Rightarrow> (world, unit, unit) operator" where
  "world_operator uids =
     \<lparr>op_client = cluster_client,
      op_policies =
        \<lparr>GetPolicy = (\<lambda>w ns n. case w_policies w ns n of
           None \<Rightarrow> Inl (NotFound ''not found'')
         | Some p \<Rightarrow> if PolicyName p = n then Inr p else Inl (ApiError ''corrupt'')),
         UpdateStatus = (\<lambda>ns x w.
           (case w_policies w ns (PolicyName x) of
              None \<Rightarrow> (Some (NotFound ''not found''), w)
            | Some p \<Rightarrow> (None, w\<lparr>w_policies := (w_policies w)(ns := (w_policies w ns)
                (PolicyName x := Some (p\<lparr>Conditions := Conditions x\<rparr>)))\<rparr>))),
         SetStatusCondition = set_cond\<rparr>,
      op_eval = \<lparr>ModelDurationError = (\<lambda>_. None), ClientError = (\<lambda>_. None),
        Query = (\<lambda>_ _ _. Inr (Vector (map (\<lambda>u. [''pod_uid'' \<mapsto> u]) uids))), AsSelector = (\<lambda>_. Inr ()),
        ListPods = (\<lambda>w ns _. Inr (filter (\<lambda>p. PodNamespace p = ns) (c_pods w))), Fraction = (\<lambda>_ _ _. 0),
        DurationErrorText = (\<lambda>_. '''')\<rparr>,
      op_quantity = (\<lambda>_. Inr 2000)\<rparr>"

lemma set_cond_status:
  "cond_status (set_cond cs new) t = (if t = CondType new then Some (CondStatus new) else cond_status cs t)"
  by (induction cs) (auto simp: cond_status_def)

interpretation world: policy_store "world_operator uids"
  by unfold_locales
    (auto simp: world_operator_def cluster_client_def set_cond_status fun_eq_iff
      split: option.splits if_splits)

definition demo_policy :: "Condition list \<Rightarrow> unit IORemediationPolicy" where
  "demo_policy cs = \<lparr>PolicyName = ''io'', Generation = 1,
     Spec = \<lparr>TargetPodSelector = (), PrometheusEndpoint = ''http://prom'', SpecMetricType = ''IO'',
       LatencyThreshold = ''50ms'', EvaluationWindow = ''30s'', Action = ''EvictAndTaint'',
       EvictAndTaintConfig = None, MigrateStorageConfig = None, ScaleUpConfig = None\<rparr>,
     Conditions = cs\<rparr>"

definition demo_world :: "Condition list \<Rightarrow> world" where
  "demo_world cs = \<lparr>c_pods = [demo_pod], c_nodes = [\<lparr>NodeId = ''node-1'', Taints = []\<rparr>], c_classes = [], c_replicasets = [], c_deployments = [],
     c_claims = [], c_evicted = [], c_time = 5,
     w_policies = (\<lambda>ns n. if ns = ''prod'' \<and> n = ''io'' then Some (demo_policy cs) else None)\<rparr>"

lemma demo_get_policy:
  "GetPolicy (op_policies (world_operator uids)) (demo_world cs) ''prod'' ''io'' = Inr (demo_policy cs)"
  by (simp add: world_operator_def demo_world_def demo_policy_def)

text \<open>What a round with saturated pods leaves, for the rounds that follow it.\<close>

lemma reconcile_outcomes:
  assumes "GetPolicy (op_policies op) c namespace name = Inr policy"
    and "Evaluate (op_eval op)
      (NewPrometheusEvaluator (PrometheusEndpoint (Spec policy)) (SpecMetricType (Spec policy)))
      namespace (TargetPodSelector (Spec policy)) (EvaluationWindow (Spec policy))
      (LatencyThreshold (Spec policy)) c = Inr pods"
    and "buildAction policy = Inr act"
    and "execute_all op act namespace pods c = (outcomes, c')" and "pods \<noteq> []"
  shows "\<exists>msg. snd (Reconcile op namespace name c) =
    (if \<forall>e \<in> set outcomes. e = None
     then setCondition op namespace policy ''Progressing'' ''True'' ''Remediating'' msg c'
     else setCondition op namespace policy ''Degraded'' ''True'' ''PartialFailure'' msg c')"
proof -
  have "filter (\<lambda>e. e \<noteq> None) outcomes = [] \<longleftrightarrow> (\<forall>e \<in> set outcomes. e = None)"
    by (simp add: filter_empty_conv)
  then show ?thesis
    using assms by (simp only: Reconcile_def Let_def run_actions_eq sum.case prod.case fst_conv snd_conv
        length_0_conv add_0 simp_thms) auto
qed

section \<open>Properties\<close>

text \<open>
  C37: one round of a policy that evaluates and names a known action. The action is executed once for
  every saturated pod, in order, however many fail; the round is repeated after the requeue interval and
  reports no error; and the status records Available when no pod was saturated, Progressing when every
  action succeeded, and Degraded with the number of failures otherwise.
\<close>

theorem reconcile_remediates_every_pod:
  assumes "GetPolicy (op_policies op) c namespace name = Inr policy"
    and "Evaluate (op_eval op)
      (NewPrometheusEvaluator (PrometheusEndpoint (Spec policy)) (SpecMetricType (Spec policy)))
      namespace (TargetPodSelector (Spec policy)) (EvaluationWindow (Spec policy))
      (LatencyThreshold (Spec policy)) c = Inr pods"
    and "buildAction policy = Inr act"
    and "execute_all op act namespace pods c = (outcomes, c')"
  shows "length outcomes = length pods \<and>
    Reconcile op namespace name c =
      (\<lparr>RequeueAfter = requeueFromSpec (Fraction (op_eval op)) (EvaluationWindow (Spec policy)), rec_error = None\<rparr>,
       if pods = [] then
         setCondition op namespace policy ''Available'' ''True'' ''NoSaturation''
           ''no pods exceeded latency threshold'' c'
       else if \<forall>e \<in> set outcomes. e = None then
         setCondition op namespace policy ''Progressing'' ''True'' ''Remediating''
           (''remediated '' @ decimal (length pods) @ '' pod(s)'') c'
       else
         setCondition op namespace policy ''Degraded'' ''True'' ''PartialFailure''
           (decimal (length (filter (\<lambda>e. e \<noteq> None) outcomes)) @ ''/'' @ decimal (length pods) @
            '' remediation actions failed'') c')"
proof -
  have len: "length outcomes = length pods"
    using execute_all_length [of op act namespace pods c] assms(4) by simp
  have "filter (\<lambda>e. e \<noteq> None) outcomes = [] \<longleftrightarrow> (\<forall>e \<in> set outcomes. e = None)"
    by (simp add: filter_empty_conv)
  then show ?thesis
    using len assms by (simp only: Reconcile_def Let_def run_actions_eq sum.case prod.case fst_conv snd_conv
        length_0_conv add_0 simp_thms)
qed

lemma saturated_uids_map:
  "saturated_uids (map (\<lambda>u. [''pod_uid'' \<mapsto> u]) uids) = set uids - {''''}"
  by (auto simp: set_eq_iff saturated_uids_iff reported_def)

lemma demo_evaluate:
  "Evaluate (op_eval (world_operator uids)) (NewPrometheusEvaluator ''http://prom'' ''IO'') ''prod'' () ''30s''
     ''50ms'' (demo_world cs) = Inr (if ''u-1'' \<in> set uids then [''db-0''] else [])"
  by (auto simp: Evaluate_def world_operator_def NewPrometheusEvaluator_def demo_threshold eval_query_def
      demo_world_def demo_pod_def saturated_uids_map)

lemma demo_execute_all:
  "execute_all (world_operator uids) (EvictAndTaint (NewEvictAndTaintAction None)) ''prod'' [''db-0''] (demo_world cs) =
     ([None], snd (execute_all (world_operator uids) (EvictAndTaint (NewEvictAndTaintAction None)) ''prod''
        [''db-0''] (demo_world cs)))"
  by (simp add: evict_execute_def world_operator_def cluster_client_def demo_world_def demo_pod_def
      NewEvictAndTaintAction_def taints_after_def DefaultTaintKey_def new_taint_def)

theorem reconcile_remediates_every_pod_witness:
  "fst (Reconcile (world_operator [''u-1'']) ''prod'' ''io'' (demo_world [])) =
     \<lparr>RequeueAfter = 30000000000, rec_error = None\<rparr>"
proof -
  let ?op = "world_operator [''u-1'']"
  let ?act = "EvictAndTaint (NewEvictAndTaintAction None)"
  have d: "decimal 30 = ''30''" by (simp add: decimal.simps [of 30] decimal.simps [of 3] digit_def)
  have "requeueFromSpec frac (decimal 30 @ ''s'') = 30000000000" for frac
    by (subst requeue_units [of _ 1000000000]) (simp_all add: unit_ns_def unit_char_def is_digit_def minRequeue_def)
  then have w: "requeueFromSpec frac ''30s'' = 30000000000" for frac by (simp add: d)
  have "Reconcile ?op ''prod'' ''io'' (demo_world []) =
    (\<lparr>RequeueAfter = requeueFromSpec (Fraction (op_eval ?op)) ''30s'', rec_error = None\<rparr>,
     setCondition ?op ''prod'' (demo_policy []) ''Progressing'' ''True'' ''Remediating''
       (''remediated '' @ decimal 1 @ '' pod(s)'')
       (snd (execute_all ?op ?act ''prod'' [''db-0''] (demo_world []))))"
    using reconcile_remediates_every_pod [OF demo_get_policy, of "[''u-1'']" "[]" "[''db-0'']" ?act "[None]"]
      demo_evaluate [of "[''u-1'']" "[]"] demo_execute_all [of "[''u-1'']" "[]"]
    by (simp add: demo_policy_def buildAction_def taintDuration_def)
  then show ?thesis by (simp add: w)
qed

text \<open>
  Whatever a round meets, it never asks to be repeated in less than fifteen seconds: it asks for
  no repetition exactly when the policy cannot be read or names an unknown action, and otherwise for the
  evaluation window if this is at least fifteen seconds, for a minute if it is shorter or no duration.
\<close>

lemma reconcile_requeue_bounded:
  "(RequeueAfter (fst (Reconcile op namespace name c)) = 0 \<or>
    minRequeue \<le> RequeueAfter (fst (Reconcile op namespace name c))) \<and>
   RequeueAfter (fst (Reconcile op namespace name c)) =
     (case GetPolicy (op_policies op) c namespace name of
        Inl _ \<Rightarrow> 0
      | Inr policy \<Rightarrow>
          if (\<exists>pods. Evaluate (op_eval op)
               (NewPrometheusEvaluator (PrometheusEndpoint (Spec policy)) (SpecMetricType (Spec policy)))
               namespace (TargetPodSelector (Spec policy)) (EvaluationWindow (Spec policy))
               (LatencyThreshold (Spec policy)) c = Inr pods) \<and> (\<exists>e. buildAction policy = Inl e)
          then 0
          else (case ParseDuration (Fraction (op_eval op)) (EvaluationWindow (Spec policy)) of
                  None \<Rightarrow> 60000000000
                | Some d \<Rightarrow> if 15000000000 \<le> d then d else 60000000000))"
  by (auto simp: Reconcile_def Let_def requeueFromSpec_def defaultRequeue_def minRequeue_def
      split: sum.splits kerror.splits option.splits prod.splits)

text \<open>
  C40: conditions are only ever set to True. Through any sequence of rounds of any policies, a condition
  that was once True stays True: a policy that was Degraded once remains Degraded, next to Available
  and Progressing, however many later rounds succeed.
\<close>

theorem conditions_never_reset:
  assumes "policy_store op"
    and "GetPolicy (op_policies op) c ns n = Inr p" and "cond_status (Conditions p) t = Some ''True''"
  shows "\<exists>p'. GetPolicy (op_policies op) (fold (\<lambda>(ns', n') c. snd (Reconcile op ns' n' c)) rounds c) ns n = Inr p' \<and>
    cond_status (Conditions p') t = Some ''True''"
  using assms(2,3)
proof (induction rounds arbitrary: c p)
  case (Cons r rounds)
  obtain ns' n' where r: "r = (ns', n')" by (cases r)
  from policy_store.reconcile_keeps [OF assms(1) Cons.prems, of ns' n'] Cons.IH show ?case
    by (auto simp: r)
qed simp

theorem conditions_never_reset_witness:
  "\<exists>p. GetPolicy (op_policies (world_operator [])) (fold (\<lambda>(ns, n) c. snd (Reconcile (world_operator []) ns n c))
       [(''prod'', ''io''), (''prod'', ''cpu''), (''prod'', ''io'')]
       (demo_world [\<lparr>CondType = ''Degraded'', CondStatus = ''True'', Reason = ''PartialFailure'', Message = '''',
         LastTransitionTime = 0, ObservedGeneration = 1\<rparr>])) ''prod'' ''io'' = Inr p \<and>
     cond_status (Conditions p) ''Degraded'' = Some ''True''"
  by (rule conditions_never_reset [OF world.policy_store_axioms demo_get_policy])
    (simp add: cond_status_def demo_policy_def)

end
