(* ===== verification/OperatorRounds.thy ===== *)
theory OperatorRounds
  imports Reconciler
begin

text \<open>
  The operator round after round: a policy with the action \<open>ScaleUp\<close> whose query keeps reporting a pod. The
  evaluator, the loop over the saturated pods, the resize and the fallback together: the pod is evicted
  after a bounded number of rounds, unless a round records a failure.
\<close>

section \<open>Rounds of one policy\<close>

definition rounds ::
  "('c, 'sel, 'l) operator \<Rightarrow> string \<Rightarrow> string \<Rightarrow> nat \<Rightarrow> 'c \<Rightarrow> 'c" where
  "rounds op namespace name k = (\<lambda>c. snd (Reconcile op namespace name c)) ^^ k"

text \<open>The pods a policy finds saturated.\<close>

definition saturated_pods ::
  "('c, 'sel, 'l) operator \<Rightarrow> string \<Rightarrow> 'sel IORemediationPolicySpec \<Rightarrow> 'c \<Rightarrow> string + string list" where
  "saturated_pods op namespace spec c =
     Evaluate (op_eval op) (NewPrometheusEvaluator (PrometheusEndpoint spec) (SpecMetricType spec))
       namespace (TargetPodSelector spec) (EvaluationWindow spec) (LatencyThreshold spec) c"

text \<open>The state in which the action on one of the pods of a round begins.\<close>

fun turn :: "('c, 'sel, 'l) operator \<Rightarrow> RemediationAction \<Rightarrow> string \<Rightarrow> string list \<Rightarrow> string \<Rightarrow> 'c \<Rightarrow> 'c" where
  "turn op act namespace [] p c = c"
| "turn op act namespace (pod # pods) p c =
     (if pod = p then c
      else turn op act namespace pods p (snd (Execute (op_client op) (op_quantity op) act pod namespace c)))"

text \<open>A round in which the action of the policy fails on one of the pods, and which ends by recording this.\<close>

definition round_failed :: "('c, 'sel, 'l) operator \<Rightarrow> string \<Rightarrow> string \<Rightarrow> 'c \<Rightarrow> bool" where
  "round_failed op namespace name c \<longleftrightarrow>
     (\<exists>q pods act es c' msg. GetPolicy (op_policies op) c namespace name = Inr q \<and>
        saturated_pods op namespace (Spec q) c = Inr pods \<and> buildAction q = Inr act \<and>
        execute_all op act namespace pods c = (es, c') \<and> (\<exists>e \<in> set es. e \<noteq> None) \<and>
        snd (Reconcile op namespace name c) =
          setCondition op namespace q ''Degraded'' ''True'' ''PartialFailure'' msg c')"

text \<open>The action depends on the specification alone.\<close>

lemma build_spec: "Spec q = Spec p \<Longrightarrow> buildAction q = buildAction p"
  by (simp add: buildAction_def taintDuration_def)

text \<open>
  What the operator relies on beyond the laws for policies and pods: an operation on one object leaves
  the pods, or the other pods, alone.
\<close>

locale operator_loop = policy_store op + kube_pods "op_client op" for op :: "('c, 'sel, 'l) operator" +
  assumes status_pods: "GetPod (op_client op) (snd (UpdateStatus (op_policies op) ns x c)) = GetPod (op_client op) c"
    and node_pods: "GetPod (op_client op) (snd (PatchNode (op_client op) a b c)) = GetPod (op_client op) c"
    and resize_other: "n \<noteq> PodName new \<Longrightarrow>
      GetPod (op_client op) (snd (ResizePod (op_client op) old new c)) ns n = GetPod (op_client op) c ns n"
    and evict_other: "n \<noteq> PodName pod1 \<Longrightarrow>
      GetPod (op_client op) (snd (EvictPod (op_client op) pod1 c)) ns n = GetPod (op_client op) c ns n"
begin

abbreviation pod_at :: "'c \<Rightarrow> string \<Rightarrow> string \<Rightarrow> kerror + Pod" where
  "pod_at \<equiv> GetPod (op_client op)"

abbreviation scale_up :: "int \<Rightarrow> string \<Rightarrow> EvictAndTaintAction \<Rightarrow> RemediationAction" where
  "scale_up percent maxl a \<equiv> ScaleUp percent maxl (Some (EvictAndTaint a))"

abbreviation execute :: "RemediationAction \<Rightarrow> string \<Rightarrow> string \<Rightarrow> 'c \<Rightarrow> string option \<times> 'c" where
  "execute \<equiv> Execute (op_client op) (op_quantity op)"

section \<open>One action\<close>

lemma other_pairs:
  "PatchNode (op_client op) x y c = (e, c') \<Longrightarrow> pod_at c' = pod_at c"
  "ResizePod (op_client op) old new c = (e, c') \<Longrightarrow> n \<noteq> PodName new \<Longrightarrow> pod_at c' ns n = pod_at c ns n"
  "EvictPod (op_client op) pod1 c = (e, c') \<Longrightarrow> n \<noteq> PodName pod1 \<Longrightarrow> pod_at c' ns n = pod_at c ns n"
  using node_pods resize_other evict_other by (metis snd_conv)+

lemma evict_leaves_others:
  assumes "evict_execute (op_client op) a q ns c = (e, c')" and "n \<noteq> q"
  shows "pod_at c' ns n = pod_at c ns n"
proof (cases "pod_at c ns q")
  case (Inr pod)
  with get_pod_id have "PodName pod = q" by blast
  with assms Inr show ?thesis
    unfolding evict_execute_def Let_def
    by (auto split: sum.splits option.splits prod.splits if_splits dest!: other_pairs)
qed (use assms in \<open>simp add: evict_execute_def\<close>)

lemma scale_leaves_others:
  assumes "execute (scale_up percent maxl a) q ns c = (e, c')" and "n \<noteq> q"
  shows "pod_at c' ns n = pod_at c ns n"
proof (cases "pod_at c ns q")
  case (Inr pod)
  with get_pod_id have name: "PodName pod = q" by blast
  show ?thesis
  proof (cases "op_quantity op maxl")
    case (Inr maxm)
    note eq = scale_execute_eq [where parse = "op_quantity op" and maxLimit = maxl, OF \<open>pod_at c ns q = Inr pod\<close> Inr]
    show ?thesis
    proof (cases "\<exists>ct \<in> set (Containers pod). has_headroom maxm ct")
      case True
      let ?new = "pod\<lparr>Containers := map (scaled maxm percent) (Containers pod)\<rparr>"
      obtain e1 c1 where r: "ResizePod (op_client op) pod ?new c = (e1, c1)" by fastforce
      with assms(1) eq True have "c' = c1" by simp
      with other_pairs(2) [OF r, of n ns] name assms(2) show ?thesis by simp
    next
      case False
      with assms(1) eq have "evict_execute (op_client op) a q ns c = (e, c')" by simp
      with assms(2) evict_leaves_others show ?thesis by blast
    qed
  qed (use assms Inr in \<open>simp add: scale_execute_def\<close>)
qed (use assms in \<open>simp add: scale_execute_def\<close>)

text \<open>The action on the pod itself: it is resized, evicted, or the action fails.\<close>

lemma scale_resizes:
  assumes "execute (scale_up percent maxl a) q ns c = (None, c')" and "op_quantity op maxl = Inr maxm"
    and "pod_at c ns q = Inr pod"
    and "execute (scale_up percent maxl a) q ns c \<noteq> evict_execute (op_client op) a q ns c"
  shows "pod_at c' ns q = Inr (pod\<lparr>Containers := map (scaled maxm percent) (Containers pod)\<rparr>)"
proof -
  let ?new = "pod\<lparr>Containers := map (scaled maxm percent) (Containers pod)\<rparr>"
  note eq = scale_execute_eq [where parse = "op_quantity op" and maxLimit = maxl, OF assms(3,2)]
  from assms(4) eq have head: "\<exists>ct \<in> set (Containers pod). has_headroom maxm ct" by (auto split: if_splits)
  obtain e1 c1 where r: "ResizePod (op_client op) pod ?new c = (e1, c1)" by fastforce
  with assms(1) eq head have "e1 = None" "c' = c1" by simp_all
  with resize_pod [of pod ?new c c1] r get_pod_id [OF assms(3)] assms(3) show ?thesis by simp
qed

section \<open>One round\<close>

lemma round_acts:
  assumes "execute_all op (scale_up percent maxl a) ns pods c = (es, c')" and "distinct pods" and "p \<in> set pods"
  shows "\<exists>e c2. execute (scale_up percent maxl a) p ns (turn op (scale_up percent maxl a) ns pods p c) = (e, c2) \<and>
    pod_at (turn op (scale_up percent maxl a) ns pods p c) ns p = pod_at c ns p \<and>
    e \<in> set es \<and> pod_at c' ns p = pod_at c2 ns p"
  using assms
proof (induction pods arbitrary: c es)
  case (Cons q pods)
  let ?act = "scale_up percent maxl a"
  obtain e1 c1 where one: "execute ?act q ns c = (e1, c1)" by fastforce
  obtain es1 where rest: "execute_all op ?act ns pods c1 = (es1, c')" and es: "es = e1 # es1"
    using Cons.prems(1) one by (auto split: prod.splits)
  show ?case
  proof (cases "q = p")
    case True
    have "pod_at c' ns p = pod_at c1 ns p" if "execute_all op ?act ns qs c1 = (es1, c')" "p \<notin> set qs" for qs c1 es1
      using that
    proof (induction qs arbitrary: c1 es1)
      case (Cons r qs)
      obtain e2 c2 where r: "execute ?act r ns c1 = (e2, c2)" by fastforce
      then obtain es2 where "execute_all op ?act ns qs c2 = (es2, c')" using Cons.prems(1) by (auto split: prod.splits)
      with Cons.IH Cons.prems(2) scale_leaves_others [OF r, of p] show ?case by simp
    qed simp
    with rest Cons.prems(2) True one es show ?thesis by simp
  next
    case False
    with Cons.IH [OF rest] Cons.prems(2,3) scale_leaves_others [OF one, of p] one es show ?thesis by auto
  qed
qed simp

lemma condition_keeps:
  assumes "policy c ns n = Inr p"
  shows "\<exists>p'. policy (setCondition op ns p ct st reason msg c) ns n = Inr p' \<and> Spec p' = Spec p"
proof -
  let ?p = "p\<lparr>Conditions := SetStatusCondition (op_policies op) (Conditions p)
    \<lparr>CondType = ct, CondStatus = st, Reason = reason, Message = msg,
     LastTransitionTime = Now (op_client op) c, ObservedGeneration = Generation p\<rparr>\<rparr>"
  obtain e c' where u: "UpdateStatus (op_policies op) ns ?p c = (e, c')" by fastforce
  then have c': "setCondition op ns p ct st reason msg c = c'" by (simp add: setCondition_def)
  show ?thesis
  proof (cases e)
    case None
    with u update_status [of ns ?p c c' p] assms get_name [OF assms] show ?thesis by (simp add: c')
  next
    case (Some err)
    with u update_error [of ns ?p c err c'] assms show ?thesis by (simp add: c')
  qed
qed

lemma condition_pods: "pod_at (setCondition op ns p ct st reason msg c) = pod_at c"
  by (simp add: setCondition_def status_pods)

lemma round_step:
  assumes q: "policy c ns name = Inr q" and build: "buildAction q = Inr (scale_up percent maxl a)"
    and sat: "saturated_pods op ns (Spec q) c = Inr pods" "distinct pods" "p \<in> set pods"
  defines "c1 \<equiv> turn op (scale_up percent maxl a) ns pods p c"
  shows "\<exists>q'. policy (snd (Reconcile op ns name c)) ns name = Inr q' \<and> Spec q' = Spec q"
    and "pod_at c1 ns p = pod_at c ns p"
    and "round_failed op ns name c \<or> (\<exists>c2. execute (scale_up percent maxl a) p ns c1 = (None, c2) \<and>
      pod_at (snd (Reconcile op ns name c)) ns p = pod_at c2 ns p)"
proof -
  let ?act = "scale_up percent maxl a"
  obtain es c' where all: "execute_all op ?act ns pods c = (es, c')" by fastforce
  have ne: "pods \<noteq> []" using sat(3) by auto
  from reconcile_outcomes [OF q sat(1) [unfolded saturated_pods_def] build all ne] obtain msg where
    rec: "snd (Reconcile op ns name c) = (if \<forall>e \<in> set es. e = None
       then setCondition op ns q ''Progressing'' ''True'' ''Remediating'' msg c'
       else setCondition op ns q ''Degraded'' ''True'' ''PartialFailure'' msg c')" by blast
  obtain e c2 where act: "execute ?act p ns c1 = (e, c2)" "pod_at c1 ns p = pod_at c ns p" "e \<in> set es"
    "pod_at c' ns p = pod_at c2 ns p"
    using round_acts [OF all sat(2,3)] unfolding c1_def by blast
  show "pod_at c1 ns p = pod_at c ns p" by (rule act(2))
  have "policy c' ns name = Inr q" using execute_all_keeps [OF all] q by simp
  with rec condition_keeps show "\<exists>q'. policy (snd (Reconcile op ns name c)) ns name = Inr q' \<and> Spec q' = Spec q"
    by presburger
  show "round_failed op ns name c \<or> (\<exists>c2. execute ?act p ns c1 = (None, c2) \<and>
      pod_at (snd (Reconcile op ns name c)) ns p = pod_at c2 ns p)"
  proof (cases "\<forall>e \<in> set es. e = None")
    case True
    then have "e = None" using act(3) by blast
    with act True rec show ?thesis by (auto simp: condition_pods)
  next
    case False
    then have "round_failed op ns name c" using rec q sat(1) build all unfolding round_failed_def by auto
    then show ?thesis ..
  qed
qed

section \<open>Round after round\<close>

definition scales :: "string \<Rightarrow> string \<Rightarrow> 'c \<Rightarrow> 'sel IORemediationPolicy \<Rightarrow> string \<Rightarrow> Pod \<Rightarrow> millis \<Rightarrow> int \<Rightarrow> nat \<Rightarrow> bool" where
  "scales ns name c pol p pod maxm percent k \<longleftrightarrow>
     (\<exists>q. policy (rounds op ns name k c) ns name = Inr q \<and> Spec q = Spec pol) \<and>
     pod_at (rounds op ns name k c) ns p =
       Inr (pod\<lparr>Containers := map (scaled maxm percent ^^ k) (Containers pod)\<rparr>)"

lemma rounds_scale:
  assumes build: "buildAction pol = Inr (scale_up percent maxl a)" and parse: "op_quantity op maxl = Inr maxm"
    and here: "scales ns name c pol p pod maxm percent k"
    and sat: "saturated_pods op ns (Spec pol) (rounds op ns name k c) = Inr pods" "distinct pods" "p \<in> set pods"
  defines "ck \<equiv> rounds op ns name k c"
  defines "c1 \<equiv> turn op (scale_up percent maxl a) ns pods p ck"
  shows "round_failed op ns name ck \<or> scales ns name c pol p pod maxm percent (Suc k) \<or>
    (\<exists>c2. execute (scale_up percent maxl a) p ns c1 = (None, c2) \<and> evict_execute (op_client op) a p ns c1 = (None, c2))"
    and "\<exists>pod'. pod_at c1 ns p = Inr pod' \<and> Containers pod' = map (scaled maxm percent ^^ k) (Containers pod)"
proof -
  let ?act = "scale_up percent maxl a" and ?pod = "pod\<lparr>Containers := map (scaled maxm percent ^^ k) (Containers pod)\<rparr>"
  obtain q where q: "policy ck ns name = Inr q" "Spec q = Spec pol" and pod: "pod_at ck ns p = Inr ?pod"
    using here by (auto simp: scales_def ck_def)
  have sat': "saturated_pods op ns (Spec q) ck = Inr pods" using sat(1) by (simp add: q(2) ck_def)
  have "buildAction q = Inr ?act" using build build_spec [OF q(2)] by simp
  note step = round_step [OF q(1) this sat' sat(2,3), folded c1_def]
  have pod1: "pod_at c1 ns p = Inr ?pod" using step(2) pod by simp
  then show "\<exists>pod'. pod_at c1 ns p = Inr pod' \<and> Containers pod' = map (scaled maxm percent ^^ k) (Containers pod)"
    by simp
  have suc: "rounds op ns name (Suc k) c = snd (Reconcile op ns name ck)" by (simp add: rounds_def ck_def)
  show "round_failed op ns name ck \<or> scales ns name c pol p pod maxm percent (Suc k) \<or>
    (\<exists>c2. execute ?act p ns c1 = (None, c2) \<and> evict_execute (op_client op) a p ns c1 = (None, c2))"
    using step(3)
  proof
    assume "\<exists>c2. execute ?act p ns c1 = (None, c2) \<and> pod_at (snd (Reconcile op ns name ck)) ns p = pod_at c2 ns p"
    then obtain c2 where c2: "execute ?act p ns c1 = (None, c2)"
      "pod_at (snd (Reconcile op ns name ck)) ns p = pod_at c2 ns p" by blast
    show ?thesis
    proof (cases "execute ?act p ns c1 = evict_execute (op_client op) a p ns c1")
      case False
      have "pod_at c2 ns p = Inr (pod\<lparr>Containers := map (scaled maxm percent ^^ Suc k) (Containers pod)\<rparr>)"
        using scale_resizes [OF c2(1) parse pod1 False] unfolding scaled_once [symmetric] by simp
      moreover obtain q' where "policy (snd (Reconcile op ns name ck)) ns name = Inr q'" "Spec q' = Spec pol"
        using step(1) q(2) by auto
      ultimately show ?thesis using c2(2) by (simp add: scales_def suc)
    qed (use c2(1) in auto)
  qed blast
qed

lemma top_evicts:
  assumes parse: "op_quantity op maxl = Inr maxm" and pod: "pod_at c ns p = Inr pod'"
    and top: "Containers pod' = map (scaled maxm percent ^^ n) cts"
    and range: "\<forall>ct \<in> set cts. in_range maxm percent ct" and n: "maxm \<le> 10 * int n"
  shows "execute (scale_up percent maxl a) p ns c = evict_execute (op_client op) a p ns c"
proof -
  have "\<not> (\<exists>ct \<in> set (Containers pod'). has_headroom maxm ct)"
    using rounds_exhaust [OF _ n] range by (auto simp: top)
  then show ?thesis
    using scale_execute_eq [where parse = "op_quantity op" and maxLimit = maxl, OF pod parse, of percent] by simp
qed

lemma ends_evicted:
  assumes start: "policy c ns name = Inr pol" "pod_at c ns p = Inr pod"
    and build: "buildAction pol = Inr (scale_up percent maxl a)" and parse: "op_quantity op maxl = Inr maxm"
    and range: "\<forall>ct \<in> set (Containers pod). in_range maxm percent ct" and n: "maxm \<le> 10 * int n"
    and sat: "\<forall>k \<le> n. saturated_pods op ns (Spec pol) (rounds op ns name k c) = Inr (pods k) \<and>
      distinct (pods k) \<and> p \<in> set (pods k)"
  shows "\<exists>k \<le> n. round_failed op ns name (rounds op ns name k c) \<or>
    (\<exists>c2. execute (scale_up percent maxl a) p ns
        (turn op (scale_up percent maxl a) ns (pods k) p (rounds op ns name k c)) = (None, c2) \<and>
      evict_execute (op_client op) a p ns
        (turn op (scale_up percent maxl a) ns (pods k) p (rounds op ns name k c)) = (None, c2))"
proof (rule ccontr)
  assume not: "\<not> ?thesis"
  have scales: "k \<le> n \<Longrightarrow> scales ns name c pol p pod maxm percent k" for k
  proof (induction k)
    case 0
    have "map (scaled maxm percent ^^ 0) (Containers pod) = Containers pod" by simp
    then show ?case using start by (simp add: scales_def rounds_def)
  next
    case (Suc k)
    then have k: "k \<le> n" and here: "scales ns name c pol p pod maxm percent k" by simp_all
    from rounds_scale(1) [OF build parse here] sat k not show ?case by blast
  qed
  from rounds_scale(2) [OF build parse scales [OF order_refl]] sat have
    top: "\<exists>pod'. pod_at (turn op (scale_up percent maxl a) ns (pods n) p (rounds op ns name n c)) ns p = Inr pod' \<and>
      Containers pod' = map (scaled maxm percent ^^ n) (Containers pod)" by blast+
  let ?c1 = "turn op (scale_up percent maxl a) ns (pods n) p (rounds op ns name n c)"
  from top top_evicts [OF parse _ _ range n] have
    evict: "execute (scale_up percent maxl a) p ns ?c1 = evict_execute (op_client op) a p ns ?c1" by blast
  obtain q where q: "policy (rounds op ns name n c) ns name = Inr q" "Spec q = Spec pol"
    using scales [OF order_refl] by (auto simp: scales_def)
  have "buildAction q = Inr (scale_up percent maxl a)" using build build_spec [OF q(2)] by simp
  from round_step(3) [OF q(1) this] sat q(2) not evict show False by (metis order_refl)
qed

end

text \<open>The cluster with policies; for the example an evaluator that reports the pod in every round.\<close>

interpretation world_loop: operator_loop "world_operator uids"
  by unfold_locales (auto simp: world_operator_def cluster_client_def fun_eq_iff split: option.splits dest: find_in)

definition steady_operator :: "(world, unit, unit) operator" where
  "steady_operator = (world_operator [''u-1''])\<lparr>op_eval :=
     (op_eval (world_operator [''u-1'']))\<lparr>ListPods := (\<lambda>_ _ _. Inr [small_pod])\<rparr>\<rparr>"

lemma steady_loop: "operator_loop steady_operator"
proof -
  have same: "op_client steady_operator = op_client (world_operator [''u-1''])"
    "op_policies steady_operator = op_policies (world_operator [''u-1''])"
    by (simp_all add: steady_operator_def)
  show ?thesis
    using world_loop.operator_loop_axioms [of "[''u-1'']"]
    unfolding operator_loop_def operator_loop_axioms_def policy_store_def same .
qed

section \<open>Property\<close>

text \<open>
  C38: no saturated pod is scaled for ever. Take a policy whose action is to scale up, with the numbers of
  the pod's containers within \<open>int64\<close>, and let every round report the pod, among others. Then within as many
  rounds as tens of millicores fit in the maximum, plus one, some round either records a failed
  action in the status of the policy, or its action on the pod is the fallback, and the pod's node has
  been tainted and the pod evicted.
\<close>

theorem reported_pod_is_evicted:
  assumes "operator_loop op" and "GetPolicy (op_policies op) c ns name = Inr policy"
    and "GetPod (op_client op) c ns p = Inr pod"
    and "act = ScaleUp percent maxl (Some (EvictAndTaint a))" and "buildAction policy = Inr act"
    and "op_quantity op maxl = Inr maxm"
    and "\<forall>ct \<in> set (Containers pod). in_range maxm percent ct" and "maxm \<le> 10 * int n"
    and "\<forall>k \<le> n. saturated_pods op ns (Spec policy) (rounds op ns name k c) = Inr (pods k) \<and>
      distinct (pods k) \<and> p \<in> set (pods k)"
  shows "\<exists>k \<le> n. let c0 = rounds op ns name k c; c1 = turn op act ns (pods k) p c0 in
    round_failed op ns name c0 \<or>
    (\<exists>c2. Execute (op_client op) (op_quantity op) act p ns c1 = (None, c2) \<and>
       evict_execute (op_client op) a p ns c1 = (None, c2))"
  unfolding Let_def assms(4)
  by (rule operator_loop.ends_evicted [OF assms(1-3) assms(5) [unfolded assms(4)] assms(6-9)])

definition scaling_policy :: "unit IORemediationPolicy" where
  "scaling_policy = (demo_policy [])\<lparr>Spec := (Spec (demo_policy []))\<lparr>Action := ''ScaleUp''\<rparr>\<rparr>"

definition scaling_world :: world where
  "scaling_world = (demo_world [])\<lparr>c_pods := [small_pod],
     w_policies := (\<lambda>ns n. if ns = ''prod'' \<and> n = ''io'' then Some scaling_policy else None)\<rparr>"

lemma steady_saturated: "saturated_pods steady_operator ''prod'' (Spec scaling_policy) w = Inr [''db-0'']"
proof -
  have "''u-1'' \<in> saturated_uids [[''pod_uid'' \<mapsto> ''u-1'']]" by (simp add: saturated_uids_iff reported_def)
  then show ?thesis
    by (auto simp: saturated_pods_def Evaluate_def steady_operator_def world_operator_def scaling_policy_def
        demo_policy_def NewPrometheusEvaluator_def demo_threshold eval_query_def small_pod_def)
qed

theorem reported_pod_is_evicted_witness:
  "\<exists>k \<le> 200. let c0 = rounds steady_operator ''prod'' ''io'' k scaling_world;
       act = ScaleUp 20 ''2000m'' (Some (EvictAndTaint (NewEvictAndTaintAction None)));
       c1 = turn steady_operator act ''prod'' [''db-0''] ''db-0'' c0 in
    round_failed steady_operator ''prod'' ''io'' c0 \<or>
    (\<exists>c2. Execute (op_client steady_operator) (op_quantity steady_operator) act ''db-0'' ''prod'' c1 = (None, c2) \<and>
       evict_execute (op_client steady_operator) (NewEvictAndTaintAction None) ''db-0'' ''prod'' c1 = (None, c2))"
proof -
  let ?act = "ScaleUp 20 ''2000m'' (Some (EvictAndTaint (NewEvictAndTaintAction None)))"
  have policy: "GetPolicy (op_policies steady_operator) scaling_world ''prod'' ''io'' = Inr scaling_policy"
    and pod: "GetPod (op_client steady_operator) scaling_world ''prod'' ''db-0'' = Inr small_pod"
    and max: "op_quantity steady_operator ''2000m'' = Inr 2000"
    by (simp_all add: steady_operator_def world_operator_def scaling_world_def scaling_policy_def demo_policy_def
        cluster_client_def small_pod_def)
  have build: "buildAction scaling_policy = Inr ?act"
    by (simp add: buildAction_def scaling_policy_def demo_policy_def taintDuration_def)
  have range: "\<forall>ct \<in> set (Containers small_pod). in_range 2000 20 ct"
    by (simp add: small_pod_def in_range_def baseline_def demo_container_def)
  show ?thesis
    using reported_pod_is_evicted [OF steady_loop policy pod HOL.refl build max range, of 200 "\<lambda>_. [''db-0'']"]
    by (simp add: steady_saturated Let_def)
qed

end
