(* ===== verification/MigrateRounds.thy ===== *)
theory MigrateRounds
  imports MigrateRetry OperatorRounds
begin

text \<open>
  Rounds of a policy that migrates storage, over a pod whose deployment can only be migrated half-way. The
  reconciler calls \<open>Execute\<close> in every round; every round fails, records the failure and leaves a claim.
\<close>

section \<open>Rounds at given times\<close>

definition rounds_at ::
  "('c, 'sel, 'l) operator \<Rightarrow> (int \<Rightarrow> 'c \<Rightarrow> 'c) \<Rightarrow> string \<Rightarrow> string \<Rightarrow> int list \<Rightarrow> 'c \<Rightarrow> 'c" where
  "rounds_at op at namespace name ts = fold (\<lambda>t c. snd (Reconcile op namespace name (at t c))) ts"

lemma rounds_at_simps:
  "rounds_at op at ns name [] c = c"
  "rounds_at op at ns name (t # ts) c = rounds_at op at ns name ts (snd (Reconcile op ns name (at t c)))"
  by (simp_all add: rounds_at_def)

text \<open>The laws for policies and for repeated attempts; the status of a policy is no part of the objects read.\<close>

locale migrate_loop = policy_store op + kube_retry "op_client op" at
  for op :: "('c, 'sel, 'l) operator" and at :: "int \<Rightarrow> 'c \<Rightarrow> 'c" +
  assumes at_policies: "GetPolicy (op_policies op) (at t c) = GetPolicy (op_policies op) c"
    and status_reads: "\<And>ns x c. reads_same c (snd (UpdateStatus (op_policies op) ns x c))"
    and status_claims: "GetPVC (op_client op) (snd (UpdateStatus (op_policies op) ns x c)) = GetPVC (op_client op) c"
    and status_spec: "GetPolicy (op_policies op) c ns n = Inr p \<Longrightarrow>
      \<exists>p'. GetPolicy (op_policies op) (snd (UpdateStatus (op_policies op) ns (p\<lparr>Conditions := cs\<rparr>) c)) ns n = Inr p' \<and>
        Spec p' = Spec p"
begin

abbreviation half :: "string \<Rightarrow> string \<Rightarrow> string \<Rightarrow> 'c \<Rightarrow> pvcRef \<Rightarrow> PVC \<Rightarrow> bool" where
  "half \<equiv> half_done (op_client op)"

abbreviation claim :: "'c \<Rightarrow> string \<Rightarrow> string \<Rightarrow> kerror + PVC" where
  "claim \<equiv> GetPVC (op_client op)"

lemma migrate_round:
  assumes q: "policy c ns name = Inr q" and build: "buildAction q = Inr (MigrateStorage target)"
    and sat: "saturated_pods op ns (Spec q) c = Inr [p]" and half: "half target p ns c ref pvc"
    and free: "\<And>x. claim c ns (newPVCName (oldName ref) (Now (op_client op) c) 0) \<noteq> Inr x"
  defines "new \<equiv> newPVCName (oldName ref) (Now (op_client op) c) 0" and "c' \<equiv> snd (Reconcile op ns name c)"
  shows "round_failed op ns name c" and "reads_same c c'"
    and "\<exists>q'. policy c' ns name = Inr q' \<and> Spec q' = Spec q"
    and "claim c ns n = Inr x \<Longrightarrow> claim c' ns n = Inr x"
    and "claim c' ns new = Inr (newPVC target ns new (oldName ref) pvc)"
    and "(\<forall>old i. n \<noteq> newPVCName old (Now (op_client op) c) i) \<Longrightarrow> claim c' ns n = claim c ns n"
proof -
  obtain e c1 where run: "migrate_execute (op_client op) target p ns c = (e, c1)" by fastforce
  note one = attempt [OF half free run]
  have all: "execute_all op (MigrateStorage target) ns [p] c = ([e], c1)" by (simp add: run)
  from reconcile_outcomes [OF q sat [unfolded saturated_pods_def] build all] one(1)
  obtain msg where c': "c' = setCondition op ns q ''Degraded'' ''True'' ''PartialFailure'' msg c1"
    by (auto simp: c'_def)
  have "\<exists>e' \<in> set [e]. e' \<noteq> None" using one(1) by simp
  with c' q sat build all show "round_failed op ns name c" unfolding round_failed_def c'_def by blast
  have "reads_same c1 c'" unfolding c' setCondition_def by (rule status_reads)
  with one(2) show "reads_same c c'" by (rule reads_same_trans)
  have "policy c1 ns name = Inr q" using migrate_keeps [OF run] q by simp
  then show "\<exists>q'. policy c' ns name = Inr q' \<and> Spec q' = Spec q" unfolding c' setCondition_def by (rule status_spec)
  have claims: "claim c' = claim c1" by (simp add: c' setCondition_def status_claims)
  show "claim c ns n = Inr x \<Longrightarrow> claim c' ns n = Inr x" unfolding claims by (rule one(3))
  show "claim c' ns new = Inr (newPVC target ns new (oldName ref) pvc)" unfolding claims new_def by (rule one(4))
  show "(\<forall>old i. n \<noteq> newPVCName old (Now (op_client op) c) i) \<Longrightarrow> claim c' ns n = claim c ns n"
    unfolding claims by (rule one(5))
qed

text \<open>Every round fails and leaves a claim of its own.\<close>

lemma migrate_rounds:
  assumes "policy c ns name = Inr q" and "buildAction q = Inr (MigrateStorage target)"
    and "half target p ns c ref pvc" and "distinct ts"
    and "\<And>t x. t \<in> set ts \<Longrightarrow> claim c ns (newPVCName (oldName ref) t 0) \<noteq> Inr x"
    and "\<And>k. k < length ts \<Longrightarrow>
      saturated_pods op ns (Spec q) (at (ts ! k) (rounds_at op at ns name (take k ts) c)) = Inr [p]"
  shows "(\<forall>k < length ts. round_failed op ns name (at (ts ! k) (rounds_at op at ns name (take k ts) c))) \<and>
    GetDeployment (op_client op) (rounds_at op at ns name ts c) = GetDeployment (op_client op) c \<and>
    (\<forall>n x. claim c ns n = Inr x \<longrightarrow> claim (rounds_at op at ns name ts c) ns n = Inr x) \<and>
    (\<forall>t \<in> set ts. claim (rounds_at op at ns name ts c) ns (newPVCName (oldName ref) t 0) =
       Inr (newPVC target ns (newPVCName (oldName ref) t 0) (oldName ref) pvc))"
  using assms
proof (induction ts arbitrary: c q)
  case (Cons t ts)
  let ?c = "at t c" and ?c1 = "snd (Reconcile op ns name (at t c))"
  let ?name = "\<lambda>t. newPVCName (oldName ref) t 0"
  have q: "policy ?c ns name = Inr q" using Cons.prems(1) by (simp add: at_policies)
  have sat: "saturated_pods op ns (Spec q) ?c = Inr [p]" using Cons.prems(6) [of 0] by (simp add: rounds_at_simps)
  have half: "half target p ns ?c ref pvc"
    by (rule half_done_keeps [OF Cons.prems(3) reads_same_at]) (simp add: at_reads)
  have free: "claim ?c ns (?name (Now (op_client op) ?c)) \<noteq> Inr x" for x
    using Cons.prems(5) [of t] by (simp add: at_reads)
  note one = migrate_round [OF q Cons.prems(2) sat half free]
  obtain q' where q': "policy ?c1 ns name = Inr q'" "Spec q' = Spec q" using one(3) by blast
  have build: "buildAction q' = Inr (MigrateStorage target)" using Cons.prems(2) build_spec [OF q'(2)] by simp
  have half1: "half target p ns ?c1 ref pvc" by (rule half_done_keeps [OF half one(2,4)])
  have free1: "claim ?c1 ns (?name s) \<noteq> Inr x" if "s \<in> set ts" for s x
  proof -
    have "s \<noteq> t" using that Cons.prems(4) by auto
    then have "\<forall>old i. ?name s \<noteq> newPVCName old (Now (op_client op) ?c) i" using newPVCName_inj by (metis at_now)
    from one(6) [OF this] Cons.prems(5) [of s] that show ?thesis by (simp add: at_reads)
  qed
  have sat1: "saturated_pods op ns (Spec q') (at (ts ! k) (rounds_at op at ns name (take k ts) ?c1)) = Inr [p]"
    if "k < length ts" for k
    using Cons.prems(6) [of "Suc k"] that by (simp add: rounds_at_simps q'(2))
  have dist: "distinct ts" using Cons.prems(4) by simp
  note ih = Cons.IH [OF q'(1) build half1 dist free1 sat1]
  have "round_failed op ns name (at ((t # ts) ! k) (rounds_at op at ns name (take k (t # ts)) c))"
    if "k < length (t # ts)" for k
    using one(1) ih that by (cases k) (simp_all add: rounds_at_simps)
  moreover have "claim ?c1 ns (?name t) = Inr (newPVC target ns (?name t) (oldName ref) pvc)"
    using one(5) by (simp add: at_reads)
  moreover have "GetDeployment (op_client op) ?c1 = GetDeployment (op_client op) c"
    using one(2) by (simp add: reads_same_def at_reads)
  moreover have "claim c ns n = Inr x \<Longrightarrow> claim ?c1 ns n = Inr x" for n x using one(4) by (simp add: at_reads)
  ultimately show ?case using ih by (simp add: rounds_at_simps)
qed (simp add: rounds_at_simps)

end

text \<open>The cluster with policies, its clock moved by the environment.\<close>

lemma world_client: "op_client (world_operator uids) = cluster_client"
  by (simp add: world_operator_def)

interpretation world_migrate: migrate_loop "world_operator uids" "\<lambda>t (c :: world). c\<lparr>c_time := t\<rparr>"
proof -
  have retry: "kube_retry (op_client (world_operator uids)) (\<lambda>t (c :: world). c\<lparr>c_time := t\<rparr>)"
    unfolding world_client by (rule cluster_retry.kube_retry_axioms)
  show "migrate_loop (world_operator uids) (\<lambda>t (c :: world). c\<lparr>c_time := t\<rparr>)"
  proof (rule migrate_loop.intro [OF world.policy_store_axioms retry migrate_loop_axioms.intro])
    show "kube_retry.reads_same (op_client (world_operator uids)) c
        (snd (UpdateStatus (op_policies (world_operator uids)) ns x c))" for ns x c
      unfolding kube_retry.reads_same_def [OF retry]
      by (auto simp: world_operator_def cluster_client_def fun_eq_iff split: option.splits)
  qed (auto simp: world_operator_def cluster_client_def fun_eq_iff split: option.splits)
qed

definition storage_operator :: "(world, unit, unit) operator" where
  "storage_operator = (world_operator [''u-1''])\<lparr>op_eval :=
     (op_eval (world_operator [''u-1'']))\<lparr>ListPods := (\<lambda>_ _ _. Inr [storage_pod])\<rparr>\<rparr>"

lemma storage_loop: "migrate_loop storage_operator (\<lambda>t c. c\<lparr>c_time := t\<rparr>)"
proof -
  have same: "op_client storage_operator = op_client (world_operator [''u-1''])"
    "op_policies storage_operator = op_policies (world_operator [''u-1''])"
    by (simp_all add: storage_operator_def)
  show ?thesis
    using world_migrate.migrate_loop_axioms [of "[''u-1'']"]
    unfolding migrate_loop_def migrate_loop_axioms_def policy_store_def same .
qed

section \<open>Property\<close>

text \<open>
  C39: a migration that is blocked is repeated for ever, and every round costs a claim. Take a policy whose action is to
  migrate storage, and a pod whose deployment has a first claim that may be migrated and another that is in use
  for writing. In rounds at different times that all find this pod saturated, every round records a failure and
  leaves the deployments as they were, and every one leaves behind a new claim of its own on the target
  class: after \<open>k\<close> rounds there are \<open>k\<close> of them.
\<close>

theorem migrate_rounds_pile_up_claims:
  assumes "migrate_loop op at" and "GetPolicy (op_policies op) c ns name = Inr policy"
    and "buildAction policy = Inr (MigrateStorage target)" and "half_done (op_client op) target p ns c ref pvc"
    and "distinct ts" and "\<forall>t \<in> set ts. \<forall>x. GetPVC (op_client op) c ns (newPVCName (oldName ref) t 0) \<noteq> Inr x"
    and "\<forall>k < length ts.
      saturated_pods op ns (Spec policy) (at (ts ! k) (rounds_at op at ns name (take k ts) c)) = Inr [p]"
  shows "let c' = rounds_at op at ns name ts c in
    (\<forall>k < length ts. round_failed op ns name (at (ts ! k) (rounds_at op at ns name (take k ts) c))) \<and>
    GetDeployment (op_client op) c' = GetDeployment (op_client op) c \<and>
    (\<forall>t \<in> set ts. GetPVC (op_client op) c' ns (newPVCName (oldName ref) t 0) =
       Inr (newPVC target ns (newPVCName (oldName ref) t 0) (oldName ref) pvc)) \<and>
    card ((\<lambda>t. newPVCName (oldName ref) t 0) ` set ts) = length ts"
proof -
  have "card ((\<lambda>t. newPVCName (oldName ref) t 0) ` set ts) = length ts" by (rule card_new_names [OF assms(5)])
  with migrate_loop.migrate_rounds [OF assms(1-5)] assms(6,7) show ?thesis unfolding Let_def by blast
qed

definition storage_policy :: "unit IORemediationPolicy" where
  "storage_policy = (demo_policy [])\<lparr>Spec := (Spec (demo_policy []))\<lparr>Action := ''MigrateStorageClass'',
     MigrateStorageConfig := Some \<lparr>TargetStorageClass = ''nvme''\<rparr>\<rparr>\<rparr>"

definition storage_world :: world where
  "storage_world = cluster.extend mixed_cluster
     \<lparr>w_policies = (\<lambda>ns n. if ns = ''prod'' \<and> n = ''io'' then Some storage_policy else None)\<rparr>"

lemma extend_reads:
  "GetPod cluster_client (cluster.extend c w) = GetPod cluster_client c"
  "GetReplicaSet cluster_client (cluster.extend c w) = GetReplicaSet cluster_client c"
  "GetStorageClass cluster_client (cluster.extend c w) = GetStorageClass cluster_client c"
  "GetDeployment cluster_client (cluster.extend c w) = GetDeployment cluster_client c"
  "GetPVC cluster_client (cluster.extend c w) = GetPVC cluster_client c"
  by (simp_all add: cluster_client_def cluster.defs)

lemma extend_half_done:
  "half_done cluster_client target p ns (cluster.extend c w) ref pvc = half_done cluster_client target p ns c ref pvc"
proof -
  have "findDeploymentOwner cluster_client (cluster.extend c w) pod = findDeploymentOwner cluster_client c pod" for pod
    unfolding findDeploymentOwner_def extend_reads ..
  then show ?thesis unfolding half_done_def extend_reads by presburger
qed

lemma storage_saturated: "saturated_pods storage_operator ''prod'' (Spec storage_policy) w = Inr [''db-0'']"
proof -
  have "''u-1'' \<in> saturated_uids [[''pod_uid'' \<mapsto> ''u-1'']]" by (simp add: saturated_uids_iff reported_def)
  then show ?thesis
    by (auto simp: saturated_pods_def Evaluate_def storage_operator_def world_operator_def storage_policy_def
        demo_policy_def NewPrometheusEvaluator_def demo_threshold eval_query_def storage_pod_def)
qed

theorem migrate_rounds_pile_up_claims_witness:
  "let at = (\<lambda>t c. c\<lparr>c_time := t\<rparr>); c' = rounds_at storage_operator at ''prod'' ''io'' [17, 18] storage_world in
    (\<forall>k < 2. round_failed storage_operator ''prod'' ''io''
      (at ([17, 18] ! k) (rounds_at storage_operator at ''prod'' ''io'' (take k [17, 18]) storage_world))) \<and>
    (\<forall>t \<in> {17, 18}. \<exists>x. GetPVC cluster_client c' ''prod'' (newPVCName ''data-pvc'' t 0) = Inr x)"
proof -
  let ?ref = "\<lparr>volIndex = 0, volName = ''data'', oldName = ''data-pvc''\<rparr>"
  have client: "op_client storage_operator = cluster_client" by (simp add: storage_operator_def world_client)
  have policy: "GetPolicy (op_policies storage_operator) storage_world ''prod'' ''io'' = Inr storage_policy"
    by (simp add: storage_operator_def world_operator_def storage_world_def storage_policy_def demo_policy_def cluster.defs)
  have build: "buildAction storage_policy = Inr (MigrateStorage ''nvme'')"
    by (simp add: buildAction_def storage_policy_def demo_policy_def)
  have half: "half_done (op_client storage_operator) ''nvme'' ''db-0'' ''prod'' storage_world ?ref storage_pvc"
    unfolding client storage_world_def extend_half_done by (rule mixed_half_done)
  have free: "GetPVC (op_client storage_operator) storage_world ''prod'' (newPVCName (oldName ?ref) t 0) \<noteq> Inr x" for t x
    unfolding client storage_world_def extend_reads
    by (auto simp: cluster_client_def mixed_cluster_def storage_pvc_def newPVCName_def)
  show ?thesis
    using migrate_rounds_pile_up_claims [OF storage_loop policy build half, of "[17, 18]"] free
    unfolding Let_def numeral_2_eq_2 by (auto simp: storage_saturated client)
qed

end
