(* ===== verification/LostUpdate.thy ===== *)
theory LostUpdate
  imports EvictTaint ScaleUp
begin

text \<open>
  The actions of the operator while another writer works on the same object. An action reads an object,
  computes a list of it anew and sends \<open>client.MergeFrom\<close> of what it read. Such a patch replaces a list as a
  whole and is not tied to the version that was read, so what another writer did to the list in between is
  overwritten.
\<close>

section \<open>Another writer between the read and the write\<close>

text \<open>The client as an action sees it when \<open>other\<close> happens just before its writes.\<close>

definition amid :: "('c \<Rightarrow> 'c) \<Rightarrow> 'c kclient \<Rightarrow> 'c kclient" where
  "amid other kc =
     kc\<lparr>PatchNode := (\<lambda>old new c. PatchNode kc old new (other c)),
        ResizePod := (\<lambda>old new c. ResizePod kc old new (other c))\<rparr>"

lemma amid_simps [simp]:
  "GetPod (amid other kc) = GetPod kc" "GetNode (amid other kc) = GetNode kc" "Now (amid other kc) = Now kc"
  "EvictPod (amid other kc) = EvictPod kc"
  "PatchNode (amid other kc) old new c = PatchNode kc old new (other c)"
  "ResizePod (amid other kc) pod pod' c = ResizePod kc pod pod' (other c)"
  by (simp_all add: amid_def)

text \<open>
  A merge patch of one part of an object: nothing is sent for a part that is as it was read; otherwise
  the part of the object that is now stored is replaced, whatever it has become.
\<close>

locale merge_patch =
  fixes get :: "'c \<Rightarrow> 'k \<Rightarrow> kerror + 'obj" and patch :: "'obj \<Rightarrow> 'obj \<Rightarrow> 'c \<Rightarrow> kerror option \<times> 'c"
    and key :: "'obj \<Rightarrow> 'k" and part :: "'obj \<Rightarrow> 'f" and put :: "'f \<Rightarrow> 'obj \<Rightarrow> 'obj" and stored :: "'f \<Rightarrow> 'f"
  assumes part_put: "part (put x obj) = x"
    and patch_merges: "patch old (put x old) c = (None, c') \<Longrightarrow> get c (key old) = Inr cur \<Longrightarrow>
      get c' (key old) = Inr (if x = part old then cur else put (stored x) cur)"
begin

lemma patch_overwrites:
  assumes "patch old (put x old) c = (None, c')" and "x \<noteq> part old" and "get c (key old) = Inr cur"
  shows "\<exists>obj. get c' (key old) = Inr obj \<and> part obj = stored x"
  using patch_merges [OF assms(1,3)] assms(2) by (simp add: part_put)

lemma patch_undisturbed:
  assumes "patch old (put x old) c = (None, c')" and "get c (key old) = Inr old" and "x \<noteq> part old"
  shows "get c' (key old) = Inr (put (stored x) old)"
  using patch_merges [OF assms(1,2)] assms(3) by simp

end

locale shared_nodes =
  merge_patch "GetNode kc" "PatchNode kc" NodeId Taints "\<lambda>ts node. node\<lparr>Taints := ts\<rparr>" "map stored_taint"
  for kc :: "'c kclient" +
  assumes read_id: "GetNode kc c n = Inr node \<Longrightarrow> NodeId node = n"
    and read_stored: "GetNode kc c n = Inr node \<Longrightarrow> stored_node node = node"
    and evict_reads: "GetNode kc (snd (EvictPod kc pod c)) n = GetNode kc c n"
begin

lemma evict_overwrites:
  assumes "GetPod kc c namespace podName = Inr pod" and "GetNode kc c (NodeName pod) = Inr node"
    and "\<not> equalTaints (Taints node) (taints_after (ea_TaintKey a) (ea_TaintDuration a) (Now kc c) (Taints node))"
    and "GetNode kc (other c) (NodeName pod) = Inr cur"
    and "evict_execute (amid other kc) a podName namespace c = (None, c')"
  shows "\<exists>node'. GetNode kc c' (NodeName pod) = Inr node' \<and>
    Taints node' = map stored_taint (taints_after (ea_TaintKey a) (ea_TaintDuration a) (Now kc c) (Taints node))"
proof -
  let ?ts = "taints_after (ea_TaintKey a) (ea_TaintDuration a) (Now kc c) (Taints node)"
  have id: "NodeId node = NodeName pod" by (rule read_id [OF assms(2)])
  obtain c1 where patch: "PatchNode kc node (node\<lparr>Taints := ?ts\<rparr>) (other c) = (None, c1)"
    and ev: "EvictPod kc pod c1 = (None, c')"
    using assms(5) by (auto simp: evict_execute_def assms(1-3) Let_def split: if_splits option.splits prod.splits)
  have "?ts \<noteq> Taints node" using assms(3) equalTaints_refl by metis
  from patch_overwrites [OF patch this] assms(4) show ?thesis
    using evict_reads [of pod c1 "NodeName pod"] by (simp add: id ev)
qed

end

locale shared_pods =
  merge_patch "\<lambda>c (ns, n). GetPod kc c ns n" "ResizePod kc" "\<lambda>p. (PodNamespace p, PodName p)" Containers
    "\<lambda>cts p. p\<lparr>Containers := cts\<rparr>" id
  for kc :: "'c kclient" +
  assumes pod_id: "GetPod kc c ns n = Inr p \<Longrightarrow> PodName p = n \<and> PodNamespace p = ns"
begin

lemma scale_overwrites:
  assumes "GetPod kc c namespace podName = Inr pod" and "parse maxLimit = Inr maxm"
    and "map (scaled maxm percent) (Containers pod) \<noteq> Containers pod"
    and "GetPod kc (other c) namespace podName = Inr cur"
    and "scale_execute (amid other kc) parse percent maxLimit fallback podName namespace c = (None, c')"
  shows "\<exists>pod'. GetPod kc c' namespace podName = Inr pod' \<and>
    Containers pod' = map (scaled maxm percent) (Containers pod)"
proof -
  let ?cts = "map (scaled maxm percent) (Containers pod)"
  have id: "PodName pod = podName" "PodNamespace pod = namespace" using pod_id [OF assms(1)] by simp_all
  have "\<exists>ct \<in> set (Containers pod). has_headroom maxm ct"
  proof (rule ccontr)
    assume "\<not> ?thesis"
    then have "ct \<in> set (Containers pod) \<Longrightarrow> scaled maxm percent ct = ct" for ct
      by (auto simp: scaled_cases has_headroom_def split: option.splits)
    then have "?cts = Containers pod" by (simp add: map_idI)
    with assms(3) show False by simp
  qed
  with assms(1,2,5) have "ResizePod kc pod (pod\<lparr>Containers := ?cts\<rparr>) (other c) = (None, c')"
    by (auto simp: scale_execute_def scale_containers_eq Let_def split: option.splits prod.splits)
  from patch_overwrites [OF this assms(3)] assms(4) show ?thesis by (simp add: id)
qed

end

section \<open>A cluster with merge patches\<close>

definition merge_client :: "'z cluster_scheme kclient" where
  "merge_client = cluster_client
     \<lparr>PatchNode := (\<lambda>old new c.
        case GetNode cluster_client c (NodeId old) of
          Inl e \<Rightarrow> (Some e, c)
        | Inr cur \<Rightarrow>
            (None, if Taints new = Taints old then c
               else c\<lparr>c_nodes := cur\<lparr>Taints := Taints new\<rparr> # c_nodes c\<rparr>)),
      ResizePod := (\<lambda>old new c.
        case GetPod cluster_client c (PodNamespace old) (PodName old) of
          Inl e \<Rightarrow> (Some e, c)
        | Inr cur \<Rightarrow>
            (None, if Containers new = Containers old then c
               else c\<lparr>c_pods := cur\<lparr>Containers := Containers new\<rparr> # c_pods c\<rparr>))\<rparr>"

lemma merge_reads:
  "GetPod merge_client = GetPod cluster_client" "GetNode merge_client = GetNode cluster_client"
  "Now merge_client = Now cluster_client" "EvictPod merge_client = EvictPod cluster_client"
  by (simp_all add: merge_client_def)

lemma merge_accepts:
  "GetNode merge_client c (NodeId old) = Inr cur \<Longrightarrow> fst (PatchNode merge_client old new c) = None"
  by (simp add: merge_reads) (simp add: merge_client_def)

lemma merge_evicts: "EvictPod merge_client pod c = (None, c\<lparr>c_evicted := PodName pod # c_evicted c\<rparr>)"
  by (simp add: merge_client_def cluster_client_def)

interpretation merge_nodes: shared_nodes "merge_client :: 'z cluster_scheme kclient"
proof unfold_locales
  fix old x and c c' :: "'z cluster_scheme" and cur
  assume patch: "PatchNode merge_client old (old\<lparr>Taints := x\<rparr>) c = (None, c')"
    and "GetNode merge_client c (NodeId old) = Inr cur"
  then have read: "GetNode cluster_client c (NodeId old) = Inr cur" by (simp add: merge_reads)
  note id = cluster_nodes.get_node_id [OF read]
  have c': "c' = (if x = Taints old then c else c\<lparr>c_nodes := cur\<lparr>Taints := x\<rparr> # c_nodes c\<rparr>)"
    using patch read by (auto simp: merge_client_def split: if_splits)
  show "GetNode merge_client c' (NodeId old) =
      Inr (if x = Taints old then cur else cur\<lparr>Taints := map stored_taint x\<rparr>)"
    unfolding merge_reads c' using read id by (simp add: cluster_client_def stored_node_def)
next
  fix c :: "'z cluster_scheme" and n node
  assume read: "GetNode merge_client c n = Inr node"
  from read show "NodeId node = n" unfolding merge_reads by (rule cluster_nodes.get_node_id)
  from read show "stored_node node = node" unfolding merge_reads by (rule cluster_nodes.get_node_stored)
qed (simp_all add: merge_reads cluster_nodes.evict_nodes)

interpretation merge_pods: shared_pods "merge_client :: 'z cluster_scheme kclient"
proof unfold_locales
  fix old x and c c' :: "'z cluster_scheme" and cur
  assume patch: "ResizePod merge_client old (old\<lparr>Containers := x\<rparr>) c = (None, c')"
    and "(case (PodNamespace old, PodName old) of (ns, n) \<Rightarrow> GetPod merge_client c ns n) = Inr cur"
  then have read: "GetPod cluster_client c (PodNamespace old) (PodName old) = Inr cur" by (simp add: merge_reads)
  note id = cluster_pods.get_pod_id [OF read]
  have c': "c' = (if x = Containers old then c else c\<lparr>c_pods := cur\<lparr>Containers := x\<rparr> # c_pods c\<rparr>)"
    using patch read by (auto simp: merge_client_def split: if_splits)
  show "(case (PodNamespace old, PodName old) of (ns, n) \<Rightarrow> GetPod merge_client c' ns n) =
      Inr (if x = Containers old then cur else cur\<lparr>Containers := id x\<rparr>)"
    unfolding merge_reads c' using read id by (simp add: cluster_client_def)
next
  show "GetPod merge_client c ns n = Inr p \<Longrightarrow> PodName p = n \<and> PodNamespace p = ns" for c :: "'z cluster_scheme" and ns n p
    unfolding merge_reads by (rule cluster_pods.get_pod_id)
qed simp

lemma merge_evicted:
  assumes "GetPod merge_client c ns n = Inr pod" and "GetNode merge_client c (NodeName pod) = Inr node"
    and "NodeName pod \<noteq> ''''" and "GetNode merge_client (other c) (NodeName pod) = Inr cur"
  shows "fst (evict_execute (amid other merge_client) a n ns c) = None"
proof -
  let ?new = "node\<lparr>Taints := taints_after (ea_TaintKey a) (ea_TaintDuration a) (Now merge_client c) (Taints node)\<rparr>"
  obtain e c1 where patch: "PatchNode merge_client node ?new (other c) = (e, c1)" by fastforce
  have "NodeId node = NodeName pod" by (rule merge_nodes.read_id [OF assms(2)])
  with merge_accepts [of "other c" node cur ?new] assms(4) patch have "e = None" by simp
  with patch assms(1-3) show ?thesis by (simp add: evict_execute_def merge_evicts Let_def)
qed

section \<open>Properties\<close>

text \<open>
  C32: the taints of a node are read, changed and written without a check that they are still the ones
  read. When the action writes at all and succeeds, the taints with other keys that the node ends up with are exactly
  those it had when it was read: a taint another writer has added in between is gone, and one
  that was removed in between is back.
\<close>

theorem concurrent_taint_is_undone:
  assumes "shared_nodes kc"
    and "GetPod kc c namespace podName = Inr pod" and "GetNode kc c (NodeName pod) = Inr node"
    and "\<not> equalTaints (Taints node) (taints_after (ea_TaintKey a) (ea_TaintDuration a) (Now kc c) (Taints node))"
    and "GetNode kc (other c) (NodeName pod) = Inr cur"
    and "evict_execute (amid other kc) a podName namespace c = (None, c')"
  shows "\<exists>node'. GetNode kc c' (NodeName pod) = Inr node' \<and>
    filter (\<lambda>t. TKey t \<noteq> ea_TaintKey a) (Taints node') = filter (\<lambda>t. TKey t \<noteq> ea_TaintKey a) (Taints node) \<and>
    (\<forall>t \<in> set (Taints cur) - set (Taints node). TKey t \<noteq> ea_TaintKey a \<longrightarrow> t \<notin> set (Taints node')) \<and>
    (\<forall>t \<in> set (Taints node) - set (Taints cur). TKey t \<noteq> ea_TaintKey a \<longrightarrow> t \<in> set (Taints node'))"
proof -
  let ?ts = "taints_after (ea_TaintKey a) (ea_TaintDuration a) (Now kc c) (Taints node)"
  let ?other = "\<lambda>t. TKey t \<noteq> ea_TaintKey a"
  obtain node' where node': "GetNode kc c' (NodeName pod) = Inr node'" "Taints node' = map stored_taint ?ts"
    using shared_nodes.evict_overwrites [OF assms] by blast
  have stored: "map stored_taint (Taints node) = Taints node"
    using shared_nodes.read_stored [OF assms(1,3)] by (metis stored_node_simps(2))
  have "filter ?other (Taints node') = map stored_taint (filter ?other (Taints node))"
    by (simp add: node'(2) filter_map comp_def taints_after_others)
  also have "\<dots> = filter ?other (map stored_taint (Taints node))" by (simp add: filter_map comp_def)
  finally have same: "filter ?other (Taints node') = filter ?other (Taints node)" unfolding stored .
  have "t \<in> set (Taints node') \<longleftrightarrow> t \<in> set (Taints node)" if "?other t" for t
    using that arg_cong [OF same, of set] by auto
  with node'(1) same show ?thesis by auto
qed

definition taint_writer :: "Taint \<Rightarrow> cluster \<Rightarrow> cluster" where
  "taint_writer t c = c\<lparr>c_nodes := map (\<lambda>n. n\<lparr>Taints := Taints n @ [t]\<rparr>) (c_nodes c)\<rparr>"

theorem concurrent_taint_is_undone_witness:
  "\<exists>node'. GetNode merge_client
      (snd (evict_execute (amid (taint_writer (demo_taint ''disk-pressure'' 3)) merge_client)
         (NewEvictAndTaintAction None) ''db-0'' ''prod'' (demo_cluster [demo_taint ''gpu'' 1]))) ''node-1'' = Inr node' \<and>
    demo_taint ''disk-pressure'' 3 \<notin> set (Taints node')"
proof -
  let ?c = "demo_cluster [demo_taint ''gpu'' 1]" and ?other = "taint_writer (demo_taint ''disk-pressure'' 3)"
  let ?run = "evict_execute (amid ?other merge_client) (NewEvictAndTaintAction None) ''db-0'' ''prod'' ?c"
  have get: "GetPod merge_client ?c ''prod'' ''db-0'' = Inr demo_pod"
    "GetNode merge_client ?c (NodeName demo_pod) = Inr \<lparr>NodeId = ''node-1'', Taints = [demo_taint ''gpu'' 1]\<rparr>"
    by (simp_all add: merge_reads demo_get)
  have cur: "GetNode merge_client (?other ?c) (NodeName demo_pod) =
      Inr \<lparr>NodeId = ''node-1'', Taints = [demo_taint ''gpu'' 1, demo_taint ''disk-pressure'' 3]\<rparr>"
    by (simp add: merge_reads taint_writer_def cluster_client_def demo_cluster_def demo_pod_def stored_node_def)
  have "fst ?run = None" by (rule merge_evicted [where other = ?other, OF get _ cur]) (simp add: demo_pod_def)
  then have run: "?run = (None, snd ?run)" by (cases ?run) simp
  have "\<not> equalTaints [demo_taint ''gpu'' 1]
      (taints_after (ea_TaintKey (NewEvictAndTaintAction None)) None (Now merge_client ?c) [demo_taint ''gpu'' 1])"
    by (simp add: taints_after_def demo_taint_def NewEvictAndTaintAction_def DefaultTaintKey_def new_taint_def)
  with concurrent_taint_is_undone [where other = ?other, OF merge_nodes.shared_nodes_axioms get _ cur run] show ?thesis
    by (auto simp: demo_pod_def NewEvictAndTaintAction_def demo_taint_def DefaultTaintKey_def)
qed

end
