(* ===== verification/Spec2Isabelle.thy ===== *)
theory Spec2Isabelle
  imports Tracepoints LiveRun CounterLedger SchedAmid Console MigrateRounds LostUpdate
begin

text \<open>
  Verification of a system that measures I/O and run-queue latency per Kubernetes pod with eBPF and
  remediates saturated pods with an operator.

  The program has three parts. Two eBPF programs (\<open>ebpf/latency\<close>, C) run in the kernel at tracepoints
  and accumulate statistics per cgroup in hash maps. A collector (\<open>collector\<close>, Go) reads these maps every
  five seconds, finds out which pod a cgroup belongs to, and exports counters per pod to Prometheus. An
  operator (\<open>operator\<close>, Go) evaluates policies by a query over these counters and, for the pods above
  the threshold, evicts them, moves their storage to another class or raises their CPU limit.

  Shared by all theories: \<open>Prelude\<close> (integers, alignment, strings, rule collections).

  The kernel side, from the types up:

  \<^item> \<open>CLayout\<close>: C types and their layout on x86-64: sizes, alignment, bit-fields, unions, members by
    name; a general proof that members of a struct are disjoint, aligned and inside.
  \<^item> \<open>KTask\<close>, \<open>KBlock\<close>, \<open>KCgroup\<close>: \<open>ebpf/vmlinux.h\<close>, the structs the programs read and all they embed;
    \<open>KBlockNear\<close>, \<open>KCgroupNear\<close>, \<open>KTaskNear\<close>: the types these point to; \<open>KSched\<close>, \<open>KBlockFar\<close>, \<open>KTaskFar\<close>: the run
    queues a task waits in, and what the queues of a request and the memory and signals of a task point
    to; \<open>KBpf\<close>: the types, numbers and flags of the BPF interface. Each C declaration is one definition, member for member, with a lemma that
    computes its size and alignment.
  \<^item> \<open>CoreRead\<close>: \<open>BPF_CORE_READ\<close>. Kernel memory and the offsets of the running kernel are parameters.
  \<^item> \<open>BpfMap\<close>: hash maps. The helpers are parameters with the laws of the locale \<open>bpf_hash\<close>, which includes
    the behaviour of a full map; a bounded association list interprets it.
  \<^item> \<open>BlockLatency\<close>: \<open>block_latency.c\<close>, whole. State: the requests in flight (\<open>start_map\<close>) and the statistics
    (\<open>stats_by_cgroup\<close>). Operations: \<open>block_rq_issue\<close>, \<open>block_rq_complete\<close>.
  \<^item> \<open>BlockSpec\<close>: the promise of these programs, as samples taken, and the refinement of it by any run;
    closed forms, one sample per request, absence of wrap-around; and, without an assumption on the size of the
    maps, the specification of full maps (\<open>full_step\<close>), by which overflow only loses.
  \<^item> \<open>Interleave\<close>: programs cut into pieces that run on several CPUs over a shared state, the pieces in any
    order. The locale \<open>ending_program\<close> gives what both programs share: runs end, and end with all CPUs done.
  \<^item> \<open>BlockInterleave\<close>: completions on several CPUs. \<open>block_rq_complete\<close> is cut at its helper calls and
    atomic additions. A CPU alone computes the program;
    interleavings are exact when the entries exist; with entries missing and tables full they still end with exactly the
    completed requests gone and the entries that were there exact, while at an entry being created a sample can get lost.
  \<^item> \<open>RunqLatency\<close>, \<open>RunqSpec\<close>: \<open>runq_latency.c\<close>, whole, and the same for it: which tasks wait, which waits are
    accounted, that a wait is that of its own task whatever tasks with its pid do, bounds.
  \<^item> \<open>RunqCpu\<close>, \<open>RunqInterleave\<close>: the scheduler programs on several CPUs. Programs about different tasks may
    be interleaved in any way: the result is that of the whole programs one after the other, as long as the entries of
    the cgroups exist; two first waits of a cgroup can be counted as one.
  \<^item> \<open>KernelAccess\<close>: kernel memory typed by \<open>vmlinux.h\<close>: the programs read whole declared members of objects of
    the right struct and nothing else; the path from a task to its cgroup id in offsets.
  \<^item> \<open>Tracepoints\<close>: the types of the tracepoints against the parameters of the five programs, and the context
    the kernel hands over: every parameter is the argument meant for it.

  The collector:

  \<^item> \<open>CgroupPath\<close>: \<open>cgroup_classifier.go\<close>, \<open>kube_path_parser.go\<close>. Soundness, completeness and round trip of the
    parser, agreement of classifier and parser.
  \<^item> \<open>CgroupResolver\<close>: \<open>cgroup_resolver.go\<close>. The walk of the file system and \<open>name_to_handle_at\<close> are parameters.
    The table is total and inverts the ids on either byte order.
  \<^item> \<open>Collector\<close>: \<open>readStats\<close> of \<open>main.go\<close>, over the locale \<open>pinned_map\<close>: which rows a pass returns, what it
    deletes, what an error leaves behind.
  \<^item> \<open>PromMetrics\<close>: \<open>prom_metrics.go\<close>. A \<open>float64\<close> that holds a non-negative integer is that integer, rounded
    to 53 bits. The vectors of the client library are parameters (\<open>counter_vec\<close>, \<open>gauge_vec\<close>). Counters follow
    the totals of a pod as long as these do not shrink and stay below \<open>2^53\<close>, whatever order Go's maps have.
  \<^item> \<open>CollectorLoop\<close>: one tick of \<open>startCollectorLoop\<close>, what it publishes and how it recovers from an unknown
    cgroup; and the way of a statistic from the tracepoints to a row.
  \<^item> \<open>Console\<close>: what \<open>main\<close> opens, and the table of \<open>printStats\<close>, character for character: below \<open>2^53\<close> the digits shown
    are the nearest to the quantity, and every line names its cgroup.
  \<^item> \<open>MapBytes\<close>: keys and values as bytes in memory, from the C structs to the Go structs.
  \<^item> \<open>CollectorRun\<close>: kernel programs and collector together, in rounds: the counters that are scraped are the
    completions and waits that have happened, pod by pod.
  \<^item> \<open>CounterLedger\<close>: the counters after any ticks at all, with cgroups coming and going, resolvers built anew and
    failing iterations: the total of the pod plus what every shrinking of it has left behind.
  \<^item> \<open>MidwayRead\<close>: an entry read while completions are half-way through their additions. \<open>PassAmid\<close>: a whole pass
    over the block map with such completions on any number of CPUs. \<open>SchedAmid\<close>: a pass over both maps with all five
    programs under way; every row lies between the entries at the beginning and those with everything under way.
  \<^item> \<open>LivePass\<close>, \<open>LiveRun\<close>: kernel and collector again, with kernel events before every entry a pass reads. An
    entry is what it was at some moment of the pass; a counter lies between the histories at its two ends.

  The operator:

  \<^item> \<open>Kube\<close>: the fields of the API objects the code uses and the client as a record of operations; the locales
    \<open>kube_nodes\<close>, \<open>kube_pods\<close> and \<open>kube_storage\<close> say what the actions rely on, a cluster as lists of objects satisfies them.
    Except in \<open>LostUpdate\<close> no other writer interferes between the calls of one action; the server keeps whole seconds of times.
  \<^item> \<open>EvictTaint\<close>, \<open>ScaleUp\<close>, \<open>MigrateStorage\<close>: the three files of \<open>pkg/action\<close>, every branch. \<open>int64\<close> arithmetic
    wraps. What each leaves of the node, the limits, the claims; when scaling ends in the fallback.
  \<^item> \<open>MigrateRetry\<close>: a migration that fails half-done, repeated; every repetition leaves another claim.
  \<^item> \<open>LostUpdate\<close>: a client that merges patches, and another writer between the read and the write of an action. The
    locale \<open>merge_patch\<close> holds for nodes and for pods; what the other writer did to the list is overwritten.
  \<^item> \<open>GoDuration\<close>: \<open>time.ParseDuration\<close> of the standard library with its overflow checks; only the nanoseconds of
    a fraction, computed in floating point, are a parameter.
  \<^item> \<open>Evaluator\<close>: \<open>prometheus_io_evaluator.go\<close>. Prometheus and the listing of pods are parameters. The query is
    written in the names \<open>PromMetrics\<close> registers.
  \<^item> \<open>Reconciler\<close>: the policy type and the controller. The locale \<open>policy_store\<close> states what it relies on, a
    cluster with policies interprets it. Which pods a round remediates, when it comes again, what becomes of
    the conditions.
  \<^item> \<open>OperatorRounds\<close>, \<open>MigrateRounds\<close>: the rounds of a policy that scales up, from the query to the eviction;
    the rounds of one that migrates storage, where a blocked migration costs a claim every time.

  Bounds: there is no fuel. Loops are structural recursion or folds over what they range over; the parser of
  durations and the interleavings have a termination proof. \<open>max_entries\<close> are those of the sources. The key
  of the block map is the address of the request, a 64-bit word; clocks are 64-bit words, and where a result
  needs a monotone clock it says so.

  Not modelled. Of \<open>vmlinux.h\<close>: the declarations outside the theories of kernel types above, which are those of
  subsystems no program reaches. Of the collector: the HTTP server, the ticker and the signals of \<open>main\<close>. Of the
  operator: \<open>cmd/main.go\<close> (flags and start of the manager), generated deep copies, registration with the
  scheme and the manager. Logging is left out everywhere. Manifests, dashboards, scripts and tests contain no
  code of the program.

  Left as they are. The runs of the collector beside a kernel that never pauses (\<open>LiveRun\<close>) take the programs as
  whole events; a single pass takes them in pieces (\<open>SchedAmid\<close>). Two operators on one object are covered
  as an operator and another writer (\<open>LostUpdate\<close>), for the lists of nodes and pods. The bodies of the helpers, of the
  client libraries and of the API server stay parameters: their code is not in the repository.
\<close>

end
